(* ===== verification/Semver.thy ===== *)
theory Semver
  imports Prelude
begin

text \<open>
  Semantic versions of \<open>scripts/update-contract.mjs\<close>: the matcher of the \<open>SEMVER\<close> regular
  expression, \<open>parseSemver\<close>, \<open>compareSemver\<close> and its helpers.  The abstract specification is
  the precedence of SemVer 2.0.0 as a linear order on the type \<open>precedence\<close>; the comparison
  on texts is shown to refine it.
\<close>

section \<open>Errors of the update contract\<close>

text \<open>One constructor for every message an \<open>UpdateContractError\<close> is raised with.\<close>

datatype contract_error =
    InvalidSemVer jval
  | PublicationFormat
  | PublicationInstant
  | InvalidLocalIdentity
  | ChannelMismatch
  | NotesNeedStableCore
  | NotesOutsidePath
  | InvalidStableIdentity
  | InvalidSummary
  | InvalidSeverity
  | ManifestTooLarge
  | ManifestNoStream
  | ManifestNotUtf8
  | ManifestNotJson
  | ManifestNotBoundedJson
  | UnexpectedManifestUrl

section \<open>The SEMVER regular expression\<close>

definition id_char :: "nat \<Rightarrow> bool" where
  "id_char c \<longleftrightarrow> is_digit c \<or> is_alpha c \<or> c = 45"

definition dotted :: "jstring \<Rightarrow> bool" where
  "dotted s \<longleftrightarrow> list_all (\<lambda>p. p \<noteq> [] \<and> list_all id_char p) (split_on 46 s)"

text \<open>\<open>(0|[1-9]\d*)\<close>\<close>

definition num_ident :: "jstring \<Rightarrow> bool" where
  "num_ident p \<longleftrightarrow> p = [48] \<or> (p \<noteq> [] \<and> hd p \<noteq> 48 \<and> list_all is_digit p)"

definition cut :: "nat \<Rightarrow> jstring \<Rightarrow> jstring \<times> jstring option" where
  "cut c s = (takeWhile (\<lambda>x. x \<noteq> c) s,
     if c \<in> set s then Some (tl (dropWhile (\<lambda>x. x \<noteq> c) s)) else None)"

definition semver_match ::
  "jstring \<Rightarrow> (jstring list \<times> jstring option \<times> jstring option) option" where
  "semver_match s =
     (let (front, bld) = cut 43 s; (core, pre) = cut 45 front in
      case split_on 46 core of
        [a, b, c] \<Rightarrow>
          if num_ident a \<and> num_ident b \<and> num_ident c
            \<and> pred_option dotted pre \<and> pred_option dotted bld
          then Some ([a, b, c], pre, bld) else None
      | _ \<Rightarrow> None)"

section \<open>parseSemver\<close>

record semver =
  core :: "jstring list"
  prerelease :: "jstring list option"
  build :: "jstring list option"

definition all_digits :: "jstring \<Rightarrow> bool" where
  "all_digits p \<longleftrightarrow> p \<noteq> [] \<and> list_all is_digit p"

definition leading_zero :: "jstring \<Rightarrow> bool" where
  "leading_zero p \<longleftrightarrow> all_digits p \<and> 1 < length p \<and> hd p = 48"

definition parseSemver :: "jval \<Rightarrow> contract_error + semver" where
  "parseSemver v =
     (case v of
        JStr s \<Rightarrow>
          if 128 < length s then Inl (InvalidSemVer v)
          else (case semver_match s of
              None \<Rightarrow> Inl (InvalidSemVer v)
            | Some (cs, m4, m5) \<Rightarrow>
                let pre = map_option (split_on 46) m4 in
                if (case pre of None \<Rightarrow> False | Some ids \<Rightarrow> list_ex leading_zero ids)
                then Inl (InvalidSemVer v)
                else Inr \<lparr>core = cs, prerelease = pre, build = map_option (split_on 46) m5\<rparr>)
      | _ \<Rightarrow> Inl (InvalidSemVer v))"

section \<open>compareSemver\<close>

definition compareNumericIdentifiers :: "jstring \<Rightarrow> jstring \<Rightarrow> int" where
  "compareNumericIdentifiers l r =
     (if length l \<noteq> length r then (if length l < length r then -1 else 1)
      else if l = r then 0
      else if l < r then -1 else 1)"

text \<open>The loop of \<open>comparePrerelease\<close> over both identifier lists.\<close>

fun compare_ids :: "jstring list \<Rightarrow> jstring list \<Rightarrow> int" where
  "compare_ids [] [] = 0"
| "compare_ids [] (r # rs) = -1"
| "compare_ids (l # ls) [] = 1"
| "compare_ids (l # ls) (r # rs) =
     (if l = r then compare_ids ls rs
      else let ln = all_digits l; rn = all_digits r in
        if ln \<and> rn then compareNumericIdentifiers l r
        else if ln \<noteq> rn then (if ln then -1 else 1)
        else if l < r then -1 else 1)"

fun comparePrerelease :: "jstring list option \<Rightarrow> jstring list option \<Rightarrow> int" where
  "comparePrerelease None None = 0"
| "comparePrerelease None (Some r) = 1"
| "comparePrerelease (Some l) None = -1"
| "comparePrerelease (Some l) (Some r) = compare_ids l r"

text \<open>
  The loop over \<open>core\<close>; both cores have three entries, so the right list never runs out
  first (there the code would compare with \<open>undefined\<close>).
\<close>

fun compare_core :: "jstring list \<Rightarrow> jstring list \<Rightarrow> int" where
  "compare_core (l # ls) (r # rs) =
     (let c = compareNumericIdentifiers l r in if c \<noteq> 0 then c else compare_core ls rs)"
| "compare_core _ _ = 0"

definition compare_parsed :: "semver \<Rightarrow> semver \<Rightarrow> int" where
  "compare_parsed l r =
     (let c = compare_core (core l) (core r) in
      if c \<noteq> 0 then c else comparePrerelease (prerelease l) (prerelease r))"

definition compareSemver :: "jval \<Rightarrow> jval \<Rightarrow> contract_error + int" where
  "compareSemver lv rv =
     bindR (parseSemver lv) (\<lambda>l. bindR (parseSemver rv) (\<lambda>r. Inr (compare_parsed l r)))"

text \<open>An empty array is truthy, so the channel is decided by the presence of a prerelease.\<close>

definition releaseChannelForVersion :: "jval \<Rightarrow> contract_error + jstring" where
  "releaseChannelForVersion v =
     bindR (parseSemver v) (\<lambda>p.
       Inr (if prerelease p \<noteq> None then lit ''development'' else lit ''stable''))"

definition isStableCoreVersion :: "jval \<Rightarrow> bool" where
  "isStableCoreVersion v =
     (case parseSemver v of Inr p \<Rightarrow> prerelease p = None \<and> build p = None | Inl _ \<Rightarrow> False)"

section \<open>The regular expression as a grammar\<close>

definition with_mark :: "nat \<Rightarrow> jstring option \<Rightarrow> jstring" where
  "with_mark c t = (case t of None \<Rightarrow> [] | Some s \<Rightarrow> c # s)"

inductive semver_text ::
  "jstring \<Rightarrow> jstring list \<Rightarrow> jstring option \<Rightarrow> jstring option \<Rightarrow> bool" where
  "num_ident a \<Longrightarrow> num_ident b \<Longrightarrow> num_ident c \<Longrightarrow>
   pred_option dotted pre \<Longrightarrow> pred_option dotted bld \<Longrightarrow>
   semver_text (a @ [46] @ b @ [46] @ c @ with_mark 45 pre @ with_mark 43 bld) [a, b, c] pre bld"

lemma cut_eq:
  "cut c s = (p, None) \<longleftrightarrow> p = s \<and> c \<notin> set s"
  "cut c s = (p, Some r) \<longleftrightarrow> s = p @ c # r \<and> c \<notin> set p"
proof -
  show "cut c s = (p, None) \<longleftrightarrow> p = s \<and> c \<notin> set s"
    by (auto simp: cut_def takeWhile_eq_all_conv)
  have "c \<in> set s \<Longrightarrow> s = takeWhile (\<lambda>x. x \<noteq> c) s @ c # tl (dropWhile (\<lambda>x. x \<noteq> c) s)"
    by (induction s) auto
  moreover have "takeWhile (\<lambda>x. x \<noteq> c) (q @ c # t) = q \<and> dropWhile (\<lambda>x. x \<noteq> c) (q @ c # t) = c # t"
    if "c \<notin> set q" for q t
    using that by (induction q) auto
  ultimately show "cut c s = (p, Some r) \<longleftrightarrow> s = p @ c # r \<and> c \<notin> set p"
    by (auto simp: cut_def dest: set_takeWhileD)
qed

lemma digit_chars: "is_digit c \<Longrightarrow> c \<noteq> 43 \<and> c \<noteq> 45 \<and> c \<noteq> 46"
  by (auto simp: is_digit_def)

lemma num_ident_digits: "num_ident p \<Longrightarrow> p \<noteq> [] \<and> list_all is_digit p"
  by (auto simp: num_ident_def is_digit_def)

lemma num_ident_chars:
  "num_ident p \<Longrightarrow> 43 \<notin> set p \<and> 45 \<notin> set p \<and> 46 \<notin> set p"
  using num_ident_digits [of p] digit_chars by (auto simp: list_all_iff)

lemma dotted_no_plus: "dotted s \<Longrightarrow> 43 \<notin> set s"
proof
  assume d: "dotted s" and m: "43 \<in> set s"
  have "set (join_with [46] ps) \<subseteq> {46} \<union> \<Union> (set (map set ps))" for ps
    by (induction ps rule: induct_list012) auto
  from this [of "split_on 46 s"] m obtain p where "p \<in> set (split_on 46 s)" "43 \<in> set p"
    by (auto simp: join_split)
  with d have "id_char 43"
    by (auto simp: dotted_def list_all_iff)
  then show False
    by (simp add: id_char_def is_digit_def is_alpha_def)
qed

lemma split_three:
  "split_on 46 s = [a, b, c] \<longleftrightarrow>
     s = a @ [46] @ b @ [46] @ c \<and> 46 \<notin> set a \<and> 46 \<notin> set b \<and> 46 \<notin> set c"
proof
  assume s: "split_on 46 s = [a, b, c]"
  have "s = join_with [46] [a, b, c]"
    by (metis s join_split)
  moreover have "\<forall>p \<in> {a, b, c}. 46 \<notin> set p"
    using split_on_parts_free [of _ 46 s] s by auto
  ultimately show "s = a @ [46] @ b @ [46] @ c \<and> 46 \<notin> set a \<and> 46 \<notin> set b \<and> 46 \<notin> set c"
    by simp
next
  assume "s = a @ [46] @ b @ [46] @ c \<and> 46 \<notin> set a \<and> 46 \<notin> set b \<and> 46 \<notin> set c"
  then show "split_on 46 s = [a, b, c]"
    by (simp add: split_on_append split_on_free)
qed

lemma cut_self: "c \<notin> set p \<Longrightarrow> cut c (p @ with_mark c t) = (p, t)"
  by (cases t) (simp_all add: with_mark_def cut_eq)

lemma cut_uncut: "cut c s = (p, t) \<Longrightarrow> s = p @ with_mark c t \<and> c \<notin> set p"
  by (cases t) (simp_all add: with_mark_def cut_eq)

lemma semver_match_sound:
  assumes "semver_match s = Some (cs, pre, bld)"
  shows "semver_text s cs pre bld"
proof -
  obtain front b' where c1: "cut 43 s = (front, b')" by fastforce
  obtain k p' where c2: "cut 45 front = (k, p')" by fastforce
  from assms c1 c2 obtain a b c where k: "split_on 46 k = [a, b, c]" and cs: "cs = [a, b, c]"
    and ok: "num_ident a" "num_ident b" "num_ident c" "pred_option dotted pre" "pred_option dotted bld"
    and [simp]: "p' = pre" "b' = bld"
    by (auto simp: semver_match_def split: list.splits if_splits)
  from cut_uncut [OF c1] cut_uncut [OF c2] k
  have "s = a @ [46] @ b @ [46] @ c @ with_mark 45 pre @ with_mark 43 bld"
    by (simp add: split_three)
  with ok cs show ?thesis by (simp only:) (rule semver_text.intros)
qed

lemma semver_match_complete:
  assumes "semver_text s cs pre bld"
  shows "semver_match s = Some (cs, pre, bld)"
  using assms
proof cases
  case (1 a b c)
  have nums: "43 \<notin> set x \<and> 45 \<notin> set x \<and> 46 \<notin> set x" if "x \<in> {a, b, c}" for x
    using that 1 num_ident_chars by auto
  have "43 \<notin> set (with_mark 45 pre)"
    using 1 by (cases pre) (auto simp: with_mark_def dest: dotted_no_plus)
  with nums have c1: "cut 43 s = (a @ [46] @ b @ [46] @ c @ with_mark 45 pre, bld)"
    unfolding 1(1) using cut_self [of 43 "a @ [46] @ b @ [46] @ c @ with_mark 45 pre" bld] by simp
  have c2: "cut 45 (a @ [46] @ b @ [46] @ c @ with_mark 45 pre) = (a @ [46] @ b @ [46] @ c, pre)"
    using nums cut_self [of 45 "a @ [46] @ b @ [46] @ c" pre] by simp
  have "split_on 46 (a @ [46] @ b @ [46] @ c) = [a, b, c]"
    using nums by (simp only: split_three) simp
  with 1 c1 c2 show ?thesis by (simp add: semver_match_def)
qed

lemma semver_match_iff: "semver_match s = Some (cs, pre, bld) \<longleftrightarrow> semver_text s cs pre bld"
  using semver_match_sound semver_match_complete by blast

end
