(* ===== verification/StableSort.thy ===== *)
theory StableSort
  imports Main "HOL-Library.Multiset"
begin

text \<open>
  \<open>Array.prototype.sort\<close>: a stable sort by a comparator, which is given by when its sign is not
  positive.
\<close>

fun insert_by :: "('a \<Rightarrow> 'a \<Rightarrow> bool) \<Rightarrow> 'a \<Rightarrow> 'a list \<Rightarrow> 'a list" where
  "insert_by le x [] = [x]"
| "insert_by le x (y # ys) = (if le x y then x # y # ys else y # insert_by le x ys)"

definition sort_by :: "('a \<Rightarrow> 'a \<Rightarrow> bool) \<Rightarrow> 'a list \<Rightarrow> 'a list" where
  "sort_by le xs = foldr (insert_by le) xs []"

section \<open>Comparators\<close>

text \<open>The sign of a comparison, and \<open>a || b || c\<close> over comparisons.\<close>

definition three_way :: "'a::linorder \<Rightarrow> 'a \<Rightarrow> int" where
  "three_way x y = (if x < y then -1 else if x = y then 0 else 1)"

lemma three_way_simps [simp]:
  "three_way x x = 0"
  "three_way x y = 0 \<longleftrightarrow> x = y"
  "three_way x y = -1 \<longleftrightarrow> x < y"
  "three_way x y = 1 \<longleftrightarrow> y < x"
  by (auto simp: three_way_def)

lemma three_way_pos [simp]: "0 < three_way x y \<longleftrightarrow> y < x"
  by (auto simp: three_way_def)

lemma three_way_neg [simp]: "three_way x y \<le> 0 \<longleftrightarrow> x \<le> y"
  by (auto simp: three_way_def)

fun first_nonzero :: "int list \<Rightarrow> int" where
  "first_nonzero [] = 0"
| "first_nonzero (c # cs) = (if c \<noteq> 0 then c else first_nonzero cs)"

lemma first_nonzero_three_way:
  "first_nonzero (three_way a b # cs) \<le> 0 \<longleftrightarrow> a < b \<or> a = b \<and> first_nonzero cs \<le> 0"
  by (auto simp: three_way_def)

section \<open>Sorting by a comparator\<close>

text \<open>A comparator that refines the order of a key, as the comparators of the program do.\<close>

locale comparator =
  fixes le :: "'a \<Rightarrow> 'a \<Rightarrow> bool" and key :: "'a \<Rightarrow> 'k::linorder"
  assumes le_key: "le a b \<Longrightarrow> key a \<le> key b"
    and not_le_key: "\<not> le a b \<Longrightarrow> key b \<le> key a"
begin

lemma sorted_insert: "sorted (map key xs) \<Longrightarrow> sorted (map key (insert_by le x xs))"
proof (induction xs)
  case (Cons y ys)
  have set: "set (insert_by le x ys) = insert x (set ys)" by (induction ys) auto
  show ?case
  proof (cases "le x y")
    case True
    from le_key [OF this] Cons.prems show ?thesis using order_trans [of "key x" "key y"] by (simp add: True)
  next
    case False
    with Cons set not_le_key [OF False] show ?thesis by simp
  qed
qed simp

lemma sorted_sort: "sorted (map key (sort_by le xs))"
  unfolding sort_by_def by (induction xs) (auto intro: sorted_insert)

lemma sort_nth_mono: "i \<le> j \<Longrightarrow> j < length (sort_by le xs) \<Longrightarrow> key (sort_by le xs ! i) \<le> key (sort_by le xs ! j)"
  using sorted_nth_mono [OF sorted_sort [of xs], of i j] by simp

end

lemma mset_insert_by [simp]: "mset (insert_by le x xs) = add_mset x (mset xs)"
  by (induction xs) auto

lemma mset_sort_by [simp]: "mset (sort_by le xs) = mset xs"
  unfolding sort_by_def by (induction xs) auto

lemma length_sort_by [simp]: "length (sort_by le xs) = length xs"
  by (metis mset_sort_by size_mset)

lemma set_sort_by [simp]: "set (sort_by le xs) = set xs"
  by (metis mset_sort_by set_mset_mset)

text \<open>Two stable sorts by comparators that agree on the keys of a list without equal keys.\<close>

lemma sort_by_key_unique:
  fixes key :: "'a \<Rightarrow> 'k::linorder"
  assumes "mset xs = mset ys" and "distinct (map key xs)"
    and "sorted (map key (sort_by le xs))" and "sorted (map key (sort_by le ys))"
  shows "sort_by le xs = sort_by le ys"
proof -
  have "mset (sort_by le xs) = mset (sort_by le ys)" by (simp add: assms(1))
  moreover have "inj_on key (set (sort_by le xs))" using assms(2) by (simp add: distinct_map)
  ultimately have "sort_key key (sort_by le xs) = sort_by le ys"
    by (intro sort_key_inj_key_eq assms(4))
  then show ?thesis by (simp add: sort_key_id_if_sorted [OF assms(3)])
qed

end
