(* ===== verification/Precedence.thy ===== *)
theory Precedence
  imports Semver StableSort
begin

text \<open>
  The abstract contract of \<open>compareSemver\<close>: the precedence of SemVer 2.0.0.  A version is
  abstracted to its numeric core and its rank (a prerelease, ordered by its identifiers, or
  the final release above all prereleases); the order is the derived linear order.  Build
  metadata is forgotten.  \<open>compare_parsed\<close> computes exactly this order.
\<close>

section \<open>The abstract order\<close>

datatype ident = NumId nat | TextId jstring

instantiation ident :: linorder
begin

fun less_ident :: "ident \<Rightarrow> ident \<Rightarrow> bool" where
  "less_ident (NumId m) (NumId n) \<longleftrightarrow> m < n"
| "less_ident (NumId m) (TextId t) \<longleftrightarrow> True"
| "less_ident (TextId s) (NumId n) \<longleftrightarrow> False"
| "less_ident (TextId s) (TextId t) \<longleftrightarrow> s < t"

definition less_eq_ident :: "ident \<Rightarrow> ident \<Rightarrow> bool" where
  "less_eq_ident x y \<longleftrightarrow> x = y \<or> x < y"

instance
proof
  fix x y z :: ident
  show "x < y \<longleftrightarrow> x \<le> y \<and> \<not> y \<le> x"
    by (cases x; cases y) (auto simp: less_eq_ident_def)
  show "x \<le> x"
    by (simp add: less_eq_ident_def)
  show "x \<le> y \<Longrightarrow> y \<le> z \<Longrightarrow> x \<le> z"
    by (cases x; cases y; cases z) (auto simp: less_eq_ident_def)
  show "x \<le> y \<Longrightarrow> y \<le> x \<Longrightarrow> x = y"
    by (cases x; cases y) (auto simp: less_eq_ident_def)
  show "x \<le> y \<or> y \<le> x"
    by (cases x; cases y) (auto simp: less_eq_ident_def)
qed

end

datatype rank = Pre "ident list" | Final

instantiation rank :: linorder
begin

fun less_rank :: "rank \<Rightarrow> rank \<Rightarrow> bool" where
  "less_rank (Pre xs) (Pre ys) \<longleftrightarrow> xs < ys"
| "less_rank (Pre xs) Final \<longleftrightarrow> True"
| "less_rank Final _ \<longleftrightarrow> False"

definition less_eq_rank :: "rank \<Rightarrow> rank \<Rightarrow> bool" where
  "less_eq_rank x y \<longleftrightarrow> x = y \<or> x < y"

instance
proof
  fix x y z :: rank
  show "x < y \<longleftrightarrow> x \<le> y \<and> \<not> y \<le> x"
    by (cases x; cases y) (auto simp: less_eq_rank_def)
  show "x \<le> x"
    by (simp add: less_eq_rank_def)
  show "x \<le> y \<Longrightarrow> y \<le> z \<Longrightarrow> x \<le> z"
    by (cases x; cases y; cases z) (auto simp: less_eq_rank_def)
  show "x \<le> y \<Longrightarrow> y \<le> x \<Longrightarrow> x = y"
    by (cases x; cases y) (auto simp: less_eq_rank_def)
  show "x \<le> y \<or> y \<le> x"
    by (cases x; cases y) (auto simp: less_eq_rank_def)
qed

end

datatype precedence = Precedence (numbers: "nat list") (release_rank: rank)

instantiation precedence :: linorder
begin

definition less_precedence :: "precedence \<Rightarrow> precedence \<Rightarrow> bool" where
  "less_precedence x y \<longleftrightarrow>
     numbers x < numbers y \<or> numbers x = numbers y \<and> release_rank x < release_rank y"

definition less_eq_precedence :: "precedence \<Rightarrow> precedence \<Rightarrow> bool" where
  "less_eq_precedence x y \<longleftrightarrow> x = y \<or> x < y"

instance
proof
  fix x y z :: precedence
  show "x < y \<longleftrightarrow> x \<le> y \<and> \<not> y \<le> x"
    by (cases x; cases y) (auto simp: less_eq_precedence_def less_precedence_def)
  show "x \<le> x"
    by (simp add: less_eq_precedence_def)
  show "x \<le> y \<Longrightarrow> y \<le> z \<Longrightarrow> x \<le> z"
    by (cases x; cases y; cases z) (auto simp: less_eq_precedence_def less_precedence_def)
  show "x \<le> y \<Longrightarrow> y \<le> x \<Longrightarrow> x = y"
    by (cases x; cases y) (auto simp: less_eq_precedence_def less_precedence_def)
  show "x \<le> y \<or> y \<le> x"
    by (cases x; cases y) (auto simp: less_eq_precedence_def less_precedence_def)
qed

end

section \<open>Abstraction of a parsed version\<close>

definition nat_of_digits :: "jstring \<Rightarrow> nat" where
  "nat_of_digits p = foldl (\<lambda>n d. 10 * n + (d - 48)) 0 p"

definition ident_of :: "jstring \<Rightarrow> ident" where
  "ident_of p = (if all_digits p then NumId (nat_of_digits p) else TextId p)"

definition precedence_of :: "semver \<Rightarrow> precedence" where
  "precedence_of v = Precedence (map nat_of_digits (core v))
     (case prerelease v of None \<Rightarrow> Final | Some ids \<Rightarrow> Pre (map ident_of ids))"

text \<open>What \<open>parseSemver\<close> guarantees of its result.\<close>

definition wf_semver :: "semver \<Rightarrow> bool" where
  "wf_semver v \<longleftrightarrow> length (core v) = 3 \<and> list_all num_ident (core v)
     \<and> pred_option (list_all (\<lambda>p. p \<noteq> [] \<and> list_all id_char p \<and> (all_digits p \<longrightarrow> num_ident p)))
         (prerelease v)
     \<and> pred_option (list_all (\<lambda>p. p \<noteq> [] \<and> list_all id_char p)) (build v)"

section \<open>Canonical numerals compare as numbers\<close>

lemma foldl_digits: "foldl (\<lambda>n d. 10 * n + (d - 48)) k p = k * 10 ^ length p + nat_of_digits p"
proof (induction p arbitrary: k)
  case (Cons d p)
  show ?case
    using Cons [of "10 * k + (d - 48)"] Cons [of "d - 48"]
    by (simp add: nat_of_digits_def algebra_simps)
qed (simp add: nat_of_digits_def)

lemma nat_of_digits_Cons: "nat_of_digits (d # p) = (d - 48) * 10 ^ length p + nat_of_digits p"
  using foldl_digits [of "d - 48" p] by (simp add: nat_of_digits_def)

lemma nat_of_digits_Nil [simp]: "nat_of_digits [] = 0"
  by (simp add: nat_of_digits_def)

lemma nat_of_digits_bound: "list_all is_digit p \<Longrightarrow> nat_of_digits p < 10 ^ length p"
proof (induction p)
  case (Cons d p)
  then have "d - 48 \<le> 9" and "nat_of_digits p < 10 ^ length p"
    by (auto simp: is_digit_def)
  then have "(d - 48) * 10 ^ length p + nat_of_digits p < 9 * 10 ^ length p + 10 ^ length p"
    by (intro add_le_less_mono mult_right_mono) auto
  then show ?case by (simp add: nat_of_digits_Cons)
qed simp

lemma nat_of_digits_lead:
  "list_all is_digit (d # p) \<Longrightarrow> d \<noteq> 48 \<Longrightarrow> 10 ^ length p \<le> nat_of_digits (d # p)"
proof -
  assume "list_all is_digit (d # p)" "d \<noteq> 48"
  then have "1 \<le> d - 48" by (auto simp: is_digit_def)
  then have "1 * 10 ^ length p \<le> (d - 48) * 10 ^ length p"
    by (intro mult_right_mono) auto
  also have "\<dots> \<le> nat_of_digits (d # p)"
    by (simp add: nat_of_digits_Cons)
  finally show ?thesis by simp
qed

lemma digits_same_length_less:
  "list_all is_digit p \<Longrightarrow> list_all is_digit q \<Longrightarrow> length p = length q \<Longrightarrow>
   nat_of_digits p < nat_of_digits q \<longleftrightarrow> p < q"
proof (induction p q rule: list_induct2')
  case (4 d p e q)
  note bounds = nat_of_digits_bound [of p] nat_of_digits_bound [of q]
  consider "d < e" | "d = e" | "e < d" by linarith
  then show ?case
  proof cases
    case 1
    with "4.prems" have "(d - 48) + 1 \<le> e - 48" by (auto simp: is_digit_def)
    then have "((d - 48) + 1) * 10 ^ length q \<le> (e - 48) * 10 ^ length q"
      by (intro mult_right_mono) auto
    with bounds "4.prems" 1 show ?thesis by (auto simp: nat_of_digits_Cons algebra_simps)
  next
    case 2
    with 4 show ?thesis by (auto simp: nat_of_digits_Cons)
  next
    case 3
    with "4.prems" have "(e - 48) + 1 \<le> d - 48" by (auto simp: is_digit_def)
    then have "((e - 48) + 1) * 10 ^ length q \<le> (d - 48) * 10 ^ length q"
      by (intro mult_right_mono) auto
    with bounds "4.prems" 3 show ?thesis by (auto simp: nat_of_digits_Cons algebra_simps)
  qed
qed auto

lemma canonical_shorter_less:
  assumes "num_ident p" "num_ident q" "length p < length q"
  shows "nat_of_digits p < nat_of_digits q"
proof -
  from assms obtain d r where q: "q = d # r" by (cases q) auto
  have "q \<noteq> [48]" using assms num_ident_digits [of p] by auto
  with assms(2) q have d: "d \<noteq> 48" "list_all is_digit (d # r)"
    by (auto simp: num_ident_def)
  have "nat_of_digits p < 10 ^ length p"
    using num_ident_digits [OF assms(1)] nat_of_digits_bound by blast
  also have "(10::nat) ^ length p \<le> 10 ^ length r"
    using assms(3) q by (intro power_increasing) auto
  also have "\<dots> \<le> nat_of_digits q"
    using nat_of_digits_lead [OF d(2,1)] q by simp
  finally show ?thesis .
qed

lemma compareNumericIdentifiers_three_way:
  assumes "num_ident p" "num_ident q"
  shows "compareNumericIdentifiers p q = three_way (nat_of_digits p) (nat_of_digits q)"
proof -
  consider "length p < length q" | "length q < length p" | "length p = length q" by linarith
  then show ?thesis
  proof cases
    case 3
    have less: "nat_of_digits p < nat_of_digits q \<longleftrightarrow> p < q"
      "nat_of_digits q < nat_of_digits p \<longleftrightarrow> q < p"
      using digits_same_length_less assms num_ident_digits 3 by simp_all
    then have "nat_of_digits p = nat_of_digits q \<longleftrightarrow> p = q"
      by (metis nat_neq_iff neq_iff)
    with less 3 show ?thesis by (simp add: compareNumericIdentifiers_def three_way_def)
  qed (use canonical_shorter_less [of p q] canonical_shorter_less [of q p] assms in
        \<open>auto simp: compareNumericIdentifiers_def three_way_def\<close>)
qed

lemma canonical_numeral_inject:
  assumes "num_ident p" "num_ident q"
  shows "nat_of_digits p = nat_of_digits q \<longleftrightarrow> p = q"
  using compareNumericIdentifiers_three_way [OF assms]
  by (auto simp: compareNumericIdentifiers_def three_way_def split: if_splits)

section \<open>The text comparison refines the abstract order\<close>

lemma three_way_Cons:
  "three_way (x # xs) (y # ys) = (if x = y then three_way xs ys else three_way x y)"
  for x y :: "'a::linorder"
  by (auto simp: three_way_def)

lemma ident_of_eq:
  "(all_digits p \<longrightarrow> num_ident p) \<Longrightarrow> (all_digits q \<longrightarrow> num_ident q) \<Longrightarrow>
   ident_of p = ident_of q \<longleftrightarrow> p = q"
  by (auto simp: ident_of_def canonical_numeral_inject)

lemma compare_ids_three_way:
  assumes "list_all (\<lambda>p. all_digits p \<longrightarrow> num_ident p) ls"
    and "list_all (\<lambda>p. all_digits p \<longrightarrow> num_ident p) rs"
  shows "compare_ids ls rs = three_way (map ident_of ls) (map ident_of rs)"
  using assms
proof (induction ls rs rule: compare_ids.induct)
  case (4 l ls r rs)
  show ?case
  proof (cases "l = r")
    case True
    with 4 show ?thesis by (simp add: three_way_Cons)
  next
    case False
    with "4.prems" have "ident_of l \<noteq> ident_of r" by (simp add: ident_of_eq)
    with False "4.prems" show ?thesis
      by (auto simp: three_way_Cons ident_of_def compareNumericIdentifiers_three_way Let_def three_way_def)
  qed
qed (auto simp: three_way_def)

lemma compare_core_three_way:
  "length ls = length rs \<Longrightarrow> list_all num_ident ls \<Longrightarrow> list_all num_ident rs \<Longrightarrow>
   compare_core ls rs = three_way (map nat_of_digits ls) (map nat_of_digits rs)"
proof (induction ls rs rule: list_induct2)
  case (Cons l ls r rs)
  then show ?case
    by (auto simp: compareNumericIdentifiers_three_way three_way_Cons Let_def)
qed simp

lemma compare_parsed_refines:
  assumes "wf_semver l" "wf_semver r"
  shows "compare_parsed l r = three_way (precedence_of l) (precedence_of r)"
proof -
  have c: "compare_core (core l) (core r)
      = three_way (map nat_of_digits (core l)) (map nat_of_digits (core r))"
    using assms by (intro compare_core_three_way) (auto simp: wf_semver_def)
  have canonical: "list_all (\<lambda>p. all_digits p \<longrightarrow> num_ident p) ids"
    if "prerelease v = Some ids" "wf_semver v" for v ids
    using that by (auto simp: wf_semver_def list_all_iff)
  have p: "comparePrerelease (prerelease l) (prerelease r)
      = three_way (release_rank (precedence_of l)) (release_rank (precedence_of r))"
    using canonical assms
    by (cases "prerelease l"; cases "prerelease r")
      (auto simp: precedence_of_def compare_ids_three_way three_way_def)
  show ?thesis
    unfolding compare_parsed_def Let_def c p
    by (auto simp: three_way_def less_precedence_def precedence_of_def)
qed

section \<open>Results of the parser\<close>

lemma parseSemver_Inr:
  "parseSemver v = Inr r \<longleftrightarrow>
     (\<exists>s cs m4 m5. v = JStr s \<and> length s \<le> 128 \<and> semver_match s = Some (cs, m4, m5)
        \<and> (\<forall>ids. map_option (split_on 46) m4 = Some ids \<longrightarrow> \<not> list_ex leading_zero ids)
        \<and> r = \<lparr>core = cs, prerelease = map_option (split_on 46) m4,
               build = map_option (split_on 46) m5\<rparr>)"
  by (cases v) (auto simp: parseSemver_def Let_def split: option.splits if_splits)

lemma parseSemver_wf:
  assumes "parseSemver v = Inr r"
  shows "wf_semver r"
proof -
  from assms obtain s cs m4 m5 where m: "semver_match s = Some (cs, m4, m5)"
    and nz: "\<forall>ids. map_option (split_on 46) m4 = Some ids \<longrightarrow> \<not> list_ex leading_zero ids"
    and r: "r = \<lparr>core = cs, prerelease = map_option (split_on 46) m4,
                 build = map_option (split_on 46) m5\<rparr>"
    by (auto simp: parseSemver_Inr)
  from semver_match_sound [OF m] show ?thesis
  proof cases
    case (1 a b c)
    have canonical: "num_ident p" if "all_digits p" "\<not> leading_zero p" for p
      using that by (cases p) (auto simp: num_ident_def all_digits_def leading_zero_def)
    have "list_all (\<lambda>p. p \<noteq> [] \<and> list_all id_char p \<and> (all_digits p \<longrightarrow> num_ident p)) (split_on 46 t)"
      if "m4 = Some t" for t
      using 1 nz that canonical by (auto simp: dotted_def list_all_iff list_ex_iff)
    moreover have "list_all (\<lambda>p. p \<noteq> [] \<and> list_all id_char p) (split_on 46 t)" if "m5 = Some t" for t
      using 1 that by (auto simp: dotted_def)
    ultimately show ?thesis
      using 1 r by (cases m4; cases m5) (auto simp: wf_semver_def)
  qed
qed

lemma compareSemver_Inr:
  "compareSemver a b = Inr c \<longleftrightarrow>
     (\<exists>l r. parseSemver a = Inr l \<and> parseSemver b = Inr r \<and>
        c = three_way (precedence_of l) (precedence_of r))"
  by (auto simp: compareSemver_def result_iff compare_parsed_refines [OF parseSemver_wf parseSemver_wf])

text \<open>The text a parsed version came from.\<close>

definition semver_print :: "semver \<Rightarrow> jstring" where
  "semver_print v = join_with [46] (core v)
     @ with_mark 45 (map_option (join_with [46]) (prerelease v))
     @ with_mark 43 (map_option (join_with [46]) (build v))"

lemma parseSemver_print: "parseSemver (JStr s) = Inr v \<Longrightarrow> semver_print v = s"
proof -
  assume "parseSemver (JStr s) = Inr v"
  then obtain cs m4 m5 where m: "semver_match s = Some (cs, m4, m5)"
    and v: "v = \<lparr>core = cs, prerelease = map_option (split_on 46) m4,
                 build = map_option (split_on 46) m5\<rparr>"
    by (auto simp: parseSemver_Inr)
  have undo: "map_option (join_with [46]) (map_option (split_on 46) t) = t" for t
    by (cases t) (simp_all add: join_split)
  from semver_match_sound [OF m] show ?thesis
    by cases (simp add: v semver_print_def undo)
qed

section \<open>The contract of a version comparison\<close>

text \<open>
  What the callers of \<open>compareSemver\<close> rely on: it fails exactly where one side does not parse,
  and otherwise orders by a key.
\<close>

locale comparison =
  fixes parse :: "'t \<Rightarrow> 'e + 'p"
    and cmp :: "'t \<Rightarrow> 't \<Rightarrow> 'e + int"
    and key :: "'p \<Rightarrow> 'k::linorder"
  assumes cmp_Inr: "cmp a b = Inr c \<longleftrightarrow>
    (\<exists>l r. parse a = Inr l \<and> parse b = Inr r \<and> c = three_way (key l) (key r))"
begin

lemma total: "parse a = Inr l \<Longrightarrow> parse b = Inr r \<Longrightarrow> \<exists>c. cmp a b = Inr c"
  by (simp add: cmp_Inr)

lemma self: "parse a = Inr l \<Longrightarrow> cmp a a = Inr 0"
  by (simp add: cmp_Inr)

lemma swapped: "cmp a b = Inr c \<longleftrightarrow> cmp b a = Inr (- c)"
proof -
  have flip: "three_way y x = - three_way x y" for x y :: 'k
    by (auto simp: three_way_def)
  have "cmp b a = Inr (- c)" if "cmp a b = Inr c" for a b c
    using that flip unfolding cmp_Inr by metis
  from this [of a b c] this [of b a "- c"] show ?thesis by auto
qed

lemma trans: "cmp a b = Inr x \<Longrightarrow> x \<le> 0 \<Longrightarrow> cmp b c = Inr y \<Longrightarrow> y \<le> 0 \<Longrightarrow>
    \<exists>z. cmp a c = Inr z \<and> z \<le> 0 \<and> (z = 0 \<longleftrightarrow> x = 0 \<and> y = 0)"
proof -
  assume a: "cmp a b = Inr x" "x \<le> 0" "cmp b c = Inr y" "y \<le> 0"
  from a(1,3) obtain l m r where p: "parse a = Inr l" "parse b = Inr m" "parse c = Inr r"
    and x: "x = three_way (key l) (key m)" and y: "y = three_way (key m) (key r)"
    by (auto simp: cmp_Inr)
  from a(2,4) have le: "key l \<le> key m" "key m \<le> key r"
    unfolding x y by (meson linorder_not_less three_way_pos)+
  have "cmp a c = Inr (three_way (key l) (key r))" using p by (auto simp: cmp_Inr)
  moreover have "three_way (key l) (key r) \<le> 0" using le by (meson linorder_not_less three_way_pos order_trans)
  moreover have "three_way (key l) (key r) = 0 \<longleftrightarrow> x = 0 \<and> y = 0"
    using le by (auto simp: x y)
  ultimately show ?thesis by blast
qed

lemma range: "cmp a b = Inr c \<Longrightarrow> c \<in> {-1, 0, 1}"
  by (auto simp: cmp_Inr three_way_def split: if_splits)

end

interpretation versions: comparison parseSemver compareSemver precedence_of
  by unfold_locales (rule compareSemver_Inr)

section \<open>Properties\<close>

text \<open>C2: on texts, \<open>compareSemver\<close> returns a number exactly when both texts parse, and then
  the number is the three-way comparison of their SemVer 2.0.0 precedences (numeric
  identifiers by value, below alphanumeric ones, a prerelease below its release, build
  metadata ignored).\<close>

theorem compareSemver_is_precedence:
  "compareSemver (JStr a) (JStr b) = Inr c \<longleftrightarrow>
     (\<exists>l r. parseSemver (JStr a) = Inr l \<and> parseSemver (JStr b) = Inr r
        \<and> c = three_way (precedence_of l) (precedence_of r))"
  by (rule versions.cmp_Inr)

text \<open>\<open>compareSemver\<close> orders the accepted versions: chained comparisons compose, with
  equality only where both links are equal.\<close>

lemma compareSemver_transitive:
  assumes "compareSemver a b = Inr x" and "x \<le> 0" and "compareSemver b c = Inr y" and "y \<le> 0"
  shows "\<exists>z. compareSemver a c = Inr z \<and> z \<le> 0 \<and> (z = 0 \<longleftrightarrow> x = 0 \<and> y = 0)"
  by (rule versions.trans [OF assms])

lemma compareSemver_transitive_witness:
  "\<exists>z. compareSemver (JStr (lit ''1.0.0-rc.2'')) (JStr (lit ''1.2.0'')) = Inr z \<and> z \<le> 0
     \<and> (z = 0 \<longleftrightarrow> (-1::int) = 0 \<and> (-1::int) = 0)"
  by (rule compareSemver_transitive [of _ "JStr (lit ''1.0.0-rc.10'')" "-1" _ "-1"]) code_simp+

text \<open>C38: the \<open>SEMVER\<close> matcher accepts exactly the texts of the grammar, and a parsed version
  prints back to the text it came from.\<close>

theorem parseSemver_roundtrip:
  "(semver_match s = Some (cs, pre, bld) \<longleftrightarrow> semver_text s cs pre bld)
   \<and> (parseSemver (JStr s) = Inr v \<longrightarrow> wf_semver v \<and> semver_print v = s)"
  using semver_match_iff parseSemver_wf parseSemver_print by blast

lemma parseSemver_roundtrip_witness:
  "semver_print \<lparr>core = [lit ''1'', lit ''2'', lit ''0''], prerelease = Some [lit ''rc'', lit ''1''],
     build = None\<rparr> = lit ''1.2.0-rc.1''"
proof -
  have "parseSemver (JStr (lit ''1.2.0-rc.1'')) = Inr \<lparr>core = [lit ''1'', lit ''2'', lit ''0''],
      prerelease = Some [lit ''rc'', lit ''1''], build = None\<rparr>"
    by code_simp
  with parseSemver_roundtrip show ?thesis by blast
qed

end
