(* ===== verification/UpdateContract.thy ===== *)
theory UpdateContract
  imports Precedence
begin

text \<open>
  The validators of \<open>scripts/update-contract.mjs\<close>: the canonical publication time, the local
  release record and the stable update manifest.  Each takes a JSON value and returns the
  normalised object or the error the code throws.
\<close>

section \<open>Constants and character classes\<close>

definition SKILL_ID :: jstring where
  "SKILL_ID = lit ''archify''"

definition EXPECTED_REPOSITORY :: jstring where
  "EXPECTED_REPOSITORY = lit ''https://github.com/tt-a1i/archify''"

definition DEFAULT_MANIFEST_URL :: jstring where
  "DEFAULT_MANIFEST_URL =
     lit ''https://tt-a1i.github.io/archify/skill-updates/archify/stable.json''"

definition control_or_bidi :: "nat \<Rightarrow> bool" where
  "control_or_bidi c \<longleftrightarrow> c \<le> 31 \<or> 127 \<le> c \<and> c \<le> 159
     \<or> 8234 \<le> c \<and> c \<le> 8238 \<or> 8294 \<le> c \<and> c \<le> 8297"

definition hex_text :: "nat \<Rightarrow> jstring \<Rightarrow> bool" where
  "hex_text n s \<longleftrightarrow> length s = n \<and> list_all is_lower_hex s"

text \<open>
  \<open>RegExp.test\<close> converts its argument to text.  The text of a one-element array is the text of
  the element; the text of any other non-string value (a number, \<open>null\<close>, \<open>true\<close>,
  \<open>[object Object]\<close>, a list with a comma) matches no digest pattern, which is \<open>None\<close> here.
\<close>

fun regex_subject :: "jval \<Rightarrow> jstring option" where
  "regex_subject (JStr s) = Some s"
| "regex_subject (JArr [v]) = regex_subject v"
| "regex_subject _ = None"

definition hex_test :: "nat \<Rightarrow> jval \<Rightarrow> bool" where
  "hex_test n v \<longleftrightarrow> (case regex_subject v of None \<Rightarrow> False | Some s \<Rightarrow> hex_text n s)"

text \<open>The keys are compared as one text, joined by NUL.\<close>

definition hasExactKeys :: "jval \<Rightarrow> jstring list \<Rightarrow> bool" where
  "hasExactKeys v expected \<longleftrightarrow> is_plain_object v
     \<and> join_with [0] (sort (object_keys v)) = join_with [0] (sort expected)"

section \<open>Publication time\<close>

record civil =
  year :: nat
  month :: nat
  day :: nat
  hour :: nat
  minute :: nat
  second :: nat

definition leap :: "nat \<Rightarrow> bool" where
  "leap y \<longleftrightarrow> y mod 4 = 0 \<and> (y mod 100 \<noteq> 0 \<or> y mod 400 = 0)"

definition days_in_month :: "nat \<Rightarrow> nat \<Rightarrow> nat" where
  "days_in_month y m =
     (if m = 2 then (if leap y then 29 else 28) else if m \<in> {4, 6, 9, 11} then 30 else 31)"

definition real_instant :: "civil \<Rightarrow> bool" where
  "real_instant c \<longleftrightarrow> year c \<le> 9999 \<and> 1 \<le> month c \<and> month c \<le> 12 \<and> 1 \<le> day c
     \<and> day c \<le> days_in_month (year c) (month c) \<and> hour c \<le> 23 \<and> minute c \<le> 59 \<and> second c \<le> 59"

definition digits_at :: "jstring \<Rightarrow> nat \<Rightarrow> nat \<Rightarrow> nat" where
  "digits_at s i n = nat_of_digits (take n (drop i s))"

text \<open>\<open>/^\d{4}-\d{2}-\d{2}T\d{2}:\d{2}:\d{2}Z$/\<close>, position by position.\<close>

definition utc_seconds :: "jstring \<Rightarrow> bool" where
  "utc_seconds s \<longleftrightarrow> length s = 20
     \<and> list_all (\<lambda>i. is_digit (s ! i)) [0, 1, 2, 3, 5, 6, 8, 9, 11, 12, 14, 15, 17, 18]
     \<and> s ! 4 = 45 \<and> s ! 7 = 45 \<and> s ! 10 = 84 \<and> s ! 13 = 58 \<and> s ! 16 = 58 \<and> s ! 19 = 90"

definition fields_of :: "jstring \<Rightarrow> civil" where
  "fields_of s = \<lparr>year = digits_at s 0 4, month = digits_at s 5 2, day = digits_at s 8 2,
     hour = digits_at s 11 2, minute = digits_at s 14 2, second = digits_at s 17 2\<rparr>"

text \<open>
  An instant is kept as its normalised calendar fields: a day past the end of its month (up
  to 31 is syntactically admissible) and the hour 24 of a day roll over.
\<close>

definition next_month :: "civil \<Rightarrow> civil" where
  "next_month c = (if month c = 12 then c\<lparr>year := Suc (year c), month := 1\<rparr>
     else c\<lparr>month := Suc (month c)\<rparr>)"

definition roll_day :: "civil \<Rightarrow> civil" where
  "roll_day c = (let n = days_in_month (year c) (month c) in
     if n < day c then (next_month c)\<lparr>day := day c - n\<rparr> else c)"

definition roll_hour :: "civil \<Rightarrow> civil" where
  "roll_hour c = (if hour c = 24 then roll_day (c\<lparr>hour := 0, day := Suc (day c)\<rparr>) else c)"

definition date_parse_utc :: "jstring \<Rightarrow> civil option" where
  "date_parse_utc s = (let c = fields_of s in
     if 1 \<le> month c \<and> month c \<le> 12 \<and> 1 \<le> day c \<and> day c \<le> 31 \<and> minute c \<le> 59 \<and> second c \<le> 59
       \<and> (hour c \<le> 23 \<or> hour c = 24 \<and> minute c = 0 \<and> second c = 0)
     then Some (roll_hour (roll_day c)) else None)"

definition pad2 :: "nat \<Rightarrow> jstring" where
  "pad2 n = [48 + n div 10 mod 10, 48 + n mod 10]"

definition pad4 :: "nat \<Rightarrow> jstring" where
  "pad4 n = pad2 (n div 100) @ pad2 (n mod 100)"

text \<open>\<open>toISOString\<close> with its \<open>.000Z\<close> replaced; a year past 9999 has a sign and six digits.\<close>

definition iso_seconds :: "civil \<Rightarrow> jstring" where
  "iso_seconds c =
     (if year c \<le> 9999 then pad4 (year c) else 43 # pad2 (year c div 10000) @ pad4 (year c mod 10000))
     @ [45] @ pad2 (month c) @ [45] @ pad2 (day c) @ [84] @ pad2 (hour c)
     @ [58] @ pad2 (minute c) @ [58] @ pad2 (second c) @ [90]"

definition validateCanonicalUtcTimestamp :: "jval \<Rightarrow> contract_error + jval" where
  "validateCanonicalUtcTimestamp v =
     (case v of
        JStr s \<Rightarrow>
          if \<not> utc_seconds s then Inl PublicationFormat
          else (case date_parse_utc s of
              None \<Rightarrow> Inl PublicationInstant
            | Some c \<Rightarrow> if iso_seconds c \<noteq> s then Inl PublicationInstant else Inr v)
      | _ \<Rightarrow> Inl PublicationFormat)"

section \<open>The local release\<close>

definition local_keys :: "jstring list" where
  "local_keys = [lit ''schemaVersion'', lit ''skillId'', lit ''channel'', lit ''version'',
     lit ''source'', lit ''updateManifestUrl'']"

definition local_identity :: "jval \<Rightarrow> bool" where
  "local_identity v \<longleftrightarrow> hasExactKeys v local_keys
     \<and> jget v (lit ''schemaVersion'') = JNum 1
     \<and> jget v (lit ''skillId'') = JStr SKILL_ID
     \<and> hasExactKeys (jget v (lit ''source'')) [lit ''repository'']
     \<and> jget (jget v (lit ''source'')) (lit ''repository'') = JStr EXPECTED_REPOSITORY
     \<and> jget v (lit ''updateManifestUrl'') = JStr DEFAULT_MANIFEST_URL"

definition local_release_object :: "jval \<Rightarrow> jval" where
  "local_release_object v = JObj
     [(lit ''schemaVersion'', jget v (lit ''schemaVersion'')),
      (lit ''skillId'', jget v (lit ''skillId'')),
      (lit ''channel'', jget v (lit ''channel'')),
      (lit ''version'', jget v (lit ''version'')),
      (lit ''source'', JObj [(lit ''repository'', jget (jget v (lit ''source'')) (lit ''repository''))]),
      (lit ''updateManifestUrl'', jget v (lit ''updateManifestUrl''))]"

definition validateLocalRelease :: "jval \<Rightarrow> contract_error + jval" where
  "validateLocalRelease v =
     bindR (guardR (local_identity v) InvalidLocalIdentity) (\<lambda>_.
     bindR (releaseChannelForVersion (jget v (lit ''version''))) (\<lambda>expected.
     bindR (guardR (jget v (lit ''channel'') = JStr expected) ChannelMismatch) (\<lambda>_.
     Inr (local_release_object v))))"

section \<open>The update manifest\<close>

definition release_notes_url :: "jstring \<Rightarrow> jstring" where
  "release_notes_url version = lit ''https://github.com/tt-a1i/archify/releases/tag/v'' @ version"

definition validateReleaseNotesUrl :: "jval \<Rightarrow> jval \<Rightarrow> contract_error + jval" where
  "validateReleaseNotesUrl v version =
     (if \<not> isStableCoreVersion version then Inl NotesNeedStableCore
      else case version of
          JStr t \<Rightarrow> if v \<noteq> JStr (release_notes_url t) then Inl NotesOutsidePath else Inr v
        | _ \<Rightarrow> Inl NotesOutsidePath)"

definition manifest_keys :: "jstring list" where
  "manifest_keys = [lit ''schemaVersion'', lit ''skillId'', lit ''channel'', lit ''version'',
     lit ''publishedAt'', lit ''source'', lit ''artifact'', lit ''summary'', lit ''releaseNotes'',
     lit ''severity'']"

definition source_ref_ok :: "jval \<Rightarrow> jval \<Rightarrow> bool" where
  "source_ref_ok ref version \<longleftrightarrow> (case version of JStr t \<Rightarrow> ref = JStr (118 # t) | _ \<Rightarrow> False)"

definition stable_identity :: "jval \<Rightarrow> bool" where
  "stable_identity v \<longleftrightarrow> hasExactKeys v manifest_keys
     \<and> jget v (lit ''schemaVersion'') = JNum 1
     \<and> jget v (lit ''skillId'') = JStr SKILL_ID
     \<and> jget v (lit ''channel'') = JStr (lit ''stable'')
     \<and> isStableCoreVersion (jget v (lit ''version''))
     \<and> (let src = jget v (lit ''source'') in
         hasExactKeys src [lit ''repository'', lit ''ref'', lit ''treeSha'']
         \<and> jget src (lit ''repository'') = JStr EXPECTED_REPOSITORY
         \<and> source_ref_ok (jget src (lit ''ref'')) (jget v (lit ''version''))
         \<and> hex_test 40 (jget src (lit ''treeSha'')))
     \<and> hasExactKeys (jget v (lit ''artifact'')) [lit ''sha256'']
     \<and> hex_test 64 (jget (jget v (lit ''artifact'')) (lit ''sha256''))"

definition summary_ok :: "jval \<Rightarrow> bool" where
  "summary_ok v \<longleftrightarrow> (case v of
     JStr s \<Rightarrow> \<not> length s < 1 \<and> \<not> 160 < length s \<and> \<not> list_ex control_or_bidi s | _ \<Rightarrow> False)"

definition severity_ok :: "jval \<Rightarrow> bool" where
  "severity_ok v \<longleftrightarrow> v \<in> set [JStr (lit ''normal''), JStr (lit ''security'')]"

definition manifest_object :: "jval \<Rightarrow> jval" where
  "manifest_object v = JObj
     [(lit ''schemaVersion'', jget v (lit ''schemaVersion'')),
      (lit ''skillId'', jget v (lit ''skillId'')),
      (lit ''channel'', jget v (lit ''channel'')),
      (lit ''version'', jget v (lit ''version'')),
      (lit ''publishedAt'', jget v (lit ''publishedAt'')),
      (lit ''source'', JObj
        [(lit ''repository'', jget (jget v (lit ''source'')) (lit ''repository'')),
         (lit ''ref'', jget (jget v (lit ''source'')) (lit ''ref'')),
         (lit ''treeSha'', jget (jget v (lit ''source'')) (lit ''treeSha''))]),
      (lit ''artifact'', JObj [(lit ''sha256'', jget (jget v (lit ''artifact'')) (lit ''sha256''))]),
      (lit ''summary'', jget v (lit ''summary'')),
      (lit ''releaseNotes'', jget v (lit ''releaseNotes'')),
      (lit ''severity'', jget v (lit ''severity''))]"

definition validateStableUpdateManifest :: "jval \<Rightarrow> contract_error + jval" where
  "validateStableUpdateManifest v =
     bindR (guardR (stable_identity v) InvalidStableIdentity) (\<lambda>_.
     bindR (validateCanonicalUtcTimestamp (jget v (lit ''publishedAt''))) (\<lambda>_.
     bindR (guardR (summary_ok (jget v (lit ''summary''))) InvalidSummary) (\<lambda>_.
     bindR (validateReleaseNotesUrl (jget v (lit ''releaseNotes'')) (jget v (lit ''version''))) (\<lambda>_.
     bindR (guardR (severity_ok (jget v (lit ''severity''))) InvalidSeverity) (\<lambda>_.
     Inr (manifest_object v))))))"

section \<open>Two-digit fields\<close>

lemma digits_of_pad:
  "n < 100 \<Longrightarrow> nat_of_digits (pad2 n) = n"
  "n < 10000 \<Longrightarrow> nat_of_digits (pad4 n) = n"
proof -
  show two: "nat_of_digits (pad2 n) = n" if "n < 100" for n
    using that by (simp add: pad2_def nat_of_digits_def)
  show "n < 10000 \<Longrightarrow> nat_of_digits (pad4 n) = n"
    using foldl_digits [of "nat_of_digits (pad2 (n div 100))" "pad2 (n mod 100)"]
      two [of "n div 100"] two [of "n mod 100"]
    by (simp add: pad4_def nat_of_digits_def pad2_def)
qed

lemma pad_of_digits:
  "is_digit a \<Longrightarrow> is_digit b \<Longrightarrow> pad2 (nat_of_digits [a, b]) = [a, b]"
  "is_digit a \<Longrightarrow> is_digit b \<Longrightarrow> is_digit c \<Longrightarrow> is_digit d \<Longrightarrow>
   pad4 (nat_of_digits [a, b, c, d]) = [a, b, c, d]"
proof -
  show two: "pad2 (nat_of_digits [a, b]) = [a, b]" if d: "is_digit a" "is_digit b" for a b
  proof -
    from d obtain i j where "a = 48 + i" "b = 48 + j"
      unfolding is_digit_def using le_Suc_ex by blast
    with d show ?thesis by (simp add: pad2_def nat_of_digits_def is_digit_def)
  qed
  assume d: "is_digit a" "is_digit b" "is_digit c" "is_digit d"
  have "nat_of_digits [c, d] < 100"
    using nat_of_digits_bound [of "[c, d]"] d by simp
  moreover have "nat_of_digits [a, b, c, d] = nat_of_digits [a, b] * 100 + nat_of_digits [c, d]"
    using foldl_digits [of "nat_of_digits [a, b]" "[c, d]"] by (simp add: nat_of_digits_def)
  ultimately show "pad4 (nat_of_digits [a, b, c, d]) = [a, b, c, d]"
    using two d by (simp add: pad4_def)
qed

lemma is_digit_less [simp]: "n < 10 \<Longrightarrow> is_digit (48 + n)"
  by (simp add: is_digit_def)

lemma mod_div_digit [simp]: "n mod 100 div 10 < (10::nat)"
  by (simp add: less_mult_imp_div_less)

lemma length_pad [simp]: "length (pad2 n) = 2" "length (pad4 n) = 4"
  by (simp_all add: pad2_def pad4_def)

text \<open>A text of the required shape, spelled out.\<close>

definition stamp :: "jstring \<Rightarrow> jstring \<Rightarrow> jstring \<Rightarrow> jstring \<Rightarrow> jstring \<Rightarrow> jstring \<Rightarrow> jstring" where
  "stamp y m d h i s = y @ [45] @ m @ [45] @ d @ [84] @ h @ [58] @ i @ [58] @ s @ [90]"

lemma text20:
  "length s = 20 \<Longrightarrow> s = [s ! 0, s ! 1, s ! 2, s ! 3, s ! 4, s ! 5, s ! 6, s ! 7, s ! 8, s ! 9,
     s ! 10, s ! 11, s ! 12, s ! 13, s ! 14, s ! 15, s ! 16, s ! 17, s ! 18, s ! 19]"
proof -
  assume n: "length s = 20"
  have "s = map ((!) s) [0..<20]" using map_nth [of s] n by simp
  also have "[0..<20] = [0, 1, 2, 3, 4, 5, 6, 7, 8, 9, 10, 11, 12, 13, 14, 15, 16, 17, 18, 19 :: nat]"
    by code_simp
  finally show ?thesis unfolding list.map .
qed

definition two_digits :: "jstring \<Rightarrow> bool" where
  "two_digits p \<longleftrightarrow> (\<exists>a b. p = [a, b] \<and> is_digit a \<and> is_digit b)"

definition four_digits :: "jstring \<Rightarrow> bool" where
  "four_digits p \<longleftrightarrow> (\<exists>a b c d. p = [a, b, c, d] \<and> list_all is_digit p)"

lemma utc_seconds_stamp:
  assumes "utc_seconds s"
  shows "\<exists>y m d h i x. s = stamp y m d h i x \<and> four_digits y \<and> two_digits m \<and> two_digits d
    \<and> two_digits h \<and> two_digits i \<and> two_digits x"
proof -
  have "s = stamp [s ! 0, s ! 1, s ! 2, s ! 3] [s ! 5, s ! 6] [s ! 8, s ! 9] [s ! 11, s ! 12]
      [s ! 14, s ! 15] [s ! 17, s ! 18]"
    using assms by (subst text20) (auto simp: utc_seconds_def stamp_def)
  moreover have "four_digits [s ! 0, s ! 1, s ! 2, s ! 3]" "two_digits [s ! 5, s ! 6]"
    "two_digits [s ! 8, s ! 9]" "two_digits [s ! 11, s ! 12]" "two_digits [s ! 14, s ! 15]"
    "two_digits [s ! 17, s ! 18]"
    using assms by (auto simp: utc_seconds_def four_digits_def two_digits_def)
  ultimately show ?thesis by blast
qed

lemma stamp_utc_seconds:
  "four_digits y \<Longrightarrow> two_digits m \<Longrightarrow> two_digits d \<Longrightarrow> two_digits h \<Longrightarrow> two_digits i \<Longrightarrow> two_digits x
   \<Longrightarrow> utc_seconds (stamp y m d h i x)"
  by (auto simp: four_digits_def two_digits_def utc_seconds_def stamp_def)

lemma fields_of_stamp:
  "four_digits y \<Longrightarrow> two_digits m \<Longrightarrow> two_digits d \<Longrightarrow> two_digits h \<Longrightarrow> two_digits i \<Longrightarrow> two_digits x
   \<Longrightarrow> fields_of (stamp y m d h i x) = \<lparr>year = nat_of_digits y, month = nat_of_digits m,
         day = nat_of_digits d, hour = nat_of_digits h, minute = nat_of_digits i,
         second = nat_of_digits x\<rparr>"
  by (auto simp: four_digits_def two_digits_def fields_of_def stamp_def digits_at_def)

lemma pads_shape: "two_digits (pad2 n)" "four_digits (pad4 n)"
  by (auto simp: two_digits_def four_digits_def pad2_def pad4_def)

lemma iso_seconds_stamp:
  "year c \<le> 9999 \<Longrightarrow> iso_seconds c = stamp (pad4 (year c)) (pad2 (month c)) (pad2 (day c))
     (pad2 (hour c)) (pad2 (minute c)) (pad2 (second c))"
  by (simp add: iso_seconds_def stamp_def)

definition small_fields :: "civil \<Rightarrow> bool" where
  "small_fields c \<longleftrightarrow> year c \<le> 9999 \<and> month c < 100 \<and> day c < 100 \<and> hour c < 100
     \<and> minute c < 100 \<and> second c < 100"

lemma fields_of_iso: "small_fields c \<Longrightarrow> fields_of (iso_seconds c) = c"
  by (simp add: small_fields_def iso_seconds_stamp fields_of_stamp pads_shape digits_of_pad)

lemma iso_of_fields: "utc_seconds s \<Longrightarrow> small_fields (fields_of s) \<and> iso_seconds (fields_of s) = s"
proof -
  assume "utc_seconds s"
  then obtain y m d h i x where s: "s = stamp y m d h i x"
    and p: "four_digits y" "two_digits m" "two_digits d" "two_digits h" "two_digits i" "two_digits x"
    using utc_seconds_stamp by blast
  have two: "nat_of_digits t < 100 \<and> pad2 (nat_of_digits t) = t" if "two_digits t" for t
    using that nat_of_digits_bound [of t] by (auto simp: two_digits_def pad_of_digits)
  have four: "nat_of_digits y \<le> 9999 \<and> pad4 (nat_of_digits y) = y"
    using p(1) nat_of_digits_bound [of y] by (auto simp: four_digits_def pad_of_digits)
  show ?thesis
    using p two four by (simp add: s fields_of_stamp small_fields_def iso_seconds_stamp)
qed

section \<open>Exactly the real instants are accepted\<close>

lemma days_in_month_range: "28 \<le> days_in_month y m" "days_in_month y m \<le> 31"
  by (simp_all add: days_in_month_def)

lemma roll_day_fixed:
  "roll_day c = c \<longleftrightarrow> day c \<le> days_in_month (year c) (month c)"
  using days_in_month_range [of "year c" "month c"]
  by (auto simp: roll_day_def Let_def dest: arg_cong [where f = day])

lemma hour_roll [simp]: "hour (roll_day c) = hour c"
  by (simp add: roll_day_def next_month_def Let_def)

lemma rolled_fixed:
  "roll_hour (roll_day c) = c \<longleftrightarrow> hour c \<noteq> 24 \<and> day c \<le> days_in_month (year c) (month c)"
proof (cases "hour c = 24")
  case True
  then have "hour (roll_hour (roll_day c)) = 0"
    by (simp add: roll_hour_def)
  with True show ?thesis by (metis zero_neq_numeral)
next
  case False
  then show ?thesis by (simp add: roll_hour_def roll_day_fixed)
qed

lemma small_roll_day:
  "month c \<le> 12 \<Longrightarrow> day c \<le> 32 \<Longrightarrow> hour c < 100 \<Longrightarrow> minute c < 100 \<Longrightarrow> second c < 100 \<Longrightarrow>
   month (roll_day c) \<le> 12 \<and> day (roll_day c) \<le> 31 \<and> hour (roll_day c) < 100
     \<and> minute (roll_day c) < 100 \<and> second (roll_day c) < 100"
  using days_in_month_range [of "year c" "month c"]
  by (auto simp: roll_day_def next_month_def Let_def)

lemma iso_of_rolled:
  assumes "utc_seconds s" and "date_parse_utc s = Some c"
  shows "iso_seconds c = s \<longleftrightarrow> c = fields_of s"
proof
  assume i: "iso_seconds c = s"
  have "year c \<le> 9999"
  proof (rule ccontr)
    assume "\<not> year c \<le> 9999"
    then have "length (iso_seconds c) = 23" by (simp add: iso_seconds_def)
    with i assms(1) show False by (simp add: utc_seconds_def)
  qed
  moreover have "month c \<le> 12 \<and> day c \<le> 31 \<and> hour c < 100 \<and> minute c < 100 \<and> second c < 100"
  proof -
    from assms(2) have f: "month (fields_of s) \<le> 12" "day (fields_of s) \<le> 32"
      "hour (fields_of s) < 100" "minute (fields_of s) < 100" "second (fields_of s) < 100"
      and c: "c = roll_hour (roll_day (fields_of s))"
      by (auto simp: date_parse_utc_def Let_def split: if_splits)
    from small_roll_day [OF f]
    show ?thesis
      unfolding c roll_hour_def
      using small_roll_day [of "(roll_day (fields_of s))\<lparr>hour := 0, day := Suc (day (roll_day (fields_of s)))\<rparr>"]
      by auto
  qed
  ultimately have "small_fields c" by (simp add: small_fields_def)
  from fields_of_iso [OF this] i show "c = fields_of s" by simp
next
  assume "c = fields_of s"
  with assms(1) show "iso_seconds c = s" by (simp add: iso_of_fields)
qed

lemma accepted_instant:
  assumes "utc_seconds s"
  shows "(case date_parse_utc s of None \<Rightarrow> False | Some c \<Rightarrow> iso_seconds c = s)
    \<longleftrightarrow> real_instant (fields_of s)"
proof (cases "date_parse_utc s")
  case None
  then show ?thesis
    using days_in_month_range [of "year (fields_of s)" "month (fields_of s)"]
    by (auto simp: date_parse_utc_def Let_def real_instant_def split: if_splits)
next
  case (Some c)
  have "c = roll_hour (roll_day (fields_of s))"
    using Some by (auto simp: date_parse_utc_def Let_def split: if_splits)
  then have "iso_seconds c = s \<longleftrightarrow> hour (fields_of s) \<noteq> 24
      \<and> day (fields_of s) \<le> days_in_month (year (fields_of s)) (month (fields_of s))"
    using iso_of_rolled [OF assms Some] rolled_fixed by metis
  with Some iso_of_fields [OF assms] show ?thesis
    by (auto simp: date_parse_utc_def Let_def real_instant_def small_fields_def split: if_splits)
qed

lemma timestamp_accepted_iff:
  "validateCanonicalUtcTimestamp v = Inr w \<longleftrightarrow>
     w = v \<and> (\<exists>s. v = JStr s \<and> utc_seconds s \<and> real_instant (fields_of s))"
proof (cases v)
  case (JStr s)
  show ?thesis
  proof (cases "utc_seconds s")
    case True
    with JStr show ?thesis
      by (auto simp: validateCanonicalUtcTimestamp_def accepted_instant [OF True, symmetric]
          split: option.splits)
  next
    case False
    with JStr show ?thesis by (simp add: validateCanonicalUtcTimestamp_def)
  qed
qed (simp_all add: validateCanonicalUtcTimestamp_def)

end
