(* ===== verification/JsText.thy ===== *)
theory JsText
  imports Prelude
begin

text \<open>
  Conversions of JSON values: truthiness, the text of a template slot and \<open>JSON.stringify\<close>.  In a
  template slot the text of a number is the platform's and an argument.
\<close>

type_synonym number_text = "real \<Rightarrow> jstring"

fun truthy :: "jval \<Rightarrow> bool" where
  "truthy JUndef = False"
| "truthy JNull = False"
| "truthy (JBool b) = b"
| "truthy (JNum x) = (x \<noteq> 0)"
| "truthy (JStr s) = (s \<noteq> [])"
| "truthy (JArr vs) = True"
| "truthy (JObj ps) = True"

text \<open>\<open>String(v)\<close>: an array joins its elements with commas, \<open>null\<close> and \<open>undefined\<close> as empty.\<close>

fun js_string :: "number_text \<Rightarrow> jval \<Rightarrow> jstring" where
  "js_string show JUndef = lit ''undefined''"
| "js_string show JNull = lit ''null''"
| "js_string show (JBool b) = (if b then lit ''true'' else lit ''false'')"
| "js_string show (JNum x) = show x"
| "js_string show (JStr s) = s"
| "js_string show (JArr vs) = join_with [44]
     (map (\<lambda>v. if v = JUndef \<or> v = JNull then [] else js_string show v) vs)"
| "js_string show (JObj ps) = lit ''[object Object]''"

section \<open>JSON text\<close>

definition hex_digit :: "nat \<Rightarrow> nat" where
  "hex_digit n = (if n < 10 then 48 + n else 87 + n)"

definition u_escape :: "nat \<Rightarrow> jstring" where
  "u_escape c = [92, 117, hex_digit (c div 4096 mod 16), hex_digit (c div 256 mod 16),
     hex_digit (c div 16 mod 16), hex_digit (c mod 16)]"

definition high_surrogate :: "nat \<Rightarrow> bool" where
  "high_surrogate c \<longleftrightarrow> 55296 \<le> c \<and> c \<le> 56319"

definition low_surrogate :: "nat \<Rightarrow> bool" where
  "low_surrogate c \<longleftrightarrow> 56320 \<le> c \<and> c \<le> 57343"

definition escape_unit :: "nat \<Rightarrow> jstring" where
  "escape_unit c =
     (if c = 34 then [92, 34] else if c = 92 then [92, 92]
      else if c = 8 then [92, 98] else if c = 9 then [92, 116] else if c = 10 then [92, 110]
      else if c = 12 then [92, 102] else if c = 13 then [92, 114]
      else if c < 32 \<or> high_surrogate c \<or> low_surrogate c then u_escape c else [c])"

fun escape_units :: "jstring \<Rightarrow> jstring" where
  "escape_units [] = []"
| "escape_units [c] = escape_unit c"
| "escape_units (c # d # cs) =
     (if high_surrogate c \<and> low_surrogate d then c # d # escape_units cs
      else escape_unit c @ escape_units (d # cs))"

definition json_quote :: "jstring \<Rightarrow> jstring" where
  "json_quote s = [34] @ escape_units s @ [34]"

fun decimal :: "nat \<Rightarrow> jstring" where
  "decimal n = (if n < 10 then [48 + n] else decimal (n div 10) @ [48 + n mod 10])"

declare decimal.simps [simp del]

definition comma_join :: "jstring list \<Rightarrow> jstring" where
  "comma_join = join_with [44]"

definition int_text :: "int \<Rightarrow> jstring" where
  "int_text k = (if k < 0 then 45 # decimal (nat (- k)) else decimal (nat k))"

text \<open>\<open>JSON.stringify\<close> of a value whose numbers are integers of at most 16 digits.\<close>

fun stringify :: "jval \<Rightarrow> jstring" where
  "stringify JUndef = lit ''null''"
| "stringify JNull = lit ''null''"
| "stringify (JBool b) = (if b then lit ''true'' else lit ''false'')"
| "stringify (JNum x) = (if x < 0 then 45 # decimal (nat \<lfloor>- x\<rfloor>) else decimal (nat \<lfloor>x\<rfloor>))"
| "stringify (JStr s) = json_quote s"
| "stringify (JArr vs) = [91] @ comma_join (map stringify vs) @ [93]"
| "stringify (JObj ps) =
     [123] @ comma_join (map (\<lambda>(k, v). json_quote k @ [58] @ stringify v) ps) @ [125]"

end
