(* ===== verification/UpdateState.thy ===== *)
theory UpdateState
  imports UpdateContract JsText
begin

text \<open>
  The cached state of \<open>scripts/check-update.mjs\<close>: its record, its bounded JSON encoding, the
  acknowledgement and failed-check transitions, the validation of a cached file
  (\<open>normalizeState\<close>), the schedule of the next check and the result offered to the user.
\<close>

section \<open>The size of JSON text\<close>

text \<open>
  UTF-8 size of a text without lone surrogates (\<open>JSON.stringify\<close> escapes those): the two
  units of a surrogate pair account for two bytes each.
\<close>

definition unit_bytes :: "nat \<Rightarrow> nat" where
  "unit_bytes c = (if c < 128 then 1 else if c < 2048 then 2
     else if high_surrogate c \<or> low_surrogate c then 2 else 3)"

definition byte_length :: "jstring \<Rightarrow> nat" where
  "byte_length s = sum_list (map unit_bytes s)"

section \<open>The state\<close>

record candidate =
  cand_version :: jstring
  targetDigest :: jval
  severity :: jstring
  releaseNotes :: jstring

record update_state =
  installedVersion :: "jstring option"
  nextCheckAt :: "jstring option"
  consecutiveFailures :: nat
  offeredDigests :: "jstring list"
  acknowledgedDigests :: "jstring list"
  state_candidate :: "candidate option"

definition MAX_CACHE_STATE_BYTES :: nat where
  "MAX_CACHE_STATE_BYTES = 64 * 1024"

definition LONGEST_ISO_TIMESTAMP :: jstring where
  "LONGEST_ISO_TIMESTAMP = lit ''+275760-09-13T00:00:00.000Z''"

definition DIGEST_PREFIX :: jstring where
  "DIGEST_PREFIX = lit ''sha256:''"

definition digest_text :: "jstring \<Rightarrow> bool" where
  "digest_text s \<longleftrightarrow> take 7 s = DIGEST_PREFIX \<and> hex_text 64 (drop 7 s)"

definition digest_test :: "jval \<Rightarrow> bool" where
  "digest_test v \<longleftrightarrow> (case regex_subject v of None \<Rightarrow> False | Some s \<Rightarrow> digest_text s)"

definition emptyState :: "jstring option \<Rightarrow> update_state" where
  "emptyState installed = \<lparr>installedVersion = installed, nextCheckAt = None,
     consecutiveFailures = 0, offeredDigests = [], acknowledgedDigests = [],
     state_candidate = None\<rparr>"

text \<open>\<open>Array.includes\<close> compares without conversion.\<close>

definition digest_included :: "jstring list \<Rightarrow> jval \<Rightarrow> bool" where
  "digest_included ds v = (case v of JStr d \<Rightarrow> d \<in> set ds | _ \<Rightarrow> False)"

definition json_or_null :: "jstring option \<Rightarrow> jval" where
  "json_or_null t = (case t of None \<Rightarrow> JNull | Some s \<Rightarrow> JStr s)"

definition candidate_json :: "candidate \<Rightarrow> jval" where
  "candidate_json c = JObj [(lit ''version'', JStr (cand_version c)),
     (lit ''targetDigest'', targetDigest c), (lit ''severity'', JStr (severity c)),
     (lit ''releaseNotes'', JStr (releaseNotes c))]"

definition state_json :: "update_state \<Rightarrow> jval" where
  "state_json s = JObj ([(lit ''schemaVersion'', JNum 1), (lit ''skillId'', JStr SKILL_ID),
      (lit ''installedVersion'', json_or_null (installedVersion s)),
      (lit ''check'', JObj [(lit ''nextCheckAt'', json_or_null (nextCheckAt s)),
        (lit ''consecutiveFailures'', JNum (real (consecutiveFailures s)))]),
      (lit ''notification'', JObj
        [(lit ''offeredDigests'', JArr (map JStr (offeredDigests s))),
         (lit ''acknowledgedDigests'', JArr (map JStr (acknowledgedDigests s)))])]
     @ (case state_candidate s of None \<Rightarrow> [] | Some c \<Rightarrow> [(lit ''candidate'', candidate_json c)]))"

definition encodeBoundedState :: "update_state \<Rightarrow> jstring option" where
  "encodeBoundedState s = (let encoded = stringify (state_json s) @ [10] in
     if byte_length encoded \<le> MAX_CACHE_STATE_BYTES then Some encoded else None)"

definition stateAfterAcknowledgement :: "update_state \<Rightarrow> jstring \<Rightarrow> update_state" where
  "stateAfterAcknowledgement s d =
     s\<lparr>offeredDigests := filter (\<lambda>x. x \<noteq> d) (offeredDigests s),
       acknowledgedDigests := (if d \<in> set (acknowledgedDigests s) then acknowledgedDigests s
                               else acknowledgedDigests s @ [d])\<rparr>"

definition stateWithFailureCheck ::
  "update_state \<Rightarrow> jstring \<Rightarrow> nat \<Rightarrow> bool \<Rightarrow> update_state" where
  "stateWithFailureCheck s next failures withdraw =
     (let f = s\<lparr>nextCheckAt := Some next, consecutiveFailures := failures\<rparr> in
      if withdraw then f\<lparr>state_candidate := None\<rparr> else f)"

text \<open>The loop of \<open>encodeRecoverableState\<close> over the offered digests.\<close>

fun acknowledgements_fit :: "update_state \<Rightarrow> jstring list \<Rightarrow> bool" where
  "acknowledgements_fit s [] = True"
| "acknowledgements_fit s (d # ds) =
     (let s' = stateAfterAcknowledgement s d in
      encodeBoundedState s' \<noteq> None
      \<and> encodeBoundedState (stateWithFailureCheck s' LONGEST_ISO_TIMESTAMP 2 False) \<noteq> None
      \<and> acknowledgements_fit s' ds)"

definition encodeRecoverableState :: "update_state \<Rightarrow> jstring option" where
  "encodeRecoverableState s =
     (case encodeBoundedState s of
        None \<Rightarrow> None
      | Some encoded \<Rightarrow>
          if encodeBoundedState (stateWithFailureCheck s LONGEST_ISO_TIMESTAMP 2 False) = None
          then None
          else if \<not> acknowledgements_fit s (offeredDigests s) then None
          else Some encoded)"

section \<open>Reading a cached file\<close>

definition candidate_keys :: "jstring list" where
  "candidate_keys = [lit ''version'', lit ''targetDigest'', lit ''severity'', lit ''releaseNotes'']"

definition hasOnlyKeys :: "jval \<Rightarrow> jstring list \<Rightarrow> bool" where
  "hasOnlyKeys v allowed \<longleftrightarrow> list_all (\<lambda>k. k \<in> set allowed) (object_keys v)"

text \<open>Accepted fields are texts, but for a digest that only converts to one.\<close>

definition validateCachedCandidate :: "jval \<Rightarrow> candidate option" where
  "validateCachedCandidate v =
     (if \<not> is_plain_object v \<or> \<not> hasOnlyKeys v candidate_keys then None
      else if \<not> isStableCoreVersion (jget v (lit ''version'')) then None
      else if \<not> digest_test (jget v (lit ''targetDigest''))
        \<or> \<not> severity_ok (jget v (lit ''severity'')) then None
      else case validateReleaseNotesUrl (jget v (lit ''releaseNotes'')) (jget v (lit ''version'')) of
          Inl e \<Rightarrow> None
        | Inr u \<Rightarrow>
          (case (jget v (lit ''version''), jget v (lit ''severity''), jget v (lit ''releaseNotes'')) of
             (JStr ver, JStr sev, JStr notes) \<Rightarrow>
               Some \<lparr>cand_version = ver, targetDigest = jget v (lit ''targetDigest''),
                     severity = sev, releaseNotes = notes\<rparr>
           | _ \<Rightarrow> None))"

text \<open>The candidate a validated manifest stands for; the template text converts the digest.\<close>

definition validateManifest :: "jval \<Rightarrow> contract_error + candidate" where
  "validateManifest v =
     bindR (validateStableUpdateManifest v) (\<lambda>m.
       case (jget m (lit ''version''), regex_subject (jget (jget m (lit ''artifact'')) (lit ''sha256'')),
             jget m (lit ''severity''), jget m (lit ''releaseNotes'')) of
         (JStr ver, Some sha, JStr sev, JStr notes) \<Rightarrow>
           Inr \<lparr>cand_version = ver, targetDigest = JStr (DIGEST_PREFIX @ sha),
                severity = sev, releaseNotes = notes\<rparr>
       | _ \<Rightarrow> Inl InvalidStableIdentity)"

definition null_or_string :: "jval \<Rightarrow> bool" where
  "null_or_string v \<longleftrightarrow> v = JNull \<or> as_string v \<noteq> None"

definition safe_integer :: "jval \<Rightarrow> bool" where
  "safe_integer v \<longleftrightarrow> (case v of
     JNum x \<Rightarrow> x = real_of_int \<lfloor>x\<rfloor> \<and> \<bar>x\<bar> \<le> 2 ^ 53 - 1 | _ \<Rightarrow> False)"

definition nat_of_number :: "jval \<Rightarrow> nat" where
  "nat_of_number v = (case v of JNum x \<Rightarrow> nat \<lfloor>x\<rfloor> | _ \<Rightarrow> 0)"

definition digest_array :: "jval \<Rightarrow> jstring list option" where
  "digest_array v = (case v of
     JArr vs \<Rightarrow> (if list_all (\<lambda>x. case x of JStr d \<Rightarrow> digest_text d | _ \<Rightarrow> False) vs
               then Some (unique_list (List.map_filter as_string vs)) else None)
   | _ \<Rightarrow> None)"

definition state_shape :: "jval \<Rightarrow> jstring option \<Rightarrow> bool" where
  "state_shape v installed \<longleftrightarrow> is_plain_object v
     \<and> jget v (lit ''schemaVersion'') = JNum 1
     \<and> jget v (lit ''skillId'') = JStr SKILL_ID
     \<and> (case installed of None \<Rightarrow> True | Some t \<Rightarrow> jget v (lit ''installedVersion'') = JStr t)
     \<and> null_or_string (jget v (lit ''installedVersion''))
     \<and> is_plain_object (jget v (lit ''check''))
     \<and> null_or_string (jget (jget v (lit ''check'')) (lit ''nextCheckAt''))
     \<and> safe_integer (jget (jget v (lit ''check'')) (lit ''consecutiveFailures''))
     \<and> (case jget (jget v (lit ''check'')) (lit ''consecutiveFailures'') of
          JNum x \<Rightarrow> \<not> x < 0 | _ \<Rightarrow> False)
     \<and> is_plain_object (jget v (lit ''notification''))"

definition effective_version :: "jval \<Rightarrow> jstring option \<Rightarrow> jstring option" where
  "effective_version v installed =
     (case installed of Some t \<Rightarrow> Some t | None \<Rightarrow> as_string (jget v (lit ''installedVersion'')))"

definition parses :: "jstring option \<Rightarrow> bool" where
  "parses t = (case t of None \<Rightarrow> True
     | Some s \<Rightarrow> (case parseSemver (JStr s) of Inl _ \<Rightarrow> False | Inr _ \<Rightarrow> True))"

text \<open>An unseen candidate newer than the installation must have been offered or acknowledged.\<close>

definition candidate_unannounced :: "candidate \<Rightarrow> jstring option \<Rightarrow> update_state \<Rightarrow> bool" where
  "candidate_unannounced c version s \<longleftrightarrow>
     (case version of None \<Rightarrow> False
      | Some t \<Rightarrow> (case compareSemver (JStr (cand_version c)) (JStr t) of
                  Inr cmp \<Rightarrow> 0 < cmp | Inl _ \<Rightarrow> False))
     \<and> \<not> digest_included (offeredDigests s) (targetDigest c)
     \<and> \<not> digest_included (acknowledgedDigests s) (targetDigest c)"

definition with_candidate :: "jval \<Rightarrow> jstring option \<Rightarrow> update_state \<Rightarrow> update_state option" where
  "with_candidate v version s =
     (if lit ''candidate'' \<in> set (object_keys v) then
        (case validateCachedCandidate (jget v (lit ''candidate'')) of
           None \<Rightarrow> None
         | Some c \<Rightarrow> if candidate_unannounced c version s then None
                   else Some (s\<lparr>state_candidate := Some c\<rparr>))
      else Some s)"

definition normalizeState :: "jval \<Rightarrow> jstring option \<Rightarrow> update_state option" where
  "normalizeState v installed =
     (let version = effective_version v installed; chk = jget v (lit ''check'') in
      if \<not> state_shape v installed \<or> \<not> parses version then None
      else case (digest_array (jget (jget v (lit ''notification'')) (lit ''offeredDigests'')),
                 digest_array (jget (jget v (lit ''notification'')) (lit ''acknowledgedDigests''))) of
          (Some offered, Some acked) \<Rightarrow>
            (case with_candidate v version
                ((emptyState version)\<lparr>nextCheckAt := as_string (jget chk (lit ''nextCheckAt'')),
                   consecutiveFailures := nat_of_number (jget chk (lit ''consecutiveFailures'')),
                   offeredDigests := offered, acknowledgedDigests := acked\<rparr>) of
               None \<Rightarrow> None
             | Some s \<Rightarrow> if encodeRecoverableState s \<noteq> None then Some s else None)
        | _ \<Rightarrow> None)"

section \<open>The schedule\<close>

definition CHECK_TTL_MS :: real where "CHECK_TTL_MS = 72 * 60 * 60 * 1000"
definition MAX_CACHE_HORIZON_MS :: real where
  "MAX_CACHE_HORIZON_MS = of_int \<lceil>CHECK_TTL_MS * (12 / 10)\<rceil>"
definition FIRST_FAILURE_DELAY_MS :: real where "FIRST_FAILURE_DELAY_MS = 6 * 60 * 60 * 1000"
definition LATER_FAILURE_DELAY_MS :: real where "LATER_FAILURE_DELAY_MS = 24 * 60 * 60 * 1000"

text \<open>
  \<open>toISOString\<close> (a \<open>RangeError\<close> outside the time range, here \<open>None\<close>) and \<open>Date.parse\<close> are
  arguments: their texts for arbitrary instants are the platform's.
\<close>

text \<open>
  The random number is \<open>None\<close> when it is not a number; an infinite one is clamped like any
  number beyond the interval.
\<close>

type_synonym iso_printer = "real \<Rightarrow> jstring option"
type_synonym date_parser = "jstring \<Rightarrow> real option"

definition success_delay :: "jsnum \<Rightarrow> real" where
  "success_delay random =
     (let r = (case random of None \<Rightarrow> 0 | Some x \<Rightarrow> x); bounded = min 1 (max 0 r) in
      of_int (js_round (CHECK_TTL_MS * (8 / 10 + bounded * (4 / 10)))))"

definition nextSuccessfulCheck :: "iso_printer \<Rightarrow> real \<Rightarrow> jsnum \<Rightarrow> jstring option" where
  "nextSuccessfulCheck to_iso nowMs random = to_iso (nowMs + success_delay random)"

definition nextFailedCheck :: "iso_printer \<Rightarrow> real \<Rightarrow> nat \<Rightarrow> jstring option" where
  "nextFailedCheck to_iso nowMs failures =
     to_iso (nowMs + (if failures \<le> 1 then FIRST_FAILURE_DELAY_MS else LATER_FAILURE_DELAY_MS))"

definition stateAfterFailedCheck ::
  "iso_printer \<Rightarrow> update_state \<Rightarrow> real \<Rightarrow> bool \<Rightarrow> update_state option" where
  "stateAfterFailedCheck to_iso s nowMs withdraw =
     (let failures = min (consecutiveFailures s + 1) 2 in
      map_option (\<lambda>next. stateWithFailureCheck s next failures withdraw)
        (nextFailedCheck to_iso nowMs failures))"

section \<open>Results\<close>

datatype reason =
    CacheValid | Current | AlreadyNotified | CheckInProgress | CacheUnavailable
  | InvalidAcknowledgement | InvalidLocalRelease | InvalidClock | RuntimeUnavailable
  | InvalidManifest | CheckFailed | Disabled | InvalidArguments

datatype update_result =
    Silent reason
  | UpdateAvailable (ev_key: jstring) (ev_installed: jval) (ev_candidate: candidate)
  | Acknowledged jstring

definition EVENT_PREFIX :: jstring where
  "EVENT_PREFIX = SKILL_ID @ [64]"

definition eventKeyForDigest :: "jval \<Rightarrow> jstring" where
  "eventKeyForDigest v = EVENT_PREFIX @ (case regex_subject v of None \<Rightarrow> [] | Some d \<Rightarrow> d)"

definition digestForEventKey :: "jval \<Rightarrow> jstring option" where
  "digestForEventKey v = (case v of
     JStr k \<Rightarrow>
       if take (length EVENT_PREFIX) k \<noteq> EVENT_PREFIX then None
       else let d = drop (length EVENT_PREFIX) k in if digest_text d then Some d else None
   | _ \<Rightarrow> None)"

text \<open>\<open>release\<close> is the record \<open>validateLocalRelease\<close> returned.\<close>

definition release_notification :: "jval \<Rightarrow> candidate \<Rightarrow> update_result" where
  "release_notification release c =
     UpdateAvailable (eventKeyForDigest (targetDigest c)) (jget release (lit ''version'')) c"

definition resultForCandidate :: "jval \<Rightarrow> update_state \<Rightarrow> contract_error + update_result" where
  "resultForCandidate release s =
     (case state_candidate s of
        None \<Rightarrow> Inr (Silent CacheValid)
      | Some c \<Rightarrow>
          bindR (compareSemver (JStr (cand_version c)) (jget release (lit ''version''))) (\<lambda>cmp.
            Inr (if cmp \<le> 0 then Silent Current
                 else if digest_included (acknowledgedDigests s) (targetDigest c) then Silent AlreadyNotified
                 else release_notification release c)))"

definition freshStateResult ::
  "date_parser \<Rightarrow> jval \<Rightarrow> update_state \<Rightarrow> real \<Rightarrow> (contract_error + update_result) option" where
  "freshStateResult parse release s nowMs =
     (case parse (case nextCheckAt s of None \<Rightarrow> [] | Some t \<Rightarrow> t) of
        None \<Rightarrow> None
      | Some next \<Rightarrow>
          if nowMs < next \<and> next \<le> nowMs + MAX_CACHE_HORIZON_MS
          then Some (resultForCandidate release s) else None)"

end
