(* ===== verification/UpdateStateFacts.thy ===== *)
theory UpdateStateFacts
  imports UpdateState
begin

text \<open>
  The capacity argument behind \<open>encodeRecoverableState\<close>: the size of an encoded state splits
  into a frame and the two digest lists, so the check of one order of acknowledgements covers
  every order, and a recoverable state can always be acknowledged or marked as failed.
\<close>

section \<open>Sizes\<close>

lemma byte_length_simps [simp]:
  "byte_length [] = 0"
  "byte_length (c # s) = unit_bytes c + byte_length s"
  "byte_length (s @ t) = byte_length s + byte_length t"
  by (simp_all add: byte_length_def)

lemma byte_length_join:
  "byte_length (comma_join ps) = sum_list (map byte_length ps) + (length ps - 1)"
  unfolding comma_join_def
  by (induction ps rule: induct_list012) (simp_all add: unit_bytes_def)

definition plain_unit :: "nat \<Rightarrow> bool" where
  "plain_unit c \<longleftrightarrow> 32 \<le> c \<and> c < 127 \<and> c \<noteq> 34 \<and> c \<noteq> 92"

lemma escape_plain: "list_all plain_unit s \<Longrightarrow> escape_units s = s"
  by (induction s rule: escape_units.induct)
    (auto simp: plain_unit_def escape_unit_def high_surrogate_def low_surrogate_def)

lemma byte_length_plain: "list_all plain_unit s \<Longrightarrow> byte_length s = length s"
  by (induction s) (auto simp: plain_unit_def unit_bytes_def)

lemma quote_plain: "list_all plain_unit s \<Longrightarrow> byte_length (json_quote s) = length s + 2"
  by (simp add: json_quote_def escape_plain byte_length_plain unit_bytes_def)

lemma digest_plain: "digest_text d \<Longrightarrow> list_all plain_unit d \<and> length d = 71"
proof -
  assume d: "digest_text d"
  have "d = take 7 d @ drop 7 d" by simp
  moreover have "list_all plain_unit (take 7 d)"
    using d by (simp add: digest_text_def DIGEST_PREFIX_def lit_def plain_unit_def)
  moreover have "list_all plain_unit (drop 7 d)"
    using d by (auto simp: digest_text_def hex_text_def list_all_iff plain_unit_def
        is_lower_hex_def is_digit_def)
  ultimately have "list_all plain_unit d" by (metis list_all_append)
  moreover have "length d = 71"
  proof -
    have "length d - 7 = 64"
      using d by (simp add: digest_text_def hex_text_def)
    then show ?thesis by linarith
  qed
  ultimately show ?thesis by simp
qed

definition state_bytes :: "update_state \<Rightarrow> nat" where
  "state_bytes s = byte_length (stringify (state_json s))"

definition frame_bytes :: "update_state \<Rightarrow> nat" where
  "frame_bytes s = state_bytes (s\<lparr>offeredDigests := [], acknowledgedDigests := []\<rparr>)"

definition list_bytes :: "jstring list \<Rightarrow> nat" where
  "list_bytes ds = byte_length (comma_join (map json_quote ds))"

lemma stringify_digests: "map stringify (map JStr ds) = map json_quote ds"
  by simp

lemma state_bytes_split:
  "state_bytes s = frame_bytes s + list_bytes (offeredDigests s) + list_bytes (acknowledgedDigests s)"
  by (cases "state_candidate s")
    (simp_all add: state_bytes_def frame_bytes_def state_json_def list_bytes_def byte_length_join
      comma_join_def comp_def)

lemma list_bytes_digests:
  "list_all digest_text ds \<Longrightarrow> list_bytes ds = 73 * length ds + (length ds - 1)"
proof -
  assume ds: "list_all digest_text ds"
  then have "byte_length (json_quote d) = 73" if "d \<in> set ds" for d
    using that by (simp add: list_all_iff quote_plain [OF conjunct1 [OF digest_plain]] digest_plain)
  then have sizes: "map (\<lambda>d. byte_length (json_quote d)) ds = map (\<lambda>_. 73) ds"
    by (simp only: map_eq_conv) blast
  show ?thesis
    unfolding list_bytes_def byte_length_join map_map comp_def sizes by (simp add: sum_list_triv)
qed

section \<open>Acknowledging in any order\<close>

text \<open>Digest lists as \<open>normalizeState\<close> leaves them.\<close>

definition digests_ok :: "update_state \<Rightarrow> bool" where
  "digests_ok s \<longleftrightarrow> distinct (offeredDigests s) \<and> distinct (acknowledgedDigests s)
     \<and> list_all digest_text (offeredDigests s) \<and> list_all digest_text (acknowledgedDigests s)"

abbreviation acknowledge_all :: "update_state \<Rightarrow> jstring list \<Rightarrow> update_state" where
  "acknowledge_all \<equiv> foldl stateAfterAcknowledgement"

definition longest_failure :: "update_state \<Rightarrow> update_state" where
  "longest_failure s = stateWithFailureCheck s LONGEST_ISO_TIMESTAMP 2 False"

definition room :: "update_state \<Rightarrow> bool" where
  "room s \<longleftrightarrow> encodeBoundedState s \<noteq> None \<and> encodeBoundedState (longest_failure s) \<noteq> None"

lemma bounded_iff: "encodeBoundedState s \<noteq> None \<longleftrightarrow> state_bytes s < MAX_CACHE_STATE_BYTES"
  by (simp add: encodeBoundedState_def state_bytes_def Let_def unit_bytes_def Suc_le_eq)

lemma failure_lists [simp]:
  "offeredDigests (stateWithFailureCheck s n f w) = offeredDigests s"
  "acknowledgedDigests (stateWithFailureCheck s n f w) = acknowledgedDigests s"
  "installedVersion (stateWithFailureCheck s n f w) = installedVersion s"
  by (simp_all add: stateWithFailureCheck_def Let_def)

lemma acknowledge_frame [simp]:
  "frame_bytes (stateAfterAcknowledgement s d) = frame_bytes s"
  "frame_bytes (longest_failure (stateAfterAcknowledgement s d)) = frame_bytes (longest_failure s)"
  by (simp_all add: frame_bytes_def state_bytes_def state_json_def stateAfterAcknowledgement_def
      longest_failure_def stateWithFailureCheck_def Let_def)

lemma acknowledge_all_frame [simp]:
  "frame_bytes (acknowledge_all s ds) = frame_bytes s"
  "frame_bytes (longest_failure (acknowledge_all s ds)) = frame_bytes (longest_failure s)"
  by (induction ds arbitrary: s) simp_all

lemma longest_failure_lists [simp]:
  "offeredDigests (longest_failure s) = offeredDigests s"
  "acknowledgedDigests (longest_failure s) = acknowledgedDigests s"
  by (simp_all add: longest_failure_def)

definition payload :: "update_state \<Rightarrow> nat" where
  "payload s = list_bytes (offeredDigests s) + list_bytes (acknowledgedDigests s)"

lemma room_payload:
  "room s \<longleftrightarrow> frame_bytes s + payload s < MAX_CACHE_STATE_BYTES
     \<and> frame_bytes (longest_failure s) + payload s < MAX_CACHE_STATE_BYTES"
  unfolding room_def bounded_iff state_bytes_split payload_def by (simp add: add.assoc)

lemma all_up_to_Suc: "(\<forall>k \<le> Suc n. P k) \<longleftrightarrow> P 0 \<and> (\<forall>k \<le> n. P (Suc k))"
  by (metis le0 not0_implies_Suc Suc_le_mono)

lemma acknowledgements_fit_iff:
  "room s \<and> acknowledgements_fit s ds \<longleftrightarrow> (\<forall>k \<le> length ds. room (acknowledge_all s (take k ds)))"
proof (induction ds arbitrary: s)
  case (Cons d ds)
  have "acknowledgements_fit s (d # ds) \<longleftrightarrow>
      room (stateAfterAcknowledgement s d) \<and> acknowledgements_fit (stateAfterAcknowledgement s d) ds"
    unfolding acknowledgements_fit.simps Let_def room_def longest_failure_def by blast
  with Cons [of "stateAfterAcknowledgement s d"] show ?case
    unfolding list.size add_0_right add_Suc_right all_up_to_Suc by simp
qed simp

lemma recoverable_iff:
  "encodeRecoverableState s \<noteq> None \<longleftrightarrow>
     (\<forall>k \<le> length (offeredDigests s). room (acknowledge_all s (take k (offeredDigests s))))"
  unfolding acknowledgements_fit_iff [symmetric]
  by (auto simp: encodeRecoverableState_def room_def longest_failure_def split: option.splits)

lemma acknowledge_all_offered:
  "offeredDigests (acknowledge_all s ds) = filter (\<lambda>x. x \<notin> set ds) (offeredDigests s)"
  by (induction ds arbitrary: s) (auto simp: stateAfterAcknowledgement_def intro: filter_cong)

lemma acknowledge_all_acked:
  "set (acknowledgedDigests (acknowledge_all s ds)) = set (acknowledgedDigests s) \<union> set ds"
  by (induction ds arbitrary: s) (auto simp: stateAfterAcknowledgement_def)

lemma acknowledge_all_ok:
  "digests_ok s \<Longrightarrow> list_all digest_text ds \<Longrightarrow> digests_ok (acknowledge_all s ds)"
proof (induction ds arbitrary: s)
  case (Cons d ds)
  from Cons.prems have "digests_ok (stateAfterAcknowledgement s d)"
    by (simp add: digests_ok_def stateAfterAcknowledgement_def list_all_iff)
  with Cons show ?case by simp
qed simp

lemma payload_ok:
  assumes "digests_ok s"
  shows "payload s = 73 * length (offeredDigests s) + (length (offeredDigests s) - 1)
    + 73 * length (acknowledgedDigests s) + (length (acknowledgedDigests s) - 1)"
  using assms by (simp add: payload_def digests_ok_def list_bytes_digests)

text \<open>
  Acknowledging some but not all offered digests never makes the state larger: every digest
  moved from one list to the other takes a comma along.
\<close>

lemma payload_partial:
  assumes ok: "digests_ok s" and sub: "set ds \<subseteq> set (offeredDigests s)"
    and left: "\<not> set (offeredDigests s) \<subseteq> set ds"
  shows "payload (acknowledge_all s ds) \<le> payload s"
proof -
  let ?t = "acknowledge_all s ds"
  have ds: "list_all digest_text ds"
    using ok sub by (auto simp: digests_ok_def list_all_iff)
  have ok': "digests_ok ?t" by (rule acknowledge_all_ok [OF ok ds])
  let ?n = "length (offeredDigests s)" and ?a = "length (acknowledgedDigests s)"
  let ?n' = "length (offeredDigests ?t)" and ?a' = "length (acknowledgedDigests ?t)"
  have n: "?n' + card (set ds) = ?n"
  proof -
    have "?n' = card (set (offeredDigests s) - set ds)"
      using ok by (metis acknowledge_all_offered digests_ok_def distinct_card distinct_filter set_diff_eq set_filter)
    moreover have "card (set (offeredDigests s)) = ?n"
      using ok by (simp add: digests_ok_def distinct_card)
    ultimately show ?thesis
      using card_Diff_subset [OF finite_set sub] card_mono [OF finite_set sub] by simp
  qed
  have a: "?a' \<le> ?a + card (set ds)"
  proof -
    have "?a' = card (set (acknowledgedDigests s) \<union> set ds)"
      using ok' by (metis acknowledge_all_acked digests_ok_def distinct_card)
    also have "\<dots> \<le> card (set (acknowledgedDigests s)) + card (set ds)"
      by (rule card_Un_le)
    finally show ?thesis using ok by (simp add: digests_ok_def distinct_card)
  qed
  have "0 < ?n'"
    using left by (auto simp: acknowledge_all_offered filter_empty_conv)
  moreover have "card (set ds) = 0 \<Longrightarrow> ds = []" by simp
  ultimately show ?thesis
    using n a unfolding payload_ok [OF ok] payload_ok [OF ok'] by arith
qed

lemma payload_complete:
  assumes "digests_ok s" and "set ds = set es" and "list_all digest_text ds"
    and "set (offeredDigests s) \<subseteq> set ds"
  shows "payload (acknowledge_all s ds) = payload (acknowledge_all s es)"
proof -
  have es: "list_all digest_text es" using assms(2,3) by (auto simp: list_all_iff)
  have "length (acknowledgedDigests (acknowledge_all s xs)) = card (set (acknowledgedDigests s) \<union> set ds)"
    if "set xs = set ds" "list_all digest_text xs" for xs
    using acknowledge_all_ok [OF assms(1) that(2)] that(1)
    by (metis acknowledge_all_acked digests_ok_def distinct_card)
  moreover have "offeredDigests (acknowledge_all s xs) = []" if "set xs = set ds" for xs
    using that assms(4) by (auto simp: acknowledge_all_offered filter_empty_conv)
  ultimately show ?thesis
    using assms(2,3) es
    by (simp add: payload_ok [OF acknowledge_all_ok [OF assms(1)]])
qed

text \<open>One order was checked; every selection in every order has room.\<close>

lemma recoverable_room:
  assumes r: "encodeRecoverableState s \<noteq> None" and ok: "digests_ok s"
    and sub: "set ds \<subseteq> set (offeredDigests s)"
  shows "room (acknowledge_all s ds)"
proof (cases "set (offeredDigests s) \<subseteq> set ds")
  case False
  have "room s" using r recoverable_iff [of s] by (metis foldl_Nil le0 take0)
  with payload_partial [OF ok sub False] show ?thesis
    by (simp add: room_payload)
next
  case True
  with sub have same: "set ds = set (offeredDigests s)" by blast
  have "room (acknowledge_all s (offeredDigests s))"
    using r recoverable_iff [of s] by (metis order_refl take_all)
  moreover have "payload (acknowledge_all s ds) = payload (acknowledge_all s (offeredDigests s))"
    using ok same by (intro payload_complete) (auto simp: digests_ok_def list_all_iff)
  ultimately show ?thesis by (simp add: room_payload)
qed

lemma acknowledge_recoverable:
  assumes r: "encodeRecoverableState s \<noteq> None" and ok: "digests_ok s"
    and d: "d \<in> set (offeredDigests s)"
  shows "encodeRecoverableState (stateAfterAcknowledgement s d) \<noteq> None"
proof -
  let ?t = "stateAfterAcknowledgement s d"
  have "room (acknowledge_all ?t (take k (offeredDigests ?t)))" for k
  proof -
    have "set (take k (offeredDigests ?t)) \<subseteq> set (offeredDigests s)"
      using set_take_subset [of k "offeredDigests ?t"] by (auto simp: stateAfterAcknowledgement_def)
    then have "room (acknowledge_all s (d # take k (offeredDigests ?t)))"
      using d by (intro recoverable_room [OF r ok]) simp
    then show ?thesis by simp
  qed
  then show ?thesis unfolding recoverable_iff by simp
qed

section \<open>Failed checks\<close>

lemma acknowledge_failure:
  "acknowledge_all (stateWithFailureCheck s n f w) ds
     = stateWithFailureCheck (acknowledge_all s ds) n f w"
proof (induction ds arbitrary: s)
  case (Cons d ds)
  have "stateAfterAcknowledgement (stateWithFailureCheck s n f w) d
      = stateWithFailureCheck (stateAfterAcknowledgement s d) n f w"
    by (simp add: stateAfterAcknowledgement_def stateWithFailureCheck_def Let_def)
  with Cons show ?case by simp
qed simp

text \<open>What \<open>toISOString\<close> prints: at most 27 plain characters.\<close>

definition iso_text :: "jstring \<Rightarrow> bool" where
  "iso_text t \<longleftrightarrow> list_all plain_unit t \<and> length t \<le> 27"

lemma longest_iso: "list_all plain_unit LONGEST_ISO_TIMESTAMP" "length LONGEST_ISO_TIMESTAMP = 27"
  by (simp_all add: LONGEST_ISO_TIMESTAMP_def lit_def plain_unit_def)

lemma decimal_digit: "f < 10 \<Longrightarrow> decimal f = [48 + f]"
  by (simp add: decimal.simps)

lemma failure_frame:
  assumes "iso_text n" and "f \<le> 2"
  shows "frame_bytes (stateWithFailureCheck s n f w) \<le> frame_bytes (longest_failure s)"
proof -
  have q: "byte_length (json_quote n) \<le> byte_length (json_quote LONGEST_ISO_TIMESTAMP)"
    using assms(1) longest_iso by (simp add: iso_text_def quote_plain)
  have d: "byte_length (decimal f) = 1" "byte_length (decimal 2) = 1"
    using assms(2) by (simp_all add: decimal_digit unit_bytes_def)
  show ?thesis
    using q d by (cases "state_candidate s"; cases w)
      (simp_all add: frame_bytes_def state_bytes_def state_json_def longest_failure_def
        stateWithFailureCheck_def Let_def json_or_null_def comma_join_def)
qed

lemma longest_failure_twice:
  "longest_failure (stateWithFailureCheck s n f w) = stateWithFailureCheck s LONGEST_ISO_TIMESTAMP 2 w"
  by (cases s) (simp add: longest_failure_def stateWithFailureCheck_def Let_def)

lemma failure_room:
  assumes "iso_text n" and "f \<le> 2" and "room s"
  shows "room (stateWithFailureCheck s n f w)"
proof -
  have p: "payload (stateWithFailureCheck s n f w) = payload s"
    by (simp add: payload_def)
  have "frame_bytes (longest_failure (stateWithFailureCheck s n f w)) \<le> frame_bytes (longest_failure s)"
    using failure_frame [of LONGEST_ISO_TIMESTAMP 2 s w] longest_iso
    by (simp add: iso_text_def longest_failure_twice)
  with failure_frame [OF assms(1,2), of s w] assms(3) show ?thesis
    by (simp add: room_payload p)
qed

lemma failure_recoverable:
  assumes "encodeRecoverableState s \<noteq> None" and "iso_text n" and "f \<le> 2"
  shows "encodeRecoverableState (stateWithFailureCheck s n f w) \<noteq> None"
  using assms unfolding recoverable_iff by (simp add: acknowledge_failure failure_room)

end
