(* ===== verification/ManifestFacts.thy ===== *)
theory ManifestFacts
  imports UpdateContract "HOL-Library.Multiset"
begin

text \<open>
  Facts about the validators of \<open>UpdateContract\<close>: the NUL-joined key comparison, normal forms
  of accepted objects, and what acceptance of a manifest implies.
\<close>

section \<open>The joined-key comparison\<close>

lemma length_join: "length (join_with [c] ps) = sum_list (map length ps) + (length ps - 1)"
  by (induction ps rule: induct_list012) auto

lemma join_length_strict:
  assumes "mset ks = mset es + m" and "m \<noteq> {#}" and "es \<noteq> []"
  shows "length (join_with [c] es) < length (join_with [c] ks)"
proof -
  have sums: "sum_list (map length l) = \<Sum>\<^sub># (image_mset length (mset l))" for l :: "jstring list"
    by (simp add: sum_mset_sum_list mset_map [symmetric] del: mset_map)
  have "size (mset ks) = size (mset es) + size m"
    using assms(1) by simp
  then have "length es < length ks"
    using assms(2) by (simp add: nonempty_has_size)
  moreover have "sum_list (map length es) \<le> sum_list (map length ks)"
    unfolding sums assms(1) by simp
  ultimately show ?thesis
    using assms(3) by (cases es) (auto simp: length_join)
qed

text \<open>
  Where every expected key is known to be present, the comparison of the joined texts leaves no
  room for a further key, NUL or not.
\<close>

lemma hasExactKeys_present:
  assumes "hasExactKeys v es" and "set es \<subseteq> set (object_keys v)" and "distinct es" and "es \<noteq> []"
  shows "mset (object_keys v) = mset es"
proof -
  let ?ks = "object_keys v"
  have "mset es \<subseteq># mset ?ks"
  proof (rule mset_subset_eqI)
    fix x
    show "count (mset es) x \<le> count (mset ?ks) x"
      using assms(2,3) by (cases "x \<in> set es") (auto simp: distinct_count_atmost_1 Suc_le_eq)
  qed
  then obtain m where m: "mset ?ks = mset es + m"
    by (metis subset_mset.le_iff_add)
  then have "mset (sort ?ks) = mset (sort es) + m" by simp
  moreover have "length (join_with [0] (sort ?ks)) = length (join_with [0] (sort es))"
    using assms(1) by (simp add: hasExactKeys_def)
  ultimately have "m = {#}"
    using join_length_strict [of "sort ?ks" "sort es" m 0] assms(4)
    by (metis less_irrefl mset_sort mset_zero_iff)
  with m show ?thesis by simp
qed

lemma hasExactKeys_nul_free:
  assumes "\<forall>k \<in> set (object_keys v). 0 \<notin> set k" and "\<forall>k \<in> set es. 0 \<notin> set k"
    and "object_keys v \<noteq> []" and "es \<noteq> []"
  shows "hasExactKeys v es \<longleftrightarrow> is_plain_object v \<and> mset (object_keys v) = mset es"
proof -
  have ne: "sort (object_keys v) \<noteq> []" "sort es \<noteq> []"
    using assms(3,4) by (metis mset_sort mset_zero_iff)+
  have "join_with [0] (sort (object_keys v)) = join_with [0] (sort es) \<longleftrightarrow> sort (object_keys v) = sort es"
    (is "?join \<longleftrightarrow> _")
  proof
    assume ?join
    then have "split_on 0 (join_with [0] (sort (object_keys v))) = split_on 0 (join_with [0] (sort es))"
      by (rule arg_cong)
    moreover have "split_on 0 (join_with [0] (sort (object_keys v))) = sort (object_keys v)"
      using assms(1) by (intro split_join [OF ne(1)]) simp
    moreover have "split_on 0 (join_with [0] (sort es)) = sort es"
      using assms(2) by (intro split_join [OF ne(2)]) simp
    ultimately show "sort (object_keys v) = sort es" by simp
  qed simp
  also have "\<dots> \<longleftrightarrow> mset (object_keys v) = mset es"
  proof
    assume "sort (object_keys v) = sort es"
    from arg_cong [OF this, of mset] show "mset (object_keys v) = mset es" by simp
  next
    assume "mset (object_keys v) = mset es"
    then show "sort (object_keys v) = sort es"
      by (intro properties_for_sort) simp_all
  qed
  finally show ?thesis by (simp add: hasExactKeys_def)
qed

lemma jget_present: "jget v k \<noteq> JUndef \<Longrightarrow> k \<in> set (object_keys v)"
  by (cases v) (auto split: option.splits dest: map_of_SomeD intro: rev_image_eqI)

section \<open>Accepted manifests\<close>

lemmas manifest_parts = stable_identity_def Let_def result_iff validateStableUpdateManifest_def

lemma manifest_Inr:
  "validateStableUpdateManifest v = Inr w \<longleftrightarrow>
     stable_identity v
     \<and> (\<exists>u. validateCanonicalUtcTimestamp (jget v (lit ''publishedAt'')) = Inr u)
     \<and> summary_ok (jget v (lit ''summary''))
     \<and> (\<exists>u. validateReleaseNotesUrl (jget v (lit ''releaseNotes'')) (jget v (lit ''version'')) = Inr u)
     \<and> severity_ok (jget v (lit ''severity'')) \<and> w = manifest_object v"
  by (auto simp: validateStableUpdateManifest_def result_iff)

lemma stable_core_string: "isStableCoreVersion v \<Longrightarrow> \<exists>s. v = JStr s"
  by (cases v) (auto simp: isStableCoreVersion_def parseSemver_def)

lemma manifest_present:
  assumes "validateStableUpdateManifest v = Inr w" and "k \<in> set manifest_keys"
  shows "jget v k \<noteq> JUndef"
proof -
  have t: "jget v (lit ''publishedAt'') \<noteq> JUndef" "jget v (lit ''summary'') \<noteq> JUndef"
    "jget v (lit ''severity'') \<noteq> JUndef"
    using assms(1) by (auto simp: manifest_Inr timestamp_accepted_iff summary_ok_def severity_ok_def
        split: jval.splits)
  have n: "jget v (lit ''releaseNotes'') \<noteq> JUndef"
    using assms(1) by (auto simp: manifest_Inr validateReleaseNotesUrl_def split: jval.splits if_splits)
  have i: "stable_identity v" using assms(1) by (simp add: manifest_Inr)
  have o: "jget v (lit ''source'') \<noteq> JUndef" "jget v (lit ''artifact'') \<noteq> JUndef"
    using i by (auto simp: stable_identity_def Let_def hasExactKeys_def)
  have "jget v (lit ''version'') \<noteq> JUndef"
    using i stable_core_string by (fastforce simp: stable_identity_def)
  with t n o i assms(2) show ?thesis
    by (auto simp: manifest_keys_def stable_identity_def)
qed

lemma manifest_keys_distinct: "distinct manifest_keys" "manifest_keys \<noteq> []"
  by (simp_all add: manifest_keys_def)

lemma manifest_exact_keys:
  assumes "validateStableUpdateManifest v = Inr w"
  shows "mset (object_keys v) = mset manifest_keys"
proof (rule hasExactKeys_present)
  show "hasExactKeys v manifest_keys"
    using assms by (simp add: manifest_Inr stable_identity_def)
  show "set manifest_keys \<subseteq> set (object_keys v)"
    using manifest_present [OF assms] jget_present by blast
qed (fact manifest_keys_distinct)+

lemma jget_manifest_object:
  "k \<in> set manifest_keys \<Longrightarrow> k \<noteq> lit ''source'' \<Longrightarrow> k \<noteq> lit ''artifact'' \<Longrightarrow>
   jget (manifest_object v) k = jget v k"
  by (auto simp: manifest_keys_def manifest_object_def)

lemma manifest_object_normal:
  assumes "validateStableUpdateManifest v = Inr w"
  shows "validateStableUpdateManifest w = Inr w"
proof -
  from assms have w: "w = manifest_object v" by (simp add: manifest_Inr)
  have keys: "object_keys w = manifest_keys"
    by (simp add: w manifest_object_def manifest_keys_def)
  have same: "jget w k = jget v k"
    if "k \<in> set manifest_keys" "k \<noteq> lit ''source''" "k \<noteq> lit ''artifact''" for k
    using that by (simp add: w jget_manifest_object)
  have src: "jget (jget w (lit ''source'')) k = jget (jget v (lit ''source'')) k"
    if "k \<in> {lit ''repository'', lit ''ref'', lit ''treeSha''}" for k
    using that by (auto simp: w manifest_object_def)
  have art: "jget (jget w (lit ''artifact'')) (lit ''sha256'')
      = jget (jget v (lit ''artifact'')) (lit ''sha256'')"
    by (simp add: w manifest_object_def)
  have shape: "hasExactKeys w manifest_keys"
    "hasExactKeys (jget w (lit ''source'')) [lit ''repository'', lit ''ref'', lit ''treeSha'']"
    "hasExactKeys (jget w (lit ''artifact'')) [lit ''sha256'']"
    by (simp_all add: hasExactKeys_def keys) (simp_all add: w manifest_object_def)
  have obj: "manifest_object w = w"
    by (simp add: w manifest_object_def)
  show ?thesis
    using assms same src art shape obj
    by (auto simp: manifest_Inr stable_identity_def Let_def manifest_keys_def)
qed

section \<open>The local release\<close>

lemma local_Inr:
  "validateLocalRelease v = Inr w \<longleftrightarrow>
     local_identity v
     \<and> (\<exists>e. releaseChannelForVersion (jget v (lit ''version'')) = Inr e
           \<and> jget v (lit ''channel'') = JStr e)
     \<and> w = local_release_object v"
  by (auto simp: validateLocalRelease_def result_iff)

lemma local_release_version:
  assumes "validateLocalRelease v = Inr w"
  shows "\<exists>s p. jget w (lit ''version'') = JStr s \<and> parseSemver (JStr s) = Inr p
    \<and> jget w (lit ''channel'')
        = JStr (if prerelease p = None then lit ''stable'' else lit ''development'')
    \<and> jget w (lit ''updateManifestUrl'') = JStr DEFAULT_MANIFEST_URL"
proof -
  from assms obtain p where p: "parseSemver (jget v (lit ''version'')) = Inr p"
    and c: "jget v (lit ''channel'')
        = JStr (if prerelease p = None then lit ''stable'' else lit ''development'')"
    and w: "w = local_release_object v" and i: "local_identity v"
    by (auto simp: local_Inr releaseChannelForVersion_def result_iff split: if_splits)
  from p obtain s where "jget v (lit ''version'') = JStr s"
    by (auto simp: parseSemver_Inr)
  with p c w i show ?thesis
    by (auto simp: local_release_object_def local_identity_def)
qed

end
