(* ===== verification/CacheFile.thy ===== *)
theory CacheFile
  imports UpdateStateFacts ManifestFacts
begin

text \<open>
  The cached file as \<open>normalizeState\<close> reads it back: normal states are exactly its results, and
  writing one and reading it again gives the same state.  Then the schedule of the next check.
\<close>

section \<open>Normal states\<close>

definition normal_candidate :: "candidate \<Rightarrow> bool" where
  "normal_candidate c \<longleftrightarrow> validateCachedCandidate (candidate_json c) = Some c"

definition normal_state :: "update_state \<Rightarrow> bool" where
  "normal_state s \<longleftrightarrow> parses (installedVersion s) \<and> real (consecutiveFailures s) \<le> 2 ^ 53 - 1
     \<and> digests_ok s
     \<and> (case state_candidate s of None \<Rightarrow> True
        | Some c \<Rightarrow> normal_candidate c \<and> \<not> candidate_unannounced c (installedVersion s) s)
     \<and> encodeRecoverableState s \<noteq> None"

lemma jget_state_json:
  "jget (state_json s) (lit ''schemaVersion'') = JNum 1"
  "jget (state_json s) (lit ''skillId'') = JStr SKILL_ID"
  "jget (state_json s) (lit ''installedVersion'') = json_or_null (installedVersion s)"
  "jget (state_json s) (lit ''check'') = JObj [(lit ''nextCheckAt'', json_or_null (nextCheckAt s)),
        (lit ''consecutiveFailures'', JNum (real (consecutiveFailures s)))]"
  "jget (state_json s) (lit ''notification'') = JObj
        [(lit ''offeredDigests'', JArr (map JStr (offeredDigests s))),
         (lit ''acknowledgedDigests'', JArr (map JStr (acknowledgedDigests s)))]"
  "jget (state_json s) (lit ''candidate'')
     = (case state_candidate s of None \<Rightarrow> JUndef | Some c \<Rightarrow> candidate_json c)"
  "lit ''candidate'' \<in> set (object_keys (state_json s)) \<longleftrightarrow> state_candidate s \<noteq> None"
  "is_plain_object (state_json s)"
  by (cases "state_candidate s"; simp add: state_json_def lit_def)+

lemma as_string_or_null [simp]: "as_string (json_or_null t) = t"
  by (cases t) (simp_all add: json_or_null_def)

lemma digest_array_strings:
  assumes "list_all digest_text ds" and "distinct ds"
  shows "digest_array (JArr (map JStr ds)) = Some ds"
proof -
  have "List.map_filter as_string (map JStr ds) = ds"
    by (induction ds) (simp_all add: List.map_filter_def)
  with assms show ?thesis
    by (simp add: digest_array_def list_all_iff unique_list_idem)
qed

lemma digest_array_Some:
  "digest_array v = Some ds \<Longrightarrow> distinct ds \<and> list_all digest_text ds"
  by (cases v) (auto simp: digest_array_def list_all_iff List.map_filter_def split: if_splits jval.splits)

lemma with_candidate_json:
  "with_candidate (state_json s) version t =
     (case state_candidate s of None \<Rightarrow> Some t
      | Some c \<Rightarrow> (case validateCachedCandidate (candidate_json c) of None \<Rightarrow> None
          | Some d \<Rightarrow> if candidate_unannounced d version t then None
                    else Some (t\<lparr>state_candidate := Some d\<rparr>)))"
  unfolding with_candidate_def jget_state_json by (cases "state_candidate s") simp_all

lemma candidate_unannounced_lists:
  "candidate_unannounced c version s \<longleftrightarrow> candidate_unannounced c version
     ((emptyState version)\<lparr>offeredDigests := offeredDigests s, acknowledgedDigests := acknowledgedDigests s\<rparr>)"
  by (simp add: candidate_unannounced_def)

lemma normal_state_fixed:
  assumes n: "normal_state s" and i: "installed = None \<or> installed = installedVersion s"
  shows "normalizeState (state_json s) installed = Some s"
proof -
  have version: "effective_version (state_json s) installed = installedVersion s"
    using i by (auto simp: effective_version_def jget_state_json split: option.splits)
  have shape: "state_shape (state_json s) installed"
    using n i by (auto simp: state_shape_def jget_state_json null_or_string_def safe_integer_def
        normal_state_def json_or_null_def split: option.splits)
  have lists: "digest_array (JArr (map JStr (offeredDigests s))) = Some (offeredDigests s)"
    "digest_array (JArr (map JStr (acknowledgedDigests s))) = Some (acknowledgedDigests s)"
    using n by (auto simp: normal_state_def digests_ok_def intro!: digest_array_strings)
  let ?t = "(emptyState (installedVersion s))\<lparr>nextCheckAt := nextCheckAt s,
      consecutiveFailures := consecutiveFailures s, offeredDigests := offeredDigests s,
      acknowledgedDigests := acknowledgedDigests s\<rparr>"
  have "with_candidate (state_json s) (installedVersion s) ?t = Some s"
  proof (cases "state_candidate s")
    case (Some c)
    with n show ?thesis
      by (simp add: with_candidate_json normal_state_def normal_candidate_def candidate_unannounced_def
          emptyState_def)
  qed (simp add: with_candidate_json emptyState_def)
  with n shape version lists show ?thesis
    by (simp add: normalizeState_def jget_state_json Let_def normal_state_def nat_of_number_def)
qed

lemma cached_candidate_normal:
  assumes "validateCachedCandidate v = Some c"
  shows "normal_candidate c"
  using assms unfolding normal_candidate_def
  by (auto simp: validateCachedCandidate_def candidate_json_def hasOnlyKeys_def candidate_keys_def
      split: if_splits sum.splits jval.splits)

lemma normalizeState_normal:
  assumes "normalizeState v installed = Some s"
  shows "normal_state s"
proof -
  let ?chk = "jget v (lit ''check'')"
  obtain offered acked t where p: "parses (effective_version v installed)"
    and sh: "state_shape v installed"
    and o: "digest_array (jget (jget v (lit ''notification'')) (lit ''offeredDigests'')) = Some offered"
    and a: "digest_array (jget (jget v (lit ''notification'')) (lit ''acknowledgedDigests'')) = Some acked"
    and t: "t = (emptyState (effective_version v installed))\<lparr>
        nextCheckAt := as_string (jget ?chk (lit ''nextCheckAt'')),
        consecutiveFailures := nat_of_number (jget ?chk (lit ''consecutiveFailures'')),
        offeredDigests := offered, acknowledgedDigests := acked\<rparr>"
    and w: "with_candidate v (effective_version v installed) t = Some s"
    and r: "encodeRecoverableState s \<noteq> None"
    using assms unfolding normalizeState_def Let_def
    by (auto split: if_splits option.splits)
  have f: "real (nat_of_number (jget ?chk (lit ''consecutiveFailures''))) \<le> 2 ^ 53 - 1"
    using sh by (auto simp: state_shape_def safe_integer_def nat_of_number_def split: jval.splits)
  have fields: "installedVersion s = effective_version v installed" "offeredDigests s = offered"
    "acknowledgedDigests s = acked"
    "consecutiveFailures s = nat_of_number (jget ?chk (lit ''consecutiveFailures''))"
    and c: "case state_candidate s of None \<Rightarrow> True | Some c \<Rightarrow> normal_candidate c
       \<and> \<not> candidate_unannounced c (installedVersion s) s"
    using w unfolding with_candidate_def t
    by (auto simp: emptyState_def candidate_unannounced_def cached_candidate_normal
        split: if_splits option.splits)
  show ?thesis
    using p f c r digest_array_Some [OF o] digest_array_Some [OF a]
    by (simp add: normal_state_def fields digests_ok_def)
qed

end
