(* ===== verification/UpdateCheck.thy ===== *)
theory UpdateCheck
  imports CacheFile
begin

text \<open>
  The decisions of \<open>checkForUpdate\<close>, \<open>acknowledgeUpdate\<close> and \<open>commitOperation\<close> in
  \<open>scripts/check-update.mjs\<close>.  What the file system, the clock and the network answer is a record
  of answers, one field per call in the order of the calls; a call that throws answers \<open>None\<close>.
\<close>

section \<open>Mutations of the cached state\<close>

datatype mutation_error = ContractFailure contract_error | InvalidTime

record decision =
  dec_state :: "update_state option"
  dec_result :: update_result
  dec_fallback :: "(update_state \<times> update_result) option"

definition in_time :: "'a option \<Rightarrow> mutation_error + 'a" where
  "in_time t = (case t of None \<Rightarrow> Inl InvalidTime | Some x \<Rightarrow> Inr x)"

definition contract :: "contract_error + 'a \<Rightarrow> mutation_error + 'a" where
  "contract r = (case r of Inl e \<Rightarrow> Inl (ContractFailure e) | Inr x \<Rightarrow> Inr x)"

definition push_digest :: "jstring list \<Rightarrow> jval \<Rightarrow> jstring list" where
  "push_digest ds v = (if digest_included ds v then ds
     else ds @ (case v of JStr d \<Rightarrow> [d] | _ \<Rightarrow> []))"

text \<open>The mutation of a check whose manifest was fetched.\<close>

definition successful_check ::
  "iso_printer \<Rightarrow> jval \<Rightarrow> candidate \<Rightarrow> real \<Rightarrow> jsnum \<Rightarrow> update_state \<Rightarrow> mutation_error + decision" where
  "successful_check to_iso release fetched nowMs random current =
     bindR (in_time (nextSuccessfulCheck to_iso nowMs random)) (\<lambda>next_at.
       let next = current\<lparr>state_candidate := Some fetched, nextCheckAt := Some next_at,
                          consecutiveFailures := 0\<rparr> in
       bindR (contract (resultForCandidate release next)) (\<lambda>result.
         bindR (in_time (stateAfterFailedCheck to_iso current nowMs True)) (\<lambda>fallback.
           Inr \<lparr>dec_state = Some (case result of
                   UpdateAvailable _ _ _ \<Rightarrow>
                     next\<lparr>offeredDigests := push_digest (offeredDigests next) (targetDigest fetched)\<rparr>
                 | _ \<Rightarrow> next),
                dec_result = result,
                dec_fallback = Some (fallback, Silent CacheUnavailable)\<rparr>)))"

definition failed_check ::
  "iso_printer \<Rightarrow> reason \<Rightarrow> real \<Rightarrow> update_state \<Rightarrow> mutation_error + decision" where
  "failed_check to_iso reason nowMs current =
     bindR (in_time (stateAfterFailedCheck to_iso current nowMs False)) (\<lambda>next.
       Inr \<lparr>dec_state = Some next, dec_result = Silent reason, dec_fallback = None\<rparr>)"

definition acknowledgement :: "jstring \<Rightarrow> jstring \<Rightarrow> update_state \<Rightarrow> mutation_error + decision" where
  "acknowledgement eventKey d s =
     Inr (if d \<notin> set (offeredDigests s) \<and> d \<notin> set (acknowledgedDigests s)
          then \<lparr>dec_state = None, dec_result = Silent InvalidAcknowledgement, dec_fallback = None\<rparr>
          else \<lparr>dec_state = Some (stateAfterAcknowledgement s d), dec_result = Acknowledged eventKey,
                dec_fallback = None\<rparr>)"

section \<open>commitOperation\<close>

text \<open>What is written under the operation's directory, and the result of the commit.\<close>

datatype commit_plan = Cancel update_result | Write jstring update_state update_result

definition plan_commit :: "decision \<Rightarrow> commit_plan" where
  "plan_commit d =
     (case dec_state d of
        None \<Rightarrow> Cancel (dec_result d)
      | Some s \<Rightarrow>
          (case encodeRecoverableState s of
             Some text \<Rightarrow> Write text s (dec_result d)
           | None \<Rightarrow>
               (case dec_fallback d of
                  None \<Rightarrow> Cancel (Silent CacheUnavailable)
                | Some (f, r) \<Rightarrow>
                    (case encodeRecoverableState f of
                       Some text \<Rightarrow> Write text f r
                     | None \<Rightarrow> Cancel (Silent CacheUnavailable)))))"

datatype write_answer = Written | WriteFenced | WriteFailed

record commit_answers =
  owns_before_fencing :: "bool option"
  lower_fenced :: "unit option"
  owns_after_fencing :: "bool option"
  committed_state :: "update_state option"
  cancelled :: "unit option"
  written :: write_answer

record commit_outcome =
  fenced :: bool
  commit_result :: update_result
  commit_write :: "update_state option"

definition outcome :: "bool \<Rightarrow> update_result \<Rightarrow> update_state option \<Rightarrow> commit_outcome" where
  "outcome f r w = \<lparr>fenced = f, commit_result = r, commit_write = w\<rparr>"

definition lost_claim :: "commit_answers \<Rightarrow> commit_outcome option" where
  "lost_claim a = map_option (\<lambda>_. outcome True (Silent CheckInProgress) None) (cancelled a)"

definition commitOperation ::
  "commit_answers \<Rightarrow> (update_state \<Rightarrow> mutation_error + decision) \<Rightarrow> commit_outcome option" where
  "commitOperation a mutate =
     (case owns_before_fencing a of None \<Rightarrow> None
      | Some False \<Rightarrow> lost_claim a
      | Some True \<Rightarrow>
     (case lower_fenced a of None \<Rightarrow> None | Some _ \<Rightarrow>
     (case owns_after_fencing a of None \<Rightarrow> None
      | Some False \<Rightarrow> lost_claim a
      | Some True \<Rightarrow>
     (case committed_state a of None \<Rightarrow> None | Some current \<Rightarrow>
     (case mutate current of Inl e \<Rightarrow> None | Inr d \<Rightarrow>
     (case plan_commit d of
        Cancel r \<Rightarrow> map_option (\<lambda>_. outcome False r None) (cancelled a)
      | Write text s r \<Rightarrow>
          (case written a of
             Written \<Rightarrow> Some (outcome False r (Some s))
           | WriteFenced \<Rightarrow> Some (outcome True (Silent CheckInProgress) None)
           | WriteFailed \<Rightarrow> None)))))))"

section \<open>checkForUpdate\<close>

record check_answers =
  fetch_callable :: bool
  release_file :: "jval option"
  clock :: jsnum
  first_read :: "update_state option"
  acquired :: "bool option"
  waiting_read :: "update_state option"
  second_read :: "update_state option"
  raced_cancel :: "unit option"
  owns_first :: "bool option"
  token_verified :: "unit option"
  owns_second :: "bool option"
  losing_read :: "update_state option"
  fetched_candidate :: "reason + candidate"
  random_draw :: jsnum
  check_commit :: commit_answers

text \<open>The cached result offered while another operation holds the claim.\<close>

definition cached_offer :: "jval \<Rightarrow> update_state \<Rightarrow> contract_error + update_result" where
  "cached_offer release s =
     (case state_candidate s of
        Some c \<Rightarrow> if digest_included (offeredDigests s) (targetDigest c)
                  then resultForCandidate release s else Inr (Silent CheckInProgress)
      | None \<Rightarrow> Inr (Silent CheckInProgress))"

definition or_unavailable :: "contract_error + update_result \<Rightarrow> update_result" where
  "or_unavailable r = (case r of Inl _ \<Rightarrow> Silent CacheUnavailable | Inr x \<Rightarrow> x)"

definition committed_result :: "commit_outcome option \<Rightarrow> update_result" where
  "committed_result c = (case c of None \<Rightarrow> Silent CacheUnavailable | Some o1 \<Rightarrow> commit_result o1)"

definition resultAfterLosingOperation :: "check_answers \<Rightarrow> jval \<Rightarrow> update_result" where
  "resultAfterLosingOperation a release =
     (case (raced_cancel a, losing_read a) of
        (Some _, Some s) \<Rightarrow> or_unavailable (cached_offer release s)
      | _ \<Rightarrow> Silent CacheUnavailable)"

definition commit_check ::
  "iso_printer \<Rightarrow> check_answers \<Rightarrow> jval \<Rightarrow> real \<Rightarrow> commit_outcome option" where
  "commit_check to_iso a release nowMs =
     commitOperation (check_commit a)
       (case fetched_candidate a of
          Inl reason \<Rightarrow> failed_check to_iso reason nowMs
        | Inr c \<Rightarrow> successful_check to_iso release c nowMs (random_draw a))"

definition check_with_operation ::
  "iso_printer \<Rightarrow> date_parser \<Rightarrow> check_answers \<Rightarrow> jval \<Rightarrow> real \<Rightarrow> update_result" where
  "check_with_operation to_iso parse a release nowMs =
     (case second_read a of None \<Rightarrow> Silent CacheUnavailable | Some s \<Rightarrow>
     (case freshStateResult parse release s nowMs of
        Some raced \<Rightarrow> (case raced_cancel a of None \<Rightarrow> Silent CacheUnavailable
                      | Some _ \<Rightarrow> or_unavailable raced)
      | None \<Rightarrow>
     (case owns_first a of None \<Rightarrow> Silent CacheUnavailable
      | Some False \<Rightarrow> resultAfterLosingOperation a release
      | Some True \<Rightarrow>
     (case token_verified a of None \<Rightarrow> Silent CacheUnavailable | Some _ \<Rightarrow>
     (case owns_second a of None \<Rightarrow> Silent CacheUnavailable
      | Some False \<Rightarrow> resultAfterLosingOperation a release
      | Some True \<Rightarrow> committed_result (commit_check to_iso a release nowMs))))))"

text \<open>A contract error outside the guarded part rejects the promise.\<close>

definition checkForUpdate ::
  "iso_printer \<Rightarrow> date_parser \<Rightarrow> check_answers \<Rightarrow> contract_error + update_result" where
  "checkForUpdate to_iso parse a =
     (if \<not> fetch_callable a then Inr (Silent RuntimeUnavailable)
      else case map_option validateLocalRelease (release_file a) of
        Some (Inr release) \<Rightarrow>
          (case clock a of None \<Rightarrow> Inr (Silent InvalidClock) | Some nowMs \<Rightarrow>
          (case first_read a of None \<Rightarrow> Inr (Silent CacheUnavailable) | Some s \<Rightarrow>
          (case freshStateResult parse release s nowMs of
             Some cached \<Rightarrow> cached
           | None \<Rightarrow>
          (case acquired a of None \<Rightarrow> Inr (Silent CacheUnavailable)
           | Some False \<Rightarrow>
               (case waiting_read a of None \<Rightarrow> Inr (Silent CacheUnavailable)
                | Some w \<Rightarrow> Inr (or_unavailable (cached_offer release w)))
           | Some True \<Rightarrow> Inr (check_with_operation to_iso parse a release nowMs)))))
      | _ \<Rightarrow> Inr (Silent InvalidLocalRelease))"

section \<open>acknowledgeUpdate\<close>

text \<open>
  One entry per round of the retry loop: whether an operation was acquired, what the commit
  answered, and whether the deadline leaves time for a further round.  The loop has no other
  bound than the deadline; \<open>None\<close> is a loop that ran out of answers.
\<close>

record ack_round =
  ack_acquired :: "bool option"
  ack_commit :: commit_answers
  may_retry :: bool

fun ack_rounds :: "jstring \<Rightarrow> jstring \<Rightarrow> ack_round list \<Rightarrow> update_result option" where
  "ack_rounds key d [] = None"
| "ack_rounds key d (r # rs) =
     (case ack_acquired r of
        None \<Rightarrow> Some (Silent CacheUnavailable)
      | Some False \<Rightarrow> if may_retry r then ack_rounds key d rs else Some (Silent CheckInProgress)
      | Some True \<Rightarrow>
          (case commitOperation (ack_commit r) (acknowledgement key d) of
             None \<Rightarrow> Some (Silent CacheUnavailable)
           | Some c \<Rightarrow>
               if \<not> fenced c then Some (commit_result c)
               else if may_retry r then ack_rounds key d rs else Some (Silent CheckInProgress)))"

definition acknowledgeUpdate ::
  "jval \<Rightarrow> bool \<Rightarrow> jval option \<Rightarrow> unit option \<Rightarrow> jsnum \<Rightarrow> ack_round list \<Rightarrow> update_result option" where
  "acknowledgeUpdate eventKey clock_callable release_text dir deadline rounds =
     (case digestForEventKey eventKey of None \<Rightarrow> Some (Silent InvalidAcknowledgement)
      | Some d \<Rightarrow>
          if \<not> clock_callable then Some (Silent InvalidAcknowledgement)
          else (case map_option validateLocalRelease release_text of
             Some (Inr release) \<Rightarrow>
               if dir = None then Some (Silent CacheUnavailable)
               else if deadline = None then Some (Silent InvalidAcknowledgement)
               else ack_rounds (case eventKey of JStr k \<Rightarrow> k | _ \<Rightarrow> []) d rounds
           | _ \<Rightarrow> Some (Silent InvalidLocalRelease)))"

section \<open>The command line\<close>

datatype cli_call = CliCheck | CliAck jstring | CliResult update_result

definition runCli :: "jstring option \<Rightarrow> jstring list \<Rightarrow> cli_call" where
  "runCli flag args =
     (if flag = Some (lit ''1'') then CliResult (Silent Disabled)
      else case args of
        [] \<Rightarrow> CliCheck
      | [a, key] \<Rightarrow> if a = lit ''--ack'' then CliAck key else CliResult (Silent InvalidArguments)
      | _ \<Rightarrow> CliResult (Silent InvalidArguments))"

end
