(* ===== verification/UpdateCheckFacts.thy ===== *)
theory UpdateCheckFacts
  imports UpdateCheck
begin

text \<open>
  What the decisions of \<open>UpdateCheck\<close> keep and promise: a committed state is normal, a check that
  reaches its commit always has a state to write, a notification names a strictly newer version
  and can be acknowledged, and an acknowledged digest is not announced again.
\<close>

section \<open>Normal states under the mutations\<close>

lemma option_not_None: "x \<noteq> None \<Longrightarrow> \<exists>y. x = Some y"
  by simp

lemma normal_recoverable: "normal_state s \<Longrightarrow> encodeRecoverableState s \<noteq> None"
  by (simp add: normal_state_def)

lemma unannounced_acknowledgement:
  assumes "\<not> candidate_unannounced c v s"
  shows "\<not> candidate_unannounced c v (stateAfterAcknowledgement s d)"
  using assms
  by (auto simp: candidate_unannounced_def stateAfterAcknowledgement_def digest_included_def
      split: jval.splits)

lemma acknowledgement_normal:
  assumes n: "normal_state s" and d: "d \<in> set (offeredDigests s) \<or> d \<in> set (acknowledgedDigests s)"
  shows "normal_state (stateAfterAcknowledgement s d)"
proof -
  have ok: "digests_ok s" using n by (simp add: normal_state_def)
  have dt: "digest_text d" using ok d by (auto simp: digests_ok_def list_all_iff)
  have ok': "digests_ok (stateAfterAcknowledgement s d)"
    using acknowledge_all_ok [OF ok, of "[d]"] dt by simp
  have r: "encodeRecoverableState (stateAfterAcknowledgement s d) \<noteq> None"
  proof (cases "d \<in> set (offeredDigests s)")
    case True
    then show ?thesis by (rule acknowledge_recoverable [OF normal_recoverable [OF n] ok])
  next
    case False
    then have "filter (\<lambda>x. x \<noteq> d) (offeredDigests s) = offeredDigests s"
      by (auto simp: filter_id_conv)
    with False d have "stateAfterAcknowledgement s d = s"
      by (simp add: stateAfterAcknowledgement_def)
    with normal_recoverable [OF n] show ?thesis by simp
  qed
  have same: "installedVersion (stateAfterAcknowledgement s d) = installedVersion s"
    "state_candidate (stateAfterAcknowledgement s d) = state_candidate s"
    "consecutiveFailures (stateAfterAcknowledgement s d) = consecutiveFailures s"
    by (simp_all add: stateAfterAcknowledgement_def)
  show ?thesis
    using n ok' r unannounced_acknowledgement unfolding normal_state_def same
    by (auto split: option.splits)
qed

lemma failure_normal:
  assumes n: "normal_state s" and "iso_text t" and "f \<le> 2"
  shows "normal_state (stateWithFailureCheck s t f w)"
proof -
  have r: "encodeRecoverableState (stateWithFailureCheck s t f w) \<noteq> None"
    by (rule failure_recoverable [OF normal_recoverable [OF n] assms(2,3)])
  have "real f \<le> 2 ^ 53 - 1" using assms(3) by simp
  moreover have "consecutiveFailures (stateWithFailureCheck s t f w) = f"
    "state_candidate (stateWithFailureCheck s t f w) = (if w then None else state_candidate s)"
    by (simp_all add: stateWithFailureCheck_def Let_def)
  ultimately show ?thesis
    using n r unfolding normal_state_def
    by (auto simp: digests_ok_def candidate_unannounced_def split: option.splits)
qed

section \<open>Notifications\<close>

lemma result_available:
  "resultForCandidate release s = Inr (UpdateAvailable k i c) \<longleftrightarrow>
     state_candidate s = Some c \<and> i = jget release (lit ''version'') \<and> k = eventKeyForDigest (targetDigest c)
     \<and> compareSemver (JStr (cand_version c)) i = Inr 1
     \<and> \<not> digest_included (acknowledgedDigests s) (targetDigest c)"
  using versions.range
  by (fastforce simp: resultForCandidate_def result_iff release_notification_def
      split: option.splits if_splits)

text \<open>A result that is offered names a version newer than the installed one.\<close>

definition sound_offer :: "jval \<Rightarrow> update_result \<Rightarrow> bool" where
  "sound_offer release r \<longleftrightarrow> (case r of
     UpdateAvailable k i c \<Rightarrow> i = jget release (lit ''version'') \<and> k = eventKeyForDigest (targetDigest c)
       \<and> compareSemver (JStr (cand_version c)) i = Inr 1
   | _ \<Rightarrow> True)"

lemma sound_offer_simps [simp]:
  "sound_offer release (Silent r)" "sound_offer release (Acknowledged k)"
  by (simp_all add: sound_offer_def)

lemma result_sound: "resultForCandidate release s = Inr r \<Longrightarrow> sound_offer release r"
  by (cases r) (auto simp: sound_offer_def result_available)

lemma cached_sound: "sound_offer release (or_unavailable (cached_offer release s))"
  by (auto simp: cached_offer_def or_unavailable_def intro: result_sound split: option.splits sum.splits)

lemma fresh_sound: "freshStateResult parse release s t = Some r \<Longrightarrow> sound_offer release (or_unavailable r)"
  by (auto simp: freshStateResult_def or_unavailable_def intro: result_sound
      split: option.splits sum.splits if_splits)

lemma fresh_result_sound: "freshStateResult parse release s t = Some (Inr r) \<Longrightarrow> sound_offer release r"
  using fresh_sound [of parse release s t "Inr r"] by (simp add: or_unavailable_def)

definition sound_decision :: "jval \<Rightarrow> decision \<Rightarrow> bool" where
  "sound_decision release d \<longleftrightarrow> sound_offer release (dec_result d)
     \<and> (case dec_fallback d of None \<Rightarrow> True | Some (f, r) \<Rightarrow> sound_offer release r)"

lemma contract_Inr [simp]: "contract r = Inr x \<longleftrightarrow> r = Inr x"
  by (simp add: contract_def split: sum.splits)

lemma in_time_Inr [simp]: "in_time t = Inr x \<longleftrightarrow> t = Some x"
  by (simp add: in_time_def split: option.splits)

lemma failed_check_sound: "failed_check to_iso r t s = Inr d \<Longrightarrow> sound_decision release d"
  by (auto simp: failed_check_def result_iff sound_decision_def)

lemma successful_check_sound:
  "successful_check to_iso release c t random s = Inr d \<Longrightarrow> sound_decision release d"
  by (auto simp: successful_check_def result_iff sound_decision_def Let_def intro: result_sound)

lemma commit_sound:
  assumes "commitOperation a mutate = Some out"
    and "\<And>s d. mutate s = Inr d \<Longrightarrow> sound_decision release d"
  shows "sound_offer release (commit_result out)"
proof -
  have plan: "case plan_commit d of Cancel r \<Rightarrow> sound_offer release r | Write t s r \<Rightarrow> sound_offer release r"
    if "sound_decision release d" for d
    using that by (auto simp: plan_commit_def sound_decision_def split: option.splits)
  show ?thesis
    using assms(1) plan assms(2)
    by (fastforce simp: commitOperation_def lost_claim_def outcome_def
        split: option.splits bool.splits sum.splits commit_plan.splits write_answer.splits)
qed

lemma commit_check_sound:
  "commit_check to_iso a release t = Some out \<Longrightarrow> sound_offer release (commit_result out)"
  unfolding commit_check_def
  by (rule commit_sound, assumption)
    (auto split: sum.splits intro: failed_check_sound successful_check_sound)

lemma with_operation_sound: "sound_offer release (check_with_operation to_iso parse a release t)"
proof -
  have c: "sound_offer release (committed_result (commit_check to_iso a release t))"
    by (auto simp: committed_result_def intro: commit_check_sound split: option.splits)
  have l: "sound_offer release (resultAfterLosingOperation a release)"
    by (auto simp: resultAfterLosingOperation_def cached_sound split: option.splits)
  show ?thesis
    using c l by (auto simp: check_with_operation_def fresh_sound split: option.splits bool.splits)
qed

lemma check_sound:
  assumes "checkForUpdate to_iso parse a = Inr r"
  shows "r \<in> range Silent \<or> (\<exists>v release. release_file a = Some v \<and> validateLocalRelease v = Inr release
           \<and> sound_offer release r)"
proof (cases "map_option validateLocalRelease (release_file a)")
  case (Some w)
  then obtain v where v: "release_file a = Some v" "w = validateLocalRelease v" by auto
  show ?thesis
  proof (cases w)
    case (Inr release)
    have "r \<in> range Silent \<or> sound_offer release r"
      using assms Some Inr
      by (auto simp: checkForUpdate_def cached_sound with_operation_sound fresh_result_sound
          split: if_splits option.splits bool.splits)
    with v Inr show ?thesis by auto
  qed (use assms Some in \<open>auto simp: checkForUpdate_def split: if_splits\<close>)
qed (use assms in \<open>auto simp: checkForUpdate_def split: if_splits\<close>)

section \<open>Commits\<close>

text \<open>A printer of instants whose texts are those of \<open>toISOString\<close>.\<close>

definition printer_ok :: "iso_printer \<Rightarrow> bool" where
  "printer_ok to_iso \<longleftrightarrow> (\<forall>t x. to_iso t = Some x \<longrightarrow> iso_text x)"

lemma failed_state_normal:
  assumes "printer_ok to_iso" and "normal_state s" and "stateAfterFailedCheck to_iso s t w = Some f"
  shows "normal_state f"
  using assms
  by (auto simp: stateAfterFailedCheck_def Let_def nextFailedCheck_def printer_ok_def
      intro!: failure_normal)

text \<open>The candidate of a validated manifest is one the cache accepts.\<close>

lemma regex_string: "regex_subject v = Some s \<Longrightarrow> hex_test n v \<Longrightarrow> hex_text n s"
  by (simp add: hex_test_def)

lemma manifest_candidate:
  assumes "validateManifest v = Inr c"
  shows "normal_candidate c \<and> (\<exists>d. targetDigest c = JStr d \<and> digest_text d)"
proof -
  obtain m ver sha sev nts where m: "validateStableUpdateManifest v = Inr m"
    and f: "jget m (lit ''version'') = JStr ver"
      "regex_subject (jget (jget m (lit ''artifact'')) (lit ''sha256'')) = Some sha"
      "jget m (lit ''severity'') = JStr sev" "jget m (lit ''releaseNotes'') = JStr nts"
    and c: "c = \<lparr>cand_version = ver, targetDigest = JStr (DIGEST_PREFIX @ sha),
                 severity = sev, releaseNotes = nts\<rparr>"
  proof -
    from assms obtain m where m: "validateStableUpdateManifest v = Inr m"
      and body: "(case (jget m (lit ''version''),
          regex_subject (jget (jget m (lit ''artifact'')) (lit ''sha256'')),
          jget m (lit ''severity''), jget m (lit ''releaseNotes'')) of
         (JStr ver, Some sha, JStr sev, JStr nts) \<Rightarrow>
           Inr \<lparr>cand_version = ver, targetDigest = JStr (DIGEST_PREFIX @ sha),
                severity = sev, releaseNotes = nts\<rparr>
       | _ \<Rightarrow> Inl InvalidStableIdentity) = Inr c"
      unfolding validateManifest_def bindR_Inr_iff by blast
    from body have "\<exists>ver sha sev nts. jget m (lit ''version'') = JStr ver
        \<and> regex_subject (jget (jget m (lit ''artifact'')) (lit ''sha256'')) = Some sha
        \<and> jget m (lit ''severity'') = JStr sev \<and> jget m (lit ''releaseNotes'') = JStr nts
        \<and> c = \<lparr>cand_version = ver, targetDigest = JStr (DIGEST_PREFIX @ sha),
                 severity = sev, releaseNotes = nts\<rparr>"
      by (cases "jget m (lit ''version'')"; cases "jget m (lit ''severity'')";
          cases "jget m (lit ''releaseNotes'')"; simp split: option.splits)
    with m that show thesis by blast
  qed
  from manifest_object_normal [OF m] have n: "validateStableUpdateManifest m = Inr m" .
  then have i: "stable_identity m" and sv: "severity_ok (jget m (lit ''severity''))"
    and u: "\<exists>u. validateReleaseNotesUrl (jget m (lit ''releaseNotes'')) (jget m (lit ''version'')) = Inr u"
    by (auto simp: manifest_Inr)
  from i have st: "isStableCoreVersion (JStr ver)"
    and hex: "hex_test 64 (jget (jget m (lit ''artifact'')) (lit ''sha256''))"
    using f by (auto simp: stable_identity_def Let_def)
  have dt: "digest_text (DIGEST_PREFIX @ sha)"
    using regex_string [OF f(2) hex] by (simp add: digest_text_def DIGEST_PREFIX_def lit_def)
  have "validateCachedCandidate (candidate_json c) = Some c"
    using st dt sv u f
    by (auto simp: c validateCachedCandidate_def candidate_json_def hasOnlyKeys_def candidate_keys_def
        digest_test_def split: sum.splits)
  with dt c show ?thesis by (simp add: normal_candidate_def)
qed

lemma commit_normal:
  assumes "commitOperation a mutate = Some out" and "commit_write out = Some s"
  shows "\<exists>current d. committed_state a = Some current \<and> mutate current = Inr d
    \<and> plan_commit d = Write (the (encodeRecoverableState s)) s (commit_result out)
    \<and> encodeRecoverableState s \<noteq> None \<and> \<not> fenced out"
proof -
  have enc: "plan_commit d = Write x s r \<Longrightarrow> encodeRecoverableState s = Some x" for d x s r
    by (auto simp: plan_commit_def split: option.splits)
  show ?thesis
    using assms
    by (auto simp: commitOperation_def lost_claim_def outcome_def
        split: option.splits bool.splits sum.splits commit_plan.splits write_answer.splits
        dest: enc)
qed

section \<open>Checks keep the cache normal and always have a state to write\<close>

lemma failed_check_plan:
  assumes "printer_ok to_iso" and "normal_state s" and "failed_check to_iso r t s = Inr d"
  shows "\<exists>x f. plan_commit d = Write x f (Silent r) \<and> normal_state f \<and> installedVersion f = installedVersion s"
proof -
  from assms(3) obtain f where f: "stateAfterFailedCheck to_iso s t False = Some f"
    and d: "d = \<lparr>dec_state = Some f, dec_result = Silent r, dec_fallback = None\<rparr>"
    by (auto simp: failed_check_def result_iff)
  have n: "normal_state f" by (rule failed_state_normal [OF assms(1,2) f])
  obtain x where "encodeRecoverableState f = Some x" using normal_recoverable [OF n] by auto
  moreover have "installedVersion f = installedVersion s"
    using f by (auto simp: stateAfterFailedCheck_def Let_def)
  ultimately show ?thesis using n d by (simp add: plan_commit_def)
qed

lemma push_digest_ok:
  assumes "digests_ok s" and "v = JStr d" and "digest_text d"
  shows "digests_ok (s\<lparr>offeredDigests := push_digest (offeredDigests s) v\<rparr>)"
    and "digest_included (push_digest (offeredDigests s) v) v"
  using assms by (auto simp: digests_ok_def push_digest_def digest_included_def list_all_iff)

lemma offered_state_normal:
  assumes n: "normal_state s" and v: "validateManifest m = Inr c"
    and i: "installedVersion s = Some ver" "jget release (lit ''version'') = JStr ver"
    and next1: "next1 = s\<lparr>state_candidate := Some c, nextCheckAt := t, consecutiveFailures := 0\<rparr>"
    and r: "resultForCandidate release next1 = Inr r"
    and fin: "final = (case r of UpdateAvailable _ _ _ \<Rightarrow>
        next1\<lparr>offeredDigests := push_digest (offeredDigests next1) (targetDigest c)\<rparr> | _ \<Rightarrow> next1)"
    and e: "encodeRecoverableState final \<noteq> None"
  shows "normal_state final"
proof -
  obtain d where d: "targetDigest c = JStr d" "digest_text d" and c: "normal_candidate c"
    using manifest_candidate [OF v] by blast
  have ok1: "digests_ok next1" using n by (simp add: next1 normal_state_def digests_ok_def)
  have ok: "digests_ok final"
    using ok1 push_digest_ok(1) [OF ok1 d] by (simp add: fin split: update_result.splits)
  have announced: "\<not> candidate_unannounced c (Some ver) final"
  proof (cases "\<exists>k i' c'. r = UpdateAvailable k i' c'")
    case True
    with push_digest_ok(2) [OF ok1 d] show ?thesis
      by (auto simp: fin candidate_unannounced_def)
  next
    case False
    then have final: "final = next1" by (auto simp: fin split: update_result.splits)
    from r False i show ?thesis
      by (auto simp: final next1 resultForCandidate_def result_iff candidate_unannounced_def
          release_notification_def split: if_splits)
  qed
  have same: "installedVersion final = Some ver" "consecutiveFailures final = 0" "state_candidate final = Some c"
    using i by (auto simp: fin next1 split: update_result.splits)
  have "parses (Some ver)" using n i by (simp add: normal_state_def)
  with ok announced same c e show ?thesis by (simp add: normal_state_def)
qed

lemma resultForCandidate_cong:
  "state_candidate s = state_candidate t \<Longrightarrow> acknowledgedDigests s = acknowledgedDigests t \<Longrightarrow>
   resultForCandidate release s = resultForCandidate release t"
  unfolding resultForCandidate_def by (simp only:)

lemma successful_check_plan:
  assumes p: "printer_ok to_iso" and n: "normal_state s" and v: "validateManifest m = Inr c"
    and i: "installedVersion s = Some ver" "jget release (lit ''version'') = JStr ver"
    and d: "successful_check to_iso release c t random s = Inr d"
  shows "\<exists>x f r. plan_commit d = Write x f r \<and> normal_state f \<and> installedVersion f = Some ver
    \<and> (r = Silent CacheUnavailable \<and> state_candidate f = None
       \<or> resultForCandidate release f = Inr r \<and> state_candidate f = Some c
         \<and> (r \<notin> range Silent \<longrightarrow> digest_included (offeredDigests f) (targetDigest c)))"
proof -
  let ?nx = "\<lambda>na. s\<lparr>state_candidate := Some c, nextCheckAt := Some na, consecutiveFailures := 0\<rparr>"
  obtain next_at r fb where
    d': "resultForCandidate release (?nx next_at) = Inr r"
    and fb: "stateAfterFailedCheck to_iso s t True = Some fb"
    and dd: "d = \<lparr>dec_state = Some (case r of UpdateAvailable _ _ _ \<Rightarrow>
                     (?nx next_at)\<lparr>offeredDigests := push_digest (offeredDigests (?nx next_at)) (targetDigest c)\<rparr>
                 | _ \<Rightarrow> ?nx next_at),
                dec_result = r, dec_fallback = Some (fb, Silent CacheUnavailable)\<rparr>"
    using d by (auto simp: successful_check_def result_iff Let_def)
  define final where "final = (case r of UpdateAvailable _ _ _ \<Rightarrow>
      (?nx next_at)\<lparr>offeredDigests := push_digest (offeredDigests (?nx next_at)) (targetDigest c)\<rparr> | _ \<Rightarrow> ?nx next_at)"
  have nfb: "normal_state fb" by (rule failed_state_normal [OF p n fb])
  have fields: "installedVersion fb = Some ver" "state_candidate fb = None"
    using fb i by (auto simp: stateAfterFailedCheck_def stateWithFailureCheck_def Let_def)
  have ffields: "installedVersion final = Some ver" "state_candidate final = Some c"
    "acknowledgedDigests final = acknowledgedDigests s"
    using i by (auto simp: final_def split: update_result.splits)
  have fr: "resultForCandidate release final = Inr r"
    using d' resultForCandidate_cong [of final "?nx next_at" release] by (simp add: ffields)
  have inc: "digest_included (offeredDigests final) (targetDigest c)" if "r \<notin> range Silent"
  proof -
    obtain dg where dg: "targetDigest c = JStr dg" "digest_text dg"
      using manifest_candidate [OF v] by blast
    have "\<exists>k i' c'. r = UpdateAvailable k i' c'"
      using that d' by (cases r) (auto simp: resultForCandidate_def result_iff
          release_notification_def split: if_splits)
    then show ?thesis
      using dg by (auto simp: final_def push_digest_def digest_included_def)
  qed
  show ?thesis
  proof (cases "encodeRecoverableState final")
    case None
    obtain x where "encodeRecoverableState fb = Some x" using normal_recoverable [OF nfb] by auto
    with None nfb fields show ?thesis by (simp add: dd plan_commit_def final_def)
  next
    case (Some x)
    have "normal_state final"
      by (rule offered_state_normal [OF n v i refl d' final_def]) (simp add: Some)
    moreover have "plan_commit d = Write x final r"
      using Some by (simp add: dd plan_commit_def final_def)
    ultimately show ?thesis using ffields fr inc by blast
  qed
qed

lemma acknowledgement_plan:
  assumes "normal_state s" and "acknowledgement key d s = Inr dn"
  shows "plan_commit dn = Cancel (Silent InvalidAcknowledgement) \<and> d \<notin> set (offeredDigests s)
      \<and> d \<notin> set (acknowledgedDigests s)
    \<or> (\<exists>x. plan_commit dn = Write x (stateAfterAcknowledgement s d) (Acknowledged key))
      \<and> normal_state (stateAfterAcknowledgement s d)"
proof (cases "d \<in> set (offeredDigests s) \<or> d \<in> set (acknowledgedDigests s)")
  case True
  have n: "normal_state (stateAfterAcknowledgement s d)"
    by (rule acknowledgement_normal [OF assms(1) True])
  obtain x where "encodeRecoverableState (stateAfterAcknowledgement s d) = Some x"
    using normal_recoverable [OF n] by auto
  with n True assms(2) show ?thesis by (auto simp: acknowledgement_def plan_commit_def)
qed (use assms(2) in \<open>auto simp: acknowledgement_def plan_commit_def\<close>)

section \<open>Keys and schedules\<close>

lemma event_key_digest:
  "digest_text d \<Longrightarrow> digestForEventKey (JStr (eventKeyForDigest (JStr d))) = Some d"
  by (simp add: digestForEventKey_def eventKeyForDigest_def)

lemma acknowledged_silent:
  assumes n: "normal_state s" and r: "resultForCandidate release s = Inr (UpdateAvailable k i c)"
    and o: "digest_included (offeredDigests s) (targetDigest c)"
  shows "\<exists>d s'. digestForEventKey (JStr k) = Some d
    \<and> acknowledgement k d s = Inr \<lparr>dec_state = Some s', dec_result = Acknowledged k, dec_fallback = None\<rparr>
    \<and> normal_state s' \<and> resultForCandidate release s' = Inr (Silent AlreadyNotified)"
proof -
  from o obtain d where d: "targetDigest c = JStr d" "d \<in> set (offeredDigests s)"
    by (auto simp: digest_included_def split: jval.splits)
  have dt: "digest_text d"
    using n d(2) by (auto simp: normal_state_def digests_ok_def list_all_iff)
  have c: "state_candidate s = Some c" and k: "k = eventKeyForDigest (JStr d)"
    and cmp: "compareSemver (JStr (cand_version c)) (jget release (lit ''version'')) = Inr 1"
    using r d by (auto simp: result_available)
  let ?s = "stateAfterAcknowledgement s d"
  have "digest_included (acknowledgedDigests ?s) (targetDigest c)" "state_candidate ?s = Some c"
    using d c by (simp_all add: stateAfterAcknowledgement_def digest_included_def)
  then have "resultForCandidate release ?s = Inr (Silent AlreadyNotified)"
    using cmp by (simp add: resultForCandidate_def)
  moreover have "normal_state ?s" using d by (intro acknowledgement_normal [OF n]) simp
  moreover have "acknowledgement k d s
      = Inr \<lparr>dec_state = Some ?s, dec_result = Acknowledged k, dec_fallback = None\<rparr>"
    using d by (simp add: acknowledgement_def)
  ultimately show ?thesis using event_key_digest [OF dt] k by blast
qed

lemma success_delay_range:
  "CHECK_TTL_MS * (8 / 10) \<le> success_delay random" "success_delay random \<le> MAX_CACHE_HORIZON_MS"
proof -
  define b :: real where "b = min 1 (max 0 (case random of None \<Rightarrow> 0 | Some x \<Rightarrow> x))"
  have b: "0 \<le> b" "b \<le> 1" by (simp_all add: b_def)
  define x where "x = CHECK_TTL_MS * (8 / 10 + b * (4 / 10))"
  have x: "207360000 \<le> x" "x \<le> 311040000"
    using b by (simp_all add: x_def CHECK_TTL_MS_def)
  have s: "success_delay random = of_int (js_round x)"
    by (simp add: success_delay_def Let_def b_def x_def)
  have "207360000 \<le> js_round x" "js_round x \<le> 311040000"
    using x by (simp_all add: js_round_def le_floor_iff floor_le_iff)
  then have "(207360000::real) \<le> of_int (js_round x)" "of_int (js_round x) \<le> (311040000::real)"
    by linarith+
  then show "CHECK_TTL_MS * (8 / 10) \<le> success_delay random" "success_delay random \<le> MAX_CACHE_HORIZON_MS"
    by (simp_all add: s CHECK_TTL_MS_def MAX_CACHE_HORIZON_MS_def)
qed

end
