(* ===== verification/UpdateProperties.thy ===== *)
theory UpdateProperties
  imports UpdateCheckFacts
begin

text \<open>
  The properties of the update notifier that its callers rely on, each instantiated on a sample
  release, manifest and cache.
\<close>

section \<open>Samples\<close>

definition sample_version :: jstring where "sample_version = lit ''2.1.0''"

definition sample_sha :: "nat \<Rightarrow> jstring" where
  "sample_sha n = take n (lit ''aaaaaaaaaaaaaaaaaaaaaaaaaaaaaaaaaaaaaaaaaaaaaaaaaaaaaaaaaaaaaaaa'')"

definition sample_digest :: jstring where
  "sample_digest = DIGEST_PREFIX @ sample_sha 64"

definition sample_manifest :: jval where
  "sample_manifest = JObj
     [(lit ''schemaVersion'', JNum 1), (lit ''skillId'', JStr SKILL_ID),
      (lit ''channel'', JStr (lit ''stable'')), (lit ''version'', JStr sample_version),
      (lit ''publishedAt'', JStr (lit ''2026-02-28T23:59:59Z'')),
      (lit ''source'', JObj [(lit ''repository'', JStr EXPECTED_REPOSITORY),
         (lit ''ref'', JStr (lit ''v2.1.0'')), (lit ''treeSha'', JStr (sample_sha 40))]),
      (lit ''artifact'', JObj [(lit ''sha256'', JStr (sample_sha 64))]),
      (lit ''summary'', JStr (lit ''A release'')),
      (lit ''releaseNotes'', JStr (release_notes_url sample_version)),
      (lit ''severity'', JStr (lit ''normal''))]"

definition sample_release :: jval where
  "sample_release = JObj
     [(lit ''schemaVersion'', JNum 1), (lit ''skillId'', JStr SKILL_ID),
      (lit ''channel'', JStr (lit ''development'')), (lit ''version'', JStr (lit ''2.0.0-rc.1'')),
      (lit ''source'', JObj [(lit ''repository'', JStr EXPECTED_REPOSITORY)]),
      (lit ''updateManifestUrl'', JStr DEFAULT_MANIFEST_URL)]"

lemma sample_release_valid: "validateLocalRelease sample_release = Inr sample_release"
  by code_simp

lemma sample_manifest_valid: "validateStableUpdateManifest sample_manifest = Inr sample_manifest"
  by code_simp

definition sample_candidate :: candidate where
  "sample_candidate = \<lparr>cand_version = sample_version, targetDigest = JStr sample_digest,
     severity = lit ''normal'', releaseNotes = release_notes_url sample_version\<rparr>"

lemma sample_manifest_candidate: "validateManifest sample_manifest = Inr sample_candidate"
  unfolding validateManifest_def sample_manifest_valid
  by (simp add: sample_manifest_def sample_candidate_def sample_digest_def)

definition sample_state :: "jstring list \<Rightarrow> update_state" where
  "sample_state ds = (emptyState (Some (lit ''2.0.0-rc.1'')))\<lparr>offeredDigests := ds\<rparr>"

lemma sample_digest_text: "digest_text sample_digest"
  by (simp add: sample_digest_def sample_sha_def digest_text_def DIGEST_PREFIX_def lit_def
      hex_text_def list_all_iff is_lower_hex_def)

lemmas frame_text = frame_bytes_def state_bytes_def state_json_def sample_state_def emptyState_def
  json_or_null_def comma_join_def json_quote_def escape_unit_def high_surrogate_def
  low_surrogate_def unit_bytes_def SKILL_ID_def longest_failure_def stateWithFailureCheck_def
  LONGEST_ISO_TIMESTAMP_def decimal_digit lit_def

lemma small_recoverable:
  assumes ok: "digests_ok s" and l: "offeredDigests s = [] \<or> offeredDigests s = [d]" "acknowledgedDigests s = []"
    and f: "frame_bytes s < 2000" "frame_bytes (longest_failure s) < 2000"
  shows "encodeRecoverableState s \<noteq> None"
proof -
  have "room (acknowledge_all s (take k (offeredDigests s)))" for k
  proof -
    have "payload (acknowledge_all s (take k (offeredDigests s))) \<le> 200"
      using l ok
      by (cases k) (auto simp: stateAfterAcknowledgement_def payload_def list_bytes_digests digests_ok_def)
    with f show ?thesis by (simp add: room_payload MAX_CACHE_STATE_BYTES_def)
  qed
  then show ?thesis unfolding recoverable_iff by simp
qed

lemma sample_state_normal: "ds = [] \<or> ds = [sample_digest] \<Longrightarrow> normal_state (sample_state ds)"
proof -
  assume ds: "ds = [] \<or> ds = [sample_digest]"
  have p: "parses (Some (lit ''2.0.0-rc.1''))" by code_simp
  have ok: "digests_ok (sample_state ds)"
    using ds sample_digest_text by (auto simp: digests_ok_def sample_state_def emptyState_def)
  have f: "frame_bytes (sample_state ds) < 2000" "frame_bytes (longest_failure (sample_state ds)) < 2000"
    by (simp_all add: frame_text)
  have "encodeRecoverableState (sample_state ds) \<noteq> None"
    using ds by (intro small_recoverable [OF ok _ _ f]) (auto simp: sample_state_def emptyState_def)
  with p ok show ?thesis
    by (simp add: normal_state_def) (simp add: sample_state_def emptyState_def)
qed

definition sample_printer :: iso_printer where
  "sample_printer t = Some (lit ''2026-03-01T00:00:00.000Z'')"

lemma sample_printer_ok: "printer_ok sample_printer"
  by (simp add: printer_ok_def sample_printer_def iso_text_def lit_def plain_unit_def)

lemma sample_newer: "compareSemver (JStr sample_version) (jget sample_release (lit ''version'')) = Inr 1"
  by code_simp

text \<open>The state a check of the sample manifest commits.\<close>

definition sample_offer :: "jstring list \<Rightarrow> update_state" where
  "sample_offer ds = (sample_state ds)\<lparr>state_candidate := Some sample_candidate\<rparr>"

definition sample_notice :: update_result where
  "sample_notice = UpdateAvailable (eventKeyForDigest (JStr sample_digest))
     (jget sample_release (lit ''version'')) sample_candidate"

lemma sample_offer_result: "resultForCandidate sample_release (sample_offer ds) = Inr sample_notice"
  using sample_newer
  by (simp add: resultForCandidate_def sample_offer_def sample_candidate_def sample_state_def
      emptyState_def digest_included_def release_notification_def sample_notice_def)

lemma sample_check:
  "\<exists>d. successful_check sample_printer sample_release sample_candidate 0 None (sample_state []) = Inr d"
  using sample_newer
  by (simp add: successful_check_def nextSuccessfulCheck_def sample_printer_def in_time_def
      resultForCandidate_def sample_candidate_def contract_def stateAfterFailedCheck_def
      nextFailedCheck_def Let_def)

section \<open>The contract of release and manifest\<close>

text \<open>A publication time is accepted exactly when it has the \<open>YYYY-MM-DDThh:mm:ssZ\<close> shape and
  its fields are a real instant of the calendar (leap years included); the accepted value is
  returned unchanged.\<close>

lemma timestamp_is_instant:
  "validateCanonicalUtcTimestamp v = Inr w \<longleftrightarrow>
     w = v \<and> (\<exists>s. v = JStr s \<and> utc_seconds s \<and> real_instant (fields_of s))"
  by (rule timestamp_accepted_iff)

text \<open>An accepted manifest has exactly the ten keys of the contract, and its normalised form
  is accepted again and is its own normal form.\<close>

lemma manifest_normal_form:
  assumes "validateStableUpdateManifest v = Inr w"
  shows "mset (object_keys v) = mset manifest_keys \<and> object_keys w = manifest_keys
    \<and> validateStableUpdateManifest w = Inr w"
proof -
  have "object_keys w = manifest_keys"
    using assms by (simp add: manifest_Inr manifest_object_def manifest_keys_def)
  then show ?thesis
    using manifest_exact_keys [OF assms] manifest_object_normal [OF assms] by simp
qed

lemma manifest_normal_form_witness:
  "mset (object_keys sample_manifest) = mset manifest_keys"
  using manifest_normal_form [OF sample_manifest_valid] by simp

text \<open>The candidate taken from an accepted manifest is one the cache validator accepts
  unchanged, with a digest of the exact text form.\<close>

lemma manifest_candidate_cacheable:
  assumes "validateManifest v = Inr c"
  shows "validateCachedCandidate (candidate_json c) = Some c \<and> (\<exists>d. targetDigest c = JStr d \<and> digest_text d)"
  using manifest_candidate [OF assms] by (simp add: normal_candidate_def)

lemma manifest_candidate_cacheable_witness:
  "validateCachedCandidate (candidate_json sample_candidate) = Some sample_candidate"
  using manifest_candidate_cacheable [OF sample_manifest_candidate] by simp

section \<open>The cache\<close>

text \<open>C37: reading back what was written: every state \<open>normalizeState\<close> accepts is encoded as a
  file that \<open>normalizeState\<close> reads as the same state.\<close>

theorem normalizeState_roundtrip:
  assumes "normalizeState v installed = Some s"
  shows "normalizeState (state_json s) (installedVersion s) = Some s"
  using normal_state_fixed [OF normalizeState_normal [OF assms]] by simp

lemma normalizeState_roundtrip_witness:
  "normalizeState (state_json (sample_state [])) (installedVersion (sample_state [])) = Some (sample_state [])"
  by (rule normalizeState_roundtrip [OF normal_state_fixed [OF sample_state_normal, where installed = None]])
    simp_all

text \<open>C3: \<open>encodeRecoverableState\<close> tries one order of acknowledgements, but its success covers
  every order: any offered digest of a recoverable state can be acknowledged, and the result is
  recoverable (and normal) again.\<close>

theorem acknowledgement_recoverable:
  assumes "normal_state s" and "d \<in> set (offeredDigests s)"
  shows "encodeRecoverableState (stateAfterAcknowledgement s d) \<noteq> None
    \<and> normal_state (stateAfterAcknowledgement s d)
    \<and> d \<notin> set (offeredDigests (stateAfterAcknowledgement s d))
    \<and> d \<in> set (acknowledgedDigests (stateAfterAcknowledgement s d))"
  using acknowledgement_normal [OF assms(1)] assms(2) normal_recoverable
  by (auto simp: stateAfterAcknowledgement_def)

lemma acknowledgement_recoverable_witness:
  "normal_state (stateAfterAcknowledgement (sample_state [sample_digest]) sample_digest)"
  using acknowledgement_recoverable [OF sample_state_normal, of "[sample_digest]" sample_digest]
  by (simp add: sample_state_def emptyState_def)

text \<open>The delay of the next check after a success lies between 0.8 and 1.2 times 72 hours for
  every random value, so the written time is inside the cache horizon; the cache then answers
  exactly until that time, and not for a clock set back beyond the horizon.\<close>

lemma success_schedule_fresh:
  assumes "parse (case nextCheckAt s of None \<Rightarrow> [] | Some t \<Rightarrow> t) = Some (start + success_delay random)"
  shows "CHECK_TTL_MS * (8 / 10) \<le> success_delay random
    \<and> success_delay random \<le> MAX_CACHE_HORIZON_MS
    \<and> (freshStateResult parse release s now = Some (resultForCandidate release s)
        \<longleftrightarrow> start + success_delay random - MAX_CACHE_HORIZON_MS \<le> now \<and> now < start + success_delay random)"
  using assms success_delay_range [of random] by (auto simp: freshStateResult_def)

lemma success_schedule_fresh_witness:
  "CHECK_TTL_MS * (8 / 10) \<le> success_delay (Some (1 / 2))"
proof -
  let ?s = "(emptyState None)\<lparr>nextCheckAt := Some [49]\<rparr>"
  show ?thesis
    using success_schedule_fresh [where parse = "\<lambda>t. if t = [49] then Some (0 + success_delay (Some (1 / 2))) else None"
        and s = ?s and start = 0 and random = "Some (1 / 2)"]
    by simp
qed

section \<open>Checks and acknowledgements\<close>

text \<open>C6: every notification \<open>checkForUpdate\<close> returns, from the cache or from the network, on
  every path, names a version that compares strictly greater than the validated local release,
  and carries the event key of its digest.\<close>

theorem checkForUpdate_notifies_newer:
  assumes "checkForUpdate to_iso parse a = Inr (UpdateAvailable k i c)"
  shows "\<exists>v release. release_file a = Some v \<and> validateLocalRelease v = Inr release
    \<and> i = jget release (lit ''version'') \<and> k = eventKeyForDigest (targetDigest c)
    \<and> compareSemver (JStr (cand_version c)) i = Inr 1"
  using check_sound [OF assms] by (auto simp: sound_offer_def)

lemma checkForUpdate_notifies_newer_witness:
  "checkForUpdate sample_printer (\<lambda>t. Some 1)
     \<lparr>fetch_callable = True, release_file = Some sample_release, clock = Some 0,
      first_read = Some (sample_offer []), acquired = None, waiting_read = None, second_read = None,
      raced_cancel = None, owns_first = None, token_verified = None, owns_second = None,
      losing_read = None, fetched_candidate = Inl CheckFailed, random_draw = None,
      check_commit = undefined\<rparr> = Inr sample_notice
   \<and> compareSemver (JStr (cand_version sample_candidate)) (jget sample_release (lit ''version'')) = Inr 1"
  (is "?run = _ \<and> _")
proof -
  have run: "?run = Inr sample_notice"
    by (simp add: checkForUpdate_def sample_release_valid freshStateResult_def MAX_CACHE_HORIZON_MS_def
        CHECK_TTL_MS_def sample_offer_result)
  from checkForUpdate_notifies_newer [OF run [unfolded sample_notice_def]]
  show ?thesis using run sample_release_valid by auto
qed

text \<open>C4: a check that owns its claim never leaves the cache without a usable state: over a normal
  state the mutation of a fetched manifest always yields a text to write, the written state is
  normal for the same installation, and it either withdraws the candidate (the full cache) or
  carries the fetched candidate with its announced digest.\<close>

theorem successful_check_writes:
  assumes "printer_ok to_iso" and "normal_state s" and "validateManifest m = Inr c"
    and "installedVersion s = Some ver" and "jget release (lit ''version'') = JStr ver"
    and "successful_check to_iso release c t random s = Inr d"
  shows "\<exists>x f r. plan_commit d = Write x f r \<and> normal_state f \<and> installedVersion f = Some ver
    \<and> (r = Silent CacheUnavailable \<and> state_candidate f = None
       \<or> resultForCandidate release f = Inr r \<and> state_candidate f = Some c
         \<and> (r \<notin> range Silent \<longrightarrow> digest_included (offeredDigests f) (targetDigest c)))"
  by (rule successful_check_plan [OF assms])

lemma successful_check_writes_witness:
  "\<exists>d x f r. successful_check sample_printer sample_release sample_candidate 0 None (sample_state []) = Inr d
     \<and> plan_commit d = Write x f r \<and> normal_state f"
proof -
  obtain d where "successful_check sample_printer sample_release sample_candidate 0 None (sample_state []) = Inr d"
    using sample_check by blast
  moreover from successful_check_writes [OF sample_printer_ok sample_state_normal
      sample_manifest_candidate _ _ this, of "lit ''2.0.0-rc.1''"]
  obtain x f r where "plan_commit d = Write x f r \<and> normal_state f"
    by (auto simp: sample_state_def emptyState_def sample_release_def)
  ultimately show ?thesis by blast
qed

text \<open>C5: the event key of a notification is the key that acknowledges it: over the written state it
  is accepted, the acknowledged state is normal, and from then on the candidate is silent.\<close>

theorem notification_acknowledged:
  assumes "normal_state s" and "resultForCandidate release s = Inr (UpdateAvailable k i c)"
    and "digest_included (offeredDigests s) (targetDigest c)"
  shows "\<exists>d s'. digestForEventKey (JStr k) = Some d
    \<and> acknowledgement k d s = Inr \<lparr>dec_state = Some s', dec_result = Acknowledged k, dec_fallback = None\<rparr>
    \<and> normal_state s' \<and> resultForCandidate release s' = Inr (Silent AlreadyNotified)"
  by (rule acknowledged_silent [OF assms])

lemma sample_offer_normal: "normal_state (sample_offer [sample_digest])"
proof (rule offered_state_normal [OF sample_state_normal sample_manifest_candidate])
  let ?n = "(sample_offer [])\<lparr>nextCheckAt := None, consecutiveFailures := 0\<rparr>"
  show "jget sample_release (lit ''version'') = JStr (lit ''2.0.0-rc.1'')"
    by (simp add: sample_release_def)
  show "resultForCandidate sample_release ?n = Inr sample_notice"
    using resultForCandidate_cong [of ?n "sample_offer []"] sample_offer_result by simp
  show "encodeRecoverableState (sample_offer [sample_digest]) \<noteq> None"
  proof (rule small_recoverable)
    show "digests_ok (sample_offer [sample_digest])"
      using sample_digest_text by (simp add: digests_ok_def sample_offer_def sample_state_def emptyState_def)
    show "frame_bytes (sample_offer [sample_digest]) < 2000"
      "frame_bytes (longest_failure (sample_offer [sample_digest])) < 2000"
      by (simp_all add: frame_text sample_offer_def candidate_json_def sample_candidate_def
          sample_version_def sample_digest_def DIGEST_PREFIX_def sample_sha_def release_notes_url_def)
  qed (simp_all add: sample_offer_def sample_state_def emptyState_def)
qed (simp_all add: sample_offer_def sample_state_def emptyState_def sample_notice_def push_digest_def
    digest_included_def sample_candidate_def sample_digest_def)

lemma notification_acknowledged_witness:
  "\<exists>d s'. digestForEventKey (JStr (ev_key sample_notice)) = Some d \<and> normal_state s'
     \<and> resultForCandidate sample_release s' = Inr (Silent AlreadyNotified)"
proof -
  have "digest_included (offeredDigests (sample_offer [sample_digest])) (targetDigest sample_candidate)"
    by (simp add: digest_included_def sample_candidate_def sample_offer_def sample_state_def)
  from notification_acknowledged [OF sample_offer_normal sample_offer_result [unfolded sample_notice_def] this]
  show ?thesis by (auto simp: sample_notice_def)
qed

end
