(* ===== verification/UpdateProtocol.thy ===== *)
theory UpdateProtocol
  imports UpdateState
begin

text \<open>
  The operations protocol of \<open>scripts/check-update.mjs\<close>: processes reserve a generation by
  creating a directory, compete for the active claim, fence the pending operations below their
  own and commit by renaming their pending directory.  A directory is the list of the operation
  entries in it with the \<open>state.json\<close> of each; every call of the code that touches the directory
  is one step, and the steps of any number of processes interleave.  A listing is atomic; the
  lease of a claim or an operation may have run out or not at any time, so each test of a lease
  is an argument of the step.
\<close>

section \<open>Operation names\<close>

datatype opkind = Reserved | Pending | Committed | Fenced | Cancelled

definition kind_name :: "opkind \<Rightarrow> jstring" where
  "kind_name k = (case k of Reserved \<Rightarrow> lit ''reserved'' | Pending \<Rightarrow> lit ''pending''
     | Committed \<Rightarrow> lit ''committed'' | Fenced \<Rightarrow> lit ''fenced'' | Cancelled \<Rightarrow> lit ''cancelled'')"

definition kinds :: "opkind list" where
  "kinds = [Reserved, Pending, Committed, Fenced, Cancelled]"

definition pad20 :: "jstring \<Rightarrow> jstring" where
  "pad20 s = replicate (20 - length s) 48 @ s"

definition operationName :: "opkind \<Rightarrow> nat \<Rightarrow> jstring" where
  "operationName k g = kind_name k @ [45] @ pad20 (decimal g)"

definition parse_with :: "opkind \<Rightarrow> jstring \<Rightarrow> (opkind \<times> nat) option" where
  "parse_with k s = (let p = kind_name k @ [45]; ds = drop (length p) s in
     if take (length p) s = p \<and> 1 \<le> length ds \<and> length ds \<le> 20 \<and> list_all is_digit ds
     then Some (k, nat_of_digits ds) else None)"

definition parseOperationName :: "jstring \<Rightarrow> (opkind \<times> nat) option" where
  "parseOperationName s = (case List.map_filter (\<lambda>k. parse_with k s) kinds of
     [] \<Rightarrow> None | r # _ \<Rightarrow> Some r)"

definition MAX_OPERATION_GENERATION :: nat where
  "MAX_OPERATION_GENERATION = 10 ^ 20 - 1"

section \<open>The directory\<close>

text \<open>
  The active claim is the generation of its readable owner record, \<open>Some None\<close> when the record
  cannot be read.  A token is drawn per operation, so the generation identifies the owner.
\<close>

record 'v cache_dir =
  entries :: "(opkind \<times> nat) list"
  state_file :: "nat \<Rightarrow> 'v option"
  active_claim :: "nat option option"

definition present :: "opkind \<Rightarrow> nat \<Rightarrow> 'v cache_dir \<Rightarrow> bool" where
  "present k g d \<longleftrightarrow> (k, g) \<in> set (entries d)"

text \<open>\<open>mkdir\<close> fails on an existing directory, \<open>rename\<close> on a missing one.\<close>

definition cache_mkdir :: "opkind \<Rightarrow> nat \<Rightarrow> 'v cache_dir \<Rightarrow> 'v cache_dir option" where
  "cache_mkdir k g d =
     (if present k g d then None else Some (d\<lparr>entries := (k, g) # entries d\<rparr>))"

definition transitionOperation :: "opkind \<Rightarrow> nat \<Rightarrow> 'v cache_dir \<Rightarrow> 'v cache_dir option" where
  "transitionOperation k g d =
     (if present Pending g d
      then Some (d\<lparr>entries := (k, g) # filter (\<lambda>e. e \<noteq> (Pending, g)) (entries d)\<rparr>) else None)"

text \<open>A rename whose \<open>ENOENT\<close> is ignored, as in \<open>cancelOperation\<close> and the fencing loop.\<close>

definition try_transition :: "opkind \<Rightarrow> nat \<Rightarrow> 'v cache_dir \<Rightarrow> 'v cache_dir" where
  "try_transition k g d = (case transitionOperation k g d of None \<Rightarrow> d | Some d' \<Rightarrow> d')"

definition cancelOperation :: "nat \<Rightarrow> 'v cache_dir \<Rightarrow> 'v cache_dir" where
  "cancelOperation g d = try_transition Cancelled g d"

definition operationIsSuperseded :: "nat \<Rightarrow> 'v cache_dir \<Rightarrow> bool" where
  "operationIsSuperseded g d \<longleftrightarrow> list_ex (\<lambda>(k, h). g < h) (entries d)"

definition operationWasFenced :: "nat \<Rightarrow> 'v cache_dir \<Rightarrow> bool" where
  "operationWasFenced g d \<longleftrightarrow> \<not> present Pending g d \<and> present Fenced g d"

definition lower_pending :: "nat \<Rightarrow> 'v cache_dir \<Rightarrow> nat list" where
  "lower_pending g d = sort (map snd (filter (\<lambda>(k, h). k = Pending \<and> h < g) (entries d)))"

definition hasActivePendingOperation :: "(nat \<Rightarrow> bool) \<Rightarrow> 'v cache_dir \<Rightarrow> bool" where
  "hasActivePendingOperation lease d \<longleftrightarrow> list_ex (\<lambda>(k, h). k = Pending \<and> lease h) (entries d)"

text \<open>The committed generations, highest first, and the first one with a readable state.\<close>

definition committed_desc :: "'v cache_dir \<Rightarrow> nat list" where
  "committed_desc d = rev (sort (map snd (filter (\<lambda>(k, h). k = Committed) (entries d))))"

fun first_readable :: "(nat \<Rightarrow> 'v option) \<Rightarrow> nat list \<Rightarrow> (nat \<times> 'v) option" where
  "first_readable f [] = None"
| "first_readable f (g # gs) = (case f g of None \<Rightarrow> first_readable f gs | Some v \<Rightarrow> Some (g, v))"

definition readState :: "'v \<Rightarrow> 'v cache_dir \<Rightarrow> 'v" where
  "readState v0 d = (case first_readable (state_file d) (committed_desc d) of
     None \<Rightarrow> v0 | Some (g, v) \<Rightarrow> v)"

section \<open>The active claim\<close>

datatype claim_status = Absent | Busy "nat option" | Releasable "nat option"

definition corruptClaimStatus :: "bool \<Rightarrow> claim_status" where
  "corruptClaimStatus within_lease = (if within_lease then Busy None else Releasable None)"

definition inspectActiveClaim :: "bool \<Rightarrow> (nat \<Rightarrow> bool) \<Rightarrow> 'v cache_dir \<Rightarrow> claim_status" where
  "inspectActiveClaim claim_lease lease d =
     (case active_claim d of
        None \<Rightarrow> Absent
      | Some None \<Rightarrow> corruptClaimStatus claim_lease
      | Some (Some g) \<Rightarrow>
          if list_ex (\<lambda>k. present k g d) [Committed, Fenced, Cancelled] then Releasable (Some g)
          else if present Pending g d
            then (if lease g then Busy (Some g) else Releasable (Some g))
          else corruptClaimStatus claim_lease)"

definition operationOwnsActiveClaim :: "bool \<Rightarrow> (nat \<Rightarrow> bool) \<Rightarrow> nat \<Rightarrow> 'v cache_dir \<Rightarrow> bool" where
  "operationOwnsActiveClaim claim_lease lease g d \<longleftrightarrow>
     inspectActiveClaim claim_lease lease d = Busy (Some g)"

section \<open>One process\<close>

text \<open>
  The program counter of a process.  \<open>Choosing\<close> keeps the occupied generations and the next
  candidate of \<open>reserveOperation\<close>; \<open>Promoting\<close> keeps the attempts left of
  \<open>promoteOperationClaim\<close>; \<open>Fencing\<close> the listed operations still to be fenced; \<open>Writing\<close> and
  \<open>Committing\<close> the state decided on.
\<close>

datatype 'v phase =
    Start
  | Scanning
  | Choosing "nat list" nat
  | Reserving "nat list" nat
  | Owning nat
  | Checking nat
  | Promoting nat nat
  | Inspecting nat nat
  | Retiring nat nat
  | Renaming nat nat
  | Confirming nat
  | Holding nat
  | Listing nat
  | Fencing nat "nat list"
  | Reading nat
  | Writing nat 'v
  | Committing nat 'v
  | Cancelling nat
  | Finished

function next_free :: "nat list \<Rightarrow> nat \<Rightarrow> nat" where
  "next_free occ g = (if g \<in> set occ then next_free occ (Suc g) else g)"
  by pat_completeness auto

termination next_free
proof (relation "measure (\<lambda>(occ, g). card {h \<in> set occ. g \<le> h})")
  fix occ :: "nat list" and g :: nat
  assume "g \<in> set occ"
  then have "card ({h \<in> set occ. g \<le> h} - {g}) < card {h \<in> set occ. g \<le> h}"
    by (intro card_Diff1_less) simp_all
  moreover have "{h \<in> set occ. g \<le> h} - {g} = {h \<in> set occ. Suc g \<le> h}"
    by (rule set_eqI) (simp add: Suc_le_eq order.strict_iff_order, blast)
  ultimately show "((occ, Suc g), (occ, g)) \<in> measure (\<lambda>(occ, g). card {h \<in> set occ. g \<le> h})"
    by simp
qed simp

declare next_free.simps [simp del]

definition superseded_or :: "nat \<Rightarrow> 'v cache_dir \<Rightarrow> 'v phase \<Rightarrow> 'v phase" where
  "superseded_or g d p = (if operationIsSuperseded g d then Cancelling g else p)"

text \<open>A finite number of attempts: after the last one the operation is cancelled.\<close>

definition next_attempt :: "nat \<Rightarrow> nat \<Rightarrow> 'v phase" where
  "next_attempt g n = (if n \<le> 1 then Cancelling g else Promoting g (n - 1))"

definition after_inspection :: "nat \<Rightarrow> nat \<Rightarrow> claim_status \<Rightarrow> 'v phase" where
  "after_inspection g n c = (case c of
     Busy _ \<Rightarrow> Cancelling g
   | Releasable (Some h) \<Rightarrow> if g < h then Cancelling g else Retiring g n
   | Releasable None \<Rightarrow> Retiring g n
   | Absent \<Rightarrow> Renaming g n)"

inductive pstep :: "'v \<Rightarrow> ('v \<Rightarrow> 'v option) \<Rightarrow> 'v cache_dir \<Rightarrow> 'v phase \<Rightarrow> 'v cache_dir \<Rightarrow> 'v phase \<Rightarrow> bool"
  for v0 mut where
  start_busy: "inspectActiveClaim cl lease d = Busy x \<Longrightarrow> pstep v0 mut d Start d Finished"
| start: "(\<forall>x. inspectActiveClaim cl lease d \<noteq> Busy x) \<Longrightarrow> pstep v0 mut d Start d Scanning"
| scan_busy: "hasActivePendingOperation lease d \<Longrightarrow> pstep v0 mut d Scanning d Finished"
| scan: "\<not> hasActivePendingOperation lease d \<Longrightarrow>
     pstep v0 mut d Scanning d (Choosing (map snd (entries d)) 1)"
| choose_exhausted: "MAX_OPERATION_GENERATION < next_free occ g \<Longrightarrow>
     pstep v0 mut d (Choosing occ g) d Finished"
| choose: "h = next_free occ g \<Longrightarrow> h \<le> MAX_OPERATION_GENERATION \<Longrightarrow>
     cache_mkdir Reserved h d = Some d' \<Longrightarrow> pstep v0 mut d (Choosing occ g) d' (Reserving occ h)"
| choose_lost: "h = next_free occ g \<Longrightarrow> h \<le> MAX_OPERATION_GENERATION \<Longrightarrow>
     cache_mkdir Reserved h d = None \<Longrightarrow> pstep v0 mut d (Choosing occ g) d (Choosing (h # occ) (Suc h))"
| reserve: "cache_mkdir Pending g d = Some d' \<Longrightarrow> pstep v0 mut d (Reserving occ g) d' (Owning g)"
| reserve_lost: "cache_mkdir Pending g d = None \<Longrightarrow>
     pstep v0 mut d (Reserving occ g) d (Choosing (g # occ) (Suc g))"
| own: "present Pending g d \<Longrightarrow> pstep v0 mut d (Owning g) d (Checking g)"
| own_fenced: "operationWasFenced g d \<Longrightarrow> pstep v0 mut d (Owning g) d Finished"
| own_failed: "pstep v0 mut d (Owning g) d (Cancelling g)"
| check: "pstep v0 mut d (Checking g) d (superseded_or g d (Promoting g 8))"
| promote: "pstep v0 mut d (Promoting g n) d (superseded_or g d (Inspecting g n))"
| inspect: "pstep v0 mut d (Inspecting g n) d (after_inspection g n (inspectActiveClaim cl lease d))"
| retire: "pstep v0 mut d (Retiring g n) (d\<lparr>active_claim := None\<rparr>) (next_attempt g n)"
| retire_lost: "pstep v0 mut d (Retiring g n) d (next_attempt g n)"
| rename: "active_claim d = None \<Longrightarrow>
     pstep v0 mut d (Renaming g n) (d\<lparr>active_claim := Some (Some g)\<rparr>) (Confirming g)"
| rename_lost: "pstep v0 mut d (Renaming g n) d (next_attempt g n)"
| rename_failed: "pstep v0 mut d (Renaming g n) d (Cancelling g)"
| confirm: "present Pending g d \<Longrightarrow> pstep v0 mut d (Confirming g) d (Holding g)"
| confirm_lost: "pstep v0 mut d (Confirming g) d (Cancelling g)"
| hold_cancel: "pstep v0 mut d (Holding g) d (Cancelling g)"
| hold: "operationOwnsActiveClaim cl lease g d \<Longrightarrow> pstep v0 mut d (Holding g) d (Listing g)"
| list_lower: "pstep v0 mut d (Listing g) d (Fencing g (lower_pending g d))"
| fence: "pstep v0 mut d (Fencing g (h # hs)) (try_transition Fenced h d) (Fencing g hs)"
| fence_done: "operationOwnsActiveClaim cl lease g d \<Longrightarrow> pstep v0 mut d (Fencing g []) d (Reading g)"
| fence_cancel: "pstep v0 mut d (Fencing g hs) d (Cancelling g)"
| read: "mut (readState v0 d) = Some v \<Longrightarrow> pstep v0 mut d (Reading g) d (Writing g v)"
| read_cancel: "pstep v0 mut d (Reading g) d (Cancelling g)"
| put: "present Pending g d \<Longrightarrow>
     pstep v0 mut d (Writing g v) (d\<lparr>state_file := (state_file d)(g \<mapsto> v)\<rparr>) (Committing g v)"
| put_fenced: "operationWasFenced g d \<Longrightarrow> pstep v0 mut d (Writing g v) d Finished"
| put_failed: "pstep v0 mut d (Writing g v) d (Cancelling g)"
| commit: "transitionOperation Committed g d = Some d' \<Longrightarrow>
     pstep v0 mut d (Committing g v) d' Finished"
| commit_fenced: "operationWasFenced g d \<Longrightarrow> pstep v0 mut d (Committing g v) d Finished"
| commit_failed: "pstep v0 mut d (Committing g v) d (Cancelling g)"
| cancel: "pstep v0 mut d (Cancelling g) (cancelOperation g d) Finished"
| retry: "pstep v0 mut d Finished d Start"

section \<open>Interleaving\<close>

text \<open>
  A configuration is the directory, the phases of the processes and the commits made so far,
  latest first; the commits are a record of the run, not state of the program.
\<close>

record ('p, 'v) config =
  dir :: "'v cache_dir"
  phases :: "'p \<Rightarrow> 'v phase"
  commits :: "(nat \<times> 'p \<times> 'v) list"

definition empty_dir :: "'v cache_dir" where
  "empty_dir = \<lparr>entries = [], state_file = (\<lambda>_. None), active_claim = None\<rparr>"

definition initial :: "('p, 'v) config" where
  "initial = \<lparr>dir = empty_dir, phases = (\<lambda>_. Start), commits = []\<rparr>"

definition record_commit :: "'p \<Rightarrow> 'v phase \<Rightarrow> 'v cache_dir \<Rightarrow> 'v cache_dir \<Rightarrow> (nat \<times> 'p \<times> 'v) list
    \<Rightarrow> (nat \<times> 'p \<times> 'v) list" where
  "record_commit i ph d d' h = (case ph of
     Committing g v \<Rightarrow> if \<not> present Committed g d \<and> present Committed g d' then (g, i, v) # h else h
   | _ \<Rightarrow> h)"

inductive reachable :: "'v \<Rightarrow> ('p \<Rightarrow> 'v \<Rightarrow> 'v option) \<Rightarrow> ('p, 'v) config \<Rightarrow> bool"
  for v0 mut where
  init: "reachable v0 mut initial"
| step: "reachable v0 mut c \<Longrightarrow> pstep v0 (mut i) (dir c) (phases c i) d' ph' \<Longrightarrow>
     reachable v0 mut (c\<lparr>dir := d', phases := (phases c)(i := ph'),
       commits := record_commit i (phases c i) (dir c) d' (commits c)\<rparr>)"

inductive_simps pstep_simps: "pstep v0 mut d ph d' ph'"
inductive_cases pstepE: "pstep v0 mut d ph d' ph'"

end
