(* ===== verification/UpdateProtocolFacts.thy ===== *)
theory UpdateProtocolFacts
  imports UpdateProtocol
begin

text \<open>
  Serialisability of the operations protocol: in every reachable configuration the committed
  generations increase in the order of the commits, and each committed state is the mutation of
  the state committed just before it.
\<close>

section \<open>What one step does\<close>

abbreviation ents :: "'v cache_dir \<Rightarrow> (opkind \<times> nat) set" where
  "ents d \<equiv> set (entries d)"

fun gen_of :: "'v phase \<Rightarrow> nat option" where
  "gen_of (Reserving occ g) = Some g"
| "gen_of (Owning g) = Some g"
| "gen_of (Checking g) = Some g"
| "gen_of (Promoting g n) = Some g"
| "gen_of (Inspecting g n) = Some g"
| "gen_of (Retiring g n) = Some g"
| "gen_of (Renaming g n) = Some g"
| "gen_of (Confirming g) = Some g"
| "gen_of (Holding g) = Some g"
| "gen_of (Listing g) = Some g"
| "gen_of (Fencing g hs) = Some g"
| "gen_of (Reading g) = Some g"
| "gen_of (Writing g v) = Some g"
| "gen_of (Committing g v) = Some g"
| "gen_of (Cancelling g) = Some g"
| "gen_of _ = None"

text \<open>Past the first test for higher generations, and not on the way out.\<close>

fun may_commit :: "'v phase \<Rightarrow> bool" where
  "may_commit (Promoting g n) = True"
| "may_commit (Inspecting g n) = True"
| "may_commit (Retiring g n) = True"
| "may_commit (Renaming g n) = True"
| "may_commit (Confirming g) = True"
| "may_commit (Holding g) = True"
| "may_commit (Listing g) = True"
| "may_commit (Fencing g hs) = True"
| "may_commit (Reading g) = True"
| "may_commit (Writing g v) = True"
| "may_commit (Committing g v) = True"
| "may_commit _ = False"

lemmas protocol_defs = cache_mkdir_def transitionOperation_def try_transition_def cancelOperation_def
  superseded_or_def next_attempt_def after_inspection_def present_def

lemma entries_effect:
  assumes "pstep v0 mut d ph d' ph'"
  obtains (same) "entries d' = entries d"
  | (reserved) occ h where "(Reserved, h) \<notin> ents d" "entries d' = (Reserved, h) # entries d"
      "gen_of ph = None" "ph' = Reserving occ h"
  | (pending) occ g where "(Pending, g) \<notin> ents d" "entries d' = (Pending, g) # entries d"
      "ph = Reserving occ g" "ph' = Owning g"
  | (moved) k g where "(Pending, g) \<in> ents d"
      "entries d' = (k, g) # filter (\<lambda>e. e \<noteq> (Pending, g)) (entries d)"
      "k \<in> {Committed, Fenced, Cancelled}" "k = Committed \<longrightarrow> (\<exists>v. ph = Committing g v)"
      "gen_of ph' \<noteq> None \<longrightarrow> (\<exists>g' h hs. ph = Fencing g' (h # hs) \<and> ph' = Fencing g' hs)"
  using assms
  by cases (auto simp: protocol_defs split: if_splits)

lemma gen_effect:
  assumes "pstep v0 mut d ph d' ph'"
  shows "gen_of ph' = None \<or> gen_of ph' = gen_of ph
    \<or> (\<exists>occ h. ph' = Reserving occ h \<and> (Reserved, h) \<notin> ents d \<and> entries d' = (Reserved, h) # entries d)"
  using assms
  by cases (auto simp: protocol_defs split: if_splits claim_status.splits option.splits)

lemma reserving_effect:
  assumes "pstep v0 mut d ph d' (Reserving occ g)"
  shows "entries d' = (Reserved, g) # entries d"
  using assms
  by cases (auto simp: protocol_defs split: if_splits claim_status.splits option.splits)

lemma may_commit_effect:
  assumes "pstep v0 mut d ph d' ph'" and "may_commit ph'"
  shows "gen_of ph' = gen_of ph \<and> (may_commit ph
    \<or> (\<exists>g. ph = Checking g \<and> ph' = Promoting g 8 \<and> (\<forall>k h. (k, h) \<in> ents d \<longrightarrow> h \<le> g) \<and> d' = d))"
  using assms
  by cases (auto simp: protocol_defs operationIsSuperseded_def list_ex_iff not_less
      split: if_splits claim_status.splits option.splits)

lemma may_commit_gen: "may_commit ph \<Longrightarrow> \<exists>g. gen_of ph = Some g"
  by (cases ph) auto

section \<open>Generations have one owner and one fate\<close>

definition names_ok :: "'v cache_dir \<Rightarrow> ('p \<Rightarrow> 'v phase) \<Rightarrow> bool" where
  "names_ok d ps \<longleftrightarrow>
     (\<forall>i g. gen_of (ps i) = Some g \<longrightarrow> (Reserved, g) \<in> ents d)
   \<and> (\<forall>i j g. gen_of (ps i) = Some g \<and> gen_of (ps j) = Some g \<longrightarrow> i = j)
   \<and> (\<forall>k g. (k, g) \<in> ents d \<longrightarrow> (Reserved, g) \<in> ents d)
   \<and> (\<forall>i occ g k. ps i = Reserving occ g \<and> (k, g) \<in> ents d \<longrightarrow> k = Reserved)
   \<and> (\<forall>k k' g. (k, g) \<in> ents d \<and> (k', g) \<in> ents d \<and> k \<noteq> Reserved \<and> k' \<noteq> Reserved \<longrightarrow> k = k')
   \<and> distinct (entries d)"

lemma names_okD:
  assumes "names_ok d ps"
  shows "gen_of (ps i) = Some g \<Longrightarrow> (Reserved, g) \<in> ents d"
    and "gen_of (ps i) = Some g \<Longrightarrow> gen_of (ps j) = Some g \<Longrightarrow> i = j"
    and "(k, g) \<in> ents d \<Longrightarrow> (Reserved, g) \<in> ents d"
    and "ps i = Reserving occ g \<Longrightarrow> (k, g) \<in> ents d \<Longrightarrow> k = Reserved"
    and "(k, g) \<in> ents d \<Longrightarrow> (k', g) \<in> ents d \<Longrightarrow> k \<noteq> Reserved \<Longrightarrow> k' \<noteq> Reserved \<Longrightarrow> k = k'"
    and "distinct (entries d)"
  using assms unfolding names_ok_def by blast+

lemma reserved_stays: "pstep v0 mut d ph d' ph' \<Longrightarrow> (Reserved, g) \<in> ents d \<Longrightarrow> (Reserved, g) \<in> ents d'"
  by (erule entries_effect) auto

lemma names_step:
  assumes n: "names_ok d ps" and s: "pstep v0 mut d (ps i) d' ph'"
  shows "names_ok d' (ps(i := ph'))"
  unfolding names_ok_def
proof (intro conjI allI impI)
  note nd = names_okD [OF n]
  let ?ps = "ps(i := ph')"
  have old: "gen_of (?ps j) = Some g \<Longrightarrow>
      gen_of (ps j) = Some g \<or> (\<exists>occ. j = i \<and> ph' = Reserving occ g \<and> (Reserved, g) \<notin> ents d
        \<and> entries d' = (Reserved, g) # entries d)" for j g
    using gen_effect [OF s] by (auto split: if_splits)
  show "(Reserved, g) \<in> ents d'" if "gen_of (?ps j) = Some g" for j g
    using old [OF that] nd(1) reserved_stays [OF s] by auto
  show "j = k" if "gen_of (?ps j) = Some g \<and> gen_of (?ps k) = Some g" for j k g
    using old [OF conjunct1 [OF that]] old [OF conjunct2 [OF that]] nd(1,2) by blast
  show "(Reserved, g) \<in> ents d'" if "(k, g) \<in> ents d'" for k g
    using s
  proof (cases rule: entries_effect)
    case (pending occ h)
    then have "gen_of (ps i) = Some h" by simp
    with pending nd(1) [of i h] nd(3) that show ?thesis by auto
  next
    case (moved k' h)
    with nd(3) that show ?thesis by auto
  qed (use nd(3) that in auto)
  show "k = Reserved" if "?ps j = Reserving occ g \<and> (k, g) \<in> ents d'" for j occ g k
  proof -
    have j: "?ps j = Reserving occ g" "(k, g) \<in> ents d'" using that by auto
    from old [of j g] j consider "gen_of (ps j) = Some g"
      | "j = i" "(Reserved, g) \<notin> ents d" "entries d' = (Reserved, g) # entries d" by auto
    then show ?thesis
    proof cases
      case 1
      show ?thesis
        using s
      proof (cases rule: entries_effect)
        case same
        show ?thesis
        proof (cases "j = i")
          case True
          with j same s reserving_effect [of v0 mut d "ps i" d' occ g] show ?thesis by auto
        qed (use j same nd(4) in auto)
      next
        case (reserved occ' h)
        then show ?thesis using j 1 nd(3,4) by (cases "j = i") auto
      next
        case (pending occ' h)
        have "j \<noteq> i" using j pending by auto
        with 1 pending nd(2) [of j g i] have "g \<noteq> h" by auto
        with \<open>j \<noteq> i\<close> j pending nd(4) show ?thesis by auto
      next
        case (moved k' h)
        have "j \<noteq> i" using j moved by auto
        with j have "ps j = Reserving occ g" by simp
        with moved nd(4) have "h \<noteq> g" by fastforce
        with \<open>ps j = _\<close> moved j nd(4) show ?thesis by auto
      qed
    next
      case 2
      with nd(3) j show ?thesis by auto
    qed
  qed
  show "k = k'" if "(k, g) \<in> ents d' \<and> (k', g) \<in> ents d' \<and> k \<noteq> Reserved \<and> k' \<noteq> Reserved" for k k' g
    using s
  proof (cases rule: entries_effect)
    case (pending occ h)
    with that nd(4) [of i occ h] nd(5) show ?thesis by auto
  next
    case (moved k'' h)
    with that nd(5) show ?thesis by (auto dest: nd(5))
  qed (use that nd(5) in auto)
  show "distinct (entries d')"
    using s
  proof (cases rule: entries_effect)
    case (moved k h)
    have "(k, h) \<notin> ents d" using moved nd(5) [of k h Pending] by auto
    with moved nd(6) show ?thesis by simp
  qed (use nd(6) in auto)
qed

section \<open>Fencing\<close>

text \<open>A generation that can still commit.\<close>

definition alive :: "'v cache_dir \<Rightarrow> ('p \<Rightarrow> 'v phase) \<Rightarrow> nat \<Rightarrow> bool" where
  "alive d ps g \<longleftrightarrow> (Pending, g) \<in> ents d \<and> (\<exists>i. may_commit (ps i) \<and> gen_of (ps i) = Some g)"

fun reading_of :: "'v phase \<Rightarrow> nat option" where
  "reading_of (Reading g) = Some g"
| "reading_of (Writing g v) = Some g"
| "reading_of (Committing g v) = Some g"
| "reading_of _ = None"

definition fence_ok :: "'v cache_dir \<Rightarrow> ('p \<Rightarrow> 'v phase) \<Rightarrow> bool" where
  "fence_ok d ps \<longleftrightarrow>
     (\<forall>i g hs h. ps i = Fencing g hs \<and> h < g \<and> alive d ps h \<longrightarrow> h \<in> set hs)
   \<and> (\<forall>i g h. reading_of (ps i) = Some g \<and> h < g \<longrightarrow> \<not> alive d ps h)
   \<and> (\<forall>g h. (Committed, g) \<in> ents d \<and> h < g \<longrightarrow> \<not> alive d ps h)"

lemma fence_okD:
  assumes "fence_ok d ps"
  shows "ps i = Fencing g hs \<Longrightarrow> h < g \<Longrightarrow> alive d ps h \<Longrightarrow> h \<in> set hs"
    and "reading_of (ps i) = Some g \<Longrightarrow> h < g \<Longrightarrow> \<not> alive d ps h"
    and "(Committed, g) \<in> ents d \<Longrightarrow> h < g \<Longrightarrow> \<not> alive d ps h"
  using assms unfolding fence_ok_def by blast+

lemma alive_step:
  assumes n: "names_ok d ps" and s: "pstep v0 mut d (ps i) d' ph'" and a: "alive d' (ps(i := ph')) h"
  shows "alive d ps h \<or> (d' = d \<and> ps i = Checking h \<and> ph' = Promoting h 8 \<and> (\<forall>k g. (k, g) \<in> ents d \<longrightarrow> g \<le> h))"
proof -
  note nd = names_okD [OF n]
  from a obtain j where p: "(Pending, h) \<in> ents d'" and j: "may_commit ((ps(i := ph')) j)"
      "gen_of ((ps(i := ph')) j) = Some h"
    by (auto simp: alive_def)
  have old: "(\<exists>j. may_commit (ps j) \<and> gen_of (ps j) = Some h)
      \<or> (d' = d \<and> ps i = Checking h \<and> ph' = Promoting h 8 \<and> (\<forall>k g. (k, g) \<in> ents d \<longrightarrow> g \<le> h))"
  proof (cases "j = i")
    case True
    with j may_commit_effect [OF s] show ?thesis by (auto intro: exI [of _ i])
  qed (use j in auto)
  have "(Pending, h) \<in> ents d"
    using s
  proof (cases rule: entries_effect)
    case (pending occ g)
    have "h \<noteq> g"
    proof
      assume "h = g"
      with j pending nd(2) [of i g j] show False by (cases "j = i") auto
    qed
    with p pending show ?thesis by auto
  qed (use p in auto)
  with old show ?thesis by (auto simp: alive_def)
qed

lemma fencing_effect:
  assumes "pstep v0 mut d ph d' (Fencing g hs)"
  shows "(d' = d \<and> ph = Listing g \<and> hs = lower_pending g d)
    \<or> (\<exists>h. ph = Fencing g (h # hs) \<and> (Pending, h) \<notin> ents d')"
  using assms
  by cases (auto simp: protocol_defs split: if_splits claim_status.splits option.splits)

lemma reading_effect:
  assumes "pstep v0 mut d ph d' ph'" and "reading_of ph' = Some g"
  shows "reading_of ph = Some g \<or> ph = Fencing g [] \<and> d' = d"
  using assms
  by cases (auto simp: protocol_defs split: if_splits claim_status.splits option.splits)

lemma reading_gen: "reading_of ph = Some g \<Longrightarrow> gen_of ph = Some g \<and> may_commit ph"
  by (cases ph) auto

lemma fence_step:
  assumes n: "names_ok d ps" and f: "fence_ok d ps" and s: "pstep v0 mut d (ps i) d' ph'"
  shows "fence_ok d' (ps(i := ph'))"
  unfolding fence_ok_def
proof (intro conjI allI impI)
  note nd = names_okD [OF n] and fd = fence_okD [OF f]
  let ?ps = "ps(i := ph')"
  have old: "alive d ps h" if "alive d' ?ps h" "h < g" "(k, g) \<in> ents d" for h g k
    using alive_step [OF n s that(1)] that(2,3) by (meson leD)
  have gen: "alive d ps h" if "alive d' ?ps h" "h < g" "gen_of (ps j) = Some g" for h g j
    using old [OF that(1,2)] nd(1) [OF that(3)] by blast
  show "h \<in> set hs" if "?ps j = Fencing g hs \<and> h < g \<and> alive d' ?ps h" for j g hs h
  proof (cases "j = i")
    case True
    with that s have st: "pstep v0 mut d (ps i) d' (Fencing g hs)" by auto
    from fencing_effect [OF this] show ?thesis
    proof
      assume "d' = d \<and> ps i = Listing g \<and> hs = lower_pending g d"
      with that show ?thesis by (force simp: alive_def lower_pending_def)
    next
      assume "\<exists>x. ps i = Fencing g (x # hs) \<and> (Pending, x) \<notin> ents d'"
      then obtain x where x: "ps i = Fencing g (x # hs)" "(Pending, x) \<notin> ents d'" by blast
      with gen [of h g i] that have "alive d ps h" by simp
      with fd(1) [OF x(1)] that have "h \<in> set (x # hs)" by blast
      with x that show ?thesis by (auto simp: alive_def)
    qed
  next
    case False
    with that gen [of h g j] fd(1) [of j g hs h] show ?thesis by simp
  qed
  show "\<not> alive d' ?ps h" if "reading_of (?ps j) = Some g \<and> h < g" for j g h
  proof
    assume a: "alive d' ?ps h"
    show False
    proof (cases "j = i")
      case True
      with that reading_effect [OF s, of g] consider "reading_of (ps i) = Some g" | "ps i = Fencing g []"
        by auto
      then show ?thesis
        using a that gen [of h g i] fd(1) [of i g "[]" h] fd(2) [of i g h] reading_gen [of "ps i" g]
        by cases auto
    next
      case False
      with a that gen [of h g j] fd(2) [of j g h] reading_gen [of "ps j" g] show ?thesis by auto
    qed
  qed
  show "\<not> alive d' ?ps h" if c: "(Committed, g) \<in> ents d' \<and> h < g" for g h
  proof
    assume a: "alive d' ?ps h"
    show False
    proof (cases "(Committed, g) \<in> ents d")
      case True
      with old [OF a, of g Committed] c fd(3) show ?thesis by auto
    next
      case False
      with s c obtain v where v: "ps i = Committing g v" by (cases rule: entries_effect) auto
      with gen [OF a, of g i] c fd(2) [of i g h] show ?thesis by auto
    qed
  qed
qed

section \<open>The history\<close>

definition head_state :: "'v \<Rightarrow> (nat \<times> 'p \<times> 'v) list \<Rightarrow> 'v" where
  "head_state v0 h = (case h of [] \<Rightarrow> v0 | (g, i, v) # _ \<Rightarrow> v)"

fun chain :: "'v \<Rightarrow> ('p \<Rightarrow> 'v \<Rightarrow> 'v option) \<Rightarrow> (nat \<times> 'p \<times> 'v) list \<Rightarrow> bool" where
  "chain v0 mut [] = True"
| "chain v0 mut ((g, i, v) # h) = (mut i (head_state v0 h) = Some v
     \<and> (\<forall>e \<in> set h. fst e < g) \<and> chain v0 mut h)"

fun decided :: "'v phase \<Rightarrow> (nat \<times> 'v) option" where
  "decided (Writing g v) = Some (g, v)"
| "decided (Committing g v) = Some (g, v)"
| "decided _ = None"

definition history_ok :: "'v \<Rightarrow> ('p \<Rightarrow> 'v \<Rightarrow> 'v option) \<Rightarrow> ('p, 'v) config \<Rightarrow> bool" where
  "history_ok v0 mut c \<longleftrightarrow>
     chain v0 mut (commits c)
   \<and> fst ` set (commits c) = {g. (Committed, g) \<in> ents (dir c)}
   \<and> (\<forall>(g, i, v) \<in> set (commits c). state_file (dir c) g = Some v)
   \<and> (\<forall>i g v. phases c i = Committing g v \<longrightarrow> state_file (dir c) g = Some v)
   \<and> (\<forall>i g v. decided (phases c i) = Some (g, v) \<and> (Pending, g) \<in> ents (dir c) \<longrightarrow>
        mut i (head_state v0 (commits c)) = Some v)"

lemma history_okD:
  assumes "history_ok v0 mut c"
  shows "chain v0 mut (commits c)"
    and "fst ` set (commits c) = {g. (Committed, g) \<in> ents (dir c)}"
    and "(g, i, v) \<in> set (commits c) \<Longrightarrow> state_file (dir c) g = Some v"
    and "phases c i = Committing g v \<Longrightarrow> state_file (dir c) g = Some v"
    and "decided (phases c i) = Some (g, v) \<Longrightarrow> (Pending, g) \<in> ents (dir c) \<Longrightarrow>
        mut i (head_state v0 (commits c)) = Some v"
  using assms unfolding history_ok_def by blast+

lemma chain_sorted: "chain v0 mut h \<Longrightarrow> sorted_wrt (>) (map fst h)"
  by (induction h rule: chain.induct) auto

lemma descending_list: "sorted_wrt (>) xs \<Longrightarrow> sorted (rev xs) \<and> distinct xs" for xs :: "nat list"
  by (induction xs) (auto simp: sorted_append)

lemma read_head:
  assumes n: "distinct (entries (dir c))" and h: "history_ok v0 mut c"
  shows "readState v0 (dir c) = head_state v0 (commits c)"
proof -
  let ?cs = "filter (\<lambda>(k, h). k = Committed) (entries (dir c))"
  have srt: "sorted_wrt (>) (map fst (commits c))"
    by (rule chain_sorted [OF history_okD(1) [OF h]])
  have "distinct (map snd ?cs)"
    using n by (auto simp: distinct_map inj_on_def)
  moreover have "set (map snd ?cs) = set (map fst (commits c))"
    using history_okD(2) [OF h] by force
  moreover have "sorted (rev (map fst (commits c))) \<and> distinct (map fst (commits c))"
    using srt descending_list by blast
  ultimately have "sort (map snd ?cs) = rev (map fst (commits c))"
    by (intro sorted_distinct_set_unique) auto
  then have desc: "committed_desc (dir c) = map fst (commits c)"
    by (simp add: committed_desc_def)
  show ?thesis
  proof (cases "commits c")
    case (Cons e es)
    with history_okD(3) [OF h, of "fst e" "fst (snd e)" "snd (snd e)"] desc show ?thesis
      by (cases e) (simp add: readState_def head_state_def)
  qed (simp add: readState_def head_state_def desc)
qed

lemma decided_effect:
  assumes "pstep v0 mut d ph d' ph'" and "decided ph' = Some (g, v)"
  shows "decided ph = Some (g, v)
    \<or> (ph = Reading g \<and> d' = d \<and> mut (readState v0 d) = Some v)"
  using assms
  by cases (auto simp: protocol_defs split: if_splits claim_status.splits option.splits)

lemma decided_reading: "decided ph = Some (g, v) \<Longrightarrow> reading_of ph = Some g"
  by (cases ph) auto

lemma committing_effect:
  assumes "pstep v0 mut d ph d' (Committing g v)"
  shows "ph = Writing g v \<and> state_file d' g = Some v"
  using assms
  by cases (auto simp: protocol_defs split: if_splits claim_status.splits option.splits)

lemma state_file_effect:
  assumes "pstep v0 mut d ph d' ph'"
  shows "state_file d' = state_file d
    \<or> (\<exists>g v. ph = Writing g v \<and> (Pending, g) \<in> ents d \<and> state_file d' = (state_file d)(g \<mapsto> v))"
  using assms
  by cases (auto simp: protocol_defs split: if_splits)

lemma moved_entries:
  "set ((k, g) # filter (\<lambda>e. e \<noteq> (Pending, g)) (entries d)) = insert (k, g) {e \<in> ents d. e \<noteq> (Pending, g)}"
  by auto

lemma commit_effect:
  assumes s: "pstep v0 mut d ph d' ph'"
  obtains (none) "\<forall>g. (Committed, g) \<in> ents d' \<longleftrightarrow> (Committed, g) \<in> ents d"
  | (commits) g v where "ph = Committing g v" "ph' = Finished" "(Pending, g) \<in> ents d"
      "ents d' = insert (Committed, g) {e \<in> ents d. e \<noteq> (Pending, g)}" "state_file d' = state_file d"
proof (cases "\<exists>g v. ph = Committing g v \<and> transitionOperation Committed g d = Some d' \<and> ph' = Finished")
  case True
  then obtain g v where p: "ph = Committing g v" "transitionOperation Committed g d = Some d'" "ph' = Finished"
    by blast
  then have d': "(Pending, g) \<in> ents d"
      "d' = d\<lparr>entries := (Committed, g) # filter (\<lambda>e. e \<noteq> (Pending, g)) (entries d)\<rparr>"
    by (auto simp: protocol_defs split: if_splits)
  show ?thesis
    by (rule that(2) [OF p(1,3) d'(1)]) (use moved_entries [of Committed g d] in \<open>simp_all add: d'\<close>)
next
  case False
  have "\<forall>g. (Committed, g) \<in> ents d' \<longleftrightarrow> (Committed, g) \<in> ents d"
    using s False by cases (auto simp: protocol_defs split: if_splits)
  with that(1) show ?thesis .
qed

lemma history_step:
  assumes n: "names_ok (dir c) (phases c)" and f: "fence_ok (dir c) (phases c)" and h: "history_ok v0 mut c"
    and s: "pstep v0 (mut i) (dir c) (phases c i) d' ph'"
    and c': "c' = c\<lparr>dir := d', phases := (phases c)(i := ph'),
        commits := record_commit i (phases c i) (dir c) d' (commits c)\<rparr>"
  shows "history_ok v0 mut c'"
proof -
  let ?d = "dir c" and ?ps = "phases c"
  note nd = names_okD [OF n] and fd = fence_okD [OF f] and hd = history_okD [OF h]
  have head: "readState v0 ?d = head_state v0 (commits c)" by (rule read_head [OF nd(6) h])
  have alive_decided: "alive ?d ?ps g" if "decided (?ps j) = Some (g, v)" "(Pending, g) \<in> ents ?d" for j g v
    using that(2) reading_gen [OF decided_reading [OF that(1)]] by (auto simp: alive_def)
  have files: "state_file d' g = Some v"
    if "state_file ?d g = Some v" "(Committed, g) \<in> ents ?d \<or> (\<exists>j w. j \<noteq> i \<and> ?ps j = Committing g w)" for g v
    using state_file_effect [OF s]
  proof
    assume "\<exists>g v. ?ps i = Writing g v \<and> (Pending, g) \<in> ents ?d \<and> state_file d' = (state_file ?d)(g \<mapsto> v)"
    then obtain x w where x: "?ps i = Writing x w" "(Pending, x) \<in> ents ?d" "state_file d' = (state_file ?d)(x \<mapsto> w)"
      by blast
    have "x \<noteq> g"
    proof
      assume "x = g"
      with that(2) x nd(5) [of Pending x Committed] obtain j w' where "j \<noteq> i" "?ps j = Committing x w'" by auto
      with x nd(2) [of i x j] show False by simp
    qed
    with x that(1) show ?thesis by simp
  qed (use that in simp)
  have written: "state_file d' g = Some v" if "(?ps(i := ph')) j = Committing g v" for j g v
  proof (cases "j = i")
    case True
    with that s have "pstep v0 (mut i) ?d (?ps i) d' (Committing g v)" by simp
    from committing_effect [OF this] show ?thesis by simp
  next
    case False
    with that hd(4) [of j g v] files [of g v] show ?thesis by auto
  qed
  show ?thesis
    using s
  proof (cases rule: commit_effect)
    case none
    have same: "record_commit i (?ps i) ?d d' (commits c) = commits c"
      using none by (auto simp: record_commit_def present_def split: phase.splits)
    have dec: "mut j (head_state v0 (commits c)) = Some v"
      if d: "decided ((?ps(i := ph')) j) = Some (g, v)" and p: "(Pending, g) \<in> ents d'" for j g v
    proof (cases "j = i")
      case True
      with d decided_effect [OF s, of g v]
      consider "decided (?ps i) = Some (g, v)" | "mut i (readState v0 ?d) = Some v" by auto
      then show ?thesis
      proof cases
        case 1
        have "(Pending, g) \<in> ents ?d"
          using s p
        proof (cases rule: entries_effect)
          case (pending occ h)
          with 1 show ?thesis by simp
        qed (use p in auto)
        with hd(5) [OF 1] True show ?thesis by simp
      qed (use head True in simp)
    next
      case False
      with d have 1: "decided (?ps j) = Some (g, v)" by simp
      have "(Pending, g) \<in> ents ?d"
        using s p
      proof (cases rule: entries_effect)
        case (pending occ h)
        have "gen_of (?ps j) = Some g" using reading_gen [OF decided_reading [OF 1]] by simp
        with pending nd(2) [of i g j] False have "h \<noteq> g" by auto
        with p pending show ?thesis by auto
      qed (use p in auto)
      with hd(5) [OF 1] show ?thesis by simp
    qed
    have com: "(Committed, g) \<in> ents ?d" if "(g, j, v) \<in> set (commits c)" for g j v
      using hd(2) that by force
    show ?thesis
      unfolding history_ok_def
    proof (intro conjI allI ballI impI)
      show "chain v0 mut (commits c')" using hd(1) by (simp add: c' same)
      show "fst ` set (commits c') = {g. (Committed, g) \<in> ents (dir c')}"
        using hd(2) none by (simp add: c' same)
      show "case e of (g, j, v) \<Rightarrow> state_file (dir c') g = Some v" if "e \<in> set (commits c')" for e
      proof -
        obtain g j v where e: "e = (g, j, v)" by (cases e)
        with that have m: "(g, j, v) \<in> set (commits c)" by (simp add: c' same)
        show ?thesis using files [OF hd(3) [OF m] disjI1 [OF com [OF m]]] by (simp add: c' e)
      qed
      show "state_file (dir c') g = Some v" if "phases c' j = Committing g v" for j g v
        using that written [of j g v] by (simp add: c')
      show "mut j (head_state v0 (commits c')) = Some v"
        if "decided (phases c' j) = Some (g, v) \<and> (Pending, g) \<in> ents (dir c')" for j g v
        using that dec [of j g v] by (simp add: c' same)
    qed
  next
    case (commits g v)
    have p: "(Pending, g) \<in> ents ?d" by (rule commits(3))
    have al: "alive ?d ?ps g" using alive_decided [of i g v] commits by simp
    have notc: "(Committed, g) \<notin> ents ?d" using nd(5) [OF p, of Committed] by auto
    have rec: "record_commit i (?ps i) ?d d' (commits c) = (g, i, v) # commits c"
      using commits notc by (simp add: record_commit_def present_def)
    have below: "x < g" if "(Committed, x) \<in> ents ?d" for x
      using fd(3) [OF that, of g] al that notc by (metis linorder_neqE_nat)
    have mutv: "mut i (head_state v0 (commits c)) = Some v" using hd(5) [of i g v] commits by simp
    have others: "(Pending, x) \<notin> ents d'" if d: "decided ((?ps(i := ph')) j) = Some (x, w)" for j x w
    proof
      assume px: "(Pending, x) \<in> ents d'"
      have ji: "j \<noteq> i" using d commits by auto
      then have dj: "decided (?ps j) = Some (x, w)" using d by simp
      have pd: "(Pending, x) \<in> ents ?d" "x \<noteq> g" using px commits by auto
      have "reading_of (?ps i) = Some g" "reading_of (?ps j) = Some x"
        using commits dj decided_reading by auto
      with fd(2) [of i g x] fd(2) [of j x g] alive_decided [OF dj pd(1)] al pd(2) show False
        by (meson linorder_neqE_nat)
    qed
    show ?thesis
      unfolding history_ok_def
    proof (intro conjI allI ballI impI)
      have "\<forall>e \<in> set (commits c). fst e < g" using below hd(2) by blast
      then show "chain v0 mut (commits c')" using mutv hd(1) by (simp add: c' rec)
      show "fst ` set (commits c') = {g. (Committed, g) \<in> ents (dir c')}"
        using hd(2) commits(4) by (simp add: c' rec) blast
      show "case e of (x, j, w) \<Rightarrow> state_file (dir c') x = Some w" if "e \<in> set (commits c')" for e
      proof -
        have "commits c' = (g, i, v) # commits c" "dir c' = d'" by (simp_all add: c' rec)
        with that hd(3) hd(4) [of i g v] commits(1,5) show ?thesis by auto
      qed
      show "state_file (dir c') x = Some w" if "phases c' j = Committing x w" for j x w
        using that written [of j x w] by (simp add: c')
      show "mut j (head_state v0 (commits c')) = Some w"
        if "decided (phases c' j) = Some (x, w) \<and> (Pending, x) \<in> ents (dir c')" for j x w
        using that others [of j x w] by (simp add: c')
    qed
  qed
qed

section \<open>Reachable configurations\<close>

definition protocol_ok :: "'v \<Rightarrow> ('p \<Rightarrow> 'v \<Rightarrow> 'v option) \<Rightarrow> ('p, 'v) config \<Rightarrow> bool" where
  "protocol_ok v0 mut c \<longleftrightarrow>
     names_ok (dir c) (phases c) \<and> fence_ok (dir c) (phases c) \<and> history_ok v0 mut c"

lemma reachable_ok: "reachable v0 mut c \<Longrightarrow> protocol_ok v0 mut c"
proof (induction rule: reachable.induct)
  case init
  show ?case
    by (simp add: protocol_ok_def names_ok_def fence_ok_def history_ok_def initial_def empty_dir_def)
next
  case (step c i d' ph')
  let ?c = "c\<lparr>dir := d', phases := (phases c)(i := ph'),
      commits := record_commit i (phases c i) (dir c) d' (commits c)\<rparr>"
  from step.IH have ok: "names_ok (dir c) (phases c)" "fence_ok (dir c) (phases c)" "history_ok v0 mut c"
    by (simp_all add: protocol_ok_def)
  have "history_ok v0 mut ?c" by (rule history_step [OF ok step.hyps(2) refl])
  with names_step [OF ok(1) step.hyps(2)] fence_step [OF ok(1,2) step.hyps(2)] show ?case
    by (simp add: protocol_ok_def)
qed

lemma reachable_facts:
  assumes "reachable v0 mut c"
  shows "names_ok (dir c) (phases c)" "history_ok v0 mut c"
    "readState v0 (dir c) = head_state v0 (commits c)"
proof -
  show n: "names_ok (dir c) (phases c)" and h: "history_ok v0 mut c"
    using reachable_ok [OF assms] by (simp_all add: protocol_ok_def)
  show "readState v0 (dir c) = head_state v0 (commits c)"
    by (rule read_head [OF names_okD(6) [OF n] h])
qed

section \<open>Names\<close>

lemma decimal_digits: "list_all is_digit (decimal n) \<and> decimal n \<noteq> [] \<and> nat_of_digits (decimal n) = n"
proof (induction n rule: decimal.induct)
  case (1 n)
  show ?case
  proof (cases "n < 10")
    case True
    then show ?thesis by (simp add: decimal.simps [of n] is_digit_def nat_of_digits_def)
  next
    case False
    with 1 have ih: "list_all is_digit (decimal (n div 10))" "nat_of_digits (decimal (n div 10)) = n div 10"
      by auto
    have "nat_of_digits (decimal (n div 10) @ [48 + n mod 10]) = 10 * (n div 10) + n mod 10"
      using ih(2) by (simp add: nat_of_digits_def)
    moreover have "is_digit (48 + n mod 10)" by (simp add: is_digit_def)
    ultimately show ?thesis using False ih(1) by (simp add: decimal.simps [of n])
  qed
qed

lemma decimal_length: "n < 10 ^ Suc k \<Longrightarrow> length (decimal n) \<le> Suc k"
proof (induction k arbitrary: n)
  case (Suc k)
  show ?case
  proof (cases "n < 10")
    case False
    have "n div 10 < 10 ^ Suc k" using Suc.prems by (simp add: less_mult_imp_div_less mult.commute)
    with Suc.IH False show ?thesis by (simp add: decimal.simps [of n])
  qed (simp add: decimal.simps)
qed (simp add: decimal.simps)

lemma pad20_digits:
  assumes "g < 10 ^ 20"
  shows "length (pad20 (decimal g)) = 20" "list_all is_digit (pad20 (decimal g))"
    "nat_of_digits (pad20 (decimal g)) = g"
proof -
  have "length (decimal g) \<le> 20" using decimal_length [of g 19] assms by simp
  then show "length (pad20 (decimal g)) = 20" by (simp add: pad20_def)
  show "list_all is_digit (pad20 (decimal g))"
    using decimal_digits [of g] by (auto simp: pad20_def list_all_iff is_digit_def)
  have "nat_of_digits (replicate k 48 @ p) = nat_of_digits p" for k p
    by (induction k) (simp_all add: nat_of_digits_Cons)
  then show "nat_of_digits (pad20 (decimal g)) = g"
    using decimal_digits [of g] by (simp add: pad20_def)
qed

lemma kind_prefix:
  "take (length (kind_name k @ [45])) (kind_name k' @ 45 # s) = kind_name k @ [45] \<longleftrightarrow> k = k'"
  by (cases k; cases k'; simp add: kind_name_def lit_def)

lemma parse_operation_name:
  assumes "g \<le> MAX_OPERATION_GENERATION"
  shows "parseOperationName (operationName k g) = Some (k, g)"
proof -
  have g: "g < 10 ^ 20" using assms by (simp add: MAX_OPERATION_GENERATION_def)
  have "parse_with k' (operationName k g) = (if k' = k then Some (k, g) else None)" for k'
    using pad20_digits [OF g] kind_prefix [of k' k "pad20 (decimal g)"]
    by (simp add: parse_with_def operationName_def)
  then show ?thesis
    by (cases k) (simp_all add: parseOperationName_def kinds_def List.map_filter_def)
qed

end
