(* ===== verification/ProtocolProperties.thy ===== *)
theory ProtocolProperties
  imports UpdateProtocolFacts UpdateProperties
begin

text \<open>
  The protocol as the processes of \<open>check-update.mjs\<close> use it: their mutations, the invariant of
  every state they read, and a run in which a lone process commits.
\<close>

section \<open>The mutations of the processes\<close>

text \<open>What a process commits under its generation, with the arguments of its call.\<close>

datatype intent =
    FetchedCheck jval candidate real jsnum
  | FailedCheck reason real
  | Acknowledge jstring jstring

definition intent_mutation :: "iso_printer \<Rightarrow> intent \<Rightarrow> update_state \<Rightarrow> mutation_error + decision" where
  "intent_mutation to_iso x = (case x of
     FetchedCheck release c nowMs random \<Rightarrow> successful_check to_iso release c nowMs random
   | FailedCheck r nowMs \<Rightarrow> failed_check to_iso r nowMs
   | Acknowledge key d \<Rightarrow> acknowledgement key d)"

definition committed_state_of :: "mutation_error + decision \<Rightarrow> update_state option" where
  "committed_state_of r = (case r of Inl e \<Rightarrow> None
     | Inr d \<Rightarrow> (case plan_commit d of Cancel x \<Rightarrow> None | Write t s x \<Rightarrow> Some s))"

definition program :: "iso_printer \<Rightarrow> ('p \<Rightarrow> intent) \<Rightarrow> 'p \<Rightarrow> update_state \<Rightarrow> update_state option" where
  "program to_iso intents i s = committed_state_of (intent_mutation to_iso (intents i) s)"

text \<open>The candidate of a check comes from a validated manifest, the release from the installation.\<close>

definition intent_ok :: "jstring \<Rightarrow> intent \<Rightarrow> bool" where
  "intent_ok version x = (case x of
     FetchedCheck release c nowMs random \<Rightarrow>
       (\<exists>m. validateManifest m = Inr c) \<and> jget release (lit ''version'') = JStr version
   | _ \<Rightarrow> True)"

definition installed_normal :: "jstring \<Rightarrow> update_state \<Rightarrow> bool" where
  "installed_normal version s \<longleftrightarrow> normal_state s \<and> installedVersion s = Some version"

lemma program_normal:
  assumes p: "printer_ok to_iso" and i: "intent_ok version (intents i)" and n: "installed_normal version s"
    and s: "program to_iso intents i s = Some s'"
  shows "installed_normal version s'"
proof -
  from s obtain d x r where d: "intent_mutation to_iso (intents i) s = Inr d" and w: "plan_commit d = Write x s' r"
    by (auto simp: program_def committed_state_of_def split: sum.splits commit_plan.splits)
  from n have ns: "normal_state s" and v: "installedVersion s = Some version"
    by (simp_all add: installed_normal_def)
  show ?thesis
  proof (cases "intents i")
    case (FetchedCheck release c nowMs random)
    with i obtain m where m: "validateManifest m = Inr c" "jget release (lit ''version'') = JStr version"
      by (auto simp: intent_ok_def)
    from d FetchedCheck have "successful_check to_iso release c nowMs random s = Inr d"
      by (simp add: intent_mutation_def)
    from successful_check_plan [OF p ns m(1) v m(2) this] w show ?thesis
      by (auto simp: installed_normal_def)
  next
    case (FailedCheck r' nowMs)
    with d have "failed_check to_iso r' nowMs s = Inr d" by (simp add: intent_mutation_def)
    from failed_check_plan [OF p ns this] w v show ?thesis by (auto simp: installed_normal_def)
  next
    case (Acknowledge key dg)
    with d have "acknowledgement key dg s = Inr d" by (simp add: intent_mutation_def)
    from acknowledgement_plan [OF ns this] w v show ?thesis
      by (auto simp: installed_normal_def stateAfterAcknowledgement_def)
  qed
qed

text \<open>A predicate the mutations keep holds of the state read at any time.\<close>

lemma chain_invariant:
  assumes "chain v0 mut h" and "P v0" and "\<And>i s s'. P s \<Longrightarrow> mut i s = Some s' \<Longrightarrow> P s'"
  shows "P (head_state v0 h)"
  using assms(1)
proof (induction h)
  case (Cons e h)
  obtain g i v where e: "e = (g, i, v)" by (cases e)
  from Cons.prems have "mut i (head_state v0 h) = Some v" "chain v0 mut h" by (simp_all add: e)
  with Cons.IH assms(3) show ?case by (simp add: e head_state_def)
qed (use assms(2) in \<open>simp add: head_state_def\<close>)

lemma emptyState_normal: "parses (Some version) \<Longrightarrow> encodeRecoverableState (emptyState (Some version)) \<noteq> None
    \<Longrightarrow> installed_normal version (emptyState (Some version))"
  by (simp add: installed_normal_def normal_state_def digests_ok_def) (simp add: emptyState_def)

definition sample_installed :: jstring where
  "sample_installed = lit ''2.0.0-rc.1''"

section \<open>A lone process\<close>

definition at_phase :: "'v \<Rightarrow> ('p \<Rightarrow> 'v \<Rightarrow> 'v option) \<Rightarrow> 'p \<Rightarrow> 'v cache_dir \<Rightarrow> 'v phase
    \<Rightarrow> (nat \<times> 'p \<times> 'v) list \<Rightarrow> bool" where
  "at_phase v0 mut i d ph h \<longleftrightarrow>
     (\<exists>c. reachable v0 mut c \<and> dir c = d \<and> phases c i = ph \<and> commits c = h)"

lemma advance:
  assumes "at_phase v0 mut i d ph h" and "pstep v0 (mut i) d ph d' ph'" and "\<And>g v. ph \<noteq> Committing g v"
  shows "at_phase v0 mut i d' ph' h"
proof -
  from assms(1) obtain c where c: "reachable v0 mut c" "dir c = d" "phases c i = ph" "commits c = h"
    by (auto simp: at_phase_def)
  with assms(2) have "pstep v0 (mut i) (dir c) (phases c i) d' ph'" by simp
  from reachable.step [OF c(1) this] have "reachable v0 mut (c\<lparr>dir := d', phases := (phases c)(i := ph'), commits := h\<rparr>)"
    using c(3,4) assms(3) by (auto simp: record_commit_def split: phase.splits)
  then show ?thesis by (force simp: at_phase_def)
qed

lemma advance_commit:
  assumes "at_phase v0 mut i d (Committing g v) h" and "transitionOperation Committed g d = Some d'"
    and "\<not> present Committed g d"
  shows "at_phase v0 mut i d' Finished ((g, i, v) # h)"
proof -
  from assms(1) obtain c where c: "reachable v0 mut c" "dir c = d" "phases c i = Committing g v" "commits c = h"
    by (auto simp: at_phase_def)
  have "pstep v0 (mut i) (dir c) (phases c i) d' Finished"
    using c assms(2) by (auto intro: pstep.commit)
  from reachable.step [OF c(1) this]
  have "reachable v0 mut (c\<lparr>dir := d', phases := (phases c)(i := Finished), commits := (g, i, v) # h\<rparr>)"
    using c assms(2,3) by (auto simp: record_commit_def present_def transitionOperation_def split: if_splits)
  then show ?thesis by (force simp: at_phase_def)
qed

definition solo_dir :: "(opkind \<times> nat) list \<Rightarrow> 'v option \<Rightarrow> nat option option \<Rightarrow> 'v cache_dir" where
  "solo_dir es s a = \<lparr>entries = es, state_file = (\<lambda>_. None)(1 := s), active_claim = a\<rparr>"

lemmas solo_simps = solo_dir_def protocol_defs inspectActiveClaim_def hasActivePendingOperation_def
  operationIsSuperseded_def operationOwnsActiveClaim_def lower_pending_def readState_def
  committed_desc_def next_free.simps MAX_OPERATION_GENERATION_def

lemma solo_run:
  assumes m: "mut i v0 = Some v"
  shows "at_phase v0 mut i (solo_dir [(Committed, 1), (Reserved, 1)] (Some v) (Some (Some 1)))
     Finished [(1, i, v)]"
proof -
  let ?R = "[(Reserved, 1 :: nat)]" and ?P = "[(Pending, 1 :: nat), (Reserved, 1)]"
  let ?at = "\<lambda>es s a ph. at_phase v0 mut i (solo_dir es s a) ph []"
  have "?at [] None None Start"
    unfolding at_phase_def
    by (intro exI [of _ initial] conjI reachable.init)
      (simp_all add: initial_def empty_dir_def solo_dir_def fun_eq_iff)
  then have "?at [] None None Scanning"
    by (rule advance) (auto intro: pstep.start [of True "\<lambda>_. True"] simp: solo_simps)
  then have "?at [] None None (Choosing [] 1)"
    by (rule advance) (use pstep.scan [of "\<lambda>_. True" "solo_dir [] None None"] in \<open>auto simp: solo_simps\<close>)
  then have "?at ?R None None (Reserving [] 1)"
    by (rule advance) (auto intro!: pstep.choose simp: solo_simps)
  then have "?at ?P None None (Owning 1)"
    by (rule advance) (auto intro!: pstep.reserve simp: solo_simps)
  then have "?at ?P None None (Checking 1)"
    by (rule advance) (auto intro!: pstep.own simp: solo_simps)
  then have "?at ?P None None (Promoting 1 8)"
    by (rule advance) (use pstep.check [of v0 "mut i" "solo_dir ?P None None" 1] in \<open>auto simp: solo_simps\<close>)
  then have "?at ?P None None (Inspecting 1 8)"
    by (rule advance) (use pstep.promote [of v0 "mut i" "solo_dir ?P None None" 1 8] in \<open>auto simp: solo_simps\<close>)
  then have "?at ?P None None (Renaming 1 8)"
    by (rule advance)
      (use pstep.inspect [of v0 "mut i" "solo_dir ?P None None" 1 8 True "\<lambda>_. True"] in \<open>auto simp: solo_simps\<close>)
  then have "?at ?P None (Some (Some 1)) (Confirming 1)"
    by (rule advance) (use pstep.rename [of "solo_dir ?P None None" v0 "mut i" 1 8] in \<open>auto simp: solo_simps\<close>)
  then have "?at ?P None (Some (Some 1)) (Holding 1)"
    by (rule advance) (auto intro!: pstep.confirm simp: solo_simps)
  then have "?at ?P None (Some (Some 1)) (Listing 1)"
    by (rule advance) (auto intro!: pstep.hold [of True "\<lambda>_. True"] simp: solo_simps)
  then have "?at ?P None (Some (Some 1)) (Fencing 1 [])"
    by (rule advance) (use pstep.list_lower [of v0 "mut i" "solo_dir ?P None (Some (Some 1))" 1] in \<open>auto simp: solo_simps\<close>)
  then have "?at ?P None (Some (Some 1)) (Reading 1)"
    by (rule advance) (auto intro!: pstep.fence_done [of True "\<lambda>_. True"] simp: solo_simps)
  then have "?at ?P None (Some (Some 1)) (Writing 1 v)"
    by (rule advance) (auto intro!: pstep.read simp: solo_simps m)
  then have "?at ?P (Some v) (Some (Some 1)) (Committing 1 v)"
    by (rule advance) (use pstep.put [of 1 "solo_dir ?P None (Some (Some 1))" v0 "mut i" v] in \<open>auto simp: solo_simps\<close>)
  then show ?thesis
    by (rule advance_commit) (auto simp: solo_simps)
qed

section \<open>Termination\<close>

text \<open>The rank of a phase: a stage and the work left in it.\<close>

fun rank :: "'v phase \<Rightarrow> nat \<times> nat" where
  "rank Start = (20, 0)"
| "rank Scanning = (19, 0)"
| "rank (Choosing occ g) = (18, 2 * (MAX_OPERATION_GENERATION + 2 - g))"
| "rank (Reserving occ g) =
     (18, if g \<le> MAX_OPERATION_GENERATION then 2 * (MAX_OPERATION_GENERATION + 2 - g) - 1 else 1)"
| "rank (Owning g) = (17, 0)"
| "rank (Checking g) = (16, 0)"
| "rank (Promoting g n) = (15, 4 * n + 3)"
| "rank (Inspecting g n) = (15, 4 * n + 2)"
| "rank (Retiring g n) = (15, 4 * n + 1)"
| "rank (Renaming g n) = (15, 4 * n + 1)"
| "rank (Confirming g) = (14, 0)"
| "rank (Holding g) = (13, 0)"
| "rank (Listing g) = (12, 0)"
| "rank (Fencing g hs) = (11, length hs)"
| "rank (Reading g) = (10, 0)"
| "rank (Writing g v) = (9, 0)"
| "rank (Committing g v) = (8, 0)"
| "rank (Cancelling g) = (1, 0)"
| "rank Finished = (0, 0)"

lemma next_free_ge: "g \<le> next_free occ g"
proof (induction occ g rule: next_free.induct)
  case (1 occ g)
  then show ?case by (cases "g \<in> set occ") (simp_all add: next_free.simps [of occ g])
qed

lemma rank_next_attempt: "(rank (next_attempt g n), (15, 4 * n + 1)) \<in> less_than <*lex*> less_than"
  by (cases n) (auto simp: next_attempt_def)

lemma rank_decreases:
  assumes "pstep v0 mut d ph d' ph'" and "ph \<noteq> Finished"
  shows "(rank ph', rank ph) \<in> less_than <*lex*> less_than"
  using assms
proof (cases rule: pstep.cases)
  case (choose h occ g)
  then show ?thesis using next_free_ge [of g occ] by auto
next
  case (choose_lost h occ g)
  then show ?thesis using next_free_ge [of g occ] by auto
next
  case (reserve_lost g occ)
  then show ?thesis by auto
qed (use rank_next_attempt in \<open>auto simp: superseded_or_def after_inspection_def split: claim_status.splits option.splits\<close>)

lemma never_stuck: "\<exists>d' ph'. pstep v0 mut d ph d' ph'"
proof (cases ph)
  case (Choosing occ g)
  then show ?thesis
    by (cases "next_free occ g \<le> MAX_OPERATION_GENERATION"; cases "cache_mkdir Reserved (next_free occ g) d")
      (auto simp: not_le intro: pstep.intros)
next
  case (Reserving occ g)
  then show ?thesis by (cases "cache_mkdir Pending g d") (auto intro: pstep.intros)
qed (metis pstep.intros)+

section \<open>Properties\<close>

text \<open>C1: commits are serialised.  In every configuration that any number of processes, crashed or
  running, can reach, the committed generations strictly increase in commit order, each committed
  state is the mutation of exactly the state committed before it (no update is lost), and a
  reader sees the last committed state.\<close>

theorem protocol_serialisable:
  assumes "reachable v0 mut c"
  shows "chain v0 mut (commits c)
    \<and> fst ` set (commits c) = {g. (Committed, g) \<in> set (entries (dir c))}
    \<and> readState v0 (dir c) = head_state v0 (commits c)"
  using history_okD(1,2) [OF reachable_facts(2) [OF assms]] reachable_facts(3) [OF assms] by simp

lemma protocol_serialisable_witness:
  "\<exists>c. reachable (0::nat) (\<lambda>(i::bool) n. Some (Suc n)) c \<and> readState 0 (dir c) = 1"
proof -
  obtain c where c: "reachable 0 (\<lambda>(i::bool) n. Some (Suc n)) c" "commits c = [(1, True, 1)]"
    using solo_run [of "\<lambda>(i::bool) n. Some (Suc n)" True 0 1] by (auto simp: at_phase_def)
  with protocol_serialisable [OF c(1)] show ?thesis by (auto simp: head_state_def)
qed

text \<open>C8: a generation is reserved once and has one fate: below a reservation at most one of pending,
  committed, fenced and cancelled exists, no two running processes share a generation, and a
  process that may still commit holds the only pending entry that can.\<close>

theorem operation_has_one_fate:
  assumes "reachable v0 mut c" and "present k g (dir c)" and "present k' g (dir c)"
    and "k \<noteq> Reserved" and "k' \<noteq> Reserved"
  shows "k = k' \<and> present Reserved g (dir c)
    \<and> (\<forall>i j. gen_of (phases c i) = Some g \<longrightarrow> gen_of (phases c j) = Some g \<longrightarrow> i = j)"
proof (intro conjI allI impI)
  note nd = names_okD [OF reachable_facts(1) [OF assms(1)]]
  show "k = k'" using nd(5) assms(2-5) by (simp add: present_def)
  show "present Reserved g (dir c)" using nd(3) assms(2) by (simp add: present_def)
  show "i = j" if "gen_of (phases c i) = Some g" "gen_of (phases c j) = Some g" for i j
    by (rule nd(2) [OF that])
qed

lemma operation_has_one_fate_witness:
  "\<exists>c. reachable (0::nat) (\<lambda>(i::bool) n. Some n) c \<and> present Committed 1 (dir c) \<and> present Reserved 1 (dir c)"
proof -
  obtain c where c: "reachable (0::nat) (\<lambda>(i::bool) n. Some n) c"
      "dir c = solo_dir [(Committed, 1), (Reserved, 1)] (Some 0) (Some (Some 1))"
    using solo_run [of "\<lambda>(i::bool) n. Some n" True 0 0] by (auto simp: at_phase_def)
  then have p: "present Committed 1 (dir c)" by (simp add: present_def solo_dir_def)
  with operation_has_one_fate [OF c(1) p p] c(1) show ?thesis by auto
qed

text \<open>C7: whatever the interleaving of checks and acknowledgements, every state read from the cache
  directory is normal for the installed version (so it encodes, reads back and can be
  acknowledged or marked as failed), provided checks commit candidates of validated
  manifests.\<close>

theorem cache_always_normal:
  assumes "reachable (emptyState (Some version)) (program to_iso intents) c"
    and "printer_ok to_iso" and "\<forall>i. intent_ok version (intents i)"
    and "installed_normal version (emptyState (Some version))"
  shows "installed_normal version (readState (emptyState (Some version)) (dir c))"
proof -
  have step: "installed_normal version s'"
    if "installed_normal version s" "program to_iso intents i s = Some s'" for i s s'
    by (rule program_normal [OF assms(2) spec [OF assms(3)] that])
  have "installed_normal version (head_state (emptyState (Some version)) (commits c))"
    by (rule chain_invariant [of _ _ _ "installed_normal version",
        OF history_okD(1) [OF reachable_facts(2) [OF assms(1)]] assms(4) step])
  with reachable_facts(3) [OF assms(1)] show ?thesis by simp
qed

lemma cache_always_normal_witness:
  "installed_normal sample_installed (readState (emptyState (Some sample_installed)) (dir initial))"
proof (rule cache_always_normal [OF reachable.init sample_printer_ok])
  show "\<forall>i. intent_ok sample_installed (FailedCheck CheckFailed 0)" by (simp add: intent_ok_def)
  show "installed_normal sample_installed (emptyState (Some sample_installed))"
    using sample_state_normal [of "[]"]
    by (simp add: installed_normal_def sample_state_def sample_installed_def emptyState_def)
qed

text \<open>The protocol lets a process through: alone in an empty directory it reserves generation 1,
  claims it, and commits its mutation.\<close>

lemma lone_process_commits:
  assumes "mut i v0 = Some v"
  shows "\<exists>c. reachable v0 mut c \<and> phases c i = Finished \<and> commits c = [(1, i, v)]
    \<and> readState v0 (dir c) = v"
proof -
  obtain c where c: "reachable v0 mut c" "phases c i = Finished" "commits c = [(1, i, v)]"
    using solo_run [of mut i v0 v, OF assms] by (auto simp: at_phase_def)
  then have "readState v0 (dir c) = v"
    using reachable_facts(3) [OF c(1)] by (simp add: head_state_def)
  with c show ?thesis by blast
qed

lemma lone_process_commits_witness:
  "\<exists>c. reachable (0::nat) (\<lambda>(i::bool) n. Some (n + 7)) c \<and> commits c = [(1, True, 7)]"
  using lone_process_commits [of "\<lambda>(i::bool) n. Some (n + 7)" True "0::nat" 7] by auto

text \<open>An operation's directory name determines its kind and generation: every name the program
  writes is parsed back, for all generations it can reserve.\<close>

lemma operationName_roundtrip:
  assumes "g \<le> MAX_OPERATION_GENERATION"
  shows "parseOperationName (operationName k g) = Some (k, g)"
  by (rule parse_operation_name [OF assms])

lemma operationName_roundtrip_witness:
  "parseOperationName (operationName Fenced 120) = Some (Fenced, 120)"
  by (rule operationName_roundtrip) (simp add: MAX_OPERATION_GENERATION_def)

text \<open>C9: an operation terminates: whatever the other processes do to the directory between its steps, a
  process takes only finitely many steps before it is finished, and it is never stuck in between;
  the reservation loop is bounded by the generation space, the promotion loop by its eight
  attempts and the fencing loop by its listing.\<close>

theorem operation_terminates:
  "wf {(ph', ph). ph \<noteq> Finished \<and> (\<exists>d d'. pstep v0 mut d ph d' ph')}
    \<and> (\<forall>d ph. \<exists>d' ph'. pstep v0 mut d ph d' ph')"
proof (rule conjI [OF wf_subset])
  show "wf (inv_image (less_than <*lex*> less_than) rank)" by (intro wf_inv_image wf_lex_prod wf_less_than)
  show "{(ph', ph). ph \<noteq> Finished \<and> (\<exists>d d'. pstep v0 mut d ph d' ph')} \<subseteq> inv_image (less_than <*lex*> less_than) rank"
    using rank_decreases by (auto simp: in_inv_image)
qed (intro allI never_stuck)

end
