(* ===== verification/Geometry.thy ===== *)
theory Geometry
  imports Prelude
begin

text \<open>
  The plane geometry of \<open>renderers/shared/geometry.mjs\<close>: rectangles, segments, their distances
  and intersections, polylines and the overlap of axis-parallel segments.  Coordinates are real
  numbers; a coordinate that may be missing, \<open>NaN\<close> or infinite is a \<open>jsnum\<close>, and the guards of
  the code on them are modelled where it has them.  Rounding of doubles is not modelled.
\<close>

section \<open>Points and rectangles\<close>

type_synonym point = "real \<times> real"

text \<open>A point as it arrives: \<open>None\<close> is not an array.\<close>

type_synonym raw_point = "jsnum list option"

fun finite_point :: "raw_point \<Rightarrow> point option" where
  "finite_point (Some [Some x, Some y]) = Some (x, y)"
| "finite_point _ = None"

record rect =
  rx :: real
  ry :: real
  rwidth :: real
  rheight :: real

record raw_rect =
  raw_x :: jsnum
  raw_y :: jsnum
  raw_width :: jsnum
  raw_height :: jsnum

fun finite_rect :: "raw_rect \<Rightarrow> rect option" where
  "finite_rect r = (case (raw_x r, raw_y r, raw_width r, raw_height r) of
     (Some x, Some y, Some w, Some h) \<Rightarrow> Some \<lparr>rx = x, ry = y, rwidth = w, rheight = h\<rparr>
   | _ \<Rightarrow> None)"

definition asArray :: "'a list option \<Rightarrow> 'a list" where
  "asArray v = (case v of None \<Rightarrow> [] | Some xs \<Rightarrow> xs)"

definition finite_rects_overlap :: "rect \<Rightarrow> rect \<Rightarrow> real \<Rightarrow> bool" where
  "finite_rects_overlap a b gap \<longleftrightarrow>
     \<not> (rx a + rwidth a + gap \<le> rx b \<or> rx b + rwidth b + gap \<le> rx a
       \<or> ry a + rheight a + gap \<le> ry b \<or> ry b + rheight b + gap \<le> ry a)"

definition rectsOverlap :: "raw_rect \<Rightarrow> raw_rect \<Rightarrow> real \<Rightarrow> bool" where
  "rectsOverlap a b gap = (case (finite_rect a, finite_rect b) of
     (Some p, Some q) \<Rightarrow> finite_rects_overlap p q gap | _ \<Rightarrow> False)"

section \<open>Segments\<close>

definition crossProduct :: "point \<Rightarrow> point \<Rightarrow> point \<Rightarrow> real" where
  "crossProduct a b c = (fst b - fst a) * (snd c - snd a) - (snd b - snd a) * (fst c - fst a)"

text \<open>The corners of the grown rectangle: left, top, right, bottom.\<close>

definition grown_box :: "rect \<Rightarrow> real \<Rightarrow> real \<times> real \<times> real \<times> real" where
  "grown_box r gap = (rx r - gap, ry r - gap, rx r + rwidth r + gap, ry r + rheight r + gap)"

definition pointInBox :: "point \<Rightarrow> real \<times> real \<times> real \<times> real \<Rightarrow> bool" where
  "pointInBox p box = (case box of (x1, y1, x2, y2) \<Rightarrow>
     x1 \<le> fst p \<and> fst p \<le> x2 \<and> y1 \<le> snd p \<and> snd p \<le> y2)"

definition orientation :: "point \<Rightarrow> point \<Rightarrow> point \<Rightarrow> nat" where
  "orientation a b c =
     (let v = (snd b - snd a) * (fst c - fst b) - (fst b - fst a) * (snd c - snd b) in
      if \<bar>v\<bar> < 1 / 10000 then 0 else if 0 < v then 1 else 2)"

definition onSegment :: "point \<Rightarrow> point \<Rightarrow> point \<Rightarrow> bool" where
  "onSegment a b c \<longleftrightarrow> fst b \<le> max (fst a) (fst c) \<and> min (fst a) (fst c) \<le> fst b
     \<and> snd b \<le> max (snd a) (snd c) \<and> min (snd a) (snd c) \<le> snd b"

definition segmentsIntersect :: "point \<Rightarrow> point \<Rightarrow> point \<Rightarrow> point \<Rightarrow> bool" where
  "segmentsIntersect a b c d =
     (let o1 = orientation a b c; o2 = orientation a b d;
          o3 = orientation c d a; o4 = orientation c d b in
      if o1 = 0 \<and> onSegment a c b then True
      else if o2 = 0 \<and> onSegment a d b then True
      else if o3 = 0 \<and> onSegment c a d then True
      else if o4 = 0 \<and> onSegment c b d then True
      else o1 \<noteq> o2 \<and> o3 \<noteq> o4)"

definition segmentIntersectsRect :: "point \<Rightarrow> point \<Rightarrow> rect \<Rightarrow> real \<Rightarrow> bool" where
  "segmentIntersectsRect a b r gap =
     (let box = grown_box r gap in
      case box of (x1, y1, x2, y2) \<Rightarrow>
        if pointInBox a box \<or> pointInBox b box then True
        else segmentsIntersect a b (x1, y1) (x2, y1)
          \<or> segmentsIntersect a b (x2, y1) (x2, y2)
          \<or> segmentsIntersect a b (x2, y2) (x1, y2)
          \<or> segmentsIntersect a b (x1, y2) (x1, y1))"

definition hypot :: "real \<Rightarrow> real \<Rightarrow> real" where
  "hypot x y = sqrt (x\<^sup>2 + y\<^sup>2)"

definition pointRectDistance :: "point \<Rightarrow> rect \<Rightarrow> real" where
  "pointRectDistance p r =
     hypot (max (max (rx r - fst p) 0) (fst p - (rx r + rwidth r)))
           (max (max (ry r - snd p) 0) (snd p - (ry r + rheight r)))"

definition projection :: "point \<Rightarrow> point \<Rightarrow> point \<Rightarrow> real" where
  "projection p a b = (let dx = fst b - fst a; dy = snd b - snd a in
     max 0 (min 1 (((fst p - fst a) * dx + (snd p - snd a) * dy) / (dx * dx + dy * dy))))"

definition pointSegmentDistance :: "point \<Rightarrow> point \<Rightarrow> point \<Rightarrow> real" where
  "pointSegmentDistance p a b =
     (let dx = fst b - fst a; dy = snd b - snd a in
      if dx * dx + dy * dy \<le> 1 / 10000000 then hypot (fst p - fst a) (snd p - snd a)
      else let t = projection p a b in
        hypot (fst p - (fst a + t * dx)) (snd p - (snd a + t * dy)))"

text \<open>A segment and a rectangle as they arrive; \<open>None\<close> is the \<open>null\<close> of the code.\<close>

definition finite_segment_rect ::
  "raw_point \<Rightarrow> raw_point \<Rightarrow> raw_rect option \<Rightarrow> (point \<times> point \<times> rect) option" where
  "finite_segment_rect a b r =
     (case (finite_point a, finite_point b, r) of
        (Some p, Some q, Some rr) \<Rightarrow>
          (case finite_rect rr of
             None \<Rightarrow> None
           | Some k \<Rightarrow> if rwidth k < 0 \<or> rheight k < 0 then None else Some (p, q, k))
      | _ \<Rightarrow> None)"

definition rect_corners :: "rect \<Rightarrow> point list" where
  "rect_corners r = [(rx r, ry r), (rx r + rwidth r, ry r),
     (rx r + rwidth r, ry r + rheight r), (rx r, ry r + rheight r)]"

definition clearance_of :: "point \<Rightarrow> point \<Rightarrow> rect \<Rightarrow> real" where
  "clearance_of a b r =
     (if segmentIntersectsRect a b r 0 then 0
      else foldl min (pointRectDistance a r)
        (pointRectDistance b r # map (\<lambda>c. pointSegmentDistance c a b) (rect_corners r)))"

definition segmentRectClearance :: "raw_point \<Rightarrow> raw_point \<Rightarrow> raw_rect option \<Rightarrow> real option" where
  "segmentRectClearance a b r =
     map_option (\<lambda>(p, q, k). clearance_of p q k) (finite_segment_rect a b r)"

text \<open>The clipping loop; \<open>None\<close> is its \<open>return 0\<close>.\<close>

fun clip :: "(real \<times> real) list \<Rightarrow> real \<Rightarrow> real \<Rightarrow> (real \<times> real) option" where
  "clip [] enter leave = Some (enter, leave)"
| "clip ((direction, distance) # bounds) enter leave =
     (if \<bar>direction\<bar> \<le> 1 / 10000000
      then (if distance < - (1 / 10000000) then None else clip bounds enter leave)
      else
        let ratio = distance / direction;
            enter' = (if direction < 0 then max enter ratio else enter);
            leave' = (if direction < 0 then leave else min leave ratio) in
        if leave' + 1 / 10000000 < enter' then None else clip bounds enter' leave')"

definition clip_bounds :: "point \<Rightarrow> point \<Rightarrow> rect \<Rightarrow> (real \<times> real) list" where
  "clip_bounds a b r = (let dx = fst b - fst a; dy = snd b - snd a in
     [(- dx, fst a - rx r), (dx, rx r + rwidth r - fst a),
      (- dy, snd a - ry r), (dy, ry r + rheight r - snd a)])"

definition intersection_length :: "point \<Rightarrow> point \<Rightarrow> rect \<Rightarrow> real" where
  "intersection_length a b r =
     (let len = hypot (fst b - fst a) (snd b - snd a) in
      if len \<le> 1 / 10000000 then 0
      else (case clip (clip_bounds a b r) 0 1 of
              None \<Rightarrow> 0 | Some (enter, leave) \<Rightarrow> len * max 0 (leave - enter)))"

definition segmentRectIntersectionLength ::
  "raw_point \<Rightarrow> raw_point \<Rightarrow> raw_rect option \<Rightarrow> real option" where
  "segmentRectIntersectionLength a b r =
     map_option (\<lambda>(p, q, k). intersection_length p q k) (finite_segment_rect a b r)"

section \<open>Polylines\<close>

definition far_apart :: "point \<Rightarrow> point \<Rightarrow> bool" where
  "far_apart p q \<longleftrightarrow> 1 / 10000 < \<bar>fst p - fst q\<bar> \<or> 1 / 10000 < \<bar>snd p - snd q\<bar>"

definition collinearForward :: "point \<Rightarrow> point \<Rightarrow> point \<Rightarrow> bool" where
  "collinearForward a b c \<longleftrightarrow> \<not> 1 / 10000 < \<bar>crossProduct a b c\<bar>
     \<and> - (1 / 10000) \<le> (fst b - fst a) * (fst c - fst b) + (snd b - snd a) * (snd c - snd b)"

text \<open>Both loops of \<open>normalizeRoutePoints\<close> keep what they have so far, latest point first.\<close>

fun dedupe :: "point list \<Rightarrow> point list \<Rightarrow> point list" where
  "dedupe acc [] = acc"
| "dedupe [] (p # ps) = dedupe [p] ps"
| "dedupe (q # acc) (p # ps) =
     (if far_apart p q then dedupe (p # q # acc) ps else dedupe (q # acc) ps)"

fun pop_collinear :: "point list \<Rightarrow> point \<Rightarrow> point list" where
  "pop_collinear (b # a # acc) p =
     (if collinearForward a b p then pop_collinear (a # acc) p else b # a # acc)"
| "pop_collinear acc p = acc"

definition merge_collinear :: "point list \<Rightarrow> point list" where
  "merge_collinear ps = foldl (\<lambda>acc p. p # pop_collinear acc p) [] ps"

definition normalizeRoutePoints :: "raw_point list option \<Rightarrow> point list" where
  "normalizeRoutePoints points =
     rev (merge_collinear (rev (dedupe [] (List.map_filter finite_point (asArray points)))))"

text \<open>The segments of a polyline, in order.\<close>

definition segments :: "'a list \<Rightarrow> ('a \<times> 'a) list" where
  "segments ps = zip ps (tl ps)"

section \<open>Overlaps of axis-parallel segments\<close>

record overlap =
  ov_length :: real
  ov_start :: point
  ov_end :: point

definition near :: "real \<Rightarrow> real \<Rightarrow> bool" where
  "near x y \<longleftrightarrow> \<bar>x - y\<bar> \<le> 1 / 10000"

definition on_axis :: "bool \<Rightarrow> point \<Rightarrow> real" where
  "on_axis horizontal p = (if horizontal then fst p else snd p)"

definition at_axis :: "bool \<Rightarrow> real \<Rightarrow> real \<Rightarrow> point" where
  "at_axis horizontal along fixed = (if horizontal then (along, fixed) else (fixed, along))"

text \<open>The axis two segments share, and the range on it that both cover.\<close>

definition shared_axis :: "point \<Rightarrow> point \<Rightarrow> point \<Rightarrow> point \<Rightarrow> bool option" where
  "shared_axis a b c d =
     (let horizontal = (near (snd a) (snd b) \<and> near (snd c) (snd d) \<and> near (snd a) (snd c));
          vertical = (near (fst a) (fst b) \<and> near (fst c) (fst d) \<and> near (fst a) (fst c)) in
      if \<not> horizontal \<and> \<not> vertical then None else Some horizontal)"

definition shared_range :: "(point \<Rightarrow> real) \<Rightarrow> point \<Rightarrow> point \<Rightarrow> point \<Rightarrow> point \<Rightarrow> real \<times> real" where
  "shared_range ax a b c d =
     (max (min (ax a) (ax b)) (min (ax c) (ax d)), min (max (ax a) (ax b)) (max (ax c) (ax d)))"

definition collinearAxisOverlap :: "point \<Rightarrow> point \<Rightarrow> point \<Rightarrow> point \<Rightarrow> overlap option" where
  "collinearAxisOverlap a b c d =
     (case shared_axis a b c d of
        None \<Rightarrow> None
      | Some horizontal \<Rightarrow>
          (case shared_range (on_axis horizontal) a b c d of (low, high) \<Rightarrow>
             let fixed = (if horizontal then snd a else fst a) in
             if high - low \<le> 1 / 10000 then None
             else Some \<lparr>ov_length = high - low, ov_start = at_axis horizontal low fixed,
                        ov_end = at_axis horizontal high fixed\<rparr>))"

definition opposite :: "real \<Rightarrow> real \<Rightarrow> bool" where
  "opposite l r \<longleftrightarrow> 1 / 10000 < l \<and> r < - (1 / 10000) \<or> l < - (1 / 10000) \<and> 1 / 10000 < r"

definition properSegmentIntersection :: "point \<Rightarrow> point \<Rightarrow> point \<Rightarrow> point \<Rightarrow> point option" where
  "properSegmentIntersection a b c d =
     (if \<not> opposite (crossProduct a b c) (crossProduct a b d)
        \<or> \<not> opposite (crossProduct c d a) (crossProduct c d b) then None
      else
        let den = (fst a - fst b) * (snd c - snd d) - (snd a - snd b) * (fst c - fst d);
            ab = fst a * snd b - snd a * fst b;
            cd = fst c * snd d - snd c * fst d in
        if \<bar>den\<bar> < 1 / 10000 then None
        else Some ((ab * (fst c - fst d) - (fst a - fst b) * cd) / den,
                   (ab * (snd c - snd d) - (snd a - snd b) * cd) / den))"

definition valid_points :: "raw_point list \<Rightarrow> point list option" where
  "valid_points ps = (if list_all (\<lambda>p. finite_point p \<noteq> None) ps
     then Some (List.map_filter finite_point ps) else None)"

definition segmentsContinueForward :: "raw_point \<Rightarrow> raw_point \<Rightarrow> raw_point \<Rightarrow> raw_point \<Rightarrow> bool" where
  "segmentsContinueForward fs fe ss se =
     (case (finite_point fs, finite_point fe, finite_point ss, finite_point se) of
        (Some a, Some b, Some c, Some d) \<Rightarrow>
          if 1 / 10000 < \<bar>fst b - fst c\<bar> \<or> 1 / 10000 < \<bar>snd b - snd c\<bar> then False
          else
            let v = (fst b - fst a, snd b - snd a); w = (fst d - fst c, snd d - snd c) in
            if hypot (fst v) (snd v) \<le> 1 / 10000 \<or> hypot (fst w) (snd w) \<le> 1 / 10000 then False
            else if 1 / 10000 < \<bar>fst v * snd w - snd v * fst w\<bar> then False
            else 1 / 10000 < fst v * fst w + snd v * snd w
      | _ \<Rightarrow> False)"

definition pointLiesOnSegment :: "raw_point \<Rightarrow> raw_point \<Rightarrow> raw_point \<Rightarrow> bool" where
  "pointLiesOnSegment pt st en =
     (case (finite_point pt, finite_point st, finite_point en) of
        (Some p, Some a, Some b) \<Rightarrow>
          let len = hypot (fst b - fst a) (snd b - snd a) in
          if len \<le> 1 / 10000 then hypot (fst p - fst a) (snd p - snd a) \<le> 1 / 10000
          else if 1 / 10000 * len < \<bar>crossProduct a b p\<bar> then False
          else min (fst a) (fst b) - 1 / 10000 \<le> fst p \<and> fst p \<le> max (fst a) (fst b) + 1 / 10000
             \<and> min (snd a) (snd b) - 1 / 10000 \<le> snd p \<and> snd p \<le> max (snd a) (snd b) + 1 / 10000
      | _ \<Rightarrow> False)"

section \<open>Frame borders\<close>

text \<open>
  A frame: a line with its ends (which may come as points or as separate coordinates), or a
  rectangle with a corner radius, \<open>None\<close> when it is no number; \<open>NoFrame\<close> is not an object.
\<close>

datatype frame =
    NoFrame
  | LineFrame raw_point raw_point
  | BoxFrame raw_rect jsnum

record border =
  side :: jstring
  bstart :: point
  bend :: point

definition border :: "jstring \<Rightarrow> point \<Rightarrow> point \<Rightarrow> border" where
  "border s a b = \<lparr>side = s, bstart = a, bend = b\<rparr>"

definition box_borders :: "rect \<Rightarrow> real \<Rightarrow> border list" where
  "box_borders r rad0 =
     (let rad = max 0 (min (min rad0 (rwidth r / 2)) (rheight r / 2));
          left = rx r; right = rx r + rwidth r; top = ry r; bottom = ry r + rheight r in
      filter (\<lambda>b. 1 / 10000 < hypot (fst (bend b) - fst (bstart b)) (snd (bend b) - snd (bstart b)))
        [border (lit ''top'') (left + rad, top) (right - rad, top),
         border (lit ''right'') (right, top + rad) (right, bottom - rad),
         border (lit ''bottom'') (right - rad, bottom) (left + rad, bottom),
         border (lit ''left'') (left, bottom - rad) (left, top + rad)])"

definition frameBorderSegments :: "frame \<Rightarrow> border list" where
  "frameBorderSegments f = (case f of
     NoFrame \<Rightarrow> []
   | LineFrame a b \<Rightarrow>
       (case (finite_point a, finite_point b) of
          (Some p, Some q) \<Rightarrow> [border (lit ''line'') p q] | _ \<Rightarrow> [])
   | BoxFrame r rad \<Rightarrow>
       (case finite_rect r of
          None \<Rightarrow> []
        | Some k \<Rightarrow> if rwidth k \<le> 0 \<or> rheight k \<le> 0 then []
            else box_borders k (case rad of None \<Rightarrow> 0 | Some x \<Rightarrow> x)))"

text \<open>Intervals in sorted order; the merged ones, latest first.\<close>

fun merge_intervals :: "(real \<times> real) list \<Rightarrow> (real \<times> real) list \<Rightarrow> (real \<times> real) list" where
  "merge_intervals acc [] = acc"
| "merge_intervals [] (i # is) = merge_intervals [i] is"
| "merge_intervals ((l, h) # acc) ((l', h') # is) =
     (if l' \<le> h + 1 / 10000 then merge_intervals ((l, max h h') # acc) is
      else merge_intervals ((l', h') # (l, h) # acc) is)"

record border_run =
  run_low :: real
  run_high :: real
  run_length :: real
  run_start :: point
  run_end :: point

definition interval_of :: "bool \<Rightarrow> overlap \<Rightarrow> real \<times> real" where
  "interval_of horizontal o1 =
     (let x = on_axis horizontal (ov_start o1); y = on_axis horizontal (ov_end o1) in (min x y, max x y))"

text \<open>\<open>left.low - right.low || left.high - right.high\<close>, as an insertion sort by the key pair.\<close>

fun insert_interval :: "real \<times> real \<Rightarrow> (real \<times> real) list \<Rightarrow> (real \<times> real) list" where
  "insert_interval i [] = [i]"
| "insert_interval i (j # js) =
     (if fst i < fst j \<or> fst i = fst j \<and> snd i \<le> snd j then i # j # js else j # insert_interval i js)"

definition sort_intervals :: "(real \<times> real) list \<Rightarrow> (real \<times> real) list" where
  "sort_intervals is = foldr insert_interval is []"

definition mergeBorderOverlaps :: "overlap list \<Rightarrow> border \<Rightarrow> border_run list" where
  "mergeBorderOverlaps overlaps b =
     (let horizontal = near (snd (bstart b)) (snd (bend b));
          fixed = (if horizontal then snd (bstart b) else fst (bstart b)) in
      map (\<lambda>(l, h). \<lparr>run_low = l, run_high = h, run_length = h - l,
             run_start = at_axis horizontal l fixed, run_end = at_axis horizontal h fixed\<rparr>)
        (rev (merge_intervals [] (sort_intervals (map (interval_of horizontal) overlaps)))))"

end
