(* ===== verification/Routes.thy ===== *)
theory Routes
  imports Geometry JsText
begin

text \<open>
  The quality gates of \<open>renderers/shared/geometry.mjs\<close> over the routes of relationships.  A
  relationship is an object with its address, so that \<open>===\<close> on objects is equality of
  addresses; ids and endpoints are JSON values.  A gate returns its problems as records with the
  values the message and the diagnostic carry; the English text around them is not modelled.
\<close>

section \<open>Relationships and their routes\<close>

record relation =
  address :: nat
  object :: jval

definition rel :: "relation \<Rightarrow> string \<Rightarrow> jval" where
  "rel r k = jget (object r) (lit k)"

text \<open>A polyline of finite points as it is handed to a helper.\<close>

definition raw_path :: "point list \<Rightarrow> raw_point list option" where
  "raw_path ps = Some (map (\<lambda>(x, y). Some [Some x, Some y]) ps)"

lemma raw_path_points [simp]: "asArray (raw_path ps) = map (\<lambda>(x, y). Some [Some x, Some y]) ps"
  by (simp add: raw_path_def asArray_def)

lemma raw_path_finite [simp]: "List.map_filter finite_point (map (\<lambda>(x, y). Some [Some x, Some y]) ps) = ps"
  by (induction ps) (auto simp: List.map_filter_simps)

lemma raw_path_valid [simp]: "valid_points (map (\<lambda>(x, y). Some [Some x, Some y]) ps) = Some ps"
  by (simp add: valid_points_def list_all_iff split: prod.splits)

text \<open>A routed relationship, as the renderers hand it to a collector.\<close>

record routed =
  rt_relation :: "relation option"
  rt_index :: "nat option"
  rt_points :: "raw_point list option"

definition routed_index :: "nat \<Rightarrow> routed \<Rightarrow> nat" where
  "routed_index fallback e = (case rt_index e of None \<Rightarrow> fallback | Some i \<Rightarrow> i)"

definition or_empty :: "jval \<Rightarrow> jval" where
  "or_empty v = (if truthy v then v else JStr [])"

definition relationshipIdentity :: "number_text \<Rightarrow> relation option \<Rightarrow> nat \<Rightarrow> jstring" where
  "relationshipIdentity show r i =
     (case r of
        None \<Rightarrow> lit ''index:'' @ show (real i)
      | Some q \<Rightarrow>
          if rel q ''key'' \<noteq> JUndef then lit ''key:'' @ js_string show (rel q ''key'')
          else if truthy (rel q ''id'')
            then lit ''id:'' @ js_string show (or_empty (rel q ''from'')) @ [0]
              @ js_string show (or_empty (rel q ''to'')) @ [0] @ js_string show (rel q ''id'')
          else lit ''index:'' @ show (real i))"

definition sameRelationship :: "relation option \<Rightarrow> relation option \<Rightarrow> bool" where
  "sameRelationship l r =
     (case (l, r) of
        (Some p, Some q) \<Rightarrow>
          if address p = address q then True
          else if rel p ''key'' \<noteq> JUndef \<and> rel q ''key'' \<noteq> JUndef then rel p ''key'' = rel q ''key''
          else truthy (rel p ''id'') \<and> truthy (rel q ''id'') \<and> rel p ''id'' = rel q ''id''
            \<and> rel p ''from'' = rel q ''from'' \<and> rel p ''to'' = rel q ''to''
      | _ \<Rightarrow> False)"

text \<open>Keep the elements whose key was not seen before.\<close>

fun first_by :: "('a \<Rightarrow> 'k) \<Rightarrow> 'k list \<Rightarrow> 'a list \<Rightarrow> 'a list" where
  "first_by key seen [] = []"
| "first_by key seen (x # xs) =
     (if key x \<in> set seen then first_by key seen xs
      else x # first_by key (key x # seen) xs)"

section \<open>Labels near other routes\<close>

record label_entry =
  lb_rect :: "raw_rect option"
  lb_relation :: "relation option"
  lb_index :: "nat option"

record label_hit =
  lh_label :: label_entry
  lh_index :: nat
  lh_other :: relation
  lh_other_index :: nat
  lh_rect :: rect
  lh_clearance :: real
  lh_intersection :: real
  lh_segment :: nat
  lh_from :: point
  lh_to :: point

text \<open>The loop over the segments keeps the first of least clearance.\<close>

fun nearest_segment ::
  "rect \<Rightarrow> (real \<times> nat \<times> point \<times> point) option \<Rightarrow> (nat \<times> point \<times> point) list
   \<Rightarrow> (real \<times> nat \<times> point \<times> point) option" where
  "nearest_segment r best [] = best"
| "nearest_segment r best ((i, a, b) # ss) =
     (let c = clearance_of a b r in
      nearest_segment r (case best of None \<Rightarrow> Some (c, i, a, b)
        | Some (d, _) \<Rightarrow> if c < d then Some (c, i, a, b) else best) ss)"

definition label_hit_of ::
  "nat \<times> label_entry \<Rightarrow> rect \<Rightarrow> real \<Rightarrow> relation \<times> nat \<times> point list \<Rightarrow> label_hit option" where
  "label_hit_of l r threshold route =
     (case route of (other, i, ps) \<Rightarrow>
       if fst l = i \<or> sameRelationship (lb_relation (snd l)) (Some other) then None
       else (case nearest_segment r None (indexed (segments ps)) of
          None \<Rightarrow> None
        | Some (c, k, a, b) \<Rightarrow>
            if threshold \<le> c + 1 / 10000 then None
            else Some \<lparr>lh_label = snd l, lh_index = fst l, lh_other = other, lh_other_index = i,
                       lh_rect = r, lh_clearance = c, lh_intersection = intersection_length a b r,
                       lh_segment = k, lh_from = a, lh_to = b\<rparr>))"

definition label_hits ::
  "nat \<times> label_entry \<Rightarrow> rect \<Rightarrow> real \<Rightarrow> (relation \<times> nat \<times> point list) list \<Rightarrow> label_hit list" where
  "label_hits l r threshold routes = List.map_filter (label_hit_of l r threshold) routes"

definition valid_label :: "label_entry \<Rightarrow> rect option" where
  "valid_label l = (case lb_rect l of None \<Rightarrow> None | Some raw \<Rightarrow>
     (case finite_rect raw of None \<Rightarrow> None
      | Some r \<Rightarrow> if rwidth r < 0 \<or> rheight r < 0 then None else Some r))"

definition route_candidates :: "routed list \<Rightarrow> (relation \<times> nat \<times> point list) list" where
  "route_candidates es = List.map_filter (\<lambda>(i, e).
     (case rt_relation e of None \<Rightarrow> None
      | Some r \<Rightarrow> let ps = normalizeRoutePoints (rt_points e) in
          if length ps < 2 then None else Some (r, routed_index i e, ps))) (indexed es)"

definition measured_routes :: "number_text \<Rightarrow> routed list option \<Rightarrow> (relation \<times> nat \<times> point list) list" where
  "measured_routes show es =
     first_by (\<lambda>(r, i, ps). relationshipIdentity show (Some r) i) [] (route_candidates (asArray es))"

definition measured_labels :: "number_text \<Rightarrow> label_entry list option \<Rightarrow> ((nat \<times> label_entry) \<times> rect) list" where
  "measured_labels show labels =
     first_by (\<lambda>((i, l), r). relationshipIdentity show (lb_relation l) i) []
       (List.map_filter (\<lambda>(i, l). map_option
          (Pair (case lb_index l of None \<Rightarrow> i | Some k \<Rightarrow> k, l)) (valid_label l)) (indexed (asArray labels)))"

definition collectLabelRouteClearance ::
  "number_text \<Rightarrow> label_entry list option \<Rightarrow> routed list option \<Rightarrow> jsnum \<Rightarrow> label_hit list" where
  "collectLabelRouteClearance show labels routed_relations threshold =
     (case threshold of
        None \<Rightarrow> []
      | Some t \<Rightarrow> if t < 0 then []
          else concat (map (\<lambda>(l, r). label_hits l r t (measured_routes show routed_relations))
                 (measured_labels show labels)))"

section \<open>Endpoint sides\<close>

datatype endpoint = Source | Target

text \<open>The rule of a side: its axis is horizontal, and the sign of travel at the source and the target.\<close>

definition ENDPOINT_SIDE_RULES :: "(jstring \<times> bool \<times> real \<times> real) list" where
  "ENDPOINT_SIDE_RULES =
     [(lit ''left'', True, -1, 1), (lit ''right'', True, 1, -1),
      (lit ''top'', False, -1, 1), (lit ''bottom'', False, 1, -1)]"

record side_issue =
  si_endpoint :: endpoint
  si_side :: jstring
  si_segment :: nat
  si_from :: point
  si_to :: point

definition endpointSideIssue :: "raw_point list option \<Rightarrow> endpoint \<Rightarrow> jstring \<Rightarrow> side_issue option" where
  "endpointSideIssue points e s =
     (case map_of ENDPOINT_SIDE_RULES s of
        None \<Rightarrow> None
      | Some (horizontal, source_sign, target_sign) \<Rightarrow>
          let ps = normalizeRoutePoints points in
          if length ps < 2 then None
          else
            let i = (case e of Source \<Rightarrow> 0 | Target \<Rightarrow> length ps - 2);
                a = ps ! i; b = ps ! Suc i;
                dx = fst b - fst a; dy = snd b - snd a;
                along = (if horizontal then dx else dy);
                across = (if horizontal then dy else dx);
                expected = (case e of Source \<Rightarrow> source_sign | Target \<Rightarrow> target_sign) in
            if \<bar>across\<bar> \<le> 1 / 10000 \<and> 1 / 10000 < along * expected then None
            else Some \<lparr>si_endpoint = e, si_side = s, si_segment = i, si_from = a, si_to = b\<rparr>)"

definition routeHonorsEndpointSides :: "raw_point list option \<Rightarrow> jstring \<Rightarrow> jstring \<Rightarrow> bool" where
  "routeHonorsEndpointSides points from_side to_side \<longleftrightarrow>
     endpointSideIssue points Source from_side = None \<and> endpointSideIssue points Target to_side = None"

record side_problem =
  sp_index :: nat
  sp_relation :: relation
  sp_issue :: side_issue
  sp_authored :: bool

definition authored_side :: "jval \<Rightarrow> jval option" where
  "authored_side v = (if truthy v \<and> v \<noteq> JStr (lit ''auto'') then Some v else None)"

definition has_route_geometry :: "relation \<Rightarrow> bool" where
  "has_route_geometry r \<longleftrightarrow>
     truthy (rel r ''route'') \<and> rel r ''route'' \<noteq> JStr (lit ''auto'')
     \<or> (case rel r ''via'' of JArr _ \<Rightarrow> True | _ \<Rightarrow> False)"

text \<open>The side to check at one end: the authored one, else the inferred one (\<open>None\<close> when the
  caller infers none); with whether it was authored.\<close>

definition side_to_check ::
  "relation \<Rightarrow> string \<Rightarrow> (relation \<Rightarrow> jval) option \<Rightarrow> (jval \<times> bool) option" where
  "side_to_check r k infer =
     (case authored_side (rel r k) of
        Some v \<Rightarrow> Some (v, True)
      | None \<Rightarrow>
          (case infer of
             Some f \<Rightarrow> if \<not> has_route_geometry r \<and> truthy (f r) then Some (f r, False) else None
           | None \<Rightarrow> None))"

definition side_check ::
  "nat \<Rightarrow> relation \<Rightarrow> raw_point list option \<Rightarrow> endpoint \<Rightarrow> (jval \<times> bool) option \<Rightarrow> side_problem list" where
  "side_check i r points e chosen =
     (case chosen of
        Some (JStr s, authored) \<Rightarrow>
          (case endpointSideIssue points e s of
             None \<Rightarrow> []
           | Some x \<Rightarrow> [\<lparr>sp_index = i, sp_relation = r, sp_issue = x, sp_authored = authored\<rparr>])
      | _ \<Rightarrow> [])"

definition cleanEndpointSideProblems ::
  "relation option list option \<Rightarrow> jval list \<Rightarrow> (relation \<Rightarrow> raw_point list option)
   \<Rightarrow> (relation \<Rightarrow> jval) option \<Rightarrow> (relation \<Rightarrow> jval) option \<Rightarrow> (relation \<Rightarrow> nat \<Rightarrow> bool)
   \<Rightarrow> side_problem list" where
  "cleanEndpointSideProblems relations ids pathFor from_side to_side should_check =
     concat (map (\<lambda>(i, q). case q of
         None \<Rightarrow> []
       | Some r \<Rightarrow>
           if rel r ''from'' \<notin> set ids \<or> rel r ''to'' \<notin> set ids then []
           else if \<not> should_check r i then []
           else if length (asArray (pathFor r)) < 2 then []
           else side_check i r (pathFor r) Source (side_to_check r ''fromSide'' from_side)
             @ side_check i r (pathFor r) Target (side_to_check r ''toSide'' to_side))
       (indexed (asArray relations)))"

section \<open>Routes through nodes\<close>

record obstacle =
  ob_id :: jval
  ob_rect :: raw_rect

record flow_problem =
  fp_index :: nat
  fp_relation :: relation
  fp_obstacle :: jval
  fp_segment :: nat
  fp_from :: point
  fp_to :: point

definition is_string :: "jval \<Rightarrow> bool" where
  "is_string v \<longleftrightarrow> as_string v \<noteq> None"

definition routed_points :: "raw_point list option \<Rightarrow> point list option" where
  "routed_points ps =
     (if length (asArray ps) < 2 then None else valid_points (asArray ps))"

definition first_hit :: "point list \<Rightarrow> rect \<Rightarrow> real \<Rightarrow> (nat \<times> point \<times> point) option" where
  "first_hit ps r clearance =
     find (\<lambda>(i, a, b). segmentIntersectsRect a b r clearance) (indexed (segments ps))"

definition obstacle_problem ::
  "nat \<Rightarrow> relation \<Rightarrow> point list \<Rightarrow> real \<Rightarrow> obstacle \<Rightarrow> flow_problem option" where
  "obstacle_problem i r ps clearance ob =
     (if ob_id ob = rel r ''from'' \<or> ob_id ob = rel r ''to'' then None
      else (case finite_rect (ob_rect ob) of
         None \<Rightarrow> None
       | Some k \<Rightarrow> (case first_hit ps k clearance of
            None \<Rightarrow> None
          | Some (n, a, b) \<Rightarrow> Some \<lparr>fp_index = i, fp_relation = r, fp_obstacle = ob_id ob,
              fp_segment = n, fp_from = a, fp_to = b\<rparr>)))"

definition obstacle_problems ::
  "nat \<Rightarrow> relation \<Rightarrow> point list \<Rightarrow> real \<Rightarrow> obstacle option list \<Rightarrow> flow_problem list" where
  "obstacle_problems i r ps clearance obstacles =
     List.map_filter (\<lambda>q. case q of None \<Rightarrow> None | Some ob \<Rightarrow> obstacle_problem i r ps clearance ob) obstacles"

definition flow_checked :: "obstacle option list \<Rightarrow> relation \<Rightarrow> bool" where
  "flow_checked obstacles r \<longleftrightarrow>
     (let ids = map (\<lambda>q. case q of None \<Rightarrow> JUndef | Some ob \<Rightarrow> ob_id ob) obstacles in
      is_string (rel r ''from'') \<and> is_string (rel r ''to'')
      \<and> rel r ''from'' \<in> set ids \<and> rel r ''to'' \<in> set ids)"

definition cleanFlowProblems ::
  "relation option list option \<Rightarrow> obstacle option list \<Rightarrow> (relation \<Rightarrow> raw_point list option)
   \<Rightarrow> real \<Rightarrow> flow_problem list" where
  "cleanFlowProblems relations obstacles pathFor clearance =
     concat (map (\<lambda>(i, q). case q of
         None \<Rightarrow> []
       | Some r \<Rightarrow>
           if \<not> flow_checked obstacles r then []
           else (case routed_points (pathFor r) of
              None \<Rightarrow> []
            | Some ps \<Rightarrow> obstacle_problems i r ps clearance obstacles))
       (indexed (asArray relations)))"

end
