(* ===== verification/RouteGates.thy ===== *)
theory RouteGates
  imports Routes
begin

text \<open>
  The composition gates of \<open>renderers/shared/geometry.mjs\<close>: proper crossings, ambiguous corridors,
  runs along frame borders, and the rhythm and budget of route segments.
\<close>

section \<open>Analysis segments\<close>

record source_segment =
  src_start :: raw_point
  src_end :: raw_point
  src_index :: nat

record analysis_segment =
  as_start :: raw_point
  as_end :: raw_point
  as_index :: nat
  as_sources :: "source_segment list"

definition source_segment :: "nat \<times> raw_point \<times> raw_point \<Rightarrow> source_segment" where
  "source_segment s = (case s of (i, a, b) \<Rightarrow> \<lparr>src_start = a, src_end = b, src_index = i\<rparr>)"

text \<open>The loop of \<open>forwardCollinearAnalysisSegments\<close>, latest segment first.\<close>

fun analysis_step :: "analysis_segment list \<Rightarrow> nat \<times> raw_point \<times> raw_point \<Rightarrow> analysis_segment list" where
  "analysis_step [] (i, a, b) =
     [\<lparr>as_start = a, as_end = b, as_index = i, as_sources = [source_segment (i, a, b)]\<rparr>]"
| "analysis_step (p # acc) (i, a, b) =
     (if segmentsContinueForward (as_start p) (as_end p) a b
      then p\<lparr>as_end := b, as_sources := as_sources p @ [source_segment (i, a, b)]\<rparr> # acc
      else \<lparr>as_start = a, as_end = b, as_index = i, as_sources = [source_segment (i, a, b)]\<rparr> # p # acc)"

definition forwardCollinearAnalysisSegments :: "raw_point list option \<Rightarrow> analysis_segment list" where
  "forwardCollinearAnalysisSegments points =
     rev (foldl analysis_step [] (indexed (segments (asArray points))))"

definition authoredAnalysisSegments :: "raw_point list option \<Rightarrow> analysis_segment list" where
  "authoredAnalysisSegments points =
     map (\<lambda>(i, a, b). \<lparr>as_start = a, as_end = b, as_index = i, as_sources = [source_segment (i, a, b)]\<rparr>)
       (indexed (segments (asArray points)))"

definition sourceSegmentIndexAtPoint :: "analysis_segment \<Rightarrow> raw_point \<Rightarrow> nat" where
  "sourceSegmentIndexAtPoint s p =
     (case find (\<lambda>q. pointLiesOnSegment p (src_start q) (src_end q)) (as_sources s) of
        None \<Rightarrow> as_index s | Some q \<Rightarrow> src_index q)"

section \<open>Proper crossings\<close>

text \<open>\<open>env\<close> is the variable \<open>ARCHIFY_QUALITY_PROFILE\<close>, \<open>None\<close> when it is not set.\<close>

definition qualityProfileForGate :: "jstring option \<Rightarrow> jval \<Rightarrow> bool \<Rightarrow> jval" where
  "qualityProfileForGate env profile authoritative =
     (if authoritative then profile
      else case env of None \<Rightarrow> profile | Some e \<Rightarrow> if e = [] then profile else JStr e)"

definition showcase :: jval where
  "showcase = JStr (lit ''showcase'')"

record crossing_route =
  cr_relation :: relation
  cr_index :: nat
  cr_segments :: "analysis_segment list"

record crossing =
  xr_left :: crossing_route
  xr_right :: crossing_route
  xr_point :: point
  xr_left_segment :: nat
  xr_right_segment :: nat

definition shares_endpoint :: "relation \<Rightarrow> relation \<Rightarrow> bool" where
  "shares_endpoint l r \<longleftrightarrow> list_ex (\<lambda>x. x = rel r ''from'' \<or> x = rel r ''to'') [rel l ''from'', rel l ''to'']"

definition analysis_intersection :: "analysis_segment \<Rightarrow> analysis_segment \<Rightarrow> point option" where
  "analysis_intersection s t =
     (case (finite_point (as_start s), finite_point (as_end s),
            finite_point (as_start t), finite_point (as_end t)) of
        (Some a, Some b, Some c, Some d) \<Rightarrow> properSegmentIntersection a b c d
      | _ \<Rightarrow> None)"

fun first_some :: "('a \<Rightarrow> 'b option) \<Rightarrow> 'a list \<Rightarrow> 'b option" where
  "first_some f [] = None"
| "first_some f (x # xs) = (case f x of None \<Rightarrow> first_some f xs | Some y \<Rightarrow> Some y)"

definition crossing_hit :: "crossing_route \<Rightarrow> crossing_route \<Rightarrow> crossing option" where
  "crossing_hit l r =
     first_some (\<lambda>s. first_some (\<lambda>t.
       map_option (\<lambda>p. \<lparr>xr_left = l, xr_right = r, xr_point = p,
           xr_left_segment = sourceSegmentIndexAtPoint s (Some [Some (fst p), Some (snd p)]),
           xr_right_segment = sourceSegmentIndexAtPoint t (Some [Some (fst p), Some (snd p)])\<rparr>)
         (analysis_intersection s t)) (cr_segments r)) (cr_segments l)"

definition crossing_routes ::
  "relation option list option \<Rightarrow> jval list \<Rightarrow> (relation \<Rightarrow> raw_point list option) \<Rightarrow> bool
   \<Rightarrow> crossing_route list" where
  "crossing_routes relations ids pathFor merge =
     List.map_filter (\<lambda>(i, q). case q of
         None \<Rightarrow> None
       | Some r \<Rightarrow>
           if rel r ''from'' \<notin> set ids \<or> rel r ''to'' \<notin> set ids then None
           else (case routed_points (pathFor r) of
              None \<Rightarrow> None
            | Some _ \<Rightarrow> Some \<lparr>cr_relation = r, cr_index = i,
                cr_segments = (if merge then forwardCollinearAnalysisSegments (pathFor r)
                               else authoredAnalysisSegments (pathFor r))\<rparr>))
       (indexed (asArray relations))"

definition cleanCrossingProblems ::
  "jstring option \<Rightarrow> jval \<Rightarrow> bool \<Rightarrow> relation option list option \<Rightarrow> jval list
   \<Rightarrow> (relation \<Rightarrow> raw_point list option) \<Rightarrow> bool \<Rightarrow> crossing list" where
  "cleanCrossingProblems env profile authoritative relations ids pathFor merge =
     (if qualityProfileForGate env profile authoritative \<noteq> showcase then []
      else List.map_filter (\<lambda>(l, r).
             if shares_endpoint (cr_relation l) (cr_relation r) then None else crossing_hit l r)
           (pairs_of (crossing_routes relations ids pathFor merge)))"

section \<open>Ambiguous corridors\<close>

record corridor_route =
  co_relation :: relation
  co_index :: nat
  co_points :: "point list"

record corridor =
  cd_left :: corridor_route
  cd_right :: corridor_route
  cd_left_segment :: nat
  cd_right_segment :: nat
  cd_overlap :: overlap

definition corridor_routes :: "routed list option \<Rightarrow> corridor_route list" where
  "corridor_routes es = List.map_filter (\<lambda>(i, e).
     (case rt_relation e of None \<Rightarrow> None
      | Some r \<Rightarrow>
          if \<not> is_string (rel r ''from'') \<or> \<not> is_string (rel r ''to'') then None
          else let ps = normalizeRoutePoints (rt_points e) in
            if length ps < 2 then None
            else Some \<lparr>co_relation = r, co_index = routed_index i e, co_points = ps\<rparr>))
     (indexed (asArray es))"

definition segment_pairs :: "point list \<Rightarrow> point list \<Rightarrow> ((nat \<times> point \<times> point) \<times> (nat \<times> point \<times> point)) list" where
  "segment_pairs ps qs = List.product (indexed (segments ps)) (indexed (segments qs))"

text \<open>A later overlap replaces the kept one when it is longer by more than the tolerance.\<close>

fun longest_overlap ::
  "real \<Rightarrow> (nat \<times> nat \<times> overlap) option \<Rightarrow> ((nat \<times> point \<times> point) \<times> (nat \<times> point \<times> point)) list
   \<Rightarrow> (nat \<times> nat \<times> overlap) option" where
  "longest_overlap m best [] = best"
| "longest_overlap m best (((i, a, b), (j, c, d)) # ss) =
     longest_overlap m
       (case collinearAxisOverlap a b c d of
          None \<Rightarrow> best
        | Some o1 \<Rightarrow>
            if ov_length o1 + 1 / 10000 < m then best
            else (case best of None \<Rightarrow> Some (i, j, o1)
              | Some (_, _, o2) \<Rightarrow>
                  if ov_length o2 + 1 / 10000 < ov_length o1 then Some (i, j, o1) else best)) ss"

definition corridor_between :: "real \<Rightarrow> corridor_route \<Rightarrow> corridor_route \<Rightarrow> corridor option" where
  "corridor_between m l r =
     (if shares_endpoint (co_relation l) (co_relation r) then None
      else map_option (\<lambda>(i, j, o1). \<lparr>cd_left = l, cd_right = r, cd_left_segment = i,
               cd_right_segment = j, cd_overlap = o1\<rparr>)
             (longest_overlap m None (segment_pairs (co_points l) (co_points r))))"

definition collectAmbiguousCorridors :: "routed list option \<Rightarrow> real \<Rightarrow> corridor list" where
  "collectAmbiguousCorridors es m =
     List.map_filter (\<lambda>(l, r). corridor_between m l r) (pairs_of (corridor_routes es))"

definition collectEligibleRoutedRelations ::
  "relation option list option \<Rightarrow> jval list option \<Rightarrow> (relation \<Rightarrow> raw_point list option) \<Rightarrow> routed list" where
  "collectEligibleRoutedRelations relations ids pathFor =
     List.map_filter (\<lambda>(i, q). case q of
         None \<Rightarrow> None
       | Some r \<Rightarrow>
           if \<not> is_string (rel r ''from'') \<or> \<not> is_string (rel r ''to'') then None
           else if (case ids of None \<Rightarrow> False
                    | Some known \<Rightarrow> rel r ''from'' \<notin> set known \<or> rel r ''to'' \<notin> set known) then None
           else Some \<lparr>rt_relation = Some r, rt_index = Some i, rt_points = pathFor r\<rparr>)
       (indexed (asArray relations))"

definition cleanAmbiguousCorridorProblems ::
  "jstring option \<Rightarrow> jval \<Rightarrow> bool \<Rightarrow> relation option list option \<Rightarrow> jval list option
   \<Rightarrow> (relation \<Rightarrow> raw_point list option) \<Rightarrow> real \<Rightarrow> corridor list" where
  "cleanAmbiguousCorridorProblems env profile authoritative relations ids pathFor m =
     (if qualityProfileForGate env profile authoritative \<noteq> showcase then []
      else collectAmbiguousCorridors (Some (collectEligibleRoutedRelations relations ids pathFor)) m)"

section \<open>Border runs\<close>

record border_hit =
  bh_routed :: routed
  bh_frame :: nat
  bh_side :: jstring
  bh_segment :: nat
  bh_length :: real
  bh_from :: point
  bh_to :: point

text \<open>\<open>right.length - left.length || left.low - right.low\<close>, first of the sorted copy.\<close>

definition better_run :: "border_run \<Rightarrow> border_run \<Rightarrow> bool" where
  "better_run p q \<longleftrightarrow> run_length q < run_length p \<or> run_length p = run_length q \<and> run_low p < run_low q"

fun best_run :: "border_run \<Rightarrow> border_run list \<Rightarrow> border_run" where
  "best_run p [] = p"
| "best_run p (q # qs) = best_run (if better_run q p then q else p) qs"

definition border_overlaps :: "border \<Rightarrow> (point \<times> point) list \<Rightarrow> (nat \<times> overlap) list" where
  "border_overlaps b segs = List.map_filter (\<lambda>(i, p, q).
     (case collinearAxisOverlap p q (bstart b) (bend b) of
        None \<Rightarrow> None
      | Some o1 \<Rightarrow> if ov_length o1 \<le> 1 / 10000 then None else Some (i, o1))) (indexed segs)"

definition border_hit_of :: "routed \<Rightarrow> (point \<times> point) list \<Rightarrow> nat \<Rightarrow> border \<Rightarrow> border_hit option" where
  "border_hit_of e segs k b =
     (case border_overlaps b segs of
        [] \<Rightarrow> None
      | (i, o1) # os \<Rightarrow>
          (case mergeBorderOverlaps (o1 # map snd os) b of
             [] \<Rightarrow> None
           | run # runs \<Rightarrow>
               let longest = best_run run runs in
               Some \<lparr>bh_routed = e, bh_frame = k, bh_side = side b,
                     bh_segment = foldl min i (map fst os),
                     bh_length = sum_list (map run_length (run # runs)),
                     bh_from = run_start longest, bh_to = run_end longest\<rparr>))"

text \<open>\<open>segs\<close> are the segments a caller gives, else those between the points.\<close>

definition route_segments ::
  "(raw_point \<times> raw_point) list option \<Rightarrow> raw_point list option \<Rightarrow> (raw_point \<times> raw_point) list" where
  "route_segments segs points = (case segs of Some ss \<Rightarrow> ss | None \<Rightarrow> segments (asArray points))"

definition finite_segments :: "(raw_point \<times> raw_point) list \<Rightarrow> (point \<times> point) list option" where
  "finite_segments ss =
     (if list_all (\<lambda>(a, b). finite_point a \<noteq> None \<and> finite_point b \<noteq> None) ss
      then Some (map (\<lambda>(a, b). (the (finite_point a), the (finite_point b))) ss) else None)"

definition collectBorderRuns ::
  "(routed \<times> (raw_point \<times> raw_point) list option) list option \<Rightarrow> frame list option \<Rightarrow> border_hit list" where
  "collectBorderRuns es frames =
     concat (map (\<lambda>(e, given).
       let ss = route_segments given (rt_points e) in
       if ss = [] then []
       else (case finite_segments ss of
          None \<Rightarrow> []
        | Some segs \<Rightarrow> concat (map (\<lambda>(k, f).
            List.map_filter (border_hit_of e segs k) (frameBorderSegments f)) (indexed (asArray frames)))))
       (asArray es))"

definition cleanBorderRunProblems ::
  "jstring option \<Rightarrow> jval \<Rightarrow> bool \<Rightarrow> relation option list option \<Rightarrow> jval list option
   \<Rightarrow> (relation \<Rightarrow> raw_point list option) \<Rightarrow> frame list option \<Rightarrow> border_hit list" where
  "cleanBorderRunProblems env profile authoritative relations ids pathFor frames =
     (if \<not> truthy (qualityProfileForGate env profile authoritative) then []
      else collectBorderRuns
        (Some (map (\<lambda>e. (e, None)) (collectEligibleRoutedRelations relations ids pathFor))) frames)"

section \<open>Rhythm and budget\<close>

datatype position = SourceStub | TargetStub | Interior

definition segmentPosition :: "nat \<Rightarrow> nat \<Rightarrow> position" where
  "segmentPosition i n = (if i = 0 then SourceStub else if Suc i = n then TargetStub else Interior)"

definition manhattan :: "point \<Rightarrow> point \<Rightarrow> real" where
  "manhattan a b = \<bar>fst b - fst a\<bar> + \<bar>snd b - snd a\<bar>"

datatype rhythm_code = MicroSegment | ShortInteriorSegment

record rhythm_issue =
  ri_code :: rhythm_code
  ri_relation :: "relation option"
  ri_index :: nat
  ri_segment :: nat
  ri_position :: position
  ri_length :: real
  ri_from :: point
  ri_to :: point

definition rhythm_code :: "real \<Rightarrow> real \<Rightarrow> position \<Rightarrow> real \<Rightarrow> rhythm_code option" where
  "rhythm_code interior micro pos len =
     (if len < micro - 1 / 10000 then Some MicroSegment
      else if pos = Interior \<and> len < interior - 1 / 10000 then Some ShortInteriorSegment else None)"

definition rhythm_of_segment ::
  "real \<Rightarrow> real \<Rightarrow> nat \<Rightarrow> routed \<Rightarrow> nat \<Rightarrow> nat \<times> point \<times> point \<Rightarrow> rhythm_issue option" where
  "rhythm_of_segment interior micro i e n s =
     (case s of (k, a, b) \<Rightarrow>
        let len = manhattan a b; pos = segmentPosition k n in
        if len \<le> 1 / 10000 then None
        else map_option (\<lambda>c. \<lparr>ri_code = c, ri_relation = rt_relation e, ri_index = routed_index i e,
               ri_segment = k, ri_position = pos, ri_length = len, ri_from = a, ri_to = b\<rparr>)
             (rhythm_code interior micro pos len))"

definition collectRouteRhythmIssues :: "routed list option \<Rightarrow> real \<Rightarrow> real \<Rightarrow> rhythm_issue list" where
  "collectRouteRhythmIssues es interior micro =
     concat (map (\<lambda>(i, e).
       let ps = normalizeRoutePoints (rt_points e) in
       if length ps < 2 then []
       else List.map_filter (rhythm_of_segment interior micro i e (length ps - 1)) (indexed (segments ps)))
       (indexed (asArray es)))"

definition cleanRouteRhythmProblems ::
  "jstring option \<Rightarrow> jval \<Rightarrow> bool \<Rightarrow> relation option list option \<Rightarrow> jval list option
   \<Rightarrow> (relation \<Rightarrow> raw_point list option) \<Rightarrow> real \<Rightarrow> real \<Rightarrow> rhythm_issue list" where
  "cleanRouteRhythmProblems env profile authoritative relations ids pathFor interior micro =
     (if qualityProfileForGate env profile authoritative \<noteq> showcase then []
      else collectRouteRhythmIssues (Some (collectEligibleRoutedRelations relations ids pathFor)) interior micro)"

definition cleanLabelRouteClearanceProblems ::
  "number_text \<Rightarrow> jstring option \<Rightarrow> jval \<Rightarrow> bool \<Rightarrow> relation option list option \<Rightarrow> label_entry list option
   \<Rightarrow> jval list option \<Rightarrow> (relation \<Rightarrow> raw_point list option) \<Rightarrow> jsnum \<Rightarrow> label_hit list" where
  "cleanLabelRouteClearanceProblems show env profile authoritative relations labels ids pathFor threshold =
     (if qualityProfileForGate env profile authoritative \<noteq> showcase then []
      else collectLabelRouteClearance show labels
        (Some (collectEligibleRoutedRelations relations ids pathFor)) threshold)"

record budget =
  maxBends :: nat
  routesOverSuggestedBends :: nat
  maxStretch :: "real option"
  routesOverSuggestedStretch :: nat
  minSegmentPx :: "real option"
  minInteriorSegmentPx :: "real option"
  shortSegmentCount :: nat
  shortEndpointSegmentCount :: nat
  shortInteriorSegmentCount :: nat
  microSegmentCount :: nat

definition empty_budget :: budget where
  "empty_budget = \<lparr>maxBends = 0, routesOverSuggestedBends = 0, maxStretch = None,
     routesOverSuggestedStretch = 0, minSegmentPx = None, minInteriorSegmentPx = None,
     shortSegmentCount = 0, shortEndpointSegmentCount = 0, shortInteriorSegmentCount = 0,
     microSegmentCount = 0\<rparr>"

definition lower :: "real option \<Rightarrow> real \<Rightarrow> real option" where
  "lower m x = Some (case m of None \<Rightarrow> x | Some y \<Rightarrow> min y x)"

definition raise :: "real option \<Rightarrow> real \<Rightarrow> real option" where
  "raise m x = Some (case m of None \<Rightarrow> x | Some y \<Rightarrow> max y x)"

text \<open>The inner loop of \<open>routeBudgetMetrics\<close> over the segments of one route, with its length.\<close>

definition budget_segment ::
  "real \<Rightarrow> real \<Rightarrow> nat \<Rightarrow> budget \<times> real \<Rightarrow> nat \<times> point \<times> point \<Rightarrow> budget \<times> real" where
  "budget_segment segmentPx microPx n acc s =
     (case (acc, s) of ((m, walked), (k, a, b)) \<Rightarrow>
        let len = manhattan a b; interior = (segmentPosition k n = Interior); short = (len < segmentPx) in
        if len \<le> 1 / 10000 then (m, walked)
        else (m\<lparr>minSegmentPx := lower (minSegmentPx m) len,
               minInteriorSegmentPx :=
                 (if interior then lower (minInteriorSegmentPx m) len else minInteriorSegmentPx m),
               shortSegmentCount := shortSegmentCount m + (if short then 1 else 0),
               shortInteriorSegmentCount := shortInteriorSegmentCount m + (if short \<and> interior then 1 else 0),
               shortEndpointSegmentCount := shortEndpointSegmentCount m + (if short \<and> \<not> interior then 1 else 0),
               microSegmentCount := microSegmentCount m + (if len < microPx then 1 else 0)\<rparr>, walked + len))"

definition budget_route :: "nat \<Rightarrow> real \<Rightarrow> real \<Rightarrow> real \<Rightarrow> budget \<Rightarrow> routed \<Rightarrow> budget" where
  "budget_route bends_limit stretch segmentPx microPx m e =
     (let ps = normalizeRoutePoints (rt_points e) in
      if length ps < 2 then m
      else
        let bends = length ps - 2;
            m1 = m\<lparr>maxBends := max (maxBends m) bends,
                   routesOverSuggestedBends := routesOverSuggestedBends m + (if bends_limit < bends then 1 else 0)\<rparr>;
            (m2, walked) = foldl (budget_segment segmentPx microPx (length ps - 1)) (m1, 0) (indexed (segments ps));
            direct = manhattan (hd ps) (last ps) in
        if 1 / 10000 < direct
        then m2\<lparr>maxStretch := raise (maxStretch m2) (walked / direct),
               routesOverSuggestedStretch := routesOverSuggestedStretch m2
                 + (if stretch + 1 / 10000 < walked / direct then 1 else 0)\<rparr>
        else m2)"

definition routeBudgetMetrics :: "routed list option \<Rightarrow> nat \<Rightarrow> real \<Rightarrow> real \<Rightarrow> real \<Rightarrow> budget" where
  "routeBudgetMetrics es bends_limit stretch segmentPx microPx =
     foldl (budget_route bends_limit stretch segmentPx microPx) empty_budget (asArray es)"

end
