(* ===== verification/GeometryFacts.thy ===== *)
theory GeometryFacts
  imports Geometry "HOL-Library.Sublist"
begin

text \<open>
  What the geometry of \<open>Geometry\<close> computes: overlaps of rectangles, detection of segments through
  boxes, reported crossings, normal forms of polylines and merged border overlaps.
\<close>

section \<open>Rectangles\<close>

lemma finite_overlap_sym: "finite_rects_overlap a b gap \<longleftrightarrow> finite_rects_overlap b a gap"
  by (auto simp: finite_rects_overlap_def)

definition inside :: "point \<Rightarrow> rect \<Rightarrow> bool" where
  "inside p r \<longleftrightarrow> rx r < fst p \<and> fst p < rx r + rwidth r \<and> ry r < snd p \<and> snd p < ry r + rheight r"

lemma open_intervals_meet:
  "(\<exists>x. a < x \<and> x < b \<and> c < x \<and> x < (d::real)) \<longleftrightarrow> a < b \<and> c < d \<and> a < d \<and> c < b"
proof
  assume "a < b \<and> c < d \<and> a < d \<and> c < b"
  then have "max a c < min b d" by simp
  then obtain x where "max a c < x" "x < min b d" using dense by blast
  then show "\<exists>x. a < x \<and> x < b \<and> c < x \<and> x < d" by auto
qed auto

lemma overlap_inside:
  assumes "0 < rwidth a" "0 < rheight a" "0 < rwidth b" "0 < rheight b"
  shows "finite_rects_overlap a b 0 \<longleftrightarrow> (\<exists>p. inside p a \<and> inside p b)"
proof -
  have "(\<exists>p. inside p a \<and> inside p b) \<longleftrightarrow>
      (\<exists>x. rx a < x \<and> x < rx a + rwidth a \<and> rx b < x \<and> x < rx b + rwidth b)
    \<and> (\<exists>y. ry a < y \<and> y < ry a + rheight a \<and> ry b < y \<and> y < ry b + rheight b)"
    by (auto simp: inside_def)
  then show ?thesis
    unfolding open_intervals_meet finite_rects_overlap_def using assms by auto
qed

section \<open>Segments through a box\<close>

lemma horizontal_crossing:
  assumes x: "ax < x1" "x2 < bx" and y: "y1 < y" "y < y2" and w: "0 < x2 - x1"
    and area: "2 / 10000 \<le> (x2 - x1) * (y2 - y1)"
  shows "segmentsIntersect (ax, y) (bx, y) (x1, y2) (x1, y1)"
proof -
  have len: "x2 - x1 \<le> bx - ax" "0 < bx - ax" using x w by auto
  have h: "0 < y2 - y1" using y by simp
  have "(x2 - x1) * (y2 - y1) \<le> (bx - ax) * (y2 - y1)" using len h by (intro mult_right_mono) auto
  then have sum: "2 / 10000 \<le> (bx - ax) * (y2 - y) + (bx - ax) * (y - y1)"
    using area by (simp add: algebra_simps)
  have signs: "0 < (bx - ax) * (y2 - y)" "0 < (bx - ax) * (y - y1)" using len y by simp_all
  have o12: "orientation (ax, y) (bx, y) (x1, y2) \<noteq> orientation (ax, y) (bx, y) (x1, y1)"
    using sum signs by (auto simp: orientation_def Let_def algebra_simps)
  have "(x2 - x1) * (y2 - y1) \<le> (bx - x1) * (y2 - y1)" using x h by (intro mult_right_mono) auto
  then have far: "2 / 10000 \<le> (bx - x1) * (y2 - y1)" using area by linarith
  have near: "0 < (x1 - ax) * (y2 - y1)" using x h by simp
  have o34: "orientation (x1, y2) (x1, y1) (ax, y) \<noteq> orientation (x1, y2) (x1, y1) (bx, y)"
    using far near by (auto simp: orientation_def Let_def algebra_simps)
  show ?thesis using o12 o34 by (simp add: segmentsIntersect_def Let_def)
qed

definition turn :: "nat \<Rightarrow> nat" where
  "turn n = (if n = 0 then 0 else if n = 1 then 2 else 1)"

lemma turn_iff [simp]: "turn (orientation a b c) = 0 \<longleftrightarrow> orientation a b c = 0"
  "turn (orientation a b c) = turn (orientation d e f) \<longleftrightarrow> orientation a b c = orientation d e f"
  by (auto simp: turn_def orientation_def Let_def)

lemma orientation_swap: "orientation b a c = turn (orientation a b c)"
proof -
  have "(snd a - snd b) * (fst c - fst a) - (fst a - fst b) * (snd c - snd a)
      = - ((snd b - snd a) * (fst c - fst b) - (fst b - fst a) * (snd c - snd b))"
    by (simp add: algebra_simps)
  then show ?thesis by (simp add: orientation_def turn_def Let_def)
qed

lemma onSegment_swap: "onSegment c b a \<longleftrightarrow> onSegment a b c"
  by (auto simp: onSegment_def max.commute min.commute)

lemma segmentsIntersect_swap: "segmentsIntersect b a c d \<longleftrightarrow> segmentsIntersect a b c d"
  by (auto simp: segmentsIntersect_def Let_def orientation_swap [of b a] onSegment_swap [of b _ a])

text \<open>Mirroring both coordinates at the diagonal.\<close>

abbreviation mirror :: "point \<Rightarrow> point" where
  "mirror p \<equiv> (snd p, fst p)"

lemma orientation_mirror: "orientation (mirror a) (mirror b) (mirror c) = turn (orientation a b c)"
proof -
  have "(fst b - fst a) * (snd c - snd b) - (snd b - snd a) * (fst c - fst b)
      = - ((snd b - snd a) * (fst c - fst b) - (fst b - fst a) * (snd c - snd b))"
    by simp
  then show ?thesis by (simp add: orientation_def turn_def Let_def)
qed

lemma onSegment_mirror: "onSegment (mirror a) (mirror b) (mirror c) \<longleftrightarrow> onSegment a b c"
  by (auto simp: onSegment_def)

lemma segmentsIntersect_mirror:
  "segmentsIntersect (mirror a) (mirror b) (mirror c) (mirror d) \<longleftrightarrow> segmentsIntersect a b c d"
  unfolding segmentsIntersect_def Let_def orientation_mirror onSegment_mirror turn_iff ..

text \<open>
  The axis-parallel segments of a route: one that passes strictly through a box of area at least
  0.0002 is detected, whichever way it runs.
\<close>

definition axis_parallel :: "point \<Rightarrow> point \<Rightarrow> bool" where
  "axis_parallel a b \<longleftrightarrow> fst a = fst b \<or> snd a = snd b"

definition on_segment :: "point \<Rightarrow> point \<Rightarrow> point \<Rightarrow> bool" where
  "on_segment p a b \<longleftrightarrow> (\<exists>t. 0 \<le> t \<and> t \<le> 1 \<and> p = (fst a + t * (fst b - fst a), snd a + t * (snd b - snd a)))"

lemma on_segment_range:
  assumes "on_segment p a b"
  shows "min (fst a) (fst b) \<le> fst p" "fst p \<le> max (fst a) (fst b)"
    "min (snd a) (snd b) \<le> snd p" "snd p \<le> max (snd a) (snd b)"
proof -
  from assms obtain t where t: "0 \<le> t" "t \<le> 1"
    and p: "p = (fst a + t * (fst b - fst a), snd a + t * (snd b - snd a))"
    by (auto simp: on_segment_def)
  have mix: "min x y \<le> x + t * (y - x) \<and> x + t * (y - x) \<le> max x y" for x y :: real
  proof -
    have "x + t * (y - x) = (1 - t) * x + t * y" by (simp add: algebra_simps)
    moreover have "(1 - t) * min x y + t * min x y \<le> (1 - t) * x + t * y"
      using t by (intro add_mono mult_left_mono) auto
    moreover have "(1 - t) * x + t * y \<le> (1 - t) * max x y + t * max x y"
      using t by (intro add_mono mult_left_mono) auto
    ultimately show ?thesis by (simp add: algebra_simps)
  qed
  from mix [of "fst a" "fst b"] mix [of "snd a" "snd b"]
  show "min (fst a) (fst b) \<le> fst p" "fst p \<le> max (fst a) (fst b)"
    "min (snd a) (snd b) \<le> snd p" "snd p \<le> max (snd a) (snd b)"
    by (simp_all add: p)
qed

lemma horizontal_detected:
  assumes ends: "\<not> pointInBox (ax, y) (x1, y1, x2, y2)" "\<not> pointInBox (bx, y) (x1, y1, x2, y2)"
    and p: "x1 < px" "px < x2" "min ax bx \<le> px" "px \<le> max ax bx" and y: "y1 < y" "y < y2"
    and area: "2 / 10000 \<le> (x2 - x1) * (y2 - y1)"
  shows "segmentsIntersect (ax, y) (bx, y) (x1, y2) (x1, y1)"
proof -
  have out: "z < x1 \<or> x2 < z" if "\<not> pointInBox (z, y) (x1, y1, x2, y2)" for z
    using that y by (auto simp: pointInBox_def)
  from p out [OF ends(1)] out [OF ends(2)]
  consider "ax < x1" "x2 < bx" | "bx < x1" "x2 < ax" by (auto simp: min_def max_def split: if_splits)
  then show ?thesis
  proof cases
    case 1
    then show ?thesis using horizontal_crossing [OF 1 y _ area] p by simp
  next
    case 2
    then show ?thesis
      using horizontal_crossing [OF 2 y _ area] p segmentsIntersect_swap [of "(ax, y)" "(bx, y)"] by simp
  qed
qed

lemma interior_detected:
  assumes ap: "axis_parallel a b" and p: "on_segment p a b"
    and i: "inside p \<lparr>rx = rx r - gap, ry = ry r - gap, rwidth = rwidth r + 2 * gap, rheight = rheight r + 2 * gap\<rparr>"
    and area: "2 / 10000 \<le> (rwidth r + 2 * gap) * (rheight r + 2 * gap)"
  shows "segmentIntersectsRect a b r gap"
proof (rule ccontr)
  assume n: "\<not> segmentIntersectsRect a b r gap"
  define x1 y1 x2 y2 where "x1 = rx r - gap" "y1 = ry r - gap" "x2 = rx r + rwidth r + gap" "y2 = ry r + rheight r + gap"
  note box = this
  have out: "\<not> pointInBox a (x1, y1, x2, y2)" "\<not> pointInBox b (x1, y1, x2, y2)"
    and no: "\<not> segmentsIntersect a b (x1, y2) (x1, y1)" "\<not> segmentsIntersect a b (x1, y1) (x2, y1)"
    using n by (auto simp: segmentIntersectsRect_def grown_box_def box Let_def split: if_splits)
  have pi: "x1 < fst p" "fst p < x2" "y1 < snd p" "snd p < y2"
    using i by (auto simp: inside_def box)
  have ar: "2 / 10000 \<le> (x2 - x1) * (y2 - y1)" using area by (simp add: box algebra_simps)
  note rng = on_segment_range [OF p]
  show False
  proof (cases "snd a = snd b")
    case True
    then have "snd p = snd a" using rng by simp
    then show False
      using horizontal_detected [of "fst a" "snd a" x1 y1 x2 y2 "fst b" "fst p"] out no(1) pi rng ar True
      by (metis prod.collapse)
  next
    case False
    then have e: "fst a = fst b" using ap by (simp add: axis_parallel_def)
    then have "fst p = fst a" using rng by simp
    have "segmentsIntersect (snd a, fst a) (snd b, fst a) (y1, x2) (y1, x1)"
    proof (rule horizontal_detected [of _ _ _ _ y2 _ _ "snd p"])
      show "\<not> pointInBox (snd a, fst a) (y1, x1, y2, x2)" "\<not> pointInBox (snd b, fst a) (y1, x1, y2, x2)"
        using out e by (auto simp: pointInBox_def)
      show "2 / 10000 \<le> (y2 - y1) * (x2 - x1)" using ar by (simp add: mult.commute)
    qed (use pi rng \<open>fst p = fst a\<close> in auto)
    then have "segmentsIntersect a b (x2, y1) (x1, y1)"
      using segmentsIntersect_mirror [of a b "(x2, y1)" "(x1, y1)"] e by simp
    then have "segmentsIntersect a b (x1, y1) (x2, y1)"
      by (auto simp: segmentsIntersect_def Let_def orientation_swap [of "(x2, y1)" "(x1, y1)"]
          onSegment_swap [of "(x2, y1)"])
    with no(2) show False by simp
  qed
qed

section \<open>Reported crossings\<close>

lemma crossing_identity:
  fixes a b c d :: point
  defines "den \<equiv> (fst a - fst b) * (snd c - snd d) - (snd a - snd b) * (fst c - fst d)"
  shows "crossProduct c d a - crossProduct c d b = den" "crossProduct a b d - crossProduct a b c = den"
  by (simp_all add: den_def crossProduct_def algebra_simps)

lemma opposite_ratio:
  assumes "opposite l r"
  shows "0 < l / (l - r)" "l / (l - r) < 1"
  using assms by (auto simp: opposite_def field_simps)

lemma proper_intersection_point:
  assumes "properSegmentIntersection a b c d = Some p"
  shows "\<exists>s t. 0 < s \<and> s < 1 \<and> 0 < t \<and> t < 1
    \<and> p = (fst a + s * (fst b - fst a), snd a + s * (snd b - snd a))
    \<and> p = (fst c + t * (fst d - fst c), snd c + t * (snd d - snd c))"
proof -
  define den where "den = (fst a - fst b) * (snd c - snd d) - (snd a - snd b) * (fst c - fst d)"
  define ab cd where "ab = fst a * snd b - snd a * fst b" and "cd = fst c * snd d - snd c * fst d"
  have o: "opposite (crossProduct a b c) (crossProduct a b d)" "opposite (crossProduct c d a) (crossProduct c d b)"
    and nz: "den \<noteq> 0"
    and p: "p = ((ab * (fst c - fst d) - (fst a - fst b) * cd) / den,
                 (ab * (snd c - snd d) - (snd a - snd b) * cd) / den)"
    using assms by (auto simp: properSegmentIntersection_def den_def ab_def cd_def Let_def split: if_splits)
  note id = crossing_identity [where a = a and b = b and c = c and d = d, folded den_def]
  define s where "s = crossProduct c d a / den"
  define t where "t = - crossProduct a b c / den"
  have s: "0 < s" "s < 1" using opposite_ratio [OF o(2)] by (simp_all add: s_def id)
  have t: "0 < t" "t < 1"
  proof -
    have "t = crossProduct a b c / (crossProduct a b c - crossProduct a b d)"
      using id(2) nz by (simp add: t_def field_simps)
    then show "0 < t" "t < 1" using opposite_ratio [OF o(1)] by simp_all
  qed
  have sd: "s * den = crossProduct c d a" "t * den = - crossProduct a b c"
    and pd: "fst p * den = ab * (fst c - fst d) - (fst a - fst b) * cd"
      "snd p * den = ab * (snd c - snd d) - (snd a - snd b) * cd"
    using nz by (simp_all add: s_def t_def p)
  have same: "p = (x1 + u * (y1 - x1), x2 + u * (y2 - x2))"
    if "fst p * den = x1 * den + (u * den) * (y1 - x1)" "snd p * den = x2 * den + (u * den) * (y2 - x2)"
    for x1 x2 y1 y2 u
  proof -
    have "fst p * den = (x1 + u * (y1 - x1)) * den" "snd p * den = (x2 + u * (y2 - x2)) * den"
      using that by (simp_all add: algebra_simps)
    with nz show ?thesis by (simp add: prod_eq_iff)
  qed
  have 1: "p = (fst a + s * (fst b - fst a), snd a + s * (snd b - snd a))"
    by (rule same; simp only: sd pd) (simp_all add: ab_def cd_def den_def crossProduct_def algebra_simps)
  have 2: "p = (fst c + t * (fst d - fst c), snd c + t * (snd d - snd c))"
    by (rule same; simp only: sd pd) (simp_all add: ab_def cd_def den_def crossProduct_def algebra_simps)
  from s t 1 2 show ?thesis by blast
qed

section \<open>Normal forms of polylines\<close>

lemma dedupe_subseq: "subseq (rev (dedupe acc ps)) (rev acc @ ps)"
proof (induction acc ps rule: dedupe.induct)
  case (3 q acc p ps)
  show ?case
  proof (cases "far_apart p q")
    case False
    have "subseq (rev (q # acc) @ ps) (rev (q # acc) @ p # ps)"
      by (intro list_emb_append_mono) auto
    with 3 False show ?thesis by (auto intro: subseq_order.order_trans)
  qed (use 3 in simp)
qed simp_all

lemma dedupe_first: "acc \<noteq> [] \<Longrightarrow> last (dedupe acc ps) = last acc \<and> dedupe acc ps \<noteq> []"
  by (induction acc ps rule: dedupe.induct) auto

fun apart :: "point list \<Rightarrow> bool" where
  "apart (p # q # ps) \<longleftrightarrow> far_apart p q \<and> apart (q # ps)"
| "apart _ \<longleftrightarrow> True"

lemma dedupe_apart: "apart acc \<Longrightarrow> apart (dedupe acc ps)"
  by (induction acc ps rule: dedupe.induct) auto

text \<open>No three consecutive points of a list run straight on; lists are latest first.\<close>

fun bent :: "point list \<Rightarrow> bool" where
  "bent (c # b # a # ps) \<longleftrightarrow> \<not> collinearForward a b c \<and> bent (b # a # ps)"
| "bent _ \<longleftrightarrow> True"

lemma bent_nth_latest:
  "bent ps \<Longrightarrow> Suc (Suc i) < length ps \<Longrightarrow> \<not> collinearForward (ps ! Suc (Suc i)) (ps ! Suc i) (ps ! i)"
proof (induction ps arbitrary: i rule: bent.induct)
  case (1 c b a ps)
  then show ?case by (cases i) auto
qed auto

lemma bent_nth:
  assumes "bent (rev ps)" and "Suc (Suc i) < length ps"
  shows "\<not> collinearForward (ps ! i) (ps ! Suc i) (ps ! Suc (Suc i))"
  using bent_nth_latest [OF assms(1), of "length ps - Suc (Suc (Suc i))"] assms(2)
  by (simp add: rev_nth Suc_diff_Suc)

lemma pop_collinear_bent: "bent acc \<Longrightarrow> bent (p # pop_collinear acc p)"
proof (induction acc p rule: pop_collinear.induct)
  case (1 b a acc p)
  then show ?case by (cases acc) auto
qed auto

lemma pop_collinear_suffix: "\<exists>zs. acc = zs @ pop_collinear acc p"
proof (induction acc p rule: pop_collinear.induct)
  case (1 b a acc p)
  show ?case
  proof (cases "collinearForward a b p")
    case True
    with 1 obtain zs where "a # acc = zs @ pop_collinear (a # acc) p" by blast
    with True show ?thesis by (intro exI [of _ "b # zs"]) simp
  qed simp
qed auto

lemma pop_collinear_first: "acc \<noteq> [] \<Longrightarrow> pop_collinear acc p \<noteq> [] \<and> last (pop_collinear acc p) = last acc"
  by (induction acc p rule: pop_collinear.induct) auto

lemma merge_snoc: "merge_collinear (ps @ [p]) = p # pop_collinear (merge_collinear ps) p"
  by (simp add: merge_collinear_def)

lemma merge_facts:
  "bent (merge_collinear ps) \<and> subseq (rev (merge_collinear ps)) ps
   \<and> (ps \<noteq> [] \<longrightarrow> merge_collinear ps \<noteq> [] \<and> hd (merge_collinear ps) = last ps
        \<and> last (merge_collinear ps) = hd ps)"
proof (induction ps rule: rev_induct)
  case Nil
  then show ?case by (simp add: merge_collinear_def)
next
  case (snoc p ps)
  let ?m = "merge_collinear ps"
  obtain zs where zs: "?m = zs @ pop_collinear ?m p" using pop_collinear_suffix by blast
  have "rev ?m = rev (pop_collinear ?m p) @ rev zs"
    by (subst zs) simp
  then have "subseq (rev (pop_collinear ?m p)) (rev ?m)" by (metis subseq_rev_drop_many subseq_order.refl append_Nil2 list_emb_append2 list_emb_append_mono list_emb_Nil)
  with snoc have "subseq (rev (pop_collinear ?m p)) ps" by (meson subseq_order.order_trans)
  then have sub: "subseq (rev (p # pop_collinear ?m p)) (ps @ [p])"
    by (simp add: list_emb_append_mono)
  have fst: "last (p # pop_collinear ?m p) = hd (ps @ [p])"
  proof (cases "ps = []")
    case True
    then show ?thesis by (simp add: merge_collinear_def)
  next
    case False
    with snoc pop_collinear_first [of ?m p] show ?thesis by simp
  qed
  show ?case
    unfolding merge_snoc using snoc pop_collinear_bent [of ?m p] sub fst by simp
qed

lemma normalize_facts:
  assumes "ps = List.map_filter finite_point (asArray raw)" and "ps \<noteq> []"
  shows "bent (rev (normalizeRoutePoints raw)) \<and> subseq (normalizeRoutePoints raw) ps
    \<and> normalizeRoutePoints raw \<noteq> [] \<and> hd (normalizeRoutePoints raw) = hd ps"
proof -
  let ?d = "rev (dedupe [] ps)"
  have n: "normalizeRoutePoints raw = rev (merge_collinear ?d)"
    by (simp add: normalizeRoutePoints_def assms(1))
  obtain q qs where q: "ps = q # qs" using assms(2) by (cases ps) auto
  have d: "?d \<noteq> []" "hd ?d = q" using dedupe_first [of "[q]" qs] by (simp_all add: q hd_rev)
  have "subseq ?d ps" using dedupe_subseq [of "[]" ps] by simp
  with merge_facts [of ?d] d show ?thesis
    by (auto simp: n q hd_rev intro: subseq_order.order_trans)
qed

section \<open>Overlaps\<close>

lemma near_sym: "near x y \<longleftrightarrow> near y x"
  by (simp add: near_def abs_minus_commute)

lemma shared_axis_sym: "shared_axis a b c d = shared_axis c d a b"
proof -
  have h: "near x y \<and> near z w \<and> near x z \<longleftrightarrow> near z w \<and> near x y \<and> near z x" for x y z w
    using near_sym [of x z] by blast
  show ?thesis
    unfolding shared_axis_def Let_def h [of "snd c"] h [of "fst c"] ..
qed

lemma shared_range_sym: "shared_range ax a b c d = shared_range ax c d a b"
  unfolding shared_range_def
  by (simp only: max.commute [of "min (ax c) (ax d)"] min.commute [of "max (ax c) (ax d)"])

lemma overlap_symmetric:
  "map_option ov_length (collinearAxisOverlap a b c d) = map_option ov_length (collinearAxisOverlap c d a b)"
  unfolding collinearAxisOverlap_def shared_axis_sym [of c d] shared_range_sym [of _ c d]
  by (cases "shared_axis a b c d") (simp_all add: Let_def case_prod_beta)

lemma overlap_within:
  assumes "collinearAxisOverlap a b c d = Some o1"
  shows "1 / 10000 < ov_length o1
    \<and> (\<exists>horizontal low high. ov_length o1 = high - low
        \<and> on_axis horizontal (ov_start o1) = low \<and> on_axis horizontal (ov_end o1) = high
        \<and> min (on_axis horizontal a) (on_axis horizontal b) \<le> low
        \<and> high \<le> max (on_axis horizontal a) (on_axis horizontal b)
        \<and> min (on_axis horizontal c) (on_axis horizontal d) \<le> low
        \<and> high \<le> max (on_axis horizontal c) (on_axis horizontal d)
        \<and> near (on_axis (\<not> horizontal) a) (on_axis (\<not> horizontal) c))"
proof -
  obtain h where h: "shared_axis a b c d = Some h"
    using assms by (cases "shared_axis a b c d") (simp_all add: collinearAxisOverlap_def)
  obtain low high where r: "shared_range (on_axis h) a b c d = (low, high)" by fastforce
  have o1: "o1 = \<lparr>ov_length = high - low, ov_start = at_axis h low (if h then snd a else fst a),
      ov_end = at_axis h high (if h then snd a else fst a)\<rparr>" and gt: "1 / 10000 < high - low"
    using assms by (auto simp: collinearAxisOverlap_def h r Let_def not_le split: if_splits)
  have "near (on_axis (\<not> h) a) (on_axis (\<not> h) c)"
    using h by (auto simp: shared_axis_def Let_def on_axis_def split: if_splits)
  moreover have "min (on_axis h a) (on_axis h b) \<le> low" "min (on_axis h c) (on_axis h d) \<le> low"
    "high \<le> max (on_axis h a) (on_axis h b)" "high \<le> max (on_axis h c) (on_axis h d)"
    using r unfolding shared_range_def prod.inject
    by (metis max.cobounded1, metis max.cobounded2, metis min.cobounded1, metis min.cobounded2)
  moreover have "on_axis h (ov_start o1) = low" "on_axis h (ov_end o1) = high" "ov_length o1 = high - low"
    by (simp_all add: o1 on_axis_def at_axis_def)
  ultimately show ?thesis using gt by metis
qed

section \<open>Merged intervals\<close>

text \<open>Runs, latest first: separated by more than the tolerance.\<close>

fun separated :: "(real \<times> real) list \<Rightarrow> bool" where
  "separated ((l', h') # (l, h) # is) \<longleftrightarrow> h + 1 / 10000 < l' \<and> separated ((l, h) # is)"
| "separated _ \<longleftrightarrow> True"

definition covers :: "(real \<times> real) list \<Rightarrow> real \<times> real \<Rightarrow> bool" where
  "covers runs i \<longleftrightarrow> (\<exists>(l, h) \<in> set runs. l \<le> fst i \<and> snd i \<le> h)"

lemma set_insert_interval [simp]: "set (insert_interval i is) = insert i (set is)"
  by (induction "is") auto

lemma set_sort_intervals [simp]: "set (sort_intervals is) = set is"
  unfolding sort_intervals_def by (induction "is") auto

lemma sorted_insert_interval: "sorted (map fst is) \<Longrightarrow> sorted (map fst (insert_interval i is))"
  by (induction "is") auto

lemma sorted_sort_intervals: "sorted (map fst (sort_intervals is))"
  unfolding sort_intervals_def by (induction "is") (auto intro: sorted_insert_interval)

lemma merge_intervals_facts:
  assumes "separated acc" and "sorted (map fst is)"
    and "case acc of [] \<Rightarrow> True | r # _ \<Rightarrow> \<forall>i \<in> set is. fst r \<le> fst i"
  shows "separated (merge_intervals acc is)
    \<and> (\<forall>i. i \<in> set is \<or> covers acc i \<longrightarrow> covers (merge_intervals acc is) i)"
  using assms
proof (induction acc "is" rule: merge_intervals.induct)
  case (2 i "is")
  then have "separated (merge_intervals [i] is)
      \<and> (\<forall>j. j \<in> set is \<or> covers [i] j \<longrightarrow> covers (merge_intervals [i] is) j)"
    by auto
  then show ?case by (auto simp: covers_def split: prod.splits)
next
  case (3 l h acc l' h' "is")
  let ?acc = "if l' \<le> h + 1 / 10000 then (l, max h h') # acc else (l', h') # (l, h) # acc"
  have "separated ?acc" using 3(3) by (cases acc) auto
  moreover have "\<forall>i \<in> set is. fst (hd ?acc) \<le> fst i" using 3(4,5) by auto
  ultimately have ih: "separated (merge_intervals ?acc is)
      \<and> (\<forall>i. i \<in> set is \<or> covers ?acc i \<longrightarrow> covers (merge_intervals ?acc is) i)"
    using 3 by (cases "l' \<le> h + 1 / 10000") auto
  moreover have "covers ?acc i" if "i = (l', h') \<or> covers ((l, h) # acc) i" for i
    using that 3(5) by (auto simp: covers_def)
  moreover have "merge_intervals ((l, h) # acc) ((l', h') # is) = merge_intervals ?acc is" by simp
  ultimately show ?case by (metis set_ConsD)
qed simp

lemma merged_runs:
  assumes "runs = merge_intervals [] (sort_intervals is)"
  shows "separated runs \<and> (\<forall>i \<in> set is. covers runs i)"
  using merge_intervals_facts [of "[]" "sort_intervals is"] sorted_sort_intervals [of "is"]
  by (auto simp: assms)

section \<open>Clipping\<close>

lemma clip_range:
  "clip bounds enter leave = Some (e, l) \<Longrightarrow> enter \<le> e \<and> l \<le> leave"
  by (induction bounds enter leave rule: clip.induct) (fastforce simp: Let_def split: if_splits)+

lemma intersection_length_bounds:
  "0 \<le> intersection_length a b r" "intersection_length a b r \<le> hypot (fst b - fst a) (snd b - snd a)"
proof -
  let ?len = "hypot (fst b - fst a) (snd b - snd a)"
  have len: "0 \<le> ?len" by (simp add: hypot_def)
  show "0 \<le> intersection_length a b r"
    using len by (auto simp: intersection_length_def Let_def split: option.splits)
  show "intersection_length a b r \<le> ?len"
  proof (cases "clip (clip_bounds a b r) 0 1")
    case (Some el)
    then obtain e l where el: "el = (e, l)" "0 \<le> e" "l \<le> 1" using clip_range by (cases el) blast
    then have "?len * max 0 (l - e) \<le> ?len * 1" using len by (intro mult_left_mono) auto
    with Some el len show ?thesis by (simp add: intersection_length_def Let_def)
  qed (use len in \<open>simp add: intersection_length_def Let_def\<close>)
qed

text \<open>A horizontal segment at the height of the rectangle: the exact length inside.\<close>

lemma horizontal_intersection:
  assumes dx: "1 / 10000000 < x2 - x1" and y: "ry r \<le> y" "y \<le> ry r + rheight r" and w: "0 \<le> rwidth r"
  shows "intersection_length (x1, y) (x2, y) r
    = max 0 (min x2 (rx r + rwidth r) - max x1 (rx r))"
proof -
  define d where "d = x2 - x1"
  define e where "e = max 0 ((x1 - rx r) / - d)"
  define l where "l = min 1 ((rx r + rwidth r - x1) / d)"
  have d: "0 < d" "1 / 10000000 < d" using dx by (simp_all add: d_def)
  have len: "hypot (x2 - x1) 0 = d" using d by (simp add: hypot_def d_def)
  have de: "d * e = max x1 (rx r) - x1"
    using d by (auto simp: e_def max_def field_simps)
  have dl: "d * l = min x2 (rx r + rwidth r) - x1"
    using d by (auto simp: l_def min_def d_def field_simps)
  have "max 0 (d * (l - e)) = d * max 0 (l - e)"
    using d by (simp add: max_def zero_le_mult_iff)
  moreover have "d * (l - e) = min x2 (rx r + rwidth r) - max x1 (rx r)"
    using de dl by (simp add: right_diff_distrib)
  moreover have "intersection_length (x1, y) (x2, y) r
      = (if l + 1 / 10000000 < e \<or> 1 + 1 / 10000000 < e then 0 else d * max 0 (l - e))"
    using d y len by (auto simp: intersection_length_def Let_def clip_bounds_def d_def [symmetric] e_def l_def)
  moreover have "l - e < 0" if "l + 1 / 10000000 < e \<or> 1 + 1 / 10000000 < e"
    using that by (auto simp: l_def)
  ultimately show ?thesis
    using d by (auto simp: mult_less_0_iff)
qed

end
