(* ===== verification/RouteFacts.thy ===== *)
theory RouteFacts
  imports RouteGates GeometryFacts
begin

text \<open>
  What an empty or non-empty answer of the route gates means for the routes they looked at.
\<close>

section \<open>Shared list facts\<close>

lemma find_None_indexed: "find P (indexed xs) = None \<longleftrightarrow> (\<forall>i < length xs. \<not> P (i, xs ! i))"
  by (auto simp: find_None_iff indexed_iff)

lemma length_segments [simp]: "length (segments ps) = length ps - 1"
  by (simp add: segments_def)

lemma segments_nth: "Suc i < length ps \<Longrightarrow> segments ps ! i = (ps ! i, ps ! Suc i)"
  by (simp add: segments_def nth_tl)

lemma in_segments: "(a, b) \<in> set (segments ps) \<longleftrightarrow> (\<exists>i. Suc i < length ps \<and> a = ps ! i \<and> b = ps ! Suc i)"
proof -
  have "(a, b) \<in> set (segments ps) \<longleftrightarrow> (\<exists>i. i < length ps - 1 \<and> segments ps ! i = (a, b))"
    by (simp add: in_set_conv_nth)
  also have "\<dots> \<longleftrightarrow> (\<exists>i. Suc i < length ps \<and> segments ps ! i = (a, b))"
    by (simp add: less_diff_conv)
  also have "\<dots> \<longleftrightarrow> (\<exists>i. Suc i < length ps \<and> a = ps ! i \<and> b = ps ! Suc i)"
    using segments_nth [of _ ps] by auto
  finally show ?thesis .
qed

lemma indexed_segments:
  "(k, a, b) \<in> set (indexed (segments ps)) \<longleftrightarrow> Suc k < length ps \<and> a = ps ! k \<and> b = ps ! Suc k"
  by (auto simp: indexed_iff segments_nth)

lemma in_pairs_of: "i < j \<Longrightarrow> j < length xs \<Longrightarrow> (xs ! i, xs ! j) \<in> set (pairs_of xs)"
proof (induction xs arbitrary: i j)
  case (Cons x xs)
  then show ?case by (cases i; cases j) auto
qed simp

lemma pairs_of_nth:
  "(a, b) \<in> set (pairs_of xs) \<longleftrightarrow> (\<exists>i j. i < j \<and> j < length xs \<and> a = xs ! i \<and> b = xs ! j)"
proof
  show "(a, b) \<in> set (pairs_of xs) \<Longrightarrow> \<exists>i j. i < j \<and> j < length xs \<and> a = xs ! i \<and> b = xs ! j"
  proof (induction xs)
    case (Cons x xs)
    then consider "a = x" "b \<in> set xs" | "(a, b) \<in> set (pairs_of xs)" by auto
    then show ?case
    proof cases
      case 1
      then obtain j where "j < length xs" "b = xs ! j" by (auto simp: in_set_conv_nth)
      with 1 show ?thesis by (intro exI [of _ 0] exI [of _ "Suc j"]) simp
    next
      case 2
      then obtain i j where "i < j" "j < length xs" "a = xs ! i" "b = xs ! j" using Cons.IH by blast
      then show ?thesis by (intro exI [of _ "Suc i"] exI [of _ "Suc j"]) simp
    qed
  qed simp
qed (auto intro: in_pairs_of)

lemma first_some_None: "first_some f xs = None \<longleftrightarrow> (\<forall>x \<in> set xs. f x = None)"
  by (induction xs) (auto split: option.splits)

lemma first_some_Some: "first_some f xs = Some y \<Longrightarrow> \<exists>x \<in> set xs. f x = Some y"
  by (induction xs) (auto split: option.splits)

section \<open>Routes through nodes\<close>

lemma flow_gate:
  assumes g: "cleanFlowProblems (Some relations) obstacles pathFor clearance = []"
    and r: "i < length relations" "relations ! i = Some r" "flow_checked obstacles r"
    and ps: "routed_points (pathFor r) = Some ps"
    and ob: "Some ob \<in> set obstacles" "ob_id ob \<noteq> rel r ''from''" "ob_id ob \<noteq> rel r ''to''"
    and k: "finite_rect (ob_rect ob) = Some k" and s: "(a, b) \<in> set (segments ps)"
  shows "\<not> segmentIntersectsRect a b k clearance"
proof -
  have "(i, Some r) \<in> set (indexed relations)" using r by (simp add: indexed_iff)
  with g r(3) ps have "obstacle_problems i r ps clearance obstacles = []"
    by (fastforce simp: cleanFlowProblems_def asArray_def)
  with ob(1) have "obstacle_problem i r ps clearance ob = None"
    by (force simp: obstacle_problems_def map_filter_empty)
  with ob(2,3) k have "first_hit ps k clearance = None"
    by (cases "first_hit ps k clearance") (simp_all add: obstacle_problem_def split_beta del: finite_rect.simps)
  with s show ?thesis
    by (fastforce simp: first_hit_def find_None_iff indexed_segments in_segments)
qed

lemma find_first:
  assumes "find P xs = Some x"
  shows "x \<in> set xs \<and> P x \<and> (\<exists>n < length xs. xs ! n = x \<and> (\<forall>l < n. \<not> P (xs ! l)))"
  using assms by (auto simp: find_Some_iff)

lemma flow_problem_real:
  assumes "x \<in> set (cleanFlowProblems (Some relations) obstacles pathFor clearance)"
  shows "\<exists>ps k ob. fp_index x < length relations \<and> relations ! fp_index x = Some (fp_relation x)
    \<and> routed_points (pathFor (fp_relation x)) = Some ps
    \<and> Some ob \<in> set obstacles \<and> ob_id ob = fp_obstacle x \<and> finite_rect (ob_rect ob) = Some k
    \<and> fp_obstacle x \<noteq> rel (fp_relation x) ''from'' \<and> fp_obstacle x \<noteq> rel (fp_relation x) ''to''
    \<and> Suc (fp_segment x) < length ps \<and> fp_from x = ps ! fp_segment x \<and> fp_to x = ps ! Suc (fp_segment x)
    \<and> segmentIntersectsRect (fp_from x) (fp_to x) k clearance"
proof -
  from assms obtain i q where q: "i < length relations" "relations ! i = q"
    and xq: "x \<in> set (case q of None \<Rightarrow> [] | Some r \<Rightarrow> if \<not> flow_checked obstacles r then []
        else (case routed_points (pathFor r) of None \<Rightarrow> []
              | Some ps \<Rightarrow> obstacle_problems i r ps clearance obstacles))"
    by (auto simp: cleanFlowProblems_def asArray_def indexed_iff)
  from xq obtain r ps where r: "q = Some r" and ps: "routed_points (pathFor r) = Some ps"
    and x: "x \<in> set (obstacle_problems i r ps clearance obstacles)"
    by (cases q) (auto split: option.splits if_splits)
  from x obtain ob k n a b where ob: "Some ob \<in> set obstacles" "finite_rect (ob_rect ob) = Some k"
      "ob_id ob \<noteq> rel r ''from''" "ob_id ob \<noteq> rel r ''to''"
    and h: "first_hit ps k clearance = Some (n, a, b)"
    and xx: "x = \<lparr>fp_index = i, fp_relation = r, fp_obstacle = ob_id ob, fp_segment = n, fp_from = a, fp_to = b\<rparr>"
  proof -
    from x obtain ob where o1: "Some ob \<in> set obstacles" "obstacle_problem i r ps clearance ob = Some x"
      by (auto simp: obstacle_problems_def set_map_filter split: option.splits)
    from o1(2) that [OF o1(1)] show thesis
      by (auto simp: obstacle_problem_def simp del: finite_rect.simps split: if_splits option.splits prod.splits)
  qed
  from find_first [OF h [unfolded first_hit_def]]
  have "Suc n < length ps" "a = ps ! n" "b = ps ! Suc n" "segmentIntersectsRect a b k clearance"
    by (auto simp: indexed_segments)
  with q r ps ob show ?thesis by (auto simp: xx simp del: finite_rect.simps)
qed

section \<open>Crossings\<close>

lemma crossing_gate:
  assumes g: "cleanCrossingProblems env profile auth relations ids pathFor merge = []"
    and p: "qualityProfileForGate env profile auth = showcase"
    and routes: "rs = crossing_routes relations ids pathFor merge" "i < j" "j < length rs"
    and d: "\<not> shares_endpoint (cr_relation (rs ! i)) (cr_relation (rs ! j))"
    and s: "s \<in> set (cr_segments (rs ! i))" "t \<in> set (cr_segments (rs ! j))"
  shows "analysis_intersection s t = None"
proof -
  have "(rs ! i, rs ! j) \<in> set (pairs_of rs)" by (rule in_pairs_of [OF routes(2,3)])
  with g p routes(1) d have "crossing_hit (rs ! i) (rs ! j) = None"
    by (fastforce simp: cleanCrossingProblems_def map_filter_empty)
  with s show ?thesis by (auto simp: crossing_hit_def first_some_None)
qed

lemma crossing_hit_None:
  "crossing_hit l r = None \<longleftrightarrow>
     (\<forall>s \<in> set (cr_segments l). \<forall>t \<in> set (cr_segments r). analysis_intersection s t = None)"
  by (simp add: crossing_hit_def first_some_None)

lemma crossings_clean:
  assumes "qualityProfileForGate env profile auth = showcase"
  shows "cleanCrossingProblems env profile auth relations ids pathFor merge = [] \<longleftrightarrow>
    (\<forall>(l, r) \<in> set (pairs_of (crossing_routes relations ids pathFor merge)).
       shares_endpoint (cr_relation l) (cr_relation r)
       \<or> (\<forall>s \<in> set (cr_segments l). \<forall>t \<in> set (cr_segments r). analysis_intersection s t = None))"
  by (simp add: cleanCrossingProblems_def assms map_filter_empty split_beta crossing_hit_None if_distrib
      if_bool_eq_disj disj_commute) (metis (no_types, lifting))

lemma crossing_hit_real:
  assumes "crossing_hit l r = Some x"
  shows "xr_left x = l \<and> xr_right x = r
    \<and> (\<exists>s \<in> set (cr_segments l). \<exists>t \<in> set (cr_segments r). analysis_intersection s t = Some (xr_point x))"
  using assms unfolding crossing_hit_def by (fastforce dest!: first_some_Some)

lemma crossing_real:
  assumes "x \<in> set (cleanCrossingProblems env profile auth relations ids pathFor merge)"
  shows "\<not> shares_endpoint (cr_relation (xr_left x)) (cr_relation (xr_right x))
    \<and> (\<exists>s \<in> set (cr_segments (xr_left x)). \<exists>t \<in> set (cr_segments (xr_right x)).
        analysis_intersection s t = Some (xr_point x))"
proof -
  from assms obtain l r where n: "\<not> shares_endpoint (cr_relation l) (cr_relation r)" "crossing_hit l r = Some x"
    by (auto simp: cleanCrossingProblems_def set_map_filter split: if_splits)
  from crossing_hit_real [OF n(2)] n(1) show ?thesis by auto
qed

lemma analysis_intersection_point:
  assumes "analysis_intersection s t = Some p"
  shows "\<exists>a b c d. finite_point (as_start s) = Some a \<and> finite_point (as_end s) = Some b
    \<and> finite_point (as_start t) = Some c \<and> finite_point (as_end t) = Some d
    \<and> on_segment p a b \<and> on_segment p c d"
proof -
  from assms obtain a b c d where f: "finite_point (as_start s) = Some a" "finite_point (as_end s) = Some b"
      "finite_point (as_start t) = Some c" "finite_point (as_end t) = Some d"
    and i: "properSegmentIntersection a b c d = Some p"
    by (auto simp: analysis_intersection_def split: option.splits)
  from proper_intersection_point [OF i] have "on_segment p a b" "on_segment p c d"
    by (auto simp: on_segment_def intro: less_imp_le)
  with f show ?thesis by blast
qed

section \<open>Rhythm\<close>

definition rhythmic :: "real \<Rightarrow> real \<Rightarrow> point list \<Rightarrow> bool" where
  "rhythmic interior micro ps \<longleftrightarrow> (\<forall>k. Suc k < length ps \<longrightarrow>
     (let len = manhattan (ps ! k) (ps ! Suc k) in
      len \<le> 1 / 10000 \<or> micro - 1 / 10000 \<le> len
        \<and> (0 < k \<and> Suc (Suc k) < length ps \<longrightarrow> interior - 1 / 10000 \<le> len)))"

lemma rhythm_segment_None:
  assumes "Suc k < length ps"
  shows "rhythm_of_segment interior micro i e (length ps - 1) (k, ps ! k, ps ! Suc k) = None \<longleftrightarrow>
     (let len = manhattan (ps ! k) (ps ! Suc k) in
      len \<le> 1 / 10000 \<or> micro - 1 / 10000 \<le> len
        \<and> (0 < k \<and> Suc (Suc k) < length ps \<longrightarrow> interior - 1 / 10000 \<le> len))"
  using assms
  by (auto simp: rhythm_of_segment_def Let_def rhythm_code_def segmentPosition_def split: if_splits)

lemma rhythm_route:
  "(if length ps < 2 then []
    else List.map_filter (rhythm_of_segment interior micro i e (length ps - 1)) (indexed (segments ps))) = []
   \<longleftrightarrow> rhythmic interior micro ps"
proof (cases "length ps < 2")
  case False
  have "List.map_filter (rhythm_of_segment interior micro i e (length ps - 1)) (indexed (segments ps)) = []
    \<longleftrightarrow> (\<forall>k. Suc k < length ps \<longrightarrow>
          rhythm_of_segment interior micro i e (length ps - 1) (k, ps ! k, ps ! Suc k) = None)"
    unfolding map_filter_empty
  proof (intro iffI ballI allI impI)
    fix x
    assume all: "\<forall>k. Suc k < length ps \<longrightarrow>
        rhythm_of_segment interior micro i e (length ps - 1) (k, ps ! k, ps ! Suc k) = None"
      and x: "x \<in> set (indexed (segments ps))"
    obtain k a b where k: "x = (k, a, b)" by (cases x)
    with x have "Suc k < length ps" "a = ps ! k" "b = ps ! Suc k" by (simp_all add: indexed_segments)
    with all k show "rhythm_of_segment interior micro i e (length ps - 1) x = None" by simp
  next
    fix k
    assume "\<forall>x \<in> set (indexed (segments ps)). rhythm_of_segment interior micro i e (length ps - 1) x = None"
      and "Suc k < length ps"
    then show "rhythm_of_segment interior micro i e (length ps - 1) (k, ps ! k, ps ! Suc k) = None"
      using indexed_segments [of k "ps ! k" "ps ! Suc k" ps] by simp
  qed
  also have "\<dots> \<longleftrightarrow> rhythmic interior micro ps"
    unfolding rhythmic_def by (intro all_cong1 imp_cong refl rhythm_segment_None)
  finally show ?thesis using False by simp
qed (auto simp: rhythmic_def)

lemma rhythm_clean:
  "collectRouteRhythmIssues (Some es) interior micro = []
   \<longleftrightarrow> (\<forall>e \<in> set es. rhythmic interior micro (normalizeRoutePoints (rt_points e)))"
proof -
  have "collectRouteRhythmIssues (Some es) interior micro = []
    \<longleftrightarrow> (\<forall>x \<in> set (indexed es). rhythmic interior micro (normalizeRoutePoints (rt_points (snd x))))"
    unfolding collectRouteRhythmIssues_def asArray_def Let_def option.case concat_eq_Nil_conv set_map
      ball_simps split_beta rhythm_route ..
  also have "\<dots> \<longleftrightarrow> (\<forall>e \<in> set (map snd (indexed es)). rhythmic interior micro (normalizeRoutePoints (rt_points e)))"
    unfolding set_map by (simp add: split_beta)
  finally show ?thesis by simp
qed

section \<open>Labels\<close>

lemma nearest_segment_None: "nearest_segment r best ss = None \<longleftrightarrow> best = None \<and> ss = []"
  by (induction r best ss rule: nearest_segment.induct) (auto simp: Let_def split: option.splits)

lemma nearest_segment_from:
  "nearest_segment r best ss = Some (c, i, a, b) \<Longrightarrow>
     best = Some (c, i, a, b) \<or> (i, a, b) \<in> set ss \<and> c = clearance_of a b r"
proof (induction ss arbitrary: best)
  case (Cons s ss)
  obtain j p q where s: "s = (j, p, q)" by (cases s)
  show ?case
  proof (cases best)
    case None
    with Cons.prems have "nearest_segment r (Some (clearance_of p q r, j, p, q)) ss = Some (c, i, a, b)"
      by (simp add: s Let_def)
    from Cons.IH [OF this] show ?thesis by (auto simp: s)
  next
    case (Some x)
    obtain d y where x: "x = (d, y)" by (cases x)
    show ?thesis
    proof (cases "clearance_of p q r < d")
      case True
      with Cons.prems Some have "nearest_segment r (Some (clearance_of p q r, j, p, q)) ss = Some (c, i, a, b)"
        by (simp add: s x Let_def)
      from Cons.IH [OF this] show ?thesis by (auto simp: s)
    next
      case False
      with Cons.prems Some have "nearest_segment r best ss = Some (c, i, a, b)"
        by (simp add: s x Let_def)
      from Cons.IH [OF this] show ?thesis by auto
    qed
  qed
qed simp

lemma nearest_segment_best:
  "nearest_segment r (Some (d, x)) ss = Some (c, y) \<Longrightarrow> c \<le> d"
proof (induction ss arbitrary: d x)
  case (Cons s ss)
  obtain j p q where s: "s = (j, p, q)" by (cases s)
  show ?case
  proof (cases "clearance_of p q r < d")
    case True
    with Cons.prems have "nearest_segment r (Some (clearance_of p q r, j, p, q)) ss = Some (c, y)"
      by (simp add: s Let_def)
    from Cons.IH [OF this] True show ?thesis by simp
  next
    case False
    with Cons.prems have "nearest_segment r (Some (d, x)) ss = Some (c, y)" by (simp add: s Let_def)
    from Cons.IH [OF this] show ?thesis .
  qed
qed simp

lemma nearest_segment_least:
  "nearest_segment r best ss = Some (c, y) \<Longrightarrow> (j, p, q) \<in> set ss \<Longrightarrow> c \<le> clearance_of p q r"
proof (induction ss arbitrary: best)
  case (Cons s ss)
  obtain i a b where s: "s = (i, a, b)" by (cases s)
  obtain best' where n: "nearest_segment r best' ss = Some (c, y)"
    and le: "\<exists>d x. best' = Some (d, x) \<and> d \<le> clearance_of a b r"
  proof (cases best)
    case None
    with Cons.prems(1) have "nearest_segment r (Some (clearance_of a b r, i, a, b)) ss = Some (c, y)"
      by (simp add: s Let_def)
    from that [OF this] show thesis by simp
  next
    case (Some x)
    obtain d z where x: "x = (d, z)" by (cases x)
    have ex: "\<exists>e y. Some (d, z) = Some (e, y) \<and> e \<le> clearance_of a b r" if "d \<le> clearance_of a b r"
      using that by blast
    show thesis
    proof (cases "clearance_of a b r < d")
      case True
      with Cons.prems(1) Some have "nearest_segment r (Some (clearance_of a b r, i, a, b)) ss = Some (c, y)"
        by (simp add: s x Let_def)
      from that [OF this] show thesis by simp
    next
      case False
      with Cons.prems(1) Some have "nearest_segment r (Some (d, z)) ss = Some (c, y)"
        by (simp add: s x Let_def)
      from that [OF this ex] False show thesis by linarith
    qed
  qed
  from Cons.prems(2) have "(j, p, q) = s \<or> (j, p, q) \<in> set ss" by auto
  then show ?case
  proof
    assume "(j, p, q) = s"
    then have pq: "p = a" "q = b" by (simp_all add: s)
    from le obtain d x where x: "best' = Some (d, x)" "d \<le> clearance_of a b r" by blast
    from nearest_segment_best [OF n [unfolded x(1)]] x(2) show ?thesis by (simp add: pq)
  next
    assume "(j, p, q) \<in> set ss"
    from Cons.IH [OF n this] show ?thesis .
  qed
qed simp

lemma label_hit_min:
  assumes "label_hit_of l r t (other, i, ps) = Some h"
  shows "lh_clearance h + 1 / 10000 < t \<and> Suc (lh_segment h) < length ps
    \<and> lh_from h = ps ! lh_segment h \<and> lh_to h = ps ! Suc (lh_segment h)
    \<and> lh_clearance h = clearance_of (lh_from h) (lh_to h) r
    \<and> (\<forall>(a, b) \<in> set (segments ps). lh_clearance h \<le> clearance_of a b r)"
proof -
  from assms obtain c k a b where n: "nearest_segment r None (indexed (segments ps)) = Some (c, k, a, b)"
    and t: "\<not> t \<le> c + 1 / 10000"
    and h: "lh_clearance h = c" "lh_segment h = k" "lh_from h = a" "lh_to h = b"
    by (auto simp: label_hit_of_def split: if_splits option.splits prod.splits)
  from nearest_segment_from [OF n] have k: "(k, a, b) \<in> set (indexed (segments ps))" "c = clearance_of a b r"
    by simp_all
  moreover have "c \<le> clearance_of p q r" if pq: "(p, q) \<in> set (segments ps)" for p q
  proof -
    from pq obtain j where "(j, p, q) \<in> set (indexed (segments ps))"
      by (auto simp: in_segments indexed_segments)
    from nearest_segment_least [OF n this] show ?thesis .
  qed
  ultimately show ?thesis using t by (auto simp: h indexed_segments)
qed

lemma label_hit_None:
  assumes "label_hit_of l r t (other, i, ps) = None" and "fst l \<noteq> i"
    and "\<not> sameRelationship (lb_relation (snd l)) (Some other)" and "(a, b) \<in> set (segments ps)"
  shows "t \<le> clearance_of a b r + 1 / 10000"
proof (cases "nearest_segment r None (indexed (segments ps))")
  case None
  then have "length (indexed (segments ps)) = 0" by (simp add: nearest_segment_None)
  with assms(4) show ?thesis by (simp add: in_segments)
next
  case (Some x)
  obtain c k p q where x: "x = (c, k, p, q)" by (cases x)
  have "t \<le> c + 1 / 10000"
    using assms Some by (auto simp: label_hit_of_def x split: if_splits)
  moreover have "c \<le> clearance_of a b r"
  proof -
    from assms(4) obtain j where "(j, a, b) \<in> set (indexed (segments ps))"
      by (auto simp: in_segments indexed_segments)
    from nearest_segment_least [OF Some [unfolded x] this] show ?thesis .
  qed
  ultimately show ?thesis by linarith
qed

section \<open>Corridors\<close>

lemma no_overlap_range:
  assumes "\<And>o1. collinearAxisOverlap a b c d = Some o1 \<Longrightarrow> ov_length o1 \<le> m" and "1 / 10000 \<le> m"
    and "shared_axis a b c d = Some h"
    and u: "min (on_axis h a) (on_axis h b) \<le> u" "min (on_axis h c) (on_axis h d) \<le> u"
    and v: "v \<le> max (on_axis h a) (on_axis h b)" "v \<le> max (on_axis h c) (on_axis h d)"
  shows "v - u \<le> m"
proof -
  obtain low high where r: "shared_range (on_axis h) a b c d = (low, high)" by fastforce
  then have lh: "low \<le> u" "v \<le> high" using u v by (auto simp: shared_range_def)
  show ?thesis
  proof (cases "high - low \<le> 1 / 10000")
    case False
    then have "high - low \<le> m"
      using assms(1) by (simp add: collinearAxisOverlap_def assms(3) r Let_def)
    with lh show ?thesis by linarith
  qed (use lh assms(2) in linarith)
qed

lemma longest_overlap_None:
  "longest_overlap m best ss = None \<Longrightarrow> best = None
     \<and> (\<forall>((i, a, b), (j, c, d)) \<in> set ss. case collinearAxisOverlap a b c d of
          None \<Rightarrow> True | Some o1 \<Rightarrow> ov_length o1 + 1 / 10000 < m)"
  by (induction m best ss rule: longest_overlap.induct) (auto split: option.splits if_splits)

lemma longest_overlap_Some:
  "longest_overlap m best ss = Some (i, j, o1) \<Longrightarrow> best = Some (i, j, o1)
     \<or> (\<exists>a b c d. ((i, a, b), (j, c, d)) \<in> set ss \<and> collinearAxisOverlap a b c d = Some o1
          \<and> m \<le> ov_length o1 + 1 / 10000)"
  by (induction m best ss rule: longest_overlap.induct) (fastforce split: option.splits if_splits)+

lemma corridor_gate:
  assumes g: "collectAmbiguousCorridors es m = []" and rs: "rs = corridor_routes es" "i < j" "j < length rs"
    and d: "\<not> shares_endpoint (co_relation (rs ! i)) (co_relation (rs ! j))"
    and s: "(a, b) \<in> set (segments (co_points (rs ! i)))" "(c, e) \<in> set (segments (co_points (rs ! j)))"
    and o1: "collinearAxisOverlap a b c e = Some o1"
  shows "ov_length o1 + 1 / 10000 < m"
proof -
  have "(rs ! i, rs ! j) \<in> set (pairs_of rs)" by (rule in_pairs_of [OF rs(2,3)])
  with g rs(1) have "corridor_between m (rs ! i) (rs ! j) = None"
    by (fastforce simp: collectAmbiguousCorridors_def map_filter_empty)
  with d have none: "longest_overlap m None (segment_pairs (co_points (rs ! i)) (co_points (rs ! j))) = None"
    by (simp add: corridor_between_def)
  from s obtain k l where "(k, a, b) \<in> set (indexed (segments (co_points (rs ! i))))"
      "(l, c, e) \<in> set (indexed (segments (co_points (rs ! j))))"
    by (auto simp: in_segments indexed_segments)
  then have "((k, a, b), (l, c, e)) \<in> set (segment_pairs (co_points (rs ! i)) (co_points (rs ! j)))"
    by (simp add: segment_pairs_def)
  with longest_overlap_None [OF none] o1 show ?thesis by fastforce
qed

section \<open>Borders\<close>

lemma overlap_long: "collinearAxisOverlap a b c d = Some o1 \<Longrightarrow> 1 / 10000 < ov_length o1"
  using overlap_within by blast

lemma merge_not_Nil: "acc \<noteq> [] \<Longrightarrow> merge_intervals acc is \<noteq> []"
  by (induction acc "is" rule: merge_intervals.induct) auto

lemma mergeBorderOverlaps_not_Nil: "os \<noteq> [] \<Longrightarrow> mergeBorderOverlaps os b \<noteq> []"
proof -
  assume "os \<noteq> []"
  then have "set (sort_intervals (map f os)) \<noteq> {}" for f :: "overlap \<Rightarrow> real \<times> real" by simp
  then have "sort_intervals (map f os) \<noteq> []" for f :: "overlap \<Rightarrow> real \<times> real" by fastforce
  then have "merge_intervals [] (sort_intervals (map f os)) \<noteq> []" for f :: "overlap \<Rightarrow> real \<times> real"
    by (metis merge_intervals.simps(2) merge_not_Nil not_Cons_self2 neq_Nil_conv)
  then show ?thesis by (simp add: mergeBorderOverlaps_def Let_def)
qed

lemma border_hit_None: "border_hit_of e segs k b = None \<longleftrightarrow> border_overlaps b segs = []"
  using mergeBorderOverlaps_not_Nil by (auto simp: border_hit_of_def Let_def split: list.splits)

lemma border_overlaps_empty:
  assumes "border_overlaps b segs = []" and "(p, q) \<in> set segs"
  shows "collinearAxisOverlap p q (bstart b) (bend b) = None"
proof (cases "collinearAxisOverlap p q (bstart b) (bend b)")
  case (Some o1)
  from assms(2) obtain i where i: "(i, p, q) \<in> set (indexed segs)"
    by (metis in_set_conv_nth indexed_iff)
  from bspec [OF assms(1) [unfolded border_overlaps_def map_filter_empty] i] overlap_long [OF Some]
  have False by (simp add: Some)
  then show ?thesis ..
qed

lemma border_gate:
  assumes g: "collectBorderRuns (Some es) (Some frames) = []" and e: "(e, given) \<in> set es"
    and segs: "finite_segments (route_segments given (rt_points e)) = Some segs"
    and f: "f \<in> set frames" "b \<in> set (frameBorderSegments f)" and s: "(p, q) \<in> set segs"
  shows "collinearAxisOverlap p q (bstart b) (bend b) = None"
proof -
  let ?ss = "route_segments given (rt_points e)"
  have ne: "?ss \<noteq> []" using segs s by (auto simp: finite_segments_def)
  obtain k where k: "(k, f) \<in> set (indexed frames)" using f(1) by (metis in_set_conv_nth indexed_iff)
  have "concat (map (\<lambda>(k, f). List.map_filter (border_hit_of e segs k) (frameBorderSegments f)) (indexed frames)) = []"
    using bspec [OF g [unfolded collectBorderRuns_def concat_eq_Nil_conv set_map ball_simps asArray_def option.case] e]
      ne segs by (simp add: Let_def)
  with k have "List.map_filter (border_hit_of e segs k) (frameBorderSegments f) = []" by fastforce
  with f(2) have "border_hit_of e segs k b = None" by (simp add: map_filter_empty)
  with s show ?thesis by (simp add: border_hit_None border_overlaps_empty)
qed

section \<open>Budgets\<close>

definition budget_ok :: "budget \<Rightarrow> bool" where
  "budget_ok m \<longleftrightarrow> shortSegmentCount m = shortEndpointSegmentCount m + shortInteriorSegmentCount m
     \<and> (\<forall>x y. minSegmentPx m = Some x \<and> minInteriorSegmentPx m = Some y \<longrightarrow> x \<le> y)
     \<and> (minSegmentPx m = None \<longrightarrow> minInteriorSegmentPx m = None)"

lemma budget_segment_ok: "budget_ok (fst acc) \<Longrightarrow> budget_ok (fst (budget_segment s u n acc x))"
  by (cases acc; cases x) (auto simp: budget_segment_def budget_ok_def Let_def lower_def split: option.splits)

lemma budget_fold_ok: "budget_ok (fst acc) \<Longrightarrow> budget_ok (fst (foldl (budget_segment s u n) acc xs))"
  by (induction xs arbitrary: acc) (simp_all add: budget_segment_ok)

lemma budget_fold_bends: "maxBends (fst (foldl (budget_segment s u n) acc xs)) = maxBends (fst acc)"
proof (induction xs arbitrary: acc)
  case (Cons x xs)
  have "maxBends (fst (budget_segment s u n acc x)) = maxBends (fst acc)"
    by (cases acc; cases x) (simp add: budget_segment_def Let_def)
  with Cons show ?case by simp
qed simp

lemma budget_route_ok: "budget_ok m \<Longrightarrow> budget_ok (budget_route l t s u m e)"
proof -
  assume m: "budget_ok m"
  let ?ps = "normalizeRoutePoints (rt_points e)"
  define m1 where "m1 = m\<lparr>maxBends := max (maxBends m) (length ?ps - 2),
      routesOverSuggestedBends := routesOverSuggestedBends m + (if l < length ?ps - 2 then 1 else 0)\<rparr>"
  obtain m2 w where f: "foldl (budget_segment s u (length ?ps - 1)) (m1, 0) (indexed (segments ?ps)) = (m2, w)"
    by fastforce
  have "budget_ok m1" using m by (simp add: m1_def budget_ok_def)
  then have "budget_ok m2" using budget_fold_ok [of "(m1, 0)" s u "length ?ps - 1" "indexed (segments ?ps)"] f by simp
  then have "budget_ok (m2\<lparr>maxStretch := x, routesOverSuggestedStretch := y\<rparr>)" for x y
    by (simp add: budget_ok_def)
  with m \<open>budget_ok m2\<close> f show ?thesis
    by (simp add: budget_route_def Let_def m1_def [symmetric])
qed

lemma budget_route_bends:
  "maxBends (budget_route l t s u m e) = max (maxBends m) (length (normalizeRoutePoints (rt_points e)) - 2)"
proof -
  let ?ps = "normalizeRoutePoints (rt_points e)"
  define m1 where "m1 = m\<lparr>maxBends := max (maxBends m) (length ?ps - 2),
      routesOverSuggestedBends := routesOverSuggestedBends m + (if l < length ?ps - 2 then 1 else 0)\<rparr>"
  obtain m2 w where f: "foldl (budget_segment s u (length ?ps - 1)) (m1, 0) (indexed (segments ?ps)) = (m2, w)"
    by fastforce
  have "maxBends m2 = maxBends m1"
    using budget_fold_bends [of s u "length ?ps - 1" "(m1, 0)" "indexed (segments ?ps)"] f by simp
  with f show ?thesis by (simp add: budget_route_def Let_def m1_def [symmetric]) (simp add: m1_def)
qed

lemma budget_fold:
  "budget_ok m \<Longrightarrow> budget_ok (foldl (budget_route l t s u) m es)
     \<and> maxBends (foldl (budget_route l t s u) m es)
       = foldl max (maxBends m) (map (\<lambda>e. length (normalizeRoutePoints (rt_points e)) - 2) es)"
proof (induction es arbitrary: m)
  case (Cons e es)
  from Cons.IH [OF budget_route_ok [OF Cons.prems, of l t s u e]]
  show ?case by (simp add: budget_route_bends)
qed simp

lemma budget_empty: "budget_ok empty_budget"
  by (simp add: budget_ok_def empty_budget_def)

end
