(* ===== verification/RouteProperties.thy ===== *)
theory RouteProperties
  imports RouteFacts
begin

text \<open>
  The contracts of the geometry helpers and of the route gates, with concrete diagrams on which
  they hold.
\<close>

section \<open>A sample diagram\<close>

definition box :: "real \<Rightarrow> real \<Rightarrow> real \<Rightarrow> real \<Rightarrow> raw_rect" where
  "box x y w h = \<lparr>raw_x = Some x, raw_y = Some y, raw_width = Some w, raw_height = Some h\<rparr>"

definition arrow :: "nat \<Rightarrow> string \<Rightarrow> string \<Rightarrow> relation" where
  "arrow n a b = \<lparr>address = n, object = JObj [(lit ''from'', JStr (lit a)), (lit ''to'', JStr (lit b))]\<rparr>"

definition node :: "string \<Rightarrow> raw_rect \<Rightarrow> obstacle option" where
  "node s r = Some \<lparr>ob_id = JStr (lit s), ob_rect = r\<rparr>"

definition sample_nodes :: "obstacle option list" where
  "sample_nodes = [node ''a'' (box 0 0 10 10), node ''b'' (box 40 0 10 10), node ''c'' (box 20 20 10 10)]"

lemmas sample_defs = box_def arrow_def raw_path_def node_def sample_nodes_def rel_def routed_points_def
  valid_points_def asArray_def indexed_def segments_def is_string_def List.map_filter_simps

lemma arrow_rel [simp]: "rel (arrow n a b) ''from'' = JStr (lit a)" "rel (arrow n a b) ''to'' = JStr (lit b)"
  by (simp_all add: arrow_def rel_def)

lemma asArray_Some [simp]: "asArray (Some xs) = xs"
  by (simp add: asArray_def)

section \<open>Plane geometry\<close>

text \<open>Two boxes of positive size are reported as overlapping exactly when both are finite and some
  point lies strictly inside both.\<close>

lemma overlap_is_common_interior:
  assumes "\<And>p. finite_rect a = Some p \<or> finite_rect b = Some p \<Longrightarrow> 0 < rwidth p \<and> 0 < rheight p"
  shows "rectsOverlap a b 0 \<longleftrightarrow>
    (\<exists>p q z. finite_rect a = Some p \<and> finite_rect b = Some q \<and> inside z p \<and> inside z q)"
proof (cases "\<exists>p q. finite_rect a = Some p \<and> finite_rect b = Some q")
  case True
  then obtain p q where pq: "finite_rect a = Some p" "finite_rect b = Some q" by blast
  with assms [of p] assms [of q] overlap_inside [of p q] show ?thesis
    by (simp add: rectsOverlap_def del: finite_rect.simps)
qed (auto simp: rectsOverlap_def simp del: finite_rect.simps split: option.splits)

lemma overlap_is_common_interior_witness:
  "\<exists>z. inside z \<lparr>rx = 0, ry = 0, rwidth = 10, rheight = 10\<rparr>
     \<and> inside z \<lparr>rx = 5, ry = 5, rwidth = 10, rheight = 10\<rparr>"
proof -
  have o1: "rectsOverlap (box 0 0 10 10) (box 5 5 10 10) 0"
    by (simp add: rectsOverlap_def box_def finite_rects_overlap_def)
  have pos: "0 < rwidth p \<and> 0 < rheight p"
    if "finite_rect (box 0 0 10 10) = Some p \<or> finite_rect (box 5 5 10 10) = Some p" for p
    using that by (auto simp: box_def)
  from o1 overlap_is_common_interior [of "box 0 0 10 10" "box 5 5 10 10", OF pos] show ?thesis by (simp add: box_def)
qed

text \<open>C40: the normal form of a route is a subsequence of its finite points with the same start, in which
  no point lies straight on between its neighbours; so every inner point is a real bend.\<close>

theorem normal_route_bends:
  assumes "ps = List.map_filter finite_point (asArray raw)" and "ps \<noteq> []"
  shows "subseq (normalizeRoutePoints raw) ps \<and> hd (normalizeRoutePoints raw) = hd ps
    \<and> (\<forall>i. Suc (Suc i) < length (normalizeRoutePoints raw) \<longrightarrow>
        \<not> collinearForward (normalizeRoutePoints raw ! i) (normalizeRoutePoints raw ! Suc i)
          (normalizeRoutePoints raw ! Suc (Suc i)))"
  using normalize_facts [OF assms] bent_nth [of "normalizeRoutePoints raw"] by simp

lemma normal_route_bends_witness:
  "hd (normalizeRoutePoints (raw_path [(0, 0), (5, 0), (9, 0), (9, 7)])) = (0, 0)"
  using normal_route_bends [of "[(0, 0), (5, 0), (9, 0), (9, 7)]" "raw_path [(0, 0), (5, 0), (9, 0), (9, 7)]"]
  by simp

section \<open>Routes and nodes\<close>

text \<open>C10: a diagram that passes the edge-through-node gate has no axis-parallel route segment with a point
  strictly inside an unrelated node grown by the clearance (nodes of area at least 0.0002).\<close>

theorem clean_flow_routes_clear:
  assumes "cleanFlowProblems (Some relations) obstacles pathFor clearance = []"
    and "i < length relations" and "relations ! i = Some r" and "flow_checked obstacles r"
    and "routed_points (pathFor r) = Some ps"
    and "Some ob \<in> set obstacles" and "ob_id ob \<noteq> rel r ''from''" and "ob_id ob \<noteq> rel r ''to''"
    and "finite_rect (ob_rect ob) = Some k" and "(a, b) \<in> set (segments ps)" and "axis_parallel a b"
    and "2 / 10000 \<le> (rwidth k + 2 * clearance) * (rheight k + 2 * clearance)" and "on_segment p a b"
  shows "\<not> inside p \<lparr>rx = rx k - clearance, ry = ry k - clearance,
      rwidth = rwidth k + 2 * clearance, rheight = rheight k + 2 * clearance\<rparr>"
  using flow_gate [OF assms(1-10)] interior_detected [OF assms(11,13) _ assms(12)] by blast

lemma clean_flow_routes_clear_witness:
  "\<not> inside (22, 5) \<lparr>rx = 18, ry = 18, rwidth = 14, rheight = 14\<rparr>
   \<and> cleanFlowProblems (Some [Some (arrow 0 ''a'' ''b'')]) sample_nodes (\<lambda>_. raw_path [(10, 5), (40, 5)]) 2 = []"
proof -
  have k: "finite_rect (box 20 20 10 10) = Some \<lparr>rx = 20, ry = 20, rwidth = 10, rheight = 10\<rparr>"
    by (simp add: box_def)
  have clean: "cleanFlowProblems (Some [Some (arrow 0 ''a'' ''b'')]) sample_nodes (\<lambda>_. raw_path [(10, 5), (40, 5)]) 2 = []"
    by (simp add: cleanFlowProblems_def flow_checked_def obstacle_problems_def obstacle_problem_def first_hit_def
        segmentIntersectsRect_def grown_box_def pointInBox_def segmentsIntersect_def orientation_def onSegment_def
        Let_def sample_nodes_def node_def box_def routed_points_def valid_points_def indexed_def segments_def is_string_def
        List.map_filter_simps)
  have fc: "flow_checked sample_nodes (arrow 0 ''a'' ''b'')"
    by (simp add: flow_checked_def sample_nodes_def node_def is_string_def)
  have rp: "routed_points (raw_path [(10, 5), (40, 5)]) = Some [(10, 5), (40, 5)]"
    by (simp add: routed_points_def valid_points_def List.map_filter_simps)
  have ob: "node ''c'' (box 20 20 10 10) \<in> set sample_nodes" by (simp add: sample_nodes_def)
  have os: "on_segment (22, 5) (10, 5) (40, 5)"
    by (auto simp: on_segment_def intro: exI [of _ "2 / 5"])
  have "\<not> inside (22, 5) \<lparr>rx = rx \<lparr>rx = 20, ry = 20, rwidth = 10, rheight = 10\<rparr> - 2, ry = 20 - 2,
      rwidth = 10 + 2 * 2, rheight = 10 + 2 * 2\<rparr>"
    using clean_flow_routes_clear [OF clean _ _ fc, of 0 "[(10, 5), (40, 5)]"
        "\<lparr>ob_id = JStr (lit ''c''), ob_rect = box 20 20 10 10\<rparr>" _ "(10, 5)" "(40, 5)" "(22, 5)"] k rp ob os
    by (simp add: node_def segments_def axis_parallel_def del: finite_rect.simps)
  with clean show ?thesis by simp
qed


section \<open>Crossings, corridors and borders\<close>

text \<open>The showcase crossing gate is exact: it reports nothing exactly when no two relations without a
  common endpoint have properly intersecting segments, and every reported point lies on a segment
  of both routes.\<close>

lemma crossings_exact:
  assumes "qualityProfileForGate env profile auth = showcase"
    and "rs = crossing_routes relations ids pathFor merge"
  shows "(cleanCrossingProblems env profile auth relations ids pathFor merge = [] \<longleftrightarrow>
      (\<forall>(l, r) \<in> set (pairs_of rs). shares_endpoint (cr_relation l) (cr_relation r)
        \<or> (\<forall>s \<in> set (cr_segments l). \<forall>t \<in> set (cr_segments r). analysis_intersection s t = None)))
    \<and> (\<forall>x \<in> set (cleanCrossingProblems env profile auth relations ids pathFor merge).
        \<exists>s \<in> set (cr_segments (xr_left x)). \<exists>t \<in> set (cr_segments (xr_right x)). \<exists>a b c d.
          finite_point (as_start s) = Some a \<and> finite_point (as_end s) = Some b
          \<and> finite_point (as_start t) = Some c \<and> finite_point (as_end t) = Some d
          \<and> on_segment (xr_point x) a b \<and> on_segment (xr_point x) c d)"
  unfolding assms(2)
  using crossings_clean [OF assms(1)] crossing_real analysis_intersection_point by meson

lemma crossings_exact_witness:
  "cleanCrossingProblems None showcase True (Some [Some (arrow 0 ''a'' ''b''), Some (arrow 1 ''c'' ''d'')])
     (map (\<lambda>s. JStr (lit s)) [''a'', ''b'', ''c'', ''d''])
     (\<lambda>r. if address r = 0 then raw_path [(0, 0), (9, 0)] else raw_path [(0, 5), (9, 5)]) False = []"
proof -
  let ?ids = "map (\<lambda>s. JStr (lit s)) [''a'', ''b'', ''c'', ''d'']"
  let ?rel = "Some [Some (arrow 0 ''a'' ''b''), Some (arrow 1 ''c'' ''d'')]"
  let ?path = "\<lambda>r. if address r = 0 then raw_path [(0, 0), (9, 0)] else raw_path [(0, 5), (9, 5)]"
  have q: "qualityProfileForGate None showcase True = showcase" by (simp add: qualityProfileForGate_def)
  have "address (arrow n a b) = n" for n a b by (simp add: arrow_def)
  then have rs: "crossing_routes ?rel ?ids ?path False =
    [\<lparr>cr_relation = arrow 0 ''a'' ''b'', cr_index = 0, cr_segments = authoredAnalysisSegments (raw_path [(0, 0), (9, 0)])\<rparr>,
     \<lparr>cr_relation = arrow 1 ''c'' ''d'', cr_index = 1, cr_segments = authoredAnalysisSegments (raw_path [(0, 5), (9, 5)])\<rparr>]"
    by (simp add: crossing_routes_def indexed_def List.map_filter_simps routed_points_def valid_points_def)
  have i: "analysis_intersection s t = None"
    if "s \<in> set (authoredAnalysisSegments (raw_path [(0, 0), (9, 0)]))"
      "t \<in> set (authoredAnalysisSegments (raw_path [(0, 5), (9, 5)]))" for s t
    using that by (simp add: authoredAnalysisSegments_def indexed_def segments_def analysis_intersection_def
        properSegmentIntersection_def opposite_def crossProduct_def)
  from conjunct1 [OF crossings_exact [OF q rs [symmetric]]] i show ?thesis by simp
qed

text \<open>In a diagram that passes the corridor collector, two relations without a common endpoint never
  run along the same line over a stretch of the minimum length or more.\<close>

lemma no_ambiguous_corridor:
  assumes "collectAmbiguousCorridors es m = []" and "2 / 10000 \<le> m"
    and "rs = corridor_routes es" and "i < j" and "j < length rs"
    and "\<not> shares_endpoint (co_relation (rs ! i)) (co_relation (rs ! j))"
    and "(a, b) \<in> set (segments (co_points (rs ! i)))" and "(c, e) \<in> set (segments (co_points (rs ! j)))"
    and "shared_axis a b c e = Some h"
    and "min (on_axis h a) (on_axis h b) \<le> u" and "min (on_axis h c) (on_axis h e) \<le> u"
    and "v \<le> max (on_axis h a) (on_axis h b)" and "v \<le> max (on_axis h c) (on_axis h e)"
  shows "v - u < m"
proof -
  have "v - u \<le> m - 1 / 10000"
  proof (rule no_overlap_range [OF _ _ assms(9-13)])
    show "ov_length o1 \<le> m - 1 / 10000" if "collinearAxisOverlap a b c e = Some o1" for o1
      using corridor_gate [OF assms(1,3-8) that] by simp
  qed (use assms(2) in simp)
  then show ?thesis by linarith
qed

lemma no_ambiguous_corridor_witness: "(10::real) - 8 < 8"
proof -
  let ?es = "[\<lparr>rt_relation = Some (arrow 2 ''a'' ''b''), rt_index = None, rt_points = raw_path [(0, 0), (10, 0)]\<rparr>,
    \<lparr>rt_relation = Some (arrow 3 ''c'' ''d''), rt_index = None, rt_points = raw_path [(8, 0), (30, 0)]\<rparr>]"
  let ?rs = "[\<lparr>co_relation = arrow 2 ''a'' ''b'', co_index = 0, co_points = [(0, 0), (10, 0)]\<rparr>,
    \<lparr>co_relation = arrow 3 ''c'' ''d'', co_index = 1, co_points = [(8, 0), (30, 0)]\<rparr>]"
  have n: "normalizeRoutePoints (raw_path [(0, 0), (10, 0)]) = [(0, 0), (10, 0)]"
    "normalizeRoutePoints (raw_path [(8, 0), (30, 0)]) = [(8, 0), (30, 0)]"
    by (simp_all add: normalizeRoutePoints_def far_apart_def merge_collinear_def List.map_filter_simps)
  have rs: "corridor_routes (Some ?es) = ?rs"
    by (simp add: corridor_routes_def indexed_def List.map_filter_simps is_string_def n routed_index_def)
  have o1: "collinearAxisOverlap (0, 0) (10, 0) (8, 0) (30, 0)
      = Some \<lparr>ov_length = 2, ov_start = (8, 0), ov_end = (10, 0)\<rparr>"
    by (simp add: collinearAxisOverlap_def shared_axis_def shared_range_def near_def on_axis_def at_axis_def Let_def)
  have s: "\<not> shares_endpoint (arrow 2 ''a'' ''b'') (arrow 3 ''c'' ''d'')"
    by (simp add: shares_endpoint_def)
  have c: "collectAmbiguousCorridors (Some ?es) 8 = []"
    by (simp add: collectAmbiguousCorridors_def rs corridor_between_def s segment_pairs_def segments_def indexed_def
        o1 List.map_filter_simps)
  show ?thesis
    by (rule no_ambiguous_corridor [OF c _ rs [symmetric], of 0 1 "(0, 0)" "(10, 0)" "(8, 0)" "(30, 0)" True])
      (simp_all add: s segments_def shared_axis_def near_def on_axis_def)
qed

text \<open>A route that passes the border collector shares no stretch with a side of a frame beyond the
  tolerance of 0.0001: it may cross a frame but does not follow its border.\<close>

lemma no_border_run:
  assumes "collectBorderRuns (Some es) (Some frames) = []" and "(e, given) \<in> set es"
    and "finite_segments (route_segments given (rt_points e)) = Some segs"
    and "f \<in> set frames" and "b \<in> set (frameBorderSegments f)" and "(p, q) \<in> set segs"
    and "shared_axis p q (bstart b) (bend b) = Some h"
    and "min (on_axis h p) (on_axis h q) \<le> u" and "min (on_axis h (bstart b)) (on_axis h (bend b)) \<le> u"
    and "v \<le> max (on_axis h p) (on_axis h q)" and "v \<le> max (on_axis h (bstart b)) (on_axis h (bend b))"
  shows "v - u \<le> 1 / 10000"
proof (rule no_overlap_range [OF _ _ assms(7-11)])
  show "ov_length o1 \<le> 1 / 10000"
    if "collinearAxisOverlap p q (bstart b) (bend b) = Some o1" for o1
    using border_gate [OF assms(1-6)] that by simp
qed simp

lemma no_border_run_witness: "(3::real) - 3 \<le> 1 / 10000"
proof -
  let ?e = "\<lparr>rt_relation = Some (arrow 0 ''a'' ''b''), rt_index = None, rt_points = raw_path [(0, 0), (3, 0)]\<rparr>"
  let ?f = "LineFrame (Some [Some 3, Some 0]) (Some [Some 9, Some 0])"
  have b: "frameBorderSegments ?f = [border (lit ''line'') (3, 0) (9, 0)]"
    by (simp add: frameBorderSegments_def)
  have segs: "finite_segments (route_segments None (rt_points ?e)) = Some [((0, 0), (3, 0))]"
    by (simp add: route_segments_def finite_segments_def segments_def)
  have "route_segments None (rt_points ?e) \<noteq> []" by (simp add: route_segments_def segments_def)
  moreover have "collinearAxisOverlap (0, 0) (3, 0) (3, 0) (9, 0) = None"
    by (simp add: collinearAxisOverlap_def shared_axis_def shared_range_def near_def on_axis_def Let_def)
  ultimately have c: "collectBorderRuns (Some [(?e, None)]) (Some [?f]) = []"
    using segs by (simp add: collectBorderRuns_def Let_def b border_hit_of_def border_overlaps_def indexed_def border_def
        List.map_filter_simps)
  show ?thesis
    by (rule no_border_run [OF c _ segs, of ?f "border (lit ''line'') (3, 0) (9, 0)" "(0, 0)" "(3, 0)" True])
      (simp_all add: b border_def shared_axis_def near_def on_axis_def)
qed

section \<open>Rhythm, labels and budgets\<close>

text \<open>The rhythm collector reports nothing exactly when every visible segment of every normalised route
  reaches the micro floor and every interior one the interior floor, up to 0.0001.\<close>

lemma rhythm_gate_exact:
  "collectRouteRhythmIssues (Some es) interior micro = [] \<longleftrightarrow>
     (\<forall>e \<in> set es. rhythmic interior micro (normalizeRoutePoints (rt_points e)))"
  by (rule rhythm_clean)

lemma rhythm_gate_exact_witness:
  "collectRouteRhythmIssues (Some [\<lparr>rt_relation = None, rt_index = None,
     rt_points = raw_path [(0, 0), (9, 0), (9, 20), (40, 20)]\<rparr>]) 16 8 = []"
proof -
  have n: "normalizeRoutePoints (raw_path [(0, 0), (9, 0), (9, 20), (40, 20)]) = [(0, 0), (9, 0), (9, 20), (40, 20)]"
    by (simp add: normalizeRoutePoints_def far_apart_def merge_collinear_def List.map_filter_simps collinearForward_def
        crossProduct_def)
  have "rhythmic 16 8 [(0, 0), (9, 0), (9, 20), (40, 20)]"
    unfolding rhythmic_def by (simp add: less_Suc_eq manhattan_def Let_def)
  with rhythm_gate_exact show ?thesis by (simp add: n)
qed

text \<open>In a diagram that passes the label collector, every segment of a measured route keeps the
  threshold (up to 0.0001) from every measured label of another relationship.\<close>

lemma labels_keep_clear:
  assumes "collectLabelRouteClearance show labels es (Some t) = []" and "0 \<le> t"
    and "(l, r) \<in> set (measured_labels show labels)" and "(other, i, ps) \<in> set (measured_routes show es)"
    and "fst l \<noteq> i" and "\<not> sameRelationship (lb_relation (snd l)) (Some other)"
    and "(a, b) \<in> set (segments ps)"
  shows "t \<le> clearance_of a b r + 1 / 10000 \<and> (1 / 10000 < t \<longrightarrow> \<not> segmentIntersectsRect a b r 0)"
proof -
  have "label_hits l r t (measured_routes show es) = []"
    using assms(1-3) by (fastforce simp: collectLabelRouteClearance_def)
  with assms(4) have "label_hit_of l r t (other, i, ps) = None"
    by (fastforce simp: label_hits_def map_filter_empty)
  from label_hit_None [OF this assms(5-7)] show ?thesis by (auto simp: clearance_of_def)
qed

lemma labels_keep_clear_witness:
  "\<not> segmentIntersectsRect (0, 0) (9, 0) \<lparr>rx = 0, ry = 6, rwidth = 4, rheight = 2\<rparr> 0"
proof -
  let ?l = "\<lparr>lb_rect = Some (box 0 6 4 2), lb_relation = Some (arrow 2 ''c'' ''d''), lb_index = Some 2\<rparr>"
  let ?e = "\<lparr>rt_relation = Some (arrow 0 ''a'' ''b''), rt_index = None, rt_points = raw_path [(0, 0), (9, 0)]\<rparr>"
  let ?r = "\<lparr>rx = 0, ry = 6, rwidth = 4, rheight = 2\<rparr>"
  have n: "normalizeRoutePoints (raw_path [(0, 0), (9, 0)]) = [(0, 0), (9, 0)]"
    by (simp add: normalizeRoutePoints_def far_apart_def merge_collinear_def List.map_filter_simps)
  have routes: "measured_routes (\<lambda>_. []) (Some [?e]) = [(arrow 0 ''a'' ''b'', 0, [(0, 0), (9, 0)])]"
    by (simp add: measured_routes_def route_candidates_def indexed_def List.map_filter_simps n routed_index_def)
  have labels: "measured_labels (\<lambda>_. []) (Some [?l]) = [((2, ?l), ?r)]"
    by (simp add: measured_labels_def indexed_def List.map_filter_simps valid_label_def box_def)
  have same: "\<not> sameRelationship (Some (arrow 2 ''c'' ''d'')) (Some (arrow 0 ''a'' ''b''))"
    by (simp add: sameRelationship_def arrow_def rel_def)
  have seg: "segments [(0::real, 0::real), (9, 0)] = [((0, 0), (9, 0))]" by (simp add: segments_def)
  have "6 \<le> sqrt (61::real)" by (rule real_le_rsqrt) simp
  then have cl: "clearance_of (0, 0) (9, 0) ?r = 6"
    by (simp add: clearance_of_def segmentIntersectsRect_def grown_box_def pointInBox_def segmentsIntersect_def
        orientation_def onSegment_def Let_def pointRectDistance_def hypot_def rect_corners_def pointSegmentDistance_def
        projection_def min_def)
  have c: "collectLabelRouteClearance (\<lambda>_. []) (Some [?l]) (Some [?e]) (Some 4) = []"
    by (simp add: collectLabelRouteClearance_def routes labels label_hits_def label_hit_of_def same seg indexed_def
        cl List.map_filter_simps Let_def)
  from labels_keep_clear [OF c, of "(2, ?l)" ?r "arrow 0 ''a'' ''b''" 0 "[(0, 0), (9, 0)]" "(0, 0)" "(9, 0)"]
  show ?thesis by (simp add: routes labels same seg)
qed

text \<open>The budget of a set of routes: its bend count is the largest number of inner points of a
  normalised route, the short segments split into endpoint stubs and interior ones, and the
  shortest interior segment is not below the shortest one.\<close>

lemma budget_counts:
  "maxBends (routeBudgetMetrics (Some es) l t s u)
     = foldl max 0 (map (\<lambda>e. length (normalizeRoutePoints (rt_points e)) - 2) es)
   \<and> budget_ok (routeBudgetMetrics (Some es) l t s u)"
  using budget_fold [OF budget_empty] by (simp add: routeBudgetMetrics_def empty_budget_def)

end
