(* ===== verification/Ports.thy ===== *)
theory Ports
  imports RouteGates StableSort
begin

text \<open>
  The end of \<open>renderers/shared/geometry.mjs\<close>: where a route leaves a box, the detour for cramped
  ports, the spreading of automatic ports, the SVG text of a route and the hints of the layout
  problems.  The text of a number is an argument where it is not an integer.
\<close>

section \<open>Sides\<close>

record node_box = rect +
  bid :: jval
  cx :: real
  cy :: real

definition LEFT :: jval where "LEFT = JStr (lit ''left'')"
definition RIGHT :: jval where "RIGHT = JStr (lit ''right'')"
definition TOP :: jval where "TOP = JStr (lit ''top'')"
definition BOTTOM :: jval where "BOTTOM = JStr (lit ''bottom'')"

lemma side_neq [simp]:
  "LEFT \<noteq> RIGHT" "LEFT \<noteq> TOP" "LEFT \<noteq> BOTTOM" "RIGHT \<noteq> LEFT" "RIGHT \<noteq> TOP" "RIGHT \<noteq> BOTTOM"
  "TOP \<noteq> LEFT" "TOP \<noteq> RIGHT" "TOP \<noteq> BOTTOM" "BOTTOM \<noteq> LEFT" "BOTTOM \<noteq> RIGHT" "BOTTOM \<noteq> TOP"
  by (simp_all add: LEFT_def RIGHT_def TOP_def BOTTOM_def)

definition anchor :: "node_box \<Rightarrow> jval \<Rightarrow> point" where
  "anchor r s =
     (if s = LEFT then (rx r, cy r)
      else if s = RIGHT then (rx r + rwidth r, cy r)
      else if s = TOP then (cx r, ry r)
      else if s = BOTTOM then (cx r, ry r + rheight r)
      else (rx r + rwidth r, cy r))"

definition defaultFromSide :: "node_box \<Rightarrow> node_box \<Rightarrow> jval" where
  "defaultFromSide from_box to_box =
     (if cx to_box < cx from_box then LEFT else if cx from_box < cx to_box then RIGHT
      else if cy from_box < cy to_box then BOTTOM else TOP)"

definition defaultToSide :: "node_box \<Rightarrow> node_box \<Rightarrow> jval" where
  "defaultToSide from_box to_box =
     (if cx to_box < cx from_box then RIGHT else if cx from_box < cx to_box then LEFT
      else if cy from_box < cy to_box then TOP else BOTTOM)"

definition chosenSide :: "jval \<Rightarrow> jval \<Rightarrow> jval" where
  "chosenSide s fallback = (if truthy s \<and> s \<noteq> JStr (lit ''auto'') then s else fallback)"

section \<open>The detour for cramped ports\<close>

definition PORT_OUTWARD_VECTOR :: "(jstring \<times> point) list" where
  "PORT_OUTWARD_VECTOR = [(lit ''left'', (-1, 0)), (lit ''right'', (1, 0)), (lit ''top'', (0, -1)), (lit ''bottom'', (0, 1))]"

definition stub :: "point \<Rightarrow> point \<Rightarrow> real \<Rightarrow> point" where
  "stub p v len = (fst p + fst v * len, snd p + snd v * len)"

definition vertical_bridge :: "point \<Rightarrow> point \<Rightarrow> point \<Rightarrow> point \<Rightarrow> real \<Rightarrow> point list" where
  "vertical_bridge s s' e' e x = [s, s', (x, snd s'), (x, snd e'), e', e]"

definition horizontal_bridge :: "point \<Rightarrow> point \<Rightarrow> point \<Rightarrow> point \<Rightarrow> real \<Rightarrow> point list" where
  "horizontal_bridge s s' e' e y = [s, s', (fst s', y), (fst e', y), e', e]"

definition bridge_candidates ::
  "point \<Rightarrow> point \<Rightarrow> point \<Rightarrow> point \<Rightarrow> jstring \<Rightarrow> jstring \<Rightarrow> real \<Rightarrow> point list list" where
  "bridge_candidates s s' e' e f t interior =
     (if f \<in> {lit ''top'', lit ''bottom''} \<and> t \<in> {lit ''top'', lit ''bottom''} \<and> \<bar>fst s - fst e\<bar> < interior
      then map (vertical_bridge s s' e' e) [max (fst s) (fst e) + interior, min (fst s) (fst e) - interior]
      else [])
   @ (if f \<in> {lit ''left'', lit ''right''} \<and> t \<in> {lit ''left'', lit ''right''} \<and> \<bar>snd s - snd e\<bar> < interior
      then map (horizontal_bridge s s' e' e) [max (snd s) (snd e) + interior, min (snd s) (snd e) - interior]
      else [])"

definition bridge_ok ::
  "jstring \<Rightarrow> jstring \<Rightarrow> real \<Rightarrow> (point list \<Rightarrow> bool) option \<Rightarrow> point list \<Rightarrow> bool" where
  "bridge_ok f t interior accept ps \<longleftrightarrow>
     routeHonorsEndpointSides (raw_path ps) f t
     \<and> collectRouteRhythmIssues
         (Some [\<lparr>rt_relation = None, rt_index = None, rt_points = raw_path ps\<rparr>]) interior 8 = []
     \<and> (case accept of None \<Rightarrow> True | Some g \<Rightarrow> g ps)"

definition automaticPortRhythmBridge ::
  "raw_point \<Rightarrow> raw_point \<Rightarrow> jstring \<Rightarrow> jstring \<Rightarrow> real \<Rightarrow> real \<Rightarrow> (point list \<Rightarrow> bool) option
   \<Rightarrow> point list option" where
  "automaticPortRhythmBridge start end from_side to_side endpoint_stub interior accept =
     (case (finite_point start, finite_point end,
            map_of PORT_OUTWARD_VECTOR from_side, map_of PORT_OUTWARD_VECTOR to_side) of
        (Some s, Some e, Some v, Some w) \<Rightarrow>
          find (bridge_ok from_side to_side interior accept)
            (map (\<lambda>ps. normalizeRoutePoints (raw_path ps))
              (bridge_candidates s (stub s v endpoint_stub) (stub e w endpoint_stub) e from_side to_side interior))
      | _ \<Rightarrow> None)"

section \<open>Spreading automatic ports\<close>

record port_item =
  it_relation :: relation
  it_end :: endpoint
  it_rect :: node_box
  it_side :: jval
  it_counterpart :: node_box

definition port_key :: "number_text \<Rightarrow> node_box \<Rightarrow> jval \<Rightarrow> jstring" where
  "port_key show r s = js_string show (bid r) @ [0] @ js_string show s"

text \<open>The \<open>Map\<close> of groups, in insertion order.\<close>

fun add_item :: "jstring \<Rightarrow> port_item \<Rightarrow> (jstring \<times> port_item list) list \<Rightarrow> (jstring \<times> port_item list) list" where
  "add_item k x [] = [(k, [x])]"
| "add_item k x ((k', xs) # gs) =
     (if k = k' then (k', xs @ [x]) # gs else (k', xs) # add_item k x gs)"

definition spread_eligible :: "relation \<Rightarrow> bool" where
  "spread_eligible r \<longleftrightarrow> \<not> (truthy (rel r ''route'') \<and> rel r ''route'' \<noteq> JStr (lit ''auto''))
     \<and> \<not> truthy (rel r ''via'') \<and> rel r ''channelX'' = JUndef \<and> rel r ''channelY'' = JUndef
     \<and> \<not> truthy (rel r ''labelAt'')"

definition side_or :: "(relation \<Rightarrow> endpoint \<Rightarrow> jval) option \<Rightarrow> relation \<Rightarrow> endpoint \<Rightarrow> jval \<Rightarrow> jval" where
  "side_or sideFor r e fallback = (case sideFor of
     None \<Rightarrow> fallback | Some f \<Rightarrow> if truthy (f r e) then f r e else fallback)"

definition relation_items ::
  "(jval \<Rightarrow> node_box option) \<Rightarrow> (relation \<Rightarrow> endpoint \<Rightarrow> jval) option \<Rightarrow> relation option \<Rightarrow> port_item list" where
  "relation_items boxes sideFor q =
     (case q of
        None \<Rightarrow> []
      | Some r \<Rightarrow>
          if \<not> spread_eligible r then []
          else (case (boxes (rel r ''from''), boxes (rel r ''to'')) of
             (Some a, Some b) \<Rightarrow>
               [\<lparr>it_relation = r, it_end = Source, it_rect = a,
                 it_side = chosenSide (rel r ''fromSide'') (side_or sideFor r Source (defaultFromSide a b)),
                 it_counterpart = b\<rparr>,
                \<lparr>it_relation = r, it_end = Target, it_rect = b,
                 it_side = chosenSide (rel r ''toSide'') (side_or sideFor r Target (defaultToSide a b)),
                 it_counterpart = a\<rparr>]
           | _ \<Rightarrow> []))"

definition port_groups ::
  "number_text \<Rightarrow> (jval \<Rightarrow> node_box option) \<Rightarrow> (relation \<Rightarrow> endpoint \<Rightarrow> jval) option
   \<Rightarrow> relation option list \<Rightarrow> (jstring \<times> port_item list) list" where
  "port_groups show boxes sideFor relations =
     foldl (\<lambda>gs x. add_item (port_key show (it_rect x) (it_side x)) x gs) []
       (concat (map (relation_items boxes sideFor) relations))"

definition vertical_side :: "jval \<Rightarrow> bool" where
  "vertical_side s \<longleftrightarrow> s = LEFT \<or> s = RIGHT"

definition counter_coordinate :: "bool \<Rightarrow> port_item \<Rightarrow> real" where
  "counter_coordinate vertical x = (if vertical then cy (it_counterpart x) else cx (it_counterpart x))"

definition item_key :: "number_text \<Rightarrow> port_item \<Rightarrow> jstring" where
  "item_key show x = (let r = it_relation x in
     js_string show (or_empty (rel r ''id'')) @ [0] @ js_string show (rel r ''from'') @ [0]
     @ js_string show (rel r ''to'') @ [0] @ js_string show (or_empty (rel r ''label'')))"

text \<open>The sign of the comparator is not positive.\<close>

definition item_le :: "number_text \<Rightarrow> bool \<Rightarrow> port_item \<Rightarrow> port_item \<Rightarrow> bool" where
  "item_le show vertical a b =
     (if counter_coordinate vertical a \<noteq> counter_coordinate vertical b
      then counter_coordinate vertical a < counter_coordinate vertical b
      else \<not> item_key show b < item_key show a)"

definition port_spacing :: "real \<Rightarrow> real \<Rightarrow> real \<Rightarrow> nat \<Rightarrow> real" where
  "port_spacing gutter max_spacing extent n =
     min max_spacing (max 0 (extent - gutter * 2) / (real n - 1))"

definition shifted_anchor :: "port_item \<Rightarrow> bool \<Rightarrow> real \<Rightarrow> point" where
  "shifted_anchor x vertical offset = (let p = anchor (it_rect x) (it_side x) in
     if vertical then (fst p, snd p + offset) else (fst p + offset, snd p))"

text \<open>The ports of one group in sorted order, empty when the group stays at its midpoint.\<close>

definition group_ports :: "number_text \<Rightarrow> real \<Rightarrow> real \<Rightarrow> port_item list \<Rightarrow> (port_item \<times> point) list" where
  "group_ports show gutter max_spacing items =
     (if length items < 2 then []
      else
        let vertical = vertical_side (it_side (hd items));
            sorted = sort_by (item_le show vertical) items;
            extent = (if vertical then rheight (it_rect (hd sorted)) else rwidth (it_rect (hd sorted)));
            spacing = port_spacing gutter max_spacing extent (length sorted) in
        if \<not> 0 < spacing then []
        else map (\<lambda>(i, x). (x, shifted_anchor x vertical ((real i - (real (length sorted) - 1) / 2) * spacing)))
               (indexed sorted))"

definition automaticPortSpread ::
  "number_text \<Rightarrow> relation option list option \<Rightarrow> (jval \<Rightarrow> node_box option) \<Rightarrow> real \<Rightarrow> real
   \<Rightarrow> (relation \<Rightarrow> endpoint \<Rightarrow> jval) option \<Rightarrow> nat \<times> endpoint \<rightharpoonup> point" where
  "automaticPortSpread show relations boxes gutter max_spacing sideFor =
     foldl (\<lambda>m (x, p). m((address (it_relation x), it_end x) \<mapsto> p)) Map.empty
       (concat (map (\<lambda>(k, items). group_ports show gutter max_spacing items)
         (port_groups show boxes sideFor (asArray relations))))"

section \<open>The text of a route\<close>

definition svg_point :: "number_text \<Rightarrow> point \<Rightarrow> jstring" where
  "svg_point show p = show (fst p) @ [32] @ show (snd p)"

definition move_to :: "number_text \<Rightarrow> point \<Rightarrow> jstring" where
  "move_to show p = lit ''M '' @ svg_point show p"

definition line_to :: "number_text \<Rightarrow> point \<Rightarrow> jstring" where
  "line_to show p = lit ''L '' @ svg_point show p"

definition curve_to :: "number_text \<Rightarrow> point \<Rightarrow> point \<Rightarrow> jstring" where
  "curve_to show c p = lit ''Q '' @ svg_point show c @ [32] @ svg_point show p"

definition polylinePath :: "number_text \<Rightarrow> point list \<Rightarrow> jstring" where
  "polylinePath show ps =
     join_with [32] (map (\<lambda>(i, p). if i = 0 then move_to show p else line_to show p) (indexed ps))"

definition routePointsValue :: "number_text \<Rightarrow> raw_point list option \<Rightarrow> jstring" where
  "routePointsValue show points =
     join_with [59] (map (\<lambda>(x, y). show x @ [44] @ show y) (List.map_filter finite_point (asArray points)))"

text \<open>A corner is cut by \<open>corner_radius\<close> on both sides; \<open>None\<close> leaves it sharp.\<close>

definition corner_radius :: "real \<Rightarrow> point \<Rightarrow> point \<Rightarrow> point \<Rightarrow> real" where
  "corner_radius radius p c n =
     min (min radius (hypot (fst c - fst p) (snd c - snd p) / 2)) (hypot (fst n - fst c) (snd n - snd c) / 2)"

definition toward :: "point \<Rightarrow> point \<Rightarrow> real \<Rightarrow> point" where
  "toward c q r = (let len = hypot (fst q - fst c) (snd q - snd c) in
     (fst c + (fst q - fst c) / len * r, snd c + (snd q - snd c) / len * r))"

definition corner_cut :: "real \<Rightarrow> point \<Rightarrow> point \<Rightarrow> point \<Rightarrow> (point \<times> point) option" where
  "corner_cut radius p c n = (let r = corner_radius radius p c n in
     if r < 1 then None else Some (toward c p r, toward c n r))"

definition corner_commands :: "number_text \<Rightarrow> real \<Rightarrow> point \<Rightarrow> point \<Rightarrow> point \<Rightarrow> jstring list" where
  "corner_commands show radius p c n = (case corner_cut radius p c n of
     None \<Rightarrow> [line_to show c]
   | Some (before, after) \<Rightarrow> [line_to show before, curve_to show c after])"

fun corners :: "point list \<Rightarrow> (point \<times> point \<times> point) list" where
  "corners (p # c # n # ps) = (p, c, n) # corners (c # n # ps)"
| "corners _ = []"

definition roundedPath :: "number_text \<Rightarrow> point list \<Rightarrow> real \<Rightarrow> jstring" where
  "roundedPath show ps radius =
     (if length ps < 3 \<or> radius \<le> 0 then polylinePath show ps
      else join_with [32] (move_to show (hd ps)
        # concat (map (\<lambda>(p, c, n). corner_commands show radius p c n) (corners ps))
        @ [line_to show (last ps)]))"

section \<open>Labels of routes\<close>

text \<open>The knobs of a label after validation; a missing one is \<open>None\<close>.  With fewer than two points
  the code reads an element that is not there and throws.\<close>

record label_knobs =
  labelAt :: "point option"
  labelDx :: "real option"
  labelDy :: "real option"
  labelSegment :: "int option"

definition or_zero :: "real option \<Rightarrow> real" where
  "or_zero v = (case v of None \<Rightarrow> 0 | Some x \<Rightarrow> x)"

definition labelPoint :: "label_knobs \<Rightarrow> point list \<Rightarrow> point option" where
  "labelPoint k ps =
     (case labelAt k of
        Some p \<Rightarrow> Some p
      | None \<Rightarrow>
          if length ps < 2 then None
          else if length ps = 2 then
            Some ((fst (ps ! 0) + fst (ps ! 1)) / 2 + or_zero (labelDx k), snd (ps ! 0) - 10 + or_zero (labelDy k))
          else
            let wanted = (case labelSegment k of None \<Rightarrow> 1 | Some i \<Rightarrow> i);
                i = nat (min (int (length ps) - 2) (max 0 wanted));
                a = ps ! i; b = ps ! Suc i in
            Some ((fst a + fst b) / 2 + or_zero (labelDx k), (snd a + snd b) / 2 - 10 + or_zero (labelDy k)))"

section \<open>Classes\<close>

definition component_kinds :: "jstring list" where
  "component_kinds = map lit [''frontend'', ''backend'', ''database'', ''cloud'', ''security'', ''messagebus'', ''external'']"

definition componentFill :: "(jstring \<times> jstring) list" where
  "componentFill = map (\<lambda>k. (k, lit ''c-'' @ k)) component_kinds"

definition componentText :: "(jstring \<times> jstring) list" where
  "componentText = map (\<lambda>k. (k, lit ''t-'' @ k)) component_kinds"

definition arrowClassMap :: "(jstring \<times> jstring \<times> jstring) list" where
  "arrowClassMap =
     [(lit ''default'', lit ''a-default'', lit ''arrowhead''),
      (lit ''emphasis'', lit ''a-emphasis'', lit ''arrowhead-emphasis''),
      (lit ''security'', lit ''a-security'', lit ''arrowhead-security''),
      (lit ''dashed'', lit ''a-dashed'', lit ''arrowhead-dashed'')]"

definition variantAccent :: "jval \<Rightarrow> jstring \<Rightarrow> jstring" where
  "variantAccent variant dashed =
     (if variant = JStr (lit ''security'') then lit ''t-security''
      else if variant = JStr (lit ''emphasis'') then lit ''t-backend''
      else if variant = JStr (lit ''dashed'') then dashed else lit ''t-muted'')"

section \<open>Hints\<close>

definition rounded_text :: "real \<Rightarrow> jstring" where
  "rounded_text x = int_text (js_round x)"

definition formatRect :: "rect \<Rightarrow> jstring" where
  "formatRect r = [91] @ join_with (lit '', '')
     (map rounded_text [rx r, ry r, rwidth r, rheight r]) @ [93]"

definition formatDelta :: "int \<Rightarrow> jstring" where
  "formatDelta v = (if 0 \<le> v then 43 # int_text v else int_text v)"

definition in_quotes :: "jstring \<Rightarrow> jstring" where
  "in_quotes s = [34] @ s @ [34]"

definition suggestLabelObstacleFix ::
  "number_text \<Rightarrow> rect \<Rightarrow> real \<Rightarrow> real \<Rightarrow> node_box \<Rightarrow> jstring \<Rightarrow> jstring" where
  "suggestLabelObstacleFix show label lx ly obstacle kind =
     (let x = js_round lx; y = js_round ly;
          below = js_round (ry obstacle + rheight obstacle + 14); above = js_round (ry obstacle - 4) in
      join_with [10]
        [lit ''  label rect: '' @ formatRect label,
         lit ''  '' @ kind @ [32] @ in_quotes (js_string show (bid obstacle)) @ lit '' rect: '' @ formatRect (rect.truncate obstacle),
         lit ''  Suggested fix: labelAt ['' @ int_text x @ lit '', '' @ int_text below @ lit ''] or labelDy ''
           @ formatDelta (below - y) @ lit '' (below); or labelAt ['' @ int_text x @ lit '', '' @ int_text above
           @ lit ''] or labelDy '' @ formatDelta (above - y) @ lit '' (above)''])"

definition named_rect :: "number_text \<Rightarrow> jval \<Rightarrow> rect \<Rightarrow> jstring" where
  "named_rect show name r = in_quotes (js_string show name) @ [32] @ formatRect r"

definition suggestLabelPairFix :: "number_text \<Rightarrow> jval \<times> rect \<Rightarrow> jval \<times> rect \<Rightarrow> jstring" where
  "suggestLabelPairFix show a b = join_with [10]
     [lit ''  '' @ named_rect show (fst a) (snd a) @ lit ''; '' @ named_rect show (fst b) (snd b),
      lit ''  Suggested fix: adjust labelDx/labelDy/labelSegment, or route one relationship through a separate corridor'']"

definition suggestComponentSeparation :: "number_text \<Rightarrow> node_box \<Rightarrow> node_box \<Rightarrow> real \<Rightarrow> jstring" where
  "suggestComponentSeparation show a b min_gap =
     (let right_x = js_round (rx a + rwidth a + min_gap); below_y = js_round (ry a + rheight a + min_gap) in
      join_with [10]
        [lit ''  '' @ named_rect show (bid a) (rect.truncate a) @ lit ''; '' @ named_rect show (bid b) (rect.truncate b),
         lit ''  Suggested fix: move '' @ in_quotes (js_string show (bid b)) @ lit '' pos to ['' @ int_text right_x @ lit '', ''
           @ rounded_text (ry b) @ lit ''] (right of '' @ in_quotes (js_string show (bid a)) @ lit '') or [''
           @ rounded_text (rx b) @ lit '', '' @ int_text below_y @ lit ''] (below)''])"

end
