(* ===== verification/PortProperties.thy ===== *)
theory PortProperties
  imports Ports RouteProperties
begin

text \<open>
  Ports: the sort of a group as an instance of sorting by a comparator, the distances between the
  ports of a side, the detour of cramped ports and the corners of rounded routes.
\<close>

section \<open>The order of a group\<close>

interpretation port_order: comparator "item_le sh vertical" "counter_coordinate vertical"
  for sh vertical
  by unfold_locales (auto simp: item_le_def split: if_splits)

section \<open>The ports of a side\<close>

definition side_extent :: "bool \<Rightarrow> node_box \<Rightarrow> real" where
  "side_extent vertical r = (if vertical then rheight r else rwidth r)"

definition side_start :: "bool \<Rightarrow> node_box \<Rightarrow> real" where
  "side_start vertical r = (if vertical then ry r else rx r)"

definition centred :: "node_box \<Rightarrow> bool" where
  "centred r \<longleftrightarrow> cx r = rx r + rwidth r / 2 \<and> cy r = ry r + rheight r / 2"

lemma anchor_middle:
  assumes "centred r" and "s \<in> {LEFT, RIGHT, TOP, BOTTOM}"
  shows "on_axis (\<not> vertical_side s) (anchor r s)
    = side_start (vertical_side s) r + side_extent (vertical_side s) r / 2"
  using assms by (auto simp: anchor_def vertical_side_def on_axis_def side_start_def side_extent_def centred_def)

lemma port_spacing_bounds:
  assumes "0 < port_spacing g m e n" and "2 \<le> n"
  shows "port_spacing g m e n \<le> m" "(real n - 1) * port_spacing g m e n \<le> e - 2 * g"
proof -
  let ?u = "max 0 (e - g * 2)"
  have n: "0 < real n - 1" using assms(2) by simp
  have le: "port_spacing g m e n \<le> ?u / (real n - 1)" by (simp add: port_spacing_def)
  then have mul: "(real n - 1) * port_spacing g m e n \<le> ?u"
    using n by (simp add: pos_le_divide_eq mult.commute)
  have "0 < (real n - 1) * port_spacing g m e n" using n assms(1) by simp
  with mul show "(real n - 1) * port_spacing g m e n \<le> e - 2 * g" by (auto simp: max_def split: if_splits)
  show "port_spacing g m e n \<le> m" by (simp add: port_spacing_def)
qed

lemma group_ports_nth:
  assumes "group_ports sh g m items = ports" and "ports \<noteq> []"
    and r: "\<forall>x \<in> set items. it_rect x = r \<and> it_side x = s"
  defines "v \<equiv> vertical_side s" and "n \<equiv> length items"
  defines "d \<equiv> port_spacing g m (side_extent v r) n"
  shows "0 < d \<and> 2 \<le> n \<and> length ports = n \<and> map fst ports = sort_by (item_le sh v) items
    \<and> (\<forall>i < n. snd (ports ! i) = shifted_anchor (sort_by (item_le sh v) items ! i) v ((real i - (real n - 1) / 2) * d))"
proof -
  have n: "2 \<le> n" using assms(1,2) by (auto simp: group_ports_def n_def split: if_splits)
  then obtain y ys where items: "items = y # ys" by (cases items) (simp_all add: n_def)
  have vs: "vertical_side (it_side (hd items)) = v" using r by (simp add: items v_def)
  let ?sorted = "sort_by (item_le sh v) items"
  have "?sorted \<noteq> []" using n by (metis length_sort_by list.size(3) n_def not_numeral_le_zero)
  then have "hd ?sorted \<in> set items" using hd_in_set [of ?sorted] by simp
  then have hd: "it_rect (hd ?sorted) = r" using r by simp
  have d: "port_spacing g m (if v then rheight (it_rect (hd ?sorted)) else rwidth (it_rect (hd ?sorted))) n = d"
    unfolding d_def side_extent_def hd ..
  have ports: "ports = (if \<not> 0 < d then [] else map (\<lambda>(i, x). (x, shifted_anchor x v ((real i - (real n - 1) / 2) * d)))
      (indexed ?sorted))"
    using assms(1) n unfolding group_ports_def vs Let_def n_def [symmetric] length_sort_by d by simp
  with assms(2) have pos: "0 < d" by (auto split: if_splits)
  have eq: "ports = map (\<lambda>(i, x). (x, shifted_anchor x v ((real i - (real n - 1) / 2) * d))) (indexed ?sorted)"
    using ports pos by simp
  have "map fst ports = map snd (indexed ?sorted)" unfolding eq map_map by (rule map_cong) auto
  then have fst: "map fst ports = ?sorted" by simp
  have "snd (ports ! i) = shifted_anchor (?sorted ! i) v ((real i - (real n - 1) / 2) * d)" if "i < n" for i
    using that by (simp add: eq indexed_def n_def)
  moreover have "length ports = n" by (simp add: eq n_def)
  ultimately show ?thesis using pos n fst by simp
qed

lemma port_position:
  assumes "group_ports sh gutter maxs items = ports" and "ports \<noteq> []"
    and "\<forall>x \<in> set items. it_rect x = r \<and> it_side x = s"
    and "centred r" and "s \<in> {LEFT, RIGHT, TOP, BOTTOM}" and "v = vertical_side s" and "i < length items"
  shows "on_axis (\<not> v) (snd (ports ! i)) = side_start v r + side_extent v r / 2
    + (real i - (real (length items) - 1) / 2) * port_spacing gutter maxs (side_extent v r) (length items)"
proof -
  let ?sorted = "sort_by (item_le sh v) items" and ?d = "port_spacing gutter maxs (side_extent v r) (length items)"
  have nth: "snd (ports ! i) = shifted_anchor (?sorted ! i) v ((real i - (real (length items) - 1) / 2) * ?d)"
    using group_ports_nth [OF assms(1-3)] assms(7) by (simp add: assms(6))
  have rs: "it_rect (?sorted ! i) = r" "it_side (?sorted ! i) = s"
    using assms(3) nth_mem [of i ?sorted] assms(7) by simp_all
  show ?thesis
    using anchor_middle [OF assms(4,5), folded assms(6)]
    unfolding nth shifted_anchor_def Let_def rs by (simp add: on_axis_def split: if_splits)
qed

lemma port_in_gutter:
  assumes "0 < d" and "(real n - 1) * d \<le> w - 2 * gutter"
    and "i < n" and "y = a + w / 2 + (real i - (real n - 1) / 2) * (d :: real)"
  shows "a + gutter \<le> y \<and> y \<le> a + w - gutter"
proof -
  have "0 * d \<le> real i * d" "real i * d \<le> (real n - 1) * d"
    using assms(1,3) by (intro mult_right_mono; simp)+
  moreover have "(real i - (real n - 1) / 2) * d = real i * d - (real n - 1) * d / 2"
    by (simp add: algebra_simps)
  ultimately show ?thesis using assms(2,4) by (simp add: field_simps)
qed

text \<open>The ports of a crowded side are a rearrangement of its relations in the order of their
  counterparts, evenly spaced by at most the maximal spacing, and all keep the gutter from both
  corners of the side.\<close>

lemma spread_ports:
  assumes "group_ports sh gutter maxs items = ports" and "ports \<noteq> []"
    and "\<forall>x \<in> set items. it_rect x = r \<and> it_side x = s"
    and "centred r" and "s \<in> {LEFT, RIGHT, TOP, BOTTOM}" and "v = vertical_side s"
  shows "mset (map fst ports) = mset items
    \<and> (\<exists>d. 0 < d \<and> d \<le> maxs \<and> (\<forall>i j. i \<le> j \<longrightarrow> j < length ports \<longrightarrow>
          on_axis (\<not> v) (snd (ports ! j)) - on_axis (\<not> v) (snd (ports ! i)) = real (j - i) * d
          \<and> counter_coordinate v (fst (ports ! i)) \<le> counter_coordinate v (fst (ports ! j))))
    \<and> (\<forall>p \<in> set (map snd ports). side_start v r + gutter \<le> on_axis (\<not> v) p
          \<and> on_axis (\<not> v) p \<le> side_start v r + side_extent v r - gutter)"
proof -
  let ?n = "length items" and ?sorted = "sort_by (item_le sh v) items"
  let ?d = "port_spacing gutter maxs (side_extent v r) ?n"
  have f: "0 < ?d" "2 \<le> ?n" "length ports = ?n" "map fst ports = ?sorted"
    using group_ports_nth [OF assms(1-3)] by (simp_all add: assms(6))
  note pos = port_position [OF assms] and b = port_spacing_bounds [OF f(1,2)]
  have step: "on_axis (\<not> v) (snd (ports ! j)) - on_axis (\<not> v) (snd (ports ! i)) = real (j - i) * ?d
      \<and> counter_coordinate v (fst (ports ! i)) \<le> counter_coordinate v (fst (ports ! j))"
    if "i \<le> j" "j < length ports" for i j
  proof
    show "on_axis (\<not> v) (snd (ports ! j)) - on_axis (\<not> v) (snd (ports ! i)) = real (j - i) * ?d"
      using that f(3) by (simp add: pos of_nat_diff left_diff_distrib)
    have "fst (ports ! i) = ?sorted ! i" "fst (ports ! j) = ?sorted ! j"
      using that f(4) by (metis nth_map order.strict_trans1)+
    with port_order.sort_nth_mono [OF that(1), of sh v items] that f(3)
    show "counter_coordinate v (fst (ports ! i)) \<le> counter_coordinate v (fst (ports ! j))" by simp
  qed
  have "\<forall>p \<in> set (map snd ports). side_start v r + gutter \<le> on_axis (\<not> v) p
      \<and> on_axis (\<not> v) p \<le> side_start v r + side_extent v r - gutter"
  proof
    fix p
    assume "p \<in> set (map snd ports)"
    then obtain i where i: "i < ?n" "p = snd (ports ! i)"
      unfolding in_set_conv_nth length_map f(3) by (metis f(3) nth_map)
    show "side_start v r + gutter \<le> on_axis (\<not> v) p \<and> on_axis (\<not> v) p \<le> side_start v r + side_extent v r - gutter"
      unfolding i(2) by (rule port_in_gutter [OF f(1) b(2) i(1) pos [OF i(1)]])
  qed
  then show ?thesis using step f(1) b(1) f(4) by (auto intro!: exI [of _ ?d])
qed

definition port_box :: "string \<Rightarrow> real \<Rightarrow> real \<Rightarrow> node_box" where
  "port_box k x y = \<lparr>rx = x, ry = y, rwidth = 100, rheight = 60, bid = JStr (lit k), cx = x + 50, cy = y + 30\<rparr>"

definition sample_item :: "nat \<Rightarrow> real \<Rightarrow> port_item" where
  "sample_item n y = \<lparr>it_relation = arrow n ''a'' ''b'', it_end = Source, it_rect = port_box ''a'' 0 0,
     it_side = RIGHT, it_counterpart = port_box ''b'' 200 y\<rparr>"

lemma spread_ports_witness:
  "mset (map fst (group_ports (\<lambda>_. []) 16 14 [sample_item 0 80, sample_item 1 0])) = {#sample_item 0 80, sample_item 1 0#}"
proof -
  let ?is = "[sample_item 0 80, sample_item 1 0]"
  have v: "vertical_side RIGHT" by (simp add: vertical_side_def)
  have ne: "group_ports (\<lambda>_. []) 16 14 ?is \<noteq> []"
    by (simp add: group_ports_def Let_def sort_by_def item_le_def counter_coordinate_def sample_item_def port_box_def
        port_spacing_def indexed_def vertical_side_def)
  from spread_ports [OF refl ne, of "port_box ''a'' 0 0" RIGHT True] show ?thesis
    by (simp add: sample_item_def centred_def port_box_def v)
qed

section \<open>The detour\<close>

definition wide_apart :: "point \<Rightarrow> point \<Rightarrow> bool" where
  "wide_apart p q \<longleftrightarrow> 2 / 10000 < \<bar>fst p - fst q\<bar> \<or> 2 / 10000 < \<bar>snd p - snd q\<bar>"

lemma wide_apart_far: "wide_apart p q \<Longrightarrow> far_apart p q"
  by (auto simp: wide_apart_def far_apart_def)

lemma wide_apart_step: "wide_apart p q \<Longrightarrow> \<not> far_apart q a \<Longrightarrow> far_apart p a"
proof -
  assume "wide_apart p q" and "\<not> far_apart q a"
  then have near: "\<bar>fst q - fst a\<bar> \<le> 1 / 10000" "\<bar>snd q - snd a\<bar> \<le> 1 / 10000"
    and wide: "2 / 10000 < \<bar>fst p - fst q\<bar> \<or> 2 / 10000 < \<bar>snd p - snd q\<bar>"
    by (auto simp: wide_apart_def far_apart_def not_less)
  from wide have "1 / 10000 < \<bar>fst p - fst a\<bar> \<or> 1 / 10000 < \<bar>snd p - snd a\<bar>"
  proof
    assume "2 / 10000 < \<bar>fst p - fst q\<bar>"
    with near(1) have "1 / 10000 < \<bar>fst p - fst a\<bar>" by linarith
    then show ?thesis ..
  next
    assume "2 / 10000 < \<bar>snd p - snd q\<bar>"
    with near(2) have "1 / 10000 < \<bar>snd p - snd a\<bar>" by linarith
    then show ?thesis ..
  qed
  then show ?thesis by (simp add: far_apart_def)
qed

lemma dedupe_last: "wide_apart p q \<Longrightarrow> \<exists>z zs. dedupe acc (ps @ [q, p]) = p # z # zs"
proof (induction acc ps rule: dedupe.induct)
  case (1 acc)
  then show ?case by (cases acc) (auto intro: wide_apart_far wide_apart_step)
qed auto

lemma normalize_last:
  assumes "wide_apart p q" and "ps = List.map_filter finite_point (asArray raw)" and "ps = qs @ [q, p]"
  shows "last (normalizeRoutePoints raw) = p \<and> 2 \<le> length (normalizeRoutePoints raw)"
proof -
  obtain z zs where "dedupe [] ps = p # z # zs" using dedupe_last [OF assms(1), of "[]" qs] by (auto simp: assms(3))
  then have n: "normalizeRoutePoints raw = rev (p # pop_collinear (merge_collinear (rev zs @ [z])) p)"
    unfolding normalizeRoutePoints_def assms(2) [symmetric] by (simp add: merge_snoc flip: append_assoc)
  have "pop_collinear (merge_collinear (rev zs @ [z])) p \<noteq> []"
    using pop_collinear_first [of "merge_collinear (rev zs @ [z])" p] by (simp add: merge_snoc)
  then show ?thesis unfolding n by (cases "pop_collinear (merge_collinear (rev zs @ [z])) p") simp_all
qed

lemma outward_vector:
  "map_of PORT_OUTWARD_VECTOR f = Some v \<Longrightarrow> v \<in> {(-1, 0), (1, 0), (0, -1), (0, 1)}"
  by (auto simp: PORT_OUTWARD_VECTOR_def split: if_splits)

lemma stub_apart:
  assumes "map_of PORT_OUTWARD_VECTOR f = Some v" and "2 / 10000 < len"
  shows "wide_apart p (stub p v len)"
  using outward_vector [OF assms(1)] assms(2) by (auto simp: wide_apart_def stub_def)

lemma candidate_ends:
  assumes "ps \<in> set (bridge_candidates s s' e' e f t interior)"
  shows "\<exists>qs. ps = s # qs @ [e', e]"
  using assms by (auto simp: bridge_candidates_def vertical_bridge_def horizontal_bridge_def split: if_splits)

lemma bridge_ends:
  assumes "automaticPortRhythmBridge start end from_side to_side endpoint_stub interior accept = Some ps"
    and "2 / 10000 < endpoint_stub"
  shows "finite_point start = Some (hd ps)" "finite_point end = Some (last ps)" "2 \<le> length ps"
    "bridge_ok from_side to_side interior accept ps"
proof -
  from assms(1) obtain s e v w where f: "finite_point start = Some s" "finite_point end = Some e"
      and v: "map_of PORT_OUTWARD_VECTOR from_side = Some v" and w: "map_of PORT_OUTWARD_VECTOR to_side = Some w"
    and find: "find (bridge_ok from_side to_side interior accept) (map (\<lambda>ps. normalizeRoutePoints (raw_path ps))
        (bridge_candidates s (stub s v endpoint_stub) (stub e w endpoint_stub) e from_side to_side interior)) = Some ps"
    by (auto simp: automaticPortRhythmBridge_def split: option.splits)
  from find_first [OF find] show "bridge_ok from_side to_side interior accept ps" by simp
  from find_first [OF find] obtain cs where cs: "ps = normalizeRoutePoints (raw_path cs)"
      "cs \<in> set (bridge_candidates s (stub s v endpoint_stub) (stub e w endpoint_stub) e from_side to_side interior)"
    by auto
  from candidate_ends [OF cs(2)] obtain qs where qs: "cs = s # qs @ [stub e w endpoint_stub, e]" by blast
  have fin: "cs = List.map_filter finite_point (asArray (raw_path cs))" by simp
  have "hd ps = s" using normalize_facts [OF fin] by (simp add: cs(1) qs)
  then show "finite_point start = Some (hd ps)" by (simp add: f)
  have "last ps = e \<and> 2 \<le> length ps"
    unfolding cs(1) using normalize_last [OF stub_apart [OF w assms(2)] fin, of "s # qs"] by (simp add: qs)
  then show "finite_point end = Some (last ps)" "2 \<le> length ps" by (simp_all add: f)
qed

text \<open>A detour returned for cramped ports starts and ends exactly at the two ports, leaves and enters
  their sides perpendicularly, has no micro or cramped interior segment, and was accepted by the
  caller.\<close>

lemma bridge_route:
  assumes "automaticPortRhythmBridge start end from_side to_side endpoint_stub interior accept = Some ps"
    and "2 / 10000 < endpoint_stub"
  shows "finite_point start = Some (hd ps) \<and> finite_point end = Some (last ps)
    \<and> routeHonorsEndpointSides (raw_path ps) from_side to_side
    \<and> rhythmic interior 8 (normalizeRoutePoints (raw_path ps))
    \<and> (\<forall>g. accept = Some g \<longrightarrow> g ps)"
  using bridge_ends [OF assms] rhythm_clean by (auto simp: bridge_ok_def)

lemma bridge_route_witness:
  "last [(0, 0), (0, 24), (20, 24), (20, 76), (4, 76), (4::real, 100::real)] = (4, 100)
   \<and> routeHonorsEndpointSides (raw_path [(0, 0), (0, 24), (20, 24), (20, 76), (4, 76), (4, 100)]) (lit ''bottom'') (lit ''top'')"
proof -
  let ?ps = "[(0, 0), (0, 24), (20, 24), (20, 76), (4, 76), (4::real, 100::real)]"
  have n: "normalizeRoutePoints (raw_path ?ps) = ?ps"
    by (simp add: normalizeRoutePoints_def far_apart_def merge_collinear_def List.map_filter_simps collinearForward_def
        crossProduct_def)
  have r: "rhythmic 16 8 ?ps"
    unfolding rhythmic_def by (simp add: less_Suc_eq manhattan_def Let_def)
  have h: "routeHonorsEndpointSides (raw_path ?ps) (lit ''bottom'') (lit ''top'')"
    by (simp add: routeHonorsEndpointSides_def endpointSideIssue_def n ENDPOINT_SIDE_RULES_def Let_def)
  have ok: "bridge_ok (lit ''bottom'') (lit ''top'') 16 None ?ps"
    using r rhythm_clean by (simp add: bridge_ok_def h n)
  have b: "automaticPortRhythmBridge (Some [Some 0, Some 0]) (Some [Some 4, Some 100]) (lit ''bottom'') (lit ''top'') 24 16 None
      = Some ?ps"
    by (simp add: automaticPortRhythmBridge_def PORT_OUTWARD_VECTOR_def bridge_candidates_def stub_def vertical_bridge_def n ok)
  from bridge_route [OF b] show ?thesis by simp
qed

section \<open>Rounded corners\<close>

text \<open>Neighbouring corners of a rounded route do not run into each other: their radii together are at
  most the segment between them, and a cut starts on the segment it leaves.\<close>

lemma rounded_corners_fit:
  assumes "corner_cut radius a b c = Some (p, q)" and "corner_cut radius b c d = Some (p', q')"
  shows "corner_radius radius a b c + corner_radius radius b c d \<le> hypot (fst c - fst b) (snd c - snd b)
    \<and> on_segment q b c \<and> on_segment p' c b"
proof -
  let ?len = "hypot (fst c - fst b) (snd c - snd b)"
  have sym: "hypot (fst b - fst c) (snd b - snd c) = ?len"
    by (simp add: hypot_def power2_commute)
  have r: "1 \<le> corner_radius radius a b c" "1 \<le> corner_radius radius b c d"
    and q: "q = toward b c (corner_radius radius a b c)" and p': "p' = toward c b (corner_radius radius b c d)"
    using assms by (auto simp: corner_cut_def Let_def split: if_splits)
  have le: "corner_radius radius a b c \<le> ?len / 2" "corner_radius radius b c d \<le> ?len / 2"
    by (simp_all add: corner_radius_def)
  have seg: "on_segment (toward x y t) x y"
    if "0 < hypot (fst y - fst x) (snd y - snd x)" "0 \<le> t" "t \<le> hypot (fst y - fst x) (snd y - snd x)" for x y t
    unfolding on_segment_def toward_def Let_def
    using that by (intro exI [of _ "t / hypot (fst y - fst x) (snd y - snd x)"]) (auto simp: field_simps)
  have len: "0 < ?len" using r le by linarith
  from seg [where x = b and y = c and t = "corner_radius radius a b c"] len r le have "on_segment q b c" unfolding q by simp
  moreover from seg [where x = c and y = b and t = "corner_radius radius b c d"] len r le sym have "on_segment p' c b" unfolding p' by simp
  ultimately show ?thesis using le by linarith
qed

lemma rounded_corners_fit_witness:
  "corner_radius 6 (0, 0) (9, 0) (9, 9) + corner_radius 6 (9, 0) (9, 9) (20, 9) \<le> 9"
proof -
  have s: "sqrt (81::real) = 9" "sqrt (121::real) = 11" by (simp_all add: real_sqrt_unique)
  have r: "corner_radius 6 (0, 0) (9, 0) (9, 9) = 9 / 2" "corner_radius 6 (9, 0) (9, 9) (20, 9) = 9 / 2"
    by (simp_all add: corner_radius_def hypot_def s)
  then obtain p q p' q' where "corner_cut 6 (0, 0) (9, 0) (9, 9) = Some (p, q)"
      "corner_cut 6 (9, 0) (9, 9) (20, 9) = Some (p', q')"
    by (simp add: corner_cut_def Let_def)
  from rounded_corners_fit [OF this] show ?thesis by (simp add: hypot_def s)
qed

end
