(* ===== verification/TextFit.thy ===== *)
theory TextFit
  imports JsText
begin

text \<open>
  Measured text: \<open>textUnits\<close> of \<open>renderers/shared/utils.mjs\<close>, the shrinking of node text of
  \<open>text-fit.mjs\<close> and the reader's projection of \<open>desktop-readability.mjs\<close>.
\<close>

section \<open>Units of text\<close>

text \<open>\<open>Array.from\<close> on a string: surrogate pairs are one code point, lone surrogates stand alone.\<close>

fun code_points :: "jstring \<Rightarrow> nat list" where
  "code_points [] = []"
| "code_points [c] = [c]"
| "code_points (c # d # cs) =
     (if high_surrogate c \<and> low_surrogate d
      then (65536 + (c - 55296) * 1024 + (d - 56320)) # code_points cs
      else c # code_points (d # cs))"

definition FULLWIDTH_RE :: "(nat \<times> nat) list" where
  "FULLWIDTH_RE =
    [(4352, 4447), (8986, 8987), (9001, 9002), (9193, 9196), (9200, 9200), (9203, 9203),
     (9725, 9726), (9748, 9749), (9776, 9783), (9800, 9811), (9855, 9855), (9866, 9871),
     (9875, 9875), (9889, 9889), (9898, 9899), (9917, 9918), (9924, 9925), (9934, 9934),
     (9940, 9940), (9962, 9962), (9970, 9971), (9973, 9973), (9978, 9978), (9981, 9981),
     (9989, 9989), (9994, 9995), (10024, 10024), (10060, 10060), (10062, 10062), (10067, 10069),
     (10071, 10071), (10133, 10135), (10160, 10160), (10175, 10175), (11035, 11036), (11088, 11088),
     (11093, 11093), (11904, 42191), (43360, 43388), (44032, 55203), (63744, 64255), (65040, 65049),
     (65072, 65135), (65281, 65376), (65504, 65510), (94176, 101887), (110576, 110591),
     (110592, 111359), (126976, 129791), (131072, 262141)]"

definition fullwidth :: "nat \<Rightarrow> bool" where
  "fullwidth c \<longleftrightarrow> list_ex (\<lambda>(l, h). l \<le> c \<and> c \<le> h) FULLWIDTH_RE"

definition variation_selector :: "nat \<Rightarrow> bool" where
  "variation_selector c \<longleftrightarrow> 65024 \<le> c \<and> c \<le> 65039"

fun point_units :: "nat list \<Rightarrow> nat" where
  "point_units [] = 0"
| "point_units (c # cs) =
     (if variation_selector c then point_units cs
      else (case cs of
              [] \<Rightarrow> (if fullwidth c then 2 else 1)
            | d # _ \<Rightarrow> if d = 65039 then 2 else if d = 65038 then 1 else if fullwidth c then 2 else 1)
           + point_units cs)"

definition textUnits :: "jstring \<Rightarrow> nat" where
  "textUnits s = point_units (code_points s)"

section \<open>Shrinking node text\<close>

definition width_factor :: real where "width_factor = 6 / 10"

definition horizontal_padding :: real where "horizontal_padding = 8"

definition fittedNodeFontSize :: "jstring \<Rightarrow> real \<Rightarrow> real \<Rightarrow> real \<Rightarrow> real" where
  "fittedNodeFontSize s width preferred minimum =
     (let units = max 1 (real (textUnits s));
          available = max 1 (width - horizontal_padding);
          fitted = min preferred (available / (units * width_factor)) in
      max minimum (of_int \<lfloor>fitted * 10\<rfloor> / 10))"

definition minimumNodeTextWidth :: "jstring \<Rightarrow> real \<Rightarrow> real" where
  "minimumNodeTextWidth s minimum = real (textUnits s) * minimum * width_factor"

definition availableNodeTextWidth :: "real \<Rightarrow> real" where
  "availableNodeTextWidth width = width - horizontal_padding"

section \<open>Projection to the reader\<close>

definition DESKTOP_READER_DIAGRAM_WIDTH :: real where
  "DESKTOP_READER_DIAGRAM_WIDTH = 960 - 30"

definition MIN_PROJECTED_NODE_TEXT_PX :: real where
  "MIN_PROJECTED_NODE_TEXT_PX = 6"

definition projectedNodeTextPx :: "jsnum \<Rightarrow> jsnum \<Rightarrow> jsnum \<Rightarrow> jsnum" where
  "projectedNodeTextPx source view_box diagram =
     (case (source, view_box, diagram) of
        (Some s, Some v, Some d) \<Rightarrow> if v \<le> 0 \<or> d \<le> 0 then None else Some (s * min 1 (d / v))
      | _ \<Rightarrow> None)"

definition minimumReadableSourceTextPx :: "jsnum \<Rightarrow> jsnum \<Rightarrow> jsnum \<Rightarrow> jsnum" where
  "minimumReadableSourceTextPx view_box diagram minimum =
     (case (view_box, diagram, minimum) of
        (Some v, Some d, Some m) \<Rightarrow>
          if v \<le> 0 \<or> d \<le> 0 \<or> m \<le> 0 then None else Some (m / min 1 (d / v))
      | _ \<Rightarrow> None)"

section \<open>Properties\<close>

text \<open>Shrinking works: whenever a text fits its box at the legible minimum, the chosen font size is at
  least that minimum, at most the preferred size, and the text at that size fits the box.\<close>

lemma fitted_text_fits:
  assumes "minimumNodeTextWidth s minimum \<le> availableNodeTextWidth width" and "1 \<le> availableNodeTextWidth width"
    and "minimum \<le> preferred" and "0 < minimum"
  shows "minimum \<le> fittedNodeFontSize s width preferred minimum
    \<and> fittedNodeFontSize s width preferred minimum \<le> preferred
    \<and> minimumNodeTextWidth s (fittedNodeFontSize s width preferred minimum) \<le> availableNodeTextWidth width"
proof -
  define u where "u = max 1 (real (textUnits s))"
  define a where "a = availableNodeTextWidth width"
  define f where "f = min preferred (a / (u * width_factor))"
  define d where "d = real_of_int \<lfloor>f * 10\<rfloor> / 10"
  have a: "max 1 (width - horizontal_padding) = a" using assms(2) by (simp add: a_def availableNodeTextWidth_def)
  have size: "fittedNodeFontSize s width preferred minimum = max minimum d"
    unfolding fittedNodeFontSize_def Let_def a u_def [symmetric] f_def [symmetric] d_def [symmetric] ..
  have u: "1 \<le> u" "real (textUnits s) \<le> u" by (simp_all add: u_def)
  have "real_of_int \<lfloor>f * 10\<rfloor> \<le> f * 10" by simp
  then have df: "d \<le> f" by (simp add: d_def)
  then have "d \<le> preferred" "d \<le> a / (u * width_factor)" by (simp_all add: f_def)
  then have "d * (u * width_factor) \<le> a" using u(1) by (simp add: pos_le_divide_eq width_factor_def)
  moreover have "real (textUnits s) * d * width_factor \<le> a"
  proof (cases "0 \<le> d")
    case True
    then have "real (textUnits s) * (d * width_factor) \<le> u * (d * width_factor)"
      using u(2) by (intro mult_right_mono) (simp_all add: width_factor_def)
    with calculation show ?thesis by (simp add: mult_ac)
  next
    case False
    then have "real (textUnits s) * d \<le> 0" by (intro mult_nonneg_nonpos) simp_all
    then have "real (textUnits s) * d * width_factor \<le> 0" by (simp add: width_factor_def mult.commute)
    with assms(2) show ?thesis by (simp add: a_def)
  qed
  ultimately show ?thesis
    using assms(1,3) \<open>d \<le> preferred\<close> unfolding size a_def [symmetric]
    by (auto simp: minimumNodeTextWidth_def max_def a_def)
qed

lemma fitted_text_fits_witness:
  "minimumNodeTextWidth (lit ''Gateway'') (fittedNodeFontSize (lit ''Gateway'') 40 11 7) \<le> 32"
proof -
  have t: "textUnits (lit ''Gateway'') = 7"
    by (simp add: textUnits_def lit_def high_surrogate_def variation_selector_def fullwidth_def FULLWIDTH_RE_def)
  have "minimumNodeTextWidth (lit ''Gateway'') 7 \<le> availableNodeTextWidth 40" "1 \<le> availableNodeTextWidth 40"
    by (simp_all add: minimumNodeTextWidth_def t availableNodeTextWidth_def width_factor_def horizontal_padding_def)
  from fitted_text_fits [OF this, of 11] show ?thesis by (simp add: availableNodeTextWidth_def horizontal_padding_def)
qed

text \<open>The readability floor is exact: a source size projects to a readable size precisely when it is
  at least the minimal readable source size of the same drawing.\<close>

lemma readable_source_exact:
  assumes "minimumReadableSourceTextPx view_box diagram (Some m) = Some least"
    and "projectedNodeTextPx (Some s) view_box diagram = Some px"
  shows "m \<le> px \<longleftrightarrow> least \<le> s"
proof -
  from assms obtain v d where vd: "view_box = Some v" "diagram = Some d" "0 < v" "0 < d" "0 < m"
    by (auto simp: minimumReadableSourceTextPx_def split: option.splits if_splits)
  have k: "0 < min 1 (d / v)" using vd by simp
  have "least = m / min 1 (d / v)" "px = s * min 1 (d / v)"
    using assms vd by (simp_all add: minimumReadableSourceTextPx_def projectedNodeTextPx_def)
  with k show ?thesis by (simp add: pos_divide_le_eq)
qed

lemma readable_source_exact_witness: "(6::real) \<le> 9 * (930 / 1240) \<longleftrightarrow> (6::real) / (930 / 1240) \<le> 9"
proof -
  have "minimumReadableSourceTextPx (Some 1240) (Some 930) (Some 6) = Some (6 / (930 / 1240))"
    "projectedNodeTextPx (Some 9) (Some 1240) (Some 930) = Some (9 * (930 / 1240))"
    by (simp_all add: minimumReadableSourceTextPx_def projectedNodeTextPx_def)
  from readable_source_exact [OF this] show ?thesis .
qed

end
