(* ===== verification/Legend.thy ===== *)
theory Legend
  imports Geometry TextFit
begin

text \<open>
  The legend of \<open>renderers/shared/legend.mjs\<close>: which entries appear, how they are packed into rows,
  and the placement that is refused when a label is too wide, the rows rise above their band, or
  they meet authored geometry.  A configuration is the value the schema admits.
\<close>

section \<open>Entries\<close>

record legend_override =
  ov_visible :: "bool option"
  ov_label :: "jstring option"

record legend_config =
  cfg_mode :: "jstring option"
  cfg_entries :: "(jstring \<times> legend_override) list"

record legend_entry =
  le_kind :: jstring
  le_label :: jstring
  le_interactive :: "bool option"
  le_swatch_width :: "real option"
  le_swatch_gap :: "real option"

record resolved_entry =
  re_entry :: legend_entry
  re_present :: bool
  re_interactive :: bool

definition no_override :: legend_override where
  "no_override = \<lparr>ov_visible = None, ov_label = None\<rparr>"

definition legend_mode :: "legend_config option \<Rightarrow> jstring" where
  "legend_mode c = (case c of
     Some cfg \<Rightarrow> (case cfg_mode cfg of Some m \<Rightarrow> if m = [] then lit ''auto'' else m | None \<Rightarrow> lit ''auto'')
   | None \<Rightarrow> lit ''auto'')"

definition override_of :: "legend_config option \<Rightarrow> jstring \<Rightarrow> legend_override" where
  "override_of c k = (case c of None \<Rightarrow> no_override
     | Some cfg \<Rightarrow> (case map_of (cfg_entries cfg) k of None \<Rightarrow> no_override | Some q \<Rightarrow> q))"

definition resolve_entry :: "legend_config option \<Rightarrow> jstring list \<Rightarrow> legend_entry \<Rightarrow> resolved_entry option" where
  "resolve_entry c present e =
     (let q = override_of c (le_kind e);
          here = le_kind e \<in> set present;
          selected = (legend_mode c = lit ''all'' \<or> here);
          visible = (ov_visible q = Some True \<or> selected \<and> ov_visible q \<noteq> Some False) in
      if \<not> visible then None
      else Some \<lparr>re_entry = e\<lparr>le_label := (case ov_label q of
               Some l \<Rightarrow> if l = [] then le_label e else l | None \<Rightarrow> le_label e)\<rparr>,
             re_present = here, re_interactive = (le_interactive e \<noteq> Some False \<and> here)\<rparr>)"

definition resolveLegend :: "legend_config option \<Rightarrow> legend_entry list \<Rightarrow> jstring list \<Rightarrow> resolved_entry list" where
  "resolveLegend c catalog present =
     (if legend_mode c = lit ''hidden'' then []
      else List.map_filter (resolve_entry c present) catalog)"

section \<open>Footprint\<close>

definition measuredEntryWidth :: "resolved_entry \<Rightarrow> real \<Rightarrow> real \<Rightarrow> real" where
  "measuredEntryWidth e font swatch_gap =
     of_int \<lceil>(case le_swatch_width (re_entry e) of None \<Rightarrow> 14 | Some w \<Rightarrow> w) + swatch_gap
       + real (textUnits (le_label (re_entry e))) * font * (62 / 100)
       + (if re_interactive e then 21 else 0)\<rceil>"

definition entry_width :: "resolved_entry \<Rightarrow> real \<Rightarrow> real \<Rightarrow> real" where
  "entry_width e font swatch_gap = measuredEntryWidth e font
     (case le_swatch_gap (re_entry e) of None \<Rightarrow> swatch_gap | Some g \<Rightarrow> g)"

text \<open>The rows, from the row being filled and its cursor.\<close>

fun pack_rows :: "('a \<Rightarrow> real) \<Rightarrow> real \<Rightarrow> real \<Rightarrow> 'a list \<Rightarrow> real \<Rightarrow> 'a list \<Rightarrow> 'a list list" where
  "pack_rows w gap width row cursor [] = [row]"
| "pack_rows w gap width row cursor (e # es) =
     (let required = (if row = [] then 0 else gap) + w e in
      if row \<noteq> [] \<and> width < cursor + required
      then row # pack_rows w gap width [e] (w e) es
      else pack_rows w gap width (row @ [e]) (cursor + required) es)"

record footprint =
  fp_measured :: "(resolved_entry \<times> real) list"
  fp_rows :: "(resolved_entry \<times> real) list list"
  fp_min_width :: real
  fp_extra_height :: real

definition legendFootprint :: "resolved_entry list \<Rightarrow> real \<Rightarrow> real \<Rightarrow> real \<Rightarrow> real \<Rightarrow> real \<Rightarrow> footprint" where
  "legendFootprint entries width font item_gap line_gap swatch_gap =
     (let measured = map (\<lambda>e. (e, entry_width e font swatch_gap)) entries in
      case measured of
        [] \<Rightarrow> \<lparr>fp_measured = [], fp_rows = [], fp_min_width = 0, fp_extra_height = 0\<rparr>
      | m # ms \<Rightarrow>
          (let rows = pack_rows snd item_gap width [] 0 measured in
           \<lparr>fp_measured = measured, fp_rows = rows, fp_min_width = foldl max (snd m) (map snd ms),
             fp_extra_height = (real (length rows) - 1) * line_gap\<rparr>))"

section \<open>Placement\<close>

datatype legend_obstacle = SegmentObstacle point point | RectObstacle raw_rect

record placed_entry =
  pe_entry :: resolved_entry
  pe_width :: real
  pe_x :: real
  pe_baseline :: real
  pe_row :: nat

record legend_layout =
  ll_entries :: "placed_entry list"
  ll_row_count :: nat
  ll_title_y :: "real option"

datatype legend_problem = LabelTooWide jstring real | VerticalOverflow real | ContentOverlap rect

definition refuse :: "bool \<Rightarrow> legend_problem \<Rightarrow> legend_problem + legend_layout option" where
  "refuse hide p = (if hide then Inr None else Inl p)"

fun place_row :: "nat \<Rightarrow> real \<Rightarrow> real \<Rightarrow> real \<Rightarrow> (resolved_entry \<times> real) list \<Rightarrow> placed_entry list" where
  "place_row i baseline gap x [] = []"
| "place_row i baseline gap x ((e, w) # es) =
     \<lparr>pe_entry = e, pe_width = w, pe_x = x, pe_baseline = baseline, pe_row = i\<rparr>
     # place_row i baseline gap (x + (w + gap)) es"

definition place_rows :: "real \<Rightarrow> real \<Rightarrow> real \<Rightarrow> real \<Rightarrow> (resolved_entry \<times> real) list list \<Rightarrow> placed_entry list" where
  "place_rows x baseline_y gap line_gap rows =
     concat (map (\<lambda>(i, row). place_row i (baseline_y - (real (length rows) - real i - 1) * line_gap) gap x row)
       (indexed rows))"

definition entry_rect :: "placed_entry \<Rightarrow> rect" where
  "entry_rect p = \<lparr>rx = pe_x p, ry = pe_baseline p - 10, rwidth = pe_width p, rheight = 14\<rparr>"

definition obstructs :: "rect \<Rightarrow> legend_obstacle \<Rightarrow> bool" where
  "obstructs r q = (case q of
     SegmentObstacle a b \<Rightarrow> segmentIntersectsRect a b r 0
   | RectObstacle raw \<Rightarrow> (case finite_rect raw of None \<Rightarrow> False | Some k \<Rightarrow> finite_rects_overlap k r 0))"

record legend_options =
  lo_x :: real
  lo_baseline :: real
  lo_width :: real
  lo_font :: real
  lo_item_gap :: real
  lo_line_gap :: real
  lo_swatch_gap :: real
  lo_min_title_y :: real
  lo_obstacles :: "legend_obstacle list"
  lo_hide :: bool

definition measureLegend :: "resolved_entry list \<Rightarrow> legend_options \<Rightarrow> legend_problem + legend_layout option" where
  "measureLegend entries q =
     (if entries = [] then Inr (Some \<lparr>ll_entries = [], ll_row_count = 0, ll_title_y = None\<rparr>)
      else
        let f = legendFootprint entries (lo_width q) (lo_font q) (lo_item_gap q) (lo_line_gap q) (lo_swatch_gap q) in
        case find (\<lambda>(e, w). lo_width q < w) (fp_measured f) of
          Some (e, w) \<Rightarrow> refuse (lo_hide q) (LabelTooWide (le_kind (re_entry e)) w)
        | None \<Rightarrow>
            let title_y = lo_baseline q - fp_extra_height f - 20; legend_top = title_y - 10 in
            if legend_top < lo_min_title_y q then refuse (lo_hide q) (VerticalOverflow legend_top)
            else
              let placed = place_rows (lo_x q) (lo_baseline q) (lo_item_gap q) (lo_line_gap q) (fp_rows f);
                  title = \<lparr>rx = lo_x q, ry = legend_top, rwidth = 48, rheight = 14\<rparr> in
              (case find (\<lambda>r. list_ex (obstructs r) (lo_obstacles q)) (title # map entry_rect placed) of
                 Some r \<Rightarrow> refuse (lo_hide q) (ContentOverlap r)
               | None \<Rightarrow> Inr (Some \<lparr>ll_entries = placed, ll_row_count = length (fp_rows f),
                   ll_title_y = Some title_y\<rparr>)))"

definition relationshipLegendObstacles ::
  "'r list option \<Rightarrow> ('r \<Rightarrow> nat \<Rightarrow> raw_point list option) option \<Rightarrow> ('r \<Rightarrow> nat \<Rightarrow> raw_rect option) option
   \<Rightarrow> legend_obstacle list" where
  "relationshipLegendObstacles relations pointsFor labelRectFor =
     concat (map (\<lambda>(i, r).
       (let ps = (case pointsFor of None \<Rightarrow> []
                  | Some f \<Rightarrow> List.map_filter finite_point (asArray (f r i))) in
        map (\<lambda>(a, b). SegmentObstacle a b) (segments ps))
       @ (case labelRectFor of None \<Rightarrow> []
          | Some f \<Rightarrow> (case f r i of None \<Rightarrow> []
              | Some q \<Rightarrow> (case finite_rect q of None \<Rightarrow> [] | Some _ \<Rightarrow> [RectObstacle q]))))
       (indexed (asArray relations)))"

section \<open>Packing\<close>

lemma pack_rows_concat: "concat (pack_rows w gap width row cursor es) = row @ es"
  by (induction w gap width row cursor es rule: pack_rows.induct) (simp_all add: Let_def)

lemma pack_rows_not_Nil [simp]: "pack_rows w gap width row cursor es \<noteq> []"
  by (induction w gap width row cursor es rule: pack_rows.induct) (simp_all add: Let_def)

lemma pack_rows_nonempty:
  "row \<noteq> [] \<or> es \<noteq> [] \<Longrightarrow> [] \<notin> set (pack_rows w gap width row cursor es)"
proof (induction es arbitrary: row cursor)
  case (Cons e es)
  have "[] \<notin> set (pack_rows w gap width [e] c es)" "[] \<notin> set (pack_rows w gap width (row @ [e]) c es)" for c
    by (rule Cons.IH; simp)+
  then show ?case by (simp add: Let_def)
qed auto

definition row_width :: "('a \<Rightarrow> real) \<Rightarrow> real \<Rightarrow> 'a list \<Rightarrow> real" where
  "row_width w gap row = sum_list (map w row) + gap * (real (length row) - 1)"

lemma row_width_snoc: "row_width w gap (row @ [e]) = (if row = [] then 0 else row_width w gap row + gap) + w e"
  by (simp add: row_width_def algebra_simps)

lemma pack_rows_fit:
  assumes "\<forall>e \<in> set es. w e \<le> width"
    and "if row = [] then cursor = 0 else cursor = row_width w gap row \<and> cursor \<le> width"
    and "row \<noteq> [] \<or> es \<noteq> []"
  shows "\<forall>r \<in> set (pack_rows w gap width row cursor es). row_width w gap r \<le> width"
  using assms
proof (induction w gap width row cursor es rule: pack_rows.induct)
  case (2 w gap width row cursor e es)
  let ?req = "(if row = [] then 0 else gap) + w e"
  have one: "row_width w gap [e] = w e" by (simp add: row_width_def)
  show ?case
  proof (cases "row \<noteq> [] \<and> width < cursor + ?req")
    case True
    have "\<forall>r \<in> set (pack_rows w gap width [e] (w e) es). row_width w gap r \<le> width"
      using 2(1) [OF refl True] 2(3) one by simp
    with True 2(4) show ?thesis by (auto simp: Let_def split: if_splits)
  next
    case False
    have fit: "cursor + ?req \<le> width" using False 2(3,4) by (auto split: if_splits)
    have "cursor + ?req = row_width w gap (row @ [e])" using 2(4) by (auto simp: row_width_snoc)
    with 2(2) [OF refl False] 2(3) fit have
      "\<forall>r \<in> set (pack_rows w gap width (row @ [e]) (cursor + ?req) es). row_width w gap r \<le> width" by simp
    moreover have "pack_rows w gap width row cursor (e # es) = pack_rows w gap width (row @ [e]) (cursor + ?req) es"
      unfolding pack_rows.simps Let_def if_not_P [OF False] ..
    ultimately show ?thesis by simp
  qed
qed (auto split: if_splits)

end
