(* ===== verification/LegendFacts.thy ===== *)
theory LegendFacts
  imports Legend
begin

text \<open>
  A legend that is placed: complete, inside its band, free of overlaps and of authored geometry.
\<close>

section \<open>Rows\<close>

definition beside :: "placed_entry \<Rightarrow> placed_entry \<Rightarrow> bool" where
  "beside p q \<longleftrightarrow> pe_x p + pe_width p \<le> pe_x q"

definition above :: "placed_entry \<Rightarrow> placed_entry \<Rightarrow> bool" where
  "above p q \<longleftrightarrow> pe_baseline p + 14 \<le> pe_baseline q"

lemma row_width_Cons:
  "row_width w gap (e # es) = w e + (if es = [] then 0 else gap + row_width w gap es)"
  by (cases es) (simp_all add: row_width_def algebra_simps)

lemma place_row_entries: "map (\<lambda>p. (pe_entry p, pe_width p)) (place_row i b gap x row) = row"
  by (induction i b gap x row rule: place_row.induct) simp_all

lemma place_row_baseline: "p \<in> set (place_row i b gap x row) \<Longrightarrow> pe_baseline p = b"
  by (induction i b gap x row rule: place_row.induct) auto

lemma place_row_left:
  assumes "0 \<le> gap" and "\<forall>(e, w) \<in> set row. 0 \<le> w" and "p \<in> set (place_row i b gap x row)"
  shows "x \<le> pe_x p"
  using assms by (induction i b gap x row rule: place_row.induct) fastforce+

lemma place_row_right:
  assumes "0 \<le> gap" and "\<forall>(e, w) \<in> set row. 0 \<le> w" and "p \<in> set (place_row i b gap x row)"
  shows "pe_x p + pe_width p \<le> x + row_width snd gap row"
  using assms
proof (induction i b gap x row rule: place_row.induct)
  case (2 i b gap x e w es)
  have nn: "0 \<le> (if es = [] then 0 else gap + row_width snd gap es)"
  proof (cases es)
    case (Cons f fs)
    have "0 \<le> sum_list (map snd es)" using 2(3) by (intro sum_list_nonneg) auto
    with 2(2) Cons show ?thesis by (simp add: row_width_def)
  qed simp
  from 2(4) consider "p = \<lparr>pe_entry = e, pe_width = w, pe_x = x, pe_baseline = b, pe_row = i\<rparr>"
    | "p \<in> set (place_row i b gap (x + (w + gap)) es)" by auto
  then show ?case
  proof cases
    case 1
    with nn show ?thesis by (simp add: row_width_Cons)
  next
    case p: 2
    then have "es \<noteq> []" by auto
    with 2(1) [OF 2(2) _ p] 2(3) show ?thesis by (simp add: row_width_Cons)
  qed
qed simp

lemma place_row_beside:
  assumes "0 \<le> gap" and "\<forall>(e, w) \<in> set row. 0 \<le> w"
  shows "sorted_wrt beside (place_row i b gap x row)"
  using assms
proof (induction i b gap x row rule: place_row.induct)
  case (2 i b gap x e w es)
  have "x + w \<le> pe_x p" if "p \<in> set (place_row i b gap (x + (w + gap)) es)" for p
    using place_row_left [OF 2(2) _ that] 2(2,3) by simp
  with 2 show ?case by (simp add: beside_def)
qed simp

section \<open>All rows\<close>

lemma sorted_wrt_concat:
  assumes "sorted_wrt (\<lambda>xs ys. \<forall>a \<in> set xs. \<forall>b \<in> set ys. R a b) xss" and "\<forall>xs \<in> set xss. sorted_wrt R xs"
  shows "sorted_wrt R (concat xss)"
  using assms by (induction xss) (auto simp: sorted_wrt_append)

definition row_baseline :: "real \<Rightarrow> real \<Rightarrow> nat \<Rightarrow> nat \<Rightarrow> real" where
  "row_baseline baseline line_gap n i = baseline - (real n - real i - 1) * line_gap"

lemma row_baseline_step:
  assumes "i < j" and "14 \<le> line_gap"
  shows "row_baseline b line_gap n i + 14 \<le> row_baseline b line_gap n j"
proof -
  have "1 * line_gap \<le> (real j - real i) * line_gap"
    using assms by (intro mult_right_mono) simp_all
  with assms(2) show ?thesis by (simp add: row_baseline_def algebra_simps)
qed

lemma place_rows_alt:
  "place_rows x b gap line_gap rows =
     concat (map (\<lambda>(i, row). place_row i (row_baseline b line_gap (length rows) i) gap x row) (indexed rows))"
  by (simp add: place_rows_def row_baseline_def)

lemma place_rows_sorted:
  assumes "0 \<le> gap" and "14 \<le> line_gap" and "\<forall>row \<in> set rows. \<forall>(e, w) \<in> set row. 0 \<le> w"
  shows "sorted_wrt (\<lambda>p q. above p q \<or> beside p q) (place_rows x b gap line_gap rows)"
  unfolding place_rows_alt
proof (rule sorted_wrt_concat)
  let ?R = "\<lambda>p q. above p q \<or> beside p q"
  let ?row = "\<lambda>(i, row). place_row i (row_baseline b line_gap (length rows) i) gap x row"
  have "?R p q"
    if "i < j" "j < length rows" "p \<in> set (?row (i, rows ! i))" "q \<in> set (?row (j, rows ! j))" for i j p q
    using that row_baseline_step [OF that(1) assms(2), of b "length rows"]
    by (auto simp: above_def dest!: place_row_baseline)
  then show "sorted_wrt (\<lambda>xs ys. \<forall>p \<in> set xs. \<forall>q \<in> set ys. ?R p q) (map ?row (indexed rows))"
    unfolding sorted_wrt_map sorted_wrt_iff_nth_less by (auto simp: indexed_def)
  have "sorted_wrt beside (?row (i, row))" if "row \<in> set rows" for i row
    using place_row_beside [OF assms(1), of row] assms(3) that by auto
  then have "sorted_wrt ?R (?row (i, row))" if "row \<in> set rows" for i row
    using that sorted_wrt_mono_rel [of "?row (i, row)" beside ?R] by blast
  then show "\<forall>ps \<in> set (map ?row (indexed rows)). sorted_wrt ?R ps"
    by (auto simp: indexed_def dest!: set_zip_rightD)
qed

lemma place_rows_entries:
  "map (\<lambda>p. (pe_entry p, pe_width p)) (place_rows x b gap line_gap rows) = concat rows"
proof -
  have "map (\<lambda>p. (pe_entry p, pe_width p)) (place_rows x b gap line_gap rows) = concat (map snd (indexed rows))"
    unfolding place_rows_alt map_concat map_map
    by (intro arg_cong [of _ _ concat] map_cong refl) (auto simp: place_row_entries)
  then show ?thesis by simp
qed

lemma place_rows_range:
  assumes "0 \<le> gap" and "\<forall>row \<in> set rows. (\<forall>(e, w) \<in> set row. 0 \<le> w) \<and> row_width snd gap row \<le> width"
    and "p \<in> set (place_rows x b gap line_gap rows)"
  shows "x \<le> pe_x p \<and> pe_x p + pe_width p \<le> x + width"
proof -
  obtain i row where row: "row \<in> set rows" and p: "p \<in> set (place_row i (row_baseline b line_gap (length rows) i) gap x row)"
    using assms(3) by (auto simp: place_rows_alt indexed_def dest!: set_zip_rightD)
  from assms(2) row have w: "\<forall>(e, w) \<in> set row. 0 \<le> w" "row_width snd gap row \<le> width" by auto
  from place_row_left [OF assms(1) w(1) p] place_row_right [OF assms(1) w(1) p] w(2) show ?thesis by linarith
qed

section \<open>The layout\<close>

lemma foldl_measured: "legendFootprint es width font ig lg sg = f \<Longrightarrow> es \<noteq> [] \<Longrightarrow>
    fp_measured f = map (\<lambda>e. (e, entry_width e font sg)) es
    \<and> fp_rows f = pack_rows snd ig width [] 0 (fp_measured f)"
  by (cases es) (auto simp: legendFootprint_def Let_def)

lemma measureLegend_placed:
  assumes "measureLegend entries q = Inr (Some l)" and "entries \<noteq> []"
  shows "\<exists>measured rows.
      measured = map (\<lambda>e. (e, entry_width e (lo_font q) (lo_swatch_gap q))) entries
    \<and> rows = pack_rows snd (lo_item_gap q) (lo_width q) [] 0 measured
    \<and> (\<forall>(e, w) \<in> set measured. w \<le> lo_width q)
    \<and> ll_entries l = place_rows (lo_x q) (lo_baseline q) (lo_item_gap q) (lo_line_gap q) rows
    \<and> (\<forall>p \<in> set (ll_entries l). \<forall>x \<in> set (lo_obstacles q). \<not> obstructs (entry_rect p) x)"
proof -
  define f where "f = legendFootprint entries (lo_width q) (lo_font q) (lo_item_gap q) (lo_line_gap q) (lo_swatch_gap q)"
  note fp = foldl_measured [OF f_def [symmetric] assms(2)]
  let ?placed = "place_rows (lo_x q) (lo_baseline q) (lo_item_gap q) (lo_line_gap q) (fp_rows f)"
  let ?title = "\<lparr>rx = lo_x q, ry = lo_baseline q - fp_extra_height f - 20 - 10, rwidth = 48, rheight = 14\<rparr>"
  have wide: "find (\<lambda>(e, w). lo_width q < w) (fp_measured f) = None"
    using assms by (auto simp: measureLegend_def f_def [symmetric] Let_def refuse_def split: option.splits if_splits)
  have band: "\<not> lo_baseline q - fp_extra_height f - 20 - 10 < lo_min_title_y q"
    using assms by (auto simp: measureLegend_def f_def [symmetric] Let_def refuse_def wide split: option.splits if_splits)
  have free: "find (\<lambda>r. list_ex (obstructs r) (lo_obstacles q)) (?title # map entry_rect ?placed) = None"
  proof (rule ccontr)
    assume "\<not> ?thesis"
    then obtain r where "find (\<lambda>r. list_ex (obstructs r) (lo_obstacles q)) (?title # map entry_rect ?placed) = Some r"
      by blast
    with assms wide band show False
      by (simp add: measureLegend_def f_def [symmetric] Let_def refuse_def del: find.simps split: if_splits)
  qed
  have l: "ll_entries l = ?placed"
    using assms wide band free
    by (auto simp: measureLegend_def f_def [symmetric] Let_def simp del: find.simps)
  have "\<not> obstructs (entry_rect p) x" if "p \<in> set ?placed" "x \<in> set (lo_obstacles q)" for p x
    using free that unfolding find_None_iff by (auto simp: list_ex_iff)
  then show ?thesis
    using wide fp by (auto simp: l find_None_iff not_less)
qed

lemma above_disjoint: "above p q \<Longrightarrow> \<not> finite_rects_overlap (entry_rect p) (entry_rect q) 0"
  by (auto simp: above_def finite_rects_overlap_def entry_rect_def)

lemma beside_disjoint: "beside p q \<Longrightarrow> \<not> finite_rects_overlap (entry_rect p) (entry_rect q) 0"
  by (auto simp: beside_def finite_rects_overlap_def entry_rect_def)

text \<open>C39: a legend that is placed shows every entry once and in order, inside its width, without two
  entries overlapping and without an entry meeting an authored route or label (gaps not
  negative, rows at least a line of 14 apart).\<close>

theorem legend_layout_sound:
  assumes "measureLegend entries q = Inr (Some l)" and "entries \<noteq> []"
    and "0 \<le> lo_item_gap q" and "14 \<le> lo_line_gap q"
    and "\<forall>e \<in> set entries. 0 \<le> entry_width e (lo_font q) (lo_swatch_gap q)"
  shows "map pe_entry (ll_entries l) = entries
    \<and> (\<forall>p \<in> set (ll_entries l). lo_x q \<le> pe_x p \<and> pe_x p + pe_width p \<le> lo_x q + lo_width q)
    \<and> sorted_wrt (\<lambda>p r. \<not> finite_rects_overlap (entry_rect p) (entry_rect r) 0) (ll_entries l)
    \<and> (\<forall>p \<in> set (ll_entries l). \<forall>x \<in> set (lo_obstacles q). \<not> obstructs (entry_rect p) x)"
proof -
  let ?w = "\<lambda>e. entry_width e (lo_font q) (lo_swatch_gap q)"
  define measured where "measured = map (\<lambda>e. (e, ?w e)) entries"
  define rows where "rows = pack_rows snd (lo_item_gap q) (lo_width q) [] 0 measured"
  have fit: "\<forall>(e, w) \<in> set measured. w \<le> lo_width q"
    and l: "ll_entries l = place_rows (lo_x q) (lo_baseline q) (lo_item_gap q) (lo_line_gap q) rows"
    and free: "\<forall>p \<in> set (ll_entries l). \<forall>x \<in> set (lo_obstacles q). \<not> obstructs (entry_rect p) x"
    using measureLegend_placed [OF assms(1,2)] by (simp_all add: measured_def rows_def)
  have all: "concat rows = measured" by (simp add: rows_def pack_rows_concat)
  have nonneg: "\<forall>row \<in> set rows. \<forall>(e, w) \<in> set row. 0 \<le> w"
  proof (intro ballI)
    fix row x
    assume "row \<in> set rows" "x \<in> set row"
    then have "x \<in> set measured" unfolding all [symmetric] by auto
    with assms(5) show "case x of (e, w) \<Rightarrow> 0 \<le> w" by (auto simp: measured_def)
  qed
  have width: "\<forall>row \<in> set rows. row_width snd (lo_item_gap q) row \<le> lo_width q"
    unfolding rows_def by (rule pack_rows_fit) (use fit assms(2) in \<open>auto simp: measured_def\<close>)
  have "map fst (map (\<lambda>p. (pe_entry p, pe_width p)) (ll_entries l)) = map fst measured"
    by (simp only: l place_rows_entries all)
  then have entries: "map pe_entry (ll_entries l) = entries"
    by (simp add: measured_def comp_def)
  have inside: "lo_x q \<le> pe_x p \<and> pe_x p + pe_width p \<le> lo_x q + lo_width q" if "p \<in> set (ll_entries l)" for p
    using place_rows_range [OF assms(3) _ that [unfolded l]] nonneg width by blast
  have "sorted_wrt (\<lambda>p r. above p r \<or> beside p r) (ll_entries l)"
    unfolding l by (rule place_rows_sorted [OF assms(3,4) nonneg])
  then have "sorted_wrt (\<lambda>p r. \<not> finite_rects_overlap (entry_rect p) (entry_rect r) 0) (ll_entries l)"
    by (rule sorted_wrt_mono_rel [rotated]) (use above_disjoint beside_disjoint in blast)
  with entries inside free show ?thesis by blast
qed

definition sample_entry :: "string \<Rightarrow> resolved_entry" where
  "sample_entry k = \<lparr>re_entry = \<lparr>le_kind = lit k, le_label = lit k, le_interactive = None, le_swatch_width = None,
     le_swatch_gap = None\<rparr>, re_present = True, re_interactive = False\<rparr>"

definition sample_options :: legend_options where
  "sample_options = \<lparr>lo_x = 10, lo_baseline = 100, lo_width = 60, lo_font = 8, lo_item_gap = 22, lo_line_gap = 22,
     lo_swatch_gap = 8, lo_min_title_y = 0, lo_obstacles = [SegmentObstacle (0, 0) (200, 0)], lo_hide = False\<rparr>"

lemma legend_layout_sound_witness:
  "\<exists>l. measureLegend [sample_entry ''bus'', sample_entry ''api''] sample_options = Inr (Some l)
     \<and> map pe_entry (ll_entries l) = [sample_entry ''bus'', sample_entry ''api'']"
proof -
  let ?es = "[sample_entry ''bus'', sample_entry ''api'']"
  have u: "textUnits (lit ''bus'') = 3" "textUnits (lit ''api'') = 3"
    by (simp_all add: textUnits_def lit_def high_surrogate_def variation_selector_def fullwidth_def FULLWIDTH_RE_def)
  have c: "\<lceil>922 / (25::real)\<rceil> = 37" by (rule ceiling_unique) simp_all
  have w: "entry_width (sample_entry ''bus'') 8 8 = 37" "entry_width (sample_entry ''api'') 8 8 = 37"
    by (simp_all add: entry_width_def measuredEntryWidth_def sample_entry_def u c)
  obtain l where l: "measureLegend ?es sample_options = Inr (Some l)"
    by (simp add: measureLegend_def legendFootprint_def sample_options_def w Let_def place_rows_def indexed_def
        entry_rect_def obstructs_def segmentIntersectsRect_def grown_box_def pointInBox_def segmentsIntersect_def
        orientation_def onSegment_def)
  from legend_layout_sound [OF l] show ?thesis
    using l by (simp add: sample_options_def w)
qed

end
