(* ===== verification/Profiles.thy ===== *)
theory Profiles
  imports JsText
begin

text \<open>
  The deployment-ownership profile of \<open>renderers/shared/engineering-profiles.mjs\<close>.  A diagram is its
  JSON value; a diagnostic is its code with the index of the element and the evidence, without the
  English text.
\<close>

section \<open>Fields\<close>

definition field :: "jval \<Rightarrow> string \<Rightarrow> jval" where
  "field v k = jget v (lit k)"

fun items :: "jval \<Rightarrow> jval list" where
  "items (JArr vs) = vs"
| "items _ = []"

definition js_space :: "nat \<Rightarrow> bool" where
  "js_space c \<longleftrightarrow> 9 \<le> c \<and> c \<le> 13 \<or> c = 32 \<or> c = 160 \<or> c = 5760 \<or> 8192 \<le> c \<and> c \<le> 8202
     \<or> c = 8232 \<or> c = 8233 \<or> c = 8239 \<or> c = 8287 \<or> c = 12288 \<or> c = 65279"

text \<open>A string whose \<open>trim()\<close> is not empty.\<close>

fun named :: "jval \<Rightarrow> bool" where
  "named (JStr s) \<longleftrightarrow> \<not> list_all js_space s"
| "named _ \<longleftrightarrow> False"

definition wraps :: "jval \<Rightarrow> jval list" where
  "wraps b = items (field b ''wraps'')"

definition kind :: "jval \<Rightarrow> jval" where
  "kind b = field b ''kind''"

definition REGION :: jval where "REGION = JStr (lit ''region'')"
definition SECURITY_GROUP :: jval where "SECURITY_GROUP = JStr (lit ''security-group'')"

definition DEPLOYMENT_BOUNDARY_KINDS :: "jval list" where
  "DEPLOYMENT_BOUNDARY_KINDS = [REGION, SECURITY_GROUP]"

definition PRIVATE_STATE_TYPES :: "jval list" where
  "PRIVATE_STATE_TYPES = [JStr (lit ''database'')]"

definition DEPLOYMENT_PROFILE :: jval where
  "DEPLOYMENT_PROFILE = JStr (lit ''deployment-ownership'')"

definition membership :: "jval list \<Rightarrow> jval \<Rightarrow> jval \<Rightarrow> (nat \<times> jval) list" where
  "membership boundaries i k = filter (\<lambda>(n, b). kind b = k \<and> i \<in> set (wraps b)) (indexed boundaries)"

section \<open>Diagnostics\<close>

datatype ownership_problem =
    BoundaryKind jval
  | OwnerMissing nat
  | RegionScope nat
  | RegionAmbiguous nat "(nat \<times> jval) list"
  | PrivateState nat
  | PrivateRegionConsistency nat "(jval \<times> nat list) list"
  | CrossingMechanism nat "(nat \<times> jval) list"

definition kind_problems :: "jval list \<Rightarrow> ownership_problem list" where
  "kind_problems boundaries = List.map_filter (\<lambda>k.
     if list_ex (\<lambda>b. kind b = k) boundaries then None else Some (BoundaryKind k)) DEPLOYMENT_BOUNDARY_KINDS"

definition region_problems :: "jval list \<Rightarrow> nat \<times> jval \<Rightarrow> ownership_problem list" where
  "region_problems boundaries c =
     (let regions = membership boundaries (field (snd c) ''id'') REGION in
      if length regions = 0 then [RegionScope (fst c)]
      else if 1 < length regions then [RegionAmbiguous (fst c) (map (\<lambda>(n, b). (n, field b ''label'')) regions)]
      else [])"

definition component_problems :: "jval list \<Rightarrow> nat \<times> jval \<Rightarrow> ownership_problem list" where
  "component_problems boundaries c =
     (if field (snd c) ''type'' = JStr (lit ''external'') then []
      else (if named (field (snd c) ''tag'') then [] else [OwnerMissing (fst c)])
        @ region_problems boundaries c
        @ (if field (snd c) ''type'' \<in> set PRIVATE_STATE_TYPES
             \<and> membership boundaries (field (snd c) ''id'') SECURITY_GROUP = []
           then [PrivateState (fst c)] else []))"

definition region_indexes :: "jval list \<Rightarrow> jval \<Rightarrow> nat list" where
  "region_indexes boundaries i = map fst (membership boundaries i REGION)"

definition one_region :: "jval list \<Rightarrow> jval \<Rightarrow> bool" where
  "one_region boundaries b \<longleftrightarrow>
     (let members = map (region_indexes boundaries) (wraps b) in
      members \<noteq> [] \<and> list_all (\<lambda>m. length m = 1) members \<and> length (unique_list (concat members)) = 1)"

definition boundary_problems :: "jval list \<Rightarrow> nat \<times> jval \<Rightarrow> ownership_problem list" where
  "boundary_problems boundaries b =
     (if kind (snd b) \<noteq> SECURITY_GROUP \<or> one_region boundaries (snd b) then []
      else [PrivateRegionConsistency (fst b)
              (map (\<lambda>i. (i, region_indexes boundaries i)) (wraps (snd b)))])"

definition crossed :: "jval list \<Rightarrow> jval \<Rightarrow> (nat \<times> jval) list" where
  "crossed boundaries c = filter (\<lambda>(n, b). kind b \<in> set DEPLOYMENT_BOUNDARY_KINDS
     \<and> (field c ''from'' \<in> set (wraps b)) \<noteq> (field c ''to'' \<in> set (wraps b))) (indexed boundaries)"

definition connection_problems :: "jval list \<Rightarrow> nat \<times> jval \<Rightarrow> ownership_problem list" where
  "connection_problems boundaries c =
     (if crossed boundaries (snd c) = [] \<or> named (field (snd c) ''label'') then []
      else [CrossingMechanism (fst c) (crossed boundaries (snd c))])"

definition deploymentOwnershipDiagnostics :: "jval \<Rightarrow> ownership_problem list" where
  "deploymentOwnershipDiagnostics diagram =
     (let boundaries = items (field diagram ''boundaries'') in
      kind_problems boundaries
      @ concat (map (component_problems boundaries) (indexed (items (field diagram ''components''))))
      @ concat (map (boundary_problems boundaries) (indexed boundaries))
      @ concat (map (connection_problems boundaries) (indexed (items (field diagram ''connections'')))))"

text \<open>\<open>Inl\<close> is the thrown error with its diagnostics.\<close>

definition validateEngineeringProfile :: "jval \<Rightarrow> jval \<Rightarrow> ownership_problem list + unit" where
  "validateEngineeringProfile diagram_type diagram =
     (let profile = field (field diagram ''meta'') ''engineering_profile'' in
      if \<not> truthy profile then Inr ()
      else if diagram_type \<noteq> JStr (lit ''architecture'') \<or> profile \<noteq> DEPLOYMENT_PROFILE then Inr ()
      else let ds = deploymentOwnershipDiagnostics diagram in if ds = [] then Inr () else Inl ds)"

section \<open>The contract\<close>

text \<open>The regions of a component: the boundaries of kind region that wrap it.\<close>

definition regions_of :: "jval list \<Rightarrow> jval \<Rightarrow> nat set" where
  "regions_of boundaries i =
     {n. n < length boundaries \<and> kind (boundaries ! n) = REGION \<and> i \<in> set (wraps (boundaries ! n))}"

definition owned_component :: "jval list \<Rightarrow> jval \<Rightarrow> bool" where
  "owned_component boundaries c \<longleftrightarrow> field c ''type'' = JStr (lit ''external'')
     \<or> named (field c ''tag'') \<and> (\<exists>n. regions_of boundaries (field c ''id'') = {n})
       \<and> (field c ''type'' = JStr (lit ''database'') \<longrightarrow>
            (\<exists>b \<in> set boundaries. kind b = SECURITY_GROUP \<and> field c ''id'' \<in> set (wraps b)))"

definition private_group :: "jval list \<Rightarrow> jval \<Rightarrow> bool" where
  "private_group boundaries b \<longleftrightarrow> wraps b \<noteq> [] \<and> (\<exists>n. \<forall>i \<in> set (wraps b). regions_of boundaries i = {n})"

definition ownership :: "jval \<Rightarrow> bool" where
  "ownership diagram \<longleftrightarrow> (let boundaries = items (field diagram ''boundaries'') in
     (\<exists>b \<in> set boundaries. kind b = REGION) \<and> (\<exists>b \<in> set boundaries. kind b = SECURITY_GROUP)
     \<and> (\<forall>c \<in> set (items (field diagram ''components'')). owned_component boundaries c)
     \<and> (\<forall>b \<in> set boundaries. kind b = SECURITY_GROUP \<longrightarrow> private_group boundaries b)
     \<and> (\<forall>c \<in> set (items (field diagram ''connections'')). \<forall>b \<in> set boundaries.
          kind b \<in> {REGION, SECURITY_GROUP}
          \<longrightarrow> (field c ''from'' \<in> set (wraps b)) \<noteq> (field c ''to'' \<in> set (wraps b)) \<longrightarrow> named (field c ''label'')))"

lemma snd_indexed: "snd ` set (indexed xs) = set xs"
  by (metis list.set_map map_snd_indexed)

lemma indexed_all: "(\<forall>x \<in> set (indexed xs). P (snd x)) \<longleftrightarrow> (\<forall>x \<in> set xs. P x)"
proof -
  have "(\<forall>x \<in> snd ` set (indexed xs). P x) \<longleftrightarrow> (\<forall>x \<in> set (indexed xs). P (snd x))" by simp
  then show ?thesis by (simp only: snd_indexed)
qed

lemma set_region_indexes: "set (region_indexes boundaries i) = regions_of boundaries i"
  by (force simp: region_indexes_def membership_def regions_of_def indexed_iff)

lemma distinct_region_indexes: "distinct (region_indexes boundaries i)"
proof -
  have "distinct (map fst (filter P (indexed xs)))" for P and xs :: "jval list"
    by (rule distinct_map_filter) (simp add: indexed_def)
  then show ?thesis by (simp add: region_indexes_def membership_def)
qed

lemma one_index: "length (region_indexes boundaries i) = 1 \<longleftrightarrow> (\<exists>n. regions_of boundaries i = {n})"
proof -
  have "length (region_indexes boundaries i) = card (regions_of boundaries i)"
    using distinct_card [OF distinct_region_indexes] set_region_indexes by metis
  then show ?thesis by (simp add: card_1_singleton_iff)
qed

lemma membership_Nil: "membership boundaries i k = [] \<longleftrightarrow> \<not> (\<exists>b \<in> set boundaries. kind b = k \<and> i \<in> set (wraps b))"
  using indexed_all [of boundaries "\<lambda>b. \<not> (kind b = k \<and> i \<in> set (wraps b))"]
  by (simp add: membership_def filter_empty_conv split_beta)

lemma component_owned: "component_problems boundaries (n, c) = [] \<longleftrightarrow> owned_component boundaries c"
proof -
  have l: "length (membership boundaries (field c ''id'') REGION) = length (region_indexes boundaries (field c ''id''))"
    by (simp add: region_indexes_def)
  have "region_problems boundaries (n, c) = [] \<longleftrightarrow> length (region_indexes boundaries (field c ''id'')) = 1"
    unfolding region_problems_def Let_def snd_conv fst_conv l
    by (cases "length (region_indexes boundaries (field c ''id''))" rule: nat.exhaust) auto
  then show ?thesis
    unfolding component_problems_def owned_component_def one_index
    by (simp add: PRIVATE_STATE_TYPES_def membership_Nil)
qed

lemma group_private: "one_region boundaries b \<longleftrightarrow> private_group boundaries b"
proof
  assume o1: "one_region boundaries b"
  let ?ms = "map (region_indexes boundaries) (wraps b)"
  have ne: "wraps b \<noteq> []" and one: "\<forall>i \<in> set (wraps b). \<exists>n. regions_of boundaries i = {n}"
    and len: "length (unique_list (concat ?ms)) = 1"
    using o1 unfolding one_region_def Let_def list_all_iff set_map ball_simps one_index by simp_all
  from len obtain n where "unique_list (concat ?ms) = [n]" by (metis One_nat_def length_0_conv length_Suc_conv)
  then have "set (concat ?ms) = {n}" by (metis set_unique_list empty_set list.simps(15))
  then have "\<forall>i \<in> set (wraps b). regions_of boundaries i \<subseteq> {n}"
    by (auto simp: set_region_indexes)
  with one ne show "private_group boundaries b" unfolding private_group_def by fastforce
next
  assume p: "private_group boundaries b"
  let ?ms = "map (region_indexes boundaries) (wraps b)"
  from p obtain n where n: "wraps b \<noteq> []" "\<forall>i \<in> set (wraps b). regions_of boundaries i = {n}"
    by (auto simp: private_group_def)
  then have "set (concat ?ms) = {n}" by (cases "wraps b") (auto simp: set_region_indexes)
  then have "set (unique_list (concat ?ms)) = {n}" by simp
  then have "length (unique_list (concat ?ms)) = 1"
    by (metis distinct_card distinct_unique_list card_1_singleton_iff One_nat_def)
  with n show "one_region boundaries b"
    unfolding one_region_def Let_def list_all_iff set_map ball_simps one_index by simp
qed

lemma crossed_Nil: "crossed boundaries c = [] \<longleftrightarrow> (\<forall>b \<in> set boundaries. kind b \<in> {REGION, SECURITY_GROUP}
    \<longrightarrow> (field c ''from'' \<in> set (wraps b)) = (field c ''to'' \<in> set (wraps b)))"
proof -
  define P where "P b \<longleftrightarrow> \<not> (kind b \<in> set DEPLOYMENT_BOUNDARY_KINDS
     \<and> (field c ''from'' \<in> set (wraps b)) \<noteq> (field c ''to'' \<in> set (wraps b)))" for b
  have "crossed boundaries c = [] \<longleftrightarrow> (\<forall>x \<in> set (indexed boundaries). P (snd x))"
    by (simp add: crossed_def filter_empty_conv split_beta P_def)
  also have "\<dots> \<longleftrightarrow> (\<forall>b \<in> set boundaries. P b)" by (rule indexed_all)
  finally show ?thesis by (simp add: P_def DEPLOYMENT_BOUNDARY_KINDS_def) blast
qed

lemma all_problems_Nil:
  assumes "\<And>n x. f (n, x) = [] \<longleftrightarrow> P x"
  shows "concat (map f (indexed xs)) = [] \<longleftrightarrow> (\<forall>x \<in> set xs. P x)"
proof -
  have "f y = [] \<longleftrightarrow> P (snd y)" for y using assms [of "fst y" "snd y"] by simp
  then have "concat (map f (indexed xs)) = [] \<longleftrightarrow> (\<forall>x \<in> set (indexed xs). P (snd x))" by simp
  then show ?thesis by (simp only: indexed_all)
qed

lemma diagnostics_ownership: "deploymentOwnershipDiagnostics diagram = [] \<longleftrightarrow> ownership diagram"
proof -
  define bs where "bs = items (field diagram ''boundaries'')"
  have k: "kind_problems bs = [] \<longleftrightarrow> (\<exists>b \<in> set bs. kind b = REGION) \<and> (\<exists>b \<in> set bs. kind b = SECURITY_GROUP)"
    by (simp add: kind_problems_def DEPLOYMENT_BOUNDARY_KINDS_def List.map_filter_simps list_ex_iff)
  have c: "concat (map (component_problems bs) (indexed cs)) = [] \<longleftrightarrow> (\<forall>c \<in> set cs. owned_component bs c)" for cs
    by (rule all_problems_Nil) (rule component_owned)
  have b: "concat (map (boundary_problems bs) (indexed bs)) = []
      \<longleftrightarrow> (\<forall>b \<in> set bs. kind b = SECURITY_GROUP \<longrightarrow> private_group bs b)"
    by (rule all_problems_Nil) (simp add: boundary_problems_def group_private)
  have e: "concat (map (connection_problems bs) (indexed cs)) = []
      \<longleftrightarrow> (\<forall>c \<in> set cs. crossed bs c = [] \<or> named (field c ''label''))" for cs
    by (rule all_problems_Nil) (simp add: connection_problems_def)
  show ?thesis
    unfolding deploymentOwnershipDiagnostics_def Let_def bs_def [symmetric] append_is_Nil_conv k c b e
      ownership_def crossed_Nil by blast
qed

text \<open>C34: an architecture diagram that asks for the profile is accepted exactly when its deployment
  ownership holds: both boundary kinds exist, every deployed component names its owner and lies
  in exactly one region, databases are private, a private group lies in one region, and every
  connection across a boundary names its mechanism.\<close>

theorem ownership_profile_exact:
  assumes "field (field diagram ''meta'') ''engineering_profile'' = DEPLOYMENT_PROFILE"
  shows "validateEngineeringProfile (JStr (lit ''architecture'')) diagram = Inr () \<longleftrightarrow> ownership diagram"
  using assms diagnostics_ownership [of diagram]
  by (simp add: validateEngineeringProfile_def Let_def DEPLOYMENT_PROFILE_def lit_Cons)

definition text_object :: "(string \<times> string) list \<Rightarrow> jval" where
  "text_object ps = JObj (map (\<lambda>(k, v). (lit k, JStr (lit v))) ps)"

definition sample_boundary :: "string \<Rightarrow> jval" where
  "sample_boundary k = JObj [(lit ''kind'', JStr (lit k)), (lit ''wraps'', JArr [JStr (lit ''db'')])]"

definition sample_deployment :: jval where
  "sample_deployment = JObj
     [(lit ''meta'', text_object [(''engineering_profile'', ''deployment-ownership'')]),
      (lit ''components'', JArr [text_object [(''id'', ''db''), (''type'', ''database''), (''tag'', ''data team'')]]),
      (lit ''boundaries'', JArr [sample_boundary ''region'', sample_boundary ''security-group''])]"

lemma ownership_profile_exact_witness: "ownership sample_deployment"
proof -
  have p: "field (field sample_deployment ''meta'') ''engineering_profile'' = DEPLOYMENT_PROFILE"
    by (simp add: sample_deployment_def field_def text_object_def DEPLOYMENT_PROFILE_def)
  have "deploymentOwnershipDiagnostics sample_deployment = []"
    by (simp add: deploymentOwnershipDiagnostics_def sample_deployment_def sample_boundary_def text_object_def field_def
        kind_problems_def DEPLOYMENT_BOUNDARY_KINDS_def REGION_def SECURITY_GROUP_def kind_def List.map_filter_simps
        indexed_def component_problems_def region_problems_def membership_def wraps_def PRIVATE_STATE_TYPES_def
        boundary_problems_def one_region_def region_indexes_def js_space_def lit_Cons)
  then have "validateEngineeringProfile (JStr (lit ''architecture'')) sample_deployment = Inr ()"
    by (simp add: validateEngineeringProfile_def Let_def)
  with ownership_profile_exact [OF p] show ?thesis by simp
qed

end
