(* ===== verification/Delta.thy ===== *)
theory Delta
  imports Profiles StableSort
begin

text \<open>
  The comparator of \<open>delta/architecture-delta.mjs\<close>: canonical text of JSON values, stable indexes of
  components, connections and boundaries, the classification of changes and the comparison of two
  architecture diagrams.  The text of a non-integer number, lower case and the parser of repository
  remotes (\<open>Remotes\<close>) are arguments: the comparison only uses their results.  A document has passed the
  schema: the code throws a \<open>TypeError\<close> for a collection that is no array or a boundary that is null, which
  the schema excludes and which is read here as no elements or an object without members.
\<close>

section \<open>Canonical text\<close>

definition text_le :: "jstring \<Rightarrow> jstring \<Rightarrow> bool" where
  "text_le a b \<longleftrightarrow> \<not> b < a"

definition text_or :: "jstring \<Rightarrow> jstring option \<Rightarrow> jstring" where
  "text_or d t = (case t of None \<Rightarrow> d | Some s \<Rightarrow> s)"

definition entry_text :: "jstring \<times> jstring option \<Rightarrow> jstring" where
  "entry_text e = json_quote (fst e) @ [58] @ text_or (lit ''undefined'') (snd e)"

definition entries_text :: "(jstring \<times> jstring option) list \<Rightarrow> jstring" where
  "entries_text es = [123] @ comma_join (map entry_text (sort_by (\<lambda>p q. text_le (fst p) (fst q)) es)) @ [125]"

text \<open>\<open>None\<close> is the \<open>undefined\<close> that \<open>JSON.stringify\<close> returns for it.\<close>

fun canonical :: "number_text \<Rightarrow> jval \<Rightarrow> jstring option" where
  "canonical num JUndef = None"
| "canonical num JNull = Some (lit ''null'')"
| "canonical num (JBool b) = Some (if b then lit ''true'' else lit ''false'')"
| "canonical num (JNum x) = Some (num x)"
| "canonical num (JStr s) = Some (json_quote s)"
| "canonical num (JArr vs) = Some ([91] @ comma_join (map (\<lambda>v. text_or [] (canonical num v)) vs) @ [93])"
| "canonical num (JObj ps) = Some (entries_text (map (\<lambda>(k, v). (k, canonical num v)) ps))"

definition equal_values :: "number_text \<Rightarrow> jval \<Rightarrow> jval \<Rightarrow> bool" where
  "equal_values num l r \<longleftrightarrow> canonical num l = canonical num r"

definition sorted_values :: "number_text \<Rightarrow> jval list \<Rightarrow> jval list" where
  "sorted_values num vs = sort_by (\<lambda>a b. text_le (js_string num a) (js_string num b)) vs"

text \<open>\<open>undefined < x\<close> and \<open>x < undefined\<close> are false.\<close>

definition canonical_le :: "jstring option \<Rightarrow> jstring option \<Rightarrow> bool" where
  "canonical_le a b \<longleftrightarrow> (case (a, b) of (Some s, Some t) \<Rightarrow> text_le s t | _ \<Rightarrow> True)"

definition sortedObjects :: "number_text \<Rightarrow> jval list \<Rightarrow> jval list" where
  "sortedObjects num vs = sort_by (\<lambda>a b. canonical_le (canonical num a) (canonical num b)) vs"

definition sortedBy :: "number_text \<Rightarrow> (jval \<Rightarrow> jval) \<Rightarrow> jval list \<Rightarrow> jval list" where
  "sortedBy num key vs = sort_by (\<lambda>a b. text_le (js_string num (key a)) (js_string num (key b))) vs"

section \<open>Normalised parts\<close>

record remote_location =
  loc_identity :: jstring
  loc_url :: jstring
  loc_github :: bool

record platform =
  num_text :: number_text
  lower_text :: "jstring \<Rightarrow> jstring"
  remote_of :: "jval \<Rightarrow> remote_location option"

definition text_field :: "platform \<Rightarrow> jval \<Rightarrow> jstring" where
  "text_field pl v = js_string (num_text pl) (if truthy v then v else JStr [])"

definition repository_url :: "platform \<Rightarrow> jval \<Rightarrow> jstring" where
  "repository_url pl r = (case remote_of pl (field r ''url'') of
     None \<Rightarrow> text_field pl (field r ''url'')
   | Some l \<Rightarrow> if loc_url l = [] then text_field pl (field r ''url'') else loc_url l)"

definition on_github :: "platform \<Rightarrow> jval \<Rightarrow> bool" where
  "on_github pl r = (case remote_of pl (field r ''url'') of None \<Rightarrow> False | Some l \<Rightarrow> loc_github l)"

definition optional_field :: "string \<Rightarrow> jval \<Rightarrow> (jstring \<times> jval) list" where
  "optional_field k v = (if v = JUndef then [] else [(lit k, v)])"

definition normalizeRepository :: "platform \<Rightarrow> jval \<Rightarrow> jval" where
  "normalizeRepository pl r =
     (if \<not> truthy r then JUndef
      else JObj ([(lit ''url'', JStr (if on_github pl r then lower_text pl (repository_url pl r) else repository_url pl r)),
                  (lit ''revision'', JStr (lower_text pl (text_field pl (field r ''revision''))))]
                 @ optional_field ''provider'' (field r ''provider'')
                 @ optional_field ''link_mode'' (field r ''link_mode'')))"

text \<open>\<open>{ ...object, key: value }\<close>.\<close>

fun put_field :: "jstring \<Rightarrow> jval \<Rightarrow> (jstring \<times> jval) list \<Rightarrow> (jstring \<times> jval) list" where
  "put_field k v [] = [(k, v)]"
| "put_field k v ((k', v') # ps) = (if k = k' then (k, v) # ps else (k', v') # put_field k v ps)"

fun properties :: "jval \<Rightarrow> (jstring \<times> jval) list" where
  "properties (JObj ps) = ps"
| "properties _ = []"

definition normalizeComponent :: "platform \<Rightarrow> jval \<Rightarrow> jval" where
  "normalizeComponent pl c = (case field c ''sources'' of
     JArr vs \<Rightarrow> JObj (put_field (lit ''sources'') (JArr (sortedObjects (num_text pl) vs)) (properties c))
   | _ \<Rightarrow> JObj (properties c))"

definition normalizeBoundary :: "platform \<Rightarrow> jval \<Rightarrow> jval" where
  "normalizeBoundary pl b =
     JObj (put_field (lit ''wraps'') (JArr (sorted_values (num_text pl) (items (field b ''wraps'')))) (properties b))"

definition boundaryKey :: "platform \<Rightarrow> jval \<Rightarrow> jstring" where
  "boundaryKey pl b = js_string (num_text pl) (field b ''kind'') @ [31] @ js_string (num_text pl) (field b ''label'')"

definition canonicalMeta :: "platform \<Rightarrow> jval \<Rightarrow> jval" where
  "canonicalMeta pl diagram =
     (let meta = filter (\<lambda>(k, v). k \<noteq> lit ''output'') (properties (field diagram ''meta''));
          repository = jget (JObj meta) (lit ''repository'') in
      JObj (if truthy repository then put_field (lit ''repository'') (normalizeRepository pl repository) meta else meta))"

definition canonicalArchitecture :: "platform \<Rightarrow> jval \<Rightarrow> jval" where
  "canonicalArchitecture pl d =
     JObj ([(lit ''schema_version'', field d ''schema_version''), (lit ''diagram_type'', field d ''diagram_type''),
            (lit ''meta'', canonicalMeta pl d)]
       @ (if truthy (field d ''layout'') then [(lit ''layout'', field d ''layout'')] else [])
       @ [(lit ''components'', JArr (sortedBy (num_text pl) (\<lambda>c. field c ''id'')
              (map (normalizeComponent pl) (items (field d ''components''))))),
          (lit ''boundaries'', JArr (sortedBy (num_text pl) (\<lambda>b. JStr (boundaryKey pl b))
              (map (normalizeBoundary pl) (items (field d ''boundaries''))))),
          (lit ''connections'', JArr (sortedBy (num_text pl)
              (\<lambda>c. if truthy (field c ''id'') then field c ''id'' else JStr []) (items (field d ''connections''))))]
       @ (if truthy (field d ''cards'') then [(lit ''cards'', field d ''cards'')] else []))"

definition canonicalArchitectureJson :: "platform \<Rightarrow> jval \<Rightarrow> jstring option" where
  "canonicalArchitectureJson pl d = canonical (num_text pl) (canonicalArchitecture pl d)"

section \<open>Indexes\<close>

datatype delta_error =
    SchemaVersionMismatch bool
  | TypeMismatch bool
  | StableIdRequired bool string "nat list"
  | RelationshipIdRequired bool "nat list"
  | DuplicateStableId bool string "jval list"
  | BoundaryKeyAmbiguous bool "jstring list"
  | NoSharedComponentId
  | RepositoryMismatch

text \<open>The first flag of an error is whether it is about the base snapshot.\<close>

definition requireComparableShape :: "jval \<Rightarrow> bool \<Rightarrow> delta_error + unit" where
  "requireComparableShape d base =
     (if field d ''schema_version'' \<noteq> JNum 1 then Inl (SchemaVersionMismatch base)
      else if field d ''diagram_type'' \<noteq> JStr (lit ''architecture'') then Inl (TypeMismatch base)
      else Inr ())"

fun repeated :: "'a list \<Rightarrow> 'a list \<Rightarrow> 'a list" where
  "repeated seen [] = []"
| "repeated seen (x # xs) = (if x \<in> set seen then x # repeated seen xs else repeated (x # seen) xs)"

text \<open>A \<open>Map\<close> that keeps the first item of every key, in insertion order.\<close>

fun first_index :: "'k list \<Rightarrow> ('k \<times> 'v) list \<Rightarrow> ('k \<times> 'v) list" where
  "first_index seen [] = []"
| "first_index seen ((k, v) # ps) =
     (if k \<in> set seen then first_index seen ps else (k, v) # first_index (k # seen) ps)"

definition stableIndex ::
  "jval list \<Rightarrow> (nat list \<Rightarrow> delta_error) \<Rightarrow> (jval list \<Rightarrow> delta_error) \<Rightarrow> delta_error + (jval \<times> jval) list" where
  "stableIndex vs missing_error duplicate_error =
     (let missing = map fst (filter (\<lambda>(i, v). \<not> truthy (field v ''id'')) (indexed vs));
          named_items = map (\<lambda>v. (field v ''id'', v)) (filter (\<lambda>v. truthy (field v ''id'')) vs);
          duplicates = repeated [] (map fst named_items) in
      if missing \<noteq> [] then Inl (missing_error missing)
      else if duplicates \<noteq> [] then Inl (duplicate_error (unique_list duplicates))
      else Inr (first_index [] named_items))"

definition boundaryIndex :: "platform \<Rightarrow> bool \<Rightarrow> jval list \<Rightarrow> delta_error + (jval \<times> jval) list" where
  "boundaryIndex pl base bs =
     (let keyed = map (\<lambda>b. (JStr (boundaryKey pl b), b)) bs;
          ambiguous = repeated [] (map (boundaryKey pl) bs) in
      if ambiguous \<noteq> [] then Inl (BoundaryKeyAmbiguous base (unique_list ambiguous))
      else Inr (first_index [] keyed))"

section \<open>Changes\<close>

datatype classification = Topology | Semantic | Scope | Evidence | Layout

datatype status = Added | Removed | Changed | EvidenceChanged | Moved | Rerouted | GeometryChanged | Same

datatype entity = Component | Connection | Boundary

definition classification_name :: "classification \<Rightarrow> jstring" where
  "classification_name c = (case c of Topology \<Rightarrow> lit ''topology'' | Semantic \<Rightarrow> lit ''semantic''
     | Scope \<Rightarrow> lit ''scope'' | Evidence \<Rightarrow> lit ''evidence'' | Layout \<Rightarrow> lit ''geometry'')"

type_synonym field_groups = "(classification \<times> string list) list"

definition COMPONENT_FIELDS :: field_groups where
  "COMPONENT_FIELDS = [(Semantic, [''type'', ''label'', ''sublabel'', ''tag'']), (Evidence, [''sources'']),
     (Layout, [''row'', ''col'', ''pos'', ''size''])]"

definition CONNECTION_FIELDS :: field_groups where
  "CONNECTION_FIELDS = [(Topology, [''from'', ''to'']), (Semantic, [''label'', ''variant'']),
     (Layout, [''fromSide'', ''toSide'', ''route'', ''via'', ''labelAt'', ''labelDx'', ''labelDy'', ''labelSegment'', ''width''])]"

definition BOUNDARY_FIELDS :: field_groups where
  "BOUNDARY_FIELDS = [(Scope, [''wraps'']), (Layout, [''pad''])]"

definition normalizedField :: "number_text \<Rightarrow> jval \<Rightarrow> string \<Rightarrow> jval" where
  "normalizedField num v k = (case field v k of
     JArr vs \<Rightarrow> if k = ''sources'' then JArr (sortedObjects num vs)
                else if k = ''wraps'' then JArr (sorted_values num vs) else JArr vs
   | other \<Rightarrow> other)"

definition field_differs :: "number_text \<Rightarrow> jval \<Rightarrow> jval \<Rightarrow> string \<Rightarrow> bool" where
  "field_differs num before after k \<longleftrightarrow> \<not> equal_values num (normalizedField num before k) (normalizedField num after k)"

definition fieldChanges :: "number_text \<Rightarrow> jval \<Rightarrow> jval \<Rightarrow> field_groups \<Rightarrow> classification list \<times> jstring list" where
  "fieldChanges num before after groups =
     (let changed = map (\<lambda>(c, fs). (c, filter (field_differs num before after) fs)) groups in
      (sort_by (\<lambda>a b. text_le (classification_name a) (classification_name b))
         (map fst (filter (\<lambda>(c, fs). fs \<noteq> []) changed)),
       sort_by text_le (map (\<lambda>k. 47 # lit k) (concat (map snd changed)))))"

definition statusFor :: "classification list \<Rightarrow> entity \<Rightarrow> status" where
  "statusFor cs e =
     (if list_ex (\<lambda>c. c \<in> {Topology, Semantic, Scope}) cs then Changed
      else if Evidence \<in> set cs then EvidenceChanged
      else if Layout \<in> set cs then (case e of Connection \<Rightarrow> Rerouted | Component \<Rightarrow> Moved | Boundary \<Rightarrow> GeometryChanged)
      else Same)"

record change =
  ch_id :: jval
  ch_before :: "jval option"
  ch_after :: "jval option"
  ch_status :: status
  ch_classes :: "classification list"
  ch_fields :: "jstring list"

definition identity_class :: "entity \<Rightarrow> classification" where
  "identity_class e = (case e of Connection \<Rightarrow> Topology | Boundary \<Rightarrow> Scope | Component \<Rightarrow> Semantic)"

definition compare_entity ::
  "number_text \<Rightarrow> entity \<Rightarrow> field_groups \<Rightarrow> jval \<Rightarrow> jval option \<Rightarrow> jval option \<Rightarrow> change option" where
  "compare_entity num e groups i before after =
     (case (before, after) of
        (None, _) \<Rightarrow> Some \<lparr>ch_id = i, ch_before = None, ch_after = after, ch_status = Added,
          ch_classes = [identity_class e], ch_fields = []\<rparr>
      | (Some b, None) \<Rightarrow> Some \<lparr>ch_id = i, ch_before = Some b, ch_after = None, ch_status = Removed,
          ch_classes = [identity_class e], ch_fields = []\<rparr>
      | (Some b, Some a) \<Rightarrow>
          (case fieldChanges num b a groups of (cs, fs) \<Rightarrow>
             let s = statusFor cs e in
             if s = Same then None
             else Some \<lparr>ch_id = i, ch_before = Some b, ch_after = Some a, ch_status = s,
               ch_classes = cs, ch_fields = fs\<rparr>))"

definition compareEntities ::
  "number_text \<Rightarrow> (jval \<times> jval) list \<Rightarrow> (jval \<times> jval) list \<Rightarrow> entity \<Rightarrow> field_groups \<Rightarrow> change list" where
  "compareEntities num base head e groups =
     List.map_filter (\<lambda>i. compare_entity num e groups i (map_of base i) (map_of head i))
       (sorted_values num (unique_list (map fst base @ map fst head)))"

definition summaryFor :: "change list \<Rightarrow> status list \<Rightarrow> (status \<times> nat) list" where
  "summaryFor changes shape =
     map (\<lambda>s. (s, length (filter (\<lambda>c. ch_status c = s) changes))) shape"

definition presentation :: "jval \<Rightarrow> jval" where
  "presentation d =
     JObj (map (\<lambda>k. (lit k, field (field d ''meta'') k))
             [''title'', ''subtitle'', ''animation'', ''visual_preset'', ''quality_profile'', ''engineering_profile'',
              ''legend'', ''views'', ''viewBox'']
           @ [(lit ''layout'', field d ''layout''), (lit ''cards'', field d ''cards'')])"

definition presentationChanged :: "number_text \<Rightarrow> jval \<Rightarrow> jval \<Rightarrow> bool" where
  "presentationChanged num base head \<longleftrightarrow> \<not> equal_values num (presentation base) (presentation head)"

section \<open>Comparison\<close>

record delta =
  dl_pinned :: bool
  dl_components :: "change list"
  dl_connections :: "change list"
  dl_boundaries :: "change list"
  dl_component_summary :: "(status \<times> nat) list"
  dl_connection_summary :: "(status \<times> nat) list"
  dl_boundary_summary :: "(status \<times> nat) list"
  dl_presentation_changed :: bool
  dl_provenance_changed :: bool

definition repository_identity :: "platform \<Rightarrow> jval \<Rightarrow> jval" where
  "repository_identity pl r = (case remote_of pl (field r ''url'') of
     None \<Rightarrow> field r ''url''
   | Some l \<Rightarrow> if loc_identity l = [] then field r ''url'' else JStr (loc_identity l))"

definition full_revision :: "jval \<Rightarrow> bool" where
  "full_revision r \<longleftrightarrow> (case field r ''revision'' of
     JStr s \<Rightarrow> length s = 40 \<and> list_all is_lower_hex s | _ \<Rightarrow> False)"

definition shared_ids :: "(jval \<times> jval) list \<Rightarrow> (jval \<times> jval) list \<Rightarrow> jval list" where
  "shared_ids base head = filter (\<lambda>i. i \<in> set (map fst head)) (map fst base)"

definition repository_clash :: "platform \<Rightarrow> jval \<Rightarrow> jval \<Rightarrow> bool" where
  "repository_clash pl b h \<longleftrightarrow> b \<noteq> JUndef \<and> h \<noteq> JUndef \<and> repository_identity pl b \<noteq> repository_identity pl h"

definition compareArchitecture :: "platform \<Rightarrow> jval \<Rightarrow> jval \<Rightarrow> bool \<times> bool \<Rightarrow> delta_error + delta" where
  "compareArchitecture pl base head verified =
     (let num = num_text pl; ix = (\<lambda>d k. items (field d k)) in
      bindR (requireComparableShape base True) (\<lambda>_.
      bindR (requireComparableShape head False) (\<lambda>_.
      bindR (stableIndex (ix base ''components'') (StableIdRequired True ''components'')
               (DuplicateStableId True ''components'')) (\<lambda>bc.
      bindR (stableIndex (ix head ''components'') (StableIdRequired False ''components'')
               (DuplicateStableId False ''components'')) (\<lambda>hc.
      bindR (guardR (shared_ids bc hc \<noteq> []) NoSharedComponentId) (\<lambda>_.
      bindR (stableIndex (ix base ''connections'') (RelationshipIdRequired True)
               (DuplicateStableId True ''connections'')) (\<lambda>bx.
      bindR (stableIndex (ix head ''connections'') (RelationshipIdRequired False)
               (DuplicateStableId False ''connections'')) (\<lambda>hx.
      bindR (boundaryIndex pl True (ix base ''boundaries'')) (\<lambda>bb.
      bindR (boundaryIndex pl False (ix head ''boundaries'')) (\<lambda>hb.
      let br = normalizeRepository pl (field (field base ''meta'') ''repository'');
          hr = normalizeRepository pl (field (field head ''meta'') ''repository'') in
      bindR (guardR (\<not> repository_clash pl br hr) RepositoryMismatch) (\<lambda>_.
      let components = compareEntities num bc hc Component COMPONENT_FIELDS;
          connections = compareEntities num bx hx Connection CONNECTION_FIELDS;
          boundaries = compareEntities num bb hb Boundary BOUNDARY_FIELDS in
      Inr \<lparr>dl_pinned = (br \<noteq> JUndef \<and> hr \<noteq> JUndef \<and> fst verified \<and> snd verified
             \<and> full_revision br \<and> full_revision hr),
           dl_components = components, dl_connections = connections, dl_boundaries = boundaries,
           dl_component_summary = summaryFor components [Added, Changed, EvidenceChanged, Removed, Moved],
           dl_connection_summary = summaryFor connections [Added, Changed, Removed, Rerouted],
           dl_boundary_summary = summaryFor boundaries [Added, Changed, Removed, GeometryChanged],
           dl_presentation_changed = presentationChanged num base head,
           dl_provenance_changed = (\<not> equal_values num br hr)\<rparr>)))))))))))"

end
