(* ===== verification/DeltaFacts.thy ===== *)
theory DeltaFacts
  imports Delta
begin

text \<open>
  What the comparison of two architecture diagrams guarantees: which inputs it accepts, that it
  reports every tracked difference and no other, that it does not depend on the order of items or
  of object keys, and that reversing the snapshots reverses the report.
\<close>

section \<open>Canonical text\<close>

interpretation text_order: comparator "\<lambda>a b. text_le (f a) (f b)" f
  for f :: "'a \<Rightarrow> jstring"
  by unfold_locales (auto simp: text_le_def)

lemma entries_text_perm:
  assumes "mset es = mset fs" and "distinct (map fst es)"
  shows "entries_text es = entries_text fs"
proof -
  have "sort_by (\<lambda>p q. text_le (fst p) (fst q)) es = sort_by (\<lambda>p q. text_le (fst p) (fst q)) fs"
    by (rule sort_by_key_unique [where key = fst, OF assms]) (rule text_order.sorted_sort)+
  then show ?thesis by (simp add: entries_text_def)
qed

text \<open>Values that differ only in the order of object keys, at any depth.\<close>

inductive reordered :: "jval \<Rightarrow> jval \<Rightarrow> bool" where
  same: "reordered v v"
| arrays: "list_all2 reordered vs ws \<Longrightarrow> reordered (JArr vs) (JArr ws)"
| objects: "list_all2 (rel_prod (=) reordered) ps qs \<Longrightarrow> mset qs = mset rs \<Longrightarrow> distinct (map fst ps) \<Longrightarrow>
    reordered (JObj ps) (JObj rs)"

lemma reordered_canonical: "reordered v w \<Longrightarrow> canonical num v = canonical num w"
proof (induction rule: reordered.induct)
  case (arrays vs ws)
  then have "map (\<lambda>v. text_or [] (canonical num v)) vs = map (\<lambda>v. text_or [] (canonical num v)) ws"
    by (induction rule: list_all2_induct) auto
  then show ?case by simp
next
  case (objects ps qs rs)
  let ?text = "\<lambda>(k, v). (k, canonical num v)"
  have "map ?text ps = map ?text qs"
    using objects(1) by (induction rule: list_all2_induct) auto
  moreover have "mset (map ?text qs) = mset (map ?text rs)"
    using objects(2) by simp
  moreover have "map fst (map ?text ps) = map fst ps" by (simp add: split_beta comp_def)
  ultimately have "entries_text (map ?text ps) = entries_text (map ?text rs)"
    using objects(3) by (metis entries_text_perm)
  then show ?case by simp
qed simp

section \<open>Indexes\<close>

lemma repeated_Nil: "repeated seen xs = [] \<longleftrightarrow> distinct xs \<and> set xs \<inter> set seen = {}"
  by (induction seen xs rule: repeated.induct) auto

lemma first_index_distinct:
  "distinct (map fst ps) \<Longrightarrow> fst ` set ps \<inter> set seen = {} \<Longrightarrow> first_index seen ps = ps"
  by (induction seen ps rule: first_index.induct) auto

definition stable_ids :: "jval list \<Rightarrow> bool" where
  "stable_ids vs \<longleftrightarrow> (\<forall>v \<in> set vs. truthy (field v ''id'')) \<and> distinct (map (\<lambda>v. field v ''id'') vs)"

definition id_index :: "jval list \<Rightarrow> (jval \<times> jval) list" where
  "id_index vs = map (\<lambda>v. (field v ''id'', v)) vs"

lemma map_fst_id_index [simp]: "map fst (id_index vs) = map (\<lambda>v. field v ''id'') vs"
  by (simp add: id_index_def comp_def)

lemma missing_Nil: "filter (\<lambda>(i, v). \<not> P v) (indexed vs) = [] \<longleftrightarrow> (\<forall>v \<in> set vs. P v)"
  using indexed_all [of vs P] by (simp add: filter_empty_conv split_beta)

lemma stableIndex_Inr: "stableIndex vs f g = Inr m \<longleftrightarrow> stable_ids vs \<and> m = id_index vs"
proof (cases "\<forall>v \<in> set vs. truthy (field v ''id'')")
  case True
  then have f: "filter (\<lambda>v. truthy (field v ''id'')) vs = vs" by simp
  have n: "filter (\<lambda>(i, v). \<not> truthy (field v ''id'')) (indexed vs) = []" using True by (simp add: missing_Nil)
  have "repeated [] (map (\<lambda>v. field v ''id'') vs) = [] \<longleftrightarrow> distinct (map (\<lambda>v. field v ''id'') vs)"
    by (simp add: repeated_Nil)
  then show ?thesis
    using True first_index_distinct [of "id_index vs" "[]"]
    unfolding stableIndex_def Let_def f n by (auto simp: stable_ids_def id_index_def comp_def)
next
  case False
  then have n: "filter (\<lambda>(i, v). \<not> truthy (field v ''id'')) (indexed vs) \<noteq> []" by (simp add: missing_Nil)
  then show ?thesis using False unfolding stableIndex_def Let_def by (auto simp: stable_ids_def)
qed

definition key_index :: "platform \<Rightarrow> jval list \<Rightarrow> (jval \<times> jval) list" where
  "key_index pl bs = map (\<lambda>b. (JStr (boundaryKey pl b), b)) bs"

lemma boundaryIndex_Inr:
  "boundaryIndex pl side bs = Inr m \<longleftrightarrow> distinct (map (boundaryKey pl) bs) \<and> m = key_index pl bs"
proof -
  have d: "distinct (map fst (key_index pl bs)) \<longleftrightarrow> distinct (map (boundaryKey pl) bs)"
    by (simp add: key_index_def comp_def distinct_map inj_on_def)
  show ?thesis
    using first_index_distinct [of "key_index pl bs" "[]"] d
    by (auto simp: boundaryIndex_def Let_def repeated_Nil key_index_def)
qed

lemma map_of_perm:
  assumes "mset ps = mset qs" and "distinct (map fst ps)"
  shows "map_of ps = map_of qs"
proof -
  have "distinct (map fst qs)" using assms by (metis mset_eq_imp_distinct_iff mset_map)
  moreover have "set ps = set qs" using assms(1) by (rule mset_eq_setD)
  ultimately show ?thesis using assms(2) by (simp add: map_of_inject_set)
qed

section \<open>Changes\<close>

lemma fieldChanges_classes:
  "set (fst (fieldChanges num b a groups)) = {c. \<exists>fs. (c, fs) \<in> set groups \<and> (\<exists>k \<in> set fs. field_differs num b a k)}"
proof -
  have "c \<in> set (map fst (filter (\<lambda>(c, fs). fs \<noteq> []) (map (\<lambda>(c, fs). (c, filter (field_differs num b a) fs)) groups)))
      \<longleftrightarrow> (\<exists>fs. (c, fs) \<in> set groups \<and> (\<exists>k \<in> set fs. field_differs num b a k))" for c
    by (induction groups) (auto simp: filter_empty_conv)
  then show ?thesis by (simp add: fieldChanges_def Let_def set_eq_iff)
qed

lemma field_differs_sym: "field_differs num b a k \<longleftrightarrow> field_differs num a b k"
  by (auto simp: field_differs_def equal_values_def)

lemma fieldChanges_sym: "fieldChanges num b a groups = fieldChanges num a b groups"
proof -
  have "field_differs num b a = field_differs num a b" by (rule ext) (rule field_differs_sym)
  then show ?thesis by (simp add: fieldChanges_def)
qed

lemma statusFor_Same: "statusFor cs e = Same \<longleftrightarrow> cs = []"
proof
  assume "statusFor cs e = Same"
  then have "\<not> list_ex (\<lambda>c. c \<in> {Topology, Semantic, Scope}) cs" "Evidence \<notin> set cs" "Layout \<notin> set cs"
    by (auto simp: statusFor_def split: if_splits entity.splits)
  moreover have "c \<in> {Topology, Semantic, Scope} \<or> c = Evidence \<or> c = Layout" for c by (cases c) auto
  ultimately have "c \<notin> set cs" for c by (auto simp: list_ex_iff)
  then show "cs = []" by (meson last_in_set)
qed (simp add: statusFor_def)

lemma statusFor_kept: "statusFor cs e \<noteq> Added \<and> statusFor cs e \<noteq> Removed"
  by (simp add: statusFor_def split: entity.splits)

definition tracked :: "field_groups \<Rightarrow> string list" where
  "tracked groups = concat (map snd groups)"

lemma no_classes: "fst (fieldChanges num b a groups) = [] \<longleftrightarrow> (\<forall>k \<in> set (tracked groups). \<not> field_differs num b a k)"
proof -
  have "fst (fieldChanges num b a groups) = [] \<longleftrightarrow> set (fst (fieldChanges num b a groups)) = {}" by simp
  then show ?thesis unfolding fieldChanges_classes tracked_def by fastforce
qed

lemma compare_entity_None:
  "compare_entity num e groups i before after = None \<longleftrightarrow>
     (\<exists>b a. before = Some b \<and> after = Some a \<and> (\<forall>k \<in> set (tracked groups). \<not> field_differs num b a k))"
  by (cases before; cases after)
    (auto simp: compare_entity_def Let_def split_beta statusFor_Same no_classes)

lemma compare_entity_id: "compare_entity num e groups i before after = Some c \<Longrightarrow> ch_id c = i"
  by (cases before; cases after) (auto simp: compare_entity_def Let_def split_beta split: if_splits)

definition report_ids :: "number_text \<Rightarrow> (jval \<times> jval) list \<Rightarrow> (jval \<times> jval) list \<Rightarrow> jval list" where
  "report_ids num base head = sorted_values num (unique_list (map fst base @ map fst head))"

lemma set_report_ids [simp]: "set (report_ids num base head) = fst ` set base \<union> fst ` set head"
  by (simp add: report_ids_def sorted_values_def)

lemma compareEntities_alt:
  "compareEntities num base head e groups =
     List.map_filter (\<lambda>i. compare_entity num e groups i (map_of base i) (map_of head i)) (report_ids num base head)"
  by (simp add: compareEntities_def report_ids_def)

lemma map_filter_ids:
  assumes "\<And>i c. f i = Some c \<Longrightarrow> g c = i"
  shows "map g (List.map_filter f is) = filter (\<lambda>i. f i \<noteq> None) is"
  using assms by (induction "is") (auto simp: List.map_filter_simps split: option.splits)

lemma change_ids:
  "map ch_id (compareEntities num base head e groups) =
     filter (\<lambda>i. compare_entity num e groups i (map_of base i) (map_of head i) \<noteq> None) (report_ids num base head)"
  unfolding compareEntities_alt by (rule map_filter_ids) (rule compare_entity_id)

lemma distinct_change_ids: "distinct (map ch_id (compareEntities num base head e groups))"
proof -
  have "mset (report_ids num base head) = mset (unique_list (map fst base @ map fst head))"
    by (simp add: report_ids_def sorted_values_def)
  then have "distinct (report_ids num base head)" by (metis distinct_unique_list mset_eq_imp_distinct_iff)
  then show ?thesis by (simp add: change_ids)
qed

lemma no_changes:
  assumes "map_of base = map_of head"
  shows "compareEntities num base head e groups = []"
proof -
  have "compare_entity num e groups i (map_of base i) (map_of head i) = None" if "i \<in> set (report_ids num base head)" for i
  proof -
    from that have "map_of head i \<noteq> None"
      using assms by (auto simp: map_of_eq_None_iff) (metis domIff dom_map_of_conv_image_fst image_eqI fst_conv option.simps(3))+
    then show ?thesis by (auto simp: compare_entity_None assms field_differs_def equal_values_def)
  qed
  then show ?thesis by (simp add: compareEntities_alt map_filter_empty)
qed

end
