(* ===== verification/Remotes.thy ===== *)
theory Remotes
  imports Profiles
begin

text \<open>
  Addresses of repositories: \<open>renderers/shared/repository-location.mjs\<close>, with the two URI functions of
  the language that it uses.  The URL parser of the platform and lower case are arguments.
\<close>

section \<open>URI components\<close>

definition uri_plain :: "nat \<Rightarrow> bool" where
  "uri_plain c \<longleftrightarrow> is_alpha c \<or> is_digit c \<or> c \<in> {45, 95, 46, 33, 126, 42, 39, 40, 41}"

text \<open>Code points of UTF-16, unless a surrogate stands alone.\<close>

fun uri_points :: "jstring \<Rightarrow> nat list option" where
  "uri_points [] = Some []"
| "uri_points [c] = (if high_surrogate c \<or> low_surrogate c then None else Some [c])"
| "uri_points (c # d # cs) =
     (if high_surrogate c \<and> low_surrogate d
        then map_option ((#) (65536 + (c - 55296) * 1024 + (d - 56320))) (uri_points cs)
      else if high_surrogate c \<or> low_surrogate c then None
      else map_option ((#) c) (uri_points (d # cs)))"

definition code_units :: "nat \<Rightarrow> jstring" where
  "code_units n = (if n < 65536 then [n] else [55296 + (n - 65536) div 1024, 56320 + (n - 65536) mod 1024])"

definition utf8 :: "nat \<Rightarrow> nat list" where
  "utf8 n =
     (if n < 128 then [n]
      else if n < 2048 then [192 + n div 64, 128 + n mod 64]
      else if n < 65536 then [224 + n div 4096, 128 + n div 64 mod 64, 128 + n mod 64]
      else [240 + n div 262144, 128 + n div 4096 mod 64, 128 + n div 64 mod 64, 128 + n mod 64])"

definition upper_hex :: "nat \<Rightarrow> nat" where
  "upper_hex n = (if n < 10 then 48 + n else 55 + n)"

definition percent :: "nat \<Rightarrow> jstring" where
  "percent b = [37, upper_hex (b div 16), upper_hex (b mod 16)]"

definition encode_point :: "nat \<Rightarrow> jstring" where
  "encode_point n = (if uri_plain n then [n] else concat (map percent (utf8 n)))"

definition encodeURIComponent :: "jstring \<Rightarrow> jstring option" where
  "encodeURIComponent s = map_option (\<lambda>ps. concat (map encode_point ps)) (uri_points s)"

definition hex_value :: "nat \<Rightarrow> nat option" where
  "hex_value c =
     (if is_digit c then Some (c - 48)
      else if 65 \<le> c \<and> c \<le> 70 then Some (c - 55)
      else if 97 \<le> c \<and> c \<le> 102 then Some (c - 87)
      else None)"

fun percent_byte :: "jstring \<Rightarrow> (nat \<times> jstring) option" where
  "percent_byte (c # a # b # cs) =
     (if c = 37 then (case (hex_value a, hex_value b) of (Some x, Some y) \<Rightarrow> Some (16 * x + y, cs) | _ \<Rightarrow> None) else None)"
| "percent_byte _ = None"

fun continuation :: "nat \<Rightarrow> nat \<Rightarrow> jstring \<Rightarrow> (nat \<times> jstring) option" where
  "continuation 0 n s = Some (n, s)"
| "continuation (Suc k) n s =
     (case percent_byte s of
        None \<Rightarrow> None
      | Some (b, t) \<Rightarrow> if 128 \<le> b \<and> b < 192 then continuation k (64 * n + (b - 128)) t else None)"

text \<open>One escaped code point: no overlong form, no surrogate, at most \<open>10FFFF\<close> (hexadecimal).\<close>

definition escaped_point :: "jstring \<Rightarrow> (nat \<times> jstring) option" where
  "escaped_point s =
     (case percent_byte s of
        None \<Rightarrow> None
      | Some (b, t) \<Rightarrow>
          let several = (\<lambda>k lead least. case continuation k (b - lead) t of
                None \<Rightarrow> None
              | Some (n, u) \<Rightarrow> if least \<le> n \<and> n \<le> 1114111 \<and> \<not> (55296 \<le> n \<and> n \<le> 57343) then Some (n, u) else None) in
          if b < 128 then Some (b, t)
          else if 192 \<le> b \<and> b < 224 then several 1 192 128
          else if 224 \<le> b \<and> b < 240 then several 2 224 2048
          else if 240 \<le> b \<and> b < 248 then several 3 240 65536
          else None)"

lemma percent_byte_shorter: "percent_byte s = Some (b, t) \<Longrightarrow> length t < length s"
  by (induction s rule: percent_byte.induct) (auto split: if_splits option.splits)

lemma continuation_shorter: "continuation k n s = Some (m, t) \<Longrightarrow> length t \<le> length s"
  by (induction k arbitrary: n s) (fastforce dest: percent_byte_shorter split: option.splits if_splits)+

lemma escaped_point_shorter: "escaped_point s = Some (n, t) \<Longrightarrow> length t < length s"
  by (auto simp: escaped_point_def Let_def dest!: percent_byte_shorter continuation_shorter split: option.splits if_splits)

function decodeURIComponent :: "jstring \<Rightarrow> jstring option" where
  "decodeURIComponent [] = Some []"
| "decodeURIComponent (c # cs) =
     (if c \<noteq> 37 then map_option ((#) c) (decodeURIComponent cs)
      else (case escaped_point (c # cs) of
          None \<Rightarrow> None
        | Some (n, t) \<Rightarrow> map_option ((@) (code_units n)) (decodeURIComponent t)))"
  by pat_completeness auto
termination
  by (relation "measure length") (auto dest: escaped_point_shorter)

section \<open>Remotes\<close>

record url_parts =
  up_protocol :: jstring
  up_username :: jstring
  up_password :: jstring
  up_hostname :: jstring
  up_host :: jstring
  up_port :: jstring

record web_platform =
  wp_url :: "jstring \<Rightarrow> url_parts option"
  wp_lower :: "jstring \<Rightarrow> jstring"

datatype provider = Github | Gitee

record remote =
  rm_identity :: jstring
  rm_url :: jstring
  rm_provider :: "provider option"
  rm_protocol :: jstring
  rm_path :: jstring
  rm_endpoint :: jstring

text \<open>\<open>encodeURIComponent\<close> throws for a surrogate that stands alone.\<close>

datatype remote_answer = NoRemote | UriError | Remote remote

definition ascii_lower :: "nat \<Rightarrow> nat" where
  "ascii_lower c = (if 65 \<le> c \<and> c \<le> 90 then c + 32 else c)"

definition forbidden :: "nat \<Rightarrow> bool" where
  "forbidden c \<longleftrightarrow> js_space c \<or> c = 92 \<or> c < 32 \<or> c = 127 \<or> c = 63 \<or> c = 35"

definition js_trim :: "jstring \<Rightarrow> jstring" where
  "js_trim s = rev (dropWhile js_space (rev (dropWhile js_space s)))"

text \<open>\<open>git@host:path\<close>\<close>

definition scp_parts :: "jstring \<Rightarrow> (jstring \<times> jstring) option" where
  "scp_parts raw =
     (if take 4 raw \<noteq> lit ''git@'' then None
      else let host = takeWhile (\<lambda>c. c \<noteq> 47 \<and> c \<noteq> 58) (drop 4 raw); rest = dropWhile (\<lambda>c. c \<noteq> 47 \<and> c \<noteq> 58) (drop 4 raw) in
        case rest of
          c # p \<Rightarrow> if host \<noteq> [] \<and> c = 58 \<and> p \<noteq> [] then Some (host, p) else None
        | [] \<Rightarrow> None)"

definition without_first_slash :: "jstring \<Rightarrow> jstring" where
  "without_first_slash p = (case p of c # q \<Rightarrow> if c = 47 then q else p | [] \<Rightarrow> [])"

definition without_last_slash :: "jstring \<Rightarrow> jstring" where
  "without_last_slash p = (if p \<noteq> [] \<and> last p = 47 then butlast p else p)"

text \<open>The path of \<open>scheme://authority/path\<close> for the schemes http, https and ssh.\<close>

definition authority_path :: "jstring \<Rightarrow> jstring option" where
  "authority_path s =
     (let scheme = takeWhile (\<lambda>c. c \<noteq> 58) s; rest = dropWhile (\<lambda>c. c \<noteq> 58) s in
      if map ascii_lower scheme \<notin> {lit ''http'', lit ''https'', lit ''ssh''} \<or> take 3 rest \<noteq> lit ''://'' then None
      else let auth = takeWhile (\<lambda>c. c \<noteq> 47) (drop 3 rest) in
        case dropWhile (\<lambda>c. c \<noteq> 47) (drop 3 rest) of
          c # p \<Rightarrow> if auth \<noteq> [] \<and> p \<noteq> [] then Some p else None
        | [] \<Rightarrow> None)"

definition bad_segment :: "jstring \<Rightarrow> bool" where
  "bad_segment p \<longleftrightarrow> p = [] \<or> p = lit ''.'' \<or> p = lit ''..'' \<or> list_ex (\<lambda>c. c = 47 \<or> forbidden c) p"

definition strip_git :: "bool \<Rightarrow> jstring \<Rightarrow> jstring" where
  "strip_git any_case s =
     (let tail = drop (length s - 4) s in
      if length s \<ge> 4 \<and> (if any_case then map ascii_lower tail else tail) = lit ''.git'' then take (length s - 4) s else s)"

definition provider_of :: "jstring \<Rightarrow> provider option" where
  "provider_of host = (if host = lit ''github.com'' then Some Github else if host = lit ''gitee.com'' then Some Gitee else None)"

definition default_port :: "jstring \<Rightarrow> jstring" where
  "default_port protocol =
     (if protocol = lit ''ssh:'' then lit ''22'' else if protocol = lit ''https:'' then lit ''443'' else lit ''80'')"

definition endpoint_of :: "provider option \<Rightarrow> jstring \<Rightarrow> jstring \<Rightarrow> jstring" where
  "endpoint_of prov protocol port =
     (if prov \<noteq> None \<and> (protocol = lit ''https:'' \<and> port = lit ''443'' \<or> protocol = lit ''ssh:'' \<and> port = lit ''22'')
      then lit ''standard'' else protocol @ port)"

definition stripped_segments :: "provider option \<Rightarrow> jstring list \<Rightarrow> jstring list" where
  "stripped_segments prov segments =
     (case prov of None \<Rightarrow> segments | Some q \<Rightarrow> butlast segments @ [strip_git (q = Github) (last segments)])"

definition remote_identity :: "web_platform \<Rightarrow> (jstring \<times> jstring) option \<Rightarrow> provider option \<Rightarrow> jstring \<Rightarrow> jstring \<Rightarrow> jstring \<Rightarrow> jstring" where
  "remote_identity wp scp prov host endpoint path =
     stringify (JArr (map JStr
       [host, endpoint,
        (if prov \<noteq> None then lit ''repository''
         else case scp of Some (h, p) \<Rightarrow> if take 1 p = [47] then lit ''absolute'' else lit ''relative'' | None \<Rightarrow> lit ''absolute''),
        (if prov = Some Github then wp_lower wp path else path)]))"

definition canonical_url :: "(jstring \<times> jstring) option \<Rightarrow> url_parts \<Rightarrow> jstring \<Rightarrow> jstring \<Rightarrow> jstring \<Rightarrow> jstring" where
  "canonical_url scp u host path encoded =
     (case scp of
        Some (h, p) \<Rightarrow> lit ''git@'' @ host @ lit '':'' @ (if take 1 p = [47] then lit ''/'' else []) @ path
      | None \<Rightarrow> up_protocol u @ lit ''//'' @ (if up_protocol u = lit ''ssh:'' then lit ''git@'' else []) @ up_host u @ lit ''/'' @ encoded)"

text \<open>From the parsed URL and the decoded segments of the path.\<close>

definition located_remote ::
  "web_platform \<Rightarrow> bool \<Rightarrow> (jstring \<times> jstring) option \<Rightarrow> jstring list \<Rightarrow> url_parts \<Rightarrow> remote_answer" where
  "located_remote wp authored scp segments u =
     (let protocol = up_protocol u; host = wp_lower wp (up_hostname u); prov = provider_of host;
          segs = stripped_segments prov segments; path = join_with [47] segs;
          port = (if up_port u = [] then default_port protocol else up_port u) in
      if protocol = lit ''ssh:'' \<and> (up_username u \<noteq> lit ''git'' \<or> up_password u \<noteq> []) then NoRemote
      else if authored \<and> protocol \<noteq> lit ''ssh:'' \<and> (up_username u \<noteq> [] \<or> up_password u \<noteq> []) then NoRemote
      else if host = [] then NoRemote
      else if last segs = [] \<or> last segs = lit ''.'' \<or> last segs = lit ''..'' then NoRemote
      else (case those (map encodeURIComponent segs) of
          None \<Rightarrow> UriError
        | Some encoded \<Rightarrow> Remote
            \<lparr>rm_identity = remote_identity wp scp prov host (endpoint_of prov protocol port) path,
             rm_url = canonical_url scp u host path (join_with [47] encoded),
             rm_provider = prov, rm_protocol = protocol, rm_path = path, rm_endpoint = endpoint_of prov protocol port\<rparr>))"

definition parseRepositoryRemote :: "web_platform \<Rightarrow> bool \<Rightarrow> jval \<Rightarrow> remote_answer" where
  "parseRepositoryRemote wp authored v =
     (case v of
        JStr s \<Rightarrow>
          let raw = (if authored then s else js_trim s) in
          if raw = [] \<or> list_ex forbidden raw then NoRemote
          else let scp = scp_parts raw;
                   expanded = (case scp of Some (h, p) \<Rightarrow> lit ''ssh://git@'' @ h @ lit ''/'' @ without_first_slash p | None \<Rightarrow> raw) in
            (case authority_path expanded of
               None \<Rightarrow> NoRemote
             | Some p \<Rightarrow>
                 let written = split_on 47 (without_last_slash p) in
                 (case (if scp \<noteq> None then Some written else those (map decodeURIComponent written)) of
                    None \<Rightarrow> NoRemote
                  | Some segments \<Rightarrow>
                      if list_ex bad_segment segments then NoRemote
                      else (case wp_url wp expanded of
                          None \<Rightarrow> NoRemote
                        | Some u \<Rightarrow> located_remote wp authored scp segments u)))
      | _ \<Rightarrow> NoRemote)"

section \<open>Links\<close>

record source_ref =
  sr_path :: jstring
  sr_line :: "nat option"
  sr_end :: "nat option"

definition line_fragment :: "provider option \<Rightarrow> source_ref \<Rightarrow> jstring" where
  "line_fragment prov s =
     (case sr_line s of
        None \<Rightarrow> []
      | Some l \<Rightarrow> lit ''#L'' @ decimal l
          @ (case sr_end s of
               None \<Rightarrow> []
             | Some e \<Rightarrow> if e = l then [] else lit ''-'' @ (if prov = Some Github then lit ''L'' else []) @ decimal e))"

definition repositorySourceHref :: "provider option \<Rightarrow> jstring \<Rightarrow> jstring \<Rightarrow> source_ref \<Rightarrow> jstring option" where
  "repositorySourceHref prov url revision s =
     map_option (\<lambda>parts. url @ lit ''/blob/'' @ revision @ lit ''/'' @ join_with [47] parts @ line_fragment prov s)
       (those (map encodeURIComponent (split_on 47 (sr_path s))))"

end
