(* ===== verification/RemotesFacts.thy ===== *)
theory RemotesFacts
  imports Remotes
begin

text \<open>
  The URI functions undo each other, an accepted address names a plain path, and the forms of one
  repository have one identity.
\<close>

section \<open>URI components\<close>

lemma lit_empty [simp]: "lit s = [] \<longleftrightarrow> s = []" "[] = lit s \<longleftrightarrow> s = []"
  by (auto simp: lit_def)

lemma those_Some_iff: "those xs = Some ys \<longleftrightarrow> xs = map Some ys"
  by (induction xs arbitrary: ys) (auto split: option.splits simp: Cons_eq_map_conv)

lemma hex_value_upper: "n < 16 \<Longrightarrow> hex_value (upper_hex n) = Some n"
  by (auto simp: hex_value_def upper_hex_def is_digit_def)

lemma percent_byte_percent [simp]: "b < 256 \<Longrightarrow> percent_byte (percent b @ t) = Some (b, t)"
  by (simp add: percent_def hex_value_upper)

lemma decode_escape:
  "escaped_point (percent b @ t) = Some (n, u) \<Longrightarrow>
    decodeURIComponent (percent b @ t) = map_option ((@) (code_units n)) (decodeURIComponent u)"
  by (simp add: percent_def)

lemma continuation_percent [simp]:
  "percent_byte (percent (128 + m mod 64) @ t) = Some (128 + m mod 64, t)" "128 + m mod 64 < (192 :: nat)"
proof -
  have "m mod 64 < 64" by simp
  then have "128 + m mod 64 < 256" and u: "128 + m mod 64 < 192" by linarith+
  then show "percent_byte (percent (128 + m mod 64) @ t) = Some (128 + m mod 64, t)" by simp
  show "128 + m mod 64 < 192" by (rule u)
qed

lemma escaped_point_utf8:
  assumes "n \<le> 1114111" and "\<not> (55296 \<le> n \<and> n \<le> 57343)"
  shows "escaped_point (concat (map percent (utf8 n)) @ t) = Some (n, t)"
proof -
  have split: "64 * (n div 64) + n mod 64 = n" "64 * (n div 4096) + n div 64 mod 64 = n div 64"
    "64 * (n div 262144) + n div 4096 mod 64 = n div 4096"
    using mult_div_mod_eq [of 64 n] mult_div_mod_eq [of 64 "n div 64"] mult_div_mod_eq [of 64 "n div 4096"]
    by (simp_all add: div_mult2_eq [of n 64 64, symmetric, simplified] div_mult2_eq [of n 4096 64, symmetric, simplified])
  have "n < 128 \<or> 128 \<le> n \<and> n < 2048 \<or> 2048 \<le> n \<and> n < 65536 \<or> 65536 \<le> n" by linarith
  then show ?thesis
  proof (elim disjE conjE)
    assume "n < 128"
    then show ?thesis by (simp add: utf8_def escaped_point_def)
  next
    assume n: "128 \<le> n" "n < 2048"
    then have "n div 64 < 32" by linarith
    then show ?thesis using n assms split by (simp add: utf8_def escaped_point_def)
  next
    assume n: "2048 \<le> n" "n < 65536"
    then have "n div 4096 < 16" by linarith
    then show ?thesis using n assms split by (simp add: utf8_def escaped_point_def eval_nat_numeral(3)[symmetric] numeral_2_eq_2)
  next
    assume n: "65536 \<le> n"
    have d: "n div 262144 < 8" using assms by linarith
    then have e: "240 + n div 262144 < 256" by linarith
    show ?thesis using n assms split by (simp add: utf8_def escaped_point_def numeral_3_eq_3 d e percent_byte_percent [OF e])
  qed
qed

lemma code_units_point:
  assumes "high_surrogate c" and "low_surrogate d"
  shows "code_units (65536 + (c - 55296) * 1024 + (d - 56320)) = [c, d]" "65536 + (c - 55296) * 1024 + (d - 56320) \<le> 1114111"
proof -
  obtain k where k: "c = 55296 + k" "k < 1024" using assms(1) by (auto simp: high_surrogate_def le_iff_add)
  obtain j where j: "d = 56320 + j" "j < 1024" using assms(2) by (auto simp: low_surrogate_def le_iff_add)
  have "(k * 1024 + j) div 1024 = k" "(k * 1024 + j) mod 1024 = j" using j(2) by simp_all
  then show "code_units (65536 + (c - 55296) * 1024 + (d - 56320)) = [c, d]" by (simp add: k(1) j(1) code_units_def)
  show "65536 + (c - 55296) * 1024 + (d - 56320) \<le> 1114111" using k(2) j(2) by (simp add: k(1) j(1))
qed

lemma decode_point:
  assumes "n \<le> 1114111" and "\<not> (55296 \<le> n \<and> n \<le> 57343)"
  shows "decodeURIComponent (encode_point n @ t) = map_option ((@) (code_units n)) (decodeURIComponent t)"
proof (cases "uri_plain n")
  case True
  then have "n \<noteq> 37" "n < 65536" by (auto simp: uri_plain_def is_alpha_def is_digit_def)
  then show ?thesis using True by (cases "decodeURIComponent t") (simp_all add: encode_point_def code_units_def)
next
  case False
  note e = escaped_point_utf8 [OF assms, of t]
  have "utf8 n \<noteq> []" by (simp add: utf8_def)
  then obtain b bs where "utf8 n = b # bs" by (cases "utf8 n") auto
  then have p: "concat (map percent (utf8 n)) @ t = percent b @ (concat (map percent bs) @ t)" by simp
  show ?thesis using decode_escape [of b "concat (map percent bs) @ t" n t] e False unfolding p by (simp add: encode_point_def \<open>utf8 n = b # bs\<close>)
qed

text \<open>What was escaped is read back.\<close>

lemma decode_encode:
  assumes "encodeURIComponent s = Some t" and "\<forall>c \<in> set s. c < 65536"
  shows "decodeURIComponent t = Some s"
proof -
  have "decodeURIComponent (concat (map encode_point ps)) = Some s" if "uri_points s = Some ps" for ps
    using that assms(2)
  proof (induction s arbitrary: ps rule: uri_points.induct)
    case (2 c)
    then have "c \<le> 1114111" "\<not> (55296 \<le> c \<and> c \<le> 57343)" "ps = [c]"
      by (auto simp: high_surrogate_def low_surrogate_def split: if_splits)
    from decode_point [OF this(1,2), of "[]"] show ?case using 2 by (simp add: \<open>ps = [c]\<close> code_units_def)
  next
    case (3 c d cs)
    show ?case
    proof (cases "high_surrogate c \<and> low_surrogate d")
      case True
      then obtain qs where q: "uri_points cs = Some qs" "ps = (65536 + (c - 55296) * 1024 + (d - 56320)) # qs" using 3(3) by auto
      have "decodeURIComponent (concat (map encode_point qs)) = Some cs" using 3(1) True q 3(4) by auto
      then show ?thesis
        using True code_units_point [of c d] decode_point [of "65536 + (c - 55296) * 1024 + (d - 56320)" "concat (map encode_point qs)"]
        by (simp add: q(2))
    next
      case False
      then obtain qs where q: "uri_points (d # cs) = Some qs" "ps = c # qs" "\<not> (55296 \<le> c \<and> c \<le> 57343)"
        using 3(3) by (auto simp: high_surrogate_def low_surrogate_def split: if_splits)
      have "decodeURIComponent (concat (map encode_point qs)) = Some (d # cs)"
        using 3(2) False q 3(4) by (auto simp: high_surrogate_def low_surrogate_def)
      moreover have "c < 65536" using 3(4) by simp
      ultimately show ?thesis using decode_point [of c "concat (map encode_point qs)"] q(3) by (simp add: q(2) code_units_def)
    qed
  qed simp
  then show ?thesis using assms(1) by (auto simp: encodeURIComponent_def)
qed

lemma encoded_chars:
  assumes "encodeURIComponent s = Some t"
  shows "47 \<notin> set t" "35 \<notin> set t" "63 \<notin> set t"
proof -
  have hex: "upper_hex m \<noteq> c" if "c \<in> {47, 35, 63}" for c m using that by (auto simp: upper_hex_def)
  have "\<not> uri_plain c \<and> c \<noteq> 37" if "c \<in> {47, 35, 63}" for c
    using that by (auto simp: uri_plain_def is_alpha_def is_digit_def)
  moreover have "set (encode_point n) \<subseteq> {c. uri_plain c} \<union> {37} \<union> range upper_hex" for n
    by (auto simp: encode_point_def percent_def)
  ultimately have "c \<notin> set (encode_point n)" if "c \<in> {47, 35, 63}" for c n using that hex [OF that] by fastforce
  then have "c \<notin> set t" if "c \<in> {47, 35, 63}" for c using assms that by (auto simp: encodeURIComponent_def)
  then show "47 \<notin> set t" "35 \<notin> set t" "63 \<notin> set t" by blast+
qed

lemma plain_point: "uri_plain c \<Longrightarrow> \<not> high_surrogate c \<and> \<not> low_surrogate c"
  by (auto simp: uri_plain_def is_alpha_def is_digit_def high_surrogate_def low_surrogate_def)

lemma code_points_plain: "list_all uri_plain s \<Longrightarrow> uri_points s = Some s"
  by (induction s rule: uri_points.induct) (auto simp: plain_point)

lemma encode_plain: "list_all uri_plain s \<Longrightarrow> encodeURIComponent s = Some s"
proof -
  assume a: "list_all uri_plain s"
  then have "concat (map encode_point s) = s" by (induction s) (auto simp: encode_point_def)
  then show ?thesis using code_points_plain [OF a] by (simp add: encodeURIComponent_def)
qed

lemma decode_plain: "37 \<notin> set s \<Longrightarrow> decodeURIComponent s = Some s"
  by (induction s) auto

lemma plain_chars: "list_all uri_plain s \<Longrightarrow> c \<in> set s \<Longrightarrow> \<not> uri_plain d \<Longrightarrow> c \<noteq> d"
  by (auto simp: list_all_iff)

section \<open>Accepted addresses\<close>

lemma strip_git_segment:
  assumes "\<not> bad_segment s" and "strip_git b s \<noteq> []" "strip_git b s \<noteq> lit ''.''" "strip_git b s \<noteq> lit ''..''"
  shows "\<not> bad_segment (strip_git b s)"
proof -
  have "set (strip_git b s) \<subseteq> set s" by (auto simp: strip_git_def Let_def dest: in_set_takeD)
  then show ?thesis using assms by (auto simp: bad_segment_def list_ex_iff)
qed

lemma located_segments:
  assumes "located_remote wp authored scp segments u = Remote r" and "segments \<noteq> []" and "\<not> list_ex bad_segment segments"
  shows "split_on 47 (rm_path r) = stripped_segments (rm_provider r) segments"
    "\<not> list_ex bad_segment (stripped_segments (rm_provider r) segments)"
proof -
  let ?prov = "provider_of (wp_lower wp (up_hostname u))"
  let ?segs = "stripped_segments ?prov segments"
  have r: "rm_provider r = ?prov" "rm_path r = join_with [47] ?segs"
    and last: "last ?segs \<noteq> []" "last ?segs \<noteq> lit ''.''" "last ?segs \<noteq> lit ''..''"
    using assms(1) by (auto simp: located_remote_def Let_def split: if_splits option.splits)
  have "\<not> list_ex bad_segment ?segs"
  proof (cases ?prov)
    case None
    then show ?thesis using assms(3) by (simp add: stripped_segments_def)
  next
    case (Some q)
    have "\<not> bad_segment (last segments)" using assms(2,3) by (auto simp: list_ex_iff)
    then have "\<not> bad_segment (strip_git (q = Github) (last segments))"
      by (rule strip_git_segment) (use last Some in \<open>auto simp: stripped_segments_def\<close>)
    then show ?thesis using assms(3) Some by (auto simp: stripped_segments_def list_ex_iff dest: in_set_butlastD)
  qed
  moreover have "?segs \<noteq> []" using assms(2) by (auto simp: stripped_segments_def split: option.splits)
  moreover have "\<forall>p \<in> set ?segs. 47 \<notin> set p" using calculation(1) by (auto simp: list_ex_iff bad_segment_def)
  ultimately show "split_on 47 (rm_path r) = stripped_segments (rm_provider r) segments"
    "\<not> list_ex bad_segment (stripped_segments (rm_provider r) segments)" using r by (simp_all add: split_join)
qed

lemma parse_located:
  assumes "parseRepositoryRemote wp authored v = Remote r"
  obtains scp segments u where "located_remote wp authored scp segments u = Remote r" "segments \<noteq> []" "\<not> list_ex bad_segment segments"
proof -
  obtain scp segments u p where l: "located_remote wp authored scp segments u = Remote r" "\<not> list_ex bad_segment segments"
    and s: "(if scp \<noteq> None then Some (split_on 47 (without_last_slash p))
      else those (map decodeURIComponent (split_on 47 (without_last_slash p)))) = Some segments"
    using assms by (auto simp: parseRepositoryRemote_def Let_def split: jval.splits if_splits option.splits)
  have "segments \<noteq> []" using s by (auto simp: those_Some_iff split: if_splits)
  then show thesis using l that by blast
qed

text \<open>An accepted address has a plain path: no part of it is empty, is a dot or two dots, or has a slash, a
  space or a control character, also after percent escapes; a web address that an author wrote has no
  credentials.\<close>

lemma remote_path_plain:
  assumes "parseRepositoryRemote wp authored v = Remote r"
  shows "list_all (\<lambda>s. \<not> bad_segment s) (split_on 47 (rm_path r))"
proof -
  from parse_located [OF assms] obtain scp segments u
    where "located_remote wp authored scp segments u = Remote r" "segments \<noteq> []" "\<not> list_ex bad_segment segments" by blast
  from located_segments [OF this] show ?thesis by (simp add: list_all_iff list_ex_iff)
qed

section \<open>Links\<close>

lemma source_href_parts:
  assumes "repositorySourceHref prov url revision s = Some h" and "\<forall>c \<in> set (sr_path s). c < 65536"
  shows "\<exists>encoded. h = url @ lit ''/blob/'' @ revision @ lit ''/'' @ encoded @ line_fragment prov s
    \<and> map decodeURIComponent (split_on 47 encoded) = map Some (split_on 47 (sr_path s)) \<and> 35 \<notin> set encoded \<and> 63 \<notin> set encoded"
proof -
  obtain parts where parts: "map encodeURIComponent (split_on 47 (sr_path s)) = map Some parts"
    and h: "h = url @ lit ''/blob/'' @ revision @ lit ''/'' @ join_with [47] parts @ line_fragment prov s"
    using assms(1) by (auto simp: repositorySourceHref_def those_Some_iff)
  have ne: "parts \<noteq> []" using parts by (cases parts) auto
  have all: "list_all2 (\<lambda>p q. encodeURIComponent p = Some q) (split_on 47 (sr_path s)) parts"
    using parts by (auto simp: list_all2_conv_all_nth dest: map_eq_imp_length_eq) (metis length_map nth_map)
  then have free: "\<forall>q \<in> set parts. 47 \<notin> set q \<and> 35 \<notin> set q \<and> 63 \<notin> set q"
    by (induction rule: list_all2_induct) (simp_all add: encoded_chars)
  have decoded: "map decodeURIComponent parts = map Some (split_on 47 (sr_path s))"
  proof (rule nth_equalityI)
    show "length (map decodeURIComponent parts) = length (map Some (split_on 47 (sr_path s)))"
      using all by (simp add: list_all2_lengthD)
  next
    fix i assume "i < length (map decodeURIComponent parts)"
    then have i: "i < length parts" "i < length (split_on 47 (sr_path s))" using all by (auto dest: list_all2_lengthD)
    then have "encodeURIComponent (split_on 47 (sr_path s) ! i) = Some (parts ! i)" using all by (simp add: list_all2_conv_all_nth)
    moreover have "\<forall>c \<in> set (split_on 47 (sr_path s) ! i). c < 65536"
      using split_on_parts_chars [of "split_on 47 (sr_path s) ! i" 47 "sr_path s"] i(2) assms(2) by auto
    ultimately show "map decodeURIComponent parts ! i = map Some (split_on 47 (sr_path s)) ! i" using i by (simp add: decode_encode)
  qed
  have "split_on 47 (join_with [47] parts) = parts" by (rule split_join [OF ne]) (use free in blast)
  moreover have "set (join_with sep ps) \<subseteq> set sep \<union> \<Union> (set ` set ps)" for sep :: jstring and ps
    by (induction sep ps rule: join_with.induct) auto
  then have "c \<notin> set (join_with [47] parts)" if "c \<noteq> 47" "\<forall>q \<in> set parts. c \<notin> set q" for c
    using that by fastforce
  ultimately show ?thesis using h free decoded by auto
qed

section \<open>Two forms of one repository\<close>

definition plain_name :: "jstring \<Rightarrow> bool" where
  "plain_name s \<longleftrightarrow> list_all uri_plain s \<and> s \<noteq> [] \<and> s \<noteq> lit ''.'' \<and> s \<noteq> lit ''..''"

lemma plain_name_good: "plain_name s \<Longrightarrow> \<not> bad_segment s"
  by (auto simp: plain_name_def bad_segment_def list_all_iff list_ex_iff forbidden_def js_space_def uri_plain_def is_alpha_def is_digit_def)

lemma plain_no: "list_all uri_plain s \<Longrightarrow> \<not> uri_plain c \<Longrightarrow> c \<notin> set s"
  by (auto simp: list_all_iff)

lemma special_chars: "\<not> uri_plain 47" "\<not> uri_plain 58" "\<not> uri_plain 37" "\<not> uri_plain 64"
  by (simp_all add: uri_plain_def is_alpha_def is_digit_def)

lemma plain_allowed: "uri_plain c \<Longrightarrow> \<not> forbidden c"
  by (auto simp: forbidden_def js_space_def uri_plain_def is_alpha_def is_digit_def)

text \<open>The forms \<open>git@github.com:owner/name.git\<close> and \<open>https://github.com/owner/name\<close>.\<close>

definition scp_form :: "jstring \<Rightarrow> jstring \<Rightarrow> jstring" where
  "scp_form owner name = lit ''git@github.com:'' @ owner @ [47] @ name @ lit ''.git''"

definition web_form :: "jstring \<Rightarrow> jstring \<Rightarrow> jstring" where
  "web_form owner name = lit ''https://github.com/'' @ owner @ [47] @ name"

definition github_url :: "web_platform \<Rightarrow> jstring \<Rightarrow> jstring \<Rightarrow> jstring \<Rightarrow> bool" where
  "github_url wp s protocol user \<longleftrightarrow> (\<exists>u. wp_url wp s = Some u \<and> up_protocol u = protocol \<and> up_username u = user \<and> up_password u = []
     \<and> up_hostname u = lit ''github.com'' \<and> up_host u = lit ''github.com'' \<and> up_port u = [])"

lemma strip_git_added: "strip_git True (s @ lit ''.git'') = s"
  by (simp add: strip_git_def text_eval ascii_lower_def)

lemma located_github:
  assumes "u = \<lparr>up_protocol = protocol, up_username = user, up_password = [], up_hostname = lit ''github.com'',
      up_host = lit ''github.com'', up_port = []\<rparr>"
    and "wp_lower wp (lit ''github.com'') = lit ''github.com''" and "plain_name owner" "plain_name name"
    and "strip_git True last_name = name"
    and "protocol = lit ''ssh:'' \<and> user = lit ''git'' \<or> protocol = lit ''https:'' \<and> user = []"
  shows "\<exists>r. located_remote wp authored scp [owner, last_name] u = Remote r \<and> rm_path r = owner @ [47] @ name
    \<and> rm_provider r = Some Github \<and> rm_protocol r = protocol \<and> rm_endpoint r = lit ''standard''
    \<and> rm_identity r = remote_identity wp None (Some Github) (lit ''github.com'') (lit ''standard'') (owner @ [47] @ name)
    \<and> (scp = None \<longrightarrow> protocol = lit ''https:'' \<longrightarrow> rm_url r = web_form owner name)"
proof -
  have e: "encodeURIComponent owner = Some owner" "encodeURIComponent name = Some name"
    using assms(3,4) by (simp_all add: plain_name_def encode_plain)
  have n: "name \<noteq> []" "name \<noteq> lit ''.''" "name \<noteq> lit ''..''" using assms(4) by (simp_all add: plain_name_def)
  have segs: "stripped_segments (Some Github) [owner, last_name] = [owner, name]" by (simp add: stripped_segments_def assms(5))
  have pr: "provider_of (lit ''github.com'') = Some Github" by (simp add: provider_of_def)
  have ep: "endpoint_of (Some Github) protocol (default_port protocol) = lit ''standard''"
    using assms(6) by (auto simp: endpoint_of_def default_port_def)
  have web: "lit ''https:'' @ lit ''//'' @ lit ''github.com'' @ lit ''/'' @ owner @ 47 # name = web_form owner name"
    by (simp add: web_form_def text_eval)
  show ?thesis
    using assms(6) by (auto simp: located_remote_def Let_def assms(1,2) pr segs e n ep remote_identity_def canonical_url_def web)
qed

lemma parse_accepts:
  assumes "raw = (if authored then s else js_trim s)" and "raw \<noteq> []" and "\<not> list_ex forbidden raw"
    and "scp_parts raw = scp"
    and "e = (case scp of Some (h, p) \<Rightarrow> lit ''ssh://git@'' @ h @ lit ''/'' @ without_first_slash p | None \<Rightarrow> raw)"
    and "authority_path e = Some p"
    and "(if scp \<noteq> None then Some (split_on 47 (without_last_slash p))
      else those (map decodeURIComponent (split_on 47 (without_last_slash p)))) = Some segments"
    and "\<not> list_ex bad_segment segments" and "wp_url wp e = Some u"
  shows "parseRepositoryRemote wp authored (JStr s) = located_remote wp authored scp segments u"
  unfolding parseRepositoryRemote_def Let_def jval.case assms(1) [symmetric] assms(4) assms(5) [symmetric] assms(6) option.case
    assms(7) by (simp add: assms(2,3,8,9) del: list_ex_iff)

lemma scp_parsed:
  assumes "wp_lower wp (lit ''github.com'') = lit ''github.com''" and "plain_name owner" "plain_name name"
    and "github_url wp (lit ''ssh://git@github.com/'' @ owner @ [47] @ name @ lit ''.git'') (lit ''ssh:'') (lit ''git'')"
  shows "\<exists>r. parseRepositoryRemote wp authored (JStr (scp_form owner name)) = Remote r \<and> rm_path r = owner @ [47] @ name
    \<and> rm_provider r = Some Github
    \<and> rm_identity r = remote_identity wp None (Some Github) (lit ''github.com'') (lit ''standard'') (owner @ [47] @ name)"
proof -
  let ?p = "owner @ [47] @ name @ lit ''.git''"
  have pl: "list_all uri_plain owner" "list_all uri_plain name" "owner \<noteq> []" using assms(2,3) by (simp_all add: plain_name_def)
  have git: "list_all uri_plain (lit ''.git'')" by (simp add: text_eval uri_plain_def is_alpha_def is_digit_def)
  have free: "47 \<notin> set owner" "47 \<notin> set (name @ lit ''.git'')"
    using pl git plain_no special_chars(1) by (auto dest: plain_no)
  have ok: "\<not> list_ex forbidden (scp_form owner name)"
    using pl git plain_allowed by (auto simp: scp_form_def list_ex_iff list_all_iff text_eval forbidden_def js_space_def)
  have head: "js_trim (scp_form owner name) = scp_form owner name"
    by (simp add: scp_form_def js_trim_def text_eval js_space_def)
  have scp: "scp_parts (scp_form owner name) = Some (lit ''github.com'', ?p)"
    by (simp add: scp_parts_def scp_form_def text_eval)
  have "hd owner \<noteq> 47" using free(1) pl(3) by (cases owner) auto
  then have wfs: "without_first_slash ?p = ?p" using pl(3) by (cases owner) (simp_all add: without_first_slash_def)
  have ex: "lit ''ssh://git@github.com/'' @ ?p = (case Some (lit ''github.com'', ?p) of
      Some (h, p) \<Rightarrow> lit ''ssh://git@'' @ h @ lit ''/'' @ without_first_slash p | None \<Rightarrow> scp_form owner name)"
    unfolding option.case prod.case wfs by (simp add: text_eval)
  have path: "authority_path (lit ''ssh://git@github.com/'' @ ?p) = Some ?p"
    by (simp add: authority_path_def text_eval ascii_lower_def)
  have "without_last_slash ?p = ?p" by (simp add: without_last_slash_def text_eval)
  moreover have "split_on 47 ?p = [owner, name @ lit ''.git'']"
    using free by (simp add: split_on_append split_on_free)
  ultimately have parts: "(if Some (lit ''github.com'', ?p) \<noteq> None then Some (split_on 47 (without_last_slash ?p))
      else those (map decodeURIComponent (split_on 47 (without_last_slash ?p)))) = Some [owner, name @ lit ''.git'']" by simp
  have "\<not> bad_segment (name @ lit ''.git'')"
    by (rule plain_name_good) (use pl(2) git in \<open>auto simp: plain_name_def text_eval append_eq_Cons_conv\<close>)
  then have good: "\<not> list_ex bad_segment [owner, name @ lit ''.git'']" using plain_name_good [OF assms(2)] by simp
  obtain u where u: "wp_url wp (lit ''ssh://git@github.com/'' @ ?p) = Some u"
    "u = \<lparr>up_protocol = lit ''ssh:'', up_username = lit ''git'', up_password = [], up_hostname = lit ''github.com'',
      up_host = lit ''github.com'', up_port = []\<rparr>" using assms(4) by (auto simp: github_url_def)
  have "scp_form owner name = (if authored then scp_form owner name else js_trim (scp_form owner name))" "scp_form owner name \<noteq> []"
    using head by (simp_all add: scp_form_def)
  note parse_accepts [OF this ok scp ex path parts good u(1)]
  then show ?thesis using located_github [OF u(2) assms(1-3) strip_git_added] by fastforce
qed

lemma web_parsed:
  assumes "wp_lower wp (lit ''github.com'') = lit ''github.com''" and "plain_name owner" "plain_name name"
    and "strip_git True name = name" and "github_url wp (web_form owner name) (lit ''https:'') []"
  shows "\<exists>r. parseRepositoryRemote wp authored (JStr (web_form owner name)) = Remote r \<and> rm_path r = owner @ [47] @ name
    \<and> rm_provider r = Some Github \<and> rm_url r = web_form owner name \<and> rm_protocol r = lit ''https:'' \<and> rm_endpoint r = lit ''standard''
    \<and> rm_identity r = remote_identity wp None (Some Github) (lit ''github.com'') (lit ''standard'') (owner @ [47] @ name)"
proof -
  let ?p = "owner @ [47] @ name"
  have pl: "list_all uri_plain owner" "list_all uri_plain name" "name \<noteq> []" using assms(2,3) by (simp_all add: plain_name_def)
  have free: "47 \<notin> set owner" "47 \<notin> set name" "37 \<notin> set owner" "37 \<notin> set name"
    using pl plain_no special_chars(1,3) by (auto dest: plain_no)
  have ok: "\<not> list_ex forbidden (web_form owner name)"
    using pl plain_allowed by (auto simp: web_form_def list_ex_iff list_all_iff text_eval forbidden_def js_space_def)
  have "uri_plain (last name)" using pl(2,3) by (simp add: list_all_iff)
  then have "\<not> js_space (last name)" "last name \<noteq> 47"
    using plain_allowed [of "last name"] special_chars(1) by (auto simp: forbidden_def)
  moreover obtain xs x where x: "name = xs @ [x]" using pl(3) by (metis rev_exhaust)
  ultimately have head: "js_trim (web_form owner name) = web_form owner name" and wls: "without_last_slash ?p = ?p"
    by (simp_all add: web_form_def js_trim_def text_eval js_space_def [of 104] without_last_slash_def)
  have scp: "scp_parts (web_form owner name) = None" by (simp add: scp_parts_def web_form_def text_eval)
  have path: "authority_path (web_form owner name) = Some ?p"
    by (simp add: authority_path_def web_form_def text_eval ascii_lower_def)
  have "split_on 47 ?p = [owner, name]" using free by (simp add: split_on_append split_on_free)
  then have parts: "(if None \<noteq> (None :: (jstring \<times> jstring) option) then Some (split_on 47 (without_last_slash ?p))
      else those (map decodeURIComponent (split_on 47 (without_last_slash ?p)))) = Some [owner, name]"
    using wls free by (simp add: decode_plain)
  have good: "\<not> list_ex bad_segment [owner, name]" using plain_name_good assms(2,3) by simp
  obtain u where u: "wp_url wp (web_form owner name) = Some u"
    "u = \<lparr>up_protocol = lit ''https:'', up_username = [], up_password = [], up_hostname = lit ''github.com'',
      up_host = lit ''github.com'', up_port = []\<rparr>" using assms(5) by (auto simp: github_url_def)
  have "web_form owner name = (if authored then web_form owner name else js_trim (web_form owner name))" "web_form owner name \<noteq> []"
    using head by (simp_all add: web_form_def)
  note parse_accepts [OF this ok scp _ path parts good u(1)]
  then show ?thesis using located_github [OF u(2) assms(1-4)] by fastforce
qed

text \<open>The two usual addresses of one GitHub repository, \<open>git@github.com:owner/name.git\<close> and
  \<open>https://github.com/owner/name\<close>, are both accepted, with the same identity and path, whether an author
  wrote them or git printed them, so a checkout made over SSH is evidence for a diagram that names the
  web address; and the canonical web address is the address itself.\<close>

lemma remote_forms_agree:
  assumes "wp_lower wp (lit ''github.com'') = lit ''github.com''" and "plain_name owner" "plain_name name"
    and "strip_git True name = name" and "github_url wp (web_form owner name) (lit ''https:'') []"
    and "github_url wp (lit ''ssh://git@github.com/'' @ owner @ [47] @ name @ lit ''.git'') (lit ''ssh:'') (lit ''git'')"
  shows "\<exists>r q. parseRepositoryRemote wp a (JStr (web_form owner name)) = Remote r
    \<and> parseRepositoryRemote wp b (JStr (scp_form owner name)) = Remote q
    \<and> rm_identity r = rm_identity q \<and> rm_path r = owner @ [47] @ name \<and> rm_path q = rm_path r \<and> rm_url r = web_form owner name"
  using web_parsed [OF assms(1-5), of a] scp_parsed [OF assms(1-3,6), of b] by fastforce

definition sample_web :: web_platform where
  "sample_web =
     \<lparr>wp_url = (\<lambda>s. if take 6 s = lit ''ssh://''
        then Some \<lparr>up_protocol = lit ''ssh:'', up_username = lit ''git'', up_password = [], up_hostname = lit ''github.com'',
          up_host = lit ''github.com'', up_port = []\<rparr>
        else Some \<lparr>up_protocol = lit ''https:'', up_username = [], up_password = [], up_hostname = lit ''github.com'',
          up_host = lit ''github.com'', up_port = []\<rparr>),
      wp_lower = map ascii_lower\<rparr>"

lemma sample_names:
  "wp_lower sample_web (lit ''github.com'') = lit ''github.com''" "plain_name (lit ''acme'')" "plain_name (lit ''shop'')"
  "strip_git True (lit ''shop'') = lit ''shop''" "github_url sample_web (web_form (lit ''acme'') (lit ''shop'')) (lit ''https:'') []"
  "github_url sample_web (lit ''ssh://git@github.com/'' @ lit ''acme'' @ [47] @ lit ''shop'' @ lit ''.git'') (lit ''ssh:'') (lit ''git'')"
  by (simp_all add: sample_web_def text_eval ascii_lower_def plain_name_def uri_plain_def is_alpha_def is_digit_def strip_git_def
      github_url_def web_form_def)

lemma remote_forms_agree_witness:
  "\<exists>r q. parseRepositoryRemote sample_web True (JStr (lit ''https://github.com/acme/shop'')) = Remote r
    \<and> parseRepositoryRemote sample_web False (JStr (lit ''git@github.com:acme/shop.git'')) = Remote q
    \<and> rm_identity r = rm_identity q"
proof -
  have "web_form (lit ''acme'') (lit ''shop'') = lit ''https://github.com/acme/shop''"
    "scp_form (lit ''acme'') (lit ''shop'') = lit ''git@github.com:acme/shop.git''"
    by (simp_all add: web_form_def scp_form_def text_eval)
  with remote_forms_agree [OF sample_names, of True False] show ?thesis by metis
qed

end
