(* ===== verification/DeltaProperties.thy ===== *)
theory DeltaProperties
  imports DeltaFacts RemotesFacts
begin

text \<open>
  The contract of the architecture comparison, and two small snapshots on which it is evaluated.
\<close>

section \<open>Accepted inputs\<close>

definition shape_ok :: "jval \<Rightarrow> bool" where
  "shape_ok d \<longleftrightarrow> field d ''schema_version'' = JNum 1 \<and> field d ''diagram_type'' = JStr (lit ''architecture'')"

definition part :: "jval \<Rightarrow> string \<Rightarrow> jval list" where
  "part d k = items (field d k)"

definition repository :: "platform \<Rightarrow> jval \<Rightarrow> jval" where
  "repository pl d = normalizeRepository pl (field (field d ''meta'') ''repository'')"

definition guards_pass :: "platform \<Rightarrow> jval \<Rightarrow> jval \<Rightarrow> bool" where
  "guards_pass pl base head \<longleftrightarrow> shape_ok base \<and> shape_ok head
     \<and> stable_ids (part base ''components'') \<and> stable_ids (part head ''components'')
     \<and> (\<exists>b \<in> set (part base ''components''). \<exists>h \<in> set (part head ''components''). field b ''id'' = field h ''id'')
     \<and> stable_ids (part base ''connections'') \<and> stable_ids (part head ''connections'')
     \<and> distinct (map (boundaryKey pl) (part base ''boundaries'')) \<and> distinct (map (boundaryKey pl) (part head ''boundaries''))
     \<and> \<not> repository_clash pl (repository pl base) (repository pl head)"

lemma shape_Inr: "requireComparableShape d side = Inr u \<longleftrightarrow> shape_ok d"
  by (simp add: requireComparableShape_def shape_ok_def)

lemma shared_ids_iff:
  "shared_ids (id_index bs) (id_index hs) \<noteq> [] \<longleftrightarrow> (\<exists>b \<in> set bs. \<exists>h \<in> set hs. field b ''id'' = field h ''id'')"
  by (force simp: shared_ids_def filter_empty_conv)

lemma compare_Inr:
  "compareArchitecture pl base head verified = Inr r \<longleftrightarrow> guards_pass pl base head
     \<and> dl_components r = compareEntities (num_text pl) (id_index (part base ''components''))
         (id_index (part head ''components'')) Component COMPONENT_FIELDS
     \<and> dl_connections r = compareEntities (num_text pl) (id_index (part base ''connections''))
         (id_index (part head ''connections'')) Connection CONNECTION_FIELDS
     \<and> dl_boundaries r = compareEntities (num_text pl) (key_index pl (part base ''boundaries''))
         (key_index pl (part head ''boundaries'')) Boundary BOUNDARY_FIELDS
     \<and> dl_component_summary r = summaryFor (dl_components r) [Added, Changed, EvidenceChanged, Removed, Moved]
     \<and> dl_connection_summary r = summaryFor (dl_connections r) [Added, Changed, Removed, Rerouted]
     \<and> dl_boundary_summary r = summaryFor (dl_boundaries r) [Added, Changed, Removed, GeometryChanged]
     \<and> dl_presentation_changed r = presentationChanged (num_text pl) base head
     \<and> dl_provenance_changed r = (\<not> equal_values (num_text pl) (repository pl base) (repository pl head))
     \<and> dl_pinned r = (repository pl base \<noteq> JUndef \<and> repository pl head \<noteq> JUndef \<and> fst verified \<and> snd verified
         \<and> full_revision (repository pl base) \<and> full_revision (repository pl head))"
  unfolding compareArchitecture_def Let_def guards_pass_def part_def [symmetric] repository_def [symmetric]
    shared_ids_iff [symmetric]
  by (simp only: result_iff shape_Inr stableIndex_Inr boundaryIndex_Inr ex_simps simp_thms) (cases r; auto)

lemma comparison_acceptance:
  "(\<exists>r. compareArchitecture pl base head verified = Inr r) \<longleftrightarrow> guards_pass pl base head"
proof
  assume c: "guards_pass pl base head"
  define comps where "comps = compareEntities (num_text pl) (id_index (part base ''components''))
      (id_index (part head ''components'')) Component COMPONENT_FIELDS"
  define conns where "conns = compareEntities (num_text pl) (id_index (part base ''connections''))
      (id_index (part head ''connections'')) Connection CONNECTION_FIELDS"
  define bounds where "bounds = compareEntities (num_text pl) (key_index pl (part base ''boundaries''))
      (key_index pl (part head ''boundaries'')) Boundary BOUNDARY_FIELDS"
  show "\<exists>r. compareArchitecture pl base head verified = Inr r"
    unfolding compare_Inr comps_def [symmetric] conns_def [symmetric] bounds_def [symmetric]
    by (rule exI [of _ "\<lparr>dl_pinned = (repository pl base \<noteq> JUndef \<and> repository pl head \<noteq> JUndef \<and> fst verified
          \<and> snd verified \<and> full_revision (repository pl base) \<and> full_revision (repository pl head)),
        dl_components = comps, dl_connections = conns, dl_boundaries = bounds,
        dl_component_summary = summaryFor comps [Added, Changed, EvidenceChanged, Removed, Moved],
        dl_connection_summary = summaryFor conns [Added, Changed, Removed, Rerouted],
        dl_boundary_summary = summaryFor bounds [Added, Changed, Removed, GeometryChanged],
        dl_presentation_changed = presentationChanged (num_text pl) base head,
        dl_provenance_changed = (\<not> equal_values (num_text pl) (repository pl base) (repository pl head))\<rparr>"])
      (simp add: c)
qed (auto simp: compare_Inr)


definition names_repository :: "jval \<Rightarrow> jstring \<Rightarrow> bool" where
  "names_repository d u \<longleftrightarrow> truthy (field (field d ''meta'') ''repository'')
     \<and> field (field (field d ''meta'') ''repository'') ''url'' = JStr u"








section \<open>Two snapshots\<close>

definition sample_platform :: platform where
  "sample_platform = \<lparr>num_text = (\<lambda>_. lit ''1''), lower_text = (\<lambda>s. s), remote_of = (\<lambda>_. None)\<rparr>"

definition snapshot :: "jval list \<Rightarrow> jval" where
  "snapshot components = JObj [(lit ''schema_version'', JNum 1), (lit ''diagram_type'', JStr (lit ''architecture'')),
     (lit ''components'', JArr components)]"

definition component :: "string \<Rightarrow> string \<Rightarrow> jval" where
  "component i l = JObj [(lit ''id'', JStr (lit i)), (lit ''label'', JStr (lit l))]"

lemma component_id [simp]: "field (component i l) ''id'' = JStr (lit i)"
  by (simp add: component_def field_def)

lemma snapshot_parts [simp]:
  "part (snapshot cs) ''components'' = cs" "part (snapshot cs) ''connections'' = []" "part (snapshot cs) ''boundaries'' = []"
  "shape_ok (snapshot cs)" "repository pl (snapshot cs) = JUndef"
  by (simp_all add: snapshot_def part_def field_def shape_ok_def repository_def normalizeRepository_def)

lemma snapshots_accepted:
  assumes "stable_ids cs" and "stable_ids ds" and "\<exists>b \<in> set cs. \<exists>h \<in> set ds. field b ''id'' = field h ''id''"
  shows "\<exists>r. compareArchitecture sample_platform (snapshot cs) (snapshot ds) verified = Inr r"
  unfolding comparison_acceptance
  using assms by (simp add: guards_pass_def stable_ids_def repository_clash_def)


definition located_snapshot :: "string \<Rightarrow> jval" where
  "located_snapshot url = JObj [(lit ''schema_version'', JNum 1), (lit ''diagram_type'', JStr (lit ''architecture'')),
     (lit ''meta'', JObj [(lit ''repository'', JObj [(lit ''url'', JStr (lit url)), (lit ''revision'', JStr (lit ''0''))])]),
     (lit ''components'', JArr [component ''a'' ''A'']),
     (lit ''boundaries'', JArr [JObj [(lit ''kind'', JStr (lit ''region'')), (lit ''label'', JStr (lit ''eu''))],
       JObj [(lit ''kind'', JStr (lit ''security-group'')), (lit ''label'', JStr (lit ''eu''))]])]"

lemma located_parts [simp]:
  "part (located_snapshot url) ''components'' = [component ''a'' ''A'']" "part (located_snapshot url) ''connections'' = []"
  "part (located_snapshot url) ''boundaries'' = [JObj [(lit ''kind'', JStr (lit ''region'')), (lit ''label'', JStr (lit ''eu''))],
     JObj [(lit ''kind'', JStr (lit ''security-group'')), (lit ''label'', JStr (lit ''eu''))]]"
  "shape_ok (located_snapshot url)" "names_repository (located_snapshot url) u \<longleftrightarrow> u = lit url"
  "truthy (field (field (located_snapshot url) ''meta'') ''repository'')"
  by (auto simp: located_snapshot_def part_def field_def shape_ok_def names_repository_def)






section \<open>Reported changes\<close>

lemma map_of_id_index:
  assumes "stable_ids vs"
  shows "map_of (id_index vs) i = Some v \<longleftrightarrow> v \<in> set vs \<and> field v ''id'' = i"
proof -
  have "distinct (map fst (id_index vs))" using assms by (simp add: stable_ids_def)
  then have "map_of (id_index vs) i = Some v \<longleftrightarrow> (i, v) \<in> set (id_index vs)" by simp
  then show ?thesis by (auto simp: id_index_def)
qed

text \<open>C35: the report on components is complete and minimal: every id of either snapshot is reported at most
  once, and it goes unreported exactly when both snapshots have it and no tracked field differs.\<close>

theorem delta_complete:
  assumes "compareArchitecture pl base head verified = Inr r"
    and "i \<in> (\<lambda>v. field v ''id'') ` set (part base ''components'' @ part head ''components'')"
  shows "distinct (map ch_id (dl_components r))
    \<and> (i \<notin> ch_id ` set (dl_components r) \<longleftrightarrow>
        (\<exists>b \<in> set (part base ''components''). \<exists>a \<in> set (part head ''components''). field b ''id'' = i \<and> field a ''id'' = i
          \<and> (\<forall>k \<in> set (tracked COMPONENT_FIELDS). \<not> field_differs (num_text pl) b a k)))"
proof -
  let ?b = "id_index (part base ''components'')" and ?h = "id_index (part head ''components'')"
  have r: "dl_components r = compareEntities (num_text pl) ?b ?h Component COMPONENT_FIELDS"
    and ids: "stable_ids (part base ''components'')" "stable_ids (part head ''components'')"
    using assms(1) by (simp_all add: compare_Inr guards_pass_def)
  have "i \<in> set (report_ids (num_text pl) ?b ?h)"
    using assms(2) by (auto simp: id_index_def image_iff)
  moreover have "ch_id ` set (dl_components r) = set (map ch_id (dl_components r))" by simp
  ultimately have "i \<notin> ch_id ` set (dl_components r) \<longleftrightarrow>
      compare_entity (num_text pl) Component COMPONENT_FIELDS i (map_of ?b i) (map_of ?h i) = None"
    unfolding r change_ids by auto
  then show ?thesis
    unfolding compare_entity_None map_of_id_index [OF ids(1)] map_of_id_index [OF ids(2)] r
    using distinct_change_ids by blast
qed

lemma delta_complete_witness:
  "\<exists>r. compareArchitecture sample_platform (snapshot [component ''a'' ''A'']) (snapshot [component ''a'' ''A'', component ''b'' ''B'']) (False, False) = Inr r
     \<and> JStr (lit ''b'') \<in> ch_id ` set (dl_components r)"
proof -
  let ?base = "snapshot [component ''a'' ''A'']" and ?head = "snapshot [component ''a'' ''A'', component ''b'' ''B'']"
  obtain r where r: "compareArchitecture sample_platform ?base ?head (False, False) = Inr r"
    using snapshots_accepted [of "[component ''a'' ''A'']" "[component ''a'' ''A'', component ''b'' ''B'']"]
    by (auto simp: stable_ids_def lit_Cons)
  from delta_complete [OF r, of "JStr (lit ''b'')"] have "JStr (lit ''b'') \<in> ch_id ` set (dl_components r)" by simp
  with r show ?thesis by blast
qed

text \<open>The comparison does not depend on the order of items: snapshots whose components, connections and
  boundaries are permutations of each other have no reported change.\<close>

lemma delta_ignores_order:
  assumes "compareArchitecture pl base head verified = Inr r"
    and "mset (part base ''components'') = mset (part head ''components'')"
    and "mset (part base ''connections'') = mset (part head ''connections'')"
    and "mset (part base ''boundaries'') = mset (part head ''boundaries'')"
  shows "dl_components r = [] \<and> dl_connections r = [] \<and> dl_boundaries r = []"
proof -
  have c: "guards_pass pl base head" using assms(1) by (simp add: compare_Inr)
  have ids: "map_of (id_index xs) = map_of (id_index ys)" if "mset xs = mset ys" "stable_ids xs" for xs ys
    using that by (intro map_of_perm) (simp_all add: id_index_def stable_ids_def comp_def)
  have keys: "map_of (key_index pl xs) = map_of (key_index pl ys)"
    if "mset xs = mset ys" "distinct (map (boundaryKey pl) xs)" for xs ys
    using that by (intro map_of_perm) (simp_all add: key_index_def comp_def distinct_map inj_on_def)
  have "dl_components r = []" "dl_connections r = []"
    using assms(1) no_changes [OF ids [OF assms(2)]] no_changes [OF ids [OF assms(3)]] c
    by (simp_all only: compare_Inr guards_pass_def)
  moreover have "dl_boundaries r = []"
    using assms(1) no_changes [OF keys [OF assms(4)]] c by (simp only: compare_Inr guards_pass_def)
  ultimately show ?thesis by simp
qed

lemma delta_ignores_order_witness:
  "\<exists>r. compareArchitecture sample_platform (snapshot [component ''a'' ''A'', component ''b'' ''B''])
       (snapshot [component ''b'' ''B'', component ''a'' ''A'']) (False, False) = Inr r \<and> dl_components r = []"
proof -
  let ?base = "snapshot [component ''a'' ''A'', component ''b'' ''B'']"
    and ?head = "snapshot [component ''b'' ''B'', component ''a'' ''A'']"
  obtain r where r: "compareArchitecture sample_platform ?base ?head (False, False) = Inr r"
    using snapshots_accepted [of "[component ''a'' ''A'', component ''b'' ''B'']" "[component ''b'' ''B'', component ''a'' ''A'']"]
    by (auto simp: stable_ids_def lit_Cons)
  from delta_ignores_order [OF r] r show ?thesis by (simp add: add_mset_commute)
qed

text \<open>Canonical text does not depend on the order of object keys, at any depth; so neither does any
  comparison of two values.\<close>

lemma canonical_key_order:
  assumes "reordered v w"
  shows "canonical num v = canonical num w"
  by (rule reordered_canonical [OF assms])

lemma canonical_key_order_witness:
  "canonical (\<lambda>_. []) (JObj [(lit ''a'', JNull), (lit ''b'', JBool True)]) = canonical (\<lambda>_. []) (JObj [(lit ''b'', JBool True), (lit ''a'', JNull)])"
proof (rule canonical_key_order, rule reordered.objects)
  show "list_all2 (rel_prod (=) reordered) [(lit ''a'', JNull), (lit ''b'', JBool True)] [(lit ''a'', JNull), (lit ''b'', JBool True)]"
    by (simp add: reordered.same)
qed simp_all

definition with_status :: "change list \<Rightarrow> status \<Rightarrow> jval set" where
  "with_status cs s = {ch_id c | c. c \<in> set cs \<and> ch_status c = s}"

fun reversed :: "status \<Rightarrow> status" where
  "reversed Added = Removed"
| "reversed Removed = Added"
| "reversed s = s"

lemma compare_entity_reversed:
  assumes "before \<noteq> None \<or> after \<noteq> None"
  shows "map_option ch_status (compare_entity num e groups i after before)
    = map_option (\<lambda>c. reversed (ch_status c)) (compare_entity num e groups i before after)"
  using assms
proof (cases before; cases after)
  fix b a
  assume ba: "before = Some b" "after = Some a"
  have "reversed s = s" if "s \<noteq> Added" "s \<noteq> Removed" for s using that by (cases s) auto
  then show ?thesis using statusFor_kept
    by (simp add: ba compare_entity_def Let_def split_beta fieldChanges_sym [of num a b])
qed (auto simp: compare_entity_def)

lemma with_status_iff:
  "i \<in> with_status (compareEntities num base head e groups) s \<longleftrightarrow>
     i \<in> set (report_ids num base head)
     \<and> map_option ch_status (compare_entity num e groups i (map_of base i) (map_of head i)) = Some s"
proof
  let ?f = "\<lambda>i. compare_entity num e groups i (map_of base i) (map_of head i)"
  assume "i \<in> with_status (compareEntities num base head e groups) s"
  then obtain c j where c: "ch_id c = i" "ch_status c = s" and j: "j \<in> set (report_ids num base head)" "?f j = Some c"
    unfolding with_status_def compareEntities_alt set_map_filter by blast
  have "j = i" using compare_entity_id [OF j(2)] c(1) by simp
  with c j show "i \<in> set (report_ids num base head) \<and> map_option ch_status (?f i) = Some s" by simp
next
  let ?f = "\<lambda>i. compare_entity num e groups i (map_of base i) (map_of head i)"
  assume i: "i \<in> set (report_ids num base head) \<and> map_option ch_status (?f i) = Some s"
  then obtain c where c: "?f i = Some c" "ch_status c = s" by blast
  have "ch_id c = i" by (rule compare_entity_id [OF c(1)])
  with i c show "i \<in> with_status (compareEntities num base head e groups) s"
    unfolding with_status_def compareEntities_alt set_map_filter by blast
qed

lemma entities_reversed:
  "with_status (compareEntities num head base e groups) s = with_status (compareEntities num base head e groups) (reversed s)"
proof (rule set_eqI)
  fix i
  have r: "reversed x = s \<longleftrightarrow> x = reversed s" for x by (cases x; cases s) auto
  have ids: "set (report_ids num head base) = set (report_ids num base head)" by auto
  show "i \<in> with_status (compareEntities num head base e groups) s \<longleftrightarrow>
      i \<in> with_status (compareEntities num base head e groups) (reversed s)"
  proof (cases "i \<in> set (report_ids num base head)")
    case True
    then have "map_of base i \<noteq> None \<or> map_of head i \<noteq> None"
      unfolding map_of_eq_None_iff set_report_ids by blast
    have eq: "map_option (\<lambda>c. reversed (ch_status c)) x = Some s \<longleftrightarrow> map_option ch_status x = Some (reversed s)" for x
      by (cases x) (simp_all add: r)
    show ?thesis
      unfolding with_status_iff ids compare_entity_reversed [OF \<open>map_of base i \<noteq> None \<or> map_of head i \<noteq> None\<close>] eq ..
  qed (auto simp: with_status_iff ids)
qed

text \<open>Exchanging the snapshots exchanges additions and removals, and leaves every other status as it
  is, for components, connections and boundaries alike.\<close>

lemma delta_reversal:
  assumes "compareArchitecture pl base head verified = Inr r" and "compareArchitecture pl head base verified' = Inr r'"
  shows "with_status (dl_components r') s = with_status (dl_components r) (reversed s)
    \<and> with_status (dl_connections r') s = with_status (dl_connections r) (reversed s)
    \<and> with_status (dl_boundaries r') s = with_status (dl_boundaries r) (reversed s)"
proof -
  note r = assms [unfolded compare_Inr]
  have eqs: "dl_components r = compareEntities (num_text pl) (id_index (part base ''components''))
       (id_index (part head ''components'')) Component COMPONENT_FIELDS"
    "dl_connections r = compareEntities (num_text pl) (id_index (part base ''connections''))
       (id_index (part head ''connections'')) Connection CONNECTION_FIELDS"
    "dl_boundaries r = compareEntities (num_text pl) (key_index pl (part base ''boundaries''))
       (key_index pl (part head ''boundaries'')) Boundary BOUNDARY_FIELDS"
    "dl_components r' = compareEntities (num_text pl) (id_index (part head ''components''))
       (id_index (part base ''components'')) Component COMPONENT_FIELDS"
    "dl_connections r' = compareEntities (num_text pl) (id_index (part head ''connections''))
       (id_index (part base ''connections'')) Connection CONNECTION_FIELDS"
    "dl_boundaries r' = compareEntities (num_text pl) (key_index pl (part head ''boundaries''))
       (key_index pl (part base ''boundaries'')) Boundary BOUNDARY_FIELDS"
    using r by blast+
  show ?thesis unfolding eqs by (intro conjI entities_reversed)
qed

lemma delta_reversal_witness:
  "\<exists>r r'. compareArchitecture sample_platform (snapshot [component ''a'' ''A'']) (snapshot [component ''a'' ''A'', component ''b'' ''B'']) (False, False) = Inr r
     \<and> compareArchitecture sample_platform (snapshot [component ''a'' ''A'', component ''b'' ''B'']) (snapshot [component ''a'' ''A'']) (False, False) = Inr r'
     \<and> with_status (dl_components r') Removed = with_status (dl_components r) Added"
proof -
  let ?base = "snapshot [component ''a'' ''A'']" and ?head = "snapshot [component ''a'' ''A'', component ''b'' ''B'']"
  obtain r where r: "compareArchitecture sample_platform ?base ?head (False, False) = Inr r"
    using snapshots_accepted [of "[component ''a'' ''A'']" "[component ''a'' ''A'', component ''b'' ''B'']"]
    by (auto simp: stable_ids_def lit_Cons)
  obtain r' where r': "compareArchitecture sample_platform ?head ?base (False, False) = Inr r'"
    using snapshots_accepted [of "[component ''a'' ''A'', component ''b'' ''B'']" "[component ''a'' ''A'']"]
    by (auto simp: stable_ids_def lit_Cons)
  from delta_reversal [OF r r', of Removed] r r' show ?thesis by auto
qed

end
