(* ===== verification/Diagrams.thy ===== *)
theory Diagrams
  imports RouteGates Ports TextFit Profiles Legend StableSort
begin

text \<open>
  What the renderers of the diagram types share: reading the fields of a diagram, the keyed
  \<open>Map\<close> of its nodes, the labels of its relationships and the list of problems a validation
  collects.  A diagram is its JSON value after schema validation; its relationships keep their
  identity as objects.
\<close>

section \<open>Fields\<close>

fun number_of :: "jval \<Rightarrow> jsnum" where
  "number_of (JNum x) = Some x"
| "number_of _ = None"

lemma lit_eq_Nil [simp]: "lit s = [] \<longleftrightarrow> s = []"
  by (simp add: lit_def)

text \<open>\<open>v ?? d\<close> and \<open>v || d\<close> for a numeric field.\<close>

definition number_or :: "real \<Rightarrow> jval \<Rightarrow> real" where
  "number_or d v = (case v of JNum x \<Rightarrow> x | _ \<Rightarrow> d)"

definition nonzero_or :: "real \<Rightarrow> jval \<Rightarrow> real" where
  "nonzero_or d v = (if truthy v then number_or d v else d)"

definition is_integer :: "jval \<Rightarrow> bool" where
  "is_integer v \<longleftrightarrow> (case v of JNum x \<Rightarrow> of_int \<lfloor>x\<rfloor> = x | _ \<Rightarrow> False)"

definition plus_js :: "jsnum \<Rightarrow> jsnum \<Rightarrow> jsnum" where
  "plus_js a b = (case (a, b) of (Some x, Some y) \<Rightarrow> Some (x + y) | _ \<Rightarrow> None)"

definition times_js :: "jsnum \<Rightarrow> jsnum \<Rightarrow> jsnum" where
  "times_js a b = (case (a, b) of (Some x, Some y) \<Rightarrow> Some (x * y) | _ \<Rightarrow> None)"

text \<open>Comparisons with a value that is not a number are false (a schema-valid bound is a number, and a
  height that is not has its own problem).\<close>

definition less_js :: "jsnum \<Rightarrow> jsnum \<Rightarrow> bool" where
  "less_js a b \<longleftrightarrow> (case (a, b) of (Some x, Some y) \<Rightarrow> x < y | _ \<Rightarrow> False)"

definition le_js :: "jsnum \<Rightarrow> jsnum \<Rightarrow> bool" where
  "le_js a b \<longleftrightarrow> (case (a, b) of (Some x, Some y) \<Rightarrow> x \<le> y | _ \<Rightarrow> False)"

definition number_at :: "nat \<Rightarrow> jval list \<Rightarrow> jsnum" where
  "number_at i vs = (if i < length vs then number_of (vs ! i) else None)"

text \<open>A value that indexes an array.\<close>

definition column_index :: "jval \<Rightarrow> nat option" where
  "column_index v = (case v of JNum c \<Rightarrow> if of_int \<lfloor>c\<rfloor> = c \<and> 0 \<le> c then Some (nat \<lfloor>c\<rfloor>) else None | _ \<Rightarrow> None)"

text \<open>A point and a list of points as the schema admits them.\<close>

definition point_of :: "jval \<Rightarrow> point option" where
  "point_of v = (case items v of [a, b] \<Rightarrow>
       (case (number_of a, number_of b) of (Some x, Some y) \<Rightarrow> Some (x, y) | _ \<Rightarrow> None)
     | _ \<Rightarrow> None)"

definition points_of :: "jval \<Rightarrow> point list" where
  "points_of v = List.map_filter point_of (items v)"

definition view_box :: "jval \<Rightarrow> point option" where
  "view_box meta = point_of (field meta ''viewBox'')"

text \<open>The units of \<open>String(v ?? '')\<close>.\<close>

definition shown :: "number_text \<Rightarrow> jval \<Rightarrow> jstring" where
  "shown num v = (if v = JUndef \<or> v = JNull then [] else js_string num v)"

definition label_units :: "number_text \<Rightarrow> jval \<Rightarrow> real" where
  "label_units num v = real (textUnits (shown num v))"

definition side_name :: "jval \<Rightarrow> jstring" where
  "side_name v = (case v of JStr s \<Rightarrow> s | _ \<Rightarrow> [])"

section \<open>Nodes\<close>

text \<open>The \<open>Map\<close> of nodes: a later entry with the same id replaces the earlier one in place.\<close>

fun map_put :: "'k \<Rightarrow> 'v \<Rightarrow> ('k \<times> 'v) list \<Rightarrow> ('k \<times> 'v) list" where
  "map_put k v [] = [(k, v)]"
| "map_put k v ((k', v') # ps) = (if k = k' then (k, v) # ps else (k', v') # map_put k v ps)"

record placed_node =
  pn_object :: jval
  pn_box :: node_box

definition box_of :: "jval \<Rightarrow> rect \<Rightarrow> node_box" where
  "box_of i r = \<lparr>rx = rx r, ry = ry r, rwidth = rwidth r, rheight = rheight r, bid = i,
     cx = rx r + rwidth r / 2, cy = ry r + rheight r / 2\<rparr>"

definition rect_of :: "node_box \<Rightarrow> rect" where
  "rect_of b = rect.truncate b"

definition raw_of :: "rect \<Rightarrow> raw_rect" where
  "raw_of r = \<lparr>raw_x = Some (rx r), raw_y = Some (ry r), raw_width = Some (rwidth r), raw_height = Some (rheight r)\<rparr>"

definition node_obstacles :: "(jval \<times> placed_node) list \<Rightarrow> obstacle option list" where
  "node_obstacles ns = map (\<lambda>(i, n). Some \<lparr>ob_id = i, ob_rect = raw_of (rect_of (pn_box n))\<rparr>) ns"

text \<open>A measured node with a numeric box.\<close>

definition placed_component :: "jval \<times> jval \<times> raw_rect \<Rightarrow> (jval \<times> placed_node) option" where
  "placed_component e = (case e of (i, c, r) \<Rightarrow>
     map_option (\<lambda>k. (i, \<lparr>pn_object = c, pn_box = box_of i k\<rparr>)) (finite_rect r))"

text \<open>\<open>Math.min\<close> of a list that is not empty.\<close>

fun least :: "real list \<Rightarrow> real" where
  "least [] = 0"
| "least [x] = x"
| "least (x # y # ys) = min x (least (y # ys))"

fun greatest :: "real list \<Rightarrow> real" where
  "greatest [] = 0"
| "greatest [x] = x"
| "greatest (x # y # ys) = max x (greatest (y # ys))"

lemma least_le: "x \<in> set xs \<Longrightarrow> least xs \<le> x"
  by (induction xs rule: least.induct) auto

lemma greatest_ge: "x \<in> set xs \<Longrightarrow> x \<le> greatest xs"
  by (induction xs rule: greatest.induct) auto

lemma least_ge: "xs \<noteq> [] \<Longrightarrow> \<forall>x \<in> set xs. b \<le> x \<Longrightarrow> b \<le> least xs"
  by (induction xs rule: least.induct) auto

lemma least_mem: "xs \<noteq> [] \<Longrightarrow> least xs \<in> set xs"
  by (induction xs rule: least.induct) (auto simp: min_def)

lemma distinct_filter_nth:
  assumes "distinct (map f (filter P xs))" and "i < j" and "j < length xs" and "P (xs ! i)" and "P (xs ! j)"
  shows "f (xs ! i) \<noteq> f (xs ! j)"
proof -
  have xs: "xs = take j xs @ xs ! j # drop (Suc j) xs" using assms(3) by (rule id_take_nth_drop)
  have "xs ! i \<in> set (filter P (take j xs))" using assms(2-4) by (auto simp: in_set_conv_nth)
  then have "f (xs ! i) \<in> f ` set (filter P (take j xs))" by (rule imageI)
  moreover have "f (xs ! j) \<notin> f ` set (filter P (take j xs))"
    using assms(1,5) by (subst (asm) xs) simp
  ultimately show ?thesis by metis
qed

section \<open>Relationships\<close>

text \<open>A label position that is not a pair of numbers is refused by the schema; the segment index is an
  integer there.\<close>

definition knobs :: "relation \<Rightarrow> label_knobs" where
  "knobs r = \<lparr>labelAt = point_of (rel r ''labelAt''), labelDx = number_of (rel r ''labelDx''),
     labelDy = number_of (rel r ''labelDy''), labelSegment = map_option floor (number_of (rel r ''labelSegment''))\<rparr>"

definition all_relations :: "relation list \<Rightarrow> relation option list option" where
  "all_relations rs = Some (map Some rs)"

text \<open>The step of the animation at which a node appears: with the first relationship that touches it.\<close>

definition put_new :: "'k \<Rightarrow> 'v \<Rightarrow> ('k \<times> 'v) list \<Rightarrow> ('k \<times> 'v) list" where
  "put_new k v m = (if map_of m k = None then m @ [(k, v)] else m)"

definition node_steps :: "relation list \<Rightarrow> jval list \<Rightarrow> (jval \<times> nat) list" where
  "node_steps relations nodes =
     foldl (\<lambda>m (i, n). put_new (field n ''id'') i m)
       (foldl (\<lambda>m (i, r). put_new (rel r ''to'') (Suc i) (put_new (rel r ''from'') i m)) [] (indexed relations))
       (indexed nodes)"

section \<open>Routes between nodes\<close>

type_synonym node_map = "(jval \<times> placed_node) list"

definition node_at :: "node_map \<Rightarrow> jval \<Rightarrow> node_box option" where
  "node_at ns i = map_option pn_box (map_of ns i)"

text \<open>The ends of a connection, when both are known.\<close>

definition connection_ends :: "node_map \<Rightarrow> relation \<Rightarrow> (node_box \<times> node_box) option" where
  "connection_ends ns conn = (case (node_at ns (rel conn ''from''), node_at ns (rel conn ''to'')) of
     (Some f, Some t) \<Rightarrow> Some (f, t) | _ \<Rightarrow> None)"

text \<open>The sides at which a relationship leaves and enters, the authored ones first.\<close>

definition connectionSides :: "relation \<Rightarrow> node_box \<Rightarrow> node_box \<Rightarrow> jval \<times> jval" where
  "connectionSides conn f t =
     (chosenSide (rel conn ''fromSide'') (defaultFromSide f t), chosenSide (rel conn ''toSide'') (defaultToSide f t))"

definition connectionEndpointSide :: "node_map \<Rightarrow> endpoint \<Rightarrow> relation \<Rightarrow> jval" where
  "connectionEndpointSide ns w conn = (case connection_ends ns conn of
     None \<Rightarrow> JUndef
   | Some (f, t) \<Rightarrow> (case w of Source \<Rightarrow> fst (connectionSides conn f t) | Target \<Rightarrow> snd (connectionSides conn f t)))"

definition is_vertical :: "jval \<Rightarrow> bool" where "is_vertical s \<longleftrightarrow> s = TOP \<or> s = BOTTOM"
definition is_horizontal :: "jval \<Rightarrow> bool" where "is_horizontal s \<longleftrightarrow> s = LEFT \<or> s = RIGHT"

definition through_x :: "real \<Rightarrow> point \<Rightarrow> point \<Rightarrow> point list" where
  "through_x x s e = [(x, snd s), (x, snd e)]"

definition through_y :: "real \<Rightarrow> point \<Rightarrow> point \<Rightarrow> point list" where
  "through_y y s e = [(fst s, y), (fst e, y)]"

definition closed :: "point \<Rightarrow> point list \<Rightarrow> point \<Rightarrow> point list" where
  "closed s via e = [s] @ via @ [e]"

definition some_or :: "'a option \<Rightarrow> 'a \<Rightarrow> 'a" where
  "some_or v d = (case v of None \<Rightarrow> d | Some x \<Rightarrow> x)"

definition or_value :: "jval \<Rightarrow> jval \<Rightarrow> jval" where
  "or_value v d = (if truthy v then v else d)"

text \<open>The automatic ports of the renderers that spread them over the sides they really use.\<close>

definition sided_ports :: "number_text \<Rightarrow> relation list \<Rightarrow> node_map \<Rightarrow> nat \<times> endpoint \<rightharpoonup> point" where
  "sided_ports num rs ns = automaticPortSpread num (all_relations rs) (node_at ns) 16 14
     (Some (\<lambda>r w. connectionEndpointSide ns w r))"

text \<open>The box of a label on its route: its point, and a rectangle of a given size that starts above it.\<close>

definition label_box :: "relation \<Rightarrow> point list option \<Rightarrow> real \<Rightarrow> real \<times> real \<Rightarrow> (point \<times> rect) option" where
  "label_box r route up wh =
     (if \<not> truthy (rel r ''label'') then None
      else Option.bind route (\<lambda>ps. map_option
        (\<lambda>p. (p, \<lparr>rx = fst p - fst wh / 2, ry = snd p - up, rwidth = fst wh, rheight = snd wh\<rparr>))
        (labelPoint (knobs r) ps)))"

text \<open>The straight distance between the two ends of a route.\<close>

definition span_of :: "point list \<Rightarrow> real" where
  "span_of ps = hypot (fst (last ps) - fst (hd ps)) (snd (last ps) - snd (hd ps))"

definition has_route :: "relation \<Rightarrow> string \<Rightarrow> bool" where
  "has_route r name \<longleftrightarrow> or_value (rel r ''route'') (JStr (lit ''auto'')) = JStr (lit name)"

definition authored_via :: "relation \<Rightarrow> bool" where
  "authored_via r \<longleftrightarrow> (case rel r ''via'' of JArr vs \<Rightarrow> True | _ \<Rightarrow> False)"

section \<open>Problems\<close>

definition problem_if :: "bool \<Rightarrow> 'a \<Rightarrow> 'a list" where
  "problem_if b x = (if b then [x] else [])"

lemma problem_if_Nil [simp]: "problem_if b x = [] \<longleftrightarrow> \<not> b"
  by (simp add: problem_if_def)

text \<open>A label and its rectangle, with the relationship and its index.\<close>

type_synonym placed_label = "nat \<times> relation \<times> raw_rect"

definition label_entries :: "placed_label list \<Rightarrow> label_entry list" where
  "label_entries ls = map (\<lambda>(i, m, r). \<lparr>lb_rect = Some r, lb_relation = Some m, lb_index = Some i\<rparr>) ls"

definition brand_rail_problem :: "number_text \<Rightarrow> (jval \<Rightarrow> bool) \<Rightarrow> jval \<Rightarrow> real \<Rightarrow> real \<Rightarrow> bool" where
  "brand_rail_problem num marked p width font \<longleftrightarrow>
     marked p \<and> \<not> label_units num (field p ''label'') * font * (6 / 10) \<le> width - 48"

text \<open>A text that even the smallest legible size does not fit into its node.\<close>

definition text_too_wide :: "number_text \<Rightarrow> jval \<Rightarrow> real \<Rightarrow> real \<Rightarrow> bool" where
  "text_too_wide num v width minimum \<longleftrightarrow> truthy v
     \<and> availableNodeTextWidth width < minimumNodeTextWidth (shown num v) minimum"

section \<open>Legends\<close>

definition override_of_json :: "jval \<Rightarrow> legend_override" where
  "override_of_json v = \<lparr>ov_visible = (case field v ''visible'' of JBool b \<Rightarrow> Some b | _ \<Rightarrow> None),
     ov_label = as_string (field v ''label'')\<rparr>"

definition legend_config_of :: "jval \<Rightarrow> legend_config option" where
  "legend_config_of v = (if truthy v then Some \<lparr>cfg_mode = as_string (field v ''mode''),
       cfg_entries = (case field v ''entries'' of JObj ps \<Rightarrow> map (\<lambda>(k, q). (k, override_of_json q)) ps | _ \<Rightarrow> [])\<rparr>
     else None)"

definition catalog_entry :: "(jstring \<Rightarrow> jstring) \<Rightarrow> jstring \<Rightarrow> legend_entry" where
  "catalog_entry label k = \<lparr>le_kind = k, le_label = label k, le_interactive = None, le_swatch_width = None,
     le_swatch_gap = None\<rparr>"

definition kinds_present :: "jval list \<Rightarrow> jstring list" where
  "kinds_present vs = List.map_filter as_string vs"

end
