(* ===== verification/Sequence.thy ===== *)
theory Sequence
  imports Diagrams
begin

text \<open>
  The layout and the validation of \<open>renderers/sequence/render-sequence.mjs\<close>.  A diagram is its JSON
  value after loading, the messages keep their identity as objects.  Whether a participant carries
  a brand mark is decided by another module and an argument, as is the text of a number.
\<close>

section \<open>The diagram\<close>

record sequence =
  sq_meta :: jval
  sq_width :: real
  sq_height :: real
  sq_participants :: "jval list"
  sq_messages :: "relation list"
  sq_segments :: "jval list"
  sq_activations :: "jval list"

section \<open>Layout\<close>

definition spread_columns :: "sequence \<Rightarrow> bool" where
  "spread_columns d \<longleftrightarrow> field (sq_meta d) ''column_fit'' = JStr (lit ''spread'')"

definition participant_count :: "sequence \<Rightarrow> nat" where
  "participant_count d = max 1 (length (sq_participants d))"

definition participantW :: "sequence \<Rightarrow> real" where
  "participantW d =
     (if spread_columns d
      then max 86 (min 190 (of_int (js_round ((sq_width d - 62 * 2) / real (participant_count d))) - 24))
      else 86)"

definition colGap :: "sequence \<Rightarrow> real" where
  "colGap d =
     (if spread_columns d \<and> 1 < participant_count d
      then max 108 ((sq_width d - 40 - 62 - participantW d) / real (participant_count d - 1)) else 108)"

definition leftX :: "sequence \<Rightarrow> real" where
  "leftX d = (if spread_columns d then 62 + participantW d / 2 else 62)"

definition topY :: real where "topY = 72"
definition participantH :: real where "participantH = 54"
definition lifelineTop :: real where "lifelineTop = 142"

definition lifelineBottom :: "sequence \<Rightarrow> real" where
  "lifelineBottom d = sq_height d - 65"

definition participantX :: "sequence \<Rightarrow> nat \<Rightarrow> real" where
  "participantX d i = leftX d + real i * colGap d"

record placed_participant =
  pp_object :: jval
  pp_cx :: real

definition participant_map :: "sequence \<Rightarrow> (jval \<times> placed_participant) list" where
  "participant_map d = foldl (\<lambda>m (i, p). map_put (field p ''id'') \<lparr>pp_object = p, pp_cx = participantX d i\<rparr> m)
     [] (indexed (sq_participants d))"

definition participant :: "sequence \<Rightarrow> jval \<Rightarrow> placed_participant option" where
  "participant d i = map_of (participant_map d) i"

definition header_rect :: "sequence \<Rightarrow> placed_participant \<Rightarrow> raw_rect" where
  "header_rect d p = \<lparr>raw_x = Some (pp_cx p - participantW d / 2), raw_y = Some topY,
     raw_width = Some (participantW d), raw_height = Some participantH\<rparr>"

definition headers :: "sequence \<Rightarrow> obstacle option list" where
  "headers d = map (\<lambda>(i, p). Some \<lparr>ob_id = i, ob_rect = header_rect d p\<rparr>) (participant_map d)"

text \<open>The columns of the ends of a message, when both are known.\<close>

definition message_ends :: "sequence \<Rightarrow> relation \<Rightarrow> (real \<times> real) option" where
  "message_ends d m = (case (participant d (rel m ''from''), participant d (rel m ''to'')) of
     (Some a, Some b) \<Rightarrow> Some (pp_cx a, pp_cx b) | _ \<Rightarrow> None)"

definition messageGeometry :: "sequence \<Rightarrow> relation \<Rightarrow> (real \<times> real \<times> real) option" where
  "messageGeometry d m =
     (case (message_ends d m, number_of (rel m ''y'')) of
        (Some (a, b), Some y) \<Rightarrow>
          (let direction = (if a < b then 1 else -1); start = a + direction * 7; finish = b - direction * 7 in
           Some (start, finish, (start + finish) / 2))
      | _ \<Rightarrow> None)"

definition message_y :: "relation \<Rightarrow> jsnum" where
  "message_y m = number_of (rel m ''y'')"

definition message_label_width :: "number_text \<Rightarrow> relation \<Rightarrow> real" where
  "message_label_width num m = max 34 (label_units num (rel m ''label'') * (52 / 10) + 12)"

definition messageLabelBox :: "number_text \<Rightarrow> sequence \<Rightarrow> relation \<Rightarrow> raw_rect option" where
  "messageLabelBox num d m =
     (case (messageGeometry d m, message_y m) of
        (Some (start, finish, center), Some y) \<Rightarrow>
          (let w = message_label_width num m in
           Some \<lparr>raw_x = Some (center - w / 2), raw_y = Some (y - 20), raw_width = Some w, raw_height = Some 16\<rparr>)
      | _ \<Rightarrow> None)"

definition messageRouteBox :: "sequence \<Rightarrow> relation \<Rightarrow> raw_rect option" where
  "messageRouteBox d m =
     (case (messageGeometry d m, message_y m) of
        (Some (start, finish, center), Some y) \<Rightarrow>
          Some \<lparr>raw_x = Some (min start finish), raw_y = Some (y - 2), raw_width = Some \<bar>finish - start\<bar>,
                raw_height = Some 4\<rparr>
      | _ \<Rightarrow> None)"

definition occupied :: "number_text \<Rightarrow> sequence \<Rightarrow> raw_rect list" where
  "occupied num d = concat (map (\<lambda>m. List.map_filter (\<lambda>q. q) [messageLabelBox num d m, messageRouteBox d m])
     (sq_messages d))"

text \<open>The label of a segment moves up while it meets a message, at most four times.\<close>

fun clear_label :: "nat \<Rightarrow> raw_rect list \<Rightarrow> raw_rect \<Rightarrow> raw_rect" where
  "clear_label 0 taken r = r"
| "clear_label (Suc n) taken r =
     (if list_ex (\<lambda>q. rectsOverlap r q 2) taken
      then clear_label n taken (r\<lparr>raw_y := map_option (\<lambda>y. y - 22) (raw_y r)\<rparr>) else r)"

definition segment_label_width :: "number_text \<Rightarrow> jval \<Rightarrow> real" where
  "segment_label_width num s = max 42 (label_units num (field s ''label'') * (52 / 10) + 14)"

definition segmentLabelBox :: "number_text \<Rightarrow> sequence \<Rightarrow> jval \<Rightarrow> raw_rect" where
  "segmentLabelBox num d s =
     clear_label 4 (occupied num d)
       \<lparr>raw_x = Some 56, raw_y = map_option (\<lambda>y. y - 22) (number_of (field s ''from'')),
        raw_width = Some (segment_label_width num s), raw_height = Some 18\<rparr>"

definition compositionFrames :: "sequence \<Rightarrow> frame list" where
  "compositionFrames d = map (\<lambda>s.
     (let a = number_of (field s ''from''); b = number_of (field s ''to'') in
      BoxFrame \<lparr>raw_x = Some 48, raw_y = a, raw_width = Some (sq_width d - 96),
        raw_height = (case (a, b) of (Some x, Some y) \<Rightarrow> Some (y - x) | _ \<Rightarrow> None)\<rparr> (Some 10)))
     (sq_segments d)"

definition messagePath :: "sequence \<Rightarrow> relation \<Rightarrow> raw_point list option" where
  "messagePath d m = Some (case message_ends d m of
     None \<Rightarrow> [] | Some (a, b) \<Rightarrow> [Some [Some a, message_y m], Some [Some b, message_y m]])"

section \<open>Validation\<close>

datatype sequence_problem =
    ParticipantIdsNotUnique
  | TimelineTooShort
  | ParticipantLabelTooWide jval
  | BrandRail jval
  | SublabelTooWide jval
  | UnknownSource nat
  | UnknownTarget nat
  | MessageWithoutY nat
  | MessageOutsideTimeline nat
  | MessageTooShort nat
  | ThroughHeader flow_problem
  | MessagesCross crossing
  | SharedCorridor corridor
  | AlongSegment border_hit
  | CrampedRoute rhythm_issue
  | MessagesTooClose nat nat
  | LabelsOverlap nat nat
  | LabelNearRoute label_hit
  | SegmentRange nat
  | SegmentOutside nat
  | SegmentLabelTooWide nat
  | UnknownActivation nat
  | ActivationRange nat
  | ParticipantsTooWide

definition participant_problems :: "number_text \<Rightarrow> (jval \<Rightarrow> bool) \<Rightarrow> sequence \<Rightarrow> placed_participant \<Rightarrow> sequence_problem list" where
  "participant_problems num marked d p =
     (let v = pp_object p in
      problem_if (participantW d + 6 < label_units num (field v ''label'') * (68 / 10)) (ParticipantLabelTooWide v)
      @ problem_if (brand_rail_problem num marked v (participantW d) 8) (BrandRail v)
      @ problem_if (truthy (field v ''sublabel'')
          \<and> availableNodeTextWidth (participantW d) < minimumNodeTextWidth (shown num (field v ''sublabel'')) 6)
          (SublabelTooWide v))"

definition message_problems :: "sequence \<Rightarrow> nat \<times> relation \<Rightarrow> sequence_problem list" where
  "message_problems d im =
     (let i = fst im; m = snd im; y = message_y m in
      problem_if (participant d (rel m ''from'') = None) (UnknownSource i)
      @ problem_if (participant d (rel m ''to'') = None) (UnknownTarget i)
      @ problem_if (y = None) (MessageWithoutY i)
      @ problem_if (less_js y (Some (lifelineTop + 18)) \<or> less_js (Some (lifelineBottom d - 18)) y) (MessageOutsideTimeline i)
      @ (case message_ends d m of None \<Rightarrow> [] | Some (a, b) \<Rightarrow> problem_if (\<bar>b - a\<bar> < 60) (MessageTooShort i)))"

record placed_message =
  pm_index :: nat
  pm_y :: real
  pm_x1 :: real
  pm_x2 :: real

text \<open>The placed messages by height; a message without a numeric height has its own problem.\<close>

definition placed_messages :: "sequence \<Rightarrow> placed_message list" where
  "placed_messages d = sort_by (\<lambda>p q. pm_y p \<le> pm_y q) (List.map_filter (\<lambda>(i, m).
     (case (message_ends d m, message_y m) of
        (Some (a, b), Some y) \<Rightarrow> Some \<lparr>pm_index = i, pm_y = y, pm_x1 = min a b, pm_x2 = max a b\<rparr>
      | _ \<Rightarrow> None)) (indexed (sq_messages d)))"

text \<open>The inner loop stops at the first message that is 28 or more below.\<close>

fun crowded :: "placed_message \<Rightarrow> placed_message list \<Rightarrow> sequence_problem list" where
  "crowded p [] = []"
| "crowded p (q # qs) =
     (if pm_y q - pm_y p < 28
      then problem_if (pm_x1 p < pm_x2 q \<and> pm_x1 q < pm_x2 p) (MessagesTooClose (pm_index p) (pm_index q)) @ crowded p qs
      else [])"

fun crowding :: "placed_message list \<Rightarrow> sequence_problem list" where
  "crowding [] = []"
| "crowding (p # ps) = crowded p ps @ crowding ps"

definition label_rects :: "number_text \<Rightarrow> sequence \<Rightarrow> (nat \<times> relation \<times> raw_rect) list" where
  "label_rects num d = List.map_filter (\<lambda>(i, m). map_option (\<lambda>r. (i, m, r)) (messageLabelBox num d m))
     (indexed (sq_messages d))"

definition label_overlaps :: "(nat \<times> relation \<times> raw_rect) list \<Rightarrow> sequence_problem list" where
  "label_overlaps ls = concat (map (\<lambda>((i, m, r), (j, n, q)). problem_if (rectsOverlap r q (- 2)) (LabelsOverlap i j)) (pairs_of ls))"

definition segment_problems :: "number_text \<Rightarrow> sequence \<Rightarrow> nat \<times> jval \<Rightarrow> sequence_problem list" where
  "segment_problems num d s =
     (let a = number_of (field (snd s) ''from''); b = number_of (field (snd s) ''to'');
          r = segmentLabelBox num d (snd s) in
      problem_if (le_js b a) (SegmentRange (fst s))
      @ problem_if (less_js a (Some topY) \<or> less_js (Some (lifelineBottom d + 20)) b) (SegmentOutside (fst s))
      @ problem_if (less_js (Some (sq_width d - 48)) (case (raw_x r, raw_width r) of
            (Some x, Some w) \<Rightarrow> Some (x + w) | _ \<Rightarrow> None)) (SegmentLabelTooWide (fst s)))"

definition activation_problems :: "sequence \<Rightarrow> nat \<times> jval \<Rightarrow> sequence_problem list" where
  "activation_problems d v =
     problem_if (participant d (field (snd v) ''participant'') = None) (UnknownActivation (fst v))
     @ problem_if (le_js (number_of (field (snd v) ''to'')) (number_of (field (snd v) ''from''))) (ActivationRange (fst v))"

definition last_participant_problem :: "sequence \<Rightarrow> sequence_problem list" where
  "last_participant_problem d = (case rev (sq_participants d) of
     [] \<Rightarrow> []
   | p # _ \<Rightarrow> (case participant d (field p ''id'') of
        None \<Rightarrow> []
      | Some q \<Rightarrow> problem_if (sq_width d - 40 < pp_cx q + participantW d / 2) ParticipantsTooWide))"

definition sequence_relations :: "sequence \<Rightarrow> relation option list option" where
  "sequence_relations d = Some (map Some (sq_messages d))"

definition sequence_ids :: "sequence \<Rightarrow> jval list" where
  "sequence_ids d = map fst (participant_map d)"

definition gate_problems :: "jstring option \<Rightarrow> sequence \<Rightarrow> sequence_problem list" where
  "gate_problems env d =
     (let profile = field (sq_meta d) ''quality_profile''; rels = sequence_relations d; ids = sequence_ids d in
      map ThroughHeader (cleanFlowProblems rels (headers d) (messagePath d) 0)
      @ map MessagesCross (cleanCrossingProblems env profile False rels ids (messagePath d) False)
      @ map SharedCorridor (cleanAmbiguousCorridorProblems env profile False rels (Some ids) (messagePath d) 8)
      @ map AlongSegment (cleanBorderRunProblems env profile False rels (Some ids) (messagePath d)
          (Some (compositionFrames d)))
      @ map CrampedRoute (cleanRouteRhythmProblems env profile False rels (Some ids) (messagePath d) 16 8))"

definition validateSequence ::
  "number_text \<Rightarrow> jstring option \<Rightarrow> (jval \<Rightarrow> bool) \<Rightarrow> sequence \<Rightarrow> sequence_problem list" where
  "validateSequence num env marked d =
     (let profile = field (sq_meta d) ''quality_profile''; labels = label_rects num d in
      problem_if (length (participant_map d) \<noteq> length (sq_participants d)) ParticipantIdsNotUnique
      @ problem_if (lifelineBottom d - lifelineTop < 120) TimelineTooShort
      @ concat (map (\<lambda>(i, p). participant_problems num marked d p) (participant_map d))
      @ concat (map (message_problems d) (indexed (sq_messages d)))
      @ gate_problems env d
      @ crowding (placed_messages d)
      @ label_overlaps labels
      @ map LabelNearRoute (cleanLabelRouteClearanceProblems num env profile False (sequence_relations d)
          (Some (label_entries labels)) (Some (sequence_ids d)) (messagePath d) (Some 4))
      @ concat (map (segment_problems num d) (indexed (sq_segments d)))
      @ concat (map (activation_problems d) (indexed (sq_activations d)))
      @ last_participant_problem d)"

end
