(* ===== verification/Drawings.thy ===== *)
theory Drawings
  imports Diagrams RouteFacts
begin

text \<open>
  The interface between the shared quality gates and the renderers: a renderer runs the gates over its
  relationships, the routes it computes for them and its nodes, and refuses the diagram when one
  reports something.  What an accepted diagram then looks like is proved here once.
\<close>

section \<open>The gates of a renderer\<close>

datatype gate_problem =
    SideProblem side_problem
  | ThroughNode flow_problem
  | RoutesCross crossing
  | SharedCorridor corridor
  | AlongFrame border_hit
  | CrampedRoute rhythm_issue

record gate_input =
  gi_relations :: "relation list"
  gi_obstacles :: "obstacle option list"
  gi_ids :: "jval list"
  gi_path :: "relation \<Rightarrow> raw_point list option"
  gi_from_side :: "relation \<Rightarrow> jval"
  gi_to_side :: "relation \<Rightarrow> jval"
  gi_check_sides :: "relation \<Rightarrow> bool"
  gi_frames :: "frame list"
  gi_profile :: jval
  gi_clearance :: real
  gi_authoritative :: bool
  gi_merge :: bool

definition route_gates :: "jstring option \<Rightarrow> gate_input \<Rightarrow> gate_problem list" where
  "route_gates env g =
     (let rels = all_relations (gi_relations g); ids = gi_ids g; path = gi_path g; profile = gi_profile g in
      map SideProblem (cleanEndpointSideProblems rels ids path (Some (gi_from_side g)) (Some (gi_to_side g))
        (\<lambda>r i. gi_check_sides g r))
      @ map ThroughNode (cleanFlowProblems rels (gi_obstacles g) path (gi_clearance g))
      @ map RoutesCross (cleanCrossingProblems env profile (gi_authoritative g) rels ids path (gi_merge g))
      @ map SharedCorridor (cleanAmbiguousCorridorProblems env profile (gi_authoritative g) rels (Some ids) path 8)
      @ map AlongFrame (cleanBorderRunProblems env profile (gi_authoritative g) rels (Some ids) path (Some (gi_frames g)))
      @ map CrampedRoute (cleanRouteRhythmProblems env profile (gi_authoritative g) rels (Some ids) path 16 8))"

definition label_gate ::
  "number_text \<Rightarrow> jstring option \<Rightarrow> gate_input \<Rightarrow> placed_label list \<Rightarrow> label_hit list" where
  "label_gate num env g ls = cleanLabelRouteClearanceProblems num env (gi_profile g) (gi_authoritative g)
     (all_relations (gi_relations g)) (Some (label_entries ls)) (Some (gi_ids g)) (gi_path g) (Some 4)"

text \<open>Labels that overlap, by the pairs the two nested loops visit.\<close>

definition overlapping_labels :: "placed_label list \<Rightarrow> (nat \<times> nat) list" where
  "overlapping_labels ls = List.map_filter (\<lambda>((i, m, r), (j, n, q)).
     if rectsOverlap r q (- 2) then Some (i, j) else None) (pairs_of ls)"

lemma no_overlapping_labels:
  assumes "overlapping_labels ls = []" and "i < j" and "j < length ls"
  shows "\<not> rectsOverlap (snd (snd (ls ! i))) (snd (snd (ls ! j))) (- 2)"
proof -
  have "\<forall>x \<in> set (pairs_of ls). \<not> rectsOverlap (snd (snd (fst x))) (snd (snd (snd x))) (- 2)"
    using assms(1) unfolding overlapping_labels_def map_filter_empty split_beta by (simp split: if_splits)
  from bspec [OF this in_pairs_of [OF assms(2,3)]] show ?thesis by simp
qed

text \<open>The labels of the relationships, those on a node, and the nodes that come too close.\<close>

definition placed_labels :: "(relation \<Rightarrow> (point \<times> rect) option) \<Rightarrow> relation list \<Rightarrow> placed_label list" where
  "placed_labels label_of rs = List.map_filter (\<lambda>(k, r). map_option (\<lambda>(p, q). (k, r, raw_of q)) (label_of r)) (indexed rs)"

definition labels_on_nodes :: "node_map \<Rightarrow> placed_label list \<Rightarrow> (nat \<times> jval) list" where
  "labels_on_nodes ns ls = concat (map (\<lambda>(k, r, q). List.map_filter (\<lambda>(i, n).
     if rectsOverlap q (raw_of (rect_of (pn_box n))) (- 2) then Some (k, i) else None) ns) ls)"

definition close_nodes :: "real \<Rightarrow> node_map \<Rightarrow> (jval \<times> jval) list" where
  "close_nodes gap ns = List.map_filter (\<lambda>((i, m), (j, n)).
     if finite_rects_overlap (rect_of (pn_box m)) (rect_of (pn_box n)) gap then Some (i, j) else None) (pairs_of ns)"

lemma no_label_on_nodes:
  assumes "labels_on_nodes ns ls = []" and "l \<in> set ls" and "e \<in> set ns"
  shows "\<not> rectsOverlap (snd (snd l)) (raw_of (rect_of (pn_box (snd e)))) (- 2)"
  using assms unfolding labels_on_nodes_def concat_eq_Nil_conv split_beta
  by (auto simp: map_filter_empty split: if_splits)

lemma no_close_nodes:
  assumes "close_nodes gap ns = []" and "i < j" and "j < length ns"
  shows "\<not> finite_rects_overlap (rect_of (pn_box (snd (ns ! i)))) (rect_of (pn_box (snd (ns ! j)))) gap"
proof -
  have "\<forall>x \<in> set (pairs_of ns). \<not> finite_rects_overlap (rect_of (pn_box (snd (fst x)))) (rect_of (pn_box (snd (snd x)))) gap"
    using assms(1) unfolding close_nodes_def map_filter_empty split_beta by (simp split: if_splits)
  from bspec [OF this in_pairs_of [OF assms(2,3)]] show ?thesis by simp
qed

section \<open>Accepted drawings\<close>

locale drawing =
  fixes accepted :: "'d \<Rightarrow> bool" and gates :: "'d \<Rightarrow> gate_input" and env :: "jstring option"
  assumes flow_silent: "accepted d \<Longrightarrow>
      cleanFlowProblems (all_relations (gi_relations (gates d))) (gi_obstacles (gates d)) (gi_path (gates d))
        (gi_clearance (gates d)) = []"
    and crossing_silent: "accepted d \<Longrightarrow>
      cleanCrossingProblems env (gi_profile (gates d)) (gi_authoritative (gates d)) (all_relations (gi_relations (gates d)))
        (gi_ids (gates d)) (gi_path (gates d)) (gi_merge (gates d)) = []"
    and corridor_silent: "accepted d \<Longrightarrow>
      cleanAmbiguousCorridorProblems env (gi_profile (gates d)) (gi_authoritative (gates d)) (all_relations (gi_relations (gates d)))
        (Some (gi_ids (gates d))) (gi_path (gates d)) 8 = []"
    and ends_known: "accepted d \<Longrightarrow> r \<in> set (gi_relations (gates d)) \<Longrightarrow>
      rel r ''from'' \<in> set (gi_ids (gates d)) \<and> rel r ''to'' \<in> set (gi_ids (gates d))"
    and nodes_named: "gi_ids (gates d) = map (\<lambda>q. case q of None \<Rightarrow> JUndef | Some ob \<Rightarrow> ob_id ob) (gi_obstacles (gates d))"
begin

text \<open>No route of an accepted drawing touches an unrelated node.\<close>

lemma clear_of_nodes:
  assumes "accepted d" and "r \<in> set (gi_relations (gates d))" and "is_string (rel r ''from'')" and "is_string (rel r ''to'')"
    and "routed_points (gi_path (gates d) r) = Some ps" and "(a, b) \<in> set (segments ps)"
    and "Some ob \<in> set (gi_obstacles (gates d))" and "ob_id ob \<noteq> rel r ''from''" and "ob_id ob \<noteq> rel r ''to''"
    and "finite_rect (ob_rect ob) = Some k"
  shows "\<not> segmentIntersectsRect a b k (gi_clearance (gates d))"
proof -
  from assms(2) obtain i where i: "i < length (map Some (gi_relations (gates d)))"
      "map Some (gi_relations (gates d)) ! i = Some r" by (auto simp: in_set_conv_nth)
  have "flow_checked (gi_obstacles (gates d)) r"
    using ends_known [OF assms(1,2)] assms(3,4) by (simp add: flow_checked_def nodes_named Let_def)
  from flow_gate [OF flow_silent [OF assms(1), unfolded all_relations_def] i this assms(5) assms(7-10,6)]
  show ?thesis .
qed

text \<open>Under the showcase profile, two relationships without a common end do not cross.\<close>

lemma routes_do_not_cross:
  assumes "accepted d" and "qualityProfileForGate env (gi_profile (gates d)) (gi_authoritative (gates d)) = showcase"
    and "rs = crossing_routes (all_relations (gi_relations (gates d))) (gi_ids (gates d)) (gi_path (gates d)) (gi_merge (gates d))"
    and "i < j" and "j < length rs" and "\<not> shares_endpoint (cr_relation (rs ! i)) (cr_relation (rs ! j))"
    and "s \<in> set (cr_segments (rs ! i))" and "t \<in> set (cr_segments (rs ! j))"
  shows "analysis_intersection s t = None"
  by (rule crossing_gate [OF crossing_silent [OF assms(1)] assms(2-8)])

end

lemma segments_Cons:
  "segments (p # q # ps) = (p, q) # segments (q # ps)" "segments [p] = []" "segments [] = []"
  by (simp_all add: segments_def)

text \<open>A renderer whose obstacles are the boxes of its nodes, with the routes it draws.\<close>

lemma routed_raw_path:
  assumes "2 \<le> length ps"
  shows "routed_points (raw_path ps) = Some ps"
  using assms by (simp add: routed_points_def del: raw_path_points) (simp add: raw_path_def asArray_def)

lemma segment_long: "(p, q) \<in> set (segments ps) \<Longrightarrow> 2 \<le> length ps"
  by (auto simp: segments_def in_set_zip)

lemma length_closed [simp]: "length (closed s via e) = length via + 2"
  by (simp add: closed_def)

locale node_drawing = drawing accepted gates env
  for accepted :: "'d \<Rightarrow> bool" and gates :: "'d \<Rightarrow> gate_input" and env :: "jstring option" +
  fixes nodes :: "'d \<Rightarrow> node_map" and route :: "'d \<Rightarrow> relation \<Rightarrow> point list option"
  assumes obstacles: "gi_obstacles (gates d) = node_obstacles (nodes d)"
    and path: "gi_path (gates d) r = Option.bind (route d r) raw_path"
    and clearance: "gi_clearance (gates d) = 2"
begin

text \<open>The drawn routes keep two pixels from the nodes they do not join.\<close>

lemma clear_of_other_nodes:
  assumes "accepted d" and "r \<in> set (gi_relations (gates d))" and "is_string (rel r ''from'')" and "is_string (rel r ''to'')"
    and "route d r = Some ps" and "(p, q) \<in> set (segments ps)"
    and "(i, n) \<in> set (nodes d)" and "i \<noteq> rel r ''from''" and "i \<noteq> rel r ''to''"
  shows "\<not> segmentIntersectsRect p q (rect_of (pn_box n)) 2"
proof -
  let ?ob = "\<lparr>ob_id = i, ob_rect = raw_of (rect_of (pn_box n))\<rparr>"
  have rp: "routed_points (gi_path (gates d) r) = Some ps"
    by (simp only: path assms(5) Option.bind.simps routed_raw_path [OF segment_long [OF assms(6)]])
  have ob: "Some ?ob \<in> set (gi_obstacles (gates d))" using assms(7) by (force simp: obstacles node_obstacles_def)
  have fin: "finite_rect (ob_rect ?ob) = Some (rect_of (pn_box n))" by (simp add: raw_of_def)
  note clear = clear_of_nodes [OF assms(1-4) rp assms(6) ob _ _ fin, unfolded clearance]
  show ?thesis by (rule clear) (simp_all add: assms(8,9))
qed

end

text \<open>Relationships with an authored shape spread no ports.\<close>

lemma no_sided_ports:
  assumes "list_all (\<lambda>r. \<not> spread_eligible r) rs"
  shows "sided_ports num rs ns = Map.empty"
proof -
  have none: "relation_items b s (Some r) = []" if "r \<in> set rs" for b s r
    using assms that by (auto simp: relation_items_def list_all_iff)
  then have items: "concat (map (relation_items b s \<circ> Some) rs) = []" for b s by simp
  show ?thesis
    unfolding sided_ports_def automaticPortSpread_def port_groups_def all_relations_def asArray_def option.case map_map items
    by simp
qed

text \<open>A validation that runs \<open>route_gates\<close> and reports unknown ends meets the interface.\<close>

lemma gates_silent_parts:
  assumes "route_gates env g = []"
  shows "cleanFlowProblems (all_relations (gi_relations g)) (gi_obstacles g) (gi_path g) (gi_clearance g) = []"
    and "cleanCrossingProblems env (gi_profile g) (gi_authoritative g) (all_relations (gi_relations g)) (gi_ids g) (gi_path g) (gi_merge g) = []"
    and "cleanAmbiguousCorridorProblems env (gi_profile g) (gi_authoritative g) (all_relations (gi_relations g)) (Some (gi_ids g))
      (gi_path g) 8 = []"
  using assms by (simp_all add: route_gates_def Let_def)

lemma obstacle_names: "map (\<lambda>q. case q of None \<Rightarrow> JUndef | Some ob \<Rightarrow> ob_id ob) (node_obstacles ns) = map fst ns"
  by (induction ns) (auto simp: node_obstacles_def)

lemma node_drawing_intro:
  assumes "\<And>d. accepted d \<Longrightarrow> route_gates env (gates d) = []"
    and "\<And>d r. accepted d \<Longrightarrow> r \<in> set (gi_relations (gates d)) \<Longrightarrow>
      rel r ''from'' \<in> fst ` set (nodes d) \<and> rel r ''to'' \<in> fst ` set (nodes d)"
    and "\<And>d. gi_ids (gates d) = map fst (nodes d)" and "\<And>d. gi_obstacles (gates d) = node_obstacles (nodes d)"
    and "\<And>d r. gi_path (gates d) r = Option.bind (route d r) raw_path" and "\<And>d. gi_clearance (gates d) = 2"
  shows "node_drawing accepted gates env nodes route"
proof unfold_locales
  fix d
  assume a: "accepted d"
  note silent = gates_silent_parts [OF assms(1) [OF a]]
  show "cleanFlowProblems (all_relations (gi_relations (gates d))) (gi_obstacles (gates d)) (gi_path (gates d))
      (gi_clearance (gates d)) = []" by (rule silent(1))
  show "cleanCrossingProblems env (gi_profile (gates d)) (gi_authoritative (gates d)) (all_relations (gi_relations (gates d))) (gi_ids (gates d))
      (gi_path (gates d)) (gi_merge (gates d)) = []" by (rule silent(2))
  show "cleanAmbiguousCorridorProblems env (gi_profile (gates d)) (gi_authoritative (gates d)) (all_relations (gi_relations (gates d)))
      (Some (gi_ids (gates d))) (gi_path (gates d)) 8 = []" by (rule silent(3))
  show "rel r ''from'' \<in> set (gi_ids (gates d)) \<and> rel r ''to'' \<in> set (gi_ids (gates d))"
    if "r \<in> set (gi_relations (gates d))" for r using assms(2) [OF a that] by (simp add: assms(3))
qed (simp_all add: assms(3-6) obstacle_names)

text \<open>Without a quality profile only the sides and the nodes are judged.\<close>

lemma plain_gates_silent:
  assumes "gi_profile g = JUndef"
    and "cleanFlowProblems (all_relations (gi_relations g)) (gi_obstacles g) (gi_path g) (gi_clearance g) = []"
    and "cleanEndpointSideProblems (all_relations (gi_relations g)) (gi_ids g) (gi_path g) (Some (gi_from_side g))
      (Some (gi_to_side g)) (\<lambda>r i. gi_check_sides g r) = []"
  shows "route_gates None g = []" "label_gate num None g ls = []"
proof -
  have p: "\<And>b. qualityProfileForGate None JUndef b = JUndef" "JUndef \<noteq> showcase"
    by (simp_all add: qualityProfileForGate_def showcase_def)
  show "route_gates None g = []"
    using assms p by (simp add: route_gates_def Let_def cleanCrossingProblems_def cleanAmbiguousCorridorProblems_def
        cleanBorderRunProblems_def cleanRouteRhythmProblems_def)
  show "label_gate num None g ls = []"
    using assms(1) p by (simp add: label_gate_def cleanLabelRouteClearanceProblems_def)
qed

end
