(* ===== verification/Tables.thy ===== *)
theory Tables
  imports Diagrams
begin

text \<open>
  The tables of a renderer map ids to placed elements; one that has as many entries as there are elements
  was filled without a duplicate.
\<close>

lemma put_keys: "fst ` set (map_put k v m) = insert k (fst ` set m)"
  by (induction k v m rule: map_put.induct) (simp_all add: insert_commute)

lemma put_length: "length (map_put k v m) = (if k \<in> fst ` set m then length m else Suc (length m))"
  by (induction k v m rule: map_put.induct) auto

lemma puts_length: "length (foldl (\<lambda>m x. map_put (f x) (g x) m) m xs) \<le> length m + length xs"
proof (induction xs arbitrary: m)
  case (Cons x xs)
  from Cons.IH [of "map_put (f x) (g x) m"] show ?case by (simp add: put_length split: if_splits)
qed simp

lemma puts_distinct:
  "length (foldl (\<lambda>m x. map_put (f x) (g x) m) m xs) = length m + length xs
    \<Longrightarrow> distinct (map f xs) \<and> f ` set xs \<inter> fst ` set m = {}"
proof (induction xs arbitrary: m)
  case (Cons x xs)
  let ?m = "map_put (f x) (g x) m"
  have "f x \<notin> fst ` set m"
    using Cons.prems puts_length [of f g ?m xs] by (auto simp: put_length split: if_splits)
  then have "length (foldl (\<lambda>m x. map_put (f x) (g x) m) ?m xs) = length ?m + length xs"
    using Cons.prems by (simp add: put_length)
  from Cons.IH [OF this] \<open>f x \<notin> fst ` set m\<close> show ?case by (auto simp: put_keys)
qed simp

lemma filled_distinct: "length (foldl (\<lambda>m x. map_put (f x) (g x) m) [] xs) = length xs \<Longrightarrow> distinct (map f xs)"
  using puts_distinct [of f g "[]" xs] by simp

lemma filled_distinct_indexed:
  "length (foldl (\<lambda>m (i, x). map_put (f x) (g i x) m) [] (indexed xs)) = length xs \<Longrightarrow> distinct (map f xs)"
proof -
  assume a: "length (foldl (\<lambda>m (i, x). map_put (f x) (g i x) m) [] (indexed xs)) = length xs"
  have "(\<lambda>m (i, x). map_put (f x) (g i x) m) = (\<lambda>m y. map_put (f (snd y)) (g (fst y) (snd y)) m)"
    by (simp add: fun_eq_iff split_beta)
  with a have "length (foldl (\<lambda>m y. map_put (f (snd y)) (g (fst y) (snd y)) m) [] (indexed xs)) = length (indexed xs)" by simp
  from filled_distinct [OF this] have "distinct (map f (map snd (indexed xs)))" by (simp only: map_map o_def)
  then show ?thesis by simp
qed

text \<open>Two elements that a filter keeps stay a pair, in order.\<close>

lemma pairs_of_map_filter:
  "i < j \<Longrightarrow> j < length xs \<Longrightarrow> f (xs ! i) = Some r \<Longrightarrow> f (xs ! j) = Some q \<Longrightarrow> (r, q) \<in> set (pairs_of (List.map_filter f xs))"
proof (induction xs arbitrary: i j)
  case (Cons x xs)
  then obtain k where k: "j = Suc k" "k < length xs" by (cases j) auto
  show ?case
  proof (cases i)
    case 0
    have "q \<in> set (List.map_filter f xs)" using Cons.prems(4) k nth_mem [OF k(2)] by (auto simp: set_map_filter)
    then show ?thesis using Cons.prems(3) 0 by (simp add: List.map_filter_simps)
  next
    case (Suc h)
    then have "(r, q) \<in> set (pairs_of (List.map_filter f xs))" using Cons.prems k by (intro Cons.IH [of h k]) auto
    then show ?thesis by (auto simp: List.map_filter_simps split: option.split)
  qed
qed simp

lemma pairs_of_indexed_filter:
  assumes "i < j" and "j < length xs" and "f (i, xs ! i) = Some r" and "f (j, xs ! j) = Some q"
  shows "(r, q) \<in> set (pairs_of (List.map_filter f (indexed xs)))"
proof -
  have "indexed xs ! k = (k, xs ! k)" if "k < length xs" for k using that by (simp add: indexed_def)
  then show ?thesis using assms by (intro pairs_of_map_filter [of i j]) auto
qed

end
