(* ===== verification/SequenceFacts.thy ===== *)
theory SequenceFacts
  imports Sequence Drawings RouteProperties Tables
begin

text \<open>
  What a sequence diagram without validation problems looks like, and why two of the shared gates can
  only fire on diagrams that have another problem.
\<close>

section \<open>Messages\<close>

definition sound_message :: "sequence \<Rightarrow> relation \<Rightarrow> bool" where
  "sound_message d m \<longleftrightarrow> (\<exists>a b y. message_ends d m = Some (a, b) \<and> message_y m = Some y
     \<and> lifelineTop + 18 \<le> y \<and> y \<le> lifelineBottom d - 18 \<and> 60 \<le> \<bar>b - a\<bar>)"

lemma ends_known:
  "participant d (rel m ''from'') \<noteq> None \<Longrightarrow> participant d (rel m ''to'') \<noteq> None \<Longrightarrow> \<exists>a b. message_ends d m = Some (a, b)"
  by (auto simp: message_ends_def)

lemma message_sound:
  assumes "message_problems d (i, m) = []"
  shows "sound_message d m"
proof -
  note p = assms [unfolded message_problems_def Let_def fst_conv snd_conv append_is_Nil_conv problem_if_Nil]
  obtain a b where ab: "message_ends d m = Some (a, b)" using p ends_known by blast
  obtain y where y: "message_y m = Some y" using p by blast
  from p show ?thesis unfolding ab y sound_message_def by (auto simp: less_js_def)
qed

lemma all_messages_sound:
  assumes "concat (map (message_problems d) (indexed (sq_messages d))) = []"
  shows "\<forall>m \<in> set (sq_messages d). sound_message d m"
proof
  fix m
  assume "m \<in> set (sq_messages d)"
  then obtain i where "(i, m) \<in> set (indexed (sq_messages d))" by (metis in_set_conv_nth indexed_iff)
  with assms have "message_problems d (i, m) = []" by simp
  then show "sound_message d m" by (rule message_sound)
qed

lemma sound_path:
  assumes "sound_message d m"
  obtains a b y where "messagePath d m = raw_path [(a, y), (b, y)]" "lifelineTop + 18 \<le> y" "60 \<le> \<bar>b - a\<bar>"
    "message_ends d m = Some (a, b)" "message_y m = Some y"
proof -
  from assms obtain a b y where "message_ends d m = Some (a, b)" "message_y m = Some y"
    "lifelineTop + 18 \<le> y" "60 \<le> \<bar>b - a\<bar>" unfolding sound_message_def by blast
  then show thesis by (intro that [of a y b]) (simp_all add: messagePath_def raw_path_def)
qed

section \<open>Gates that stay silent\<close>

lemma orientation_horizontal:
  assumes "60 \<le> \<bar>bx - ax\<bar>" and "uy + 1 \<le> y"
  shows "orientation (ax, y) (bx, y) (ux, uy) = (if ax < bx then 1 else 2)"
proof -
  have "60 * 1 \<le> \<bar>bx - ax\<bar> * \<bar>uy - y\<bar>" using assms by (intro mult_mono) simp_all
  then have big: "60 \<le> \<bar>(bx - ax) * (uy - y)\<bar>" by (simp add: abs_mult)
  have sign: "0 < - ((bx - ax) * (uy - y)) \<longleftrightarrow> ax < bx"
    using assms by (auto simp: mult_less_0_iff)
  show ?thesis
    using big sign unfolding orientation_def Let_def by (simp add: abs_minus_commute)
qed

lemma below_edge:
  assumes "60 \<le> \<bar>bx - ax\<bar>" and "uy + 1 \<le> y" and "dy + 1 \<le> y"
  shows "\<not> segmentsIntersect (ax, y) (bx, y) (ux, uy) (dx, dy)"
  using orientation_horizontal [OF assms(1,2), of ux] orientation_horizontal [OF assms(1,3), of dx] assms(2,3)
  by (auto simp: segmentsIntersect_def Let_def onSegment_def)

lemma below_rect:
  assumes "60 \<le> \<bar>bx - ax\<bar>" and "ry r + rheight r + 1 \<le> y" and "0 \<le> rheight r"
  shows "\<not> segmentIntersectsRect (ax, y) (bx, y) r 0"
  using assms by (simp add: segmentIntersectsRect_def grown_box_def pointInBox_def below_edge)

lemma horizontals_do_not_cross: "properSegmentIntersection (a, y) (b, y) (c, z) (d, z) = None"
  by (simp add: properSegmentIntersection_def opposite_def crossProduct_def)

lemma gates_silent:
  assumes "concat (map (message_problems d) (indexed (sq_messages d))) = []"
  shows "cleanFlowProblems (sequence_relations d) (headers d) (messagePath d) 0 = []
    \<and> cleanCrossingProblems env profile auth (sequence_relations d) (sequence_ids d) (messagePath d) False = []"
proof
  note sound = all_messages_sound [OF assms]
  have hit: "obstacle_problem i m ps 0 ob = None"
    if "m \<in> set (sq_messages d)" "routed_points (messagePath d m) = Some ps" "Some ob \<in> set (headers d)" for i m ps ob
  proof -
    from sound that(1) obtain a b y where p: "messagePath d m = raw_path [(a, y), (b, y)]" "lifelineTop + 18 \<le> y"
      "60 \<le> \<bar>b - a\<bar>" using sound_path by (metis (full_types))
    then have ps: "ps = [(a, y), (b, y)]" using that(2) by (simp add: routed_points_def valid_points_def List.map_filter_simps)
    from that(3) obtain q where ob: "ob_rect ob = header_rect d q" by (auto simp: headers_def)
    have "\<not> segmentIntersectsRect (a, y) (b, y) \<lparr>rx = pp_cx q - participantW d / 2, ry = topY, rwidth = participantW d,
        rheight = participantH\<rparr> 0"
      using p by (intro below_rect) (simp_all add: topY_def participantH_def lifelineTop_def)
    then show ?thesis
      by (simp add: obstacle_problem_def ob header_rect_def first_hit_def ps segments_def indexed_def)
  qed
  show "cleanFlowProblems (sequence_relations d) (headers d) (messagePath d) 0 = []"
    unfolding cleanFlowProblems_def sequence_relations_def asArray_def option.case
    using hit by (auto simp: indexed_iff obstacle_problems_def map_filter_empty split: option.splits)
  have none: "crossing_hit l r = None"
    if "l \<in> set (crossing_routes (sequence_relations d) (sequence_ids d) (messagePath d) False)"
      "r \<in> set (crossing_routes (sequence_relations d) (sequence_ids d) (messagePath d) False)" for l r
  proof -
    have segs: "\<exists>a b y. cr_segments x = authoredAnalysisSegments (raw_path [(a, y), (b, y)])"
      if "x \<in> set (crossing_routes (sequence_relations d) (sequence_ids d) (messagePath d) False)" for x
    proof -
      from that obtain m where m: "m \<in> set (sq_messages d)" "cr_segments x = authoredAnalysisSegments (messagePath d m)"
        by (auto simp: crossing_routes_def sequence_relations_def set_map_filter indexed_iff asArray_def
            split: option.splits if_splits) (metis nth_mem)
      from sound m(1) obtain a b y where "messagePath d m = raw_path [(a, y), (b, y)]" using sound_path by (metis (full_types))
      with m(2) show ?thesis by auto
    qed
    from segs [OF that(1)] segs [OF that(2)] show ?thesis
      by (auto simp: crossing_hit_None authoredAnalysisSegments_def indexed_def segments_def analysis_intersection_def
          horizontals_do_not_cross)
  qed
  show "cleanCrossingProblems env profile auth (sequence_relations d) (sequence_ids d) (messagePath d) False = []"
    unfolding cleanCrossingProblems_def using none
    by (auto simp: map_filter_empty dest!: pairs_of_set)
qed

section \<open>Distances\<close>

interpretation message_order: comparator "\<lambda>p q. pm_y p \<le> pm_y q" pm_y
  by unfold_locales auto

definition share_columns :: "placed_message \<Rightarrow> placed_message \<Rightarrow> bool" where
  "share_columns p q \<longleftrightarrow> pm_x1 p < pm_x2 q \<and> pm_x1 q < pm_x2 p"

lemma crowded_Nil:
  assumes "crowded p ps = []" and "sorted (map pm_y ps)" and "q \<in> set ps" and "share_columns p q"
  shows "28 \<le> pm_y q - pm_y p"
  using assms
proof (induction ps)
  case (Cons r rs)
  show ?case
  proof (cases "pm_y r - pm_y p < 28")
    case True
    with Cons.prems(1) have n: "\<not> share_columns p r" "crowded p rs = []" by (auto simp: share_columns_def)
    with Cons.prems have "q \<in> set rs" by auto
    with Cons n(2) show ?thesis by simp
  next
    case False
    have "pm_y r \<le> pm_y q" using Cons.prems(2,3) by auto
    with False show ?thesis by linarith
  qed
qed simp

lemma crowding_Nil:
  assumes "crowding ps = []" and "sorted (map pm_y ps)" and "i < j" and "j < length ps"
    and "share_columns (ps ! i) (ps ! j)"
  shows "28 \<le> pm_y (ps ! j) - pm_y (ps ! i)"
  using assms
proof (induction ps arbitrary: i j)
  case (Cons p ps)
  obtain k where j: "j = Suc k" using Cons.prems(3) by (cases j) auto
  show ?case
  proof (cases i)
    case 0
    have "crowded p ps = []" using Cons.prems(1) by simp
    from crowded_Nil [OF this, of "ps ! k"] Cons.prems show ?thesis by (simp add: 0 j)
  next
    case (Suc l)
    with Cons.IH [of l k] Cons.prems show ?thesis by (simp add: j)
  qed
qed simp

lemma crowding_apart:
  assumes "crowding (sort_by (\<lambda>p q. pm_y p \<le> pm_y q) ps) = []" and "p \<in> set ps" and "q \<in> set ps" and "p \<noteq> q"
    and "share_columns p q"
  shows "28 \<le> \<bar>pm_y q - pm_y p\<bar>"
proof -
  let ?s = "sort_by (\<lambda>p q. pm_y p \<le> pm_y q) ps"
  have s: "sorted (map pm_y ?s)" by (rule message_order.sorted_sort)
  obtain i j where i: "i < length ?s" "p = ?s ! i" and j: "j < length ?s" "q = ?s ! j"
    using assms(2,3) by (metis in_set_conv_nth set_sort_by)
  have "i \<noteq> j" using assms(4) i j by auto
  then consider "i < j" | "j < i" by linarith
  then show ?thesis
  proof cases
    case 1
    from crowding_Nil [OF assms(1) s 1 j(1)] assms(5) i j show ?thesis by simp
  next
    case 2
    have "share_columns (?s ! j) (?s ! i)" using assms(5) i(2) j(2) by (auto simp: share_columns_def)
    from crowding_Nil [OF assms(1) s 2 i(1) this] i j show ?thesis by simp
  qed
qed

section \<open>A validated diagram\<close>

lemma validate_parts:
  assumes "validateSequence num env marked d = []"
  shows "concat (map (message_problems d) (indexed (sq_messages d))) = []" "crowding (placed_messages d) = []"
    "label_overlaps (label_rects num d) = []" "length (participant_map d) = length (sq_participants d)"
  using assms unfolding validateSequence_def Let_def append_is_Nil_conv problem_if_Nil by blast+

lemma label_overlaps_Nil:
  assumes "label_overlaps ls = []" and "((i, m, r), (j, n, q)) \<in> set (pairs_of ls)"
  shows "\<not> rectsOverlap r q (- 2)"
proof -
  have "\<forall>x \<in> set (pairs_of ls). (\<lambda>((i, m, r), (j, n, q)). problem_if (rectsOverlap r q (- 2)) (LabelsOverlap i j)) x = []"
    using assms(1) by (simp only: label_overlaps_def concat_eq_Nil_conv set_map ball_simps)
  from bspec [OF this assms(2)] show ?thesis by simp
qed

lemma placed_message:
  assumes "(i, m) \<in> set (indexed (sq_messages d))" and "message_ends d m = Some (a, b)" and "message_y m = Some y"
  shows "\<lparr>pm_index = i, pm_y = y, pm_x1 = min a b, pm_x2 = max a b\<rparr> \<in> set (List.map_filter (\<lambda>(i, m).
     (case (message_ends d m, message_y m) of
        (Some (a, b), Some y) \<Rightarrow> Some \<lparr>pm_index = i, pm_y = y, pm_x1 = min a b, pm_x2 = max a b\<rparr>
      | _ \<Rightarrow> None)) (indexed (sq_messages d)))"
  unfolding set_map_filter using assms by (intro bexI [of _ "(i, m)"]) simp_all

section \<open>The interface of the gates\<close>

text \<open>What the sequence renderer hands to the shared gates; it has no endpoint sides.\<close>

definition sequence_gate_input :: "sequence \<Rightarrow> gate_input" where
  "sequence_gate_input d =
     \<lparr>gi_relations = sq_messages d, gi_obstacles = headers d, gi_ids = sequence_ids d, gi_path = messagePath d,
      gi_from_side = (\<lambda>m. JUndef), gi_to_side = (\<lambda>m. JUndef), gi_check_sides = (\<lambda>m. False),
      gi_frames = compositionFrames d, gi_profile = field (sq_meta d) ''quality_profile'', gi_clearance = 0,
       gi_authoritative = False, gi_merge = False\<rparr>"

interpretation sequence_drawing: drawing "\<lambda>d. validateSequence num env marked d = []" sequence_gate_input env
proof unfold_locales
  fix d
  assume v: "validateSequence num env marked d = []"
  have g: "gate_problems env d = []"
    using v unfolding validateSequence_def Let_def append_is_Nil_conv by blast
  show "cleanFlowProblems (all_relations (gi_relations (sequence_gate_input d))) (gi_obstacles (sequence_gate_input d))
      (gi_path (sequence_gate_input d)) (gi_clearance (sequence_gate_input d)) = []"
    using g by (simp add: gate_problems_def sequence_gate_input_def Let_def sequence_relations_def all_relations_def)
  show "cleanCrossingProblems env (gi_profile (sequence_gate_input d)) (gi_authoritative (sequence_gate_input d))
      (all_relations (gi_relations (sequence_gate_input d))) (gi_ids (sequence_gate_input d))
      (gi_path (sequence_gate_input d)) (gi_merge (sequence_gate_input d)) = []"
    using g by (simp add: gate_problems_def sequence_gate_input_def Let_def sequence_relations_def all_relations_def)
  show "cleanAmbiguousCorridorProblems env (gi_profile (sequence_gate_input d)) (gi_authoritative (sequence_gate_input d))
      (all_relations (gi_relations (sequence_gate_input d))) (Some (gi_ids (sequence_gate_input d)))
      (gi_path (sequence_gate_input d)) 8 = []"
    using g by (simp add: gate_problems_def sequence_gate_input_def Let_def sequence_relations_def all_relations_def)
  show "rel r ''from'' \<in> set (gi_ids (sequence_gate_input d)) \<and> rel r ''to'' \<in> set (gi_ids (sequence_gate_input d))"
    if "r \<in> set (gi_relations (sequence_gate_input d))" for r
  proof -
    have "sound_message d r" using all_messages_sound [OF validate_parts(1) [OF v]] that
      by (simp add: sequence_gate_input_def)
    then obtain a b where "message_ends d r = Some (a, b)" by (auto simp: sound_message_def)
    then have "map_of (participant_map d) (rel r ''from'') \<noteq> None" "map_of (participant_map d) (rel r ''to'') \<noteq> None"
      by (auto simp: message_ends_def participant_def split: option.splits)
    then show ?thesis by (auto simp: sequence_gate_input_def sequence_ids_def map_of_eq_None_iff)
  qed
next
  fix d
  show "gi_ids (sequence_gate_input d)
      = map (\<lambda>q. case q of None \<Rightarrow> JUndef | Some ob \<Rightarrow> ob_id ob) (gi_obstacles (sequence_gate_input d))"
    by (simp add: sequence_gate_input_def headers_def sequence_ids_def comp_def split_beta)
qed

section \<open>A sample diagram\<close>

definition sample_participant :: "string \<Rightarrow> jval" where
  "sample_participant k = text_object [(''id'', k), (''label'', k)]"

definition sample_message :: "nat \<Rightarrow> real \<Rightarrow> relation" where
  "sample_message n y = \<lparr>address = n, object = JObj [(lit ''from'', JStr (lit ''api'')), (lit ''to'', JStr (lit ''db'')),
     (lit ''y'', JNum y), (lit ''label'', JStr (lit ''get''))]\<rparr>"

definition sample_sequence :: sequence where
  "sample_sequence = \<lparr>sq_meta = JObj [], sq_width = 920, sq_height = 760,
     sq_participants = [sample_participant ''api'', sample_participant ''db''],
     sq_messages = [sample_message 0 170, sample_message 2 210], sq_segments = [], sq_activations = []\<rparr>"

lemma sample_fields [simp]:
  "rel (sample_message n y) ''from'' = JStr (lit ''api'')" "rel (sample_message n y) ''to'' = JStr (lit ''db'')"
  "rel (sample_message n y) ''y'' = JNum y" "rel (sample_message n y) ''label'' = JStr (lit ''get'')"
  "rel (sample_message n y) ''key'' = JUndef" "rel (sample_message n y) ''id'' = JUndef"
  "field (sample_participant k) ''id'' = JStr (lit k)" "field (sample_participant k) ''label'' = JStr (lit k)"
  "field (sample_participant k) ''sublabel'' = JUndef" "field (JObj []) k' = JUndef"
  by (simp_all add: sample_message_def rel_def sample_participant_def text_object_def field_def)

lemma sample_layout [simp]:
  "participantW sample_sequence = 86" "colGap sample_sequence = 108" "leftX sample_sequence = 62"
  "lifelineBottom sample_sequence = 695" "sq_messages sample_sequence = [sample_message 0 170, sample_message 2 210]"
  "sq_participants sample_sequence = [sample_participant ''api'', sample_participant ''db'']"
  "sq_segments sample_sequence = []" "sq_activations sample_sequence = []" "sq_meta sample_sequence = JObj []"
  "sq_width sample_sequence = 920"
  by (simp_all add: participantW_def colGap_def leftX_def lifelineBottom_def spread_columns_def sample_sequence_def)

lemma sample_map [simp]:
  "participant_map sample_sequence =
     [(JStr (lit ''api''), \<lparr>pp_object = sample_participant ''api'', pp_cx = 62\<rparr>),
      (JStr (lit ''db''), \<lparr>pp_object = sample_participant ''db'', pp_cx = 170\<rparr>)]"
  by (simp add: participant_map_def indexed_def participantX_def)

lemma sample_ends [simp]:
  "message_ends sample_sequence (sample_message n y) = Some (62, 170)" "message_y (sample_message n y) = Some y"
  by (simp_all add: message_ends_def participant_def message_y_def)

lemma sample_units [simp]: "label_units num (JStr (lit ''get'')) = 3" "label_units num (JStr (lit ''api'')) = 3"
  "label_units num (JStr (lit ''db'')) = 2"
  by (simp_all add: label_units_def shown_def textUnits_def lit_def high_surrogate_def variation_selector_def
      fullwidth_def FULLWIDTH_RE_def)

lemma sample_messages_ok:
  "concat (map (message_problems sample_sequence) (indexed (sq_messages sample_sequence))) = []"
  by (simp add: indexed_def message_problems_def participant_def less_js_def lifelineTop_def Let_def)

lemma sample_label_rects:
  "label_rects num sample_sequence = [(0, sample_message 0 170, box 99 150 34 16) , (Suc 0, sample_message 2 210, box 99 190 34 16)]"
  by (simp add: label_rects_def indexed_def List.map_filter_simps messageLabelBox_def messageGeometry_def
      message_label_width_def box_def)

lemma sample_valid: "validateSequence num None (\<lambda>_. False) sample_sequence = []"
proof -
  have gates: "gate_problems None sample_sequence = []"
    using gates_silent [OF sample_messages_ok, of None JUndef False]
    by (simp add: gate_problems_def cleanAmbiguousCorridorProblems_def cleanBorderRunProblems_def
        cleanRouteRhythmProblems_def qualityProfileForGate_def showcase_def)
  have crowd: "crowding (placed_messages sample_sequence) = []"
    by (simp add: placed_messages_def indexed_def List.map_filter_simps sort_by_def)
  have labels: "label_overlaps (label_rects num sample_sequence) = []"
    by (simp add: sample_label_rects label_overlaps_def rectsOverlap_def box_def finite_rects_overlap_def)
  have near: "cleanLabelRouteClearanceProblems num None JUndef False rels labels ids pf t = []" for rels labels ids pf t
    by (simp add: cleanLabelRouteClearanceProblems_def qualityProfileForGate_def showcase_def)
  show ?thesis
    unfolding validateSequence_def Let_def gates crowd labels sample_messages_ok
    by (simp add: near participant_problems_def brand_rail_problem_def lifelineTop_def last_participant_problem_def
        participant_def Let_def)
qed

section \<open>Contracts\<close>

text \<open>The header gate and the crossing gate never reject a sequence diagram on their own: when every
  message lies in the readable timeline and spans its minimum, no message runs through a
  participant header and no two messages cross, in every quality profile.\<close>

lemma sequence_gates_silent:
  assumes "concat (map (message_problems d) (indexed (sq_messages d))) = []"
  shows "cleanFlowProblems (sequence_relations d) (headers d) (messagePath d) 0 = []
    \<and> cleanCrossingProblems env profile auth (sequence_relations d) (sequence_ids d) (messagePath d) False = []"
  by (rule gates_silent [OF assms])

lemma sequence_gates_silent_witness:
  "cleanCrossingProblems None showcase True (sequence_relations sample_sequence) (sequence_ids sample_sequence)
     (messagePath sample_sequence) False = []"
  by (rule conjunct2 [OF sequence_gates_silent [OF sample_messages_ok]])

lemma labels_apart:
  assumes "label_overlaps (label_rects num d) = []" and "i < j" and "j < length (sq_messages d)"
    and "messageLabelBox num d (sq_messages d ! i) = Some r" and "messageLabelBox num d (sq_messages d ! j) = Some q"
  shows "\<not> rectsOverlap r q (- 2)"
proof -
  have "((i, sq_messages d ! i, r), (j, sq_messages d ! j, q)) \<in> set (pairs_of (label_rects num d))"
    unfolding label_rects_def using assms(2-5) by (intro pairs_of_indexed_filter) simp_all
  from label_overlaps_Nil [OF assms(1) this] show ?thesis .
qed

text \<open>C11: in a sequence diagram without problems no two participants have the same id, every message joins two
  known participants at least 60 apart and lies in the readable timeline, two messages that share
  columns are at least 28 apart, and the labels of different messages do not overlap (up to 2).\<close>

theorem sequence_layout_sound:
  assumes "validateSequence num env marked d = []"
  shows "distinct (map (\<lambda>p. field p ''id'') (sq_participants d))
    \<and> (\<forall>m \<in> set (sq_messages d). \<exists>a b y. message_ends d m = Some (a, b) \<and> 60 \<le> \<bar>b - a\<bar> \<and> message_y m = Some y
        \<and> lifelineTop + 18 \<le> y \<and> y \<le> lifelineBottom d - 18)
    \<and> (\<forall>i j a b a' b' y z. i < length (sq_messages d) \<longrightarrow> j < length (sq_messages d) \<longrightarrow> i \<noteq> j
        \<longrightarrow> message_ends d (sq_messages d ! i) = Some (a, b) \<longrightarrow> message_ends d (sq_messages d ! j) = Some (a', b')
        \<longrightarrow> message_y (sq_messages d ! i) = Some y \<longrightarrow> message_y (sq_messages d ! j) = Some z
        \<longrightarrow> min a b < max a' b' \<longrightarrow> min a' b' < max a b \<longrightarrow> 28 \<le> \<bar>z - y\<bar>)
    \<and> (\<forall>i j r q. i < j \<longrightarrow> j < length (sq_messages d) \<longrightarrow> messageLabelBox num d (sq_messages d ! i) = Some r
        \<longrightarrow> messageLabelBox num d (sq_messages d ! j) = Some q \<longrightarrow> \<not> rectsOverlap r q (- 2))"
proof (intro conjI allI impI ballI)
  note parts = validate_parts [OF assms(1)]
  show "distinct (map (\<lambda>p. field p ''id'') (sq_participants d))"
    using parts(4) unfolding participant_map_def by (rule filled_distinct_indexed)
  show "\<exists>a b y. message_ends d m = Some (a, b) \<and> 60 \<le> \<bar>b - a\<bar> \<and> message_y m = Some y
      \<and> lifelineTop + 18 \<le> y \<and> y \<le> lifelineBottom d - 18" if "m \<in> set (sq_messages d)" for m
    using all_messages_sound [OF parts(1)] that by (auto simp: sound_message_def)
  show "28 \<le> \<bar>z - y\<bar>"
    if "i < length (sq_messages d)" "j < length (sq_messages d)" "i \<noteq> j"
      "message_ends d (sq_messages d ! i) = Some (a, b)" "message_ends d (sq_messages d ! j) = Some (a', b')"
      "message_y (sq_messages d ! i) = Some y" "message_y (sq_messages d ! j) = Some z"
      "min a b < max a' b'" "min a' b' < max a b" for i j a b a' b' y z
  proof -
    have m: "(i, sq_messages d ! i) \<in> set (indexed (sq_messages d))" and n: "(j, sq_messages d ! j) \<in> set (indexed (sq_messages d))"
      using that(1,2) by (simp_all add: indexed_iff)
    show ?thesis
      using crowding_apart [OF parts(2) [unfolded placed_messages_def] placed_message [OF m that(4,6)]
          placed_message [OF n that(5,7)]] that(3,8,9) by (simp add: share_columns_def)
  qed
  show "\<not> rectsOverlap r q (- 2)"
    if "i < j" "j < length (sq_messages d)" "messageLabelBox num d (sq_messages d ! i) = Some r"
      "messageLabelBox num d (sq_messages d ! j) = Some q" for i j r q
    by (rule labels_apart [OF parts(3) that])
qed

lemma sequence_layout_sound_witness:
  "\<exists>a b y. message_ends sample_sequence (sample_message 0 170) = Some (a, b) \<and> 60 \<le> \<bar>b - a\<bar>
     \<and> message_y (sample_message 0 170) = Some y \<and> lifelineTop + 18 \<le> y \<and> y \<le> lifelineBottom sample_sequence - 18"
proof -
  have "sample_message 0 170 \<in> set (sq_messages sample_sequence)" by simp
  with sequence_layout_sound [OF sample_valid [of "\<lambda>_. []"]] show ?thesis by blast
qed

end
