(* ===== verification/Grid.thy ===== *)
theory Grid
  imports Diagrams
begin

text \<open>
  The grid of an architecture diagram, \<open>renderers/architecture/grid.mjs\<close>: where a component lies that
  is placed by its own position or by its cell, and the validation of the cells.
\<close>

section \<open>Placement\<close>

record grid =
  gr_origin :: "jsnum \<times> jsnum"
  gr_cols :: jsnum
  gr_gapX :: jsnum
  gr_gapY :: jsnum
  gr_cellW :: jsnum
  gr_cellH :: jsnum

text \<open>\<open>{ ...DEFAULT_GRID, ...raw }\<close>\<close>

definition grid_number :: "jval \<Rightarrow> string \<Rightarrow> real \<Rightarrow> jsnum" where
  "grid_number raw k d = (case field raw k of JUndef \<Rightarrow> Some d | v \<Rightarrow> number_of v)"

definition grid_origin :: "jval \<Rightarrow> jsnum \<times> jsnum" where
  "grid_origin raw = (case field raw ''origin'' of
     JUndef \<Rightarrow> (Some 40, Some 80) | v \<Rightarrow> (number_at 0 (items v), number_at 1 (items v)))"

definition grid_mode :: jval where
  "grid_mode = JStr (lit ''grid'')"

definition gridLayout :: "jval \<Rightarrow> grid option" where
  "gridLayout raw =
     (if \<not> truthy raw \<or> field raw ''mode'' \<noteq> grid_mode then None
      else Some \<lparr>gr_origin = grid_origin raw, gr_cols = grid_number raw ''cols'' 4,
             gr_gapX = grid_number raw ''gapX'' 30, gr_gapY = grid_number raw ''gapY'' 40,
             gr_cellW = grid_number raw ''cellW'' 130, gr_cellH = grid_number raw ''cellH'' 64\<rparr>)"

definition has_pos :: "jval \<Rightarrow> bool" where
  "has_pos c \<longleftrightarrow> (case field c ''pos'' of JArr vs \<Rightarrow> length vs = 2 | _ \<Rightarrow> False)"

definition has_cell :: "jval \<Rightarrow> bool" where
  "has_cell c \<longleftrightarrow> is_integer (field c ''row'') \<and> is_integer (field c ''col'')"

definition resolveComponentPos :: "jval \<Rightarrow> grid option \<Rightarrow> jsnum \<times> jsnum" where
  "resolveComponentPos c grid =
     (if has_pos c then (number_at 0 (items (field c ''pos'')), number_at 1 (items (field c ''pos'')))
      else (case grid of
         None \<Rightarrow> (None, None)
       | Some g \<Rightarrow>
           if \<not> has_cell c then (None, None)
           else (plus_js (fst (gr_origin g))
                   (times_js (number_of (field c ''col'')) (plus_js (gr_cellW g) (gr_gapX g))),
                 plus_js (snd (gr_origin g))
                   (times_js (number_of (field c ''row'')) (plus_js (gr_cellH g) (gr_gapY g))))))"

section \<open>Validation\<close>

datatype grid_problem =
    ModeNotGrid
  | NeedsCell jval
  | NegativeCell jval
  | ColumnTooLarge jval
  | SharedCell jval jval

text \<open>The cell of a component as the pair of its numbers; the code keys its \<open>Map\<close> by their text.\<close>

definition cell :: "jval \<Rightarrow> jsnum \<times> jsnum" where
  "cell c = (number_of (field c ''row''), number_of (field c ''col''))"

fun cell_problems :: "grid \<Rightarrow> ((jsnum \<times> jsnum) \<times> jval) list \<Rightarrow> jval list \<Rightarrow> grid_problem list" where
  "cell_problems g seen [] = []"
| "cell_problems g seen (c # cs) =
     (if has_pos c then cell_problems g seen cs
      else if \<not> has_cell c then NeedsCell (field c ''id'') # cell_problems g seen cs
      else if less_js (fst (cell c)) (Some 0) \<or> less_js (snd (cell c)) (Some 0)
        then NegativeCell (field c ''id'') # cell_problems g seen cs
      else problem_if (le_js (gr_cols g) (snd (cell c))) (ColumnTooLarge (field c ''id''))
        @ (case map_of seen (cell c) of
             Some other \<Rightarrow> SharedCell other (field c ''id'') # cell_problems g seen cs
           | None \<Rightarrow> cell_problems g ((cell c, field c ''id'') # seen) cs))"

definition validateGridPlacement :: "jval \<Rightarrow> jval list \<Rightarrow> grid option \<Rightarrow> grid_problem list" where
  "validateGridPlacement layout components grid =
     (case grid of
        None \<Rightarrow> []
      | Some g \<Rightarrow>
          if layout \<noteq> JUndef \<and> field layout ''mode'' \<noteq> grid_mode then [ModeNotGrid]
          else cell_problems g [] components)"

section \<open>Components of different cells\<close>

lemma cell_problems_seen:
  assumes "cell_problems g seen cs = []"
  shows "distinct (map cell (filter (\<lambda>c. \<not> has_pos c) cs))
    \<and> (\<forall>c \<in> set cs. \<not> has_pos c \<longrightarrow> has_cell c \<and> cell c \<notin> fst ` set seen
        \<and> \<not> less_js (fst (cell c)) (Some 0) \<and> \<not> less_js (snd (cell c)) (Some 0)
        \<and> \<not> le_js (gr_cols g) (snd (cell c)))"
  using assms
proof (induction g seen cs rule: cell_problems.induct)
  case (2 g seen c cs)
  note p = "2.prems" [unfolded cell_problems.simps]
  show ?case
  proof (cases "has_pos c")
    case True
    with "2.IH"(1) p show ?thesis by simp
  next
    case False
    note q = p [unfolded if_not_P [OF False]]
    have c: "has_cell c" "\<not> (less_js (fst (cell c)) (Some 0) \<or> less_js (snd (cell c)) (Some 0))"
      using q by (simp_all split: if_splits)
    have r: "\<not> le_js (gr_cols g) (snd (cell c))" "map_of seen (cell c) = None"
      "cell_problems g ((cell c, field c ''id'') # seen) cs = []"
      using q c by (simp_all split: option.splits)
    have ih: "distinct (map cell (filter (\<lambda>c. \<not> has_pos c) cs))
        \<and> (\<forall>d \<in> set cs. \<not> has_pos d \<longrightarrow> has_cell d \<and> cell d \<notin> insert (cell c) (fst ` set seen)
          \<and> \<not> less_js (fst (cell d)) (Some 0) \<and> \<not> less_js (snd (cell d)) (Some 0)
          \<and> \<not> le_js (gr_cols g) (snd (cell d)))"
      using "2.IH"(4) [OF False _ c(2) r(2,3)] c(1) by simp
    from ih c r(1,2) False show ?thesis by (auto simp: map_of_eq_None_iff)
  qed
qed simp

lemma cell_integers:
  assumes "has_cell c"
  obtains r k where "cell c = (Some (of_int r), Some (of_int k))"
proof -
  have num: "\<exists>n. number_of v = Some (of_int n)" if "is_integer v" for v
    using that by (cases v) (auto simp: is_integer_def intro: exI [of _ "\<lfloor>_\<rfloor>"] dest: sym)
  from assms num [of "field c ''row''"] num [of "field c ''col''"] show thesis
    by (auto simp: has_cell_def cell_def intro: that)
qed

lemma cell_position:
  assumes "has_cell c" and "\<not> has_pos c" and "cell c = (Some r, Some k)"
    and "gr_origin g = (Some ox, Some oy)" and "gr_cellW g = Some w" and "gr_cellH g = Some h"
    and "gr_gapX g = Some gx" and "gr_gapY g = Some gy"
  shows "resolveComponentPos c (Some g) = (Some (ox + k * (w + gx)), Some (oy + r * (h + gy)))"
  using assms by (simp add: resolveComponentPos_def plus_js_def times_js_def cell_def)

lemma integer_step:
  assumes "(k :: int) \<noteq> k'" and "0 \<le> (step :: real)"
  shows "of_int k * step + step \<le> of_int k' * step \<or> of_int k' * step + step \<le> of_int k * step"
proof -
  from assms(1) have "of_int k + 1 \<le> (of_int k' :: real) \<or> of_int k' + 1 \<le> (of_int k :: real)" by linarith
  then show ?thesis
    using mult_right_mono [OF _ assms(2), of "of_int k + 1" "of_int k'"]
      mult_right_mono [OF _ assms(2), of "of_int k' + 1" "of_int k"] by (auto simp: algebra_simps)
qed

text \<open>A validated grid separates its components: two components placed by their cells have numeric
  positions, and when neither is larger than a cell they keep the smaller of the two gaps between
  them.\<close>

lemma grid_cells_apart:
  assumes "validateGridPlacement layout cs (Some g) = []" and "layout = JUndef \<or> field layout ''mode'' = grid_mode"
    and "i < j" and "j < length cs" and "\<not> has_pos (cs ! i)" and "\<not> has_pos (cs ! j)"
    and "gr_origin g = (Some ox, Some oy)" and "gr_cellW g = Some w" and "gr_cellH g = Some h"
    and "gr_gapX g = Some gx" and "gr_gapY g = Some gy" and "0 \<le> w + gx" and "0 \<le> h + gy"
  shows "\<exists>x y x' y'. resolveComponentPos (cs ! i) (Some g) = (Some x, Some y)
    \<and> resolveComponentPos (cs ! j) (Some g) = (Some x', Some y')
    \<and> (\<forall>a b a' b'. a \<le> w \<longrightarrow> a' \<le> w \<longrightarrow> b \<le> h \<longrightarrow> b' \<le> h \<longrightarrow>
          \<not> finite_rects_overlap \<lparr>rx = x, ry = y, rwidth = a, rheight = b\<rparr>
              \<lparr>rx = x', ry = y', rwidth = a', rheight = b'\<rparr> (min gx gy))"
proof -
  have "cell_problems g [] cs = []" using assms(1,2) by (auto simp: validateGridPlacement_def)
  note c = cell_problems_seen [OF this]
  have mem: "cs ! i \<in> set cs" "cs ! j \<in> set cs" using assms(3,4) by simp_all
  have hc: "has_cell (cs ! i)" "has_cell (cs ! j)" using c mem assms(5,6) by blast+
  obtain r k where rk: "cell (cs ! i) = (Some (of_int r), Some (of_int k))" using cell_integers [OF hc(1)] .
  obtain r' k' where rk': "cell (cs ! j) = (Some (of_int r'), Some (of_int k'))" using cell_integers [OF hc(2)] .
  have "cell (cs ! i) \<noteq> cell (cs ! j)"
    using distinct_filter_nth [OF conjunct1 [OF c] assms(3,4)] assms(5,6) by simp
  then have "r \<noteq> r' \<or> k \<noteq> k'" by (auto simp: rk rk')
  then have "of_int k * (w + gx) + (w + gx) \<le> of_int k' * (w + gx) \<or> of_int k' * (w + gx) + (w + gx) \<le> of_int k * (w + gx)
      \<or> of_int r * (h + gy) + (h + gy) \<le> of_int r' * (h + gy) \<or> of_int r' * (h + gy) + (h + gy) \<le> of_int r * (h + gy)"
    using integer_step [OF _ assms(12)] integer_step [OF _ assms(13)] by blast
  then show ?thesis
    unfolding cell_position [OF hc(1) assms(5) rk assms(7-11)] cell_position [OF hc(2) assms(6) rk' assms(7-11)]
    by (intro exI conjI refl allI impI) (auto simp: finite_rects_overlap_def min_def)
qed

definition sample_cell :: "string \<Rightarrow> real \<Rightarrow> real \<Rightarrow> jval" where
  "sample_cell i r k = JObj [(lit ''id'', JStr (lit i)), (lit ''row'', JNum r), (lit ''col'', JNum k)]"

definition sample_grid :: grid where
  "sample_grid = \<lparr>gr_origin = (Some 40, Some 80), gr_cols = Some 4, gr_gapX = Some 30, gr_gapY = Some 40,
     gr_cellW = Some 130, gr_cellH = Some 64\<rparr>"

lemma grid_cells_apart_witness:
  "\<exists>x y x' y'. resolveComponentPos (sample_cell ''a'' 0 0) (Some sample_grid) = (Some x, Some y)
    \<and> resolveComponentPos (sample_cell ''b'' 0 1) (Some sample_grid) = (Some x', Some y')
    \<and> \<not> finite_rects_overlap \<lparr>rx = x, ry = y, rwidth = 130, rheight = 64\<rparr>
        \<lparr>rx = x', ry = y', rwidth = 130, rheight = 64\<rparr> 30"
proof -
  have f: "field (sample_cell i r k) ''id'' = JStr (lit i)" "field (sample_cell i r k) ''row'' = JNum r"
    "field (sample_cell i r k) ''col'' = JNum k" "field (sample_cell i r k) ''pos'' = JUndef" for i r k
    by (simp_all add: field_def sample_cell_def)
  have p: "\<not> has_pos (sample_cell i r k)" for i r k by (simp add: has_pos_def f)
  have v: "validateGridPlacement JUndef [sample_cell ''a'' 0 0, sample_cell ''b'' 0 1] (Some sample_grid) = []"
    by (simp add: validateGridPlacement_def p has_cell_def is_integer_def cell_def f less_js_def le_js_def sample_grid_def)
  from grid_cells_apart [OF v, of 0 1 40 80 130 64 30 40] p show ?thesis
    by (fastforce simp: sample_grid_def)
qed

end
