(* ===== verification/Boundaries.thy ===== *)
theory Boundaries
  imports Grid
begin

text \<open>
  The frames of an architecture diagram and their titles, the first half of
  \<open>renderers/architecture/render-architecture.mjs\<close>.  The layout is that of components with numeric
  boxes; a diagram with another component is refused before.  The words of the legend and the
  text of a number are arguments.
\<close>

section \<open>Components\<close>

record architecture =
  ar_meta :: jval
  ar_layout :: jval
  ar_components :: "jval list"
  ar_boundaries :: "jval list"
  ar_connections :: "relation list"

definition measureComponent :: "grid option \<Rightarrow> jval \<Rightarrow> jval \<times> raw_rect" where
  "measureComponent grid c =
     (let p = resolveComponentPos c grid in
      (c, \<lparr>raw_x = fst p, raw_y = snd p,
           raw_width = (case field c ''size'' of JArr vs \<Rightarrow> number_at 0 vs | _ \<Rightarrow> Some 120),
           raw_height = (case field c ''size'' of JArr vs \<Rightarrow> number_at 1 vs | _ \<Rightarrow> Some 60)\<rparr>))"

definition measured_components :: "architecture \<Rightarrow> (jval \<times> jval \<times> raw_rect) list" where
  "measured_components a = foldl (\<lambda>m c. map_put (field c ''id'') (measureComponent (gridLayout (ar_layout a)) c) m)
     [] (ar_components a)"

definition components :: "architecture \<Rightarrow> (jval \<times> placed_node) list" where
  "components a = List.map_filter placed_component (measured_components a)"

definition all_finite :: "architecture \<Rightarrow> bool" where
  "all_finite a \<longleftrightarrow> list_all (\<lambda>e. placed_component e \<noteq> None) (measured_components a)"

definition enforcesBoundaryTitleComposition :: "architecture \<Rightarrow> bool" where
  "enforcesBoundaryTitleComposition a \<longleftrightarrow> truthy (field (ar_meta a) ''quality_profile'')"

section \<open>Frames\<close>

record boundary_box =
  bb_object :: jval
  bb_rect :: rect
  bb_member_top :: real

record boundary_title =
  tt_rect :: rect
  tt_font :: real
  tt_minimum :: real
  tt_baseline :: real
  tt_available :: real
  tt_required :: real

record titled_boundary =
  tb_box :: boundary_box
  tb_title :: boundary_title

definition right_edge :: "rect \<Rightarrow> real" where "right_edge r = rx r + rwidth r"
definition bottom_edge :: "rect \<Rightarrow> real" where "bottom_edge r = ry r + rheight r"

definition member_rects :: "(jval \<times> placed_node) list \<Rightarrow> jval \<Rightarrow> rect list" where
  "member_rects ns b = map (\<lambda>n. rect_of (pn_box n)) (List.map_filter (map_of ns) (wraps b))"

definition boundaryRect :: "(jval \<times> placed_node) list \<Rightarrow> jval \<Rightarrow> boundary_box option" where
  "boundaryRect ns b =
     (let members = member_rects ns b in
      if members = [] then None
      else
        let minX = least (map rx members); minY = least (map ry members);
            maxX = greatest (map right_edge members); maxY = greatest (map bottom_edge members);
            pad = number_or 30 (field b ''pad''); topPad = max pad (18 + 4) in
        Some \<lparr>bb_object = b,
          bb_rect = \<lparr>rx = minX - pad, ry = minY - topPad, rwidth = maxX - minX + pad * 2,
            rheight = maxY - minY + topPad + 20\<rparr>,
          bb_member_top = minY\<rparr>)"

definition rectContains :: "rect \<Rightarrow> rect \<Rightarrow> bool" where
  "rectContains outer inner \<longleftrightarrow>
     (let epsilon = 1 / 1000000000 in
      rx outer \<le> rx inner + epsilon \<and> ry outer \<le> ry inner + epsilon
      \<and> right_edge inner \<le> right_edge outer + epsilon \<and> bottom_edge inner \<le> bottom_edge outer + epsilon)"

definition boundaryLabelWidth :: "number_text \<Rightarrow> jval \<Rightarrow> real \<Rightarrow> real" where
  "boundaryLabelWidth num label font = max 30 (label_units num label * font * (6 / 10) + 10)"

definition rawBoundaries :: "architecture \<Rightarrow> boundary_box list" where
  "rawBoundaries a = List.map_filter (boundaryRect (components a)) (ar_boundaries a)"

section \<open>The automatic view box\<close>

definition architectureLegendEntries :: "(jstring \<Rightarrow> jstring) \<Rightarrow> architecture \<Rightarrow> resolved_entry list" where
  "architectureLegendEntries words a =
     resolveLegend (legend_config_of (field (ar_meta a) ''legend'')) (map (catalog_entry words) component_kinds)
       (kinds_present (map (\<lambda>(i, n). field (pn_object n) ''type'') (components a)))"

definition default_footprint :: "resolved_entry list \<Rightarrow> real \<Rightarrow> footprint" where
  "default_footprint entries width = legendFootprint entries width 8 22 22 8"

definition autoViewBoxFor :: "(jstring \<Rightarrow> jstring) \<Rightarrow> architecture \<Rightarrow> rect list \<Rightarrow> real \<times> real" where
  "autoViewBoxFor words a frames =
     (let rects = map (\<lambda>(i, n). rect_of (pn_box n)) (components a) @ frames;
          maxX = foldl max 0 (map right_edge rects); maxY = foldl max 0 (map bottom_edge rects);
          entries = architectureLegendEntries words a;
          width0 = of_int \<lceil>maxX + 40\<rceil>;
          f0 = default_footprint entries (max 1 (width0 - 40 * 2));
          wide = width0 - 40 * 2 < fp_min_width f0;
          width = (if wide then of_int \<lceil>fp_min_width f0 + 40 * 2\<rceil> else width0);
          f = (if wide then default_footprint entries (width - 40 * 2) else f0) in
      (width, of_int \<lceil>maxY + 40 + 28 + fp_extra_height f\<rceil>))"

definition resolvedViewBoxWidth :: "(jstring \<Rightarrow> jstring) \<Rightarrow> architecture \<Rightarrow> rect list \<Rightarrow> real" where
  "resolvedViewBoxWidth words a frames =
     (case view_box (ar_meta a) of Some p \<Rightarrow> fst p | None \<Rightarrow> fst (autoViewBoxFor words a frames))"

section \<open>Titles\<close>

definition expandBoundaryForReadableTitle :: "number_text \<Rightarrow> bool \<Rightarrow> boundary_box \<Rightarrow> real \<Rightarrow> boundary_box" where
  "expandBoundaryForReadableTitle num enforce b minimum =
     (if \<not> enforce then b
      else
        let required = boundaryLabelWidth num (field (bb_object b) ''label'') minimum + 4 * 2;
            extra = max 0 (required - rwidth (bb_rect b)) in
        if extra = 0 then b
        else b\<lparr>bb_rect := (bb_rect b)\<lparr>rx := rx (bb_rect b) - extra / 2, rwidth := rwidth (bb_rect b) + extra\<rparr>\<rparr>)"

definition measureBoundaryTitle :: "number_text \<Rightarrow> boundary_box \<Rightarrow> real \<Rightarrow> boundary_title" where
  "measureBoundaryTitle num b minimum =
     (let label = field (bb_object b) ''label'';
          available = max 0 (rwidth (bb_rect b) - 4 * 2);
          units = label_units num label;
          fitted = (if 0 < units then (available - 10) / (units * (6 / 10)) else 9);
          preferred = max 9 minimum;
          font = max minimum (min preferred fitted);
          desired = boundaryLabelWidth num label font;
          height = max 16 (of_int \<lceil>font + 7\<rceil>) in
      \<lparr>tt_rect = \<lparr>rx = rx (bb_rect b) + 4, ry = bb_member_top b - 4 - height,
         rwidth = min available desired, rheight = height\<rparr>,
       tt_font = font, tt_minimum = minimum, tt_baseline = font + 4, tt_available = available,
       tt_required = boundaryLabelWidth num label minimum\<rparr>)"

definition horizontalOverlap :: "rect \<Rightarrow> rect \<Rightarrow> bool" where
  "horizontalOverlap l r \<longleftrightarrow> rx l < right_edge r \<and> rx r < right_edge l"

definition blocks :: "rect \<Rightarrow> rect \<Rightarrow> bool" where
  "blocks t r \<longleftrightarrow> horizontalOverlap t r \<and> finite_rects_overlap t r 0"

text \<open>A title moves above whatever it meets, while the guard allows.\<close>

fun raise_title :: "nat \<Rightarrow> rect list \<Rightarrow> rect \<Rightarrow> rect" where
  "raise_title 0 obstacles t = t"
| "raise_title (Suc n) obstacles t =
     (let blockers = filter (blocks t) obstacles in
      if blockers = [] then t
      else raise_title n obstacles (t\<lparr>ry := least (map (\<lambda>q. ry q - 2 - rheight t) blockers)\<rparr>))"

definition area :: "rect \<Rightarrow> real" where
  "area r = rwidth r * rheight r"

definition smaller_first :: "nat \<times> boundary_box \<Rightarrow> nat \<times> boundary_box \<Rightarrow> bool" where
  "smaller_first p q \<longleftrightarrow> area (bb_rect (snd p)) < area (bb_rect (snd q))
     \<or> area (bb_rect (snd p)) = area (bb_rect (snd q)) \<and> fst p \<le> fst q"

fun place_titles ::
  "(boundary_box \<Rightarrow> boundary_box \<times> boundary_title) \<Rightarrow> nat \<Rightarrow> rect list \<Rightarrow> rect list
   \<Rightarrow> (nat \<times> boundary_box) list \<Rightarrow> (nat \<times> titled_boundary) list" where
  "place_titles title_of guard nodes placed [] = []"
| "place_titles title_of guard nodes placed ((i, b) # bs) =
     (case title_of b of (box, t) \<Rightarrow>
       let r = raise_title guard (placed @ nodes) (tt_rect t) in
       (i, \<lparr>tb_box = box, tb_title = t\<lparr>tt_rect := r\<rparr>\<rparr>) # place_titles title_of guard nodes (placed @ [r]) bs)"

definition measured_title :: "number_text \<Rightarrow> bool \<Rightarrow> real \<Rightarrow> boundary_box \<Rightarrow> boundary_box \<times> boundary_title" where
  "measured_title num enforce minimum b =
     (let box = expandBoundaryForReadableTitle num enforce b minimum in (box, measureBoundaryTitle num box minimum))"

definition final_frame :: "bool \<Rightarrow> titled_boundary \<Rightarrow> titled_boundary" where
  "final_frame enforce t =
     (let r = bb_rect (tb_box t); bottom = ry r + rheight r;
          y = (if enforce then min (ry r) (ry (tt_rect (tb_title t)) - 4) else ry r) in
      t\<lparr>tb_box := (tb_box t)\<lparr>bb_rect := r\<lparr>ry := y, rheight := bottom - y\<rparr>\<rparr>\<rparr>)"

definition layoutBoundaryTitles ::
  "number_text \<Rightarrow> bool \<Rightarrow> rect list \<Rightarrow> boundary_box list \<Rightarrow> real \<Rightarrow> titled_boundary list" where
  "layoutBoundaryTitles num enforce nodes raw minimum =
     (let placed = place_titles (measured_title num enforce minimum) (length raw + length nodes + 1) nodes []
            (sort_by smaller_first (indexed raw)) in
      List.map_filter (\<lambda>i. map_option (final_frame enforce) (map_of placed i)) [0..<length raw])"

text \<open>The size of a title that is readable at the width of the view box; that width is positive.\<close>

definition readable_floor :: "real \<Rightarrow> real" where
  "readable_floor width = (case minimumReadableSourceTextPx (Some width) (Some DESKTOP_READER_DIAGRAM_WIDTH)
     (Some MIN_PROJECTED_NODE_TEXT_PX) of Some m \<Rightarrow> m | None \<Rightarrow> 0)"

definition frames_of :: "titled_boundary list \<Rightarrow> rect list" where
  "frames_of ts = map (\<lambda>t. bb_rect (tb_box t)) ts"

text \<open>The iteration between the size of the titles and the width they cause.\<close>

fun settle_titles ::
  "nat \<Rightarrow> (real \<Rightarrow> titled_boundary list) \<Rightarrow> (rect list \<Rightarrow> real) \<Rightarrow> rect list \<Rightarrow> titled_boundary list
   \<Rightarrow> titled_boundary list \<times> bool" where
  "settle_titles 0 layout width frames last_layout = (last_layout, False)"
| "settle_titles (Suc n) layout width frames last_layout =
     (let minimum = max 6 (readable_floor (width frames) + 1 / 1000000);
          ts = layout minimum in
      if max 6 (readable_floor (width (frames_of ts))) \<le> minimum then (ts, True)
      else settle_titles n layout width (frames_of ts) ts)"

definition resolveBoundaryTitles ::
  "number_text \<Rightarrow> (jstring \<Rightarrow> jstring) \<Rightarrow> architecture \<Rightarrow> titled_boundary list \<times> bool" where
  "resolveBoundaryTitles num words a =
     (let raw = rawBoundaries a; enforce = enforcesBoundaryTitleComposition a;
          layout = layoutBoundaryTitles num enforce (map (\<lambda>(i, n). rect_of (pn_box n)) (components a)) raw in
      if \<not> enforce \<or> raw = [] then (layout 6, True)
      else settle_titles 32 layout (resolvedViewBoxWidth words a) (map bb_rect raw) [])"

definition boundaries :: "number_text \<Rightarrow> (jstring \<Rightarrow> jstring) \<Rightarrow> architecture \<Rightarrow> titled_boundary list" where
  "boundaries num words a = fst (resolveBoundaryTitles num words a)"

definition architecture_view_box :: "number_text \<Rightarrow> (jstring \<Rightarrow> jstring) \<Rightarrow> architecture \<Rightarrow> real \<times> real" where
  "architecture_view_box num words a = (case view_box (ar_meta a) of
     Some p \<Rightarrow> p | None \<Rightarrow> autoViewBoxFor words a (frames_of (boundaries num words a)))"

text \<open>The frames as the border gate takes them.\<close>

definition frame_radius :: "jval \<Rightarrow> real" where
  "frame_radius b = (if kind b = SECURITY_GROUP then 8 else 12)"

definition architecture_frames :: "titled_boundary list \<Rightarrow> frame list" where
  "architecture_frames ts = map (\<lambda>t. BoxFrame (raw_of (bb_rect (tb_box t)))
     (Some (frame_radius (bb_object (tb_box t))))) ts"

text \<open>The scopes of a component, the largest first.\<close>

definition componentContext :: "number_text \<Rightarrow> jstring \<Rightarrow> titled_boundary list \<Rightarrow> jval \<Rightarrow> jstring" where
  "componentContext num fallback ts i =
     (let scopes = sort_by (\<lambda>p q. area (bb_rect (tb_box q)) \<le> area (bb_rect (tb_box p)))
            (filter (\<lambda>t. i \<in> set (wraps (bb_object (tb_box t)))) ts) in
      if scopes = [] then fallback
      else join_with [32, 8250, 32] (map (\<lambda>t. shown num (field (bb_object (tb_box t)) ''label'')) scopes))"

end
