(* ===== verification/Connections.thy ===== *)
theory Connections
  imports Boundaries
begin

text \<open>
  The routing of an architecture diagram, the third part of
  \<open>renderers/architecture/render-architecture.mjs\<close>: which route an automatic connection takes
  between two components.  Components have numeric boxes and a connection handed to the router
  joins two known components.
\<close>

section \<open>Clear routes\<close>

definition routeClearsComponents :: "node_map \<Rightarrow> relation \<Rightarrow> point list \<Rightarrow> bool" where
  "routeClearsComponents ns conn ps \<longleftrightarrow>
     list_all (\<lambda>(i, n). bid (pn_box n) = rel conn ''from'' \<or> bid (pn_box n) = rel conn ''to''
       \<or> list_all (\<lambda>(a, b). \<not> segmentIntersectsRect a b (rect_of (pn_box n)) 2) (segments ps)) ns"

definition routeClearsEndpointComponents :: "point list \<Rightarrow> node_box \<Rightarrow> node_box \<Rightarrow> bool" where
  "routeClearsEndpointComponents ps f t \<longleftrightarrow>
     list_all (\<lambda>(i, a, b).
       \<not> (0 < i \<and> segmentIntersectsRect a b (rect_of f) 0)
       \<and> \<not> (i < length ps - 2 \<and> segmentIntersectsRect a b (rect_of t) 0)) (indexed (segments ps))"

definition outwardStub :: "point \<Rightarrow> jval \<Rightarrow> point" where
  "outwardStub p sd = (case map_of PORT_OUTWARD_VECTOR (side_name sd) of
     Some v \<Rightarrow> stub p v 24 | None \<Rightarrow> p)"

definition collinearBacktrack :: "point \<Rightarrow> point \<Rightarrow> point \<Rightarrow> bool" where
  "collinearBacktrack a b c \<longleftrightarrow>
     (let ux = fst b - fst a; uy = snd b - snd a; vx = fst c - fst b; vy = snd c - snd b in
      \<bar>ux * vy - uy * vx\<bar> \<le> 1 / 10000 \<and> ux * vx + uy * vy < - (1 / 10000))"

text \<open>A turn back in the first or in the last two segments.\<close>

definition starts_back :: "point list \<Rightarrow> bool" where
  "starts_back ps \<longleftrightarrow> (case ps of
     a # b # c # _ \<Rightarrow> collinearBacktrack a b c | [a, b] \<Rightarrow> collinearBacktrack a b b | _ \<Rightarrow> False)"

definition ends_back :: "point list \<Rightarrow> bool" where
  "ends_back ps \<longleftrightarrow> (case rev ps of
     c # b # a # _ \<Rightarrow> collinearBacktrack a b c | [c, b] \<Rightarrow> collinearBacktrack b b c | _ \<Rightarrow> False)"

definition inner :: "point list \<Rightarrow> point list" where
  "inner ps = butlast (tl ps)"

definition honors :: "point list \<Rightarrow> jval \<Rightarrow> jval \<Rightarrow> bool" where
  "honors ps fs ts \<longleftrightarrow> routeHonorsEndpointSides (raw_path ps) (side_name fs) (side_name ts)"

definition raw_side_aware :: "point \<Rightarrow> point \<Rightarrow> jval \<Rightarrow> jval \<Rightarrow> point list list" where
  "raw_side_aware s e fs ts =
     (let a = outwardStub s fs; b = outwardStub e ts in
      (if is_vertical fs \<and> is_vertical ts \<and> \<bar>fst s - fst e\<bar> < 16
       then map (\<lambda>x. [a, (x, snd a), (x, snd b), b]) [max (fst s) (fst e) + 16, min (fst s) (fst e) - 16] else [])
      @ (if is_horizontal fs \<and> is_horizontal ts \<and> \<bar>snd s - snd e\<bar> < 16
         then map (\<lambda>y. [a, (fst a, y), (fst b, y), b]) [max (snd s) (snd e) + 16, min (snd s) (snd e) - 16] else [])
      @ [[a, (fst b, snd a), b], [a, (fst a, snd b), b]])"

definition sideAwareBridgeCandidates :: "point \<Rightarrow> point \<Rightarrow> jval \<Rightarrow> jval \<Rightarrow> point list list" where
  "sideAwareBridgeCandidates s e fs ts =
     map inner (filter (\<lambda>ps. 2 \<le> length ps \<and> \<not> starts_back ps \<and> \<not> ends_back ps \<and> honors ps fs ts)
       (map (\<lambda>c. normalizeRoutePoints (raw_path ([s] @ c @ [e]))) (raw_side_aware s e fs ts)))"

section \<open>Facing ports\<close>

definition portHasCornerClearance :: "node_box \<Rightarrow> jval \<Rightarrow> point \<Rightarrow> bool" where
  "portHasCornerClearance r sd p \<longleftrightarrow>
     (if is_horizontal sd
      then let inset = min 16 (rheight r / 2) in ry r + inset \<le> snd p \<and> snd p \<le> ry r + rheight r - inset
      else if is_vertical sd
      then let inset = min 16 (rwidth r / 2) in rx r + inset \<le> fst p \<and> fst p \<le> rx r + rwidth r - inset
      else False)"

definition has_explicit_sides :: "relation \<Rightarrow> bool" where
  "has_explicit_sides conn \<longleftrightarrow> authored_side (rel conn ''fromSide'') \<noteq> None \<or> authored_side (rel conn ''toSide'') \<noteq> None"

definition horizontally_facing :: "jval \<Rightarrow> jval \<Rightarrow> bool" where
  "horizontally_facing fs ts \<longleftrightarrow> fs = RIGHT \<and> ts = LEFT \<or> fs = LEFT \<and> ts = RIGHT"

definition vertically_facing :: "jval \<Rightarrow> jval \<Rightarrow> bool" where
  "vertically_facing fs ts \<longleftrightarrow> fs = BOTTOM \<and> ts = TOP \<or> fs = TOP \<and> ts = BOTTOM"

definition aligned_ports :: "bool \<Rightarrow> bool \<Rightarrow> bool \<Rightarrow> point \<Rightarrow> point \<Rightarrow> (point \<times> point) list" where
  "aligned_ports horizontal from_spread to_spread s e =
     (let end_to_start = (if horizontal then (s, (fst e, snd s)) else (s, (fst s, snd e)));
          start_to_end = (if horizontal then ((fst s, snd e), e) else ((fst e, snd s), e)) in
      if from_spread then [end_to_start] else if to_spread then [start_to_end] else [end_to_start, start_to_end])"

definition alignment_ok :: "node_map \<Rightarrow> relation \<Rightarrow> node_box \<Rightarrow> node_box \<Rightarrow> jval \<Rightarrow> jval \<Rightarrow> point \<times> point \<Rightarrow> bool" where
  "alignment_ok ns conn f t fs ts c \<longleftrightarrow>
     (let ps = [fst c, snd c] in
      portHasCornerClearance f fs (fst c) \<and> portHasCornerClearance t ts (snd c) \<and> honors ps fs ts
      \<and> routeClearsEndpointComponents ps f t \<and> routeClearsComponents ns conn ps)"

definition alignFacingPorts ::
  "node_map \<Rightarrow> relation \<Rightarrow> node_box \<Rightarrow> node_box \<Rightarrow> point \<Rightarrow> point \<Rightarrow> jval \<Rightarrow> jval \<Rightarrow> bool \<Rightarrow> bool \<Rightarrow> point \<times> point" where
  "alignFacingPorts ns conn f t s e fs ts from_spread to_spread =
     (let horizontal = horizontally_facing fs ts;
          delta = (if horizontal then \<bar>snd s - snd e\<bar> else \<bar>fst s - fst e\<bar>) in
      if \<not> spread_eligible conn \<or> \<not> horizontal \<and> \<not> vertically_facing fs ts then (s, e)
      else if from_spread \<and> to_spread then (s, e)
      else if \<not> from_spread \<and> \<not> to_spread \<and> has_explicit_sides conn then (s, e)
      else if 16 \<le> delta then (s, e)
      else (case find (alignment_ok ns conn f t fs ts) (aligned_ports horizontal from_spread to_spread s e) of
              Some c \<Rightarrow> c | None \<Rightarrow> (s, e)))"

section \<open>Routes\<close>

text \<open>The outside channels for ports that almost align.\<close>

definition outside_channels ::
  "node_map \<Rightarrow> relation \<Rightarrow> node_box \<Rightarrow> node_box \<Rightarrow> point \<Rightarrow> point \<Rightarrow> jval \<Rightarrow> jval \<Rightarrow> point list option" where
  "outside_channels ns conn f t s e fs ts =
     (let ok = (\<lambda>c. honors (closed s c e) fs ts \<and> routeClearsComponents ns conn (closed s c e));
          on_vertical = (\<lambda>p r. snd p = ry r \<or> snd p = ry r + rheight r);
          on_horizontal = (\<lambda>p r. fst p = rx r \<or> fst p = rx r + rwidth r) in
      find ok
       ((if on_vertical s f \<and> on_vertical e t \<and> \<bar>fst s - fst e\<bar> < 8 * 2
         then [through_x (max (fst s) (fst e) + 8 * 2) s e, through_x (min (fst s) (fst e) - 8 * 2) s e] else [])
        @ (if on_horizontal s f \<and> on_horizontal e t \<and> \<bar>snd s - snd e\<bar> < 8 * 2
           then [through_y (max (snd s) (snd e) + 8 * 2) s e, through_y (min (snd s) (snd e) - 8 * 2) s e] else [])))"

definition near_parallel_ports :: "point \<Rightarrow> point \<Rightarrow> jval \<Rightarrow> jval \<Rightarrow> bool" where
  "near_parallel_ports s e fs ts \<longleftrightarrow>
     is_vertical fs \<and> is_vertical ts \<and> \<bar>fst s - fst e\<bar> < 8 * 2
     \<or> is_horizontal fs \<and> is_horizontal ts \<and> \<bar>snd s - snd e\<bar> < 8 * 2"

definition doglegs :: "point \<Rightarrow> point \<Rightarrow> point list list" where
  "doglegs s e = [through_x ((fst s + fst e) / 2) s e, through_y ((snd s + snd e) / 2) s e]"

definition side_safe :: "point \<Rightarrow> point \<Rightarrow> jval \<Rightarrow> jval \<Rightarrow> point list list" where
  "side_safe s e fs ts = filter (\<lambda>c. honors (closed s c e) fs ts) (doglegs s e)"

definition ordered_candidates :: "point \<Rightarrow> point \<Rightarrow> jval \<Rightarrow> jval \<Rightarrow> point list list" where
  "ordered_candidates s e fs ts =
     (let safe = side_safe s e fs ts; aware = sideAwareBridgeCandidates s e fs ts in
      (if near_parallel_ports s e fs ts then aware @ safe else safe @ aware)
      @ filter (\<lambda>c. \<not> honors (closed s c e) fs ts) (doglegs s e))"

definition route_clear :: "node_map \<Rightarrow> relation \<Rightarrow> node_box \<Rightarrow> node_box \<Rightarrow> point list \<Rightarrow> bool" where
  "route_clear ns conn f t ps \<longleftrightarrow> routeClearsEndpointComponents ps f t \<and> routeClearsComponents ns conn ps"

definition autoVia ::
  "node_map \<Rightarrow> relation \<Rightarrow> node_box \<Rightarrow> node_box \<Rightarrow> point \<Rightarrow> point \<Rightarrow> jval \<Rightarrow> jval \<Rightarrow> point list" where
  "autoVia ns conn f t s e fs ts =
     (if (\<bar>fst s - fst e\<bar> < 4 \<or> \<bar>snd s - snd e\<bar> < 4) \<and> honors [s, e] fs ts then []
      else case automaticPortRhythmBridge (Some [Some (fst s), Some (snd s)]) (Some [Some (fst e), Some (snd e)])
             (side_name fs) (side_name ts) 24 16 (Some (route_clear ns conn f t)) of
        Some ps \<Rightarrow> inner ps
      | None \<Rightarrow>
          (case outside_channels ns conn f t s e fs ts of
             Some c \<Rightarrow> c
           | None \<Rightarrow>
               (case find (\<lambda>c. route_clear ns conn f t (closed s c e)) (ordered_candidates s e fs ts) of
                  Some c \<Rightarrow> c
                | None \<Rightarrow> hd (side_safe s e fs ts @ sideAwareBridgeCandidates s e fs ts @ doglegs s e))))"

definition routeVia ::
  "node_map \<Rightarrow> relation \<Rightarrow> node_box \<Rightarrow> node_box \<Rightarrow> point \<Rightarrow> point \<Rightarrow> jval \<Rightarrow> jval \<Rightarrow> point list" where
  "routeVia ns conn f t s e fs ts =
     (let route = or_value (rel conn ''route'') (JStr (lit ''auto'')) in
      if truthy (rel conn ''via'') then points_of (rel conn ''via'')
      else if route = JStr (lit ''straight'') then []
      else if route = JStr (lit ''orthogonal-h'') then through_x ((fst s + fst e) / 2) s e
      else if route = JStr (lit ''orthogonal-v'') then through_y ((snd s + snd e) / 2) s e
      else autoVia ns conn f t s e fs ts)"

definition automatic_ports :: "number_text \<Rightarrow> relation list \<Rightarrow> node_map \<Rightarrow> nat \<times> endpoint \<rightharpoonup> point" where
  "automatic_ports num conns ns = automaticPortSpread num (all_relations conns) (node_at ns) 16 14 None"

definition connection_route :: "number_text \<Rightarrow> architecture \<Rightarrow> relation \<Rightarrow> point list option" where
  "connection_route num a conn =
     (let ns = components a in
      map_option (\<lambda>(f, t).
        let ports = automatic_ports num (ar_connections a) ns;
            fp = ports (address conn, Source); tp = ports (address conn, Target);
            fs = fst (connectionSides conn f t); ts = snd (connectionSides conn f t);
            (s, e) = alignFacingPorts ns conn f t (some_or fp (anchor f fs)) (some_or tp (anchor t ts)) fs ts
              (fp \<noteq> None) (tp \<noteq> None) in
        closed s (routeVia ns conn f t s e fs ts) e)
      (connection_ends ns conn))"

definition connection_path :: "number_text \<Rightarrow> architecture \<Rightarrow> relation \<Rightarrow> raw_point list option" where
  "connection_path num a conn = Option.bind (connection_route num a conn) raw_path"

end
