(* ===== verification/Architecture.thy ===== *)
theory Architecture
  imports Connections Drawings
begin

text \<open>
  The validation of an architecture diagram, its legend and its layout report, from
  \<open>renderers/architecture/render-architecture.mjs\<close> and \<open>renderers/shared/layout-report.mjs\<close>.  A problem is
  its kind with the elements it names, without the English text.  When a component has no numeric
  box the diagram is refused for it; what else the code would report from coordinates that are
  \<open>NaN\<close> is not modelled.
\<close>

section \<open>Problems\<close>

datatype architecture_problem =
    TitlesUnreadable
  | ComponentIdsNotUnique
  | CellProblem grid_problem
  | PosMissing jval
  | BoxNotFinite jval
  | SizeNotPositive jval
  | ComponentOutside jval
  | ComponentLabelTooWide jval
  | ComponentBrandRail jval
  | ComponentTextTooWide jval string
  | ComponentsTooClose jval jval
  | UnknownMember jval jval
  | TitleTooNarrow nat
  | TitleOutsideFrame nat
  | TitleOutsideViewBox nat
  | TitleOnComponent nat jval
  | TitlesOverlap nat nat
  | MembershipsCross nat nat
  | FramesPartlyOverlap nat nat
  | FramesOverlapDisjoint nat nat
  | FramesContradict nat nat
  | FrameOutside nat
  | UnknownConnectionSource nat
  | UnknownConnectionTarget nat
  | ConnectionTooShort nat
  | ConnectionGate gate_problem
  | LabelOnComponent nat jval
  | TitleOnLabel nat nat
  | ConnectionLabelsClose label_hit

section \<open>Components\<close>

definition placement_problems :: "architecture \<Rightarrow> architecture_problem list" where
  "placement_problems a =
     (case gridLayout (ar_layout a) of
        Some g \<Rightarrow> map CellProblem (validateGridPlacement (ar_layout a) (ar_components a) (Some g))
      | None \<Rightarrow> concat (map (\<lambda>c. problem_if (\<not> has_pos c) (PosMissing (field c ''id''))) (ar_components a)))"

definition component_layout_problems ::
  "number_text \<Rightarrow> (jval \<Rightarrow> bool) \<Rightarrow> real \<times> real \<Rightarrow> jval \<times> placed_node \<Rightarrow> architecture_problem list" where
  "component_layout_problems num marked vb e =
     (case e of (i, n) \<Rightarrow>
       let r = rect_of (pn_box n); c = pn_object n in
       if rwidth r \<le> 0 \<or> rheight r \<le> 0 then [SizeNotPositive i]
       else problem_if (rx r < 0 \<or> ry r < 0 \<or> fst vb < right_edge r \<or> snd vb < bottom_edge r) (ComponentOutside i)
         @ problem_if (rwidth r + 8 < label_units num (field c ''label'') * (66 / 10)) (ComponentLabelTooWide i)
         @ problem_if (brand_rail_problem num marked c (rwidth r) 8) (ComponentBrandRail i)
         @ problem_if (text_too_wide num (field c ''sublabel'') (rwidth r) 6) (ComponentTextTooWide i ''Sublabel'')
         @ problem_if (text_too_wide num (field c ''tag'') (rwidth r) 6) (ComponentTextTooWide i ''Tag''))"

definition component_pair_problems :: "node_map \<Rightarrow> architecture_problem list" where
  "component_pair_problems ns = concat (map (\<lambda>((i, m), (j, n)).
     problem_if (finite_rects_overlap (rect_of (pn_box m)) (rect_of (pn_box n)) 8) (ComponentsTooClose i j)) (pairs_of ns))"

section \<open>Boundaries\<close>

definition member_problems :: "node_map \<Rightarrow> jval list \<Rightarrow> architecture_problem list" where
  "member_problems ns bs = concat (map (\<lambda>b. concat (map (\<lambda>i.
     problem_if (map_of ns i = None) (UnknownMember b i)) (wraps b))) bs)"

definition title_problems ::
  "bool \<Rightarrow> node_map \<Rightarrow> real \<times> real \<Rightarrow> nat \<times> titled_boundary \<Rightarrow> architecture_problem list" where
  "title_problems enforce ns vb e =
     (case e of (k, t) \<Rightarrow>
       if \<not> enforce then []
       else problem_if (tt_available (tb_title t) < tt_required (tb_title t)) (TitleTooNarrow k)
         @ problem_if (\<not> rectContains (bb_rect (tb_box t)) (tt_rect (tb_title t))) (TitleOutsideFrame k)
         @ problem_if (\<not> rectContains \<lparr>rx = 0, ry = 0, rwidth = fst vb, rheight = snd vb\<rparr> (tt_rect (tb_title t)))
             (TitleOutsideViewBox k)
         @ concat (map (\<lambda>(i, n). problem_if (finite_rects_overlap (tt_rect (tb_title t)) (rect_of (pn_box n)) 0)
             (TitleOnComponent k i)) ns))"

definition boundary_pair_problems ::
  "bool \<Rightarrow> bool \<Rightarrow> (nat \<times> titled_boundary) \<times> (nat \<times> titled_boundary) \<Rightarrow> architecture_problem list" where
  "boundary_pair_problems enforce nested e =
     (case e of ((j, l), (k, r)) \<Rightarrow>
       problem_if (enforce \<and> finite_rects_overlap (tt_rect (tb_title l)) (tt_rect (tb_title r)) 0) (TitlesOverlap j k)
       @ (if \<not> nested then []
          else
            let ls = wraps (bb_object (tb_box l)); rs = wraps (bb_object (tb_box r));
                shared = list_ex (\<lambda>i. i \<in> set rs) ls;
                left_nested = list_all (\<lambda>i. i \<in> set rs) ls; right_nested = list_all (\<lambda>i. i \<in> set ls) rs;
                lf = bb_rect (tb_box l); rf = bb_rect (tb_box r) in
            if shared \<and> \<not> left_nested \<and> \<not> right_nested then [MembershipsCross j k]
            else if \<not> finite_rects_overlap lf rf 0 then []
            else if \<not> rectContains lf rf \<and> \<not> rectContains rf lf then [FramesPartlyOverlap j k]
            else if \<not> shared then [FramesOverlapDisjoint j k]
            else problem_if (\<not> (left_nested \<and> rectContains rf lf \<or> right_nested \<and> rectContains lf rf)) (FramesContradict j k)))"

definition frame_problems :: "real \<times> real \<Rightarrow> nat \<times> titled_boundary \<Rightarrow> architecture_problem list" where
  "frame_problems vb e = (case e of (k, t) \<Rightarrow>
     let r = bb_rect (tb_box t) in
     problem_if (rx r < 0 \<or> ry r < 0 \<or> fst vb < right_edge r \<or> snd vb < bottom_edge r) (FrameOutside k))"

section \<open>Connections\<close>

definition connection_end_problems :: "number_text \<Rightarrow> architecture \<Rightarrow> nat \<times> relation \<Rightarrow> architecture_problem list" where
  "connection_end_problems num a e =
     (case e of (k, conn) \<Rightarrow>
       problem_if (node_at (components a) (rel conn ''from'') = None) (UnknownConnectionSource k)
       @ problem_if (node_at (components a) (rel conn ''to'') = None) (UnknownConnectionTarget k)
       @ (case connection_route num a conn of
            None \<Rightarrow> []
          | Some ps \<Rightarrow> problem_if (span_of ps < 24) (ConnectionTooShort k)))"

definition architecture_gates :: "number_text \<Rightarrow> (jstring \<Rightarrow> jstring) \<Rightarrow> architecture \<Rightarrow> gate_input" where
  "architecture_gates num words a =
     (let ns = components a in
      \<lparr>gi_relations = ar_connections a, gi_obstacles = node_obstacles ns, gi_ids = map fst ns,
       gi_path = connection_path num a, gi_from_side = connectionEndpointSide ns Source,
       gi_to_side = connectionEndpointSide ns Target, gi_check_sides = (\<lambda>r. True),
       gi_frames = architecture_frames (boundaries num words a),
       gi_profile = field (ar_meta a) ''quality_profile'', gi_clearance = 2,
       gi_authoritative = False, gi_merge = False\<rparr>)"

definition connection_label_width :: "number_text \<Rightarrow> relation \<Rightarrow> real" where
  "connection_label_width num conn = max 30 (label_units num (rel conn ''label'') * (48 / 10) + 10)"

definition connection_label :: "number_text \<Rightarrow> architecture \<Rightarrow> relation \<Rightarrow> (point \<times> rect) option" where
  "connection_label num a conn = label_box conn (connection_route num a conn) 10 (connection_label_width num conn, 14)"

definition connection_labels :: "number_text \<Rightarrow> architecture \<Rightarrow> placed_label list" where
  "connection_labels num a = List.map_filter (\<lambda>(k, conn).
     map_option (\<lambda>(p, r). (k, conn, raw_of r)) (connection_label num a conn)) (indexed (ar_connections a))"

definition connection_label_problems ::
  "bool \<Rightarrow> node_map \<Rightarrow> titled_boundary list \<Rightarrow> placed_label \<Rightarrow> architecture_problem list" where
  "connection_label_problems enforce ns ts l =
     (case l of (k, conn, r) \<Rightarrow>
       concat (map (\<lambda>(i, n). problem_if (rectsOverlap r (raw_of (rect_of (pn_box n))) (- 2)) (LabelOnComponent k i)) ns)
       @ (if enforce then concat (map (\<lambda>(j, t). problem_if (rectsOverlap (raw_of (tt_rect (tb_title t))) r 0) (TitleOnLabel j k))
            (indexed ts)) else []))"

section \<open>Validation\<close>

definition validateArchitecture ::
  "number_text \<Rightarrow> (jstring \<Rightarrow> jstring) \<Rightarrow> jstring option \<Rightarrow> (jval \<Rightarrow> bool) \<Rightarrow> architecture \<Rightarrow> architecture_problem list" where
  "validateArchitecture num words env marked a =
     (let ns = components a; ts = boundaries num words a; vb = architecture_view_box num words a;
          enforce = enforcesBoundaryTitleComposition a;
          nested = (field (ar_meta a) ''engineering_profile'' = DEPLOYMENT_PROFILE);
          labels = connection_labels num a; gates = architecture_gates num words a in
      (if \<not> all_finite a
       then placement_problems a @ concat (map (\<lambda>e. problem_if (placed_component e = None) (BoxNotFinite (fst e)))
              (measured_components a))
       else problem_if (\<not> snd (resolveBoundaryTitles num words a)) TitlesUnreadable
         @ problem_if (length ns \<noteq> length (ar_components a)) ComponentIdsNotUnique
         @ placement_problems a
         @ concat (map (component_layout_problems num marked vb) ns)
         @ component_pair_problems ns
         @ member_problems ns (ar_boundaries a)
         @ concat (map (title_problems enforce ns vb) (indexed ts))
         @ concat (map (boundary_pair_problems enforce nested) (pairs_of (indexed ts)))
         @ concat (map (frame_problems vb) (indexed ts))
         @ concat (map (connection_end_problems num a) (indexed (ar_connections a)))
         @ map ConnectionGate (route_gates env gates)
         @ concat (map (connection_label_problems enforce ns ts) labels)
         @ map ConnectionLabelsClose (label_gate num env gates labels)))"

section \<open>Legend and layout report\<close>

definition architecture_legend_options :: "number_text \<Rightarrow> (jstring \<Rightarrow> jstring) \<Rightarrow> architecture \<Rightarrow> legend_options" where
  "architecture_legend_options num words a =
     (let vb = architecture_view_box num words a;
          rects = map (\<lambda>(i, n). rect_of (pn_box n)) (components a) @ frames_of (boundaries num words a) in
      \<lparr>lo_x = 40, lo_baseline = snd vb - 16, lo_width = fst vb - 40 * 2, lo_font = 8, lo_item_gap = 22, lo_line_gap = 22,
       lo_swatch_gap = 8, lo_min_title_y = foldl max 0 (map bottom_edge rects) + 8,
       lo_obstacles = relationshipLegendObstacles (Some (ar_connections a)) (Some (\<lambda>c i. connection_path num a c))
         (Some (\<lambda>c i. map_option (\<lambda>(p, r). raw_of r) (connection_label num a c))),
       lo_hide = (field (ar_meta a) ''legend'' = JUndef)\<rparr>)"

definition architecture_legend ::
  "number_text \<Rightarrow> (jstring \<Rightarrow> jstring) \<Rightarrow> architecture \<Rightarrow> legend_problem + legend_layout option" where
  "architecture_legend num words a =
     measureLegend (architectureLegendEntries words a) (architecture_legend_options num words a)"

definition rounded :: "real \<Rightarrow> jval" where
  "rounded x = JNum (of_int (js_round x))"

definition rounded_point :: "point \<Rightarrow> jval" where
  "rounded_point p = JArr [rounded (fst p), rounded (snd p)]"

definition optional :: "bool \<Rightarrow> string \<Rightarrow> jval \<Rightarrow> (jstring \<times> jval) list" where
  "optional b k v = (if b then [(lit k, v)] else [])"

definition componentBox :: "placed_node \<Rightarrow> jval" where
  "componentBox n = (let c = pn_object n; r = rect_of (pn_box n) in
     JObj ([(lit ''id'', field c ''id''), (lit ''type'', field c ''type''), (lit ''label'', field c ''label''),
       (lit ''x'', rounded (rx r)), (lit ''y'', rounded (ry r)), (lit ''width'', JNum (rwidth r)), (lit ''height'', JNum (rheight r))]
      @ optional (is_integer (field c ''row'')) ''row'' (field c ''row'')
      @ optional (is_integer (field c ''col'')) ''col'' (field c ''col'')
      @ (case field c ''pos'' of
           JArr vs \<Rightarrow> [(lit ''pos'', JArr (map (\<lambda>v. case v of JNum x \<Rightarrow> rounded x | _ \<Rightarrow> JUndef) vs))] | _ \<Rightarrow> [])))"

definition boundaryBox :: "titled_boundary \<Rightarrow> jval" where
  "boundaryBox t = (let b = bb_object (tb_box t); r = bb_rect (tb_box t) in
     JObj [(lit ''kind'', field b ''kind''), (lit ''label'', field b ''label''), (lit ''x'', rounded (rx r)),
       (lit ''y'', rounded (ry r)), (lit ''width'', rounded (rwidth r)), (lit ''height'', rounded (rheight r)),
       (lit ''wraps'', field b ''wraps'')])"

definition or_else :: "jval \<Rightarrow> jval \<Rightarrow> jval" where
  "or_else v d = (if v = JUndef \<or> v = JNull then d else v)"

definition connectionPath :: "relation \<Rightarrow> point list \<Rightarrow> point option \<Rightarrow> jval" where
  "connectionPath conn ps label_at =
     JObj ([(lit ''from'', rel conn ''from''), (lit ''to'', rel conn ''to''), (lit ''label'', or_else (rel conn ''label'') JNull),
       (lit ''variant'', or_else (rel conn ''variant'') (JStr (lit ''default''))),
       (lit ''route'', or_else (rel conn ''route'') (JStr (lit ''auto''))), (lit ''points'', JArr (map rounded_point ps))]
      @ (case label_at of None \<Rightarrow> [] | Some p \<Rightarrow> [(lit ''labelAt'', rounded_point p)]))"

definition report_labels :: "number_text \<Rightarrow> architecture \<Rightarrow> jval list" where
  "report_labels num a = List.map_filter (\<lambda>conn. map_option (\<lambda>(p, r).
     JObj [(lit ''text'', rel conn ''label''), (lit ''x'', rounded (rx r)), (lit ''y'', rounded (ry r)),
       (lit ''width'', rounded (rwidth r)), (lit ''height'', JNum 14), (lit ''labelAt'', rounded_point p)])
     (connection_label num a conn)) (ar_connections a)"

definition report_connections :: "number_text \<Rightarrow> architecture \<Rightarrow> jval list" where
  "report_connections num a = List.map_filter (\<lambda>conn. map_option (\<lambda>ps.
     connectionPath conn ps (if truthy (rel conn ''label'') then labelPoint (knobs conn) ps else None))
     (connection_route num a conn)) (ar_connections a)"

record layout_report =
  lr_grid :: "grid option"
  lr_view_box :: "real \<times> real"
  lr_components :: "jval list"
  lr_boundaries :: "jval list"
  lr_connections :: "jval list"
  lr_labels :: "jval list"

definition buildLayoutReport :: "number_text \<Rightarrow> (jstring \<Rightarrow> jstring) \<Rightarrow> architecture \<Rightarrow> layout_report" where
  "buildLayoutReport num words a =
     \<lparr>lr_grid = gridLayout (ar_layout a), lr_view_box = architecture_view_box num words a,
      lr_components = map (\<lambda>(i, n). componentBox n) (components a),
      lr_boundaries = map boundaryBox (boundaries num words a),
      lr_connections = report_connections num a, lr_labels = report_labels num a\<rparr>"

end
