(* ===== verification/BoundaryFacts.thy ===== *)
theory BoundaryFacts
  imports Boundaries
begin

text \<open>
  The layout of boundary titles: a raised title meets nothing, within the guard of the loop; the
  frames contain their members; and the iteration that chose the size of the titles chose one that
  is readable at the width it led to.
\<close>

section \<open>Raising a title\<close>

lemma length_filter_strict:
  "\<forall>x \<in> set xs. Q x \<longrightarrow> P x \<Longrightarrow> \<exists>x \<in> set xs. P x \<and> \<not> Q x \<Longrightarrow> length (filter Q xs) < length (filter P xs)"
proof (induction xs)
  case (Cons x xs)
  have le: "length (filter Q xs) \<le> length (filter P xs)"
    using Cons.prems(1) by (induction xs) auto
  show ?case
  proof (cases "P x \<and> \<not> Q x")
    case True
    with le show ?thesis by simp
  next
    case False
    with Cons show ?thesis by auto
  qed
qed simp

lemma overlap_sym: "finite_rects_overlap a b g \<longleftrightarrow> finite_rects_overlap b a g"
  by (auto simp: finite_rects_overlap_def)

lemma blocks_iff: "blocks t r \<longleftrightarrow> finite_rects_overlap t r 0"
  by (auto simp: blocks_def horizontalOverlap_def right_edge_def finite_rects_overlap_def)

definition above :: "rect \<Rightarrow> rect \<Rightarrow> bool" where
  "above t r \<longleftrightarrow> ry t + rheight t \<le> ry r"

lemma above_clear: "above t r \<Longrightarrow> \<not> blocks t r"
  by (simp add: blocks_iff above_def finite_rects_overlap_def)

lemma raised_above:
  assumes "q \<in> set (filter (blocks t) obstacles)"
    and "t' = t\<lparr>ry := least (map (\<lambda>q. ry q - 2 - rheight t) (filter (blocks t) obstacles))\<rparr>"
  shows "above t' q" and "above t r \<Longrightarrow> above t' r"
proof -
  have le: "ry t' \<le> ry q - 2 - rheight t" unfolding assms(2) using assms(1) by (auto intro: least_le)
  then show "above t' q" by (simp add: above_def assms(2))
  have "ry q < ry t + rheight t" using assms(1) by (simp add: blocks_iff finite_rects_overlap_def)
  with le have "ry t' \<le> ry t" by simp
  then show "above t r \<Longrightarrow> above t' r" by (simp add: above_def assms(2))
qed

lemma raise_title_clear:
  "length (filter (\<lambda>r. \<not> above t r) obstacles) \<le> n \<Longrightarrow> r \<in> set obstacles \<Longrightarrow> \<not> blocks (raise_title n obstacles t) r"
proof (induction n obstacles t rule: raise_title.induct)
  case (1 obstacles t)
  then have "above t r" by (simp add: filter_empty_conv)
  then show ?case by (simp add: above_clear)
next
  case (2 n obstacles t)
  let ?bs = "filter (blocks t) obstacles"
  let ?t' = "t\<lparr>ry := least (map (\<lambda>q. ry q - 2 - rheight t) ?bs)\<rparr>"
  show ?case
  proof (cases "?bs = []")
    case True
    with "2.prems"(2) show ?thesis by (simp add: filter_empty_conv)
  next
    case False
    then obtain q where q: "q \<in> set ?bs" by (metis list.set_intros(1) neq_Nil_conv)
    note up = raised_above [OF q refl]
    have "length (filter (\<lambda>r. \<not> above ?t' r) obstacles) < length (filter (\<lambda>r. \<not> above t r) obstacles)"
    proof (rule length_filter_strict)
      show "\<forall>x \<in> set obstacles. \<not> above ?t' x \<longrightarrow> \<not> above t x" using up(2) by blast
      show "\<exists>x \<in> set obstacles. \<not> above t x \<and> \<not> \<not> above ?t' x"
        using q up(1) above_clear by (intro bexI [of _ q]) auto
    qed
    with "2.prems"(1) have "length (filter (\<lambda>r. \<not> above ?t' r) obstacles) \<le> n" by simp
    from "2.IH" [OF refl False this "2.prems"(2)] False show ?thesis by (simp add: Let_def)
  qed
qed

section \<open>Placing the titles\<close>

definition title_rect :: "titled_boundary \<Rightarrow> rect" where
  "title_rect t = tt_rect (tb_title t)"

lemma place_titles_fst: "map fst (place_titles title_of guard nodes placed bs) = map fst bs"
  by (induction title_of guard nodes placed bs rule: place_titles.induct) (auto simp: Let_def split: prod.splits)

lemma place_titles_clear:
  assumes "length placed + length nodes + length bs \<le> guard" and "distinct (map fst bs)"
  shows "\<forall>(i, t) \<in> set (place_titles title_of guard nodes placed bs).
      (\<forall>r \<in> set (placed @ nodes). \<not> finite_rects_overlap (title_rect t) r 0)
      \<and> (\<forall>(j, u) \<in> set (place_titles title_of guard nodes placed bs). i \<noteq> j \<longrightarrow>
            \<not> finite_rects_overlap (title_rect t) (title_rect u) 0)"
  using assms
proof (induction title_of guard nodes placed bs rule: place_titles.induct)
  case (2 title_of guard nodes placed i b bs)
  obtain box t where bt: "title_of b = (box, t)" by (cases "title_of b")
  let ?r = "raise_title guard (placed @ nodes) (tt_rect t)"
  let ?rest = "place_titles title_of guard nodes (placed @ [?r]) bs"
  have "length (filter (\<lambda>r. \<not> above (tt_rect t) r) (placed @ nodes)) \<le> guard"
    by (rule order_trans [OF length_filter_le]) (use "2.prems"(1) in simp)
  then have clear: "\<forall>r \<in> set (placed @ nodes). \<not> finite_rects_overlap ?r r 0"
    using raise_title_clear blocks_iff by blast
  have ih: "\<forall>(j, u) \<in> set ?rest. (\<forall>r \<in> set ((placed @ [?r]) @ nodes). \<not> finite_rects_overlap (title_rect u) r 0)
      \<and> (\<forall>(k, v) \<in> set ?rest. j \<noteq> k \<longrightarrow> \<not> finite_rects_overlap (title_rect u) (title_rect v) 0)"
    using "2.IH" [OF bt [symmetric] refl] "2.prems" by simp
  have first: "title_rect \<lparr>tb_box = box, tb_title = t\<lparr>tt_rect := ?r\<rparr>\<rparr> = ?r" by (simp add: title_rect_def)
  have unfold: "place_titles title_of guard nodes placed ((i, b) # bs)
      = (i, \<lparr>tb_box = box, tb_title = t\<lparr>tt_rect := ?r\<rparr>\<rparr>) # ?rest" by (simp add: bt Let_def)
  show ?case unfolding unfold
  proof (rule ballI, clarify)
    fix j u
    assume mem: "(j, u) \<in> set ((i, \<lparr>tb_box = box, tb_title = t\<lparr>tt_rect := ?r\<rparr>\<rparr>) # ?rest)"
    show "(\<forall>r \<in> set (placed @ nodes). \<not> finite_rects_overlap (title_rect u) r 0)
      \<and> (\<forall>(k, v) \<in> set ((i, \<lparr>tb_box = box, tb_title = t\<lparr>tt_rect := ?r\<rparr>\<rparr>) # ?rest). j \<noteq> k \<longrightarrow>
            \<not> finite_rects_overlap (title_rect u) (title_rect v) 0)"
      using mem clear ih first overlap_sym [of ?r] by auto
  qed
qed simp

lemma layout_nth:
  assumes "i < length raw"
  shows "length (layoutBoundaryTitles num enforce nodes raw minimum) = length raw"
    and "\<exists>t. (i, t) \<in> set (place_titles (measured_title num enforce minimum) (length raw + length nodes + 1) nodes []
            (sort_by smaller_first (indexed raw)))
          \<and> layoutBoundaryTitles num enforce nodes raw minimum ! i = final_frame enforce t"
proof -
  let ?placed = "place_titles (measured_title num enforce minimum) (length raw + length nodes + 1) nodes []
            (sort_by smaller_first (indexed raw))"
  have fsts: "set (map fst ?placed) = {..<length raw}"
    unfolding place_titles_fst by (force simp: indexed_def set_zip)
  have some: "map_of ?placed k \<noteq> None" if "k < length raw" for k
    using that by (simp only: map_of_eq_None_iff fsts [unfolded set_map]) simp
  have eq: "layoutBoundaryTitles num enforce nodes raw minimum
      = map (\<lambda>k. final_frame enforce (the (map_of ?placed k))) [0..<length raw]"
    unfolding layoutBoundaryTitles_def Let_def map_filter_def
    using some by (auto simp: filter_id_conv option.map_sel)
  show "length (layoutBoundaryTitles num enforce nodes raw minimum) = length raw" by (simp add: eq)
  obtain t where t: "map_of ?placed i = Some t" using some [OF assms] by auto
  then show "\<exists>t. (i, t) \<in> set ?placed \<and> layoutBoundaryTitles num enforce nodes raw minimum ! i = final_frame enforce t"
    using assms by (intro exI [of _ t]) (auto simp: eq dest: map_of_SomeD)
qed

lemma layout_titles_clear:
  assumes "ts = layoutBoundaryTitles num enforce nodes raw minimum"
  shows "length ts = length raw \<and> (\<forall>t \<in> set ts. \<forall>r \<in> set nodes. \<not> finite_rects_overlap (title_rect t) r 0)
    \<and> (\<forall>i j. i < j \<longrightarrow> j < length ts \<longrightarrow> \<not> finite_rects_overlap (title_rect (ts ! i)) (title_rect (ts ! j)) 0)"
proof -
  let ?placed = "place_titles (measured_title num enforce minimum) (length raw + length nodes + 1) nodes []
            (sort_by smaller_first (indexed raw))"
  have "mset (map fst (sort_by smaller_first (indexed raw))) = mset (map fst (indexed raw))" by simp
  then have "distinct (map fst (sort_by smaller_first (indexed raw)))"
    by (metis distinct_upt indexed_def length_upt map_fst_zip minus_nat.diff_0 mset_eq_imp_distinct_iff)
  note clear = place_titles_clear [of "[]" nodes "sort_by smaller_first (indexed raw)", OF _ this,
      of "length raw + length nodes + 1" "measured_title num enforce minimum", simplified]
  have len: "length ts = length raw"
  proof (cases raw)
    case Nil
    then show ?thesis by (simp add: assms layoutBoundaryTitles_def List.map_filter_simps)
  qed (use layout_nth(1) [of 0 raw] in \<open>simp add: assms\<close>)
  have nth: "\<exists>t. (i, t) \<in> set ?placed \<and> title_rect (ts ! i) = title_rect t" if "i < length ts" for i
    using layout_nth(2) [where i = i and raw = raw and num = num and enforce = enforce and nodes = nodes and minimum = minimum] that
    by (auto simp: assms [symmetric] len title_rect_def final_frame_def Let_def)
  have "\<not> finite_rects_overlap (title_rect t) r 0" if "t \<in> set ts" "r \<in> set nodes" for t r
    using that nth clear by (fastforce simp: in_set_conv_nth)
  moreover have "\<not> finite_rects_overlap (title_rect (ts ! i)) (title_rect (ts ! j)) 0" if "i < j" "j < length ts" for i j
    using nth [of i] nth [of j] that clear by fastforce
  ultimately show ?thesis using len by blast
qed

section \<open>Frames and members\<close>

definition spans :: "rect \<Rightarrow> rect \<Rightarrow> bool" where
  "spans outer inner \<longleftrightarrow> rx outer \<le> rx inner \<and> ry outer \<le> ry inner
     \<and> right_edge inner \<le> right_edge outer \<and> bottom_edge inner \<le> bottom_edge outer"

lemma boundaryRect_object: "boundaryRect ns b = Some f \<Longrightarrow> bb_object f = b"
  by (auto simp: boundaryRect_def Let_def split: if_splits)

lemma boundaryRect_spans:
  assumes "boundaryRect ns b = Some f" and "0 \<le> number_or 30 (field b ''pad'')" and "m \<in> set (member_rects ns b)"
  shows "spans (bb_rect f) m"
proof -
  let ?ms = "member_rects ns b"
  have "least (map rx ?ms) \<le> rx m" "least (map ry ?ms) \<le> ry m"
    "right_edge m \<le> greatest (map right_edge ?ms)" "bottom_edge m \<le> greatest (map bottom_edge ?ms)"
    using assms(3) by (auto intro!: least_le greatest_ge)
  moreover note assms(1) [unfolded boundaryRect_def Let_def] assms(2)
  ultimately show ?thesis
    by (auto simp: spans_def right_edge_def bottom_edge_def split: if_splits)
qed

lemma expand_spans: "spans (bb_rect b) m \<Longrightarrow> spans (bb_rect (expandBoundaryForReadableTitle num enforce b minimum)) m"
  by (auto simp: expandBoundaryForReadableTitle_def Let_def spans_def right_edge_def bottom_edge_def max_def field_simps
      split: if_splits)

lemma final_spans: "spans (bb_rect (tb_box t)) m \<Longrightarrow> spans (bb_rect (tb_box (final_frame enforce t))) m"
  by (auto simp: final_frame_def Let_def spans_def right_edge_def bottom_edge_def)

lemma place_titles_box:
  "(i, t) \<in> set (place_titles (measured_title num enforce minimum) guard nodes placed bs) \<Longrightarrow>
    \<exists>b. (i, b) \<in> set bs \<and> tb_box t = expandBoundaryForReadableTitle num enforce b minimum
      \<and> tt_font (tb_title t) = tt_font (measureBoundaryTitle num (tb_box t) minimum)"
proof (induction "measured_title num enforce minimum" guard nodes placed bs rule: place_titles.induct)
  case (2 guard nodes placed j c bs)
  then show ?case by (fastforce simp: measured_title_def Let_def)
qed simp

lemma title_font_ge: "minimum \<le> tt_font (measureBoundaryTitle num b minimum)"
  unfolding measureBoundaryTitle_def Let_def boundary_title.select_convs by (rule max.cobounded1)

lemma measured_rect:
  "rx (tt_rect (measureBoundaryTitle num b minimum)) = rx (bb_rect b) + 4"
  "rwidth (tt_rect (measureBoundaryTitle num b minimum)) \<le> max 0 (rwidth (bb_rect b) - 4 * 2)"
  "ry (tt_rect (measureBoundaryTitle num b minimum)) + rheight (tt_rect (measureBoundaryTitle num b minimum))
    = bb_member_top b - 4"
  unfolding measureBoundaryTitle_def Let_def boundary_title.select_convs rect.select_convs
  by (rule refl, rule min.cobounded1, rule diff_add_cancel)

lemma layout_box:
  assumes "i < length raw"
  shows "\<exists>t. layoutBoundaryTitles num enforce nodes raw minimum ! i = final_frame enforce t
    \<and> tb_box t = expandBoundaryForReadableTitle num enforce (raw ! i) minimum
    \<and> minimum \<le> tt_font (tb_title t)"
proof -
  obtain t where t: "(i, t) \<in> set (place_titles (measured_title num enforce minimum) (length raw + length nodes + 1) nodes []
            (sort_by smaller_first (indexed raw)))"
      "layoutBoundaryTitles num enforce nodes raw minimum ! i = final_frame enforce t"
    using layout_nth(2) [OF assms] by blast
  from place_titles_box [OF t(1)] obtain b where "(i, b) \<in> set (indexed raw)"
      "tb_box t = expandBoundaryForReadableTitle num enforce b minimum"
      "tt_font (tb_title t) = tt_font (measureBoundaryTitle num (tb_box t) minimum)" by auto
  then show ?thesis using t(2) by (intro exI [of _ t]) (simp add: indexed_iff title_font_ge)
qed

lemma expand_object [simp]: "bb_object (expandBoundaryForReadableTitle num enforce b minimum) = bb_object b"
  by (simp add: expandBoundaryForReadableTitle_def Let_def)

lemma final_frame_simps [simp]:
  "bb_object (tb_box (final_frame enforce t)) = bb_object (tb_box t)" "tb_title (final_frame enforce t) = tb_title t"
  by (simp_all add: final_frame_def Let_def)

section \<open>Frames and titles\<close>

lemma raise_title_keeps:
  "rx (raise_title n obstacles t) = rx t \<and> rwidth (raise_title n obstacles t) = rwidth t
    \<and> rheight (raise_title n obstacles t) = rheight t \<and> ry (raise_title n obstacles t) \<le> ry t"
proof (induction n obstacles t rule: raise_title.induct)
  case (2 n obstacles t)
  let ?bs = "filter (blocks t) obstacles"
  show ?case
  proof (cases "?bs = []")
    case False
    then obtain q where q: "q \<in> set ?bs" by (metis list.set_intros(1) neq_Nil_conv)
    then have "ry q < ry t + rheight t" by (simp add: blocks_iff finite_rects_overlap_def)
    moreover have "least (map (\<lambda>q. ry q - 2 - rheight t) ?bs) \<le> ry q - 2 - rheight t" using q by (auto intro: least_le)
    ultimately show ?thesis using "2.IH" [OF refl False] by (simp add: Let_def)
  qed simp
qed simp

definition raised_from :: "number_text \<Rightarrow> real \<Rightarrow> titled_boundary \<Rightarrow> bool" where
  "raised_from num minimum t \<longleftrightarrow> (\<exists>n obstacles. title_rect t
     = raise_title n obstacles (tt_rect (measureBoundaryTitle num (tb_box t) minimum)))"

lemma place_titles_raised:
  "(i, t) \<in> set (place_titles (measured_title num enforce minimum) guard nodes placed bs) \<Longrightarrow> raised_from num minimum t"
proof (induction "measured_title num enforce minimum" guard nodes placed bs rule: place_titles.induct)
  case (2 guard nodes placed j c bs)
  have first: "raised_from num minimum \<lparr>tb_box = b, tb_title = (measureBoundaryTitle num b minimum)\<lparr>tt_rect :=
      raise_title n r (tt_rect (measureBoundaryTitle num b minimum))\<rparr>\<rparr>" for b n r
    unfolding raised_from_def title_rect_def by (intro exI [of _ n] exI [of _ r]) simp
  from 2 show ?case by (auto simp: measured_title_def Let_def first)
qed simp

lemma boundaryRect_below:
  assumes "boundaryRect ns b = Some f" and "\<forall>m \<in> set (member_rects ns b). 0 \<le> rheight m"
  shows "bb_member_top f \<le> bottom_edge (bb_rect f)"
proof -
  let ?ms = "member_rects ns b"
  have "?ms \<noteq> []" using assms(1) by (auto simp: boundaryRect_def Let_def split: if_splits)
  then obtain m where m: "m \<in> set ?ms" by (meson last_in_set)
  have "least (map ry ?ms) \<le> ry m" "bottom_edge m \<le> greatest (map bottom_edge ?ms)" "ry m \<le> bottom_edge m"
    using m assms(2) by (auto intro!: least_le greatest_ge simp: bottom_edge_def)
  moreover note assms(1) [unfolded boundaryRect_def Let_def]
  ultimately show ?thesis by (auto simp: bottom_edge_def split: if_splits)
qed

lemma expand_keeps:
  "bb_member_top (expandBoundaryForReadableTitle num enforce b minimum) = bb_member_top b"
  "bottom_edge (bb_rect (expandBoundaryForReadableTitle num enforce b minimum)) = bottom_edge (bb_rect b)"
  "38 \<le> rwidth (bb_rect (expandBoundaryForReadableTitle num True b minimum))"
proof -
  have "30 \<le> boundaryLabelWidth num (field (bb_object b) ''label'') minimum" by (simp add: boundaryLabelWidth_def)
  then show "38 \<le> rwidth (bb_rect (expandBoundaryForReadableTitle num True b minimum))"
    by (auto simp: expandBoundaryForReadableTitle_def Let_def max_def split: if_splits)
qed (simp_all add: expandBoundaryForReadableTitle_def Let_def bottom_edge_def)

text \<open>Where titles are enforced the final frame reaches above its title: the title is below the edge by
  the gap, inside the width, and above the members, which the frame spans.\<close>

lemma title_inside:
  assumes "raised_from num minimum t" and "tb_box t = expandBoundaryForReadableTitle num True b minimum"
    and "bb_member_top b \<le> bottom_edge (bb_rect b)"
  shows "spans (bb_rect (tb_box (final_frame True t))) (title_rect t)"
proof -
  let ?m = "tt_rect (measureBoundaryTitle num (tb_box t) minimum)"
  have w: "38 \<le> rwidth (bb_rect (tb_box t))" "bb_member_top (tb_box t) \<le> bottom_edge (bb_rect (tb_box t))"
    using assms(2,3) by (simp_all add: expand_keeps)
  have r: "rx (title_rect t) = rx ?m" "rwidth (title_rect t) = rwidth ?m" "rheight (title_rect t) = rheight ?m"
    "ry (title_rect t) \<le> ry ?m"
    using assms(1) raise_title_keeps by (auto simp: raised_from_def)
  have m: "rx ?m = rx (bb_rect (tb_box t)) + 4" "rwidth ?m \<le> rwidth (bb_rect (tb_box t)) - 8"
    "ry ?m + rheight ?m = bb_member_top (tb_box t) - 4"
    using w(1) measured_rect(2) [of num "tb_box t" minimum] by (simp_all add: measured_rect(1,3))
  show ?thesis using r m w(2)
    by (simp add: spans_def final_frame_def Let_def right_edge_def bottom_edge_def title_rect_def)
qed

lemma layout_raised:
  assumes "i < length raw"
  shows "\<exists>t. layoutBoundaryTitles num enforce nodes raw minimum ! i = final_frame enforce t
    \<and> tb_box t = expandBoundaryForReadableTitle num enforce (raw ! i) minimum \<and> raised_from num minimum t"
proof -
  obtain t where t: "(i, t) \<in> set (place_titles (measured_title num enforce minimum) (length raw + length nodes + 1) nodes []
            (sort_by smaller_first (indexed raw)))"
      "layoutBoundaryTitles num enforce nodes raw minimum ! i = final_frame enforce t"
    using layout_nth(2) [OF assms] by blast
  from place_titles_box [OF t(1)] place_titles_raised [OF t(1)] t(2) show ?thesis
    by (intro exI [of _ t]) (auto simp: indexed_iff)
qed

section \<open>The iteration\<close>

lemma settled_layout:
  "ts = fst (settle_titles (Suc n) layout width frames last_layout) \<Longrightarrow> \<exists>minimum. 6 \<le> minimum \<and> ts = layout minimum"
proof (induction n arbitrary: frames last_layout ts)
  case 0
  then show ?case by (intro exI [of _ "max 6 (readable_floor (width frames) + 1 / 1000000)"]) (simp add: Let_def)
next
  case (Suc n)
  let ?m = "max 6 (readable_floor (width frames) + 1 / 1000000)"
  show ?case
  proof (cases "max 6 (readable_floor (width (frames_of (layout ?m)))) \<le> ?m")
    case True
    with Suc.prems show ?thesis by (intro exI [of _ ?m]) (simp add: Let_def)
  next
    case False
    then have step: "settle_titles (Suc (Suc n)) layout width frames last_layout
        = settle_titles (Suc n) layout width (frames_of (layout ?m)) (layout ?m)"
      by (subst settle_titles.simps(2)) (simp only: Let_def if_False)
    show ?thesis by (rule Suc.IH [OF Suc.prems [unfolded step]])
  qed
qed

lemma settled_readable:
  "settle_titles n layout width frames last_layout = (ts, True) \<Longrightarrow>
    \<exists>minimum. ts = layout minimum \<and> max 6 (readable_floor (width (frames_of ts))) \<le> minimum"
proof (induction n arbitrary: frames last_layout)
  case (Suc n)
  let ?m = "max 6 (readable_floor (width frames) + 1 / 1000000)"
  show ?case
  proof (cases "max 6 (readable_floor (width (frames_of (layout ?m)))) \<le> ?m")
    case True
    with Suc.prems show ?thesis by (intro exI [of _ ?m]) (auto simp: Let_def)
  next
    case False
    have "settle_titles n layout width (frames_of (layout ?m)) (layout ?m) = (ts, True)"
      using Suc.prems by (simp only: settle_titles.simps Let_def if_not_P [OF False])
    then show ?thesis by (rule Suc.IH)
  qed
qed simp

lemma resolved_layout:
  "\<exists>minimum. boundaries num words a = layoutBoundaryTitles num (enforcesBoundaryTitleComposition a)
      (map (\<lambda>(i, n). rect_of (pn_box n)) (components a)) (rawBoundaries a) minimum"
proof (cases "\<not> enforcesBoundaryTitleComposition a \<or> rawBoundaries a = []")
  case True
  then show ?thesis by (auto simp: boundaries_def resolveBoundaryTitles_def Let_def)
next
  case False
  have "Suc 31 = 32" by simp
  note s = settled_layout [where n = 31, OF refl, unfolded this]
  show ?thesis
    unfolding boundaries_def resolveBoundaryTitles_def Let_def if_not_P [OF False] using s by blast
qed

section \<open>Properties\<close>

lemma raw_boundary:
  assumes "i < length (rawBoundaries a)"
  obtains b where "b \<in> set (ar_boundaries a)" "boundaryRect (components a) b = Some (rawBoundaries a ! i)"
  using nth_mem [OF assms] that by (auto simp: rawBoundaries_def set_map_filter)

lemma member_rects_components:
  "m \<in> set (member_rects ns b) \<Longrightarrow> \<exists>(i, n) \<in> set ns. m = rect_of (pn_box n)"
  by (fastforce simp: member_rects_def set_map_filter dest!: map_of_SomeD)

text \<open>C16: the frames and titles of an architecture diagram, whatever iteration settled them: every frame
  spans the components it wraps; no title meets a component or another title (the guard of the loop
  that raises a title is enough); and where a quality profile enforces the composition of titles, every
  frame also spans its own title.\<close>

theorem boundary_layout_sound:
  assumes "ts = boundaries num words a" and "\<forall>b \<in> set (ar_boundaries a). 0 \<le> number_or 30 (field b ''pad'')"
    and "\<forall>(i, n) \<in> set (components a). 0 \<le> rheight (rect_of (pn_box n))"
  shows "length ts = length (rawBoundaries a)
    \<and> (\<forall>t \<in> set ts. (\<forall>m \<in> set (member_rects (components a) (bb_object (tb_box t))). spans (bb_rect (tb_box t)) m)
        \<and> (\<forall>(i, n) \<in> set (components a). \<not> finite_rects_overlap (title_rect t) (rect_of (pn_box n)) 0)
        \<and> (enforcesBoundaryTitleComposition a \<longrightarrow> spans (bb_rect (tb_box t)) (title_rect t)))
    \<and> (\<forall>i j. i < j \<longrightarrow> j < length ts \<longrightarrow> \<not> finite_rects_overlap (title_rect (ts ! i)) (title_rect (ts ! j)) 0)"
proof -
  obtain minimum where ts: "ts = layoutBoundaryTitles num (enforcesBoundaryTitleComposition a)
      (map (\<lambda>(i, n). rect_of (pn_box n)) (components a)) (rawBoundaries a) minimum"
    using resolved_layout assms(1) by blast
  note clear = layout_titles_clear [OF ts]
  have "(\<forall>m \<in> set (member_rects (components a) (bb_object (tb_box t))). spans (bb_rect (tb_box t)) m)
      \<and> (enforcesBoundaryTitleComposition a \<longrightarrow> spans (bb_rect (tb_box t)) (title_rect t))"
    if t: "t \<in> set ts" for t
  proof -
    from t obtain i where i: "i < length (rawBoundaries a)" "t = ts ! i" using clear by (auto simp: in_set_conv_nth)
    from layout_raised [OF i(1)] ts i(2) obtain u where u: "t = final_frame (enforcesBoundaryTitleComposition a) u"
      "tb_box u = expandBoundaryForReadableTitle num (enforcesBoundaryTitleComposition a) (rawBoundaries a ! i) minimum"
      "raised_from num minimum u"
      by blast
    obtain b where b: "b \<in> set (ar_boundaries a)" "boundaryRect (components a) b = Some (rawBoundaries a ! i)"
      using raw_boundary [OF i(1)] .
    have obj: "bb_object (tb_box t) = b" using boundaryRect_object [OF b(2)] by (simp add: u)
    have "spans (bb_rect (tb_box t)) m" if "m \<in> set (member_rects (components a) b)" for m
      using boundaryRect_spans [OF b(2)] assms(2) b(1) that unfolding u(1) by (intro final_spans) (simp add: u(2) expand_spans)
    moreover have "bb_member_top (rawBoundaries a ! i) \<le> bottom_edge (bb_rect (rawBoundaries a ! i))"
      using boundaryRect_below [OF b(2)] member_rects_components assms(3) by fastforce
    then have "enforcesBoundaryTitleComposition a \<Longrightarrow> spans (bb_rect (tb_box t)) (title_rect t)"
      using title_inside [OF u(3)] u(1,2) by (simp add: title_rect_def)
    ultimately show ?thesis by (simp add: obj)
  qed
  with clear show ?thesis by fastforce
qed

definition sample_component :: "string \<Rightarrow> real \<Rightarrow> real \<Rightarrow> jval" where
  "sample_component i x y = JObj [(lit ''id'', JStr (lit i)), (lit ''type'', JStr (lit ''backend'')),
     (lit ''label'', JStr (lit ''api'')), (lit ''pos'', JArr [JNum x, JNum y])]"

definition sample_boundary :: jval where
  "sample_boundary = JObj [(lit ''kind'', JStr (lit ''region'')), (lit ''label'', JStr (lit ''eu'')),
     (lit ''wraps'', JArr [JStr (lit ''a'')])]"

definition sample_architecture :: architecture where
  "sample_architecture = \<lparr>ar_meta = JObj [(lit ''quality_profile'', JStr (lit ''standard'')),
       (lit ''viewBox'', JArr [JNum 930, JNum 600])],
     ar_layout = JUndef, ar_components = [sample_component ''a'' 100 200], ar_boundaries = [sample_boundary],
     ar_connections = []\<rparr>"

lemma sample_component_fields [simp]:
  "field (sample_component i x y) ''id'' = JStr (lit i)" "field (sample_component i x y) ''pos'' = JArr [JNum x, JNum y]"
  "field (sample_component i x y) ''size'' = JUndef" "field (sample_component i x y) ''type'' = JStr (lit ''backend'')"
  "field (sample_component i x y) ''label'' = JStr (lit ''api'')"
  "field sample_boundary ''pad'' = JUndef" "wraps sample_boundary = [JStr (lit ''a'')]"
  "field sample_boundary ''label'' = JStr (lit ''eu'')"
  by (simp_all add: field_def sample_component_def sample_boundary_def wraps_def)

lemma sample_measured [simp]: "measured_components sample_architecture = [(JStr (lit ''a''), sample_component ''a'' 100 200,
    \<lparr>raw_x = Some 100, raw_y = Some 200, raw_width = Some 120, raw_height = Some 60\<rparr>)]"
  by (simp add: measured_components_def sample_architecture_def measureComponent_def resolveComponentPos_def has_pos_def
      number_at_def)

definition sample_node :: placed_node where
  "sample_node = \<lparr>pn_object = sample_component ''a'' 100 200, pn_box = box_of (JStr (lit ''a''))
     \<lparr>rx = 100, ry = 200, rwidth = 120, rheight = 60\<rparr>\<rparr>"

lemma sample_components [simp]: "components sample_architecture = [(JStr (lit ''a''), sample_node)]"
  by (simp add: components_def placed_component_def List.map_filter_simps sample_node_def)

lemma sample_boundaries [simp]: "ar_boundaries sample_architecture = [sample_boundary]"
  by (simp add: sample_architecture_def)

lemma sample_raw [simp]: "length (rawBoundaries sample_architecture) = 1"
  by (simp add: rawBoundaries_def boundaryRect_def member_rects_def List.map_filter_simps Let_def)

lemma sample_enforced: "enforcesBoundaryTitleComposition sample_architecture"
  by (simp add: enforcesBoundaryTitleComposition_def sample_architecture_def field_def)

lemma boundary_layout_sound_witness: "\<exists>t. boundaries (\<lambda>_. []) (\<lambda>k. k) sample_architecture = [t]
    \<and> spans (bb_rect (tb_box t)) (title_rect t)"
proof -
  have p: "\<forall>b \<in> set (ar_boundaries sample_architecture). 0 \<le> number_or 30 (field b ''pad'')"
    by (simp add: number_or_def)
  have h: "\<forall>(i, n) \<in> set (components sample_architecture). 0 \<le> rheight (rect_of (pn_box n))"
    by (simp add: sample_node_def rect_of_def box_of_def rect.truncate_def)
  note sound = boundary_layout_sound [OF refl p h, of "\<lambda>_. []" "\<lambda>k. k"]
  then obtain t where "boundaries (\<lambda>_. []) (\<lambda>k. k) sample_architecture = [t]"
    by (auto simp: length_Suc_conv)
  with sound sample_enforced show ?thesis by auto
qed

text \<open>Titles stay readable: when the layout of the titles settles under a quality profile, every title
  projected from the width it led to is at least as large as the reader needs.\<close>

lemma boundary_titles_readable:
  assumes "resolveBoundaryTitles num words a = (ts, True)" and "enforcesBoundaryTitleComposition a"
    and "rawBoundaries a \<noteq> []" and "t \<in> set ts" and "0 < resolvedViewBoxWidth words a (frames_of ts)"
  shows "\<exists>px. projectedNodeTextPx (Some (tt_font (tb_title t))) (Some (resolvedViewBoxWidth words a (frames_of ts)))
      (Some DESKTOP_READER_DIAGRAM_WIDTH) = Some px \<and> MIN_PROJECTED_NODE_TEXT_PX \<le> px"
proof -
  let ?w = "resolvedViewBoxWidth words a (frames_of ts)"
  have no: "\<not> (\<not> enforcesBoundaryTitleComposition a \<or> rawBoundaries a = [])" using assms(2,3) by simp
  obtain minimum where m: "ts = layoutBoundaryTitles num (enforcesBoundaryTitleComposition a)
      (map (\<lambda>(i, n). rect_of (pn_box n)) (components a)) (rawBoundaries a) minimum"
      "max 6 (readable_floor ?w) \<le> minimum"
    using settled_readable [OF assms(1) [unfolded resolveBoundaryTitles_def Let_def if_not_P [OF no]]] by blast
  from assms(4) obtain i where i: "i < length ts" "t = ts ! i" by (auto simp: in_set_conv_nth)
  with layout_titles_clear [OF m(1)] have "i < length (rawBoundaries a)" by simp
  from layout_box [OF this] have "minimum \<le> tt_font (tb_title (ts ! i))"
    unfolding m(1) by (metis final_frame_simps(2))
  then have "minimum \<le> tt_font (tb_title t)" by (simp only: i(2))
  with m(2) have f: "readable_floor ?w \<le> tt_font (tb_title t)" by simp
  have "0 < min 1 (930 / ?w)" using assms(5) by simp
  then have "6 \<le> tt_font (tb_title t) * min 1 (930 / ?w)"
    using f assms(5) by (simp add: readable_floor_def minimumReadableSourceTextPx_def DESKTOP_READER_DIAGRAM_WIDTH_def
        MIN_PROJECTED_NODE_TEXT_PX_def pos_divide_le_eq)
  then show ?thesis
    using assms(5) by (simp add: projectedNodeTextPx_def DESKTOP_READER_DIAGRAM_WIDTH_def MIN_PROJECTED_NODE_TEXT_PX_def)
qed

lemma sample_settled:
  "\<exists>ts. resolveBoundaryTitles (\<lambda>_. []) (\<lambda>k. k) sample_architecture = (ts, True) \<and> length ts = 1"
proof -
  have w: "resolvedViewBoxWidth (\<lambda>k. k) sample_architecture r = 930" for r
    by (simp add: resolvedViewBoxWidth_def view_box_def point_of_def sample_architecture_def field_def)
  have e: "enforcesBoundaryTitleComposition sample_architecture"
    by (simp add: enforcesBoundaryTitleComposition_def sample_architecture_def field_def)
  have n: "rawBoundaries sample_architecture \<noteq> []" using sample_raw by fastforce
  have r: "readable_floor 930 = 6"
    by (simp add: readable_floor_def minimumReadableSourceTextPx_def DESKTOP_READER_DIAGRAM_WIDTH_def MIN_PROJECTED_NODE_TEXT_PX_def)
  have s: "settle_titles 32 layout (resolvedViewBoxWidth (\<lambda>k. k) sample_architecture) f l = (layout (6 + 1 / 1000000), True)"
    for layout f l
    using settle_titles.simps(2) [of 31 layout "resolvedViewBoxWidth (\<lambda>k. k) sample_architecture" f l]
    by (simp add: w r)
  show ?thesis
    unfolding resolveBoundaryTitles_def Let_def s using e n layout_titles_clear by simp
qed

lemma boundary_titles_readable_witness:
  "\<exists>ts px. resolveBoundaryTitles (\<lambda>_. []) (\<lambda>k. k) sample_architecture = (ts, True)
    \<and> projectedNodeTextPx (Some (tt_font (tb_title (hd ts)))) (Some 930) (Some DESKTOP_READER_DIAGRAM_WIDTH) = Some px \<and> 6 \<le> px"
proof -
  obtain ts where ts: "resolveBoundaryTitles (\<lambda>_. []) (\<lambda>k. k) sample_architecture = (ts, True)" "length ts = 1"
    using sample_settled by blast
  have w: "resolvedViewBoxWidth (\<lambda>k. k) sample_architecture r = 930" for r
    by (simp add: resolvedViewBoxWidth_def view_box_def point_of_def sample_architecture_def field_def)
  have e: "enforcesBoundaryTitleComposition sample_architecture"
    by (simp add: enforcesBoundaryTitleComposition_def sample_architecture_def field_def)
  have n: "rawBoundaries sample_architecture \<noteq> []" using sample_raw by fastforce
  have "hd ts \<in> set ts" using ts(2) by (cases ts) auto
  from boundary_titles_readable [OF ts(1) e n this] ts(1) show ?thesis
    by (auto simp: w MIN_PROJECTED_NODE_TEXT_PX_def)
qed

end
