(* ===== verification/ConnectionFacts.thy ===== *)
theory ConnectionFacts
  imports Connections PortProperties BoundaryFacts
begin

text \<open>What the router of architecture diagrams guarantees for an automatic connection.\<close>

lemma closed_ends [simp]: "hd (closed s via e) = s" "last (closed s via e) = e"
  by (simp_all add: closed_def)

lemma closed_inner: "2 \<le> length ps \<Longrightarrow> closed (hd ps) (inner ps) (last ps) = ps"
  by (cases ps) (auto simp: closed_def inner_def)

lemma outside_channels_clear:
  assumes "outside_channels ns conn f t s e fs ts = Some c"
  shows "routeClearsComponents ns conn (closed s c e)"
  using find_first [OF assms [unfolded outside_channels_def Let_def]] by blast

lemma bridge_clear:
  assumes "automaticPortRhythmBridge (Some [Some (fst s), Some (snd s)]) (Some [Some (fst e), Some (snd e)])
      (side_name fs) (side_name ts) 24 16 (Some (route_clear ns conn f t)) = Some ps"
  shows "routeClearsComponents ns conn (closed s (inner ps) e)"
proof -
  note b = bridge_ends [OF assms, simplified]
  from b(1,2) have "s = hd ps" "e = last ps" by (simp_all add: prod_eq_iff)
  with closed_inner [OF b(3)] have "closed s (inner ps) e = ps" by simp
  with b(4) show ?thesis by (simp add: bridge_ok_def route_clear_def)
qed

lemma find_clear:
  assumes "c \<in> set cs" and "P c"
  shows "\<exists>d. find P cs = Some d \<and> P d"
proof (cases "find P cs")
  case None
  with assms show ?thesis by (auto simp: find_None_iff)
next
  case (Some d)
  with find_first [OF Some] show ?thesis by blast
qed

section \<open>Properties\<close>

text \<open>The router avoids components when it can: unless the two ports are nearly aligned (then the line
  is direct and the gate judges it), an automatic connection for which one of the bounded
  candidates is clear is drawn clear of every other component.\<close>

lemma auto_route_clear:
  assumes "c \<in> set (ordered_candidates s e fs ts)" and "route_clear ns conn f t (closed s c e)"
    and "\<not> ((\<bar>fst s - fst e\<bar> < 4 \<or> \<bar>snd s - snd e\<bar> < 4) \<and> honors [s, e] fs ts)"
  shows "routeClearsComponents ns conn (closed s (autoVia ns conn f t s e fs ts) e)"
proof -
  obtain d where d: "find (\<lambda>c. route_clear ns conn f t (closed s c e)) (ordered_candidates s e fs ts) = Some d"
      "route_clear ns conn f t (closed s d e)"
    using find_clear [OF assms(1), of "\<lambda>c. route_clear ns conn f t (closed s c e)", OF assms(2)] by blast
  show ?thesis
    unfolding autoVia_def if_not_P [OF assms(3)] d(1) using d(2) bridge_clear outside_channels_clear
    by (auto simp: route_clear_def split: option.splits)
qed

lemma doglegs_ordered: "set (doglegs s e) \<subseteq> set (ordered_candidates s e fs ts)"
  by (auto simp: ordered_candidates_def side_safe_def Let_def)

lemma auto_route_clear_witness:
  "routeClearsComponents [] (\<lparr>address = 0, object = JUndef\<rparr>) (closed (0, 0) (autoVia [] \<lparr>address = 0, object = JUndef\<rparr>
     (port_box ''a'' (-100) (-30)) (port_box ''b'' 100 20) (0, 0) (100, 50) RIGHT LEFT) (100, 50))"
proof -
  let ?f = "port_box ''a'' (-100) (-30)" and ?t = "port_box ''b'' 100 20"
  have c: "through_x 50 (0, 0) (100, 50) \<in> set (ordered_candidates (0, 0) (100, 50) RIGHT LEFT)"
    using doglegs_ordered [of "(0, 0)" "(100, 50)"] by (auto simp: doglegs_def)
  have segs: "indexed (segments (closed (0, 0) (through_x 50 (0, 0) (100, 50)) (100, 50)))
      = [(0, (0, 0), (50, 0)), (1, (50, 0), (50, 50)), (2, (50, 50), (100, 50))]"
    by (simp add: indexed_def segments_def closed_def through_x_def upt_conv_Cons)
  have r: "rect_of (port_box i x y) = \<lparr>rx = x, ry = y, rwidth = 100, rheight = 60\<rparr>" for i x y
    by (simp add: rect_of_def port_box_def rect.truncate_def)
  note seg = segmentIntersectsRect_def grown_box_def pointInBox_def segmentsIntersect_def orientation_def onSegment_def Let_def
  have "\<not> segmentIntersectsRect (50, 0) (50, 50) (rect_of ?f) 0" "\<not> segmentIntersectsRect (50, 50) (100, 50) (rect_of ?f) 0"
    "\<not> segmentIntersectsRect (0, 0) (50, 0) (rect_of ?t) 0" "\<not> segmentIntersectsRect (50, 0) (50, 50) (rect_of ?t) 0"
    unfolding r by (simp_all add: seg)
  then have ok: "route_clear [] \<lparr>address = 0, object = JUndef\<rparr> ?f ?t (closed (0, 0) (through_x 50 (0, 0) (100, 50)) (100, 50))"
    by (simp add: route_clear_def routeClearsComponents_def routeClearsEndpointComponents_def segs)
      (simp add: closed_def through_x_def)
  from auto_route_clear [OF c ok] show ?thesis by simp
qed

end
