(* ===== verification/ArchitectureFacts.thy ===== *)
theory ArchitectureFacts
  imports Architecture ConnectionFacts Tables
begin

text \<open>What an architecture diagram without validation problems looks like.\<close>

section \<open>The parts of the validation\<close>

lemma validated_parts:
  assumes "validateArchitecture num words env marked a = []"
  shows "all_finite a" "length (components a) = length (ar_components a)"
    "\<forall>e \<in> set (components a). component_layout_problems num marked (architecture_view_box num words a) e = []"
    "component_pair_problems (components a) = []" "member_problems (components a) (ar_boundaries a) = []"
    "\<forall>e \<in> set (indexed (boundaries num words a)). frame_problems (architecture_view_box num words a) e = []"
    "\<forall>e \<in> set (indexed (ar_connections a)). connection_end_problems num a e = []"
    "route_gates env (architecture_gates num words a) = []"
    "placement_problems a = []" "snd (resolveBoundaryTitles num words a)"
    "\<forall>l \<in> set (connection_labels num a).
       connection_label_problems (enforcesBoundaryTitleComposition a) (components a) (boundaries num words a) l = []"
proof -
  show f: "all_finite a"
  proof (rule ccontr)
    assume n: "\<not> all_finite a"
    then obtain e where "e \<in> set (measured_components a)" "placed_component e = None"
      unfolding all_finite_def list_all_iff by blast
    with assms show False
      unfolding validateArchitecture_def Let_def if_P [OF n] append_is_Nil_conv concat_eq_Nil_conv by auto
  qed
  then have nf: "\<not> \<not> all_finite a" by simp
  note p = assms [unfolded validateArchitecture_def Let_def if_not_P [OF nf] append_is_Nil_conv problem_if_Nil
      concat_eq_Nil_conv map_is_Nil_conv]
  from p show "length (components a) = length (ar_components a)"
    "\<forall>e \<in> set (components a). component_layout_problems num marked (architecture_view_box num words a) e = []"
    "component_pair_problems (components a) = []" "member_problems (components a) (ar_boundaries a) = []"
    "\<forall>e \<in> set (indexed (boundaries num words a)). frame_problems (architecture_view_box num words a) e = []"
    "\<forall>e \<in> set (indexed (ar_connections a)). connection_end_problems num a e = []"
    "route_gates env (architecture_gates num words a) = []"
    "placement_problems a = []" "snd (resolveBoundaryTitles num words a)"
    "\<forall>l \<in> set (connection_labels num a).
       connection_label_problems (enforcesBoundaryTitleComposition a) (components a) (boundaries num words a) l = []"
    by auto
qed

lemma case_closed: "(case z of (s, e) \<Rightarrow> closed s (via s e) e) = ps \<Longrightarrow> \<exists>s c e. ps = closed s c e"
  by (intro exI [of _ "fst z"] exI [of _ "via (fst z) (snd z)"] exI [of _ "snd z"]) (simp add: split_beta)

lemma route_closed:
  assumes "connection_route num a conn = Some ps"
  shows "\<exists>s c e. ps = closed s c e"
proof -
  from assms obtain w where w: "connection_ends (components a) conn = Some w"
    by (auto simp: connection_route_def Let_def)
  obtain f t where ft: "w = (f, t)" by (cases w)
  show ?thesis
    using assms unfolding connection_route_def Let_def w ft option.map prod.case option.inject by (rule case_closed)
qed

lemma route_points:
  assumes "connection_route num a conn = Some ps"
  shows "routed_points (connection_path num a conn) = Some ps" "2 \<le> length ps"
proof -
  from route_closed [OF assms] show "2 \<le> length ps" by (auto simp: closed_def)
  then show "routed_points (connection_path num a conn) = Some ps"
    by (simp only: connection_path_def assms Option.bind.simps routed_raw_path)
qed

lemma known_ends:
  assumes "validateArchitecture num words env marked a = []" and "conn \<in> set (ar_connections a)"
  shows "rel conn ''from'' \<in> fst ` set (components a)" "rel conn ''to'' \<in> fst ` set (components a)"
    "\<exists>ps. connection_route num a conn = Some ps \<and> 24 \<le> span_of ps"
proof -
  from assms(2) obtain k where "(k, conn) \<in> set (indexed (ar_connections a))" by (metis in_set_conv_nth indexed_iff)
  with validated_parts(7) [OF assms(1)] have p: "connection_end_problems num a (k, conn) = []" by blast
  then have known: "node_at (components a) (rel conn ''from'') \<noteq> None" "node_at (components a) (rel conn ''to'') \<noteq> None"
    unfolding connection_end_problems_def prod.case append_is_Nil_conv problem_if_Nil by blast+
  then show "rel conn ''from'' \<in> fst ` set (components a)" "rel conn ''to'' \<in> fst ` set (components a)"
    by (auto simp: node_at_def map_of_eq_None_iff)
  from known have "connection_route num a conn \<noteq> None"
    by (auto simp: connection_route_def connection_ends_def Let_def)
  then obtain ps where ps: "connection_route num a conn = Some ps" by blast
  with p show "\<exists>ps. connection_route num a conn = Some ps
      \<and> 24 \<le> span_of ps"
    by (simp add: connection_end_problems_def not_less)
qed

section \<open>The gates\<close>

interpretation architecture_drawing:
  node_drawing "\<lambda>a. validateArchitecture num words env marked a = []" "architecture_gates num words" env components
    "connection_route num"
proof (rule node_drawing_intro)
  show "route_gates env (architecture_gates num words a) = []" if "validateArchitecture num words env marked a = []" for a
    by (rule validated_parts(8) [OF that])
  show "rel r ''from'' \<in> fst ` set (components a) \<and> rel r ''to'' \<in> fst ` set (components a)"
    if "validateArchitecture num words env marked a = []" "r \<in> set (gi_relations (architecture_gates num words a))" for a r
    using that known_ends [OF that(1)] by (simp add: architecture_gates_def Let_def)
qed (simp_all add: architecture_gates_def Let_def connection_path_def)

section \<open>Properties\<close>

lemma component_ids_distinct:
  assumes "length (components a) = length (ar_components a)"
  shows "distinct (map (\<lambda>c. field c ''id'') (ar_components a))"
proof -
  have "length (List.map_filter f xs) \<le> length xs" for f :: "'a \<Rightarrow> 'b option" and xs
    by (induction xs) (auto simp: List.map_filter_simps split: option.split)
  then have "length (ar_components a) \<le> length (measured_components a)" unfolding components_def [symmetric]
    by (metis assms components_def)
  moreover have "length (measured_components a) \<le> length (ar_components a)"
    using puts_length [of "\<lambda>c. field c ''id''" "measureComponent (gridLayout (ar_layout a))" "[]" "ar_components a"]
    by (simp add: measured_components_def)
  ultimately show ?thesis unfolding measured_components_def by (intro filled_distinct) simp
qed

lemma label_clear:
  assumes "validateArchitecture num words env marked a = []" and "conn \<in> set (ar_connections a)"
    and "connection_label num a conn = Some (p, r)"
  shows "\<forall>(i, n) \<in> set (components a). \<not> rectsOverlap (raw_of r) (raw_of (rect_of (pn_box n))) (- 2)"
    "enforcesBoundaryTitleComposition a \<Longrightarrow>
      \<forall>t \<in> set (boundaries num words a). \<not> rectsOverlap (raw_of (tt_rect (tb_title t))) (raw_of r) 0"
proof -
  obtain k where "(k, conn) \<in> set (indexed (ar_connections a))" using assms(2) by (metis in_set_conv_nth indexed_iff)
  then have "(k, conn, raw_of r) \<in> set (connection_labels num a)"
    unfolding connection_labels_def set_map_filter using assms(3) by (intro bexI [of _ "(k, conn)"]) simp_all
  with validated_parts(11) [OF assms(1)] have l: "connection_label_problems (enforcesBoundaryTitleComposition a) (components a)
      (boundaries num words a) (k, conn, raw_of r) = []" by blast
  note parts = l [unfolded connection_label_problems_def prod.case append_is_Nil_conv concat_eq_Nil_conv]
  show "\<forall>(i, n) \<in> set (components a). \<not> rectsOverlap (raw_of r) (raw_of (rect_of (pn_box n))) (- 2)"
    using parts by auto
  show "\<forall>t \<in> set (boundaries num words a). \<not> rectsOverlap (raw_of (tt_rect (tb_title t))) (raw_of r) 0"
    if "enforcesBoundaryTitleComposition a"
  proof
    fix t assume "t \<in> set (boundaries num words a)"
    then obtain j where "(j, t) \<in> set (indexed (boundaries num words a))" by (metis in_set_conv_nth indexed_iff)
    then show "\<not> rectsOverlap (raw_of (tt_rect (tb_title t))) (raw_of r) 0" using parts that by auto
  qed
qed

text \<open>C12: an accepted architecture diagram: component ids are unique, every component has a positive size and
  lies in the view box, no two components come closer than eight pixels, every wrapped component
  exists, every frame lies in the view box, every connection joins two known components at least 24
  pixels apart, and the label of a connection lies on no component (up to 2) and, when titles are
  checked, under no boundary title.\<close>

theorem architecture_sound:
  assumes "validateArchitecture num words env marked a = []" and "vb = architecture_view_box num words a"
    and "canvas = \<lparr>rx = 0, ry = 0, rwidth = fst vb, rheight = snd vb\<rparr>"
  shows "distinct (map (\<lambda>c. field c ''id'') (ar_components a)) \<and> length (components a) = length (ar_components a)
    \<and> (\<forall>(i, n) \<in> set (components a). 0 < rwidth (pn_box n) \<and> 0 < rheight (pn_box n) \<and> spans canvas (rect_of (pn_box n)))
    \<and> (\<forall>i j. i < j \<longrightarrow> j < length (components a) \<longrightarrow> \<not> finite_rects_overlap
        (rect_of (pn_box (snd (components a ! i)))) (rect_of (pn_box (snd (components a ! j)))) 8)
    \<and> (\<forall>b \<in> set (ar_boundaries a). set (wraps b) \<subseteq> fst ` set (components a))
    \<and> (\<forall>t \<in> set (boundaries num words a). spans canvas (bb_rect (tb_box t)))
    \<and> (\<forall>conn \<in> set (ar_connections a). rel conn ''from'' \<in> fst ` set (components a) \<and> rel conn ''to'' \<in> fst ` set (components a)
        \<and> (\<exists>ps. connection_route num a conn = Some ps \<and> 24 \<le> span_of ps))
    \<and> (\<forall>conn \<in> set (ar_connections a). \<forall>p r. connection_label num a conn = Some (p, r) \<longrightarrow>
        (\<forall>(i, n) \<in> set (components a). \<not> rectsOverlap (raw_of r) (raw_of (rect_of (pn_box n))) (- 2))
        \<and> (enforcesBoundaryTitleComposition a \<longrightarrow>
            (\<forall>t \<in> set (boundaries num words a). \<not> rectsOverlap (raw_of (tt_rect (tb_title t))) (raw_of r) 0)))"
proof (intro conjI ballI allI impI)
  note p = validated_parts [OF assms(1), folded assms(2)]
  show "length (components a) = length (ar_components a)" by (rule p(2))
  then show "distinct (map (\<lambda>c. field c ''id'') (ar_components a))" by (rule component_ids_distinct)
  show "case e of (i, n) \<Rightarrow> 0 < rwidth (pn_box n) \<and> 0 < rheight (pn_box n) \<and> spans canvas (rect_of (pn_box n))"
    if "e \<in> set (components a)" for e
    using bspec [OF p(3) that]
    by (auto simp: component_layout_problems_def Let_def spans_def assms(3) right_edge_def bottom_edge_def rect_of_def
        rect.truncate_def split: if_splits)
  show "\<not> finite_rects_overlap (rect_of (pn_box (snd (components a ! i)))) (rect_of (pn_box (snd (components a ! j)))) 8"
    if "i < j" "j < length (components a)" for i j
    using p(4) [unfolded component_pair_problems_def concat_eq_Nil_conv] in_pairs_of [OF that] by (fastforce simp: split_beta)
  show "set (wraps b) \<subseteq> fst ` set (components a)" if "b \<in> set (ar_boundaries a)" for b
    using p(5) that by (auto simp: member_problems_def map_of_eq_None_iff)
  show "spans canvas (bb_rect (tb_box t))" if "t \<in> set (boundaries num words a)" for t
  proof -
    from that obtain k where "(k, t) \<in> set (indexed (boundaries num words a))" by (metis in_set_conv_nth indexed_iff)
    from bspec [OF p(6) this] show ?thesis
      by (auto simp: frame_problems_def Let_def spans_def assms(3) right_edge_def bottom_edge_def)
  qed
  show "rel conn ''from'' \<in> fst ` set (components a)" "rel conn ''to'' \<in> fst ` set (components a)"
    "\<exists>ps. connection_route num a conn = Some ps \<and> 24 \<le> span_of ps" if "conn \<in> set (ar_connections a)" for conn
    by (rule known_ends [OF assms(1) that])+
  show "case e of (i, n) \<Rightarrow> \<not> rectsOverlap (raw_of r) (raw_of (rect_of (pn_box n))) (- 2)"
    if "conn \<in> set (ar_connections a)" "connection_label num a conn = Some (q, r)" "e \<in> set (components a)" for conn q r e
    using label_clear(1) [OF assms(1) that(1,2)] that(3) by blast
  show "\<not> rectsOverlap (raw_of (tt_rect (tb_title t))) (raw_of r) 0"
    if "conn \<in> set (ar_connections a)" "connection_label num a conn = Some (q, r)" "enforcesBoundaryTitleComposition a"
      "t \<in> set (boundaries num words a)" for conn q r t
    using label_clear(2) [OF assms(1) that(1-3)] that(4) by blast
qed

text \<open>C13: the connections of an accepted architecture diagram keep two pixels from every component they do
  not join.\<close>

theorem architecture_routes_clear:
  assumes "validateArchitecture num words env marked a = []" and "conn \<in> set (ar_connections a)"
    and "is_string (rel conn ''from'')" and "is_string (rel conn ''to'')"
    and "connection_route num a conn = Some ps" and "(p, q) \<in> set (segments ps)"
    and "(i, n) \<in> set (components a)" and "i \<noteq> rel conn ''from''" and "i \<noteq> rel conn ''to''"
  shows "\<not> segmentIntersectsRect p q (rect_of (pn_box n)) 2"
proof -
  have "conn \<in> set (gi_relations (architecture_gates num words a))"
    using assms(2) by (simp add: architecture_gates_def Let_def)
  from architecture_drawing.clear_of_other_nodes [OF assms(1) this assms(3-9)] show ?thesis .
qed

section \<open>An accepted diagram\<close>

definition plan_connection :: relation where
  "plan_connection = \<lparr>address = 0, object = JObj [(lit ''from'', JStr (lit ''a'')), (lit ''to'', JStr (lit ''b'')),
     (lit ''via'', JArr [JArr [JNum 260, JNum 130]]), (lit ''label'', JStr (lit ''get''))]\<rparr>"

definition plan :: architecture where
  "plan = \<lparr>ar_meta = JObj [(lit ''viewBox'', JArr [JNum 930, JNum 600])], ar_layout = JUndef,
     ar_components = [sample_component ''a'' 0 100, sample_component ''b'' 400 100, sample_component ''c'' 200 300],
     ar_boundaries = [], ar_connections = [plan_connection]\<rparr>"

definition plan_node :: "string \<Rightarrow> real \<Rightarrow> real \<Rightarrow> jval \<times> placed_node" where
  "plan_node i x y = (JStr (lit i), \<lparr>pn_object = sample_component i x y, pn_box = box_of (JStr (lit i))
     \<lparr>rx = x, ry = y, rwidth = 120, rheight = 60\<rparr>\<rparr>)"

lemma plan_fields [simp]:
  "ar_layout plan = JUndef" "ar_boundaries plan = []" "ar_connections plan = [plan_connection]"
  "ar_components plan = [sample_component ''a'' 0 100, sample_component ''b'' 400 100, sample_component ''c'' 200 300]"
  "field (ar_meta plan) ''quality_profile'' = JUndef" "view_box (ar_meta plan) = Some (930, 600)"
  by (simp_all add: plan_def field_def view_box_def point_of_def)

lemma plan_connection_fields [simp]:
  "rel plan_connection ''from'' = JStr (lit ''a'')" "rel plan_connection ''to'' = JStr (lit ''b'')"
  "rel plan_connection ''via'' = JArr [JArr [JNum 260, JNum 130]]" "rel plan_connection ''route'' = JUndef"
  "rel plan_connection ''fromSide'' = JUndef" "rel plan_connection ''toSide'' = JUndef"
  "rel plan_connection ''label'' = JStr (lit ''get'')" "rel plan_connection ''labelAt'' = JUndef"
  "rel plan_connection ''labelDx'' = JUndef" "rel plan_connection ''labelDy'' = JUndef" "rel plan_connection ''labelSegment'' = JUndef"
  by (simp_all add: plan_connection_def rel_def)

lemma plan_measured [simp]:
  "measured_components plan = map (\<lambda>(i, x, y). (JStr (lit i), sample_component i x y,
     \<lparr>raw_x = Some x, raw_y = Some y, raw_width = Some 120, raw_height = Some 60\<rparr>)) [(''a'', 0, 100), (''b'', 400, 100), (''c'', 200, 300)]"
  by (simp add: measured_components_def measureComponent_def resolveComponentPos_def has_pos_def number_at_def)

lemma plan_components [simp]: "components plan = [plan_node ''a'' 0 100, plan_node ''b'' 400 100, plan_node ''c'' 200 300]"
  by (simp add: components_def placed_component_def List.map_filter_simps plan_node_def)

lemma plan_finite [simp]: "all_finite plan"
  by (simp add: all_finite_def placed_component_def)

lemma plan_no_boundaries [simp]: "resolveBoundaryTitles num words plan = ([], True)" "boundaries num words plan = []"
  by (simp_all add: boundaries_def resolveBoundaryTitles_def rawBoundaries_def List.map_filter_simps layoutBoundaryTitles_def)

lemma plan_view_box [simp]: "architecture_view_box num words plan = (930, 600)"
  by (simp add: architecture_view_box_def)

lemma plan_rects [simp]: "rect_of (pn_box (snd (plan_node i x y))) = \<lparr>rx = x, ry = y, rwidth = 120, rheight = 60\<rparr>"
  "fst (plan_node i x y) = JStr (lit i)" "pn_object (snd (plan_node i x y)) = sample_component i x y"
  by (simp_all add: plan_node_def rect_of_def box_of_def rect.truncate_def)

lemma plan_no_ports [simp]: "automatic_ports num [plan_connection] ns = Map.empty"
  by (simp add: automatic_ports_def automaticPortSpread_def all_relations_def asArray_def port_groups_def relation_items_def
      spread_eligible_def)

lemma plan_route: "connection_route num plan plan_connection = Some [(120, 130), (260, 130), (400, 130)]"
  by (simp add: connection_route_def connection_ends_def node_at_def plan_node_def connectionSides_def chosenSide_def
      defaultFromSide_def defaultToSide_def box_of_def alignFacingPorts_def spread_eligible_def some_or_def anchor_def
      routeVia_def points_of_def point_of_def List.map_filter_simps closed_def)

lemma plan_path: "connection_path num plan plan_connection = raw_path [(120, 130), (260, 130), (400, 130)]"
  by (simp add: connection_path_def plan_route)

lemma plan_routed [simp]: "routed_points (raw_path [(120, 130), (260, 130), (400, 130)]) = Some [(120, 130), (260, 130), (400, 130)]"
  by (simp add: routed_points_def raw_path_def asArray_def valid_points_def)

definition plan_gates :: gate_input where
  "plan_gates = architecture_gates (\<lambda>_. []) (\<lambda>k. k) plan"

lemma plan_gate_fields [simp]:
  "gi_relations plan_gates = [plan_connection]" "gi_profile plan_gates = JUndef" "gi_clearance plan_gates = 2"
  "gi_path plan_gates = connection_path (\<lambda>_. []) plan"
  "gi_obstacles plan_gates = node_obstacles [plan_node ''a'' 0 100, plan_node ''b'' 400 100, plan_node ''c'' 200 300]"
  "gi_ids plan_gates = [JStr (lit ''a''), JStr (lit ''b''), JStr (lit ''c'')]"
  by (simp_all add: plan_gates_def architecture_gates_def Let_def)

lemma plan_clear:
  "\<not> segmentIntersectsRect (120, 130) (260, 130) \<lparr>rx = 200, ry = 300, rwidth = 120, rheight = 60\<rparr> 2"
  "\<not> segmentIntersectsRect (260, 130) (400, 130) \<lparr>rx = 200, ry = 300, rwidth = 120, rheight = 60\<rparr> 2"
  by (simp_all add: segmentIntersectsRect_def grown_box_def pointInBox_def segmentsIntersect_def orientation_def
      onSegment_def Let_def)

lemma plan_flow: "cleanFlowProblems (all_relations [plan_connection]) (gi_obstacles plan_gates) (gi_path plan_gates) 2 = []"
proof -
  have segs: "indexed (segments [(120, 130), (260, 130), (400, 130)]) = [(0, (120, 130), (260, 130)), (1, (260, 130), (400::real, 130::real))]"
    by (simp add: indexed_def segments_def upt_conv_Cons)
  have "first_hit [(120, 130), (260, 130), (400, 130)] \<lparr>rx = 200, ry = 300, rwidth = 120, rheight = 60\<rparr> 2 = None"
    by (simp add: first_hit_def segs plan_clear)
  then have "obstacle_problems 0 plan_connection [(120, 130), (260, 130), (400, 130)] 2 (gi_obstacles plan_gates) = []"
    by (simp add: obstacle_problems_def node_obstacles_def split_beta obstacle_problem_def raw_of_def List.map_filter_simps)
  then show ?thesis
    by (simp add: cleanFlowProblems_def all_relations_def asArray_def indexed_def plan_path)
qed

lemma plan_silent: "route_gates None plan_gates = []" "label_gate (\<lambda>_. []) None plan_gates ls = []"
proof -
  have p: "\<And>b. qualityProfileForGate None JUndef b = JUndef" "JUndef \<noteq> showcase"
    by (simp_all add: qualityProfileForGate_def showcase_def)
  have side: "cleanEndpointSideProblems (all_relations [plan_connection]) (gi_ids plan_gates) (gi_path plan_gates)
      (Some f) (Some t) c = []" for f t c
    by (simp add: cleanEndpointSideProblems_def all_relations_def asArray_def indexed_def side_check_def side_to_check_def
        authored_side_def has_route_geometry_def)
  show "route_gates None plan_gates = []"
    using side plan_flow p
    by (simp add: route_gates_def Let_def cleanCrossingProblems_def cleanAmbiguousCorridorProblems_def
        cleanBorderRunProblems_def cleanRouteRhythmProblems_def)
  show "label_gate (\<lambda>_. []) None plan_gates ls = []"
    using p by (simp add: label_gate_def cleanLabelRouteClearanceProblems_def)
qed

lemma plan_units [simp]: "label_units num (JStr (lit ''api'')) = 3" "label_units num (JStr (lit ''get'')) = 3"
  by (simp_all add: label_units_def shown_def textUnits_def lit_Cons fullwidth_def FULLWIDTH_RE_def variation_selector_def
      high_surrogate_def low_surrogate_def)

lemma plan_label: "connection_label num plan plan_connection = Some ((330, 120), \<lparr>rx = 315, ry = 110, rwidth = 30, rheight = 14\<rparr>)"
  by (simp add: connection_label_def label_box_def plan_route connection_label_width_def labelPoint_def knobs_def point_of_def
      or_zero_def Let_def)

lemma plan_valid: "validateArchitecture (\<lambda>_. []) (\<lambda>k. k) None (\<lambda>_. False) plan = []"
proof -
  have pos: "has_pos (sample_component i x y)" for i x y by (simp add: has_pos_def)
  have fields: "field (sample_component i x y) ''sublabel'' = JUndef" "field (sample_component i x y) ''tag'' = JUndef" for i x y
    by (simp_all add: field_def sample_component_def)
  have place: "placement_problems plan = []" by (simp add: placement_problems_def gridLayout_def pos)
  have comp: "component_layout_problems (\<lambda>_. []) (\<lambda>_. False) (930, 600) (plan_node i x y) = []"
    if "0 \<le> x" "0 \<le> y" "x \<le> 800" "y \<le> 500" for i x y
    using that by (simp add: component_layout_problems_def split_beta Let_def brand_rail_problem_def text_too_wide_def fields
        right_edge_def bottom_edge_def)
  have pairs: "component_pair_problems (components plan) = []"
    by (simp add: component_pair_problems_def split_beta finite_rects_overlap_def)
  have "node_at (components plan) (JStr (lit ''a'')) \<noteq> None" "node_at (components plan) (JStr (lit ''b'')) \<noteq> None"
    by (simp_all add: node_at_def plan_node_def)
  then have ends: "connection_end_problems (\<lambda>_. []) plan (0, plan_connection) = []"
    by (simp add: connection_end_problems_def plan_route span_of_def hypot_def del: plan_components)
  have labels: "connection_labels (\<lambda>_. []) plan = [(0, plan_connection, raw_of \<lparr>rx = 315, ry = 110, rwidth = 30, rheight = 14\<rparr>)]"
    by (simp add: connection_labels_def plan_label indexed_def List.map_filter_simps)
  have free: "connection_label_problems b (components plan) [] (0, plan_connection, raw_of \<lparr>rx = 315, ry = 110, rwidth = 30, rheight = 14\<rparr>) = []" for b
    by (simp add: connection_label_problems_def plan_node_def rectsOverlap_def raw_of_def rect_of_def box_of_def rect.truncate_def
        finite_rects_overlap_def indexed_def)
  show ?thesis
    using plan_silent place pairs ends free
    by (simp add: validateArchitecture_def Let_def comp labels member_problems_def flip: plan_gates_def)
      (simp add: indexed_def)
qed

lemma architecture_sound_witness:
  "connection_label (\<lambda>_. []) plan plan_connection = Some ((330, 120), \<lparr>rx = 315, ry = 110, rwidth = 30, rheight = 14\<rparr>)
    \<and> \<not> rectsOverlap (raw_of \<lparr>rx = 315, ry = 110, rwidth = 30, rheight = 14\<rparr>)
        (raw_of (rect_of (pn_box (snd (plan_node ''c'' 200 300))))) (- 2)
    \<and> distinct (map (\<lambda>c. field c ''id'') (ar_components plan))"
proof -
  note s = architecture_sound [OF plan_valid refl refl]
  have c: "plan_connection \<in> set (ar_connections plan)" and n: "plan_node ''c'' 200 300 \<in> set (components plan)" by simp_all
  note l = s [THEN conjunct2, THEN conjunct2, THEN conjunct2, THEN conjunct2, THEN conjunct2, THEN conjunct2, THEN conjunct2]
  note clear = bspec [OF conjunct1 [OF bspec [OF l c, rule_format, OF plan_label]] n]
  show ?thesis by (intro conjI plan_label conjunct1 [OF s]) (use clear in \<open>simp only: split_beta simp_thms\<close>)
qed

lemma architecture_routes_clear_witness:
  "\<not> segmentIntersectsRect (120, 130) (260, 130) (rect_of (pn_box (snd (plan_node ''c'' 200 300)))) 2"
  by (rule architecture_routes_clear [OF plan_valid _ _ _ plan_route, where i = "JStr (lit ''c'')"])
    (simp_all add: is_string_def segments_def plan_node_def)

end
