(* ===== verification/Lifecycle.thy ===== *)
theory Lifecycle
  imports Drawings
begin

text \<open>
  Lifecycle diagrams, \<open>renderers/lifecycle/render-lifecycle.mjs\<close>: three fixed bands of states, the routes
  of the transitions between them, the validation and the legend.  The fields are those the schema
  admits, so the coordinates of a state are numbers; the words of the legend and the text of a number
  are arguments.
\<close>

section \<open>States\<close>

record lifecycle =
  lc_meta :: jval
  lc_lanes :: "jval list"
  lc_states :: "jval list"
  lc_transitions :: "relation list"

definition lifecycle_view_box :: "lifecycle \<Rightarrow> real \<times> real" where
  "lifecycle_view_box d = (case view_box (lc_meta d) of Some p \<Rightarrow> p | None \<Rightarrow> (980, 660))"

definition lifecycleAreaBottom :: "lifecycle \<Rightarrow> real" where
  "lifecycleAreaBottom d = snd (lifecycle_view_box d) - 122"

datatype band = PhaseBand | EventBand | OutcomeBand

definition MAIN_LANE :: jval where "MAIN_LANE = JStr (lit ''main'')"
definition TERMINAL_LANE :: jval where "TERMINAL_LANE = JStr (lit ''terminal'')"

definition bandFor :: "jval \<Rightarrow> band" where
  "bandFor lane = (if lane = MAIN_LANE then PhaseBand else if lane = TERMINAL_LANE then OutcomeBand else EventBand)"

text \<open>The fixed layout of a band: its top, the size of its states and the centres of its columns.\<close>

fun band_top :: "band \<Rightarrow> real" where
  "band_top PhaseBand = 126"
| "band_top EventBand = 278"
| "band_top OutcomeBand = 450"

fun band_size :: "band \<Rightarrow> real \<times> real" where
  "band_size PhaseBand = (118, 62)"
| "band_size EventBand = (126, 58)"
| "band_size OutcomeBand = (118, 58)"

fun band_columns :: "band \<Rightarrow> real list" where
  "band_columns PhaseBand = [94, 248, 402, 556, 710]"
| "band_columns EventBand = [402, 556, 710]"
| "band_columns OutcomeBand = [402, 556, 710]"

definition column_centre :: "real list \<Rightarrow> jval \<Rightarrow> real" where
  "column_centre xs v = (case column_index v of
     Some k \<Rightarrow> if k < length xs then xs ! k else last xs | None \<Rightarrow> last xs)"

definition measureState :: "jval \<Rightarrow> placed_node" where
  "measureState s =
     (let b = bandFor (field s ''lane'');
          width = nonzero_or (fst (band_size b)) (field s ''width'');
          height = nonzero_or (snd (band_size b)) (field s ''height'');
          c = column_centre (band_columns b) (field s ''col'');
          y = band_top b + nonzero_or 0 (field s ''yOffset'') in
      \<lparr>pn_object = s, pn_box = box_of (field s ''id'') \<lparr>rx = c - width / 2, ry = y, rwidth = width, rheight = height\<rparr>\<rparr>)"

definition states :: "lifecycle \<Rightarrow> node_map" where
  "states d = foldl (\<lambda>m s. map_put (field s ''id'') (measureState s) m) [] (lc_states d)"

definition laneLabels :: "lifecycle \<Rightarrow> (jval \<times> jval) list" where
  "laneLabels d = foldl (\<lambda>m l. map_put (field l ''id'') (field l ''label'') m) [] (lc_lanes d)"

definition stateSteps :: "lifecycle \<Rightarrow> (jval \<times> nat) list" where
  "stateSteps d = node_steps (lc_transitions d) (lc_states d)"

section \<open>Routes\<close>

definition lifecycle_auto :: "relation \<Rightarrow> point \<Rightarrow> point \<Rightarrow> jval \<Rightarrow> jval \<Rightarrow> point list" where
  "lifecycle_auto r s e fs ts =
     (if fst s = fst e \<or> snd s = snd e then []
      else if is_vertical fs \<noteq> is_vertical ts then [if is_vertical fs then (fst s, snd e) else (fst e, snd s)]
      else if is_vertical fs then through_y (number_or ((snd s + snd e) / 2) (rel r ''channelY'')) s e
      else through_x (number_or ((fst s + fst e) / 2) (rel r ''channelX'')) s e)"

definition lifecycle_routeVia ::
  "relation \<Rightarrow> node_box \<Rightarrow> node_box \<Rightarrow> point \<Rightarrow> point \<Rightarrow> jval \<Rightarrow> jval \<Rightarrow> point list" where
  "lifecycle_routeVia r f t s e fs ts =
     (if truthy (rel r ''via'') then points_of (rel r ''via'')
      else if has_route r ''straight'' then []
      else if has_route r ''drop'' then through_y (number_or ((snd s + snd e) / 2) (rel r ''channelY'')) s e
      else if has_route r ''bottom-channel'' then
        through_y (number_or (max (ry f + rheight f) (ry t + rheight t) + 34) (rel r ''channelY'')) s e
      else if has_route r ''top-channel'' then through_y (number_or (min (ry f) (ry t) - 28) (rel r ''channelY'')) s e
      else if has_route r ''right-channel'' then
        through_x (number_or (max (rx f + rwidth f) (rx t + rwidth t) + 36) (rel r ''channelX'')) s e
      else if has_route r ''left-channel'' then through_x (number_or (min (rx f) (rx t) - 36) (rel r ''channelX'')) s e
      else lifecycle_auto r s e fs ts)"

text \<open>A straight line between spread ports that do not align turns half way.\<close>

definition transition_via ::
  "bool \<Rightarrow> relation \<Rightarrow> node_box \<Rightarrow> node_box \<Rightarrow> point \<Rightarrow> point \<Rightarrow> jval \<Rightarrow> jval \<Rightarrow> point list" where
  "transition_via spread r f t s e fs ts =
     (let via = lifecycle_routeVia r f t s e fs ts in
      if spread \<and> via = [] \<and> 4 \<le> \<bar>fst s - fst e\<bar> \<and> 4 \<le> \<bar>snd s - snd e\<bar>
      then through_x ((fst s + fst e) / 2) s e else via)"

definition transition_route :: "number_text \<Rightarrow> lifecycle \<Rightarrow> relation \<Rightarrow> point list option" where
  "transition_route num d r =
     (let ns = states d in
      map_option (\<lambda>(f, t).
        let ports = sided_ports num (lc_transitions d) ns;
            fp = ports (address r, Source); tp = ports (address r, Target);
            fs = fst (connectionSides r f t); ts = snd (connectionSides r f t);
            s = some_or fp (anchor f fs); e = some_or tp (anchor t ts) in
        closed s (transition_via (fp \<noteq> None \<or> tp \<noteq> None) r f t s e fs ts) e)
      (connection_ends ns r))"

definition transition_path :: "number_text \<Rightarrow> lifecycle \<Rightarrow> relation \<Rightarrow> raw_point list option" where
  "transition_path num d r = Option.bind (transition_route num d r) raw_path"

text \<open>The text of a transition, its note below its label.\<close>

definition transition_label :: "number_text \<Rightarrow> lifecycle \<Rightarrow> relation \<Rightarrow> (point \<times> rect) option" where
  "transition_label num d r =
     (let longest = max (label_units num (rel r ''label'')) (label_units num (rel r ''note'')) in
      label_box r (transition_route num d r) 11
        (max 32 (longest * (49 / 10) + 12), if truthy (rel r ''note'') then 27 else 16))"

section \<open>Validation\<close>

datatype lifecycle_problem =
    StateIdsNotUnique
  | BandsTooTall
  | LaneIdsNotUnique
  | NoMainLane
  | UnknownLane jval
  | InvalidColumn jval
  | StateBeyondWidth jval
  | StateBeyondArea jval
  | StateLabelTooWide jval
  | StateBrandRail jval
  | StateTextTooWide jval string
  | StatesTooClose jval jval
  | UnknownTransitionSource nat
  | UnknownTransitionTarget nat
  | TransitionTooShort nat
  | TransitionGate gate_problem
  | LabelOnState nat jval
  | TransitionLabelsOverlap nat nat
  | TransitionLabelClose label_hit

definition lane_ids :: "lifecycle \<Rightarrow> jval list" where
  "lane_ids d = map (\<lambda>l. field l ''id'') (lc_lanes d)"

definition lane_problems :: "lifecycle \<Rightarrow> lifecycle_problem list" where
  "lane_problems d = problem_if (\<not> distinct (lane_ids d)) LaneIdsNotUnique
     @ problem_if (MAIN_LANE \<notin> set (lane_ids d)) NoMainLane"

definition state_problems ::
  "number_text \<Rightarrow> (jval \<Rightarrow> bool) \<Rightarrow> lifecycle \<Rightarrow> jval \<times> placed_node \<Rightarrow> lifecycle_problem list" where
  "state_problems num marked d e =
     (case e of (i, n) \<Rightarrow>
       let s = pn_object n; r = rect_of (pn_box n) in
       if field s ''lane'' \<notin> set (lane_ids d) then [UnknownLane i]
       else if \<not> (case column_index (field s ''col'') of
              Some k \<Rightarrow> k < length (band_columns (bandFor (field s ''lane''))) | None \<Rightarrow> False) then [InvalidColumn i]
       else problem_if (rx r < 32 \<or> fst (lifecycle_view_box d) - 32 < rx r + rwidth r) (StateBeyondWidth i)
         @ problem_if (ry r < 64 \<or> lifecycleAreaBottom d < ry r + rheight r) (StateBeyondArea i)
         @ problem_if (rwidth r + 6 < label_units num (field s ''label'') * (62 / 10)) (StateLabelTooWide i)
         @ problem_if (brand_rail_problem num marked s (rwidth r) 8) (StateBrandRail i)
         @ problem_if (text_too_wide num (field s ''sublabel'') (rwidth r) 6) (StateTextTooWide i ''Sublabel'')
         @ problem_if (text_too_wide num (field s ''tag'') (rwidth r) 6) (StateTextTooWide i ''Tag''))"

definition transition_problems :: "number_text \<Rightarrow> lifecycle \<Rightarrow> nat \<times> relation \<Rightarrow> lifecycle_problem list" where
  "transition_problems num d e =
     (case e of (k, r) \<Rightarrow>
       problem_if (node_at (states d) (rel r ''from'') = None) (UnknownTransitionSource k)
       @ problem_if (node_at (states d) (rel r ''to'') = None) (UnknownTransitionTarget k)
       @ (case transition_route num d r of
            None \<Rightarrow> [] | Some ps \<Rightarrow> problem_if (span_of ps < 32) (TransitionTooShort k)))"

text \<open>Authored via points keep their sides unchecked; the bands are no closed frames.\<close>

definition lifecycle_gates :: "number_text \<Rightarrow> lifecycle \<Rightarrow> gate_input" where
  "lifecycle_gates num d =
     (let ns = states d in
      \<lparr>gi_relations = lc_transitions d, gi_obstacles = node_obstacles ns, gi_ids = map fst ns,
       gi_path = transition_path num d, gi_from_side = connectionEndpointSide ns Source,
       gi_to_side = connectionEndpointSide ns Target, gi_check_sides = (\<lambda>r. \<not> authored_via r),
       gi_frames = [], gi_profile = field (lc_meta d) ''quality_profile'', gi_clearance = 2,
       gi_authoritative = False, gi_merge = False\<rparr>)"

definition validateLifecycle ::
  "number_text \<Rightarrow> jstring option \<Rightarrow> (jval \<Rightarrow> bool) \<Rightarrow> lifecycle \<Rightarrow> lifecycle_problem list" where
  "validateLifecycle num env marked d =
     (let ns = states d; gates = lifecycle_gates num d;
          labels = placed_labels (transition_label num d) (lc_transitions d) in
      problem_if (length ns \<noteq> length (lc_states d)) StateIdsNotUnique
      @ problem_if (lifecycleAreaBottom d + 4 < 448) BandsTooTall
      @ lane_problems d
      @ concat (map (state_problems num marked d) ns)
      @ map (\<lambda>(i, j). StatesTooClose i j) (close_nodes 10 ns)
      @ concat (map (transition_problems num d) (indexed (lc_transitions d)))
      @ map TransitionGate (route_gates env gates)
      @ map (\<lambda>(k, i). LabelOnState k i) (labels_on_nodes ns labels)
      @ map (\<lambda>(i, j). TransitionLabelsOverlap i j) (overlapping_labels labels)
      @ map TransitionLabelClose (label_gate num env gates labels))"

section \<open>Chrome\<close>

text \<open>The titles of the bands; \<open>" + "\<close> joins the lanes of the middle band.\<close>

definition lane_label :: "number_text \<Rightarrow> jval option \<Rightarrow> string \<Rightarrow> jstring" where
  "lane_label num lane fallback = (case lane of
     Some l \<Rightarrow> if truthy (field l ''label'') then js_string num (field l ''label'') else lit fallback
   | None \<Rightarrow> lit fallback)"

definition bandTitles :: "number_text \<Rightarrow> lifecycle \<Rightarrow> jstring list" where
  "bandTitles num d =
     (let is_lane = (\<lambda>v l. field l ''id'' = v);
          events = filter (\<lambda>l. \<not> is_lane MAIN_LANE l \<and> \<not> is_lane TERMINAL_LANE l) (lc_lanes d) in
      [lane_label num (find (is_lane MAIN_LANE) (lc_lanes d)) ''Lifecycle phases'',
       if events = [] then lit ''Interruptions + recovery''
       else join_with (lit '' + '') (map (\<lambda>l. shown num (field l ''label'')) events),
       lane_label num (find (is_lane TERMINAL_LANE) (lc_lanes d)) ''Outcomes''])"

text \<open>Where the rail of the phases ends, if there is one; the columns are validated before.\<close>

definition lifecycle_rail :: "lifecycle \<Rightarrow> real option" where
  "lifecycle_rail d =
     (let cols = List.map_filter (\<lambda>(i, n). if bandFor (field (pn_object n) ''lane'') = PhaseBand
            then column_index (field (pn_object n) ''col'') else None) (states d) in
      if cols = [] then None
      else if Max (set cols) < length (band_columns PhaseBand) then Some (band_columns PhaseBand ! Max (set cols) + 38)
      else None)"

definition lifecycle_kinds :: "jstring list" where
  "lifecycle_kinds = map lit [''start'', ''active'', ''waiting'', ''decision'', ''success'', ''failure'', ''neutral'', ''external'']"

definition lifecycle_legend_entries :: "(jstring \<Rightarrow> jstring) \<Rightarrow> lifecycle \<Rightarrow> resolved_entry list" where
  "lifecycle_legend_entries words d =
     resolveLegend (legend_config_of (field (lc_meta d) ''legend'')) (map (catalog_entry words) lifecycle_kinds)
       (kinds_present (map (\<lambda>(i, n). field (pn_object n) ''type'') (states d)))"

definition lifecycle_legend :: "(jstring \<Rightarrow> jstring) \<Rightarrow> lifecycle \<Rightarrow> legend_problem + legend_layout option" where
  "lifecycle_legend words d =
     (let vb = lifecycle_view_box d in
      measureLegend (lifecycle_legend_entries words d)
        \<lparr>lo_x = 40, lo_baseline = snd vb - 36, lo_width = fst vb - 80, lo_font = 8, lo_item_gap = 22, lo_line_gap = 22,
         lo_swatch_gap = 8, lo_min_title_y = lifecycleAreaBottom d + 8, lo_obstacles = [],
         lo_hide = (field (lc_meta d) ''legend'' = JUndef)\<rparr>)"

end
