(* ===== verification/LifecycleFacts.thy ===== *)
theory LifecycleFacts
  imports Lifecycle
begin

text \<open>What a lifecycle diagram without validation problems looks like, and the shape of its routes.\<close>

section \<open>The parts of the validation\<close>

lemma lifecycle_parts:
  assumes "validateLifecycle num env marked d = []"
  shows "length (states d) = length (lc_states d)" "MAIN_LANE \<in> set (lane_ids d)"
    "\<forall>e \<in> set (states d). state_problems num marked d e = []" "close_nodes 10 (states d) = []"
    "\<forall>e \<in> set (indexed (lc_transitions d)). transition_problems num d e = []"
    "route_gates env (lifecycle_gates num d) = []"
    "labels_on_nodes (states d) (placed_labels (transition_label num d) (lc_transitions d)) = []"
    "overlapping_labels (placed_labels (transition_label num d) (lc_transitions d)) = []"
proof -
  note p = assms [unfolded validateLifecycle_def Let_def append_is_Nil_conv problem_if_Nil concat_eq_Nil_conv
      map_is_Nil_conv lane_problems_def]
  from p show "length (states d) = length (lc_states d)" "MAIN_LANE \<in> set (lane_ids d)"
    "\<forall>e \<in> set (states d). state_problems num marked d e = []" "close_nodes 10 (states d) = []"
    "\<forall>e \<in> set (indexed (lc_transitions d)). transition_problems num d e = []"
    "route_gates env (lifecycle_gates num d) = []"
    "labels_on_nodes (states d) (placed_labels (transition_label num d) (lc_transitions d)) = []"
    "overlapping_labels (placed_labels (transition_label num d) (lc_transitions d)) = []"
    by auto
qed

lemma transition_route_closed:
  assumes "transition_route num d r = Some ps"
  obtains s via e where "ps = closed s via e"
  using assms by (auto simp: transition_route_def Let_def intro: that)

lemma transition_ends:
  assumes "validateLifecycle num env marked d = []" and "r \<in> set (lc_transitions d)"
  shows "rel r ''from'' \<in> fst ` set (states d)" "rel r ''to'' \<in> fst ` set (states d)"
    "\<exists>ps. transition_route num d r = Some ps \<and> 32 \<le> span_of ps"
proof -
  from assms(2) obtain k where "(k, r) \<in> set (indexed (lc_transitions d))" by (metis in_set_conv_nth indexed_iff)
  with lifecycle_parts(5) [OF assms(1)] have p: "transition_problems num d (k, r) = []" by blast
  then have known: "node_at (states d) (rel r ''from'') \<noteq> None" "node_at (states d) (rel r ''to'') \<noteq> None"
    unfolding transition_problems_def prod.case append_is_Nil_conv problem_if_Nil by blast+
  then show "rel r ''from'' \<in> fst ` set (states d)" "rel r ''to'' \<in> fst ` set (states d)"
    by (auto simp: node_at_def map_of_eq_None_iff)
  from known have "transition_route num d r \<noteq> None"
    by (auto simp: transition_route_def connection_ends_def Let_def)
  then obtain ps where ps: "transition_route num d r = Some ps" by blast
  with p show "\<exists>ps. transition_route num d r = Some ps \<and> 32 \<le> span_of ps"
    by (simp add: transition_problems_def not_less)
qed

interpretation lifecycle_drawing:
  node_drawing "\<lambda>d. validateLifecycle num env marked d = []" "lifecycle_gates num" env states "transition_route num"
proof (rule node_drawing_intro)
  show "route_gates env (lifecycle_gates num d) = []" if "validateLifecycle num env marked d = []" for d
    by (rule lifecycle_parts(6) [OF that])
  show "rel r ''from'' \<in> fst ` set (states d) \<and> rel r ''to'' \<in> fst ` set (states d)"
    if "validateLifecycle num env marked d = []" "r \<in> set (gi_relations (lifecycle_gates num d))" for d r
    using that transition_ends [OF that(1)] by (simp add: lifecycle_gates_def Let_def)
qed (simp_all add: lifecycle_gates_def Let_def transition_path_def)

section \<open>Orthogonal routes\<close>

definition axis_parallel :: "point \<times> point \<Rightarrow> bool" where
  "axis_parallel s \<longleftrightarrow> fst (fst s) = fst (snd s) \<or> snd (fst s) = snd (snd s)"

declare segments_Cons [simp]

lemma through_orthogonal [simp]:
  "list_all axis_parallel (segments (closed s (through_x x s e) e))"
  "list_all axis_parallel (segments (closed s (through_y y s e) e))"
  by (simp_all add: closed_def through_x_def through_y_def axis_parallel_def)

lemma auto_orthogonal:
  "list_all axis_parallel (segments (closed s (lifecycle_auto r s e fs ts) e))"
proof (cases "fst s = fst e \<or> snd s = snd e")
  case True
  then show ?thesis by (auto simp: lifecycle_auto_def closed_def axis_parallel_def)
next
  case False
  then show ?thesis
    unfolding lifecycle_auto_def if_not_P [OF False]
    by (simp add: closed_def through_x_def through_y_def axis_parallel_def)
qed

lemma transition_via_orthogonal:
  assumes "\<not> truthy (rel r ''via'')" and "\<not> has_route r ''straight''"
  shows "list_all axis_parallel (segments (closed s (transition_via spread r f t s e fs ts) e))"
proof -
  have "list_all axis_parallel (segments (closed s (lifecycle_routeVia r f t s e fs ts) e))"
    using assms by (simp add: lifecycle_routeVia_def auto_orthogonal)
  then show ?thesis by (simp add: transition_via_def Let_def)
qed

text \<open>A transition is drawn with horizontal and vertical segments only, whatever its route, channel and
  ports, unless its author gave via points or asked for a straight line.\<close>

lemma transitions_orthogonal:
  assumes "transition_route num d r = Some ps" and "\<not> truthy (rel r ''via'')" and "\<not> has_route r ''straight''"
    and "(p, q) \<in> set (segments ps)"
  shows "fst p = fst q \<or> snd p = snd q"
proof -
  have "list_all axis_parallel (segments ps)"
    using assms(1) unfolding transition_route_def Let_def map_option_eq_Some split_beta
    by (elim exE conjE) (drule sym, simp only: transition_via_orthogonal [OF assms(2,3)])
  then show ?thesis using assms(4) by (auto simp: list_all_iff axis_parallel_def)
qed

section \<open>Accepted diagrams\<close>

text \<open>C14: an accepted lifecycle diagram: state ids are unique, every state lies in a known lane, at a column
  of its band and inside the lifecycle area, states keep ten pixels from each other, every
  transition joins two known states at least 32 pixels apart, its route keeps two pixels from the
  states it does not join, and labels overlap neither states nor each other.\<close>

theorem lifecycle_sound:
  assumes "validateLifecycle num env marked d = []" and "labels = placed_labels (transition_label num d) (lc_transitions d)"
  shows "length (states d) = length (lc_states d)
    \<and> (\<forall>(i, n) \<in> set (states d). field (pn_object n) ''lane'' \<in> set (lane_ids d)
        \<and> 32 \<le> rx (pn_box n) \<and> rx (pn_box n) + rwidth (pn_box n) \<le> fst (lifecycle_view_box d) - 32
        \<and> 64 \<le> ry (pn_box n) \<and> ry (pn_box n) + rheight (pn_box n) \<le> lifecycleAreaBottom d)
    \<and> (\<forall>i j. i < j \<longrightarrow> j < length (states d) \<longrightarrow> \<not> finite_rects_overlap
        (rect_of (pn_box (snd (states d ! i)))) (rect_of (pn_box (snd (states d ! j)))) 10)
    \<and> (\<forall>r \<in> set (lc_transitions d). \<exists>ps. transition_route num d r = Some ps \<and> 32 \<le> span_of ps
        \<and> (is_string (rel r ''from'') \<and> is_string (rel r ''to'') \<longrightarrow>
            (\<forall>(p, q) \<in> set (segments ps). \<forall>(i, n) \<in> set (states d). i \<noteq> rel r ''from'' \<longrightarrow> i \<noteq> rel r ''to'' \<longrightarrow>
              \<not> segmentIntersectsRect p q (rect_of (pn_box n)) 2)))
    \<and> (\<forall>l \<in> set labels. \<forall>e \<in> set (states d). \<not> rectsOverlap (snd (snd l)) (raw_of (rect_of (pn_box (snd e)))) (- 2))
    \<and> (\<forall>i j. i < j \<longrightarrow> j < length labels \<longrightarrow> \<not> rectsOverlap (snd (snd (labels ! i))) (snd (snd (labels ! j))) (- 2))"
proof (intro conjI ballI allI impI)
  note p = lifecycle_parts [OF assms(1), folded assms(2)]
  show "length (states d) = length (lc_states d)" by (rule p(1))
  show "case x of (i, n) \<Rightarrow> field (pn_object n) ''lane'' \<in> set (lane_ids d)
      \<and> 32 \<le> rx (pn_box n) \<and> rx (pn_box n) + rwidth (pn_box n) \<le> fst (lifecycle_view_box d) - 32
      \<and> 64 \<le> ry (pn_box n) \<and> ry (pn_box n) + rheight (pn_box n) \<le> lifecycleAreaBottom d"
    if "x \<in> set (states d)" for x
    using bspec [OF p(3) that]
    by (auto simp: state_problems_def Let_def rect_of_def rect.truncate_def split: if_splits)
  show "\<not> finite_rects_overlap (rect_of (pn_box (snd (states d ! i)))) (rect_of (pn_box (snd (states d ! j)))) 10"
    if "i < j" "j < length (states d)" for i j by (rule no_close_nodes [OF p(4) that])
  show "\<not> rectsOverlap (snd (snd l)) (raw_of (rect_of (pn_box (snd e)))) (- 2)"
    if "l \<in> set labels" "e \<in> set (states d)" for l e by (rule no_label_on_nodes [OF p(7) that])
  show "\<not> rectsOverlap (snd (snd (labels ! i))) (snd (snd (labels ! j))) (- 2)"
    if "i < j" "j < length labels" for i j by (rule no_overlapping_labels [OF p(8) that])
  fix r assume r: "r \<in> set (lc_transitions d)"
  then obtain ps where ps: "transition_route num d r = Some ps" "32 \<le> span_of ps" using transition_ends(3) [OF assms(1)] by blast
  have g: "r \<in> set (gi_relations (lifecycle_gates num d))" using r by (simp add: lifecycle_gates_def Let_def)
  from ps lifecycle_drawing.clear_of_other_nodes [OF assms(1) g _ _ ps(1)]
  show "\<exists>ps. transition_route num d r = Some ps \<and> 32 \<le> span_of ps
        \<and> (is_string (rel r ''from'') \<and> is_string (rel r ''to'') \<longrightarrow>
            (\<forall>(p, q) \<in> set (segments ps). \<forall>(i, n) \<in> set (states d). i \<noteq> rel r ''from'' \<longrightarrow> i \<noteq> rel r ''to'' \<longrightarrow>
              \<not> segmentIntersectsRect p q (rect_of (pn_box n)) 2))"
    by fast
qed

section \<open>A diagram\<close>

definition sample_state :: "string \<Rightarrow> string \<Rightarrow> real \<Rightarrow> jval" where
  "sample_state i lane c = JObj [(lit ''id'', JStr (lit i)), (lit ''type'', JStr (lit ''active'')),
     (lit ''label'', JStr (lit ''run'')), (lit ''lane'', JStr (lit lane)), (lit ''col'', JNum c)]"

definition sample_transition :: relation where
  "sample_transition = \<lparr>address = 0, object = JObj [(lit ''from'', JStr (lit ''a'')), (lit ''to'', JStr (lit ''b'')),
     (lit ''label'', JStr (lit ''go'')), (lit ''via'', JArr [JArr [JNum 240, JNum 157]])]\<rparr>"

definition lifecycle_sample :: "relation \<Rightarrow> lifecycle" where
  "lifecycle_sample r = \<lparr>lc_meta = JObj [], lc_lanes = [JObj [(lit ''id'', JStr (lit ''main''))], JObj [(lit ''id'', JStr (lit ''work''))]],
     lc_states = [sample_state ''a'' ''main'' 0, sample_state ''b'' ''main'' 2, sample_state ''c'' ''work'' 0],
     lc_transitions = [r]\<rparr>"

lemma sample_state_fields [simp]:
  "field (sample_state i l c) ''id'' = JStr (lit i)" "field (sample_state i l c) ''lane'' = JStr (lit l)"
  "field (sample_state i l c) ''col'' = JNum c" "field (sample_state i l c) ''width'' = JUndef"
  "field (sample_state i l c) ''height'' = JUndef" "field (sample_state i l c) ''yOffset'' = JUndef"
  "field (sample_state i l c) ''label'' = JStr (lit ''run'')" "field (sample_state i l c) ''sublabel'' = JUndef"
  "field (sample_state i l c) ''tag'' = JUndef"
  by (simp_all add: field_def sample_state_def)

lemma sample_lifecycle_fields [simp]:
  "lc_transitions (lifecycle_sample r) = [r]" "field (lc_meta (lifecycle_sample r)) ''quality_profile'' = JUndef"
  "lane_ids (lifecycle_sample r) = [JStr (lit ''main''), JStr (lit ''work'')]" "lifecycle_view_box (lifecycle_sample r) = (980, 660)"
  "lc_states (lifecycle_sample r) = [sample_state ''a'' ''main'' 0, sample_state ''b'' ''main'' 2, sample_state ''c'' ''work'' 0]"
  by (simp_all add: lifecycle_sample_def field_def lane_ids_def lifecycle_view_box_def view_box_def point_of_def)

lemma sample_columns [simp]: "column_index (JNum 0) = Some 0" "column_index (JNum 2) = Some 2"
  by (simp_all add: column_index_def)

definition state_node :: "string \<Rightarrow> string \<Rightarrow> real \<Rightarrow> rect \<Rightarrow> jval \<times> placed_node" where
  "state_node i l c r = (JStr (lit i), \<lparr>pn_object = sample_state i l c, pn_box = box_of (JStr (lit i)) r\<rparr>)"

lemma state_node_parts [simp]:
  "fst (state_node i l c r) = JStr (lit i)" "pn_object (snd (state_node i l c r)) = sample_state i l c"
  "pn_box (snd (state_node i l c r)) = box_of (JStr (lit i)) r"
  by (simp_all add: state_node_def)

lemma rect_of_box [simp]: "rect_of (box_of i r) = r"
  by (simp add: rect_of_def box_of_def rect.truncate_def)

lemma sample_states [simp]: "states (lifecycle_sample r) =
    [state_node ''a'' ''main'' 0 \<lparr>rx = 35, ry = 126, rwidth = 118, rheight = 62\<rparr>,
     state_node ''b'' ''main'' 2 \<lparr>rx = 343, ry = 126, rwidth = 118, rheight = 62\<rparr>,
     state_node ''c'' ''work'' 0 \<lparr>rx = 339, ry = 278, rwidth = 126, rheight = 58\<rparr>]"
  by (simp add: states_def measureState_def bandFor_def MAIN_LANE_def TERMINAL_LANE_def nonzero_or_def column_centre_def
      state_node_def)

lemma sample_transition_fields [simp]:
  "rel sample_transition ''from'' = JStr (lit ''a'')" "rel sample_transition ''to'' = JStr (lit ''b'')"
  "rel sample_transition ''via'' = JArr [JArr [JNum 240, JNum 157]]" "rel sample_transition ''label'' = JStr (lit ''go'')"
  "rel sample_transition ''note'' = JUndef" "rel sample_transition ''fromSide'' = JUndef" "rel sample_transition ''toSide'' = JUndef"
  "authored_via sample_transition" "\<not> spread_eligible sample_transition"
  by (simp_all add: sample_transition_def rel_def authored_via_def spread_eligible_def)

lemma sample_route: "transition_route num (lifecycle_sample sample_transition) sample_transition
    = Some [(153, 157), (240, 157), (343, 157)]"
  by (simp add: transition_route_def connection_ends_def node_at_def state_node_def no_sided_ports connectionSides_def
      chosenSide_def defaultFromSide_def defaultToSide_def box_of_def some_or_def anchor_def transition_via_def
      lifecycle_routeVia_def points_of_def point_of_def List.map_filter_simps closed_def)

lemma sample_path: "transition_path num (lifecycle_sample sample_transition) sample_transition
    = raw_path [(153, 157), (240, 157), (343, 157)]"
  by (simp add: transition_path_def sample_route)

lemma lifecycle_units [simp]: "label_units num (JStr (lit ''run'')) = 3" "label_units num (JStr (lit ''go'')) = 2"
    "label_units num JUndef = 0"
  by (simp_all add: label_units_def shown_def textUnits_def lit_Cons fullwidth_def FULLWIDTH_RE_def variation_selector_def
      high_surrogate_def low_surrogate_def)

lemma sample_clear:
  "\<not> segmentIntersectsRect (153, 157) (240, 157) \<lparr>rx = 339, ry = 278, rwidth = 126, rheight = 58\<rparr> 2"
  "\<not> segmentIntersectsRect (240, 157) (343, 157) \<lparr>rx = 339, ry = 278, rwidth = 126, rheight = 58\<rparr> 2"
  by (simp_all add: segmentIntersectsRect_def grown_box_def pointInBox_def segmentsIntersect_def orientation_def
      onSegment_def Let_def)

lemma sample_gates [simp]:
  "route_gates None (lifecycle_gates num (lifecycle_sample sample_transition)) = []" (is ?r)
  "label_gate num' None (lifecycle_gates num (lifecycle_sample sample_transition)) ls = []" (is ?l)
proof -
  define g where "g = lifecycle_gates num (lifecycle_sample sample_transition)"
  have g: "gi_relations g = [sample_transition]" "gi_profile g = JUndef" "gi_clearance g = 2" "\<not> gi_check_sides g sample_transition"
    "gi_path g = transition_path num (lifecycle_sample sample_transition)"
    "gi_obstacles g = node_obstacles (states (lifecycle_sample sample_transition))"
    by (simp_all add: g_def lifecycle_gates_def Let_def)
  have "first_hit [(153, 157), (240, 157), (343, 157)] \<lparr>rx = 339, ry = 278, rwidth = 126, rheight = 58\<rparr> 2 = None"
    by (simp add: first_hit_def indexed_def sample_clear)
  then have "obstacle_problems 0 sample_transition [(153, 157), (240, 157), (343, 157)] 2 (gi_obstacles g) = []"
    by (simp add: g obstacle_problems_def node_obstacles_def obstacle_problem_def raw_of_def List.map_filter_simps state_node_def)
  then have flow: "cleanFlowProblems (all_relations (gi_relations g)) (gi_obstacles g) (gi_path g) (gi_clearance g) = []"
    by (simp add: g cleanFlowProblems_def all_relations_def asArray_def indexed_def sample_path routed_raw_path del: raw_path_points)
  have "cleanEndpointSideProblems (all_relations (gi_relations g)) (gi_ids g) (gi_path g) (Some (gi_from_side g))
      (Some (gi_to_side g)) (\<lambda>r i. gi_check_sides g r) = []"
    by (simp add: g cleanEndpointSideProblems_def all_relations_def asArray_def indexed_def)
  from plain_gates_silent [OF g(2) flow this] show ?r ?l by (simp_all add: g_def)
qed

lemma sample_labels: "placed_labels (transition_label num (lifecycle_sample sample_transition)) [sample_transition]
    = [(0, sample_transition, raw_of \<lparr>rx = 551 / 2, ry = 136, rwidth = 32, rheight = 16\<rparr>)]"
proof -
  have k: "labelPoint (knobs sample_transition) [(153, 157), (240, 157), (343, 157)] = Some (583 / 2, 147)"
    by (simp add: labelPoint_def knobs_def sample_transition_def rel_def point_of_def or_zero_def Let_def)
  show ?thesis
    by (simp add: placed_labels_def indexed_def List.map_filter_simps transition_label_def label_box_def sample_route k)
qed

lemma sample_state_ok:
  assumes "32 \<le> x" and "x + w \<le> 948" and "64 \<le> y" and "y + h \<le> 538" and "118 \<le> w"
    and "l = ''main'' \<and> (c = 0 \<or> c = 2) \<or> l = ''work'' \<and> c = 0"
  shows "state_problems num (\<lambda>_. False) (lifecycle_sample r)
    (state_node i l c \<lparr>rx = x, ry = y, rwidth = w, rheight = h\<rparr>) = []"
proof -
  have "l = ''main'' \<or> l = ''work''" "c = 0 \<or> c = 2" "l = ''work'' \<Longrightarrow> c = 0" using assms(6) by auto
  then have col: "JStr (lit l) = JStr (lit ''main'') \<or> JStr (lit l) = JStr (lit ''work'')"
    "case column_index (JNum c) of Some k \<Rightarrow> k < length (band_columns (bandFor (JStr (lit l)))) | None \<Rightarrow> False"
    by (auto simp: bandFor_def MAIN_LANE_def TERMINAL_LANE_def)
  show ?thesis
    unfolding state_problems_def split_beta Let_def state_node_parts sample_state_fields sample_lifecycle_fields rect_of_box
    using assms(1-5) col
    by (simp add: lifecycleAreaBottom_def brand_rail_problem_def text_too_wide_def)
qed

lemma lifecycle_valid: "validateLifecycle num None (\<lambda>_. False) (lifecycle_sample sample_transition) = []"
proof -
  have ends: "transition_problems num (lifecycle_sample sample_transition) (0, sample_transition) = []"
    by (simp add: transition_problems_def node_at_def state_node_def sample_route span_of_def hypot_def)
  have close: "close_nodes 10 (states (lifecycle_sample sample_transition)) = []"
    by (simp add: close_nodes_def split_beta List.map_filter_simps finite_rects_overlap_def)
  have labels: "labels_on_nodes (states (lifecycle_sample sample_transition))
      [(0, sample_transition, raw_of \<lparr>rx = 551 / 2, ry = 136, rwidth = 32, rheight = 16\<rparr>)] = []"
    by (simp add: labels_on_nodes_def split_beta List.map_filter_simps raw_of_def rectsOverlap_def finite_rects_overlap_def)
  have states: "concat (map (state_problems num (\<lambda>_. False) (lifecycle_sample sample_transition))
      (states (lifecycle_sample sample_transition))) = []"
    by (simp add: sample_state_ok)
  show ?thesis
    unfolding validateLifecycle_def Let_def sample_lifecycle_fields(1) sample_labels close labels states
    by (simp add: ends lifecycleAreaBottom_def lane_problems_def MAIN_LANE_def List.map_filter_simps overlapping_labels_def
        indexed_def)
qed

lemma lifecycle_sound_witness: "length (states (lifecycle_sample sample_transition)) = 3"
  using lifecycle_sound [OF lifecycle_valid refl] by simp

definition dropped_transition :: relation where
  "dropped_transition = \<lparr>address = 0, object = JObj [(lit ''from'', JStr (lit ''a'')), (lit ''to'', JStr (lit ''c'')),
     (lit ''route'', JStr (lit ''drop''))]\<rparr>"

lemma dropped_transition_fields [simp]:
  "rel dropped_transition ''from'' = JStr (lit ''a'')" "rel dropped_transition ''to'' = JStr (lit ''c'')"
  "rel dropped_transition ''via'' = JUndef" "rel dropped_transition ''route'' = JStr (lit ''drop'')"
  "rel dropped_transition ''channelY'' = JUndef" "rel dropped_transition ''fromSide'' = JUndef"
  "rel dropped_transition ''toSide'' = JUndef" "\<not> spread_eligible dropped_transition"
  by (simp_all add: dropped_transition_def rel_def spread_eligible_def)

lemma dropped_ends: "connection_ends (states (lifecycle_sample dropped_transition)) dropped_transition
    = Some (box_of (JStr (lit ''a'')) \<lparr>rx = 35, ry = 126, rwidth = 118, rheight = 62\<rparr>,
            box_of (JStr (lit ''c'')) \<lparr>rx = 339, ry = 278, rwidth = 126, rheight = 58\<rparr>)"
  by (simp add: connection_ends_def node_at_def state_node_def)

lemma dropped_via: "transition_via False dropped_transition f t (153, 157) (339, 307) fs ts = [(153, 232), (339, 232)]"
  by (simp add: transition_via_def lifecycle_routeVia_def has_route_def or_value_def number_or_def through_y_def)

lemma dropped_route: "transition_route num (lifecycle_sample dropped_transition) dropped_transition
    = Some [(153, 157), (153, 232), (339, 232), (339, 307)]"
  unfolding transition_route_def Let_def dropped_ends option.map prod.case
  by (simp add: no_sided_ports some_or_def connectionSides_def chosenSide_def defaultFromSide_def defaultToSide_def
      box_of_def anchor_def dropped_via closed_def)

lemma transitions_orthogonal_witness:
  "\<exists>ps. transition_route (\<lambda>_. []) (lifecycle_sample dropped_transition) dropped_transition = Some ps
    \<and> (\<forall>p q. (p, q) \<in> set (segments ps) \<longrightarrow> fst p = fst q \<or> snd p = snd q)"
  by (intro exI conjI allI impI, rule dropped_route, rule transitions_orthogonal [OF dropped_route])
    (simp_all add: has_route_def or_value_def)

end
