(* ===== verification/Dataflow.thy ===== *)
theory Dataflow
  imports Drawings
begin

text \<open>
  Data-flow diagrams, \<open>renderers/dataflow/render-dataflow.mjs\<close>: nodes in the rows of their stages, the
  routes of the flows, the validation and the legend.  A node whose row does not exist has no
  numeric box; a diagram with such a node is refused, and the follow-up problems of its coordinates
  are not modelled.  The words of the legend and the text of a number are arguments.
\<close>

section \<open>Stages and nodes\<close>

record dataflow =
  df_meta :: jval
  df_stages :: "jval list"
  df_nodes :: "jval list"
  df_flows :: "relation list"

definition dataflow_view_box :: "dataflow \<Rightarrow> real \<times> real" where
  "dataflow_view_box d = (case view_box (df_meta d) of Some p \<Rightarrow> p | None \<Rightarrow> (940, 720))"

definition flowLabelSize :: "number_text \<Rightarrow> relation \<Rightarrow> real \<times> real" where
  "flowLabelSize num r =
     (let longest = max (label_units num (rel r ''label'')) (label_units num (rel r ''classification'')) in
      (of_int (js_round (max 34 (longest * (49 / 10) + 12) * 10)) / 10,
       if truthy (rel r ''classification'') then 27 else 16))"

definition stageX :: "real \<Rightarrow> real" where
  "stageX i = 100 + i * 215"

definition stageFrame :: "dataflow \<Rightarrow> nat \<Rightarrow> rect" where
  "stageFrame d i = \<lparr>rx = stageX (real i) - 168 / 2, ry = 46, rwidth = 168, rheight = snd (dataflow_view_box d) - 46 - 74\<rparr>"

definition stage_frames :: "dataflow \<Rightarrow> frame list" where
  "stage_frames d = map (\<lambda>i. BoxFrame (raw_of (stageFrame d i)) (Some 10)) [0..<length (df_stages d)]"

definition rowYs :: "real list" where
  "rowYs = [128, 242, 356, 470, 584]"

definition row_top :: "jval \<Rightarrow> jsnum" where
  "row_top v = (case column_index v of
     Some k \<Rightarrow> if k < length rowYs then Some (rowYs ! k) else None | None \<Rightarrow> None)"

definition measureNode :: "jval \<Rightarrow> jval \<times> raw_rect" where
  "measureNode n =
     (let width = nonzero_or 112 (field n ''width''); height = nonzero_or 58 (field n ''height'') in
      (n, \<lparr>raw_x = map_option (\<lambda>s. stageX s - width / 2) (number_of (field n ''stage'')),
           raw_y = map_option (\<lambda>y. y + nonzero_or 0 (field n ''yOffset'')) (row_top (field n ''row'')),
           raw_width = Some width, raw_height = Some height\<rparr>))"

definition measured_nodes :: "dataflow \<Rightarrow> (jval \<times> jval \<times> raw_rect) list" where
  "measured_nodes d = foldl (\<lambda>m n. map_put (field n ''id'') (measureNode n) m) [] (df_nodes d)"

definition nodes :: "dataflow \<Rightarrow> node_map" where
  "nodes d = List.map_filter placed_component (measured_nodes d)"

definition nodeSteps :: "dataflow \<Rightarrow> (jval \<times> nat) list" where
  "nodeSteps d = node_steps (df_flows d) (df_nodes d)"

section \<open>Routes\<close>

definition dataflow_routeVia :: "relation \<Rightarrow> node_box \<Rightarrow> node_box \<Rightarrow> point \<Rightarrow> point \<Rightarrow> point list" where
  "dataflow_routeVia r f t s e =
     (if truthy (rel r ''via'') then points_of (rel r ''via'')
      else if has_route r ''straight'' then []
      else if has_route r ''vertical-channel'' then
        through_x (number_or (fst s + (if fst s < fst e then 44 else - 44)) (rel r ''channelX'')) s e
      else if has_route r ''bottom-channel'' then
        through_y (number_or (max (ry f + rheight f) (ry t + rheight t) + 26) (rel r ''channelY'')) s e
      else if has_route r ''top-channel'' then through_y (number_or (min (ry f) (ry t) - 24) (rel r ''channelY'')) s e
      else if \<bar>snd s - snd e\<bar> < 4 then []
      else through_x (fst s + (fst e - fst s) / 2) s e)"

text \<open>Points that repeat the previous one are dropped, but two points always remain.\<close>

fun keep_apart :: "point \<Rightarrow> point list \<Rightarrow> point list" where
  "keep_apart p [] = [p]"
| "keep_apart p (q # qs) = (if far_apart q p then p # keep_apart q qs else keep_apart p qs)"

definition flow_points :: "point \<Rightarrow> point list \<Rightarrow> point \<Rightarrow> point list" where
  "flow_points s via e = (let ps = keep_apart s (via @ [e]) in if length ps < 2 then ps @ [e] else ps)"

definition flow_route :: "number_text \<Rightarrow> dataflow \<Rightarrow> relation \<Rightarrow> point list option" where
  "flow_route num d r =
     (let ns = nodes d in
      map_option (\<lambda>(f, t).
        let ports = sided_ports num (df_flows d) ns;
            s = some_or (ports (address r, Source)) (anchor f (fst (connectionSides r f t)));
            e = some_or (ports (address r, Target)) (anchor t (snd (connectionSides r f t))) in
        flow_points s (dataflow_routeVia r f t s e) e)
      (connection_ends ns r))"

definition flow_path :: "number_text \<Rightarrow> dataflow \<Rightarrow> relation \<Rightarrow> raw_point list option" where
  "flow_path num d r = Option.bind (flow_route num d r) raw_path"

definition flow_label :: "number_text \<Rightarrow> dataflow \<Rightarrow> relation \<Rightarrow> (point \<times> rect) option" where
  "flow_label num d r = label_box r (flow_route num d r) 11 (flowLabelSize num r)"

section \<open>Validation\<close>

datatype dataflow_problem =
    NodeIdsNotUnique
  | InvalidStage jval
  | InvalidRow jval
  | NodeNotFinite jval
  | NodeBeyondWidth jval
  | NodeBeyondArea jval
  | NodeLabelTooWide jval
  | NodeBrandRail jval
  | NodeTextTooWide jval string
  | NodesTooClose jval jval
  | UnknownFlowSource nat
  | UnknownFlowTarget nat
  | FlowWithoutLabel nat
  | FlowTooShort nat
  | DiagonalSegment nat nat
  | FlowGate gate_problem
  | LabelOnNode nat jval
  | FlowLabelsOverlap nat nat
  | FlowLabelClose label_hit
  | StagesTooWide

definition valid_index :: "jval \<Rightarrow> nat \<Rightarrow> bool" where
  "valid_index v n \<longleftrightarrow> (case number_of v of Some x \<Rightarrow> 0 \<le> x \<and> x < real n | None \<Rightarrow> False)"

definition node_problems ::
  "number_text \<Rightarrow> (jval \<Rightarrow> bool) \<Rightarrow> dataflow \<Rightarrow> jval \<times> jval \<times> raw_rect \<Rightarrow> dataflow_problem list" where
  "node_problems num marked d e =
     (case e of (i, n, q) \<Rightarrow>
       problem_if (\<not> valid_index (field n ''stage'') (length (df_stages d))) (InvalidStage i)
       @ problem_if (\<not> valid_index (field n ''row'') (length rowYs)) (InvalidRow i)
       @ (case finite_rect q of
            None \<Rightarrow> [NodeNotFinite i]
          | Some r \<Rightarrow>
              problem_if (rx r < 24 \<or> fst (dataflow_view_box d) - 24 < rx r + rwidth r) (NodeBeyondWidth i)
              @ problem_if (ry r < 46 + 36 + 22 \<or> snd (dataflow_view_box d) - 74 < ry r + rheight r) (NodeBeyondArea i)
              @ problem_if (rwidth r + 6 < label_units num (field n ''label'') * (62 / 10)) (NodeLabelTooWide i)
              @ problem_if (brand_rail_problem num marked n (rwidth r) 8) (NodeBrandRail i)
              @ problem_if (text_too_wide num (field n ''sublabel'') (rwidth r) 6) (NodeTextTooWide i ''Sublabel'')
              @ problem_if (text_too_wide num (field n ''tag'') (rwidth r) 6) (NodeTextTooWide i ''Tag'')))"

text \<open>The pairs of the list of nodes, so a repeated id meets itself.\<close>

definition node_pair_problems :: "dataflow \<Rightarrow> dataflow_problem list" where
  "node_pair_problems d = concat (map (\<lambda>(m, n).
     case (node_at (nodes d) (field m ''id''), node_at (nodes d) (field n ''id'')) of
       (Some a, Some b) \<Rightarrow> problem_if (finite_rects_overlap (rect_of a) (rect_of b) 10) (NodesTooClose (field m ''id'') (field n ''id''))
     | _ \<Rightarrow> []) (pairs_of (df_nodes d)))"

definition is_diagonal :: "point \<times> point \<Rightarrow> bool" where
  "is_diagonal s \<longleftrightarrow> 1 / 100 < \<bar>fst (fst s) - fst (snd s)\<bar> \<and> 1 / 100 < \<bar>snd (fst s) - snd (snd s)\<bar>"

definition flow_problems :: "number_text \<Rightarrow> dataflow \<Rightarrow> nat \<times> relation \<Rightarrow> dataflow_problem list" where
  "flow_problems num d e =
     (case e of (k, r) \<Rightarrow>
       problem_if (node_at (nodes d) (rel r ''from'') = None) (UnknownFlowSource k)
       @ problem_if (node_at (nodes d) (rel r ''to'') = None) (UnknownFlowTarget k)
       @ problem_if (\<not> truthy (rel r ''label'')) (FlowWithoutLabel k)
       @ (case flow_route num d r of
            None \<Rightarrow> []
          | Some ps \<Rightarrow> problem_if (span_of ps < 34) (FlowTooShort k)
              @ (if authored_via r then map (\<lambda>(i, s). DiagonalSegment k i) (filter (\<lambda>(i, s). is_diagonal s) (indexed (segments ps)))
                 else [])))"

definition dataflow_gates :: "number_text \<Rightarrow> dataflow \<Rightarrow> gate_input" where
  "dataflow_gates num d =
     (let ns = nodes d in
      \<lparr>gi_relations = df_flows d, gi_obstacles = node_obstacles ns, gi_ids = map fst ns,
       gi_path = flow_path num d, gi_from_side = connectionEndpointSide ns Source,
       gi_to_side = connectionEndpointSide ns Target, gi_check_sides = (\<lambda>r. True),
       gi_frames = stage_frames d, gi_profile = field (df_meta d) ''quality_profile'', gi_clearance = 2,
       gi_authoritative = False, gi_merge = False\<rparr>)"

definition nodes_finite :: "dataflow \<Rightarrow> bool" where
  "nodes_finite d \<longleftrightarrow> list_all (\<lambda>e. placed_component e \<noteq> None) (measured_nodes d)"

definition validateDataflow ::
  "number_text \<Rightarrow> jstring option \<Rightarrow> (jval \<Rightarrow> bool) \<Rightarrow> dataflow \<Rightarrow> dataflow_problem list" where
  "validateDataflow num env marked d =
     (let ns = nodes d; gates = dataflow_gates num d; labels = placed_labels (flow_label num d) (df_flows d) in
      problem_if (length (measured_nodes d) \<noteq> length (df_nodes d)) NodeIdsNotUnique
      @ concat (map (node_problems num marked d) (measured_nodes d))
      @ (if \<not> nodes_finite d then []
         else node_pair_problems d
           @ concat (map (flow_problems num d) (indexed (df_flows d)))
           @ map FlowGate (route_gates env gates)
           @ map (\<lambda>(k, i). LabelOnNode k i) (labels_on_nodes ns labels)
           @ map (\<lambda>(i, j). FlowLabelsOverlap i j) (overlapping_labels labels)
           @ map FlowLabelClose (label_gate num env gates labels))
      @ problem_if (fst (dataflow_view_box d) - 24 < stageX (real (length (df_stages d)) - 1) + 168 / 2) StagesTooWide)"

section \<open>Legend\<close>

definition flow_legend_catalog :: "(jstring \<Rightarrow> jstring) \<Rightarrow> legend_entry list" where
  "flow_legend_catalog words = map (\<lambda>k. if k = lit ''database'' then catalog_entry words k
       else (catalog_entry words k)\<lparr>le_swatch_width := Some 34, le_swatch_gap := Some 9, le_interactive := Some False\<rparr>)
     (map lit [''emphasis'', ''security'', ''dashed'', ''database'', ''default''])"

definition flow_kinds_present :: "dataflow \<Rightarrow> jstring list" where
  "flow_kinds_present d =
     kinds_present (map (\<lambda>r. or_value (rel r ''variant'') (JStr (lit ''default''))) (df_flows d))
     @ (if list_ex (\<lambda>(i, n). field (pn_object n) ''type'' = JStr (lit ''database'')) (nodes d) then [lit ''database''] else [])"

definition dataflow_legend :: "(jstring \<Rightarrow> jstring) \<Rightarrow> dataflow \<Rightarrow> legend_problem + legend_layout option" where
  "dataflow_legend words d =
     (let vb = dataflow_view_box d in
      measureLegend (resolveLegend (legend_config_of (field (df_meta d) ''legend'')) (flow_legend_catalog words) (flow_kinds_present d))
        \<lparr>lo_x = 40, lo_baseline = snd vb - 36, lo_width = fst vb - 80, lo_font = 8, lo_item_gap = 22, lo_line_gap = 22,
         lo_swatch_gap = 8, lo_min_title_y = snd vb - 66, lo_obstacles = [],
         lo_hide = (field (df_meta d) ''legend'' = JUndef)\<rparr>)"

end
