(* ===== verification/DataflowFacts.thy ===== *)
theory DataflowFacts
  imports Dataflow
begin

text \<open>What a data-flow diagram without validation problems looks like, and why its arrows have a direction.\<close>

section \<open>The parts of the validation\<close>

lemma node_problems_finite:
  assumes "node_problems num marked d e = []"
  shows "placed_component e \<noteq> None"
  using assms by (cases e) (auto simp: node_problems_def placed_component_def split: option.splits)

lemma dataflow_parts:
  assumes "validateDataflow num env marked d = []"
  shows "length (measured_nodes d) = length (df_nodes d)" "nodes_finite d"
    "\<forall>e \<in> set (measured_nodes d). node_problems num marked d e = []" "node_pair_problems d = []"
    "\<forall>e \<in> set (indexed (df_flows d)). flow_problems num d e = []"
    "route_gates env (dataflow_gates num d) = []"
    "labels_on_nodes (nodes d) (placed_labels (flow_label num d) (df_flows d)) = []"
    "overlapping_labels (placed_labels (flow_label num d) (df_flows d)) = []"
proof -
  note q = assms [unfolded validateDataflow_def Let_def append_is_Nil_conv problem_if_Nil concat_eq_Nil_conv]
  from q show "length (measured_nodes d) = length (df_nodes d)" by blast
  from q show np: "\<forall>e \<in> set (measured_nodes d). node_problems num marked d e = []" by auto
  then show f: "nodes_finite d" using node_problems_finite by (auto simp: nodes_finite_def list_all_iff)
  then have nf: "\<not> \<not> nodes_finite d" by simp
  note p = q [unfolded if_not_P [OF nf] append_is_Nil_conv concat_eq_Nil_conv map_is_Nil_conv]
  from p show "node_pair_problems d = []" "\<forall>e \<in> set (indexed (df_flows d)). flow_problems num d e = []"
    "route_gates env (dataflow_gates num d) = []"
    "labels_on_nodes (nodes d) (placed_labels (flow_label num d) (df_flows d)) = []"
    "overlapping_labels (placed_labels (flow_label num d) (df_flows d)) = []"
    by auto
qed

lemma keep_apart_first: "keep_apart p qs = p # tl (keep_apart p qs)"
  by (induction p qs rule: keep_apart.induct) auto

lemma keep_apart_not_Nil [simp]: "keep_apart p qs \<noteq> []"
  by (metis keep_apart_first list.discI)

declare segments_Cons [simp]

lemma keep_apart_far:
  "(a, b) \<in> set (segments (keep_apart p qs)) \<Longrightarrow> far_apart b a"
proof (induction p qs rule: keep_apart.induct)
  case (2 p q qs)
  show ?case
  proof (cases "far_apart q p")
    case True
    have k: "keep_apart p (q # qs) = p # q # tl (keep_apart q qs)"
      using True keep_apart_first [of q qs] by simp
    from 2(3) have "(a, b) = (p, q) \<or> (a, b) \<in> set (segments (keep_apart q qs))"
      unfolding k by (subst keep_apart_first) simp
    with True 2(1) [OF True] show ?thesis by auto
  next
    case False
    with 2 show ?thesis by simp
  qed
qed simp

lemma flow_points_long: "2 \<le> length (flow_points s via e)"
proof -
  have "1 \<le> length (keep_apart s (via @ [e]))" by (metis keep_apart_not_Nil length_0_conv less_one linorder_not_le)
  then show ?thesis by (simp add: flow_points_def Let_def)
qed

lemma keep_apart_single:
  "keep_apart p qs = [p] \<Longrightarrow> q \<in> set qs \<Longrightarrow> \<not> far_apart q p"
  by (induction p qs rule: keep_apart.induct) (auto split: if_splits)

text \<open>Two points always remain; they repeat each other only when the whole route does.\<close>

lemma flow_points_segments:
  assumes "(a, b) \<in> set (segments (flow_points s via e))"
  shows "far_apart b a \<or> flow_points s via e = [s, e] \<and> \<not> far_apart e s"
proof (cases "length (keep_apart s (via @ [e])) < 2")
  case True
  then have "keep_apart s (via @ [e]) = [s]" using keep_apart_first [of s "via @ [e]"]
    by (metis One_nat_def Suc_1 add_Suc length_0_conv length_Cons less_Suc0 not_less_eq plus_1_eq_Suc)
  then show ?thesis using keep_apart_single [of s "via @ [e]" e] by (simp add: flow_points_def)
next
  case False
  then show ?thesis using assms keep_apart_far [of a b s "via @ [e]"] by (simp add: flow_points_def)
qed

lemma flow_route_points:
  assumes "flow_route num d r = Some ps"
  obtains s via e where "ps = flow_points s via e"
  using assms by (auto simp: flow_route_def Let_def intro: that)

lemma flow_ends:
  assumes "validateDataflow num env marked d = []" and "r \<in> set (df_flows d)"
  shows "rel r ''from'' \<in> fst ` set (nodes d)" "rel r ''to'' \<in> fst ` set (nodes d)"
    "\<exists>ps. flow_route num d r = Some ps \<and> 34 \<le> span_of ps
      \<and> (authored_via r \<longrightarrow> (\<forall>s \<in> set (segments ps). \<not> is_diagonal s))"
proof -
  from assms(2) obtain k where "(k, r) \<in> set (indexed (df_flows d))" by (metis in_set_conv_nth indexed_iff)
  with dataflow_parts(5) [OF assms(1)] have p: "flow_problems num d (k, r) = []" by blast
  then have known: "node_at (nodes d) (rel r ''from'') \<noteq> None" "node_at (nodes d) (rel r ''to'') \<noteq> None"
    unfolding flow_problems_def prod.case append_is_Nil_conv problem_if_Nil by blast+
  then show "rel r ''from'' \<in> fst ` set (nodes d)" "rel r ''to'' \<in> fst ` set (nodes d)"
    by (auto simp: node_at_def map_of_eq_None_iff)
  from known have "flow_route num d r \<noteq> None" by (auto simp: flow_route_def connection_ends_def Let_def)
  then obtain ps where ps: "flow_route num d r = Some ps" by blast
  with p have q: "34 \<le> span_of ps" "authored_via r \<Longrightarrow> filter (\<lambda>(i, s). is_diagonal s) (indexed (segments ps)) = []"
    by (simp_all add: flow_problems_def not_less)
  have "\<not> is_diagonal s" if v: "authored_via r" and s: "s \<in> set (segments ps)" for s
  proof -
    from s obtain j where "(j, s) \<in> set (indexed (segments ps))" by (metis in_set_conv_nth indexed_iff)
    with q(2) [OF v] show ?thesis by (force simp: filter_empty_conv)
  qed
  with ps q(1) show "\<exists>ps. flow_route num d r = Some ps \<and> 34 \<le> span_of ps
      \<and> (authored_via r \<longrightarrow> (\<forall>s \<in> set (segments ps). \<not> is_diagonal s))" by blast
qed

interpretation dataflow_drawing:
  node_drawing "\<lambda>d. validateDataflow num env marked d = []" "dataflow_gates num" env nodes "flow_route num"
proof (rule node_drawing_intro)
  show "route_gates env (dataflow_gates num d) = []" if "validateDataflow num env marked d = []" for d
    by (rule dataflow_parts(6) [OF that])
  show "rel r ''from'' \<in> fst ` set (nodes d) \<and> rel r ''to'' \<in> fst ` set (nodes d)"
    if "validateDataflow num env marked d = []" "r \<in> set (gi_relations (dataflow_gates num d))" for d r
    using that flow_ends [OF that(1)] by (simp add: dataflow_gates_def Let_def)
qed (simp_all add: dataflow_gates_def Let_def flow_path_def)

section \<open>Properties\<close>

lemma near_span: "\<not> far_apart e s \<Longrightarrow> span_of [s, e] < 34"
proof -
  assume "\<not> far_apart e s"
  then have "\<bar>fst e - fst s\<bar> \<le> 1 / 10000" "\<bar>snd e - snd s\<bar> \<le> 1 / 10000" by (auto simp: far_apart_def)
  moreover have "hypot (fst e - fst s) (snd e - snd s) \<le> \<bar>fst e - fst s\<bar> + \<bar>snd e - snd s\<bar>"
    unfolding hypot_def by (rule sqrt_sum_squares_le_sum_abs)
  ultimately show "span_of [s, e] < 34" by (simp add: span_of_def)
qed

text \<open>The arrow of an accepted flow has a direction: no segment of its route repeats a point, so the last
  one, from which the arrowhead is turned, is longer than the tolerance of 0.0001 in one axis.\<close>

lemma flow_arrows_directed:
  assumes "validateDataflow num env marked d = []" and "r \<in> set (df_flows d)" and "flow_route num d r = Some ps"
    and "(a, b) \<in> set (segments ps)"
  shows "far_apart b a"
proof -
  obtain s via e where ps: "ps = flow_points s via e" using assms(3) by (rule flow_route_points)
  have "34 \<le> span_of ps" using flow_ends(3) [OF assms(1,2)] assms(3) by auto
  with flow_points_segments [OF assms(4) [unfolded ps]] near_span [of e s] show ?thesis unfolding ps by auto
qed

lemma placed_node_bounds:
  assumes "validateDataflow num env marked d = []" and "(i, n) \<in> set (nodes d)"
  shows "24 \<le> rx (pn_box n)" "rx (pn_box n) + rwidth (pn_box n) \<le> fst (dataflow_view_box d) - 24"
    "104 \<le> ry (pn_box n)" "ry (pn_box n) + rheight (pn_box n) \<le> snd (dataflow_view_box d) - 74"
proof -
  from assms(2) obtain e where e: "e \<in> set (measured_nodes d)" "placed_component e = Some (i, n)"
    by (auto simp: nodes_def set_map_filter)
  obtain j v q where q: "e = (j, v, q)" by (cases e)
  from e(2) obtain r where r: "finite_rect q = Some r" "pn_box n = box_of i r"
    by (auto simp: placed_component_def q)
  have "node_problems num marked d (j, v, q) = []" using dataflow_parts(3) [OF assms(1)] e(1) q by blast
  then have "24 \<le> rx r \<and> rx r + rwidth r \<le> fst (dataflow_view_box d) - 24
      \<and> 104 \<le> ry r \<and> ry r + rheight r \<le> snd (dataflow_view_box d) - 74"
    unfolding node_problems_def prod.case r(1) option.case append_is_Nil_conv problem_if_Nil by simp
  then show "24 \<le> rx (pn_box n)" "rx (pn_box n) + rwidth (pn_box n) \<le> fst (dataflow_view_box d) - 24"
    "104 \<le> ry (pn_box n)" "ry (pn_box n) + rheight (pn_box n) \<le> snd (dataflow_view_box d) - 74"
    by (simp_all add: r(2) box_of_def)
qed

lemma nodes_apart:
  assumes "validateDataflow num env marked d = []" and "i < j" and "j < length (df_nodes d)"
    and "node_at (nodes d) (field (df_nodes d ! i) ''id'') = Some a" and "node_at (nodes d) (field (df_nodes d ! j) ''id'') = Some b"
  shows "\<not> finite_rects_overlap (rect_of a) (rect_of b) 10"
proof -
  have "\<forall>x \<in> set (pairs_of (df_nodes d)). (case x of (m, n) \<Rightarrow>
      case (node_at (nodes d) (field m ''id''), node_at (nodes d) (field n ''id'')) of
        (Some a, Some b) \<Rightarrow> problem_if (finite_rects_overlap (rect_of a) (rect_of b) 10) (NodesTooClose (field m ''id'') (field n ''id''))
      | _ \<Rightarrow> []) = []"
    using dataflow_parts(4) [OF assms(1)] by (simp add: node_pair_problems_def)
  from bspec [OF this in_pairs_of [OF assms(2,3)]] show ?thesis by (simp add: assms(4,5))
qed

text \<open>C15: an accepted data-flow diagram: node ids are unique, every node lies between the margins of the view
  box and below the stage titles, nodes keep ten pixels from each other, every flow joins two known
  nodes at least 34 pixels apart on a route that keeps two pixels from other nodes and is not
  diagonal where it was authored, and labels overlap neither nodes nor each other.\<close>

theorem dataflow_sound:
  assumes "validateDataflow num env marked d = []" and "labels = placed_labels (flow_label num d) (df_flows d)"
  shows "length (measured_nodes d) = length (df_nodes d)
    \<and> (\<forall>(i, n) \<in> set (nodes d). 24 \<le> rx (pn_box n) \<and> rx (pn_box n) + rwidth (pn_box n) \<le> fst (dataflow_view_box d) - 24
        \<and> 104 \<le> ry (pn_box n) \<and> ry (pn_box n) + rheight (pn_box n) \<le> snd (dataflow_view_box d) - 74)
    \<and> (\<forall>i j a b. i < j \<longrightarrow> j < length (df_nodes d) \<longrightarrow> node_at (nodes d) (field (df_nodes d ! i) ''id'') = Some a
        \<longrightarrow> node_at (nodes d) (field (df_nodes d ! j) ''id'') = Some b \<longrightarrow> \<not> finite_rects_overlap (rect_of a) (rect_of b) 10)
    \<and> (\<forall>r \<in> set (df_flows d). \<exists>ps. flow_route num d r = Some ps \<and> 34 \<le> span_of ps
        \<and> (authored_via r \<longrightarrow> (\<forall>s \<in> set (segments ps). \<not> is_diagonal s))
        \<and> (is_string (rel r ''from'') \<and> is_string (rel r ''to'') \<longrightarrow>
            (\<forall>(p, q) \<in> set (segments ps). \<forall>(i, n) \<in> set (nodes d). i \<noteq> rel r ''from'' \<longrightarrow> i \<noteq> rel r ''to'' \<longrightarrow>
              \<not> segmentIntersectsRect p q (rect_of (pn_box n)) 2)))
    \<and> (\<forall>l \<in> set labels. \<forall>e \<in> set (nodes d). \<not> rectsOverlap (snd (snd l)) (raw_of (rect_of (pn_box (snd e)))) (- 2))
    \<and> (\<forall>i j. i < j \<longrightarrow> j < length labels \<longrightarrow> \<not> rectsOverlap (snd (snd (labels ! i))) (snd (snd (labels ! j))) (- 2))"
proof (intro conjI ballI allI impI)
  note p = dataflow_parts [OF assms(1), folded assms(2)]
  show "length (measured_nodes d) = length (df_nodes d)" by (rule p(1))
  show "case x of (i, n) \<Rightarrow> 24 \<le> rx (pn_box n) \<and> rx (pn_box n) + rwidth (pn_box n) \<le> fst (dataflow_view_box d) - 24
        \<and> 104 \<le> ry (pn_box n) \<and> ry (pn_box n) + rheight (pn_box n) \<le> snd (dataflow_view_box d) - 74"
    if "x \<in> set (nodes d)" for x
    using placed_node_bounds [OF assms(1), of "fst x" "snd x"] that by (simp add: split_beta)
  show "\<not> finite_rects_overlap (rect_of a) (rect_of b) 10"
    if "i < j" "j < length (df_nodes d)" "node_at (nodes d) (field (df_nodes d ! i) ''id'') = Some a"
      "node_at (nodes d) (field (df_nodes d ! j) ''id'') = Some b" for i j a b by (rule nodes_apart [OF assms(1) that])
  show "\<not> rectsOverlap (snd (snd l)) (raw_of (rect_of (pn_box (snd e)))) (- 2)"
    if "l \<in> set labels" "e \<in> set (nodes d)" for l e by (rule no_label_on_nodes [OF p(7) that])
  show "\<not> rectsOverlap (snd (snd (labels ! i))) (snd (snd (labels ! j))) (- 2)"
    if "i < j" "j < length labels" for i j by (rule no_overlapping_labels [OF p(8) that])
  fix r assume r: "r \<in> set (df_flows d)"
  then obtain ps where ps: "flow_route num d r = Some ps" "34 \<le> span_of ps"
      "authored_via r \<longrightarrow> (\<forall>s \<in> set (segments ps). \<not> is_diagonal s)" using flow_ends(3) [OF assms(1)] by blast
  have g: "r \<in> set (gi_relations (dataflow_gates num d))" using r by (simp add: dataflow_gates_def Let_def)
  from ps dataflow_drawing.clear_of_other_nodes [OF assms(1) g _ _ ps(1)]
  show "\<exists>ps. flow_route num d r = Some ps \<and> 34 \<le> span_of ps
        \<and> (authored_via r \<longrightarrow> (\<forall>s \<in> set (segments ps). \<not> is_diagonal s))
        \<and> (is_string (rel r ''from'') \<and> is_string (rel r ''to'') \<longrightarrow>
            (\<forall>(p, q) \<in> set (segments ps). \<forall>(i, n) \<in> set (nodes d). i \<noteq> rel r ''from'' \<longrightarrow> i \<noteq> rel r ''to'' \<longrightarrow>
              \<not> segmentIntersectsRect p q (rect_of (pn_box n)) 2))"
    by fast
qed

section \<open>A diagram\<close>

definition flow_node :: "string \<Rightarrow> real \<Rightarrow> real \<Rightarrow> jval" where
  "flow_node i s k = JObj [(lit ''id'', JStr (lit i)), (lit ''type'', JStr (lit ''backend'')),
     (lit ''label'', JStr (lit ''run'')), (lit ''stage'', JNum s), (lit ''row'', JNum k)]"

definition plain_flow :: relation where
  "plain_flow = \<lparr>address = 0, object = JObj [(lit ''from'', JStr (lit ''a'')), (lit ''to'', JStr (lit ''b'')),
     (lit ''label'', JStr (lit ''go'')), (lit ''via'', JArr [JArr [JNum 200, JNum 157]])]\<rparr>"

definition flow_sample :: dataflow where
  "flow_sample = \<lparr>df_meta = JObj [], df_stages = [JObj [], JObj []],
     df_nodes = [flow_node ''a'' 0 0, flow_node ''b'' 1 0, flow_node ''c'' 0 1], df_flows = [plain_flow]\<rparr>"

lemma flow_node_fields [simp]:
  "field (flow_node i s k) ''id'' = JStr (lit i)" "field (flow_node i s k) ''stage'' = JNum s"
  "field (flow_node i s k) ''row'' = JNum k" "field (flow_node i s k) ''width'' = JUndef"
  "field (flow_node i s k) ''height'' = JUndef" "field (flow_node i s k) ''yOffset'' = JUndef"
  "field (flow_node i s k) ''label'' = JStr (lit ''run'')" "field (flow_node i s k) ''sublabel'' = JUndef"
  "field (flow_node i s k) ''tag'' = JUndef"
  by (simp_all add: field_def flow_node_def)

lemma flow_sample_fields [simp]:
  "df_flows flow_sample = [plain_flow]" "field (df_meta flow_sample) ''quality_profile'' = JUndef"
  "dataflow_view_box flow_sample = (940, 720)" "length (df_stages flow_sample) = 2"
  "df_nodes flow_sample = [flow_node ''a'' 0 0, flow_node ''b'' 1 0, flow_node ''c'' 0 1]"
  by (simp_all add: flow_sample_def field_def dataflow_view_box_def view_box_def point_of_def)

lemma plain_flow_fields [simp]:
  "rel plain_flow ''from'' = JStr (lit ''a'')" "rel plain_flow ''to'' = JStr (lit ''b'')"
  "rel plain_flow ''via'' = JArr [JArr [JNum 200, JNum 157]]" "rel plain_flow ''label'' = JStr (lit ''go'')"
  "rel plain_flow ''classification'' = JUndef" "rel plain_flow ''fromSide'' = JUndef" "rel plain_flow ''toSide'' = JUndef"
  "authored_via plain_flow" "\<not> spread_eligible plain_flow"
  by (simp_all add: plain_flow_def rel_def authored_via_def spread_eligible_def)

definition flow_rect :: "real \<Rightarrow> real \<Rightarrow> rect" where
  "flow_rect x y = \<lparr>rx = x, ry = y, rwidth = 112, rheight = 58\<rparr>"

definition sample_nodes :: "(string \<times> real \<times> real \<times> rect) list" where
  "sample_nodes = [(''a'', 0, 0, flow_rect 44 128), (''b'', 1, 0, flow_rect 259 128), (''c'', 0, 1, flow_rect 44 242)]"

lemma flow_measured: "measured_nodes flow_sample = map (\<lambda>(i, s, k, r). (JStr (lit i), flow_node i s k, raw_of r)) sample_nodes"
  by (simp add: measured_nodes_def measureNode_def nonzero_or_def stageX_def row_top_def column_index_def rowYs_def
      sample_nodes_def flow_rect_def raw_of_def)

definition flow_box :: "string \<Rightarrow> real \<Rightarrow> real \<Rightarrow> rect \<Rightarrow> jval \<times> placed_node" where
  "flow_box i s k r = (JStr (lit i), \<lparr>pn_object = flow_node i s k, pn_box = box_of (JStr (lit i)) r\<rparr>)"

lemma flow_box_parts [simp]:
  "fst (flow_box i s k r) = JStr (lit i)" "pn_object (snd (flow_box i s k r)) = flow_node i s k"
  "pn_box (snd (flow_box i s k r)) = box_of (JStr (lit i)) r" "rect_of (box_of j r) = r" "finite_rect (raw_of r) = Some r"
  by (simp_all add: flow_box_def rect_of_def box_of_def rect.truncate_def raw_of_def)

lemma flow_nodes [simp]: "nodes flow_sample = map (\<lambda>(i, s, k, r). flow_box i s k r) sample_nodes" "nodes_finite flow_sample"
  by (simp_all add: nodes_def nodes_finite_def flow_measured sample_nodes_def placed_component_def List.map_filter_simps flow_box_def
      raw_of_def flow_rect_def)

lemma flow_connection: "connection_ends (nodes flow_sample) plain_flow
    = Some (box_of (JStr (lit ''a'')) (flow_rect 44 128), box_of (JStr (lit ''b'')) (flow_rect 259 128))"
  by (simp add: connection_ends_def node_at_def sample_nodes_def flow_box_def)

lemma plain_flow_points: "flow_points (156, 157) [(200, 157)] (259, 157) = [(156, 157), (200, 157), (259, 157)]"
  by (simp add: flow_points_def far_apart_def)

lemma plain_flow_route: "flow_route num flow_sample plain_flow = Some [(156, 157), (200, 157), (259, 157)]"
  unfolding flow_route_def Let_def flow_connection option.map prod.case
  by (simp add: no_sided_ports some_or_def connectionSides_def chosenSide_def defaultFromSide_def defaultToSide_def
      box_of_def flow_rect_def anchor_def dataflow_routeVia_def points_of_def point_of_def List.map_filter_simps plain_flow_points)

lemma flow_path_sample: "flow_path num flow_sample plain_flow = raw_path [(156, 157), (200, 157), (259, 157)]"
  by (simp add: flow_path_def plain_flow_route)

lemma flow_clear:
  "\<not> segmentIntersectsRect (156, 157) (200, 157) (flow_rect 44 242) 2"
  "\<not> segmentIntersectsRect (200, 157) (259, 157) (flow_rect 44 242) 2"
  by (simp_all add: segmentIntersectsRect_def grown_box_def pointInBox_def segmentsIntersect_def orientation_def
      onSegment_def Let_def flow_rect_def)

lemma flow_gates [simp]:
  "route_gates None (dataflow_gates num flow_sample) = []" (is ?r)
  "label_gate num' None (dataflow_gates num flow_sample) ls = []" (is ?l)
proof -
  define g where "g = dataflow_gates num flow_sample"
  have g: "gi_relations g = [plain_flow]" "gi_profile g = JUndef" "gi_clearance g = 2"
    "gi_path g = flow_path num flow_sample" "gi_obstacles g = node_obstacles (nodes flow_sample)"
    by (simp_all add: g_def dataflow_gates_def Let_def)
  have "first_hit [(156, 157), (200, 157), (259, 157)] (flow_rect 44 242) 2 = None"
    by (simp add: first_hit_def indexed_def flow_clear)
  then have "obstacle_problems 0 plain_flow [(156, 157), (200, 157), (259, 157)] 2 (gi_obstacles g) = []"
    by (simp add: g sample_nodes_def obstacle_problems_def node_obstacles_def obstacle_problem_def raw_of_def flow_rect_def
        List.map_filter_simps flow_box_def)
  then have flow: "cleanFlowProblems (all_relations (gi_relations g)) (gi_obstacles g) (gi_path g) (gi_clearance g) = []"
    by (simp add: g cleanFlowProblems_def all_relations_def asArray_def indexed_def flow_path_sample routed_raw_path del: raw_path_points)
  have "cleanEndpointSideProblems (all_relations (gi_relations g)) (gi_ids g) (gi_path g) (Some (gi_from_side g))
      (Some (gi_to_side g)) (\<lambda>r i. gi_check_sides g r) = []"
    by (simp add: g cleanEndpointSideProblems_def all_relations_def asArray_def indexed_def side_check_def side_to_check_def
        authored_side_def has_route_geometry_def)
  from plain_gates_silent [OF g(2) flow this] show ?r ?l by (simp_all add: g_def)
qed

lemma flow_units [simp]: "label_units num (JStr (lit ''run'')) = 3" "label_units num (JStr (lit ''go'')) = 2"
    "label_units num JUndef = 0"
  by (simp_all add: label_units_def shown_def textUnits_def lit_Cons fullwidth_def FULLWIDTH_RE_def variation_selector_def
      high_surrogate_def low_surrogate_def)

lemma flow_labels: "placed_labels (flow_label num flow_sample) [plain_flow]
    = [(0, plain_flow, raw_of \<lparr>rx = 425 / 2, ry = 136, rwidth = 34, rheight = 16\<rparr>)]"
proof -
  have k: "labelPoint (knobs plain_flow) [(156, 157), (200, 157), (259, 157)] = Some (459 / 2, 147)"
    by (simp add: labelPoint_def knobs_def plain_flow_def rel_def point_of_def or_zero_def Let_def)
  have w: "flowLabelSize num plain_flow = (34, 16)"
    by (simp add: flowLabelSize_def js_round_def)
  show ?thesis
    by (simp add: placed_labels_def indexed_def List.map_filter_simps flow_label_def label_box_def plain_flow_route k w)
qed

lemma flow_sample_valid: "validateDataflow num None (\<lambda>_. False) flow_sample = []"
proof -
  have node: "concat (map (node_problems num (\<lambda>_. False) flow_sample) (measured_nodes flow_sample)) = []"
    by (simp add: flow_measured sample_nodes_def node_problems_def valid_index_def rowYs_def flow_rect_def raw_of_def
        brand_rail_problem_def text_too_wide_def)
  have pairs: "node_pair_problems flow_sample = []"
    by (simp add: node_pair_problems_def node_at_def sample_nodes_def flow_box_def flow_rect_def finite_rects_overlap_def)
  have ends: "flow_problems num flow_sample (0, plain_flow) = []"
    by (simp add: flow_problems_def node_at_def sample_nodes_def flow_box_def plain_flow_route span_of_def hypot_def
        is_diagonal_def indexed_def)
  have labels: "labels_on_nodes (nodes flow_sample) [(0, plain_flow, raw_of \<lparr>rx = 425 / 2, ry = 136, rwidth = 34, rheight = 16\<rparr>)] = []"
    by (simp add: labels_on_nodes_def sample_nodes_def split_beta List.map_filter_simps raw_of_def flow_rect_def rectsOverlap_def
        finite_rects_overlap_def)
  have count: "length (measured_nodes flow_sample) = 3" by (simp add: flow_measured sample_nodes_def)
  show ?thesis
    unfolding validateDataflow_def Let_def flow_sample_fields(1) flow_labels node pairs labels count
    by (simp add: List.map_filter_simps overlapping_labels_def stageX_def) (simp add: indexed_def ends)
qed

lemma dataflow_sound_witness: "length (measured_nodes flow_sample) = 3"
  using dataflow_sound [OF flow_sample_valid refl] by simp

lemma flow_arrows_directed_witness: "far_apart (259, 157) (200, 157)"
  by (rule flow_arrows_directed [OF flow_sample_valid _ plain_flow_route]) simp_all

end
