(* ===== verification/WorkflowContract.thy ===== *)
theory WorkflowContract
  imports Delta Diagrams "HOL-Library.Product_Lexorder"
begin

text \<open>
  The first stage of \<open>renderers/workflow/workflow-compiler.mjs\<close>: the canonical order of a readable
  workflow and its semantic contract.  A workflow is its JSON document after schema validation; ids
  are strings without NUL, so the joined keys of authored edges are pairs.
\<close>

section \<open>Documents\<close>

record workflow =
  wf_version :: jval
  wf_meta :: jval
  wf_lanes :: "jval list"
  wf_phases :: "jval list"
  wf_groups :: "jval list"
  wf_nodes :: "jval list"
  wf_edges :: "relation list"
  wf_main_path :: "jval list"
  wf_checks :: jval

definition readable :: "workflow \<Rightarrow> bool" where
  "readable w \<longleftrightarrow> wf_version w = JNum 2"

section \<open>Stable comparisons\<close>

definition stableText :: "number_text \<Rightarrow> jval \<Rightarrow> jstring" where
  "stableText num v = shown num v"

definition stableCompare :: "number_text \<Rightarrow> jval \<Rightarrow> jval \<Rightarrow> int" where
  "stableCompare num l r = three_way (stableText num l) (stableText num r)"

text \<open>The text of a value with its keys in order is the canonical text of the comparator.\<close>

definition stableValueKey :: "number_text \<Rightarrow> jval \<Rightarrow> jstring option" where
  "stableValueKey num v = canonical num v"

text \<open>A difference of columns is compared by its sign.\<close>

definition lane_order :: "workflow \<Rightarrow> (jval \<times> nat) list" where
  "lane_order w = foldl (\<lambda>m (i, l). map_put (field l ''id'') i m) [] (indexed (wf_lanes w))"

definition lane_rank :: "workflow \<Rightarrow> jval \<Rightarrow> real" where
  "lane_rank w v = (case map_of (lane_order w) v of Some i \<Rightarrow> real i | None \<Rightarrow> 9007199254740991)"

definition node_compare :: "number_text \<Rightarrow> workflow \<Rightarrow> jval \<Rightarrow> jval \<Rightarrow> int" where
  "node_compare num w l r = first_nonzero
     [three_way (lane_rank w (field l ''lane'')) (lane_rank w (field r ''lane'')),
      three_way (number_or 0 (field l ''col'')) (number_or 0 (field r ''col'')),
      stableCompare num (field l ''id'') (field r ''id'')]"

definition edge_keys :: "number_text \<Rightarrow> relation \<Rightarrow> jstring list" where
  "edge_keys num r = map (\<lambda>k. stableText num (rel r k)) [''id'', ''from'', ''to'', ''label'', ''route'']
     @ [text_or [] (stableValueKey num (object r))]"

definition edge_compare :: "number_text \<Rightarrow> relation \<Rightarrow> relation \<Rightarrow> int" where
  "edge_compare num l r = first_nonzero (map2 three_way (edge_keys num l) (edge_keys num r))"

definition phase_compare :: "number_text \<Rightarrow> jval \<Rightarrow> jval \<Rightarrow> int" where
  "phase_compare num l r = first_nonzero
     [three_way (number_or 0 (field l ''fromCol'')) (number_or 0 (field r ''fromCol'')),
      three_way (number_or 0 (field l ''toCol'')) (number_or 0 (field r ''toCol'')),
      stableCompare num (field l ''id'') (field r ''id'')]"

definition group_compare :: "number_text \<Rightarrow> workflow \<Rightarrow> jval \<Rightarrow> jval \<Rightarrow> int" where
  "group_compare num w l r = first_nonzero
     [three_way (lane_rank w (field l ''lane'')) (lane_rank w (field r ''lane'')),
      phase_compare num l r]"

definition canonicalReadableWorkflow :: "number_text \<Rightarrow> workflow \<Rightarrow> workflow" where
  "canonicalReadableWorkflow num w =
     (if \<not> readable w then w
      else w\<lparr>wf_nodes := sort_by (\<lambda>l r. node_compare num w l r \<le> 0) (wf_nodes w),
             wf_edges := sort_by (\<lambda>l r. edge_compare num l r \<le> 0) (wf_edges w),
             wf_phases := sort_by (\<lambda>l r. phase_compare num l r \<le> 0) (wf_phases w),
             wf_groups := sort_by (\<lambda>l r. group_compare num w l r \<le> 0) (wf_groups w)\<rparr>)"

section \<open>The semantic contract\<close>

definition node_ids :: "workflow \<Rightarrow> jval list" where
  "node_ids w = unique_list (map (\<lambda>n. field n ''id'') (wf_nodes w))"

definition known_edges :: "workflow \<Rightarrow> relation list" where
  "known_edges w = filter (\<lambda>r. rel r ''from'' \<in> set (node_ids w) \<and> rel r ''to'' \<in> set (node_ids w)) (wf_edges w)"

definition incoming :: "workflow \<Rightarrow> jval \<Rightarrow> nat" where
  "incoming w n = length (filter (\<lambda>r. rel r ''to'' = n) (known_edges w))"

definition outgoing :: "workflow \<Rightarrow> jval \<Rightarrow> nat" where
  "outgoing w n = length (filter (\<lambda>r. rel r ''from'' = n) (known_edges w))"

definition adjacency :: "workflow \<Rightarrow> jval \<Rightarrow> jval list" where
  "adjacency w n = unique_list (map (\<lambda>r. rel r ''to'') (filter (\<lambda>r. rel r ''from'' = n) (known_edges w)))"

text \<open>Where the contract names a node.\<close>

datatype semantic_path =
    RootAt nat
  | TerminalAt nat
  | EdgeFromAt nat
  | EdgeToAt nat
  | PathFromAt nat
  | PathToAt nat

datatype semantic_problem =
    UnknownSemanticNode jval semantic_path
  | UnexpectedRoot jval
  | UnexpectedTerminal jval
  | RequiredEdge nat jval jval
  | RequiredPath nat jval jval

definition referenced_nodes :: "jval \<Rightarrow> (jval \<times> semantic_path) list" where
  "referenced_nodes checks =
     map (\<lambda>(i, v). (v, RootAt i)) (indexed (items (field checks ''allowedRoots'')))
     @ map (\<lambda>(i, v). (v, TerminalAt i)) (indexed (items (field checks ''allowedTerminals'')))
     @ concat (map (\<lambda>(i, v). [(field v ''from'', EdgeFromAt i), (field v ''to'', EdgeToAt i)])
         (indexed (items (field checks ''requiredEdges''))))
     @ concat (map (\<lambda>(i, v). [(field v ''from'', PathFromAt i), (field v ''to'', PathToAt i)])
         (indexed (items (field checks ''requiredPaths''))))"

text \<open>The breadth-first search; every step moves an unvisited node to the queue or shortens it.\<close>

function search :: "workflow \<Rightarrow> jval \<Rightarrow> jval list \<Rightarrow> jval list \<Rightarrow> bool" where
  "search w target visited [] = False"
| "search w target visited (current # pending) =
     (if current = target then True
      else let new = filter (\<lambda>n. n \<notin> set visited) (adjacency w current) in
        search w target (visited @ new) (pending @ new))"
  by pat_completeness auto

lemma adjacency_known: "set (adjacency w n) \<subseteq> set (node_ids w)" "distinct (adjacency w n)"
  by (auto simp: adjacency_def known_edges_def)

termination search
proof (relation "measure (\<lambda>(w, target, visited, pending). card (set (node_ids w) - set visited) + length pending)")
  fix w target visited current pending and new :: "jval list"
  assume new: "new = filter (\<lambda>n. n \<notin> set visited) (adjacency w current)"
  have sub: "set new \<subseteq> set (node_ids w) - set visited" and d: "distinct new"
    using adjacency_known [of w current] by (auto simp: new)
  have "card (set (node_ids w) - set (visited @ new)) = card ((set (node_ids w) - set visited) - set new)"
    by (simp add: Diff_Diff_Int set_diff_eq Un_commute) (metis (no_types, lifting))
  also have "\<dots> = card (set (node_ids w) - set visited) - length new"
    using sub d by (simp add: card_Diff_subset distinct_card)
  finally have "card (set (node_ids w) - set (visited @ new)) + length new = card (set (node_ids w) - set visited)"
    using card_mono [OF _ sub] d by (simp add: distinct_card)
  then show "((w, target, visited @ new, pending @ new), w, target, visited, current # pending)
      \<in> measure (\<lambda>(w, target, visited, pending). card (set (node_ids w) - set visited) + length pending)"
    by simp
qed simp

definition path_exists :: "workflow \<Rightarrow> jval \<Rightarrow> jval \<Rightarrow> bool" where
  "path_exists w from to = search w to [from] [from]"

definition authored_edge :: "workflow \<Rightarrow> jval \<Rightarrow> jval \<Rightarrow> bool" where
  "authored_edge w a b \<longleftrightarrow> list_ex (\<lambda>r. rel r ''from'' = a \<and> rel r ''to'' = b) (wf_edges w)"

definition semanticContractDiagnostics :: "workflow \<Rightarrow> semantic_problem list" where
  "semanticContractDiagnostics w =
     (let checks = wf_checks w; ids = node_ids w;
          unknown = List.map_filter (\<lambda>(v, p). if v \<in> set ids then None else Some (UnknownSemanticNode v p))
            (referenced_nodes checks);
          allowed = (\<lambda>k v. field checks k = JUndef \<or> v \<in> set (items (field checks k))) in
      if \<not> truthy checks then []
      else if unknown \<noteq> [] then unknown
      else map UnexpectedRoot (filter (\<lambda>n. incoming w n = 0 \<and> \<not> allowed ''allowedRoots'' n) ids)
        @ map UnexpectedTerminal (filter (\<lambda>n. outgoing w n = 0 \<and> \<not> allowed ''allowedTerminals'' n) ids)
        @ List.map_filter (\<lambda>(i, v). if authored_edge w (field v ''from'') (field v ''to'') then None
            else Some (RequiredEdge i (field v ''from'') (field v ''to''))) (indexed (items (field checks ''requiredEdges'')))
        @ List.map_filter (\<lambda>(i, v). if path_exists w (field v ''from'') (field v ''to'') then None
            else Some (RequiredPath i (field v ''from'') (field v ''to''))) (indexed (items (field checks ''requiredPaths''))))"

end
