(* ===== verification/WorkflowLayout.thy ===== *)
theory WorkflowLayout
  imports WorkflowContract JsText
begin

text \<open>
  The layout of a workflow, from \<open>renderers/workflow/workflow-compiler.mjs\<close>: the fixed columns of
  schema version 1, the constraint layout of version 2 with its columns, lanes and the reserves of
  groups, and the boxes of nodes in it.  The names of contributors, which only diagnostics show,
  are left out.  Columns of nodes, phases and groups are integers, as the schema has them.
\<close>

section \<open>Sizes\<close>

definition authoredNodeWidth :: "jval \<Rightarrow> real" where
  "authoredNodeWidth n = number_or 92 (field n ''width'')"

definition authoredNodeHeight :: "jval \<Rightarrow> real" where
  "authoredNodeHeight n = (case number_of (field n ''height'') of
     Some h \<Rightarrow> h | None \<Rightarrow> if truthy (field n ''tag'') then 68 else 52)"

definition workflowLabelWidth :: "number_text \<Rightarrow> jval \<Rightarrow> real" where
  "workflowLabelWidth num label = max 30 (label_units num label * (48 / 10) + 10)"

definition y_offset :: "jval \<Rightarrow> real" where
  "y_offset n = number_or 0 (field n ''yOffset'')"

definition verticalIntervalsOverlap :: "jval \<Rightarrow> jval \<Rightarrow> real \<Rightarrow> bool" where
  "verticalIntervalsOverlap a b clearance \<longleftrightarrow>
     \<bar>y_offset a - y_offset b\<bar> < authoredNodeHeight a / 2 + authoredNodeHeight b / 2 + clearance"

definition node_col :: "jval \<Rightarrow> real" where
  "node_col n = number_or 0 (field n ''col'')"

definition node_by_id :: "workflow \<Rightarrow> jval \<Rightarrow> jval option" where
  "node_by_id w = map_of (foldl (\<lambda>m n. map_put (field n ''id'') n m) [] (wf_nodes w))"

text \<open>The columns that a phase or a group spans.\<close>

definition column_span :: "jval \<Rightarrow> (nat \<times> nat) option" where
  "column_span v = (case (column_index (field v ''fromCol''), column_index (field v ''toCol'')) of
     (Some i, Some j) \<Rightarrow> if i \<le> j \<and> j < 6 then Some (i, j) else None | _ \<Rightarrow> None)"

text \<open>The nodes of a group, each with its column.\<close>

definition group_members :: "workflow \<Rightarrow> jval \<Rightarrow> (jval \<times> nat) list" where
  "group_members w g = List.map_filter (\<lambda>n. case column_index (field n ''col'') of
       None \<Rightarrow> None
     | Some k \<Rightarrow> if field n ''lane'' = field g ''lane'' \<and> number_or 0 (field g ''fromCol'') \<le> real k
           \<and> real k \<le> number_or 0 (field g ''toCol'') \<and> k < 6 then Some (n, k) else None) (wf_nodes w)"

text \<open>The left and the right edge of a group.\<close>

definition readableGroupBounds :: "number_text \<Rightarrow> workflow \<Rightarrow> jval \<Rightarrow> real list \<Rightarrow> real \<times> real" where
  "readableGroupBounds num w g xs =
     (case column_span g of
        None \<Rightarrow> (0, 0)
      | Some (i, j) \<Rightarrow>
          let start = xs ! i - 50; end = xs ! j + 50; natural = end - start;
              width = max natural (label_units num (field g ''label'') * (56 / 10) + 20);
              left = (if i = j \<and> natural < width then start else (start + end - width) / 2);
              half = (\<lambda>n. authoredNodeWidth n / 2 + 4) in
          (foldl min left (map (\<lambda>(n, k). xs ! k - half n) (group_members w g)),
           foldl max (left + width) (map (\<lambda>(n, k). xs ! k + half n) (group_members w g))))"

section \<open>Constraints between columns\<close>

record column_constraint =
  con_from :: nat
  con_to :: nat
  con_min :: real

record layout_feedback =
  lf_gaps :: "((nat \<times> nat) \<times> real) list"
  lf_lane_gap :: "real option"

definition baseline_constraints :: "column_constraint list" where
  "baseline_constraints = map (\<lambda>c. \<lparr>con_from = c, con_to = c + 1, con_min = 120\<rparr>) [0..<5]"

definition gap_constraints :: "layout_feedback \<Rightarrow> column_constraint list" where
  "gap_constraints fb = map (\<lambda>((i, j), m). \<lparr>con_from = i, con_to = j, con_min = m\<rparr>) (sort_key fst (lf_gaps fb))"

text \<open>A constraint between the columns of two nodes, the one on the left first.\<close>

definition columns_of :: "jval \<Rightarrow> jval \<Rightarrow> real \<Rightarrow> column_constraint list" where
  "columns_of a b gap = (case (column_index (field a ''col''), column_index (field b ''col'')) of
     (Some i, Some j) \<Rightarrow> [\<lparr>con_from = i, con_to = j, con_min = authoredNodeWidth a / 2 + gap + authoredNodeWidth b / 2\<rparr>]
   | _ \<Rightarrow> [])"

definition in_order :: "jval \<Rightarrow> jval \<Rightarrow> jval \<times> jval" where
  "in_order a b = (if node_col a < node_col b then (a, b) else (b, a))"

definition neighbour_constraints :: "workflow \<Rightarrow> column_constraint list" where
  "neighbour_constraints w = concat (map (\<lambda>(l, r).
     if field l ''lane'' \<noteq> field r ''lane'' \<or> node_col l = node_col r \<or> \<not> verticalIntervalsOverlap l r 8 then []
     else (case in_order l r of (a, b) \<Rightarrow> columns_of a b 8)) (pairs_of (wf_nodes w)))"

text \<open>The two nodes of an edge that may be drawn as a straight line within a lane.\<close>

definition direct_nodes :: "workflow \<Rightarrow> relation \<Rightarrow> (jval \<times> jval) option" where
  "direct_nodes w e =
     (case (node_by_id w (rel e ''from''), node_by_id w (rel e ''to'')) of
        (Some f, Some t) \<Rightarrow>
          if field f ''lane'' \<noteq> field t ''lane'' \<or> node_col f = node_col t then None
          else if truthy (rel e ''via'') \<or> rel e ''channelX'' \<noteq> JUndef \<or> rel e ''channelY'' \<noteq> JUndef
            \<or> \<not> (has_route e ''auto'' \<or> has_route e ''straight'') then None
          else if y_offset f \<noteq> y_offset t then None
          else Some (in_order f t)
      | _ \<Rightarrow> None)"

definition label_floats :: "relation \<Rightarrow> bool" where
  "label_floats e \<longleftrightarrow> truthy (rel e ''label'') \<and> \<not> truthy (rel e ''labelAt'')"

definition labeledDirectClearance :: "number_text \<Rightarrow> relation \<Rightarrow> real" where
  "labeledDirectClearance num e = (if label_floats e then max 28 (workflowLabelWidth num (rel e ''label'') + 8) else 28)"

text \<open>A long label goes to a channel of its own when that is cheaper than widening the columns.\<close>

definition preferLabelChannel :: "number_text \<Rightarrow> relation \<Rightarrow> bool" where
  "preferLabelChannel num e \<longleftrightarrow> label_floats e \<and> has_route e ''auto'' \<and> \<not> truthy (rel e ''fromSide'')
     \<and> \<not> truthy (rel e ''toSide'') \<and> rel e ''channelX'' = JUndef \<and> rel e ''channelY'' = JUndef
     \<and> 4 * 28 < max 0 (labeledDirectClearance num e - 28)"

definition direct_constraints :: "workflow \<Rightarrow> column_constraint list" where
  "direct_constraints w = concat (map (\<lambda>e. case direct_nodes w e of
     None \<Rightarrow> [] | Some (a, b) \<Rightarrow> columns_of a b 28) (wf_edges w))"

definition label_constraints :: "number_text \<Rightarrow> workflow \<Rightarrow> column_constraint list" where
  "label_constraints num w = concat (map (\<lambda>e. case direct_nodes w e of
     None \<Rightarrow> []
   | Some (a, b) \<Rightarrow> if \<not> preferLabelChannel num e \<and> 28 < labeledDirectClearance num e
       then columns_of a b (labeledDirectClearance num e) else []) (wf_edges w))"

definition channelLabelEdgeKeys :: "number_text \<Rightarrow> workflow \<Rightarrow> jstring option list" where
  "channelLabelEdgeKeys num w = List.map_filter (\<lambda>e. if direct_nodes w e \<noteq> None \<and> preferLabelChannel num e
     then Some (stableValueKey num (object e)) else None) (wf_edges w)"

definition span_constraints :: "real \<Rightarrow> real \<Rightarrow> jval \<Rightarrow> column_constraint list" where
  "span_constraints minimum base v = (case column_span v of
     None \<Rightarrow> []
   | Some (i, j) \<Rightarrow>
       if i = j then (if j < 5 then [\<lparr>con_from = j, con_to = j + 1, con_min = 120 + max 0 (minimum - base)\<rparr>] else [])
       else [\<lparr>con_from = i, con_to = j, con_min = max 0 (minimum - base)\<rparr>])"

definition label_span_constraints :: "number_text \<Rightarrow> workflow \<Rightarrow> column_constraint list" where
  "label_span_constraints num w =
     concat (map (\<lambda>p. span_constraints (label_units num (field p ''label'') * (56 / 10) + 8) 92 p) (wf_phases w))
     @ concat (map (\<lambda>g. span_constraints (label_units num (field g ''label'') * (56 / 10) + 20) 100 g) (wf_groups w))"

definition layout_constraints :: "number_text \<Rightarrow> workflow \<Rightarrow> layout_feedback \<Rightarrow> column_constraint list" where
  "layout_constraints num w fb =
     baseline_constraints @ gap_constraints fb @ neighbour_constraints w @ direct_constraints w @ label_span_constraints num w"

section \<open>Columns\<close>

definition valid_constraint :: "column_constraint \<Rightarrow> bool" where
  "valid_constraint c \<longleftrightarrow> con_from c < con_to c \<and> con_to c < 6"

definition constraint_compare :: "column_constraint \<Rightarrow> column_constraint \<Rightarrow> int" where
  "constraint_compare a b = first_nonzero
     [three_way (con_to a) (con_to b), three_way (con_from a) (con_from b), three_way (con_min a) (con_min b)]"

text \<open>One constraint pushes its right column; the columns are settled from left to right.\<close>

definition push_column :: "real list \<Rightarrow> column_constraint \<Rightarrow> real list" where
  "push_column xs c = (let candidate = xs ! con_from c + con_min c in
     if xs ! con_to c + 1 / 10000 < candidate then xs[con_to c := candidate] else xs)"

definition settle_column :: "column_constraint list \<Rightarrow> real list \<Rightarrow> nat \<Rightarrow> real list" where
  "settle_column cs xs k = foldl push_column xs (filter (\<lambda>c. con_to c = k) cs)"

definition solve_columns :: "column_constraint list \<Rightarrow> real list" where
  "solve_columns cs =
     foldl (settle_column (sort_by (\<lambda>a b. constraint_compare a b \<le> 0) (filter valid_constraint cs)))
       (map (\<lambda>k. 94 + real k * 120) [0..<6]) [1..<6]"

text \<open>The constraints of labels join in the second round, after which the loop ends.\<close>

definition solved_columns :: "number_text \<Rightarrow> workflow \<Rightarrow> layout_feedback \<Rightarrow> real list" where
  "solved_columns num w fb =
     (let cs = layout_constraints num w fb; ls = label_constraints num w in
      if ls = [] then solve_columns cs else solve_columns (cs @ ls))"

definition shift_columns :: "real \<Rightarrow> real list \<Rightarrow> real list" where
  "shift_columns d xs = map (\<lambda>x. x + d) xs"

definition first_extent :: "workflow \<Rightarrow> real" where
  "first_extent w = foldl max 46 (map (\<lambda>n. authoredNodeWidth n / 2) (filter (\<lambda>n. field n ''col'' = JNum 0) (wf_nodes w)))"

definition left_shift :: "workflow \<Rightarrow> real list \<Rightarrow> real" where
  "left_shift w xs = max 0 (40 + 8 + first_extent w - xs ! 0)"

text \<open>The header of a lane, \<open>EX\<close> or its number in two digits.\<close>

definition lane_prefix :: "nat \<Rightarrow> jstring" where
  "lane_prefix p = (let d = decimal (Suc p) in if length d < 2 then 48 # d else d)"

definition lane_header :: "number_text \<Rightarrow> jstring \<Rightarrow> jval \<Rightarrow> jstring" where
  "lane_header num prefix l = prefix @ lit '' / '' @ shown num (field l ''label'')"

definition header_prefix :: "nat \<Rightarrow> jval \<Rightarrow> jstring" where
  "header_prefix p l = (if field l ''variant'' = JStr (lit ''exception'') then lit ''EX'' else lane_prefix p)"

definition top_endpoints :: "workflow \<Rightarrow> jval list" where
  "top_endpoints w = unique_list (concat (map (\<lambda>e.
     if authored_via e \<or> rel e ''channelX'' \<noteq> JUndef then []
     else (if rel e ''fromSide'' = TOP then [rel e ''from''] else []) @ (if rel e ''toSide'' = TOP then [rel e ''to''] else []))
     (wf_edges w)))"

definition raise_past :: "real \<Rightarrow> real \<Rightarrow> real" where
  "raise_past r v = (if r + 1 / 10000 < v then v else r)"

definition required_shift :: "number_text \<Rightarrow> workflow \<Rightarrow> real list \<Rightarrow> jval \<Rightarrow> real option" where
  "required_shift num w xs i =
     Option.bind (node_by_id w i) (\<lambda>n.
       case (column_index (field n ''col''), map_of (lane_order w) (field n ''lane'')) of
         (Some k, Some p) \<Rightarrow> if k < 6 \<and> p < length (wf_lanes w)
           then Some (40 + 14 + real (textUnits (lane_header num (header_prefix p (wf_lanes w ! p)) (wf_lanes w ! p))) * (62 / 10) + 2
             - xs ! k) else None
       | _ \<Rightarrow> None)"

definition header_shift :: "number_text \<Rightarrow> workflow \<Rightarrow> real list \<Rightarrow> real" where
  "header_shift num w xs = foldl raise_past 0 (List.map_filter (required_shift num w xs) (top_endpoints w))"

text \<open>Columns of known nodes, phases and groups index the list.\<close>

definition column_at :: "real list \<Rightarrow> jval \<Rightarrow> real" where
  "column_at xs v = (case column_index v of Some k \<Rightarrow> if k < length xs then xs ! k else 0 | None \<Rightarrow> 0)"

definition label_left :: "number_text \<Rightarrow> workflow \<Rightarrow> real list \<Rightarrow> relation \<Rightarrow> real option" where
  "label_left num w xs e =
     (if stableValueKey num (object e) \<notin> set (channelLabelEdgeKeys num w) then None
      else case (node_by_id w (rel e ''from''), node_by_id w (rel e ''to'')) of
        (Some f, Some t) \<Rightarrow> Some ((column_at xs (field f ''col'') + column_at xs (field t ''col'')) / 2
          - workflowLabelWidth num (rel e ''label'') / 2)
      | _ \<Rightarrow> None)"

definition phase_left :: "number_text \<Rightarrow> real list \<Rightarrow> jval \<Rightarrow> real option" where
  "phase_left num xs p =
     (case (column_index (field p ''fromCol''), column_index (field p ''toCol'')) of
        (Some i, Some j) \<Rightarrow>
          let a = column_at xs (field p ''fromCol''); b = column_at xs (field p ''toCol'');
              width = max (b - a + 92) (label_units num (field p ''label'') * (56 / 10) + 8) in
          Some (if i = j then a - 46 else (a + b - width) / 2)
      | _ \<Rightarrow> None)"

definition group_left :: "number_text \<Rightarrow> workflow \<Rightarrow> real list \<Rightarrow> jval \<Rightarrow> real option" where
  "group_left num w xs g =
     (case (column_index (field g ''fromCol''), column_index (field g ''toCol'')) of
        (Some i, Some j) \<Rightarrow> Some (fst (readableGroupBounds num w g xs)) | _ \<Rightarrow> None)"

definition content_shift :: "number_text \<Rightarrow> workflow \<Rightarrow> real list \<Rightarrow> real" where
  "content_shift num w xs =
     foldl max 0 (map (\<lambda>l. 16 - l) (List.map_filter (label_left num w xs) (wf_edges w))
       @ map (\<lambda>l. 16 - l) (List.map_filter (phase_left num xs) (wf_phases w))
       @ map (\<lambda>l. 44 - l) (List.map_filter (group_left num w xs) (wf_groups w)))"

definition readable_columns :: "number_text \<Rightarrow> workflow \<Rightarrow> layout_feedback \<Rightarrow> real list" where
  "readable_columns num w fb =
     (let a = solved_columns num w fb; b = shift_columns (left_shift w a) a; c = shift_columns (header_shift num w b) b in
      shift_columns (content_shift num w c) c)"

section \<open>Lanes\<close>

definition rightmost :: "number_text \<Rightarrow> workflow \<Rightarrow> real list \<Rightarrow> real" where
  "rightmost num w xs =
     foldl raise_past (last xs + 50)
       (List.map_filter (\<lambda>n. case column_index (field n ''col'') of
            Some k \<Rightarrow> if k < 6 then Some (xs ! k + authoredNodeWidth n / 2) else None | None \<Rightarrow> None) (wf_nodes w)
        @ List.map_filter (\<lambda>g. case (column_index (field g ''fromCol''), column_index (field g ''toCol'')) of
            (Some i, Some j) \<Rightarrow> Some (snd (readableGroupBounds num w g xs)) | _ \<Rightarrow> None) (wf_groups w))"

definition lane_label_width :: "number_text \<Rightarrow> workflow \<Rightarrow> real" where
  "lane_label_width num w = foldl max 0 (map (\<lambda>(p, l).
     real (textUnits (lane_header num (lane_prefix p) l)) * (62 / 10) + 30) (indexed (wf_lanes w)))"

definition lane_width :: "number_text \<Rightarrow> workflow \<Rightarrow> real list \<Rightarrow> real" where
  "lane_width num w xs =
     max (max 640 (of_int \<lceil>rightmost num w xs - 40 + 8\<rceil>)) (of_int \<lceil>lane_label_width num w\<rceil>)"

definition vertical_extent :: "workflow \<Rightarrow> real" where
  "vertical_extent w = foldl raise_past 0 (map (\<lambda>n. authoredNodeHeight n / 2 + \<bar>y_offset n\<bar>) (wf_nodes w))"

definition base_content :: "workflow \<Rightarrow> real" where
  "base_content w = max 74 (of_int \<lceil>vertical_extent w * 2 + 8\<rceil>)"

text \<open>What a group needs above and below a member: a frame with a title.\<close>

definition top_offset :: "workflow \<Rightarrow> jval \<Rightarrow> real" where
  "top_offset w n = (base_content w - authoredNodeHeight n) / 2 + y_offset n"

definition under_label :: "number_text \<Rightarrow> workflow \<Rightarrow> real list \<Rightarrow> jval \<Rightarrow> jval \<times> nat \<Rightarrow> bool" where
  "under_label num w xs g m \<longleftrightarrow>
     (case m of (n, k) \<Rightarrow>
       let left = fst (readableGroupBounds num w g xs) + 10; right = left + label_units num (field g ''label'') * (56 / 10);
           half = authoredNodeWidth n / 2 in
       left < xs ! k + half \<and> xs ! k - half < right)"

definition header_need :: "number_text \<Rightarrow> workflow \<Rightarrow> real list \<Rightarrow> jval \<Rightarrow> jval \<times> nat \<Rightarrow> real" where
  "header_need num w xs g m =
     of_int \<lceil>(if under_label num w xs g m then 11 else 9) - top_offset w (fst m)\<rceil>"

definition footer_need :: "workflow \<Rightarrow> jval \<times> nat \<Rightarrow> real" where
  "footer_need w m = of_int \<lceil>1 - (base_content w - 4 - top_offset w (fst m) - authoredNodeHeight (fst m))\<rceil>"

definition lane_members :: "workflow \<Rightarrow> jval \<Rightarrow> (jval \<times> jval \<times> nat) list" where
  "lane_members w l = concat (map (\<lambda>g. map (\<lambda>m. (g, m)) (group_members w g))
     (filter (\<lambda>g. field g ''lane'' = field l ''id'') (wf_groups w)))"

definition lane_reserve :: "number_text \<Rightarrow> workflow \<Rightarrow> real list \<Rightarrow> jval \<Rightarrow> real \<times> real" where
  "lane_reserve num w xs l =
     (foldl max 0 (map (\<lambda>(g, m). header_need num w xs g m) (lane_members w l)),
      foldl max 0 (map (\<lambda>(g, m). footer_need w m) (lane_members w l)))"

record workflow_layout =
  wl_readable :: bool
  wl_lane_w :: real
  wl_lane_h :: real
  wl_lane_heights :: "real list"
  wl_lane_gap :: real
  wl_headers :: "real list"
  wl_footers :: "real list"
  wl_columns :: "real list"
  wl_default_width :: real
  wl_channel_labels :: "jstring option list"

definition createLegacyLayout :: workflow_layout where
  "createLegacyLayout = \<lparr>wl_readable = False, wl_lane_w = 640, wl_lane_h = 104, wl_lane_heights = [], wl_lane_gap = 20,
     wl_headers = [], wl_footers = [], wl_columns = [88, 220, 300, 430, 500, 625], wl_default_width = 720,
     wl_channel_labels = []\<rparr>"

definition createReadableLayout :: "number_text \<Rightarrow> workflow \<Rightarrow> layout_feedback \<Rightarrow> workflow_layout" where
  "createReadableLayout num w fb =
     (let xs = readable_columns num w fb; lane_h = 30 + base_content w; rs = map (lane_reserve num w xs) (wf_lanes w) in
      \<lparr>wl_readable = True, wl_lane_w = lane_width num w xs, wl_lane_h = lane_h,
       wl_lane_heights = map (\<lambda>(h, f). lane_h + h + f) rs,
       wl_lane_gap = max 20 (of_int \<lceil>case lf_lane_gap fb of Some g \<Rightarrow> g | None \<Rightarrow> 0\<rceil>),
       wl_headers = map fst rs, wl_footers = map snd rs, wl_columns = xs,
       wl_default_width = 40 + lane_width num w xs + 16, wl_channel_labels = channelLabelEdgeKeys num w\<rparr>)"

definition workflow_layout_of :: "number_text \<Rightarrow> workflow \<Rightarrow> layout_feedback \<Rightarrow> workflow_layout" where
  "workflow_layout_of num w fb = (if readable w then createReadableLayout num w fb else createLegacyLayout)"

section \<open>Positions\<close>

definition nth_or :: "'a \<Rightarrow> 'a list \<Rightarrow> nat \<Rightarrow> 'a" where
  "nth_or d xs k = (if k < length xs then xs ! k else d)"

definition laneHeight :: "workflow_layout \<Rightarrow> nat \<Rightarrow> real" where
  "laneHeight l k = nth_or (wl_lane_h l) (wl_lane_heights l) k"

definition laneGroupHeaderH :: "workflow_layout \<Rightarrow> nat \<Rightarrow> real" where
  "laneGroupHeaderH l k = nth_or 0 (wl_headers l) k"

definition laneGroupFooterH :: "workflow_layout \<Rightarrow> nat \<Rightarrow> real" where
  "laneGroupFooterH l k = nth_or 0 (wl_footers l) k"

definition laneTop :: "workflow_layout \<Rightarrow> nat \<Rightarrow> real" where
  "laneTop l k = 52 + sum_list (map (laneHeight l) [0..<k]) + real k * wl_lane_gap l"

definition lastLaneBottom :: "workflow_layout \<Rightarrow> nat \<Rightarrow> real" where
  "lastLaneBottom l n = 52 + sum_list (map (laneHeight l) [0..<n]) + (real n - 1) * wl_lane_gap l"

text \<open>A node of an unknown lane or column has no numeric box.\<close>

definition workflow_measureNode :: "workflow \<Rightarrow> workflow_layout \<Rightarrow> jval \<Rightarrow> jval \<times> raw_rect" where
  "workflow_measureNode w l n =
     (let width = nonzero_or 92 (field n ''width'');
          height = nonzero_or (if truthy (field n ''tag'') then 68 else 52) (field n ''height'') in
      (n, \<lparr>raw_x = (case column_index (field n ''col'') of
               Some k \<Rightarrow> if k < length (wl_columns l) then Some (wl_columns l ! k - width / 2) else None | None \<Rightarrow> None),
           raw_y = map_option (\<lambda>p.
               let header = laneGroupHeaderH l p; content = laneHeight l p - 30 - header - laneGroupFooterH l p in
               laneTop l p + 30 + header + (content - height) / 2 + nonzero_or 0 (field n ''yOffset''))
             (map_of (lane_order w) (field n ''lane'')),
           raw_width = Some width, raw_height = Some height\<rparr>))"

section \<open>Frames and the labels of the scene\<close>

text \<open>A span of columns: its left edge and its width.\<close>

definition spanForCols :: "workflow_layout \<Rightarrow> jval \<Rightarrow> jval \<Rightarrow> real \<Rightarrow> real \<Rightarrow> real \<times> real" where
  "spanForCols l fromCol toCol pad minimum =
     (let start = column_at (wl_columns l) fromCol - pad; end = column_at (wl_columns l) toCol + pad;
          width = max (end - start) minimum in
      if fromCol = toCol \<and> end - start < width then (start, width) else ((start + end) / 2 - width / 2, width))"

definition phaseSpan :: "number_text \<Rightarrow> workflow \<Rightarrow> workflow_layout \<Rightarrow> jval \<Rightarrow> real \<times> real" where
  "phaseSpan num w l p = spanForCols l (field p ''fromCol'') (field p ''toCol'') 46
     (if readable w then label_units num (field p ''label'') * (56 / 10) + 8 else 0)"

definition groupSpan :: "number_text \<Rightarrow> workflow \<Rightarrow> workflow_layout \<Rightarrow> jval \<Rightarrow> real \<times> real" where
  "groupSpan num w l g =
     (if readable w
      then (case readableGroupBounds num w g (wl_columns l) of (left, right) \<Rightarrow> (left, right - left))
      else spanForCols l (field g ''fromCol'') (field g ''toCol'') 50 0)"

text \<open>The index of a lane by its id; groups name lanes that exist.\<close>

definition lane_of :: "workflow \<Rightarrow> jval \<Rightarrow> nat" where
  "lane_of w v = (case map_of (lane_order w) v of Some p \<Rightarrow> p | None \<Rightarrow> 0)"

definition group_frame :: "number_text \<Rightarrow> workflow \<Rightarrow> workflow_layout \<Rightarrow> jval \<Rightarrow> rect" where
  "group_frame num w l g = (case groupSpan num w l g of (x, width) \<Rightarrow>
     \<lparr>rx = x, ry = laneTop l (lane_of w (field g ''lane'')) + 30 + 8, rwidth = width,
      rheight = (if readable w then laneHeight l (lane_of w (field g ''lane'')) - 30 - 8 - 4 else wl_lane_h l - 30 - 16)\<rparr>)"

definition lane_frames :: "workflow \<Rightarrow> workflow_layout \<Rightarrow> nat \<times> jval \<Rightarrow> (string \<times> rect \<times> real) list" where
  "lane_frames w l = (\<lambda>(k, lane).
     let y = laneTop l (lane_of w (field lane ''id'')); height = laneHeight l k in
     (''lane'', \<lparr>rx = 40, ry = y, rwidth = wl_lane_w l, rheight = height\<rparr>, 10)
     # (if field lane ''variant'' = JStr (lit ''exception'')
        then [(''exception-lane'', \<lparr>rx = 46, ry = y + 6, rwidth = wl_lane_w l - 12, rheight = height - 12\<rparr>, 8)] else []))"

definition workflowCompositionFrames :: "number_text \<Rightarrow> workflow \<Rightarrow> workflow_layout \<Rightarrow> (string \<times> rect \<times> real) list" where
  "workflowCompositionFrames num w l =
     concat (map (lane_frames w l) (indexed (wf_lanes w)))
     @ map (\<lambda>g. (''group'', group_frame num w l g, 9)) (wf_groups w)"

definition lane_label_rect :: "number_text \<Rightarrow> workflow \<Rightarrow> workflow_layout \<Rightarrow> nat \<times> jval \<Rightarrow> rect" where
  "lane_label_rect num w l = (\<lambda>(k, lane).
     \<lparr>rx = 54, ry = laneTop l (lane_of w (field lane ''id'')) + 12,
      rwidth = real (textUnits (lane_header num (header_prefix k lane) lane)) * (62 / 10), rheight = 14\<rparr>)"

definition phase_label_rect :: "number_text \<Rightarrow> workflow \<Rightarrow> workflow_layout \<Rightarrow> jval \<Rightarrow> rect" where
  "phase_label_rect num w l p = (case phaseSpan num w l p of (x, width) \<Rightarrow> \<lparr>rx = x, ry = 27, rwidth = width, rheight = 16\<rparr>)"

definition group_label_rect :: "number_text \<Rightarrow> workflow \<Rightarrow> workflow_layout \<Rightarrow> jval \<Rightarrow> rect" where
  "group_label_rect num w l g = (let f = group_frame num w l g in
     \<lparr>rx = rx f + 10, ry = ry f - 2 - 10, rwidth = label_units num (field g ''label'') * (56 / 10), rheight = 14\<rparr>)"

definition id_or_null :: "jval \<Rightarrow> jval" where
  "id_or_null v = (if field v ''id'' = JUndef then JNull else field v ''id'')"

definition workflowSceneLabelObstacles :: "number_text \<Rightarrow> workflow \<Rightarrow> workflow_layout \<Rightarrow> (string \<times> jval \<times> rect) list" where
  "workflowSceneLabelObstacles num w l =
     map (\<lambda>(k, lane). (''lane-header'', field lane ''id'', lane_label_rect num w l (k, lane))) (indexed (wf_lanes w))
     @ map (\<lambda>p. (''phase-header'', id_or_null p, phase_label_rect num w l p))
         (filter (\<lambda>p. column_span p \<noteq> None) (wf_phases w))
     @ map (\<lambda>g. (''group-label'', id_or_null g, group_label_rect num w l g))
         (filter (\<lambda>g. map_of (lane_order w) (field g ''lane'') \<noteq> None \<and> column_span g \<noteq> None) (wf_groups w))"

end
