(* ===== verification/WorkflowScene.thy ===== *)
theory WorkflowScene
  imports WorkflowLayout
begin

text \<open>
  What the router of \<open>renderers/workflow/workflow-compiler.mjs\<close> works in: the canvas with its legend, the
  boxes of the nodes, the position of the label on a route and the gap between two lanes.  The
  words of the legend are an argument.
\<close>

section \<open>Legend and canvas\<close>

definition workflow_legend_catalog :: "(jstring \<Rightarrow> jstring) \<Rightarrow> legend_entry list" where
  "workflow_legend_catalog words = map (catalog_entry words)
     (map lit [''frontend'', ''backend'', ''security'', ''messagebus'', ''database'', ''cloud'', ''external''])"

definition workflowLegendEntries :: "(jstring \<Rightarrow> jstring) \<Rightarrow> workflow \<Rightarrow> resolved_entry list" where
  "workflowLegendEntries words w = resolveLegend (legend_config_of (field (wf_meta w) ''legend''))
     (workflow_legend_catalog words) (kinds_present (map (\<lambda>n. field n ''type'') (wf_nodes w)))"

definition minimumCanvasWidth :: "(jstring \<Rightarrow> jstring) \<Rightarrow> workflow \<Rightarrow> workflow_layout \<Rightarrow> real" where
  "minimumCanvasWidth words w l =
     (if readable w
      then max (wl_default_width l)
        (fp_min_width (legendFootprint (workflowLegendEntries words w) 9007199254740991 7 7 22 8) + 40)
      else wl_default_width l)"

definition legendPackingWidth :: "(jstring \<Rightarrow> jstring) \<Rightarrow> workflow \<Rightarrow> workflow_layout \<Rightarrow> real" where
  "legendPackingWidth words w l = max 1
     ((if readable w then minimumCanvasWidth words w l
       else case view_box (wf_meta w) of Some p \<Rightarrow> fst p | None \<Rightarrow> minimumCanvasWidth words w l) - 40)"

definition legendExtraHeight :: "(jstring \<Rightarrow> jstring) \<Rightarrow> workflow \<Rightarrow> workflow_layout \<Rightarrow> real" where
  "legendExtraHeight words w l =
     (if readable w then fp_extra_height (legendFootprint (workflowLegendEntries words w) (legendPackingWidth words w l) 7 7 22 8)
      else 0)"

definition lane_count :: "workflow \<Rightarrow> nat" where
  "lane_count w = (if wf_lanes w = [] then 1 else length (wf_lanes w))"

definition autoHeight :: "(jstring \<Rightarrow> jstring) \<Rightarrow> workflow \<Rightarrow> workflow_layout \<Rightarrow> real" where
  "autoHeight words w l =
     52 + (if readable w then sum_list (wl_lane_heights l) else real (lane_count w) * wl_lane_h l)
     + (real (lane_count w) - 1) * wl_lane_gap l + 124 + legendExtraHeight words w l"

definition workflow_view_box :: "(jstring \<Rightarrow> jstring) \<Rightarrow> workflow \<Rightarrow> workflow_layout \<Rightarrow> real \<times> real" where
  "workflow_view_box words w l =
     some_or (view_box (wf_meta w)) (minimumCanvasWidth words w l, autoHeight words w l)"

definition legendY :: "(jstring \<Rightarrow> jstring) \<Rightarrow> workflow \<Rightarrow> workflow_layout \<Rightarrow> real" where
  "legendY words w l = lastLaneBottom l (length (wf_lanes w)) + 44 + legendExtraHeight words w l"

definition workflowLegendLayout ::
  "(jstring \<Rightarrow> jstring) \<Rightarrow> workflow \<Rightarrow> workflow_layout \<Rightarrow> legend_obstacle list \<Rightarrow> legend_options" where
  "workflowLegendLayout words w l obstacles =
     \<lparr>lo_x = 20, lo_baseline = legendY words w l,
      lo_width = (if readable w then legendPackingWidth words w l else fst (workflow_view_box words w l) - 40),
      lo_font = 7, lo_item_gap = 7, lo_line_gap = 22, lo_swatch_gap = 8,
      lo_min_title_y = lastLaneBottom l (length (wf_lanes w)) + 8, lo_obstacles = obstacles,
      lo_hide = (field (wf_meta w) ''legend'' = JUndef)\<rparr>"

text \<open>The rectangles of the legend; a legend that has to be shown and has no room refuses the workflow.\<close>

definition workflowLegendRects :: "(jstring \<Rightarrow> jstring) \<Rightarrow> workflow \<Rightarrow> workflow_layout \<Rightarrow> legend_problem + rect list" where
  "workflowLegendRects words w l =
     (if workflowLegendEntries words w = [] then Inr []
      else case measureLegend (workflowLegendEntries words w) (workflowLegendLayout words w l []) of
        Inl p \<Rightarrow> Inl p
      | Inr None \<Rightarrow> Inr []
      | Inr (Some m) \<Rightarrow> Inr
          (\<lparr>rx = 20, ry = some_or (ll_title_y m) 0 - 10, rwidth = 48, rheight = 14\<rparr>
           # map entry_rect (ll_entries m)))"

section \<open>Boxes\<close>

definition workflow_nodes :: "workflow \<Rightarrow> workflow_layout \<Rightarrow> node_map" where
  "workflow_nodes w l = List.map_filter placed_component
     (foldl (\<lambda>m n. map_put (field n ''id'') (workflow_measureNode w l n) m) [] (wf_nodes w))"

definition gapYBetween :: "workflow \<Rightarrow> workflow_layout \<Rightarrow> jval \<Rightarrow> jval \<Rightarrow> real \<Rightarrow> real" where
  "gapYBetween w l fromLane toLane bias =
     (let a = laneTop l (lane_of w fromLane) + laneHeight l (lane_of w fromLane); b = laneTop l (lane_of w toLane) in
      a + (b - a) * bias)"

section \<open>Labels on routes\<close>

text \<open>The segment of a label: horizontal before vertical ones, then the longest, then the first.\<close>

definition is_flat :: "point \<times> point \<Rightarrow> bool" where
  "is_flat s \<longleftrightarrow> \<bar>snd (snd s) - snd (fst s)\<bar> \<le> 1 / 10000"

definition segment_length :: "point \<times> point \<Rightarrow> real" where
  "segment_length s = hypot (fst (snd s) - fst (fst s)) (snd (snd s) - snd (fst s))"

definition segment_compare :: "nat \<times> point \<times> point \<Rightarrow> nat \<times> point \<times> point \<Rightarrow> int" where
  "segment_compare l r = first_nonzero
     [three_way (is_flat (snd r)) (is_flat (snd l)), three_way (segment_length (snd r)) (segment_length (snd l)),
      three_way (fst l) (fst r)]"

definition label_segment :: "point list \<Rightarrow> nat" where
  "label_segment ps = (case sort_by (\<lambda>l r. segment_compare l r \<le> 0) (indexed (segments ps)) of
     [] \<Rightarrow> 0 | s # _ \<Rightarrow> fst s)"

definition label_on_segment :: "relation \<Rightarrow> point list \<Rightarrow> nat \<Rightarrow> point option" where
  "label_on_segment e ps i = map_option
     (\<lambda>p. if fst (ps ! i) = fst (ps ! Suc i) then (fst p, snd p + 10) else p)
     (labelPoint ((knobs e)\<lparr>labelSegment := Some (int i)\<rparr>) ps)"

definition workflowEdgeLabelPoint :: "workflow \<Rightarrow> relation \<Rightarrow> point list \<Rightarrow> point option" where
  "workflowEdgeLabelPoint w e ps =
     (let fixed = truthy (rel e ''labelAt'') \<or> is_integer (rel e ''labelSegment'') in
      if readable w then
        (if fixed \<or> length ps \<le> 2 then labelPoint (knobs e) ps else label_on_segment e ps (label_segment ps))
      else
        (if fixed \<or> length ps \<noteq> 3 then labelPoint (knobs e) ps
         else label_on_segment e ps
           (if segment_length (ps ! 1, ps ! 2) \<le> segment_length (ps ! 0, ps ! 1) then 0 else 1)))"

definition candidateLabelRect :: "number_text \<Rightarrow> workflow \<Rightarrow> relation \<Rightarrow> point list \<Rightarrow> rect option" where
  "candidateLabelRect num w e ps =
     (if \<not> truthy (rel e ''label'') then None
      else map_option (\<lambda>p. let width = workflowLabelWidth num (rel e ''label'') in
          \<lparr>rx = fst p - width / 2, ry = snd p - 10, rwidth = width, rheight = 14\<rparr>)
        (workflowEdgeLabelPoint w e ps))"

end
