(* ===== verification/WorkflowRouter.thy ===== *)
theory WorkflowRouter
  imports WorkflowScene
begin

text \<open>
  The router of readable workflows, from \<open>renderers/workflow/workflow-compiler.mjs\<close>: which routes are
  feasible in a scene with the routes placed before, what they cost, the nine candidates of a pair of
  sides and the search for an outside channel, the feedback to the layout, and the routing of all
  edges in order.  Points are pairs of numbers.  What a failure says is not modelled, only its kind.
\<close>

section \<open>Scenes\<close>

record scene =
  sc_num :: number_text
  sc_workflow :: workflow
  sc_layout :: workflow_layout
  sc_nodes :: node_map
  sc_legend :: "rect list"
  sc_canvas_width :: real
  sc_canvas_height :: real

definition workflow_scene ::
  "number_text \<Rightarrow> (jstring \<Rightarrow> jstring) \<Rightarrow> workflow \<Rightarrow> layout_feedback \<Rightarrow> legend_problem + scene" where
  "workflow_scene num words w fb =
     (let l = workflow_layout_of num w fb in
      map_sum id (\<lambda>rs. \<lparr>sc_num = num, sc_workflow = w, sc_layout = l, sc_nodes = workflow_nodes w l, sc_legend = rs,
          sc_canvas_width = minimumCanvasWidth words w l, sc_canvas_height = autoHeight words w l\<rparr>)
        (if readable w then workflowLegendRects words w l else Inr []))"

text \<open>The routes placed so far, the oldest first.\<close>

type_synonym placed_routes = "(relation \<times> point list) list"

definition scene_label :: "scene \<Rightarrow> relation \<Rightarrow> point list \<Rightarrow> rect option" where
  "scene_label sc e ps = candidateLabelRect (sc_num sc) (sc_workflow sc) e ps"

section \<open>Shapes of routes\<close>

definition outward_stub :: "point \<Rightarrow> jval \<Rightarrow> point" where
  "outward_stub p sd = (case map_of PORT_OUTWARD_VECTOR (side_name sd) of Some v \<Rightarrow> stub p v 16 | None \<Rightarrow> p)"

definition orthogonalRoute :: "point list \<Rightarrow> bool" where
  "orthogonalRoute ps \<longleftrightarrow> list_all (\<lambda>(a, b). near (fst b) (fst a) \<noteq> near (snd b) (snd a)) (segments ps)"

definition honors_sides :: "point list \<Rightarrow> jval \<Rightarrow> jval \<Rightarrow> bool" where
  "honors_sides ps fs ts \<longleftrightarrow> routeHonorsEndpointSides (raw_path ps) (side_name fs) (side_name ts)"

definition routeMeetsHardRhythm :: "point list \<Rightarrow> bool" where
  "routeMeetsHardRhythm ps \<longleftrightarrow>
     (if length ps = 2 then 28 \<le> segment_length (ps ! 0, ps ! 1) + 1 / 10000
      else list_all (\<lambda>(i, a, b). (if i = 0 \<or> i = length ps - 2 then 8 else 16) \<le> manhattan a b + 1 / 10000)
        (indexed (segments ps)))"

definition routeClearsEndpointNodes :: "point list \<Rightarrow> node_box \<Rightarrow> node_box \<Rightarrow> bool" where
  "routeClearsEndpointNodes ps f t \<longleftrightarrow>
     list_all (\<lambda>(i, a, b). \<not> (0 < i \<and> segmentIntersectsRect a b (rect_of f) 0)
       \<and> \<not> (i < length ps - 2 \<and> segmentIntersectsRect a b (rect_of t) 0)) (indexed (segments ps))"

definition routeClearsUnrelatedNodes :: "node_map \<Rightarrow> relation \<Rightarrow> point list \<Rightarrow> bool" where
  "routeClearsUnrelatedNodes ns e ps \<longleftrightarrow>
     list_all (\<lambda>(i, n). bid (pn_box n) = rel e ''from'' \<or> bid (pn_box n) = rel e ''to''
       \<or> list_all (\<lambda>(a, b). \<not> segmentIntersectsRect a b (rect_of (pn_box n)) 2) (segments ps)) ns"

definition routeLabelClearsNodes :: "scene \<Rightarrow> relation \<Rightarrow> point list \<Rightarrow> bool" where
  "routeLabelClearsNodes sc e ps \<longleftrightarrow>
     truthy (rel e ''labelAt'')
     \<or> (case scene_label sc e ps of None \<Rightarrow> True
        | Some r \<Rightarrow> list_all (\<lambda>(i, n). \<not> finite_rects_overlap r (rect_of (pn_box n)) (- 2)) (sc_nodes sc))"

text \<open>A route keeps 4 pixels from a label.\<close>

definition clear_of_label :: "point list \<Rightarrow> rect \<Rightarrow> bool" where
  "clear_of_label ps r \<longleftrightarrow> list_all (\<lambda>(a, b). 4 \<le> clearance_of a b r + 1 / 10000) (segments ps)"

definition clears_placed :: "scene \<Rightarrow> relation \<Rightarrow> point list \<Rightarrow> relation \<times> point list \<Rightarrow> bool" where
  "clears_placed sc e ps = (\<lambda>(q, qs).
     (case (scene_label sc e ps, scene_label sc q qs) of
        (Some r, Some s) \<Rightarrow> \<not> finite_rects_overlap r s (- 2) | _ \<Rightarrow> True)
     \<and> (case scene_label sc e ps of Some r \<Rightarrow> clear_of_label qs r | None \<Rightarrow> True)
     \<and> (case scene_label sc q qs of Some s \<Rightarrow> clear_of_label ps s | None \<Rightarrow> True))"

definition routeClearsPlacedLabels :: "scene \<Rightarrow> placed_routes \<Rightarrow> relation \<Rightarrow> point list \<Rightarrow> bool" where
  "routeClearsPlacedLabels sc placed e ps \<longleftrightarrow> list_all (clears_placed sc e ps) placed"

text \<open>Rectangles that neither the route nor its label may touch.\<close>

definition avoids :: "scene \<Rightarrow> relation \<Rightarrow> point list \<Rightarrow> rect \<Rightarrow> bool" where
  "avoids sc e ps r \<longleftrightarrow> list_all (\<lambda>(a, b). \<not> segmentIntersectsRect a b r 0) (segments ps)
     \<and> (case scene_label sc e ps of None \<Rightarrow> True | Some s \<Rightarrow> \<not> finite_rects_overlap s r 0)"

definition routeClearsLegend :: "scene \<Rightarrow> relation \<Rightarrow> point list \<Rightarrow> bool" where
  "routeClearsLegend sc e ps \<longleftrightarrow> list_all (avoids sc e ps) (sc_legend sc)"

definition routeClearsSceneLabelObstacles :: "scene \<Rightarrow> relation \<Rightarrow> point list \<Rightarrow> bool" where
  "routeClearsSceneLabelObstacles sc e ps \<longleftrightarrow>
     list_all (\<lambda>(k, i, r). avoids sc e ps r) (workflowSceneLabelObstacles (sc_num sc) (sc_workflow sc) (sc_layout sc))"

definition scene_frames :: "scene \<Rightarrow> frame list" where
  "scene_frames sc = map (\<lambda>(k, r, radius). BoxFrame (raw_of r) (Some radius))
     (workflowCompositionFrames (sc_num sc) (sc_workflow sc) (sc_layout sc))"

definition routeClearsFrameBorders :: "scene \<Rightarrow> point list \<Rightarrow> bool" where
  "routeClearsFrameBorders sc ps \<longleftrightarrow>
     collectBorderRuns (Some [(\<lparr>rt_relation = None, rt_index = None, rt_points = raw_path ps\<rparr>, None)])
       (Some (scene_frames sc)) = []"

definition routeExtentCoordinates :: "scene \<Rightarrow> relation \<Rightarrow> point list \<Rightarrow> point list" where
  "routeExtentCoordinates sc e ps =
     ps @ (if truthy (rel e ''labelAt'') then [] else case scene_label sc e ps of
         None \<Rightarrow> [] | Some r \<Rightarrow> [(rx r, ry r), (rx r + rwidth r, ry r + rheight r)])"

definition routeFitsCanvasOrigin :: "scene \<Rightarrow> relation \<Rightarrow> point list \<Rightarrow> bool" where
  "routeFitsCanvasOrigin sc e ps \<longleftrightarrow> list_all (\<lambda>(x, y). 0 \<le> x \<and> 0 \<le> y) (routeExtentCoordinates sc e ps)"

definition readableCandidateIsFeasible ::
  "scene \<Rightarrow> placed_routes \<Rightarrow> relation \<Rightarrow> point list \<Rightarrow> node_box \<Rightarrow> node_box \<Rightarrow> jval \<Rightarrow> jval \<Rightarrow> bool" where
  "readableCandidateIsFeasible sc placed e ps f t fs ts \<longleftrightarrow>
     2 \<le> length ps \<and> orthogonalRoute ps \<and> honors_sides ps fs ts \<and> routeMeetsHardRhythm ps
     \<and> routeClearsEndpointNodes ps f t \<and> routeClearsUnrelatedNodes (sc_nodes sc) e ps
     \<and> routeLabelClearsNodes sc e ps \<and> routeClearsPlacedLabels sc placed e ps \<and> routeClearsLegend sc e ps
     \<and> routeClearsSceneLabelObstacles sc e ps \<and> routeClearsFrameBorders sc ps \<and> routeFitsCanvasOrigin sc e ps"

section \<open>Costs\<close>

definition axisOverlapLength :: "point \<Rightarrow> point \<Rightarrow> point \<Rightarrow> point \<Rightarrow> real" where
  "axisOverlapLength a b c d =
     (let horizontal = near (snd a) (snd b) \<and> near (snd c) (snd d) \<and> near (snd a) (snd c);
          vertical = near (fst a) (fst b) \<and> near (fst c) (fst d) \<and> near (fst a) (fst c);
          along = (if horizontal then fst else snd) in
      if \<not> horizontal \<and> \<not> vertical then 0
      else max 0 (min (max (along a) (along b)) (max (along c) (along d)) - max (min (along a) (along b)) (min (along c) (along d))))"

definition properAxisCrossing :: "point \<Rightarrow> point \<Rightarrow> point \<Rightarrow> point \<Rightarrow> bool" where
  "properAxisCrossing a b c d =
     (let first = near (snd a) (snd b); second = near (snd c) (snd d);
          h = (if first then (a, b) else (c, d)); v = (if first then (c, d) else (a, b));
          x = fst (fst v); y = snd (fst h) in
      first \<noteq> second
      \<and> min (fst (fst h)) (fst (snd h)) + 1 / 10000 < x \<and> x < max (fst (fst h)) (fst (snd h)) - 1 / 10000
      \<and> min (snd (fst v)) (snd (snd v)) + 1 / 10000 < y \<and> y < max (snd (fst v)) (snd (snd v)) - 1 / 10000)"

definition unrelated_placed :: "placed_routes \<Rightarrow> relation \<Rightarrow> placed_routes" where
  "unrelated_placed placed e = filter (\<lambda>(q, qs).
     {rel e ''from'', rel e ''to''} \<inter> {rel q ''from'', rel q ''to''} = {}) placed"

definition placed_segment_pairs :: "placed_routes \<Rightarrow> relation \<Rightarrow> point list \<Rightarrow> ((point \<times> point) \<times> point \<times> point) list" where
  "placed_segment_pairs placed e ps =
     concat (map (\<lambda>(q, qs). List.product (segments ps) (segments qs)) (unrelated_placed placed e))"

definition properCrossingCount :: "placed_routes \<Rightarrow> relation \<Rightarrow> point list \<Rightarrow> nat" where
  "properCrossingCount placed e ps =
     length (filter (\<lambda>((a, b), c, d). properAxisCrossing a b c d) (placed_segment_pairs placed e ps))"

definition sharedCorridorPx :: "placed_routes \<Rightarrow> relation \<Rightarrow> point list \<Rightarrow> real" where
  "sharedCorridorPx placed e ps =
     sum_list (map (\<lambda>((a, b), c, d). axisOverlapLength a b c d) (placed_segment_pairs placed e ps))"

definition deficit_to_label :: "real \<Rightarrow> point list \<Rightarrow> rect option \<Rightarrow> real" where
  "deficit_to_label threshold ps r = (case r of None \<Rightarrow> 0
     | Some q \<Rightarrow> sum_list (map (\<lambda>(a, b). max 0 (threshold - clearance_of a b q)) (segments ps)))"

definition labelRouteClearanceDeficit :: "scene \<Rightarrow> placed_routes \<Rightarrow> relation \<Rightarrow> point list \<Rightarrow> real" where
  "labelRouteClearanceDeficit sc placed e ps =
     sum_list (map (\<lambda>(q, qs). deficit_to_label 8 qs (scene_label sc e ps) + deficit_to_label 8 ps (scene_label sc q qs)) placed)"

definition automaticForwardReversePx :: "relation \<Rightarrow> placed_node \<Rightarrow> placed_node \<Rightarrow> point list \<Rightarrow> real" where
  "automaticForwardReversePx e f t ps =
     (if rel e ''role'' = JStr (lit ''return'') \<or> rel e ''role'' = JStr (lit ''error'')
         \<or> node_col (pn_object t) \<le> node_col (pn_object f) then 0
      else sum_list (map (\<lambda>(a, b). max 0 (fst a - fst b)) (segments ps)))"

definition port_displacement :: "node_box \<Rightarrow> node_box \<Rightarrow> jval \<Rightarrow> jval \<Rightarrow> point list \<Rightarrow> real" where
  "port_displacement f t natural_from natural_to ps =
     manhattan (anchor f natural_from) (hd ps) + manhattan (anchor t natural_to) (last ps)"

definition canvasGrowthPx :: "scene \<Rightarrow> point list \<Rightarrow> real" where
  "canvasGrowthPx sc ps =
     max 0 (- least (map fst ps)) + max 0 (greatest (map fst ps) - sc_canvas_width sc)
     + max 0 (- least (map snd ps)) + max 0 (greatest (map snd ps) - sc_canvas_height sc)"

definition LEGACY_COLUMN_CENTERS :: "real list" where
  "LEGACY_COLUMN_CENTERS = [88, 220, 300, 430, 500, 625]"

definition legacy_displacement :: "placed_node \<Rightarrow> real" where
  "legacy_displacement n = \<bar>cx (pn_box n) - column_at LEGACY_COLUMN_CENTERS (field (pn_object n) ''col'')\<bar>"

text \<open>The cost of a route and its dimensions, the most important first.\<close>

record route_cost =
  automaticForwardReverse :: real
  properCrossings :: nat
  sharedCorridor :: real
  labelDeficit :: real
  interiorPreferred28Deficit :: real
  bendCount :: nat
  stretchMilli :: int
  canvasGrowth :: real
  portDisplacementMilli :: int
  legacyCoordinateDisplacement :: real
  stableCandidateOrdinal :: nat

definition dimensions :: "route_cost \<Rightarrow> real list" where
  "dimensions c =
     [automaticForwardReverse c, real (properCrossings c), sharedCorridor c, labelDeficit c, interiorPreferred28Deficit c,
      real (bendCount c), of_int (stretchMilli c), canvasGrowth c, of_int (portDisplacementMilli c),
      legacyCoordinateDisplacement c, real (stableCandidateOrdinal c)]"

definition readableCandidateCost ::
  "scene \<Rightarrow> placed_routes \<Rightarrow> relation \<Rightarrow> placed_node \<Rightarrow> placed_node \<Rightarrow> jval \<Rightarrow> jval \<Rightarrow> nat \<Rightarrow> point list \<Rightarrow> route_cost" where
  "readableCandidateCost sc placed e f t natural_from natural_to n ps =
     (let lengths = map (\<lambda>(a, b). manhattan a b) (segments ps); direct = manhattan (hd ps) (last ps) in
      \<lparr>automaticForwardReverse = automaticForwardReversePx e f t ps,
       properCrossings = properCrossingCount placed e ps,
       sharedCorridor = sharedCorridorPx placed e ps,
       labelDeficit = labelRouteClearanceDeficit sc placed e ps,
       interiorPreferred28Deficit = sum_list (map (\<lambda>k. max 0 (28 - k)) (butlast (tl lengths))),
       bendCount = length ps - 2,
       stretchMilli = js_round ((if 0 < direct then sum_list lengths / direct else 1) * 1000),
       canvasGrowth = canvasGrowthPx sc ps,
       portDisplacementMilli = js_round (port_displacement (pn_box f) (pn_box t) natural_from natural_to ps * 1000),
       legacyCoordinateDisplacement = legacy_displacement f + legacy_displacement t,
       stableCandidateOrdinal = n\<rparr>)"

definition compareCost :: "route_cost \<Rightarrow> route_cost \<Rightarrow> int" where
  "compareCost l r = first_nonzero (map2 three_way (dimensions l) (dimensions r))"

section \<open>Candidates\<close>

record route_plan =
  rp_points :: "point list"
  rp_from :: jval
  rp_to :: jval
  rp_cost :: route_cost

definition corridorViaY :: "point \<Rightarrow> point \<Rightarrow> jval \<Rightarrow> jval \<Rightarrow> real \<Rightarrow> point list" where
  "corridorViaY s e fs ts y = (let a = outward_stub s fs; b = outward_stub e ts in [a, (fst a, y), (fst b, y), b])"

definition corridorViaX :: "point \<Rightarrow> point \<Rightarrow> jval \<Rightarrow> jval \<Rightarrow> real \<Rightarrow> point list" where
  "corridorViaX s e fs ts x = (let a = outward_stub s fs; b = outward_stub e ts in [a, (x, snd a), (x, snd b), b])"

definition through :: "point \<Rightarrow> point list \<Rightarrow> point \<Rightarrow> point list" where
  "through s via e = normalizeRoutePoints (raw_path (closed s via e))"

definition lane_top_of :: "scene \<Rightarrow> placed_node \<Rightarrow> real" where
  "lane_top_of sc n = laneTop (sc_layout sc) (lane_of (sc_workflow sc) (field (pn_object n) ''lane''))"

definition lane_bottom_of :: "scene \<Rightarrow> placed_node \<Rightarrow> real" where
  "lane_bottom_of sc n = lane_top_of sc n + laneHeight (sc_layout sc) (lane_of (sc_workflow sc) (field (pn_object n) ''lane''))"

definition same_lane :: "placed_node \<Rightarrow> placed_node \<Rightarrow> bool" where
  "same_lane f t \<longleftrightarrow> field (pn_object f) ''lane'' = field (pn_object t) ''lane''"

definition gap_y :: "scene \<Rightarrow> relation \<Rightarrow> placed_node \<Rightarrow> placed_node \<Rightarrow> real" where
  "gap_y sc e f t = gapYBetween (sc_workflow sc) (sc_layout sc) (field (pn_object f) ''lane'') (field (pn_object t) ''lane'')
     (number_or (1 / 2) (rel e ''bias''))"

definition outside_right :: "scene \<Rightarrow> real" where
  "outside_right sc = 40 + wl_lane_w (sc_layout sc) + 12"

text \<open>The nine families in their order: straight, two with one bend, the corridor between the lanes and
  the one between the columns, and the four around the lanes.\<close>

definition raw_candidates ::
  "scene \<Rightarrow> relation \<Rightarrow> placed_node \<Rightarrow> placed_node \<Rightarrow> point \<Rightarrow> point \<Rightarrow> jval \<Rightarrow> jval \<Rightarrow> point list list" where
  "raw_candidates sc e f t s en fs ts =
     (let gap = (if same_lane f t then lane_top_of sc f - 16 else gap_y sc e f t);
          top = max 8 (min (lane_top_of sc f) (lane_top_of sc t) - 16);
          bottom = max (lane_bottom_of sc f) (lane_bottom_of sc t) + 16 in
      [[], [(fst en, snd s)], [(fst s, snd en)], corridorViaY s en fs ts gap, corridorViaX s en fs ts ((fst s + fst en) / 2),
       corridorViaX s en fs ts (40 - 20), corridorViaX s en fs ts (outside_right sc),
       corridorViaY s en fs ts top, corridorViaY s en fs ts bottom])"

definition cost_sort :: "route_plan list \<Rightarrow> route_plan list" where
  "cost_sort ps = sort_by (\<lambda>l r. compareCost (rp_cost l) (rp_cost r) \<le> 0) ps"

definition readableAutomaticCandidateSet ::
  "scene \<Rightarrow> placed_routes \<Rightarrow> relation \<Rightarrow> placed_node \<Rightarrow> placed_node \<Rightarrow> point \<Rightarrow> point \<Rightarrow> jval \<Rightarrow> jval
   \<Rightarrow> nat \<Rightarrow> jval \<Rightarrow> jval \<Rightarrow> route_plan list" where
  "readableAutomaticCandidateSet sc placed e f t s en fs ts offset natural_from natural_to =
     cost_sort (map (\<lambda>(k, ps). \<lparr>rp_points = ps, rp_from = fs, rp_to = ts,
           rp_cost = readableCandidateCost sc placed e f t natural_from natural_to (offset + k) ps\<rparr>)
         (filter (\<lambda>(k, ps). readableCandidateIsFeasible sc placed e ps (pn_box f) (pn_box t) fs ts)
           (indexed (map (\<lambda>via. through s via en) (raw_candidates sc e f t s en fs ts)))))"

section \<open>The outside channel\<close>

definition ceil_milli :: "real \<Rightarrow> real" where
  "ceil_milli x = of_int \<lceil>x * 1000\<rceil> / 1000"

text \<open>How far right the channel has to go for its label to pass what it overlaps.\<close>

definition push_past :: "real \<Rightarrow> rect \<Rightarrow> real \<Rightarrow> real" where
  "push_past base label x = (if 0 < x - rx label then base + (x - rx label) * 2 else base)"

definition channel_pushes :: "scene \<Rightarrow> placed_routes \<Rightarrow> rect \<Rightarrow> real \<Rightarrow> real list" where
  "channel_pushes sc placed label base =
     List.map_filter (\<lambda>(i, n). let r = rect_of (pn_box n) in
        if finite_rects_overlap label r (- 2) then Some (push_past base label (rx r + rwidth r - 2)) else None) (sc_nodes sc)
     @ concat (map (\<lambda>(q, qs).
         (case scene_label sc q qs of None \<Rightarrow> []
          | Some r \<Rightarrow> if finite_rects_overlap label r (- 2) then [push_past base label (rx r + rwidth r - 2)] else [])
         @ List.map_filter (\<lambda>(a, b). if 4 \<le> clearance_of a b label + 1 / 10000 then None
             else Some (push_past base label (max (fst a) (fst b) + 4))) (segments qs)) placed)"

definition placed_extents :: "scene \<Rightarrow> placed_routes \<Rightarrow> real list" where
  "placed_extents sc placed =
     map (\<lambda>(i, n). rx (rect_of (pn_box n)) + rwidth (rect_of (pn_box n))) (sc_nodes sc)
     @ concat (map (\<lambda>(q, qs). map fst qs @ (case scene_label sc q qs of None \<Rightarrow> [] | Some r \<Rightarrow> [rx r + rwidth r])) placed)"

text \<open>Halving between the last channel that failed and the first that worked; \<open>at_x\<close> gives the route
  of a channel when it is feasible.\<close>

fun refine_channel :: "(real \<Rightarrow> point list option) \<Rightarrow> nat \<Rightarrow> real \<Rightarrow> point list \<Rightarrow> real \<Rightarrow> point list" where
  "refine_channel at_x 0 good ps bad = ps"
| "refine_channel at_x (Suc n) good ps bad =
     (if \<not> 1 / 1000 < good - bad then ps
      else let middle = ceil_milli ((bad + good) / 2) in
        if good - 1 / 10000 \<le> middle then ps
        else case at_x middle of
          Some qs \<Rightarrow> refine_channel at_x n middle qs bad
        | None \<Rightarrow> refine_channel at_x n good ps middle)"

fun probe_channel :: "(real \<Rightarrow> point list option) \<Rightarrow> nat \<Rightarrow> real \<Rightarrow> real \<Rightarrow> real \<Rightarrow> real \<Rightarrow> point list option" where
  "probe_channel at_x 0 base x growth bad = None"
| "probe_channel at_x (Suc n) base x growth bad =
     (if base + 1 / 10000 < x
      then (case at_x x of
          Some ps \<Rightarrow> Some (refine_channel at_x 53 x ps bad)
        | None \<Rightarrow> probe_channel at_x n base (ceil_milli (x + growth)) (growth * 2) x)
      else probe_channel at_x n base (ceil_milli (x + growth)) (growth * 2) bad)"

definition channel_route ::
  "scene \<Rightarrow> placed_routes \<Rightarrow> relation \<Rightarrow> placed_node \<Rightarrow> placed_node \<Rightarrow> point \<Rightarrow> point \<Rightarrow> jval \<Rightarrow> jval \<Rightarrow> real
   \<Rightarrow> point list option" where
  "channel_route sc placed e f t s en fs ts x =
     (let ps = through s (corridorViaX s en fs ts x) en in
      if readableCandidateIsFeasible sc placed e ps (pn_box f) (pn_box t) fs ts then Some ps else None)"

definition outside_channel ::
  "scene \<Rightarrow> placed_routes \<Rightarrow> relation \<Rightarrow> placed_node \<Rightarrow> placed_node \<Rightarrow> point \<Rightarrow> point \<Rightarrow> jval \<Rightarrow> jval
   \<Rightarrow> point list option" where
  "outside_channel sc placed e f t s en fs ts =
     (let base = outside_right sc;
          label = scene_label sc e (through s (corridorViaX s en fs ts base) en);
          start = ceil_milli (foldl max base (case label of None \<Rightarrow> [] | Some r \<Rightarrow> channel_pushes sc placed r base));
          rightmost = foldl max base (placed_extents sc placed);
          growth = max (max 32 (case label of None \<Rightarrow> 0 | Some r \<Rightarrow> rwidth r)) (rightmost + 16 - start) in
      probe_channel (channel_route sc placed e f t s en fs ts) 7 base start growth base)"

section \<open>Feedback and failures\<close>

datatype layout_request =
    RankGap nat nat real
  | LaneGap real

datatype route_failure =
    Feedback layout_request
  | LabelPinConflict
  | SidePinConflict
  | PresetConflict
  | NoFeasibleRoute
  | MissingPoints

definition is_array :: "jval \<Rightarrow> bool" where
  "is_array v \<longleftrightarrow> (case v of JArr vs \<Rightarrow> True | _ \<Rightarrow> False)"

definition hasAbsoluteRoutePins :: "relation \<Rightarrow> bool" where
  "hasAbsoluteRoutePins e \<longleftrightarrow> is_array (rel e ''via'') \<or> rel e ''channelX'' \<noteq> JUndef \<or> rel e ''channelY'' \<noteq> JUndef"

definition relevant_pin :: "placed_routes \<Rightarrow> relation \<Rightarrow> bool" where
  "relevant_pin placed e \<longleftrightarrow> is_array (rel e ''labelAt'')
     \<or> list_ex (\<lambda>(q, qs). is_array (rel q ''labelAt'') \<or> hasAbsoluteRoutePins q) placed"

definition edge_index :: "scene \<Rightarrow> relation \<Rightarrow> nat" where
  "edge_index sc e = length (takeWhile (\<lambda>q. address q \<noteq> address e) (wf_edges (sc_workflow sc)))"

text \<open>The classification of the failed candidates reads their \<open>points\<close>, which they do not have: a label
  whose position is not authored then throws a \<open>TypeError\<close> (\<open>MissingPoints\<close>).  An authored position
  needs no points, and a route without points hits no label.\<close>

definition classifyFailedAutomaticCandidatePins :: "scene \<Rightarrow> placed_routes \<Rightarrow> relation \<Rightarrow> route_failure option" where
  "classifyFailedAutomaticCandidatePins sc placed e =
     (if placed = [] \<or> \<not> truthy (rel e ''label'') then None
      else if \<not> truthy (rel e ''labelAt'') then Some MissingPoints
      else (case scene_label sc e [] of
          None \<Rightarrow> None
        | Some r \<Rightarrow>
            if list_ex (\<lambda>(q, qs). case scene_label sc q qs of Some s \<Rightarrow> finite_rects_overlap r s (- 2) | None \<Rightarrow> False) placed
            then Some LabelPinConflict
            else if collectLabelRouteClearance (sc_num sc)
                (Some [\<lparr>lb_rect = Some (raw_of r), lb_relation = Some e, lb_index = Some (edge_index sc e)\<rparr>])
                (Some (map (\<lambda>(q, qs). \<lparr>rt_relation = Some q, rt_index = Some (edge_index sc q), rt_points = raw_path qs\<rparr>) placed))
                (Some 4) \<noteq> []
            then Some LabelPinConflict else None))"

definition horizontal_facing :: "point \<Rightarrow> point \<Rightarrow> jval \<Rightarrow> jval \<Rightarrow> bool" where
  "horizontal_facing s en fs ts \<longleftrightarrow> fs = RIGHT \<and> ts = LEFT \<and> fst s < fst en \<or> fs = LEFT \<and> ts = RIGHT \<and> fst en < fst s"

definition rank_gap_request :: "scene \<Rightarrow> placed_node \<Rightarrow> placed_node \<Rightarrow> layout_request option" where
  "rank_gap_request sc f t =
     (case (column_index (field (pn_object f) ''col''), column_index (field (pn_object t) ''col'')) of
        (Some i, Some j) \<Rightarrow>
          let a = min i j; b = max i j; needed = rwidth (pn_box f) / 2 + 32 + rwidth (pn_box t) / 2;
              xs = wl_columns (sc_layout sc) in
          if i \<noteq> j \<and> xs ! b - xs ! a + 1 / 10000 < needed then Some (RankGap a b (ceil_milli needed)) else None
      | _ \<Rightarrow> None)"

definition layout_request_of ::
  "scene \<Rightarrow> placed_node \<Rightarrow> placed_node \<Rightarrow> point \<Rightarrow> point \<Rightarrow> jval \<Rightarrow> jval \<Rightarrow> layout_request option" where
  "layout_request_of sc f t s en fs ts =
     (case (if horizontal_facing s en fs ts then rank_gap_request sc f t else None) of
        Some q \<Rightarrow> Some q
      | None \<Rightarrow> if \<not> same_lane f t \<and> wl_lane_gap (sc_layout sc) < 32 then Some (LaneGap 32) else None)"

definition readableAutomaticVia ::
  "scene \<Rightarrow> placed_routes \<Rightarrow> relation \<Rightarrow> placed_node \<Rightarrow> placed_node \<Rightarrow> point \<Rightarrow> point \<Rightarrow> jval \<Rightarrow> jval
   \<Rightarrow> route_failure + point list" where
  "readableAutomaticVia sc placed e f t s en fs ts =
     (case readableAutomaticCandidateSet sc placed e f t s en fs ts 0 fs ts of
        p # _ \<Rightarrow> Inr (butlast (tl (rp_points p)))
      | [] \<Rightarrow>
          (case outside_channel sc placed e f t s en fs ts of
             Some ps \<Rightarrow> Inr (butlast (tl ps))
           | None \<Rightarrow>
               (case (if relevant_pin placed e then classifyFailedAutomaticCandidatePins sc placed e else None) of
                  Some failure \<Rightarrow> Inl failure
                | None \<Rightarrow>
                    (case layout_request_of sc f t s en fs ts of
                       Some q \<Rightarrow> Inl (Feedback q) | None \<Rightarrow> Inl NoFeasibleRoute))))"

section \<open>Sides\<close>

definition side_order :: "jval list" where
  "side_order = [RIGHT, BOTTOM, LEFT, TOP]"

definition side_choices :: "jval option \<Rightarrow> jval list" where
  "side_choices a = (case a of Some v \<Rightarrow> [v] | None \<Rightarrow> side_order)"

text \<open>The pairs of sides to try, preferred ones first, without repetitions and only authored sides where
  the edge has some.\<close>

definition side_pairs :: "relation \<Rightarrow> (jval \<times> jval) list \<Rightarrow> (jval \<times> jval) list" where
  "side_pairs e preferred =
     (let a = authored_side (rel e ''fromSide''); b = authored_side (rel e ''toSide'') in
      unique_list (filter (\<lambda>(u, v). (a = None \<or> a = Some u) \<and> (b = None \<or> b = Some v))
        (preferred @ List.product (side_choices a) (side_choices b))))"

definition natural_sides :: "relation \<Rightarrow> placed_node \<Rightarrow> placed_node \<Rightarrow> jval \<times> jval" where
  "natural_sides e f t =
     (some_or (authored_side (rel e ''fromSide'')) (defaultFromSide (pn_box f) (pn_box t)),
      some_or (authored_side (rel e ''toSide'')) (defaultToSide (pn_box f) (pn_box t)))"

definition oneBendCrossLaneVia :: "node_map \<Rightarrow> relation \<Rightarrow> point \<Rightarrow> point \<Rightarrow> jval \<Rightarrow> jval \<Rightarrow> point list option" where
  "oneBendCrossLaneVia ns e s en fs ts =
     (let ps = through s [if is_vertical fs then (fst s, snd en) else (fst en, snd s)] en in
      if is_vertical fs = is_vertical ts then None
      else if length ps \<noteq> 3 \<or> \<not> honors_sides ps fs ts then None
      else if \<not> list_all (\<lambda>x. 8 \<le> segment_length x) (segments ps) \<or> \<not> routeClearsUnrelatedNodes ns e ps then None
      else Some (butlast (tl ps)))"

definition legacyAutomaticOneBendSides :: "node_map \<Rightarrow> relation \<Rightarrow> placed_node \<Rightarrow> placed_node \<Rightarrow> (jval \<times> jval) option" where
  "legacyAutomaticOneBendSides ns e f t =
     (let p = pn_box f; q = pn_box t;
          vertical_from = (if cy q < cy p then TOP else BOTTOM); horizontal_to = (if cx q < cx p then RIGHT else LEFT);
          horizontal_from = (if cx q < cx p then LEFT else RIGHT); vertical_to = (if cy q < cy p then BOTTOM else TOP) in
      if truthy (rel e ''via'') \<or> \<not> has_route e ''auto'' \<or> authored_side (rel e ''fromSide'') \<noteq> None
        \<or> authored_side (rel e ''toSide'') \<noteq> None \<or> same_lane f t \<or> cx p = cx q \<or> cy p = cy q then None
      else find (\<lambda>(fs, ts). oneBendCrossLaneVia ns e (anchor p fs) (anchor q ts) fs ts \<noteq> None)
        [(vertical_from, horizontal_to), (horizontal_from, vertical_to)])"

definition automatic_route :: "relation \<Rightarrow> bool" where
  "automatic_route e \<longleftrightarrow> \<not> truthy (rel e ''via'') \<and> rel e ''channelX'' = JUndef \<and> rel e ''channelY'' = JUndef
     \<and> has_route e ''auto''"

text \<open>The candidates of one pair of sides at the midpoints of the sides.\<close>

definition pair_candidates ::
  "scene \<Rightarrow> placed_routes \<Rightarrow> relation \<Rightarrow> placed_node \<Rightarrow> placed_node \<Rightarrow> nat \<times> jval \<times> jval \<Rightarrow> route_plan list" where
  "pair_candidates sc placed e f t = (\<lambda>(i, fs, ts).
     readableAutomaticCandidateSet sc placed e f t (anchor (pn_box f) fs) (anchor (pn_box t) ts) fs ts (i * 9)
       (fst (natural_sides e f t)) (snd (natural_sides e f t)))"

definition readableAutomaticSides ::
  "scene \<Rightarrow> placed_routes \<Rightarrow> relation \<Rightarrow> placed_node \<Rightarrow> placed_node \<Rightarrow> (jval \<times> jval) option" where
  "readableAutomaticSides sc placed e f t =
     (let pairs = side_pairs e ((case legacyAutomaticOneBendSides (sc_nodes sc) e f t of Some p \<Rightarrow> [p] | None \<Rightarrow> [])
            @ [natural_sides e f t]) in
      if \<not> automatic_route e \<or> authored_side (rel e ''fromSide'') \<noteq> None \<and> authored_side (rel e ''toSide'') \<noteq> None then None
      else if pairs \<noteq> [] \<and> pair_candidates sc placed e f t (0, hd pairs) \<noteq> [] then Some (hd pairs)
      else (case cost_sort (concat (map (pair_candidates sc placed e f t) (indexed pairs))) of
              [] \<Rightarrow> None | p # _ \<Rightarrow> Some (rp_from p, rp_to p)))"

definition edgeSides :: "scene \<Rightarrow> placed_routes \<Rightarrow> relation \<Rightarrow> placed_node \<Rightarrow> placed_node \<Rightarrow> jval \<times> jval" where
  "edgeSides sc placed e f t =
     (case (if readable (sc_workflow sc) then readableAutomaticSides sc placed e f t
            else legacyAutomaticOneBendSides (sc_nodes sc) e f t) of
        Some p \<Rightarrow> p
      | None \<Rightarrow>
          if readable (sc_workflow sc) \<and> stableValueKey (sc_num sc) (object e) \<in> set (wl_channel_labels (sc_layout sc))
            \<and> \<not> truthy (rel e ''fromSide'') \<and> \<not> truthy (rel e ''toSide'') then (TOP, TOP)
          else connectionSides e (pn_box f) (pn_box t))"

text \<open>The ports are spread before any route is placed; the sides found then are kept.\<close>

definition edge_ends :: "scene \<Rightarrow> relation \<Rightarrow> (placed_node \<times> placed_node) option" where
  "edge_ends sc e = (case (map_of (sc_nodes sc) (rel e ''from''), map_of (sc_nodes sc) (rel e ''to'')) of
     (Some f, Some t) \<Rightarrow> Some (f, t) | _ \<Rightarrow> None)"

definition workflow_ports :: "scene \<Rightarrow> nat \<times> endpoint \<rightharpoonup> point" where
  "workflow_ports sc = automaticPortSpread (sc_num sc) (all_relations (wf_edges (sc_workflow sc))) (node_at (sc_nodes sc)) 16 14
     (Some (\<lambda>e w. case edge_ends sc e of None \<Rightarrow> JUndef
        | Some (f, t) \<Rightarrow> (case w of Source \<Rightarrow> fst (edgeSides sc [] e f t) | Target \<Rightarrow> snd (edgeSides sc [] e f t))))"

definition planned_sides :: "scene \<Rightarrow> placed_routes \<Rightarrow> relation \<Rightarrow> placed_node \<Rightarrow> placed_node \<Rightarrow> jval \<times> jval" where
  "planned_sides sc placed e f t = edgeSides sc (if spread_eligible e then [] else placed) e f t"

section \<open>Automatic routes\<close>

text \<open>The ports serve the first pair of sides, the midpoints of the sides the others.\<close>

definition end_point :: "node_box \<Rightarrow> jval \<Rightarrow> point option \<Rightarrow> nat \<Rightarrow> point" where
  "end_point b sd port i = (if i = 0 then some_or port (anchor b sd) else anchor b sd)"

definition attempt_candidates ::
  "scene \<Rightarrow> placed_routes \<Rightarrow> relation \<Rightarrow> placed_node \<Rightarrow> placed_node \<Rightarrow> point option \<times> point option
   \<Rightarrow> nat \<times> jval \<times> jval \<Rightarrow> route_plan list" where
  "attempt_candidates sc placed e f t ports = (\<lambda>(i, fs, ts).
     readableAutomaticCandidateSet sc placed e f t (end_point (pn_box f) fs (fst ports) i) (end_point (pn_box t) ts (snd ports) i)
       fs ts (i * 9) (fst (natural_sides e f t)) (snd (natural_sides e f t)))"

text \<open>The plans for one pair of sides: its feasible candidates, else the outside channel.\<close>

definition automatic_attempt ::
  "scene \<Rightarrow> placed_routes \<Rightarrow> relation \<Rightarrow> placed_node \<Rightarrow> placed_node \<Rightarrow> point option \<times> point option
   \<Rightarrow> nat \<times> jval \<times> jval \<Rightarrow> route_failure + route_plan list" where
  "automatic_attempt sc placed e f t ports = (\<lambda>(i, fs, ts).
     let s = end_point (pn_box f) fs (fst ports) i; en = end_point (pn_box t) ts (snd ports) i;
         plans = attempt_candidates sc placed e f t ports (i, fs, ts) in
     if plans \<noteq> [] then Inr plans
     else (case readableAutomaticVia sc placed e f t s en fs ts of
        Inl failure \<Rightarrow> Inl failure
      | Inr via \<Rightarrow> let ps = through s via en in
          Inr [\<lparr>rp_points = ps, rp_from = fs, rp_to = ts,
                rp_cost = readableCandidateCost sc placed e f t (fst (natural_sides e f t)) (snd (natural_sides e f t))
                  (i * 9 + 6) ps\<rparr>]))"

definition plans_of :: "(route_failure + route_plan list) list \<Rightarrow> route_plan list" where
  "plans_of rs = concat (map (case_sum (\<lambda>_. []) id) rs)"

definition failures_of :: "(route_failure + route_plan list) list \<Rightarrow> route_failure list" where
  "failures_of rs = List.map_filter (case_sum Some (\<lambda>_. None)) rs"

text \<open>Feedback for columns goes before feedback for lanes, then conflicts with authored sides, then the
  first failure.\<close>

definition is_rank :: "route_failure \<Rightarrow> bool" where
  "is_rank x = (case x of Feedback (RankGap i j m) \<Rightarrow> True | _ \<Rightarrow> False)"

definition is_feedback :: "route_failure \<Rightarrow> bool" where
  "is_feedback x = (case x of Feedback q \<Rightarrow> True | _ \<Rightarrow> False)"

definition chosen_failure :: "relation \<Rightarrow> route_failure list \<Rightarrow> route_failure" where
  "chosen_failure e xs =
     (case find is_rank xs of Some x \<Rightarrow> x
      | None \<Rightarrow> (case find is_feedback xs of Some x \<Rightarrow> x
      | None \<Rightarrow> if authored_side (rel e ''fromSide'') \<noteq> None \<or> authored_side (rel e ''toSide'') \<noteq> None then SidePinConflict
        else (case xs of [] \<Rightarrow> NoFeasibleRoute | x # _ \<Rightarrow> x)))"

definition readableAutomaticRoute ::
  "scene \<Rightarrow> placed_routes \<Rightarrow> relation \<Rightarrow> placed_node \<Rightarrow> placed_node \<Rightarrow> jval \<times> jval \<Rightarrow> point option \<times> point option
   \<Rightarrow> route_failure + route_plan" where
  "readableAutomaticRoute sc placed e f t sides ports =
     (let rs = map (automatic_attempt sc placed e f t ports) (indexed (side_pairs e [sides])) in
      case cost_sort (plans_of rs) of
        p # _ \<Rightarrow> Inr p
      | [] \<Rightarrow> Inl (chosen_failure e (failures_of rs)))"

section \<open>Presets\<close>

datatype axis = Vertical | Horizontal | Diagonal

definition segmentOrientation :: "point \<times> point \<Rightarrow> axis" where
  "segmentOrientation x = (if near (fst (fst x)) (fst (snd x)) then Vertical
     else if near (snd (fst x)) (snd (snd x)) then Horizontal else Diagonal)"

definition pattern :: "point list \<Rightarrow> axis list" where
  "pattern ps = map segmentOrientation (segments ps)"

definition routeContainsChannelPin :: "point list \<Rightarrow> bool \<Rightarrow> real \<Rightarrow> bool" where
  "routeContainsChannelPin ps on_x v \<longleftrightarrow>
     list_ex (\<lambda>(a, b). if on_x then fst a = v \<and> fst b = v \<and> 1 / 10000 < \<bar>snd b - snd a\<bar>
       else snd a = v \<and> snd b = v \<and> 1 / 10000 < \<bar>fst b - fst a\<bar>) (segments ps)"

definition collapsed :: "point list \<Rightarrow> point list" where
  "collapsed ps = normalizeRoutePoints (raw_path ps)"

definition corridorTopologyMatches :: "point list \<Rightarrow> bool \<Rightarrow> real \<Rightarrow> bool" where
  "corridorTopologyMatches ps on_x v \<longleftrightarrow>
     (let qs = collapsed ps; s = hd qs; e = last qs in
      pattern qs = pattern (through s (if on_x then through_x v s e else through_y v s e) e)
      \<and> routeContainsChannelPin qs on_x v)"

definition matches_family :: "bool \<Rightarrow> (real \<Rightarrow> bool) \<Rightarrow> point list \<Rightarrow> bool" where
  "matches_family on_x ok ps \<longleftrightarrow> list_ex (\<lambda>x. let v = (if on_x then fst (fst x) else snd (fst x)) in
     segmentOrientation x = (if on_x then Vertical else Horizontal) \<and> ok v \<and> corridorTopologyMatches ps on_x v)
     (segments (collapsed ps))"

definition bottom_of :: "node_box \<Rightarrow> real" where
  "bottom_of b = ry b + rheight b"

definition right_of :: "node_box \<Rightarrow> real" where
  "right_of b = rx b + rwidth b"

definition routeMatchesPresetFamily :: "relation \<Rightarrow> point list \<Rightarrow> placed_node \<Rightarrow> placed_node \<Rightarrow> bool" where
  "routeMatchesPresetFamily e ps f t \<longleftrightarrow>
     (let p = pn_box f; q = pn_box t;
          upper = (if cy p \<le> cy q then p else q); lower = (if cy p \<le> cy q then q else p) in
      if has_route e ''straight'' then length (collapsed ps) = 2
      else if has_route e ''drop'' then
        \<not> same_lane f t \<and> (pattern (collapsed ps) = [Vertical]
          \<or> matches_family False (\<lambda>v. bottom_of upper - 1 / 10000 \<le> v \<and> v \<le> ry lower + 1 / 10000) ps)
      else if has_route e ''outside-right'' then matches_family True (\<lambda>v. max (right_of p) (right_of q) + 1 / 10000 < v) ps
      else if has_route e ''return-left'' then matches_family True (\<lambda>v. v < min (rx p) (rx q) - 1 / 10000) ps
      else if has_route e ''bottom-channel'' then matches_family False (\<lambda>v. max (bottom_of p) (bottom_of q) + 1 / 10000 < v) ps
      else if has_route e ''up-channel'' then matches_family False (\<lambda>v. v < min (ry p) (ry q) - 1 / 10000) ps
      else False)"

section \<open>Controlled routes\<close>

text \<open>The inner points that the edge prescribes; \<open>None\<close> leaves them to the automatic search.\<close>

definition prescribed_via :: "scene \<Rightarrow> relation \<Rightarrow> placed_node \<Rightarrow> placed_node \<Rightarrow> point \<Rightarrow> point \<Rightarrow> point list option" where
  "prescribed_via sc e f t s en =
     (let p = pn_box f; q = pn_box t; x = number_of (rel e ''channelX''); y = number_of (rel e ''channelY'') in
      if truthy (rel e ''via'') then Some (points_of (rel e ''via''))
      else if has_route e ''straight'' then Some []
      else if has_route e ''drop'' then Some (through_y (some_or y (gap_y sc e f t)) s en)
      else if has_route e ''outside-right'' then Some (through_x (some_or x (outside_right sc)) s en)
      else if has_route e ''return-left'' then Some (through_x (some_or x (min (rx p) (rx q) - 28)) s en)
      else if has_route e ''bottom-channel'' then Some (through_y (some_or y (max (bottom_of p) (bottom_of q) + 32)) s en)
      else if has_route e ''up-channel'' then Some (through_y (some_or y (min (ry p) (ry q) - 28)) s en)
      else if readable (sc_workflow sc) then
        (case (x, y) of
           (Some u, Some v) \<Rightarrow> Some [(u, snd s), (u, v), (fst en, v)]
         | (Some u, None) \<Rightarrow> Some (through_x u s en)
         | (None, Some v) \<Rightarrow> Some (through_y v s en)
         | (None, None) \<Rightarrow> None)
      else None)"

definition readablePresetVia ::
  "scene \<Rightarrow> placed_routes \<Rightarrow> relation \<Rightarrow> placed_node \<Rightarrow> placed_node \<Rightarrow> point \<Rightarrow> point \<Rightarrow> jval \<Rightarrow> jval
   \<Rightarrow> route_failure + point list" where
  "readablePresetVia sc placed e f t s en fs ts =
     (case prescribed_via sc e f t s en of
        None \<Rightarrow> readableAutomaticVia sc placed e f t s en fs ts
      | Some via \<Rightarrow> let ps = through s via en in
          if readableCandidateIsFeasible sc placed e ps (pn_box f) (pn_box t) fs ts \<and> routeMatchesPresetFamily e ps f t
          then Inr (butlast (tl ps)) else Inl PresetConflict)"

definition isReadableControlledRoute :: "scene \<Rightarrow> relation \<Rightarrow> bool" where
  "isReadableControlledRoute sc e \<longleftrightarrow> readable (sc_workflow sc) \<and> (hasAbsoluteRoutePins e \<or> \<not> has_route e ''auto'')"

definition channel_pins_kept :: "relation \<Rightarrow> point list \<Rightarrow> bool" where
  "channel_pins_kept e ps \<longleftrightarrow>
     (case number_of (rel e ''channelX'') of Some v \<Rightarrow> routeContainsChannelPin ps True v | None \<Rightarrow> True)
     \<and> (case number_of (rel e ''channelY'') of Some v \<Rightarrow> routeContainsChannelPin ps False v | None \<Rightarrow> True)"

definition materialized ::
  "scene \<Rightarrow> placed_routes \<Rightarrow> relation \<Rightarrow> placed_node \<Rightarrow> placed_node \<Rightarrow> nat \<times> jval \<times> jval \<Rightarrow> route_plan" where
  "materialized sc placed e f t = (\<lambda>(i, fs, ts).
     let s = anchor (pn_box f) fs; en = anchor (pn_box t) ts; via = some_or (prescribed_via sc e f t s en) [];
         ps = (if hasAbsoluteRoutePins e then closed s via en else through s via en) in
     \<lparr>rp_points = ps, rp_from = fs, rp_to = ts,
      rp_cost = readableCandidateCost sc placed e f t (fst (natural_sides e f t)) (snd (natural_sides e f t)) i ps\<rparr>)"

definition controlled_ok :: "scene \<Rightarrow> placed_routes \<Rightarrow> relation \<Rightarrow> placed_node \<Rightarrow> placed_node \<Rightarrow> route_plan \<Rightarrow> bool" where
  "controlled_ok sc placed e f t p \<longleftrightarrow>
     readableCandidateIsFeasible sc placed e (rp_points p) (pn_box f) (pn_box t) (rp_from p) (rp_to p)
     \<and> (has_route e ''auto'' \<or> routeMatchesPresetFamily e (rp_points p) f t) \<and> channel_pins_kept e (rp_points p)"

definition diagnosable :: "route_plan \<Rightarrow> bool" where
  "diagnosable p \<longleftrightarrow> 2 \<le> length (rp_points p) \<and> honors_sides (rp_points p) (rp_from p) (rp_to p)"

definition readableControlledRoute ::
  "scene \<Rightarrow> placed_routes \<Rightarrow> relation \<Rightarrow> placed_node \<Rightarrow> placed_node \<Rightarrow> route_failure + route_plan" where
  "readableControlledRoute sc placed e f t =
     (let ms = map (materialized sc placed e f t) (indexed (side_pairs e [natural_sides e f t])) in
      case cost_sort (filter (controlled_ok sc placed e f t) ms) of
        p # _ \<Rightarrow> Inr p
      | [] \<Rightarrow>
          if hasAbsoluteRoutePins e then Inr (hd (filter diagnosable ms @ ms))
          else let m = hd ms; s = hd (rp_points m); en = last (rp_points m) in
            map_sum id (\<lambda>via. m\<lparr>rp_points := through s via en\<rparr>)
              (readablePresetVia sc placed e f t s en (rp_from m) (rp_to m)))"

section \<open>The routes of a workflow\<close>

definition sameLaneAutoVia :: "point \<Rightarrow> point \<Rightarrow> point list" where
  "sameLaneAutoVia s en = (if fst s = fst en \<or> snd s = snd en then [] else through_x ((fst s + fst en) / 2) s en)"

definition legacy_route :: "scene \<Rightarrow> relation \<Rightarrow> placed_node \<Rightarrow> placed_node \<Rightarrow> point list" where
  "legacy_route sc e f t =
     (let sides = edgeSides sc [] e f t; ports = workflow_ports sc;
          s = some_or (ports (address e, Source)) (anchor (pn_box f) (fst sides));
          en = some_or (ports (address e, Target)) (anchor (pn_box t) (snd sides)) in
      closed s (case prescribed_via sc e f t s en of
          Some via \<Rightarrow> via
        | None \<Rightarrow> if same_lane f t then sameLaneAutoVia s en
            else some_or (oneBendCrossLaneVia (sc_nodes sc) e s en (fst sides) (snd sides)) (through_y (gap_y sc e f t) s en)) en)"

definition plan_edge :: "scene \<Rightarrow> placed_routes \<Rightarrow> relation \<Rightarrow> placed_node \<Rightarrow> placed_node \<Rightarrow> route_failure + route_plan" where
  "plan_edge sc placed e f t =
     (if isReadableControlledRoute sc e then readableControlledRoute sc placed e f t
      else let ports = workflow_ports sc in
        readableAutomaticRoute sc placed e f t (planned_sides sc placed e f t) (ports (address e, Source), ports (address e, Target)))"

definition pathFor :: "scene \<Rightarrow> placed_routes \<Rightarrow> relation \<Rightarrow> placed_node \<Rightarrow> placed_node \<Rightarrow> route_failure + point list" where
  "pathFor sc placed e f t =
     (if readable (sc_workflow sc) then map_sum id rp_points (plan_edge sc placed e f t)
      else Inr (legacy_route sc e f t))"

text \<open>The edges are routed in their canonical order, each with the routes before it; an edge with an
  unknown end is skipped.\<close>

fun route_edges :: "scene \<Rightarrow> placed_routes \<Rightarrow> relation list \<Rightarrow> route_failure + placed_routes" where
  "route_edges sc placed [] = Inr placed"
| "route_edges sc placed (e # es) =
     (case edge_ends sc e of
        None \<Rightarrow> route_edges sc placed es
      | Some (f, t) \<Rightarrow>
          (case pathFor sc placed e f t of
             Inl failure \<Rightarrow> Inl failure
           | Inr ps \<Rightarrow> route_edges sc (placed @ [(e, ps)]) es))"

definition workflow_routes :: "scene \<Rightarrow> route_failure + placed_routes" where
  "workflow_routes sc = route_edges sc [] (wf_edges (sc_workflow sc))"

section \<open>Controls that exclude each other\<close>

definition presentChannelPins :: "relation \<Rightarrow> string list" where
  "presentChannelPins e = filter (\<lambda>k. rel e k \<noteq> JUndef) [''channelX'', ''channelY'']"

definition preset_pin_fields :: "relation \<Rightarrow> string list" where
  "preset_pin_fields e =
     (if has_route e ''outside-right'' \<or> has_route e ''return-left'' then [''channelX'']
      else if has_route e ''drop'' \<or> has_route e ''bottom-channel'' \<or> has_route e ''up-channel'' then [''channelY'']
      else [])"

text \<open>The channel pins that the preset of an edge does not allow.\<close>

definition validateReadableRouteControls :: "relation \<Rightarrow> string list" where
  "validateReadableRouteControls e =
     (if has_route e ''auto'' then [] else filter (\<lambda>k. k \<notin> set (preset_pin_fields e)) (presentChannelPins e))"

end
