(* ===== verification/WorkflowCanvas.thy ===== *)
theory WorkflowCanvas
  imports WorkflowRouter
begin

text \<open>
  The end of \<open>renderers/workflow/workflow-compiler.mjs\<close>: the canvas that a readable workflow needs, and the
  loop that compiles again when the router asks the layout for room, over any attempt to compile.
\<close>

section \<open>The canvas\<close>

definition drawn_spans :: "jval list \<Rightarrow> jval list" where
  "drawn_spans vs = filter (\<lambda>v. column_span v \<noteq> None) vs"

definition group_rects :: "scene \<Rightarrow> rect list" where
  "group_rects sc = concat (map (\<lambda>g.
       group_frame (sc_num sc) (sc_workflow sc) (sc_layout sc) g
       # (if readable (sc_workflow sc) then [group_label_rect (sc_num sc) (sc_workflow sc) (sc_layout sc) g] else []))
     (filter (\<lambda>g. map_of (lane_order (sc_workflow sc)) (field g ''lane'') \<noteq> None) (drawn_spans (wf_groups (sc_workflow sc)))))"

definition route_label_rects :: "scene \<Rightarrow> placed_routes \<Rightarrow> rect list" where
  "route_label_rects sc routes = List.map_filter (\<lambda>(e, ps). scene_label sc e ps) routes"

text \<open>Everything that is drawn, except the lanes, whose sides the bounds start from.\<close>

definition content_rects :: "scene \<Rightarrow> placed_routes \<Rightarrow> rect list" where
  "content_rects sc routes =
     map (\<lambda>(i, n). rect_of (pn_box n)) (sc_nodes sc) @ route_label_rects sc routes
     @ map (phase_label_rect (sc_num sc) (sc_workflow sc) (sc_layout sc)) (drawn_spans (wf_phases (sc_workflow sc)))
     @ group_rects sc @ sc_legend sc"

definition content_points :: "scene \<Rightarrow> placed_routes \<Rightarrow> point list" where
  "content_points sc routes =
     concat (map snd routes)
     @ concat (map (\<lambda>r. [(rx r, ry r), (rx r + rwidth r, ry r + rheight r)]) (content_rects sc routes))"

record bounds =
  b_left :: real
  b_top :: real
  b_right :: real
  b_bottom :: real

definition measuredContentBounds :: "(jstring \<Rightarrow> jstring) \<Rightarrow> scene \<Rightarrow> placed_routes \<Rightarrow> bounds" where
  "measuredContentBounds words sc routes =
     (let ps = content_points sc routes in
      \<lparr>b_left = foldl min 40 (map fst ps), b_top = foldl min 27 (map snd ps),
       b_right = foldl max (40 + wl_lane_w (sc_layout sc)) (map fst ps),
       b_bottom = foldl max (legendY words (sc_workflow sc) (sc_layout sc) + 18) (map snd ps)\<rparr>)"

definition requiredViewBox :: "scene \<Rightarrow> bounds \<Rightarrow> real \<times> real" where
  "requiredViewBox sc b = (max (sc_canvas_width sc) (of_int \<lceil>b_right b + 16\<rceil>), max (sc_canvas_height sc) (of_int \<lceil>b_bottom b + 18\<rceil>))"

datatype canvas =
    ViewBox real real
  | BeyondOrigin real real real real
  | TooSmall real real

definition finalizeReadableViewBox :: "(jstring \<Rightarrow> jstring) \<Rightarrow> scene \<Rightarrow> placed_routes \<Rightarrow> canvas" where
  "finalizeReadableViewBox words sc routes =
     (let w = sc_workflow sc; vb = workflow_view_box words w (sc_layout sc); b = measuredContentBounds words sc routes;
          req = requiredViewBox sc b in
      if \<not> readable w then ViewBox (fst vb) (snd vb)
      else if b_left b < 0 \<or> b_top b < 0 then BeyondOrigin (b_left b) (b_top b) (fst req) (snd req)
      else if view_box (wf_meta w) = None then ViewBox (fst req) (snd req)
      else if fst vb < fst req \<or> snd vb < snd req then TooSmall (fst req) (snd req)
      else ViewBox (fst vb) (snd vb))"

section \<open>Feedback\<close>

definition no_feedback :: layout_feedback where
  "no_feedback = \<lparr>lf_gaps = [], lf_lane_gap = None\<rparr>"

definition grows :: "real option \<Rightarrow> real \<Rightarrow> bool" where
  "grows old new \<longleftrightarrow> (case old of None \<Rightarrow> True | Some x \<Rightarrow> x + 1 / 10000 < new)"

text \<open>The feedback with one more request, when it asks for more than before.\<close>

definition with_request :: "layout_feedback \<Rightarrow> layout_request \<Rightarrow> layout_feedback option" where
  "with_request fb q = (case q of
     RankGap i j m \<Rightarrow> if grows (map_of (lf_gaps fb) (i, j)) m then Some (fb\<lparr>lf_gaps := map_put (i, j) m (lf_gaps fb)\<rparr>) else None
   | LaneGap m \<Rightarrow> if grows (lf_lane_gap fb) m then Some (fb\<lparr>lf_lane_gap := Some m\<rparr>) else None)"

text \<open>At most \<open>n\<close> more attempts; the request that cannot be met is the failure.\<close>

fun feedback_rounds :: "(layout_feedback \<Rightarrow> layout_request + 'r) \<Rightarrow> nat \<Rightarrow> layout_feedback \<Rightarrow> layout_request + 'r" where
  "feedback_rounds compile 0 fb = compile fb"
| "feedback_rounds compile (Suc n) fb =
     (case compile fb of
        Inr r \<Rightarrow> Inr r
      | Inl q \<Rightarrow> (case with_request fb q of None \<Rightarrow> Inl q | Some fb' \<Rightarrow> feedback_rounds compile n fb'))"

end
