(* ===== verification/WorkflowPins.thy ===== *)
theory WorkflowPins
  imports WorkflowCanvas Drawings
begin

text \<open>
  The checks of a readable workflow in \<open>renderers/workflow/workflow-compiler.mjs\<close> that run before and
  while it is routed: unique ids, known ends, lanes and columns, nodes that come too close, and the
  positions an author pinned.  The router runs inside them, so a pin of an earlier edge is judged
  before a later edge is routed.  The search for fixes that a diagnostic proposes is not modelled.
\<close>

section \<open>Inputs\<close>

datatype input_problem =
    DuplicateLane jval
  | DuplicateNode jval
  | UnknownEnd relation endpoint
  | UnknownNodeLane jval
  | InvalidNodeColumn jval
  | NodeWithoutBox jval
  | NodesTooNear jval jval

text \<open>The values that repeat an earlier one, in the order of the list.\<close>

definition doubled :: "'a list \<Rightarrow> 'a list" where
  "doubled xs = List.map_filter (\<lambda>(i, x). if x \<in> set (take i xs) then Some x else None) (indexed xs)"

definition known_lane :: "workflow \<Rightarrow> jval \<Rightarrow> bool" where
  "known_lane w v \<longleftrightarrow> list_ex (\<lambda>l. field l ''id'' = v) (wf_lanes w)"

definition valid_column :: "workflow_layout \<Rightarrow> jval \<Rightarrow> bool" where
  "valid_column l v \<longleftrightarrow> (case column_index v of Some k \<Rightarrow> k < length (wl_columns l) | None \<Rightarrow> False)"

definition known_node :: "workflow \<Rightarrow> jval \<Rightarrow> bool" where
  "known_node w v \<longleftrightarrow> list_ex (\<lambda>n. field n ''id'' = v) (wf_nodes w)"

definition unknown_ends :: "workflow \<Rightarrow> relation \<Rightarrow> endpoint list" where
  "unknown_ends w e =
     (if known_node w (rel e ''from'') then [] else [Source]) @ (if known_node w (rel e ''to'') then [] else [Target])"

text \<open>The pairs of nodes of one lane that are less than 8 pixels apart, lane by lane.\<close>

definition lanes_used :: "node_map \<Rightarrow> jval list" where
  "lanes_used ns = rev (remdups (rev (map (\<lambda>(i, n). field (pn_object n) ''lane'') ns)))"

definition in_lane :: "node_map \<Rightarrow> jval \<Rightarrow> node_map" where
  "in_lane ns l = filter (\<lambda>(i, n). field (pn_object n) ''lane'' = l) ns"

definition crowded_nodes :: "node_map \<Rightarrow> (jval \<times> jval) list" where
  "crowded_nodes ns = concat (map (\<lambda>l. close_nodes 8 (in_lane ns l)) (lanes_used ns))"

definition node_input_problems :: "workflow \<Rightarrow> workflow_layout \<Rightarrow> jval \<Rightarrow> input_problem list" where
  "node_input_problems w l n =
     problem_if (\<not> known_lane w (field n ''lane'')) (UnknownNodeLane (field n ''id''))
     @ problem_if (\<not> valid_column l (field n ''col'')) (InvalidNodeColumn (field n ''id''))
     @ problem_if (placed_component (field n ''id'', workflow_measureNode w l n) = None) (NodeWithoutBox (field n ''id''))"

text \<open>The problems in the order of the checks, of which the first is reported; the workflow is the
  authored one.\<close>

definition validateReadableInputsBeforeRouting :: "workflow \<Rightarrow> workflow_layout \<Rightarrow> input_problem list" where
  "validateReadableInputsBeforeRouting w l =
     (if \<not> readable w then []
      else map DuplicateLane (doubled (map (\<lambda>x. field x ''id'') (wf_lanes w)))
        @ map DuplicateNode (doubled (map (\<lambda>n. field n ''id'') (wf_nodes w)))
        @ concat (map (\<lambda>e. map (UnknownEnd e) (unknown_ends w e)) (wf_edges w))
        @ concat (map (node_input_problems w l) (wf_nodes w))
        @ map (\<lambda>(i, j). NodesTooNear i j) (crowded_nodes (workflow_nodes w l)))"

section \<open>Pinned positions\<close>

datatype pin_problem =
    ControlExcluded string
  | LabelBeyondOrigin
  | PinBeyondOrigin string
  | RepeatedPoint nat
  | SlantedSegment nat
  | CrampedSegment nat
  | ChannelPinLost
  | PresetNotFollowed
  | SidesNotHonored
  | RouteMeetsNode jval
  | RouteMeetsLegend
  | RouteMeetsSceneLabel
  | RouteAlongFrame
  | LabelMeetsNode jval
  | LabelMeetsLegend
  | LabelMeetsSceneLabel

definition scene_label_rects :: "scene \<Rightarrow> rect list" where
  "scene_label_rects sc = map (\<lambda>(k, i, r). r)
     (workflowSceneLabelObstacles (sc_num sc) (sc_workflow sc) (sc_layout sc))"

definition label_beyond_origin :: "scene \<Rightarrow> relation \<Rightarrow> point list \<Rightarrow> pin_problem list" where
  "label_beyond_origin sc e ps =
     (case scene_label sc e ps of
        None \<Rightarrow> []
      | Some r \<Rightarrow> problem_if (is_array (rel e ''labelAt'') \<and> (rx r < 0 \<or> ry r < 0)) LabelBeyondOrigin)"

definition negative :: "jval \<Rightarrow> bool" where
  "negative v \<longleftrightarrow> (case number_of v of Some x \<Rightarrow> x < 0 | None \<Rightarrow> False)"

definition pin_beyond_origin :: "relation \<Rightarrow> pin_problem list" where
  "pin_beyond_origin e =
     (if list_ex (\<lambda>(x, y). x < 0 \<or> y < 0) (points_of (rel e ''via'')) then [PinBeyondOrigin ''via'']
      else if negative (rel e ''channelX'') then [PinBeyondOrigin ''channelX'']
      else problem_if (negative (rel e ''channelY'')) (PinBeyondOrigin ''channelY''))"

definition segment_pin_problems :: "nat \<Rightarrow> nat \<times> point \<times> point \<Rightarrow> pin_problem list" where
  "segment_pin_problems n s =
     (case s of (i, a, b) \<Rightarrow>
       if near (fst b) (fst a) \<and> near (snd b) (snd a) then [RepeatedPoint i]
       else if \<not> near (fst b) (fst a) \<and> \<not> near (snd b) (snd a) then [SlantedSegment i]
       else problem_if (manhattan a b + 1 / 10000
           < (if n = 2 then 28 else if i = 0 \<or> i = n - 2 then 8 else 16)) (CrampedSegment i))"

text \<open>The nodes a route runs into; at its own two nodes the first and the last segment are free.\<close>

definition node_collisions :: "node_map \<Rightarrow> relation \<Rightarrow> point list \<Rightarrow> jval list" where
  "node_collisions ns e ps = List.map_filter (\<lambda>(i, n).
     if list_ex (\<lambda>(k, a, b).
          if bid (pn_box n) = rel e ''from'' then k \<noteq> 0 \<and> segmentIntersectsRect a b (rect_of (pn_box n)) 0
          else if bid (pn_box n) = rel e ''to'' then k \<noteq> length ps - 2 \<and> segmentIntersectsRect a b (rect_of (pn_box n)) 0
          else segmentIntersectsRect a b (rect_of (pn_box n)) 2) (indexed (segments ps))
     then Some (bid (pn_box n)) else None) ns"

definition meets_rect :: "point list \<Rightarrow> rect \<Rightarrow> bool" where
  "meets_rect ps r \<longleftrightarrow> list_ex (\<lambda>(a, b). segmentIntersectsRect a b r 0) (segments ps)"

definition route_pin_problems ::
  "scene \<Rightarrow> relation \<Rightarrow> placed_node \<Rightarrow> placed_node \<Rightarrow> point list \<Rightarrow> jval \<Rightarrow> jval \<Rightarrow> pin_problem list" where
  "route_pin_problems sc e f t ps fs ts =
     (if \<not> hasAbsoluteRoutePins e then []
      else concat (map (segment_pin_problems (length ps)) (indexed (segments ps)))
        @ problem_if (is_array (rel e ''via'') \<and> \<not> channel_pins_kept e ps) ChannelPinLost
        @ problem_if (\<not> has_route e ''auto'' \<and> \<not> routeMatchesPresetFamily e ps f t) PresetNotFollowed
        @ problem_if (\<not> honors_sides ps fs ts) SidesNotHonored
        @ map RouteMeetsNode (node_collisions (sc_nodes sc) e ps)
        @ problem_if (list_ex (meets_rect ps) (sc_legend sc)) RouteMeetsLegend
        @ problem_if (list_ex (meets_rect ps) (scene_label_rects sc)) RouteMeetsSceneLabel
        @ problem_if (\<not> routeClearsFrameBorders sc ps) RouteAlongFrame)"

definition label_pin_problems :: "scene \<Rightarrow> relation \<Rightarrow> point list \<Rightarrow> pin_problem list" where
  "label_pin_problems sc e ps =
     (case (if truthy (rel e ''labelAt'') then scene_label sc e ps else None) of
        None \<Rightarrow> []
      | Some r \<Rightarrow>
          map LabelMeetsNode (List.map_filter (\<lambda>(i, n).
            if finite_rects_overlap r (rect_of (pn_box n)) (- 2) then Some (bid (pn_box n)) else None) (sc_nodes sc))
          @ problem_if (list_ex (\<lambda>s. finite_rects_overlap r s 0) (sc_legend sc)) LabelMeetsLegend
          @ problem_if (list_ex (\<lambda>s. finite_rects_overlap r s 0) (scene_label_rects sc)) LabelMeetsSceneLabel)"

section \<open>Routing under these checks\<close>

datatype pin_failure =
    PinProblem relation pin_problem
  | RouteProblem route_failure

definition pin_refusal :: "relation \<Rightarrow> pin_problem list \<Rightarrow> pin_failure + 'a \<Rightarrow> pin_failure + 'a" where
  "pin_refusal e ps next = (case ps of p # _ \<Rightarrow> Inl (PinProblem e p) | [] \<Rightarrow> next)"

text \<open>A pinned label is measured first, and for that the edge is routed.\<close>

definition routes_early :: "relation \<Rightarrow> bool" where
  "routes_early e \<longleftrightarrow> is_array (rel e ''labelAt'') \<and> truthy (rel e ''label'')"

definition pinned_edge ::
  "scene \<Rightarrow> placed_routes \<Rightarrow> relation \<Rightarrow> placed_node \<Rightarrow> placed_node \<Rightarrow> pin_failure + route_plan" where
  "pinned_edge sc placed e f t =
     pin_refusal e (map ControlExcluded (validateReadableRouteControls e))
       (case plan_edge sc placed e f t of
          Inl x \<Rightarrow> if routes_early e then Inl (RouteProblem x) else pin_refusal e (pin_beyond_origin e) (Inl (RouteProblem x))
        | Inr p \<Rightarrow> pin_refusal e (label_beyond_origin sc e (rp_points p) @ pin_beyond_origin e
              @ route_pin_problems sc e f t (rp_points p) (rp_from p) (rp_to p) @ label_pin_problems sc e (rp_points p))
            (Inr p))"

fun pinned_edges :: "scene \<Rightarrow> placed_routes \<Rightarrow> relation list \<Rightarrow> pin_failure + placed_routes" where
  "pinned_edges sc placed [] = Inr placed"
| "pinned_edges sc placed (e # es) =
     (case edge_ends sc e of
        None \<Rightarrow> pinned_edges sc placed es
      | Some (f, t) \<Rightarrow>
          (case pinned_edge sc placed e f t of
             Inl x \<Rightarrow> Inl x
           | Inr p \<Rightarrow> pinned_edges sc (placed @ [(e, rp_points p)]) es))"

section \<open>Pins of two edges\<close>

text \<open>The route of an edge is computed once and kept.\<close>

definition route_of :: "placed_routes \<Rightarrow> relation \<Rightarrow> point list option" where
  "route_of routes e = map_of routes e"

definition workflow_labels :: "scene \<Rightarrow> placed_routes \<Rightarrow> placed_label list" where
  "workflow_labels sc routes = List.map_filter (\<lambda>(k, e).
     map_option (\<lambda>r. (k, e, raw_of r)) (Option.bind (route_of routes e) (scene_label sc e)))
     (indexed (wf_edges (sc_workflow sc)))"

definition routed_edges :: "scene \<Rightarrow> placed_routes \<Rightarrow> routed list" where
  "routed_edges sc routes = List.map_filter (\<lambda>(k, e).
     map_option (\<lambda>ps. \<lparr>rt_relation = Some e, rt_index = Some k, rt_points = raw_path ps\<rparr>) (route_of routes e))
     (indexed (wf_edges (sc_workflow sc)))"

definition hasAuthoredRouteAssertions :: "relation \<Rightarrow> bool" where
  "hasAuthoredRouteAssertions e \<longleftrightarrow> hasAbsoluteRoutePins e
     \<or> truthy (rel e ''route'') \<and> rel e ''route'' \<noteq> JStr (lit ''auto'')
     \<or> authored_side (rel e ''fromSide'') \<noteq> None \<or> authored_side (rel e ''toSide'') \<noteq> None"

definition pinned_label :: "relation \<Rightarrow> bool" where
  "pinned_label e \<longleftrightarrow> is_array (rel e ''labelAt'')"

definition properOrthogonalIntersection :: "point \<times> point \<Rightarrow> point \<times> point \<Rightarrow> point option" where
  "properOrthogonalIntersection l r =
     (let lo = segmentOrientation l; ro = segmentOrientation r in
      if lo = ro \<or> lo = Diagonal \<or> ro = Diagonal then None
      else let h = (if lo = Horizontal then l else r); v = (if lo = Vertical then l else r);
               p = (fst (fst v), snd (fst h)) in
        if min (fst (fst h)) (fst (snd h)) + 1 / 10000 < fst p \<and> fst p < max (fst (fst h)) (fst (snd h)) - 1 / 10000
          \<and> min (snd (fst v)) (snd (snd v)) + 1 / 10000 < snd p \<and> snd p < max (snd (fst v)) (snd (snd v)) - 1 / 10000
        then Some p else None)"

definition analysed :: "point list \<Rightarrow> (point \<times> point) list" where
  "analysed ps = List.map_filter (\<lambda>s. case (finite_point (as_start s), finite_point (as_end s)) of
     (Some a, Some b) \<Rightarrow> Some (a, b) | _ \<Rightarrow> None) (forwardCollinearAnalysisSegments (raw_path ps))"

definition pinned_crossing :: "(relation \<times> point list) \<times> relation \<times> point list \<Rightarrow> bool" where
  "pinned_crossing = (\<lambda>((l, ps), (r, qs)).
     (hasAuthoredRouteAssertions l \<or> hasAuthoredRouteAssertions r) \<and> \<not> shares_endpoint l r
     \<and> list_ex (\<lambda>s. list_ex (\<lambda>t. properOrthogonalIntersection s t \<noteq> None) (analysed qs)) (analysed ps))"

datatype pair_problem =
    LabelOnRoute relation relation
  | LabelOnLabel relation relation
  | PinnedCrossing relation relation
  | PinnedCorridor relation relation

definition label_route_conflicts :: "scene \<Rightarrow> placed_routes \<Rightarrow> pair_problem list" where
  "label_route_conflicts sc routes = List.map_filter (\<lambda>h. case lb_relation (lh_label h) of
       None \<Rightarrow> None
     | Some l \<Rightarrow> if pinned_label l \<or> hasAuthoredRouteAssertions (lh_other h) then Some (LabelOnRoute l (lh_other h)) else None)
     (collectLabelRouteClearance (sc_num sc) (Some (label_entries (workflow_labels sc routes)))
       (Some (routed_edges sc routes)) (Some 4))"

definition label_label_conflicts :: "scene \<Rightarrow> placed_routes \<Rightarrow> pair_problem list" where
  "label_label_conflicts sc routes = List.map_filter (\<lambda>((i, l, r), (j, m, q)).
     if rectsOverlap r q (- 2) \<and> (pinned_label l \<or> pinned_label m) then Some (LabelOnLabel l m) else None)
     (pairs_of (workflow_labels sc routes))"

definition crossing_conflicts :: "scene \<Rightarrow> placed_routes \<Rightarrow> pair_problem list" where
  "crossing_conflicts sc routes = List.map_filter (\<lambda>(l, r).
     if pinned_crossing (l, r) then Some (PinnedCrossing (fst l) (fst r)) else None)
     (pairs_of (List.map_filter (\<lambda>e. map_option (Pair e) (route_of routes e)) (wf_edges (sc_workflow sc))))"

definition corridor_conflicts :: "scene \<Rightarrow> placed_routes \<Rightarrow> pair_problem list" where
  "corridor_conflicts sc routes = List.map_filter (\<lambda>c.
     let l = co_relation (cd_left c); r = co_relation (cd_right c) in
     if hasAuthoredRouteAssertions l \<or> hasAuthoredRouteAssertions r then Some (PinnedCorridor l r) else None)
     (collectAmbiguousCorridors (Some (routed_edges sc routes)) 8)"

definition validateReadablePairwisePinConflicts :: "scene \<Rightarrow> placed_routes \<Rightarrow> pair_problem list" where
  "validateReadablePairwisePinConflicts sc routes =
     label_route_conflicts sc routes @ label_label_conflicts sc routes
     @ (if field (wf_meta (sc_workflow sc)) ''quality_profile'' \<noteq> showcase then []
        else crossing_conflicts sc routes @ corridor_conflicts sc routes)"

datatype pin_verdict =
    EdgeFailure pin_failure
  | PairFailure pair_problem
  | Pinned placed_routes

definition validateReadablePinnedGeometry :: "scene \<Rightarrow> pin_verdict" where
  "validateReadablePinnedGeometry sc =
     (case pinned_edges sc [] (wf_edges (sc_workflow sc)) of
        Inl x \<Rightarrow> EdgeFailure x
      | Inr routes \<Rightarrow> (case validateReadablePairwisePinConflicts sc routes of
          p # _ \<Rightarrow> PairFailure p
        | [] \<Rightarrow> Pinned routes))"

end
