(* ===== verification/WorkflowCheck.thy ===== *)
theory WorkflowCheck
  imports WorkflowPins
begin

text \<open>
  The validation of a routed workflow, \<open>validateWorkflow\<close> of
  \<open>renderers/workflow/workflow-compiler.mjs\<close>, for both schema versions: the capacity of the fixed columns,
  nodes in their lanes, phases, groups, the shared quality gates, the main path and the labels.  The
  profile of the document alone decides which gates run.  Problems are values without their text.
\<close>

section \<open>The fixed columns\<close>

definition workflow_measured :: "workflow \<Rightarrow> workflow_layout \<Rightarrow> (jval \<times> jval \<times> raw_rect) list" where
  "workflow_measured w l = foldl (\<lambda>m n. map_put (field n ''id'') (workflow_measureNode w l n) m) [] (wf_nodes w)"

text \<open>The middle of a node and its size, with \<open>None\<close> for \<open>NaN\<close>.\<close>

definition raw_cx :: "raw_rect \<Rightarrow> jsnum" where
  "raw_cx r = (case (raw_x r, raw_width r) of (Some x, Some width) \<Rightarrow> Some (x + width / 2) | _ \<Rightarrow> None)"

definition raw_cy :: "raw_rect \<Rightarrow> jsnum" where
  "raw_cy r = (case (raw_y r, raw_height r) of (Some y, Some height) \<Rightarrow> Some (y + height / 2) | _ \<Rightarrow> None)"

definition measured_overlap :: "jval \<times> raw_rect \<Rightarrow> jval \<times> raw_rect \<Rightarrow> bool" where
  "measured_overlap f t \<longleftrightarrow> (case (raw_height (snd f), raw_height (snd t)) of
     (Some a, Some b) \<Rightarrow> \<bar>y_offset (fst f) - y_offset (fst t)\<bar> < a / 2 + b / 2 + 8 | _ \<Rightarrow> False)"

definition direct_level :: "relation \<Rightarrow> jval \<times> raw_rect \<Rightarrow> jval \<times> raw_rect \<Rightarrow> bool" where
  "direct_level e f t \<longleftrightarrow> \<not> truthy (rel e ''via'') \<and> (has_route e ''auto'' \<or> has_route e ''straight'')
     \<and> (case (raw_cy (snd f), raw_cy (snd t)) of (Some a, Some b) \<Rightarrow> \<bar>a - b\<bar> < 1 / 10000 | _ \<Rightarrow> False)"

definition signed_clearance :: "raw_rect \<Rightarrow> raw_rect \<Rightarrow> jsnum" where
  "signed_clearance f t = (case (raw_cx f, raw_cx t, raw_width f, raw_width t) of
     (Some a, Some b, Some v, Some u) \<Rightarrow> Some (\<bar>b - a\<bar> - v / 2 - u / 2) | _ \<Rightarrow> None)"

definition lacks_capacity :: "(jval \<times> jval \<times> raw_rect) list \<Rightarrow> relation \<Rightarrow> bool" where
  "lacks_capacity ms e \<longleftrightarrow>
     (case (map_of ms (rel e ''from''), map_of ms (rel e ''to'')) of
        (Some f, Some t) \<Rightarrow>
          field (fst f) ''lane'' = field (fst t) ''lane'' \<and> field (fst f) ''col'' \<noteq> field (fst t) ''col''
          \<and> measured_overlap f t
          \<and> \<not> (case signed_clearance (snd f) (snd t) of
                Some c \<Rightarrow> (if direct_level e f t then 28 else 8) \<le> c | None \<Rightarrow> False)
      | _ \<Rightarrow> False)"

text \<open>The edges without room; the first of them refuses the workflow.\<close>

definition enforceLegacyColumnCapacity :: "workflow \<Rightarrow> workflow_layout \<Rightarrow> relation list" where
  "enforceLegacyColumnCapacity w l =
     (if readable w then [] else filter (lacks_capacity (workflow_measured w l)) (wf_edges w))"

section \<open>Problems\<close>

datatype workflow_problem =
    UnsupportedVersion
  | TitleMissing
  | LanesMissing
  | NoColumnCapacity relation
  | LaneIdsRepeat
  | NodeIdsRepeat
  | PhaseIdsRepeat
  | GroupIdsRepeat
  | NodeLaneUnknown jval
  | NodeColumnInvalid jval
  | NodeNotNumeric jval
  | NodeLabelWide jval
  | NodeMarkRail jval
  | NodeTextWide jval string
  | NodeBeyondLane jval
  | NodeMeetsLaneTitle jval
  | PhaseNotInteger jval
  | PhaseRangeInvalid jval
  | PhaseLabelWide jval
  | PhasesOverlap jval jval
  | GroupLaneUnknown jval
  | GroupNotInteger jval
  | GroupRangeInvalid jval
  | GroupEmpty jval
  | NodesCrowded jval jval
  | EdgeSourceUnknown nat
  | EdgeTargetUnknown nat
  | EdgeTooShort nat
  | WorkflowGate gate_problem
  | MainNodeUnknown jval
  | MainStepUnlinked jval jval
  | MainStepBackward jval jval
  | EdgeLabelOnNode nat jval
  | EdgeLabelsOverlap nat nat
  | EdgeLabelClose label_hit
  | CanvasTooNarrow
  | LegendBelowCanvas

definition structure_problems :: "workflow \<Rightarrow> workflow_problem list" where
  "structure_problems w =
     problem_if (wf_version w \<noteq> JNum 1 \<and> wf_version w \<noteq> JNum 2) UnsupportedVersion
     @ problem_if (\<not> truthy (field (wf_meta w) ''title'')) TitleMissing
     @ problem_if (wf_lanes w = []) LanesMissing"

definition distinct_ids :: "jval list \<Rightarrow> bool" where
  "distinct_ids vs \<longleftrightarrow> distinct (map (\<lambda>v. field v ''id'') vs)"

definition id_problems :: "workflow \<Rightarrow> workflow_problem list" where
  "id_problems w =
     problem_if (\<not> distinct_ids (wf_lanes w)) LaneIdsRepeat @ problem_if (\<not> distinct_ids (wf_nodes w)) NodeIdsRepeat
     @ problem_if (\<not> distinct_ids (wf_phases w)) PhaseIdsRepeat @ problem_if (\<not> distinct_ids (wf_groups w)) GroupIdsRepeat"

text \<open>A node in its lane, below the title and the reserve of the groups.\<close>

definition lane_bounds :: "workflow \<Rightarrow> workflow_layout \<Rightarrow> jval \<Rightarrow> nat \<Rightarrow> rect \<Rightarrow> workflow_problem list" where
  "lane_bounds w l i p r =
     problem_if (rx r < 40 \<or> 40 + wl_lane_w l < rx r + rwidth r) (NodeBeyondLane i)
     @ problem_if (ry r < laneTop l p + 30 + laneGroupHeaderH l p \<or> laneTop l p + laneHeight l p < ry r + rheight r)
         (NodeMeetsLaneTitle i)"

definition node_text_problems :: "number_text \<Rightarrow> (jval \<Rightarrow> bool) \<Rightarrow> jval \<Rightarrow> jval \<Rightarrow> real \<Rightarrow> workflow_problem list" where
  "node_text_problems num marked i n width =
     problem_if (width + 6 < label_units num (field n ''label'') * (68 / 10)) (NodeLabelWide i)
     @ problem_if (brand_rail_problem num marked n width 9) (NodeMarkRail i)
     @ problem_if (text_too_wide num (field n ''sublabel'') width 6) (NodeTextWide i ''Sublabel'')
     @ problem_if (text_too_wide num (field n ''tag'') width 6) (NodeTextWide i ''Tag'')"

definition workflow_node_problems ::
  "number_text \<Rightarrow> (jval \<Rightarrow> bool) \<Rightarrow> workflow \<Rightarrow> workflow_layout \<Rightarrow> jval \<times> jval \<times> raw_rect \<Rightarrow> workflow_problem list" where
  "workflow_node_problems num marked w l e =
     (case e of (i, n, q) \<Rightarrow>
       (case map_of (lane_order w) (field n ''lane'') of
          None \<Rightarrow> [NodeLaneUnknown i]
        | Some p \<Rightarrow>
            if \<not> valid_column l (field n ''col'') then [NodeColumnInvalid i]
            else (case finite_rect q of
                None \<Rightarrow> [NodeNotNumeric i]
              | Some r \<Rightarrow> node_text_problems num marked i n (rwidth r) @ lane_bounds w l i p r)))"

section \<open>Phases and groups\<close>

definition integer_range :: "jval \<Rightarrow> bool" where
  "integer_range v \<longleftrightarrow> is_integer (field v ''fromCol'') \<and> is_integer (field v ''toCol'')"

definition phase_problems :: "number_text \<Rightarrow> workflow \<Rightarrow> workflow_layout \<Rightarrow> jval \<Rightarrow> workflow_problem list" where
  "phase_problems num w l p =
     (if \<not> integer_range p then [PhaseNotInteger (field p ''id'')]
      else problem_if (column_span p = None) (PhaseRangeInvalid (field p ''id''))
        @ problem_if (valid_column l (field p ''fromCol'') \<and> valid_column l (field p ''toCol'')
            \<and> snd (phaseSpan num w l p) + 8 < label_units num (field p ''label'') * (56 / 10)) (PhaseLabelWide (field p ''id'')))"

definition range_compare :: "jval \<Rightarrow> jval \<Rightarrow> int" where
  "range_compare a b = first_nonzero
     [three_way (number_or 0 (field a ''fromCol'')) (number_or 0 (field b ''fromCol'')),
      three_way (number_or 0 (field a ''toCol'')) (number_or 0 (field b ''toCol''))]"

definition phase_ranges :: "workflow \<Rightarrow> jval list" where
  "phase_ranges w = sort_by (\<lambda>a b. range_compare a b \<le> 0)
     (filter (\<lambda>p. integer_range p \<and> column_span p \<noteq> None) (wf_phases w))"

text \<open>A phase is compared with the later ones until one starts behind it.\<close>

fun phase_overlaps :: "jval list \<Rightarrow> workflow_problem list" where
  "phase_overlaps [] = []"
| "phase_overlaps (p # ps) =
     map (\<lambda>q. PhasesOverlap (field q ''id'') (field p ''id''))
       (takeWhile (\<lambda>q. number_or 0 (field q ''fromCol'') \<le> number_or 0 (field p ''toCol'')) ps)
     @ phase_overlaps ps"

definition frames_node :: "jval \<Rightarrow> jval \<times> jval \<times> raw_rect \<Rightarrow> bool" where
  "frames_node g e \<longleftrightarrow> (case e of (i, n, q) \<Rightarrow> field n ''lane'' = field g ''lane''
     \<and> (case number_of (field n ''col'') of
          Some c \<Rightarrow> number_or 0 (field g ''fromCol'') \<le> c \<and> c \<le> number_or 0 (field g ''toCol'') | None \<Rightarrow> False))"

definition group_problems :: "workflow \<Rightarrow> workflow_layout \<Rightarrow> jval \<Rightarrow> workflow_problem list" where
  "group_problems w l g =
     (if \<not> known_lane w (field g ''lane'') then [GroupLaneUnknown (field g ''id'')]
      else if \<not> integer_range g then [GroupNotInteger (field g ''id'')]
      else problem_if (column_span g = None) (GroupRangeInvalid (field g ''id''))
        @ problem_if (\<not> list_ex (frames_node g) (workflow_measured w l)) (GroupEmpty (field g ''id'')))"

section \<open>Edges and gates\<close>

text \<open>The sides of a routed edge: those its plan kept, else those of the legacy router.\<close>

definition routed_before :: "placed_routes \<Rightarrow> relation \<Rightarrow> placed_routes" where
  "routed_before routes e = takeWhile (\<lambda>(q, qs). q \<noteq> e) routes"

definition routed_sides :: "scene \<Rightarrow> placed_routes \<Rightarrow> relation \<Rightarrow> jval \<times> jval" where
  "routed_sides sc routes e =
     (case edge_ends sc e of
        None \<Rightarrow> (JUndef, JUndef)
      | Some (f, t) \<Rightarrow>
          if readable (sc_workflow sc) then
            (case plan_edge sc (routed_before routes e) e f t of Inr p \<Rightarrow> (rp_from p, rp_to p) | Inl x \<Rightarrow> (JUndef, JUndef))
          else edgeSides sc [] e f t)"

definition workflow_path :: "placed_routes \<Rightarrow> relation \<Rightarrow> raw_point list option" where
  "workflow_path routes e = Option.bind (route_of routes e) raw_path"

definition workflow_edge_problems :: "scene \<Rightarrow> placed_routes \<Rightarrow> nat \<times> relation \<Rightarrow> workflow_problem list" where
  "workflow_edge_problems sc routes e =
     (case e of (k, r) \<Rightarrow>
       problem_if (rel r ''from'' \<notin> fst ` set (sc_nodes sc)) (EdgeSourceUnknown k)
       @ problem_if (rel r ''to'' \<notin> fst ` set (sc_nodes sc)) (EdgeTargetUnknown k)
       @ (case route_of routes r of
            Some [a, b] \<Rightarrow> problem_if (segment_length (a, b) < 28) (EdgeTooShort k)
          | _ \<Rightarrow> []))"

definition workflow_gates :: "scene \<times> placed_routes \<Rightarrow> gate_input" where
  "workflow_gates d = (case d of (sc, routes) \<Rightarrow>
     \<lparr>gi_relations = wf_edges (sc_workflow sc), gi_obstacles = node_obstacles (sc_nodes sc), gi_ids = map fst (sc_nodes sc),
      gi_path = workflow_path routes, gi_from_side = (\<lambda>e. fst (routed_sides sc routes e)),
      gi_to_side = (\<lambda>e. snd (routed_sides sc routes e)), gi_check_sides = (\<lambda>e. True), gi_frames = scene_frames sc,
      gi_profile = field (wf_meta (sc_workflow sc)) ''quality_profile'', gi_clearance = 2,
      gi_authoritative = True, gi_merge = readable (sc_workflow sc)\<rparr>)"

section \<open>The main path\<close>

definition step_problems :: "workflow \<Rightarrow> jval \<times> jval \<Rightarrow> workflow_problem list" where
  "step_problems w s =
     (case s of (i, j) \<Rightarrow>
       (case (node_by_id w i, node_by_id w j) of
          (Some m, Some n) \<Rightarrow>
            problem_if (\<not> list_ex (\<lambda>e. rel e ''from'' = i \<and> rel e ''to'' = j) (wf_edges w)) (MainStepUnlinked i j)
            @ problem_if (case (number_of (field m ''col''), number_of (field n ''col'')) of
                 (Some a, Some b) \<Rightarrow> b < a | _ \<Rightarrow> False) (MainStepBackward i j)
        | _ \<Rightarrow> []))"

definition main_path_problems :: "workflow \<Rightarrow> workflow_problem list" where
  "main_path_problems w =
     map MainNodeUnknown (filter (\<lambda>i. \<not> known_node w i) (wf_main_path w))
     @ concat (map (step_problems w) (segments (wf_main_path w)))"

section \<open>Validation\<close>

definition workflow_nodes_finite :: "workflow \<Rightarrow> workflow_layout \<Rightarrow> bool" where
  "workflow_nodes_finite w l \<longleftrightarrow> list_all (\<lambda>e. placed_component e \<noteq> None) (workflow_measured w l)"

definition canvas_problems :: "(jstring \<Rightarrow> jstring) \<Rightarrow> workflow \<Rightarrow> workflow_layout \<Rightarrow> workflow_problem list" where
  "canvas_problems words w l =
     (if readable w then []
      else problem_if (fst (workflow_view_box words w l) < 40 + wl_lane_w l + 16) CanvasTooNarrow
        @ problem_if (snd (workflow_view_box words w l) < legendY words w l + 18) LegendBelowCanvas)"

text \<open>What depends on routes and boxes; a workflow with a node that has no numeric box is refused before.\<close>

definition drawing_problems :: "scene \<Rightarrow> placed_routes \<Rightarrow> workflow_problem list" where
  "drawing_problems sc routes =
     (let labels = workflow_labels sc routes; gates = workflow_gates (sc, routes) in
      map (\<lambda>(i, j). NodesCrowded i j) (crowded_nodes (sc_nodes sc))
      @ concat (map (workflow_edge_problems sc routes) (indexed (wf_edges (sc_workflow sc))))
      @ map WorkflowGate (route_gates None gates)
      @ main_path_problems (sc_workflow sc)
      @ map (\<lambda>(k, i). EdgeLabelOnNode k i) (labels_on_nodes (sc_nodes sc) labels)
      @ map (\<lambda>(i, j). EdgeLabelsOverlap i j) (overlapping_labels labels)
      @ map EdgeLabelClose (label_gate (sc_num sc) None gates labels))"

definition validateWorkflow ::
  "(jstring \<Rightarrow> jstring) \<Rightarrow> (jval \<Rightarrow> bool) \<Rightarrow> scene \<Rightarrow> placed_routes \<Rightarrow> workflow_problem list" where
  "validateWorkflow words marked sc routes =
     (let w = sc_workflow sc; l = sc_layout sc; num = sc_num sc in
      if structure_problems w \<noteq> [] then structure_problems w
      else (case enforceLegacyColumnCapacity w l of
          e # _ \<Rightarrow> [NoColumnCapacity e]
        | [] \<Rightarrow>
            id_problems w
            @ concat (map (workflow_node_problems num marked w l) (workflow_measured w l))
            @ concat (map (phase_problems num w l) (wf_phases w)) @ phase_overlaps (phase_ranges w)
            @ concat (map (group_problems w l) (wf_groups w))
            @ (if workflow_nodes_finite w l then drawing_problems sc routes else [])
            @ canvas_problems words w l))"

end
