(* ===== verification/WorkflowCompiler.thy ===== *)
theory WorkflowCompiler
  imports WorkflowCheck
begin

text \<open>
  \<open>compileWorkflow\<close> of \<open>renderers/workflow/workflow-compiler.mjs\<close>: the order of its stages and the value of
  each failure.  The generated schema validator is the argument \<open>valid\<close>.  A legend without room
  refuses a readable workflow when it is first measured, here before the first edge is routed.
\<close>

section \<open>Documents\<close>

definition set_member :: "string \<Rightarrow> jval \<Rightarrow> jval \<Rightarrow> jval" where
  "set_member k v j = (case j of JObj kvs \<Rightarrow> JObj (map_put (lit k) v kvs) | _ \<Rightarrow> j)"

definition with_profile :: "jval \<Rightarrow> workflow \<Rightarrow> workflow" where
  "with_profile q w =
     (if truthy q \<and> q \<noteq> field (wf_meta w) ''quality_profile''
      then w\<lparr>wf_meta := set_member ''quality_profile'' q (wf_meta w)\<rparr> else w)"

section \<open>Stages\<close>

datatype compile_result =
    SchemaRefused
  | SemanticsRefused "semantic_problem list"
  | InputRefused input_problem
  | LegendRefused legend_problem
  | EdgeRefused pin_failure
  | PairRefused pair_problem
  | LayoutRefused "workflow_problem list"
  | CanvasRefused canvas
  | Compiled scene placed_routes real real "legend_layout option"

definition workflow_legend ::
  "(jstring \<Rightarrow> jstring) \<Rightarrow> scene \<Rightarrow> placed_routes \<Rightarrow> legend_problem + legend_layout option" where
  "workflow_legend words sc routes =
     (let w = sc_workflow sc; l = sc_layout sc;
          obstacles = (if readable w then relationshipLegendObstacles (Some (wf_edges w)) (Some (\<lambda>e k. workflow_path routes e))
              (Some (\<lambda>e k. map_option raw_of (Option.bind (route_of routes e) (scene_label sc e)))) else []) in
      if workflowLegendEntries words w = [] then Inr None
      else measureLegend (workflowLegendEntries words w) (workflowLegendLayout words w l obstacles))"

text \<open>What follows the routing.\<close>

definition finish_workflow ::
  "(jstring \<Rightarrow> jstring) \<Rightarrow> (jval \<Rightarrow> bool) \<Rightarrow> scene \<Rightarrow> placed_routes \<Rightarrow> compile_result" where
  "finish_workflow words marked sc routes =
     (case validateWorkflow words marked sc routes of
        p # ps \<Rightarrow> LayoutRefused (p # ps)
      | [] \<Rightarrow> (case finalizeReadableViewBox words sc routes of
          ViewBox width height \<Rightarrow> (case workflow_legend words sc routes of
              Inl p \<Rightarrow> LegendRefused p
            | Inr legend \<Rightarrow> Compiled sc routes width height legend)
        | c \<Rightarrow> CanvasRefused c))"

text \<open>The legacy router always finds a route.\<close>

definition legacy_routes :: "scene \<Rightarrow> placed_routes" where
  "legacy_routes sc = List.map_filter (\<lambda>e. map_option (\<lambda>(f, t). (e, legacy_route sc e f t)) (edge_ends sc e))
     (wf_edges (sc_workflow sc))"

definition compile_scene ::
  "(jstring \<Rightarrow> jstring) \<Rightarrow> (jval \<Rightarrow> bool) \<Rightarrow> scene \<Rightarrow> layout_request + compile_result" where
  "compile_scene words marked sc =
     (if \<not> readable (sc_workflow sc) then Inr (finish_workflow words marked sc (legacy_routes sc))
      else (case validateReadablePinnedGeometry sc of
          EdgeFailure (RouteProblem (Feedback q)) \<Rightarrow> Inl q
        | EdgeFailure x \<Rightarrow> Inr (EdgeRefused x)
        | PairFailure p \<Rightarrow> Inr (PairRefused p)
        | Pinned routes \<Rightarrow> Inr (finish_workflow words marked sc routes)))"

definition compileWorkflowInternal ::
  "(workflow \<Rightarrow> bool) \<Rightarrow> number_text \<Rightarrow> (jstring \<Rightarrow> jstring) \<Rightarrow> (jval \<Rightarrow> bool) \<Rightarrow> workflow
   \<Rightarrow> layout_feedback \<Rightarrow> layout_request + compile_result" where
  "compileWorkflowInternal valid num words marked src fb =
     (let w = canonicalReadableWorkflow num src; l = workflow_layout_of num w fb in
      if \<not> valid src then Inr SchemaRefused
      else if semanticContractDiagnostics w \<noteq> [] then Inr (SemanticsRefused (semanticContractDiagnostics w))
      else (case validateReadableInputsBeforeRouting src l of
          p # _ \<Rightarrow> Inr (InputRefused p)
        | [] \<Rightarrow> (case workflow_scene num words w fb of
            Inl p \<Rightarrow> Inr (LegendRefused p)
          | Inr sc \<Rightarrow> compile_scene words marked sc)))"

definition compileWorkflowWithFeedback ::
  "(workflow \<Rightarrow> bool) \<Rightarrow> number_text \<Rightarrow> (jstring \<Rightarrow> jstring) \<Rightarrow> (jval \<Rightarrow> bool) \<Rightarrow> workflow
   \<Rightarrow> layout_request + compile_result" where
  "compileWorkflowWithFeedback valid num words marked src =
     feedback_rounds (compileWorkflowInternal valid num words marked src) 3 no_feedback"

definition compileWorkflow ::
  "(workflow \<Rightarrow> bool) \<Rightarrow> number_text \<Rightarrow> (jstring \<Rightarrow> jstring) \<Rightarrow> (jval \<Rightarrow> bool) \<Rightarrow> jval \<Rightarrow> workflow
   \<Rightarrow> layout_request + compile_result" where
  "compileWorkflow valid num words marked profile w =
     compileWorkflowWithFeedback valid num words marked (with_profile profile w)"

end
