(* ===== verification/WorkflowMigration.thy ===== *)
theory WorkflowMigration
  imports WorkflowCompiler
begin

text \<open>
  The migration of workflows to schema version 2: the projections and the mapping of columns of
  \<open>renderers/workflow/workflow-migration-geometry.mjs\<close>, and \<open>migrateWorkflowDocument\<close> of
  \<open>migrations/workflow-v2.mjs\<close> over the compiler.  \<open>Number(x.toFixed(6))\<close> is written out on reals.
\<close>

section \<open>Projections\<close>

definition drop_member :: "string \<Rightarrow> jval \<Rightarrow> jval" where
  "drop_member k j = (case j of JObj kvs \<Rightarrow> JObj (filter (\<lambda>(i, v). i \<noteq> lit k) kvs) | _ \<Rightarrow> j)"

definition intrinsicWorkflow :: "workflow \<Rightarrow> workflow" where
  "intrinsicWorkflow w = w\<lparr>wf_version := JNum 2, wf_meta := drop_member ''viewBox'' (wf_meta w)\<rparr>"

definition has_routed_geometry :: "relation \<Rightarrow> bool" where
  "has_routed_geometry e \<longleftrightarrow> is_array (rel e ''via'')
     \<or> truthy (rel e ''route'') \<and> rel e ''route'' \<notin> {JStr (lit ''auto''), JStr (lit ''straight'')}
     \<or> rel e ''channelX'' \<noteq> JUndef \<or> rel e ''channelY'' \<noteq> JUndef"

definition kept_members :: "string list \<Rightarrow> relation \<Rightarrow> (jstring \<times> jval) list" where
  "kept_members ks e = List.map_filter (\<lambda>k. if rel e k = JUndef then None else Some (lit k, rel e k)) ks"

text \<open>An edge reduced to what decides its rank.\<close>

definition automatic_edge :: "relation \<Rightarrow> relation" where
  "automatic_edge e = e\<lparr>object := JObj
     (kept_members [''id'', ''from'', ''to'', ''variant'', ''role'', ''width''] e
      @ (if rel e ''route'' = JStr (lit ''straight'') then [(lit ''route'', JStr (lit ''straight''))] else [])
      @ (if rel e ''labelAt'' = JUndef then kept_members [''label''] e else []))\<rparr>"

definition projected_edges :: "workflow \<Rightarrow> relation list" where
  "projected_edges w = map automatic_edge (filter (\<lambda>e. \<not> has_routed_geometry e) (wf_edges w))"

text \<open>A main path that lost one of its edges is dropped.\<close>

definition planningWorkflow :: "workflow \<Rightarrow> workflow" where
  "planningWorkflow w =
     (let es = projected_edges w; p = (intrinsicWorkflow w)\<lparr>wf_edges := es\<rparr> in
      if list_ex (\<lambda>(i, j). \<not> list_ex (\<lambda>e. rel e ''from'' = i \<and> rel e ''to'' = j) es) (segments (wf_main_path w))
      then p\<lparr>wf_main_path := []\<rparr> else p)"

section \<open>The mapping of columns\<close>

definition mappedNumber :: "real \<Rightarrow> real" where
  "mappedNumber x = (if x < 0 then - (of_int \<lfloor>- x * 1000000 + 1 / 2\<rfloor> / 1000000) else of_int \<lfloor>x * 1000000 + 1 / 2\<rfloor> / 1000000)"

definition increasing :: "real list \<Rightarrow> bool" where
  "increasing xs \<longleftrightarrow> list_all (\<lambda>(a, b). a < b) (segments xs)"

text \<open>The first segment whose right end is not left of the coordinate, else the last.\<close>

definition rank_segment :: "real list \<Rightarrow> real \<Rightarrow> nat" where
  "rank_segment xs x =
     (if x \<le> xs ! 0 then 0
      else case find (\<lambda>k. x \<le> xs ! Suc k) [0..<length xs - 1] of Some k \<Rightarrow> k | None \<Rightarrow> length xs - 2)"

definition linear_map :: "real list \<Rightarrow> real list \<Rightarrow> nat \<Rightarrow> real \<Rightarrow> real" where
  "linear_map old new k x = new ! k + (x - old ! k) / (old ! Suc k - old ! k) * (new ! Suc k - new ! k)"

definition createHorizontalRankMapper :: "real list \<Rightarrow> real list \<Rightarrow> (real \<Rightarrow> real) option" where
  "createHorizontalRankMapper old new =
     (if length old \<noteq> length new \<or> length old < 2 \<or> \<not> increasing old \<or> \<not> increasing new then None
      else Some (\<lambda>x. mappedNumber (linear_map old new (rank_segment old x) x)))"

section \<open>Authored coordinates\<close>

datatype coordinate = ViaX nat | LabelX | ChannelX

text \<open>An array with its first entry mapped, when that is a number.\<close>

definition map_first :: "(real \<Rightarrow> real) \<Rightarrow> jval \<Rightarrow> jval" where
  "map_first f v = (case v of JArr (JNum x # vs) \<Rightarrow> JArr (JNum (f x) # vs) | _ \<Rightarrow> v)"

definition map_via :: "(real \<Rightarrow> real) \<Rightarrow> jval \<Rightarrow> jval" where
  "map_via f v = (case v of JArr ps \<Rightarrow> JArr (map (map_first f) ps) | _ \<Rightarrow> v)"

definition map_number :: "(real \<Rightarrow> real) \<Rightarrow> jval \<Rightarrow> jval" where
  "map_number f v = (case v of JNum x \<Rightarrow> JNum (f x) | _ \<Rightarrow> v)"

definition update_member :: "string \<Rightarrow> (jval \<Rightarrow> jval) \<Rightarrow> jval \<Rightarrow> jval" where
  "update_member k f j = (case j of JObj kvs \<Rightarrow> JObj (map (\<lambda>(i, v). (i, if i = lit k then f v else v)) kvs) | _ \<Rightarrow> j)"

definition map_edge :: "(real \<Rightarrow> real) \<Rightarrow> relation \<Rightarrow> relation" where
  "map_edge f e = e\<lparr>object := update_member ''channelX'' (map_number f)
     (update_member ''labelAt'' (map_first f) (update_member ''via'' (map_via f) (object e)))\<rparr>"

definition first_number :: "jval \<Rightarrow> real option" where
  "first_number v = (case v of JArr (JNum x # vs) \<Rightarrow> Some x | _ \<Rightarrow> None)"

text \<open>The audit: every coordinate that moves, with its place, old and new value.\<close>

definition moved :: "(real \<Rightarrow> real) \<Rightarrow> coordinate \<times> real option \<Rightarrow> (coordinate \<times> real \<times> real) option" where
  "moved f c = (case c of (k, Some x) \<Rightarrow> if f x \<noteq> x then Some (k, x, f x) else None | _ \<Rightarrow> None)"

definition edge_coordinates :: "relation \<Rightarrow> (coordinate \<times> real option) list" where
  "edge_coordinates e =
     map (\<lambda>(k, p). (ViaX k, first_number p)) (indexed (items (rel e ''via'')))
     @ [(LabelX, first_number (rel e ''labelAt'')), (ChannelX, number_of (rel e ''channelX''))]"

definition edge_changes :: "(real \<Rightarrow> real) \<Rightarrow> nat \<times> relation \<Rightarrow> (nat \<times> coordinate \<times> real \<times> real) list" where
  "edge_changes f e = (case e of (k, r) \<Rightarrow> map (Pair k) (List.map_filter (moved f) (edge_coordinates r)))"

definition mapExplicitCoordinates ::
  "(real \<Rightarrow> real) \<Rightarrow> workflow \<Rightarrow> workflow \<times> (nat \<times> coordinate \<times> real \<times> real) list" where
  "mapExplicitCoordinates f w =
     (w\<lparr>wf_edges := map (map_edge f) (wf_edges w)\<rparr>, concat (map (edge_changes f) (indexed (wf_edges w))))"

definition createMappedWorkflowCandidate ::
  "workflow \<Rightarrow> real list \<Rightarrow> real list \<Rightarrow> (workflow \<times> (nat \<times> coordinate \<times> real \<times> real) list) option" where
  "createMappedWorkflowCandidate w old new =
     map_option (\<lambda>f. mapExplicitCoordinates f (w\<lparr>wf_version := JNum 2\<rparr>)) (createHorizontalRankMapper old new)"

section \<open>The migration\<close>

type_synonym compile_outcome = "layout_request + compile_result"

definition compile_ok :: "compile_outcome \<Rightarrow> bool" where
  "compile_ok r \<longleftrightarrow> (case r of Inr (Compiled sc routes width height legend) \<Rightarrow> True | _ \<Rightarrow> False)"

definition receipt_columns :: "compile_outcome \<Rightarrow> real list" where
  "receipt_columns r = (case r of Inr (Compiled sc routes width height legend) \<Rightarrow> wl_columns (sc_layout sc) | _ \<Rightarrow> [])"

text \<open>The canvas that a result requires; a failure names it only when the canvas itself was refused.\<close>

definition requiredViewBoxFrom :: "(jstring \<Rightarrow> jstring) \<Rightarrow> compile_outcome \<Rightarrow> (real \<times> real) option" where
  "requiredViewBoxFrom words r = (case r of
     Inr (Compiled sc routes width height legend) \<Rightarrow>
       Some (if readable (sc_workflow sc) then requiredViewBox sc (measuredContentBounds words sc routes) else (width, height))
   | Inr (CanvasRefused (BeyondOrigin x y width height)) \<Rightarrow> Some (width, height)
   | Inr (CanvasRefused (TooSmall width height)) \<Rightarrow> Some (width, height)
   | _ \<Rightarrow> None)"

definition expandableViewBox :: "compile_outcome \<Rightarrow> (real \<times> real) option" where
  "expandableViewBox r = (case r of Inr (CanvasRefused (TooSmall width height)) \<Rightarrow> Some (width, height) | _ \<Rightarrow> None)"

definition probe_node :: "jval \<Rightarrow> jval" where
  "probe_node lane = JObj [(lit ''id'', JStr (lit ''migration_probe'')), (lit ''lane'', lane), (lit ''col'', JNum 0),
     (lit ''type'', JStr (lit ''backend'')), (lit ''label'', JStr (lit ''Probe''))]"

definition legacyLayoutProbe :: "workflow \<Rightarrow> workflow" where
  "legacyLayoutProbe w =
     \<lparr>wf_version = JNum 1,
      wf_meta = JObj ([(lit ''title'', field (wf_meta w) ''title'')]
        @ (if truthy (field (wf_meta w) ''locale'') then [(lit ''locale'', field (wf_meta w) ''locale'')] else [])
        @ [(lit ''legend'', JObj [(lit ''mode'', JStr (lit ''hidden''))])]),
      wf_lanes = wf_lanes w, wf_phases = [], wf_groups = [], wf_nodes = [probe_node (field (hd (wf_lanes w)) ''id'')],
      wf_edges = [], wf_main_path = [], wf_checks = JUndef\<rparr>"

definition legacyRequirementProbe :: "workflow \<Rightarrow> workflow" where
  "legacyRequirementProbe w = w\<lparr>wf_meta := drop_member ''viewBox'' (wf_meta w)\<rparr>"

definition authored_profile :: "workflow \<Rightarrow> jval" where
  "authored_profile w = or_value (field (wf_meta w) ''quality_profile'') (JStr (lit ''standard''))"

datatype migration_diagnostics =
    NoDiagnostics
  | SchemaDiagnostics
  | CompileDiagnostics compile_outcome
  | UnknownVersion
  | NoRankMapping

record migration =
  mg_ok :: bool
  mg_document :: "workflow option"
  mg_from :: jval
  mg_existing :: migration_diagnostics
  mg_migration :: migration_diagnostics
  mg_new :: migration_diagnostics
  mg_changed :: "(nat \<times> coordinate \<times> real \<times> real) list"
  mg_old_box :: "(real \<times> real) option"
  mg_new_box :: "(real \<times> real) option"

definition no_migration :: migration where
  "no_migration = \<lparr>mg_ok = False, mg_document = None, mg_from = JNum 1, mg_existing = NoDiagnostics,
     mg_migration = NoDiagnostics, mg_new = NoDiagnostics, mg_changed = [], mg_old_box = None, mg_new_box = None\<rparr>"

definition diagnostics_of :: "compile_outcome \<Rightarrow> migration_diagnostics" where
  "diagnostics_of r = (if compile_ok r then NoDiagnostics else CompileDiagnostics r)"

definition first_box :: "'a option \<Rightarrow> 'a option \<Rightarrow> 'a option" where
  "first_box a b = (case a of None \<Rightarrow> b | Some x \<Rightarrow> Some x)"

definition size_value :: "real \<times> real \<Rightarrow> jval" where
  "size_value s = JArr [JNum (fst s), JNum (snd s)]"

text \<open>The migrated document, once more with a larger canvas when only the canvas was too small.\<close>

definition expanded_box :: "workflow \<Rightarrow> compile_outcome \<Rightarrow> (real \<times> real) option" where
  "expanded_box d r = (case (view_box (wf_meta d), expandableViewBox r) of
     (Some c, Some q) \<Rightarrow> if fst c < fst q \<or> snd c < snd q then Some (max (fst c) (fst q), max (snd c) (snd q)) else None
   | _ \<Rightarrow> None)"

definition expanded_document :: "(workflow \<Rightarrow> compile_outcome) \<Rightarrow> workflow \<Rightarrow> workflow" where
  "expanded_document compile d = (case expanded_box d (compile d) of
     Some s \<Rightarrow> d\<lparr>wf_meta := set_member ''viewBox'' (size_value s) (wf_meta d)\<rparr> | None \<Rightarrow> d)"

text \<open>A plan of the columns: the whole document, else its projection.\<close>

definition planned_columns :: "(workflow \<Rightarrow> compile_outcome) \<Rightarrow> workflow \<Rightarrow> compile_outcome" where
  "planned_columns compile w =
     (if compile_ok (compile (intrinsicWorkflow w)) then compile (intrinsicWorkflow w) else compile (planningWorkflow w))"

definition migrate_readable ::
  "(workflow \<Rightarrow> compile_outcome) \<Rightarrow> (jstring \<Rightarrow> jstring) \<Rightarrow> workflow \<Rightarrow> migration" where
  "migrate_readable compile words w =
     (let r = compile w; req = requiredViewBoxFrom words r;
          m = no_migration\<lparr>mg_from := JNum 2, mg_old_box := req, mg_new_box := req\<rparr> in
      if compile_ok r then m\<lparr>mg_ok := True, mg_document := Some w\<rparr> else m\<lparr>mg_existing := CompileDiagnostics r\<rparr>)"

text \<open>What follows the mapping of the coordinates.\<close>

definition finish_migration ::
  "(workflow \<Rightarrow> bool) \<Rightarrow> (workflow \<Rightarrow> compile_outcome) \<Rightarrow> (jstring \<Rightarrow> jstring) \<Rightarrow> compile_outcome
   \<Rightarrow> migration \<Rightarrow> workflow \<Rightarrow> migration" where
  "finish_migration valid compile words planned m mapped =
     (let d = expanded_document compile mapped; r = compile d;
          m' = m\<lparr>mg_new_box := first_box (requiredViewBoxFrom words r) (requiredViewBoxFrom words planned)\<rparr> in
      if \<not> compile_ok r then m'\<lparr>mg_new := CompileDiagnostics r\<rparr>
      else if \<not> valid d then m'\<lparr>mg_new := SchemaDiagnostics\<rparr>
      else m'\<lparr>mg_ok := True, mg_document := Some d\<rparr>)"

definition migrate_legacy ::
  "(workflow \<Rightarrow> bool) \<Rightarrow> (workflow \<Rightarrow> compile_outcome) \<Rightarrow> (jstring \<Rightarrow> jstring) \<Rightarrow> workflow \<Rightarrow> migration" where
  "migrate_legacy valid compile words w =
     (let legacy = compile w; probe = compile (legacyLayoutProbe w); planned = planned_columns compile w;
          old_box = first_box (requiredViewBoxFrom words (compile (legacyRequirementProbe w)))
            (first_box (requiredViewBoxFrom words probe) (requiredViewBoxFrom words legacy));
          m = no_migration\<lparr>mg_existing := diagnostics_of legacy, mg_old_box := old_box,
            mg_new_box := requiredViewBoxFrom words planned\<rparr> in
      if \<not> compile_ok probe then no_migration\<lparr>mg_existing := diagnostics_of legacy, mg_migration := CompileDiagnostics probe\<rparr>
      else if \<not> compile_ok planned then m\<lparr>mg_new := CompileDiagnostics planned\<rparr>
      else (case createMappedWorkflowCandidate w (receipt_columns probe) (receipt_columns planned) of
          None \<Rightarrow> m\<lparr>mg_migration := NoRankMapping\<rparr>
        | Some (mapped, changed) \<Rightarrow> finish_migration valid compile words planned (m\<lparr>mg_changed := changed\<rparr>) mapped))"

definition migrateWorkflowDocument ::
  "(workflow \<Rightarrow> bool) \<Rightarrow> number_text \<Rightarrow> (jstring \<Rightarrow> jstring) \<Rightarrow> (jval \<Rightarrow> bool) \<Rightarrow> workflow \<Rightarrow> migration" where
  "migrateWorkflowDocument valid num words marked w =
     (let compile = compileWorkflow valid num words marked (authored_profile w) in
      if \<not> valid w then no_migration\<lparr>mg_from := wf_version w, mg_existing := SchemaDiagnostics\<rparr>
      else if wf_version w = JNum 2 then migrate_readable compile words w
      else if wf_version w \<noteq> JNum 1 then no_migration\<lparr>mg_from := wf_version w, mg_migration := UnknownVersion\<rparr>
      else migrate_legacy valid compile words w)"

end
