(* ===== verification/WorkflowContractFacts.thy ===== *)
theory WorkflowContractFacts
  imports WorkflowContract
begin

text \<open>
  The semantic contract as a statement about the graph of a workflow, and the independence of the
  canonical document from the order in which a workflow was written.
\<close>

section \<open>The search\<close>

definition flow_graph :: "workflow \<Rightarrow> (jval \<times> jval) set" where
  "flow_graph w = {(a, b). a \<in> set (node_ids w) \<and> b \<in> set (node_ids w)
     \<and> (\<exists>r \<in> set (wf_edges w). rel r ''from'' = a \<and> rel r ''to'' = b)}"

lemma adjacency_graph: "b \<in> set (adjacency w a) \<longleftrightarrow> (a, b) \<in> flow_graph w"
  by (auto simp: adjacency_def known_edges_def flow_graph_def)

lemma search_reaches:
  assumes "set pending \<subseteq> set visited"
    and "\<forall>v \<in> set visited - set pending. v \<noteq> target \<and> (\<forall>b. (v, b) \<in> flow_graph w \<longrightarrow> b \<in> set visited)"
  shows "search w target visited pending \<longleftrightarrow> (\<exists>v \<in> set visited. (v, target) \<in> (flow_graph w)\<^sup>*)"
  using assms
proof (induction w target visited pending rule: search.induct)
  case (1 w target visited)
  have out: "v \<noteq> target" "\<And>b. (v, b) \<in> flow_graph w \<Longrightarrow> b \<in> set visited" if "v \<in> set visited" for v
    using 1(2) that by simp_all
  have closed: "v \<in> set visited" if "(u, v) \<in> (flow_graph w)\<^sup>*" "u \<in> set visited" for u v
    using that(1) by (induction rule: rtrancl_induct) (use that(2) out(2) in simp_all)
  show ?case using closed out(1) by (metis search.simps(1))
next
  case (2 w target visited current pending)
  show ?case
  proof (cases "current = target")
    case True
    with 2(2) show ?thesis by auto
  next
    case False
    define new where "new = filter (\<lambda>n. n \<notin> set visited) (adjacency w current)"
    have new: "b \<in> set visited \<or> b \<in> set new" if "(current, b) \<in> flow_graph w" for b
      using that by (auto simp: new_def adjacency_graph)
    have step: "search w target visited (current # pending) = search w target (visited @ new) (pending @ new)"
      using False by (simp add: new_def Let_def)
    have ih: "search w target (visited @ new) (pending @ new) \<longleftrightarrow>
        (\<exists>v \<in> set (visited @ new). (v, target) \<in> (flow_graph w)\<^sup>*)"
    proof (rule 2(1) [OF False new_def])
      show "set (pending @ new) \<subseteq> set (visited @ new)" using 2(2) by auto
      show "\<forall>v \<in> set (visited @ new) - set (pending @ new). v \<noteq> target
          \<and> (\<forall>b. (v, b) \<in> flow_graph w \<longrightarrow> b \<in> set (visited @ new))"
      proof
        fix v assume v: "v \<in> set (visited @ new) - set (pending @ new)"
        show "v \<noteq> target \<and> (\<forall>b. (v, b) \<in> flow_graph w \<longrightarrow> b \<in> set (visited @ new))"
        proof (cases "v = current")
          case True
          with False new show ?thesis by auto
        next
          case False
          with v have "v \<in> set visited - set (current # pending)" by auto
          from bspec [OF 2(3) this] show ?thesis by auto
        qed
      qed
    qed
    have "(current, v) \<in> flow_graph w" "current \<in> set visited" if "v \<in> set new" for v
      using that 2(2) by (auto simp: new_def adjacency_graph)
    then have "(\<exists>v \<in> set (visited @ new). (v, target) \<in> (flow_graph w)\<^sup>*) \<longleftrightarrow> (\<exists>v \<in> set visited. (v, target) \<in> (flow_graph w)\<^sup>*)"
      using converse_rtrancl_into_rtrancl [of current _ "flow_graph w" target] by (metis Un_iff set_append)
    then show ?thesis unfolding step ih .
  qed
qed

lemma reachable_path: "path_exists w a b \<longleftrightarrow> (a, b) \<in> (flow_graph w)\<^sup>*"
  using search_reaches [of "[a]" "[a]" b w] by (simp add: path_exists_def)

lemma no_edges: "incoming w n = 0 \<longleftrightarrow> (\<nexists>m. (m, n) \<in> flow_graph w)" "outgoing w n = 0 \<longleftrightarrow> (\<nexists>m. (n, m) \<in> flow_graph w)"
  by (auto simp: incoming_def outgoing_def known_edges_def flow_graph_def filter_empty_conv)

lemma references_known:
  assumes "\<forall>(v, p) \<in> set (referenced_nodes checks). v \<in> ids" and "v \<in> set (items (field checks ''requiredEdges''))"
  shows "field v ''from'' \<in> ids" "field v ''to'' \<in> ids"
proof -
  from assms(2) obtain i where "(i, v) \<in> set (indexed (items (field checks ''requiredEdges'')))"
    by (metis in_set_conv_nth indexed_iff)
  then have "(field v ''from'', EdgeFromAt i) \<in> set (referenced_nodes checks)"
    "(field v ''to'', EdgeToAt i) \<in> set (referenced_nodes checks)"
    by (force simp: referenced_nodes_def)+
  with assms(1) show "field v ''from'' \<in> ids" "field v ''to'' \<in> ids" by auto
qed

lemma indexed_ball: "(\<forall>x \<in> set (indexed xs). P (snd x)) \<longleftrightarrow> (\<forall>x \<in> set xs. P x)"
  by (metis image_iff list.set_map map_snd_indexed)

text \<open>C17: the semantic contract is exact: a workflow with declared checks has no diagnostic precisely when
  every node the contract names exists, every node without incoming (outgoing) edge is declared as a
  root (terminal) where those are declared, every required edge is an edge of the graph and every
  required path is a path of the graph.\<close>

theorem semantic_contract_exact:
  assumes "truthy (wf_checks w)" and "checks = wf_checks w"
  shows "semanticContractDiagnostics w = [] \<longleftrightarrow>
    (\<forall>(v, p) \<in> set (referenced_nodes checks). v \<in> set (node_ids w))
    \<and> (field checks ''allowedRoots'' \<noteq> JUndef \<longrightarrow> (\<forall>n \<in> set (node_ids w).
        (\<nexists>m. (m, n) \<in> flow_graph w) \<longrightarrow> n \<in> set (items (field checks ''allowedRoots''))))
    \<and> (field checks ''allowedTerminals'' \<noteq> JUndef \<longrightarrow> (\<forall>n \<in> set (node_ids w).
        (\<nexists>m. (n, m) \<in> flow_graph w) \<longrightarrow> n \<in> set (items (field checks ''allowedTerminals''))))
    \<and> (\<forall>v \<in> set (items (field checks ''requiredEdges'')). (field v ''from'', field v ''to'') \<in> flow_graph w)
    \<and> (\<forall>v \<in> set (items (field checks ''requiredPaths'')). (field v ''from'', field v ''to'') \<in> (flow_graph w)\<^sup>*)"
    (is "_ \<longleftrightarrow> ?known \<and> ?roots \<and> ?terminals \<and> ?edges \<and> ?paths")
proof (cases ?known)
  case False
  then have "List.map_filter (\<lambda>(v, p). if v \<in> set (node_ids w) then None else Some (UnknownSemanticNode v p))
      (referenced_nodes (wf_checks w)) \<noteq> []"
    unfolding map_filter_empty assms(2) by (fastforce split: if_splits)
  with False assms(1) show ?thesis by (simp add: semanticContractDiagnostics_def Let_def)
next
  case True
  then have none: "List.map_filter (\<lambda>(v, p). if v \<in> set (node_ids w) then None else Some (UnknownSemanticNode v p))
      (referenced_nodes checks) = []"
    using True unfolding map_filter_empty by (simp add: split_beta)
  have edge: "authored_edge w (field v ''from'') (field v ''to'') \<longleftrightarrow> (field v ''from'', field v ''to'') \<in> flow_graph w"
    if "v \<in> set (items (field checks ''requiredEdges''))" for v
    using references_known [OF True that] by (auto simp: authored_edge_def flow_graph_def list_ex_iff)
  have roots: "filter (\<lambda>n. incoming w n = 0 \<and> \<not> (field checks ''allowedRoots'' = JUndef
      \<or> n \<in> set (items (field checks ''allowedRoots'')))) (node_ids w) = [] \<longleftrightarrow> ?roots"
    unfolding filter_empty_conv no_edges by blast
  have terminals: "filter (\<lambda>n. outgoing w n = 0 \<and> \<not> (field checks ''allowedTerminals'' = JUndef
      \<or> n \<in> set (items (field checks ''allowedTerminals'')))) (node_ids w) = [] \<longleftrightarrow> ?terminals"
    unfolding filter_empty_conv no_edges by blast
  have edges: "List.map_filter (\<lambda>(i, v). if authored_edge w (field v ''from'') (field v ''to'') then None
      else Some (RequiredEdge i (field v ''from'') (field v ''to''))) (indexed (items (field checks ''requiredEdges''))) = [] \<longleftrightarrow> ?edges"
    unfolding map_filter_empty using edge indexed_ball [of _ "\<lambda>v. authored_edge w (field v ''from'') (field v ''to'')"]
    by (simp add: split_beta)
  have paths: "List.map_filter (\<lambda>(i, v). if path_exists w (field v ''from'') (field v ''to'') then None
      else Some (RequiredPath i (field v ''from'') (field v ''to''))) (indexed (items (field checks ''requiredPaths''))) = [] \<longleftrightarrow> ?paths"
    unfolding map_filter_empty using indexed_ball [of _ "\<lambda>v. path_exists w (field v ''from'') (field v ''to'')"]
    by (simp add: split_beta reachable_path)
  have t: "\<not> \<not> truthy checks" and n: "\<not> ([] :: semantic_problem list) \<noteq> []" using assms by simp_all
  have known: "?known = True" using True by simp
  show ?thesis
    unfolding semanticContractDiagnostics_def Let_def assms(2) [symmetric] none
    unfolding if_not_P [OF t] if_not_P [OF n]
    unfolding append_is_Nil_conv map_is_Nil_conv roots terminals edges paths known simp_thms by (rule TrueI)
qed

section \<open>The canonical order\<close>

definition node_key :: "number_text \<Rightarrow> workflow \<Rightarrow> jval \<Rightarrow> real \<times> real \<times> jstring" where
  "node_key num w n = (lane_rank w (field n ''lane''), number_or 0 (field n ''col''), stableText num (field n ''id''))"

definition phase_key :: "number_text \<Rightarrow> jval \<Rightarrow> real \<times> real \<times> jstring" where
  "phase_key num v = (number_or 0 (field v ''fromCol''), number_or 0 (field v ''toCol''), stableText num (field v ''id''))"

definition group_key :: "number_text \<Rightarrow> workflow \<Rightarrow> jval \<Rightarrow> real \<times> real \<times> real \<times> jstring" where
  "group_key num w v = (lane_rank w (field v ''lane''), phase_key num v)"

lemma first_nonzero_texts:
  "length xs = length ys \<Longrightarrow> first_nonzero (map2 three_way xs ys) \<le> 0 \<longleftrightarrow> xs \<le> (ys :: jstring list)"
  by (induction xs ys rule: list_induct2) (auto simp: first_nonzero_three_way simp del: first_nonzero.simps(2))

lemma node_compare_key: "node_compare num w l r \<le> 0 \<longleftrightarrow> node_key num w l \<le> node_key num w r"
  unfolding node_compare_def first_nonzero_three_way stableCompare_def node_key_def
  by (auto simp: less_eq_prod_def less_le)

lemma edge_compare_key: "edge_compare num l r \<le> 0 \<longleftrightarrow> edge_keys num l \<le> edge_keys num r"
  unfolding edge_compare_def by (rule first_nonzero_texts) (simp add: edge_keys_def)

lemma phase_compare_key: "phase_compare num l r \<le> 0 \<longleftrightarrow> phase_key num l \<le> phase_key num r"
  unfolding phase_compare_def first_nonzero_three_way stableCompare_def phase_key_def
  by (auto simp: less_eq_prod_def less_le)

lemma group_compare_key: "group_compare num w l r \<le> 0 \<longleftrightarrow> group_key num w l \<le> group_key num w r"
  unfolding group_compare_def first_nonzero_three_way group_key_def
  using phase_compare_key [of num l r] by (auto simp: less_eq_prod_def less_le)

interpretation node_order: comparator "\<lambda>l r. node_compare num w l r \<le> 0" "node_key num w"
  for num w by unfold_locales (simp_all add: node_compare_key not_le less_imp_le)

interpretation edge_order: comparator "\<lambda>l r. edge_compare num l r \<le> 0" "edge_keys num"
  for num by unfold_locales (simp_all add: edge_compare_key not_le less_imp_le)

interpretation phase_order: comparator "\<lambda>l r. phase_compare num l r \<le> 0" "phase_key num"
  for num by unfold_locales (simp_all add: phase_compare_key not_le less_imp_le)

interpretation group_order: comparator "\<lambda>l r. group_compare num w l r \<le> 0" "group_key num w"
  for num w by unfold_locales (simp_all add: group_compare_key not_le less_imp_le)

lemma same_sort:
  fixes key :: "'a \<Rightarrow> 'k::linorder"
  assumes "mset xs = mset ys" and "distinct (map key ys)" and "\<And>zs. sorted (map key (sort_by le zs))"
  shows "sort_by le xs = sort_by le ys"
  by (rule sym, rule sort_by_key_unique [OF assms(1) [symmetric] assms(2) assms(3) assms(3)])

lemma distinct_keys:
  assumes "distinct (map f xs)" and "\<And>x y. key x = key y \<Longrightarrow> f x = f y"
  shows "distinct (map key xs)"
proof -
  have "inj_on key (set xs)"
  proof (rule inj_onI)
    fix x y assume "x \<in> set xs" "y \<in> set xs" "key x = key y"
    with assms(2) [of x y] show "x = y" using assms(1) [unfolded distinct_map] by (auto dest: inj_onD)
  qed
  then show ?thesis using assms(1) by (simp add: distinct_map)
qed

text \<open>The canonical document of a readable workflow does not depend on the order in which its nodes, edges,
  phases and groups were written, when their ids (for edges, their texts) are distinct; in
  particular compiling twice starts from the same document.\<close>

lemma canonical_workflow_unique:
  assumes "readable w" and "w' = w\<lparr>wf_nodes := ns, wf_edges := es, wf_phases := ps, wf_groups := gs\<rparr>"
    and "mset ns = mset (wf_nodes w)" and "mset es = mset (wf_edges w)"
    and "mset ps = mset (wf_phases w)" and "mset gs = mset (wf_groups w)"
    and "distinct (map (\<lambda>n. stableText num (field n ''id'')) (wf_nodes w))"
    and "distinct (map (edge_keys num) (wf_edges w))"
    and "distinct (map (\<lambda>p. stableText num (field p ''id'')) (wf_phases w))"
    and "distinct (map (\<lambda>g. stableText num (field g ''id'')) (wf_groups w))"
  shows "canonicalReadableWorkflow num w' = canonicalReadableWorkflow num w"
proof -
  have lanes: "lane_rank w' = lane_rank w" by (simp add: fun_eq_iff lane_rank_def lane_order_def assms(2))
  have cmp: "node_compare num w' = node_compare num w" "group_compare num w' = group_compare num w"
    by (simp_all add: fun_eq_iff node_compare_def group_compare_def lanes)
  have nodes: "sort_by (\<lambda>l r. node_compare num w l r \<le> 0) ns = sort_by (\<lambda>l r. node_compare num w l r \<le> 0) (wf_nodes w)"
    by (rule same_sort [OF assms(3) distinct_keys [OF assms(7)] node_order.sorted_sort]) (simp add: node_key_def)
  have edges: "sort_by (\<lambda>l r. edge_compare num l r \<le> 0) es = sort_by (\<lambda>l r. edge_compare num l r \<le> 0) (wf_edges w)"
    by (rule same_sort [OF assms(4,8) edge_order.sorted_sort])
  have phases: "sort_by (\<lambda>l r. phase_compare num l r \<le> 0) ps = sort_by (\<lambda>l r. phase_compare num l r \<le> 0) (wf_phases w)"
    by (rule same_sort [OF assms(5) distinct_keys [OF assms(9)] phase_order.sorted_sort]) (simp add: phase_key_def)
  have groups: "sort_by (\<lambda>l r. group_compare num w l r \<le> 0) gs = sort_by (\<lambda>l r. group_compare num w l r \<le> 0) (wf_groups w)"
    by (rule same_sort [OF assms(6) distinct_keys [OF assms(10)] group_order.sorted_sort]) (simp add: group_key_def phase_key_def)
  show ?thesis
    using assms(1) by (simp add: canonicalReadableWorkflow_def readable_def cmp [unfolded assms(2)] assms(2) nodes edges phases groups)
qed

section \<open>A document\<close>

definition flow_step :: "string \<Rightarrow> real \<Rightarrow> jval" where
  "flow_step i c = JObj [(lit ''id'', JStr (lit i)), (lit ''lane'', JStr (lit ''main'')), (lit ''col'', JNum c)]"

definition flow_edge :: relation where
  "flow_edge = \<lparr>address = 0, object = JObj [(lit ''from'', JStr (lit ''a'')), (lit ''to'', JStr (lit ''b''))]\<rparr>"

definition contract_sample :: workflow where
  "contract_sample = \<lparr>wf_version = JNum 2, wf_meta = JObj [], wf_lanes = [JObj [(lit ''id'', JStr (lit ''main''))]],
     wf_phases = [], wf_groups = [], wf_nodes = [flow_step ''a'' 0, flow_step ''b'' 1], wf_edges = [flow_edge], wf_main_path = [],
     wf_checks = JObj [(lit ''allowedRoots'', JArr [JStr (lit ''a'')]),
       (lit ''requiredPaths'', JArr [JObj [(lit ''from'', JStr (lit ''a'')), (lit ''to'', JStr (lit ''b''))]])]\<rparr>"

lemma flow_step_fields [simp]: "field (flow_step i c) ''id'' = JStr (lit i)" "field (flow_step i c) ''col'' = JNum c"
    "rel flow_edge ''from'' = JStr (lit ''a'')" "rel flow_edge ''to'' = JStr (lit ''b'')"
  by (simp_all add: field_def flow_step_def rel_def flow_edge_def)

lemma contract_sample_fields [simp]: "node_ids contract_sample = [JStr (lit ''a''), JStr (lit ''b'')]"
    "wf_edges contract_sample = [flow_edge]" "truthy (wf_checks contract_sample)"
    "items (field (wf_checks contract_sample) ''allowedRoots'') = [JStr (lit ''a'')]"
    "items (field (wf_checks contract_sample) ''requiredPaths'') = [JObj [(lit ''from'', JStr (lit ''a'')), (lit ''to'', JStr (lit ''b''))]]"
    "field (wf_checks contract_sample) ''allowedTerminals'' = JUndef" "field (wf_checks contract_sample) ''requiredEdges'' = JUndef"
  by (simp_all add: node_ids_def contract_sample_def) (simp_all add: field_def)

lemma semantic_contract_exact_witness: "semanticContractDiagnostics contract_sample = []"
proof (subst semantic_contract_exact [OF _ refl])
  have "(JStr (lit ''a''), JStr (lit ''b'')) \<in> flow_graph contract_sample" by (simp add: flow_graph_def)
  moreover have "field (JObj [(lit ''from'', JStr (lit ''a'')), (lit ''to'', JStr (lit ''b''))]) ''from'' = JStr (lit ''a'')"
    "field (JObj [(lit ''from'', JStr (lit ''a'')), (lit ''to'', JStr (lit ''b''))]) ''to'' = JStr (lit ''b'')"
    by (simp_all add: field_def)
  ultimately show "(\<forall>(v, p) \<in> set (referenced_nodes (wf_checks contract_sample)). v \<in> set (node_ids contract_sample))
    \<and> (field (wf_checks contract_sample) ''allowedRoots'' \<noteq> JUndef \<longrightarrow> (\<forall>n \<in> set (node_ids contract_sample).
        (\<nexists>m. (m, n) \<in> flow_graph contract_sample) \<longrightarrow> n \<in> set (items (field (wf_checks contract_sample) ''allowedRoots''))))
    \<and> (field (wf_checks contract_sample) ''allowedTerminals'' \<noteq> JUndef \<longrightarrow> (\<forall>n \<in> set (node_ids contract_sample).
        (\<nexists>m. (n, m) \<in> flow_graph contract_sample) \<longrightarrow> n \<in> set (items (field (wf_checks contract_sample) ''allowedTerminals''))))
    \<and> (\<forall>v \<in> set (items (field (wf_checks contract_sample) ''requiredEdges'')). (field v ''from'', field v ''to'') \<in> flow_graph contract_sample)
    \<and> (\<forall>v \<in> set (items (field (wf_checks contract_sample) ''requiredPaths'')). (field v ''from'', field v ''to'') \<in> (flow_graph contract_sample)\<^sup>*)"
    by (auto simp: referenced_nodes_def indexed_def)
qed simp

lemma canonical_workflow_unique_witness:
  "canonicalReadableWorkflow (\<lambda>_. []) (contract_sample\<lparr>wf_nodes := [flow_step ''b'' 1, flow_step ''a'' 0]\<rparr>)
    = canonicalReadableWorkflow (\<lambda>_. []) contract_sample"
proof (rule canonical_workflow_unique)
  show "contract_sample\<lparr>wf_nodes := [flow_step ''b'' 1, flow_step ''a'' 0]\<rparr>
      = contract_sample\<lparr>wf_nodes := [flow_step ''b'' 1, flow_step ''a'' 0], wf_edges := wf_edges contract_sample,
          wf_phases := wf_phases contract_sample, wf_groups := wf_groups contract_sample\<rparr>" by simp
qed (simp_all add: contract_sample_def readable_def stableText_def shown_def)

end
