(* ===== verification/WorkflowLayoutFacts.thy ===== *)
theory WorkflowLayoutFacts
  imports WorkflowLayout WorkflowContractFacts
begin

text \<open>
  What the readable layout of a workflow guarantees: every constraint between columns holds in the
  final columns, nodes lie inside their lanes, and the frame of a group holds its members.
\<close>

section \<open>Settled columns\<close>

lemma length_push [simp]: "length (push_column xs c) = length xs"
  by (simp add: push_column_def Let_def)

lemma length_settle [simp]: "length (settle_column cs xs k) = length xs"
proof -
  have "length (foldl push_column xs ds) = length xs" for ds by (induction ds arbitrary: xs) simp_all
  then show ?thesis by (simp add: settle_column_def)
qed

lemma push_column_at:
  assumes "con_to c = k" and "k < length xs"
  shows "push_column xs c ! j = (if j = k then push_column xs c ! k else xs ! j)"
    and "xs ! k \<le> push_column xs c ! k"
    and "xs ! con_from c + con_min c \<le> push_column xs c ! k + 1 / 10000"
  using assms by (auto simp: push_column_def Let_def)

lemma pushes:
  assumes "\<forall>c \<in> set cs. con_to c = k \<and> con_from c \<noteq> k" and "k < length xs"
  shows "(\<forall>j. j \<noteq> k \<longrightarrow> foldl push_column xs cs ! j = xs ! j) \<and> xs ! k \<le> foldl push_column xs cs ! k
    \<and> (\<forall>c \<in> set cs. foldl push_column xs cs ! con_from c + con_min c \<le> foldl push_column xs cs ! k + 1 / 10000)"
  using assms
proof (induction cs arbitrary: xs)
  case (Cons c cs)
  let ?ys = "push_column xs c" and ?zs = "foldl push_column (push_column xs c) cs"
  have c: "con_to c = k" "con_from c \<noteq> k" using Cons.prems(1) by simp_all
  have same: "\<And>j. j \<noteq> k \<Longrightarrow> ?ys ! j = xs ! j" using push_column_at(1) [OF c(1) Cons.prems(2)] by simp
  have ih: "(\<forall>j. j \<noteq> k \<longrightarrow> ?zs ! j = ?ys ! j) \<and> ?ys ! k \<le> ?zs ! k
      \<and> (\<forall>c \<in> set cs. ?zs ! con_from c + con_min c \<le> ?zs ! k + 1 / 10000)"
    by (rule Cons.IH) (use Cons.prems in simp_all)
  have "?zs ! con_from c = xs ! con_from c" using ih same [OF c(2)] c(2) by simp
  then have "?zs ! con_from c + con_min c \<le> ?zs ! k + 1 / 10000"
    using push_column_at(3) [OF c(1) Cons.prems(2)] ih by linarith
  then show ?case
    using ih same push_column_at(2) [OF c(1) Cons.prems(2)] by fastforce
qed simp

lemma settle_facts:
  assumes "\<forall>c \<in> set cs. valid_constraint c" and "k < length xs"
  shows "j \<noteq> k \<Longrightarrow> settle_column cs xs k ! j = xs ! j"
    and "c \<in> set cs \<Longrightarrow> con_to c = k \<Longrightarrow>
      settle_column cs xs k ! con_from c + con_min c \<le> settle_column cs xs k ! k + 1 / 10000"
proof -
  have "\<forall>c \<in> set (filter (\<lambda>c. con_to c = k) cs). con_to c = k \<and> con_from c \<noteq> k"
    using assms(1) by (fastforce simp: valid_constraint_def)
  note p = pushes [OF this assms(2)]
  show "j \<noteq> k \<Longrightarrow> settle_column cs xs k ! j = xs ! j"
    unfolding settle_column_def using p by blast
  show "settle_column cs xs k ! con_from c + con_min c \<le> settle_column cs xs k ! k + 1 / 10000"
    if "c \<in> set cs" "con_to c = k"
    using p that unfolding settle_column_def by simp
qed

lemma settled_prefix:
  assumes "\<forall>c \<in> set cs. valid_constraint c" and "length xs = 6" and "m \<le> 6"
  shows "length (foldl (settle_column cs) xs [1..<m]) = 6
    \<and> (\<forall>c \<in> set cs. con_to c < m \<longrightarrow>
        foldl (settle_column cs) xs [1..<m] ! con_from c + con_min c \<le> foldl (settle_column cs) xs [1..<m] ! con_to c + 1 / 10000)"
  using assms(3)
proof (induction m)
  case 0
  then show ?case using assms(1,2) by simp
next
  case (Suc m)
  show ?case
  proof (cases "m = 0")
    case True
    then show ?thesis using assms(1,2) by (auto simp: valid_constraint_def)
  next
    case False
    let ?ys = "foldl (settle_column cs) xs [1..<m]"
    have ih: "length ?ys = 6" "\<forall>c \<in> set cs. con_to c < m \<longrightarrow> ?ys ! con_from c + con_min c \<le> ?ys ! con_to c + 1 / 10000"
      using Suc by auto
    have step: "foldl (settle_column cs) xs [1..<Suc m] = settle_column cs ?ys m" using False by simp
    have m: "m < length ?ys" using Suc.prems ih(1) by simp
    note s = settle_facts [OF assms(1) m]
    have "settle_column cs ?ys m ! con_from c + con_min c \<le> settle_column cs ?ys m ! con_to c + 1 / 10000"
      if c: "c \<in> set cs" "con_to c < Suc m" for c
    proof (cases "con_to c = m")
      case True
      with s(2) [OF c(1)] show ?thesis by simp
    next
      case False
      have "con_from c < con_to c" using assms(1) c(1) by (simp add: valid_constraint_def)
      with False c(2) have "con_from c \<noteq> m" "con_to c < m" by simp_all
      with s(1) False c(1) ih(2) show ?thesis by simp
    qed
    then show ?thesis unfolding step using ih(1) by simp
  qed
qed

lemma solve_columns_satisfies:
  assumes "c \<in> set cs" and "valid_constraint c"
  shows "solve_columns cs ! con_from c + con_min c \<le> solve_columns cs ! con_to c + 1 / 10000"
proof -
  let ?ds = "sort_by (\<lambda>a b. constraint_compare a b \<le> 0) (filter valid_constraint cs)"
  have v: "\<forall>c \<in> set ?ds. valid_constraint c" by simp
  have len: "length (map (\<lambda>k. 94 + real k * 120) [0..<6]) = 6" by simp
  have "c \<in> set ?ds" "con_to c < 6" using assms by (simp_all add: valid_constraint_def)
  with settled_prefix [OF v len order.refl] show ?thesis unfolding solve_columns_def by blast
qed

lemma length_solve [simp]: "length (solve_columns cs) = 6"
proof -
  have "length (foldl (settle_column ds) xs ks) = length xs" for ds xs and ks :: "nat list"
    by (induction ks arbitrary: xs) simp_all
  then show ?thesis by (simp add: solve_columns_def)
qed

lemma length_readable [simp]: "length (readable_columns num w fb) = 6"
  by (simp add: readable_columns_def shift_columns_def solved_columns_def Let_def)

text \<open>The shifts move all columns alike.\<close>

lemma readable_shift:
  obtains d where "\<And>k. k < 6 \<Longrightarrow> readable_columns num w fb ! k = solved_columns num w fb ! k + d"
proof -
  have len: "length (solved_columns num w fb) = 6" by (simp add: solved_columns_def Let_def)
  show thesis
    by (rule that [of "left_shift w (solved_columns num w fb)
        + header_shift num w (shift_columns (left_shift w (solved_columns num w fb)) (solved_columns num w fb))
        + content_shift num w (shift_columns (header_shift num w (shift_columns (left_shift w (solved_columns num w fb))
            (solved_columns num w fb))) (shift_columns (left_shift w (solved_columns num w fb)) (solved_columns num w fb)))"])
      (simp add: readable_columns_def Let_def shift_columns_def len)
qed

lemma readable_satisfies:
  assumes "c \<in> set (layout_constraints num w fb) \<or> c \<in> set (label_constraints num w)" and "valid_constraint c"
  shows "readable_columns num w fb ! con_from c + con_min c \<le> readable_columns num w fb ! con_to c + 1 / 10000"
proof -
  obtain d where d: "\<And>k. k < 6 \<Longrightarrow> readable_columns num w fb ! k = solved_columns num w fb ! k + d"
    using readable_shift [of num w fb] by blast
  have "solved_columns num w fb ! con_from c + con_min c \<le> solved_columns num w fb ! con_to c + 1 / 10000"
  proof (cases "label_constraints num w = []")
    case True
    with assms show ?thesis
      unfolding solved_columns_def Let_def if_P [OF True] by (intro solve_columns_satisfies) auto
  next
    case False
    with assms show ?thesis
      unfolding solved_columns_def Let_def if_not_P [OF False] by (intro solve_columns_satisfies) auto
  qed
  moreover have "con_from c < 6" "con_to c < 6" using assms(2) by (simp_all add: valid_constraint_def)
  ultimately show ?thesis by (simp add: d)
qed

section \<open>Lanes\<close>

lemma map_of_put: "map_of (map_put k v m) i = (if i = k then Some v else map_of m i)"
  by (induction m) auto

lemma indexed_snoc: "indexed (xs @ [x]) = indexed xs @ [(length xs, x)]"
  by (simp add: indexed_def)

lemma last_entry:
  "map_of (foldl (\<lambda>m (i, l). map_put (f l) i m) [] (indexed ls)) v = Some p \<Longrightarrow> p < length ls \<and> f (ls ! p) = v"
proof (induction ls rule: rev_induct)
  case (snoc l ls)
  then show ?case by (auto simp: indexed_snoc map_of_put nth_append split: if_splits)
qed simp

lemma lane_order_index: "map_of (lane_order w) v = Some p \<Longrightarrow> p < length (wf_lanes w) \<and> field (wf_lanes w ! p) ''id'' = v"
  unfolding lane_order_def by (rule last_entry)

text \<open>A maximum with a tolerance of a ten-thousandth.\<close>

lemma foldl_raise: "r \<le> foldl raise_past r vs \<and> (\<forall>v \<in> set vs. v \<le> foldl raise_past r vs + 1 / 10000)"
proof (induction vs arbitrary: r)
  case (Cons v vs)
  have "r \<le> raise_past r v" "v \<le> raise_past r v + 1 / 10000" by (simp_all add: raise_past_def)
  then show ?case using Cons [of "raise_past r v"] by fastforce
qed simp

lemma foldl_max: "(r::real) \<le> foldl max r vs \<and> (\<forall>v \<in> set vs. v \<le> foldl max r vs)"
  by (induction vs arbitrary: r) (auto, (meson max.boundedE)+)

lemma foldl_min: "foldl min r vs \<le> (r::real) \<and> (\<forall>v \<in> set vs. foldl min r vs \<le> v)"
  by (induction vs arbitrary: r) (auto, (meson min.boundedE)+)

lemma content_holds:
  assumes "n \<in> set (wf_nodes w)"
  shows "authoredNodeHeight n + 2 * \<bar>y_offset n\<bar> + 8 \<le> base_content w + 1 / 5000"
proof -
  have "authoredNodeHeight n / 2 + \<bar>y_offset n\<bar> \<le> vertical_extent w + 1 / 10000"
    unfolding vertical_extent_def using foldl_raise assms by fastforce
  moreover have "vertical_extent w * 2 + 8 \<le> base_content w"
    unfolding base_content_def by (meson le_of_int_ceiling max.coboundedI2)
  ultimately show ?thesis by linarith
qed

definition lane_index :: "workflow \<Rightarrow> jval \<Rightarrow> nat \<Rightarrow> bool" where
  "lane_index w n p \<longleftrightarrow> map_of (lane_order w) (field n ''lane'') = Some p"

lemma lane_reserves:
  assumes "p < length (wf_lanes w)" and "l = createReadableLayout num w fb"
  shows "laneGroupHeaderH l p = fst (lane_reserve num w (wl_columns l) (wf_lanes w ! p))"
    and "laneGroupFooterH l p = snd (lane_reserve num w (wl_columns l) (wf_lanes w ! p))"
    and "laneHeight l p = 30 + base_content w + laneGroupHeaderH l p + laneGroupFooterH l p"
  using assms by (simp_all add: laneGroupHeaderH_def laneGroupFooterH_def laneHeight_def nth_or_def createReadableLayout_def Let_def split_beta)

lemma reserve_nonneg: "0 \<le> fst (lane_reserve num w xs l)" "0 \<le> snd (lane_reserve num w xs l)"
  unfolding lane_reserve_def fst_conv snd_conv using foldl_max by blast+

lemma node_col_index: "column_index (field n ''col'') = Some k \<Longrightarrow> node_col n = real k"
  by (cases "field n ''col''") (auto simp: column_index_def node_col_def number_or_def split: if_splits)

lemma in_pairs: "a \<in> set xs \<Longrightarrow> b \<in> set xs \<Longrightarrow> a \<noteq> b \<Longrightarrow> (a, b) \<in> set (pairs_of xs) \<or> (b, a) \<in> set (pairs_of xs)"
  by (induction xs) auto

section \<open>Boxes of nodes\<close>

text \<open>A node in lane \<open>p\<close> and column \<open>k\<close> whose sizes, where written, are not zero.\<close>

definition located :: "workflow \<Rightarrow> jval \<Rightarrow> nat \<Rightarrow> nat \<Rightarrow> bool" where
  "located w n p k \<longleftrightarrow> n \<in> set (wf_nodes w) \<and> map_of (lane_order w) (field n ''lane'') = Some p
     \<and> column_index (field n ''col'') = Some k \<and> k < 6 \<and> field n ''width'' \<noteq> JNum 0 \<and> field n ''height'' \<noteq> JNum 0"

definition layout_rect :: "workflow \<Rightarrow> workflow_layout \<Rightarrow> jval \<Rightarrow> nat \<Rightarrow> nat \<Rightarrow> rect" where
  "layout_rect w l n p k = \<lparr>rx = wl_columns l ! k - authoredNodeWidth n / 2,
     ry = laneTop l p + 30 + laneGroupHeaderH l p + top_offset w n, rwidth = authoredNodeWidth n, rheight = authoredNodeHeight n\<rparr>"

lemma sized_width: "v \<noteq> JNum 0 \<Longrightarrow> nonzero_or d v = number_or d v"
  by (cases v) (auto simp: nonzero_or_def number_or_def)

lemma zero_or: "nonzero_or 0 v = number_or 0 v"
  by (cases v) (auto simp: nonzero_or_def number_or_def)

lemma authored_height: "field n ''height'' \<noteq> JNum 0 \<Longrightarrow>
  nonzero_or (if truthy (field n ''tag'') then 68 else 52) (field n ''height'') = authoredNodeHeight n"
  by (cases "field n ''height''") (auto simp: nonzero_or_def number_or_def authoredNodeHeight_def)

lemma measured_at:
  assumes "located w n p k" and "l = createReadableLayout num w fb"
  shows "snd (workflow_measureNode w l n) = raw_of (layout_rect w l n p k)"
proof -
  have p: "p < length (wf_lanes w)" using assms(1) lane_order_index by (auto simp: located_def)
  have w: "nonzero_or 92 (field n ''width'') = authoredNodeWidth n"
    using assms(1) by (simp add: located_def sized_width authoredNodeWidth_def)
  have h: "nonzero_or (if truthy (field n ''tag'') then 68 else 52) (field n ''height'') = authoredNodeHeight n"
    using assms(1) by (simp add: located_def authored_height)
  have c: "laneHeight l p - 30 - laneGroupHeaderH l p - laneGroupFooterH l p = base_content w"
    using lane_reserves(3) [OF p assms(2)] by simp
  have k: "length (wl_columns l) = 6" by (simp add: assms(2) createReadableLayout_def Let_def)
  show ?thesis
    using assms(1) unfolding workflow_measureNode_def Let_def w h c zero_or
    by (simp add: located_def k raw_of_def layout_rect_def top_offset_def y_offset_def c)
qed

text \<open>Boxes that keep a distance horizontally or vertically.\<close>

definition keep_distance :: "real \<Rightarrow> rect \<Rightarrow> rect \<Rightarrow> bool" where
  "keep_distance d r s \<longleftrightarrow> rx r + rwidth r + d \<le> rx s \<or> rx s + rwidth s + d \<le> rx r
     \<or> ry r + rheight r + d \<le> ry s \<or> ry s + rheight s + d \<le> ry r"

lemma keep_distance_sym: "keep_distance d r s \<longleftrightarrow> keep_distance d s r"
  by (auto simp: keep_distance_def)

lemma intervals_sym: "verticalIntervalsOverlap a b c \<longleftrightarrow> verticalIntervalsOverlap b a c"
  by (simp add: verticalIntervalsOverlap_def abs_minus_commute add.commute)

text \<open>The constraint of two neighbours in a lane.\<close>

lemma neighbour_constraint:
  assumes "located w a p i" and "located w b p j" and "i < j" and "verticalIntervalsOverlap a b 8"
  shows "\<lparr>con_from = i, con_to = j, con_min = authoredNodeWidth a / 2 + 8 + authoredNodeWidth b / 2\<rparr>
    \<in> set (neighbour_constraints w)"
proof -
  have cols: "node_col a = real i" "node_col b = real j" using assms(1,2) node_col_index by (simp_all add: located_def)
  have index: "column_index (field a ''col'') = Some i" "column_index (field b ''col'') = Some j"
    using assms(1,2) by (simp_all add: located_def)
  have lane: "field a ''lane'' = field b ''lane''"
    using lane_order_index [of w "field a ''lane''" p] lane_order_index [of w "field b ''lane''" p] assms(1,2)
    by (simp add: located_def)
  have "a \<noteq> b" using cols assms(3) by auto
  then have pair: "(a, b) \<in> set (pairs_of (wf_nodes w)) \<or> (b, a) \<in> set (pairs_of (wf_nodes w))"
    using in_pairs [of a "wf_nodes w" b] assms(1,2) by (simp add: located_def)
  have order: "in_order a b = (a, b)" "in_order b a = (a, b)" using cols assms(3) by (simp_all add: in_order_def)
  have differ: "node_col a \<noteq> node_col b" "node_col b \<noteq> node_col a" using cols assms(3) by simp_all
  have mirrored: "verticalIntervalsOverlap b a 8" using assms(4) intervals_sym [of a b 8] by simp
  have cs: "columns_of a b 8 = [\<lparr>con_from = i, con_to = j, con_min = authoredNodeWidth a / 2 + 8 + authoredNodeWidth b / 2\<rparr>]"
    by (simp add: columns_of_def index)
  show ?thesis
    using pair
  proof
    assume m: "(a, b) \<in> set (pairs_of (wf_nodes w))"
    show ?thesis unfolding neighbour_constraints_def set_concat set_map
      by (rule UN_I [OF imageI [OF m]]) (simp add: lane differ assms(4) order cs)
  next
    assume m: "(b, a) \<in> set (pairs_of (wf_nodes w))"
    show ?thesis unfolding neighbour_constraints_def set_concat set_map
      by (rule UN_I [OF imageI [OF m]]) (simp add: lane differ mirrored order cs)
  qed
qed

lemma same_lane_apart:
  assumes "located w a p i" and "located w b p j" and "i < j" and "l = createReadableLayout num w fb"
  shows "keep_distance (8 - 1 / 10000) (layout_rect w l a p i) (layout_rect w l b p j)"
proof (cases "verticalIntervalsOverlap a b 8")
  case True
  have xs: "wl_columns l = readable_columns num w fb" by (simp add: assms(4) createReadableLayout_def Let_def)
  have c: "\<lparr>con_from = i, con_to = j, con_min = authoredNodeWidth a / 2 + 8 + authoredNodeWidth b / 2\<rparr>
      \<in> set (layout_constraints num w fb)"
    using neighbour_constraint [OF assms(1-3) True] by (simp add: layout_constraints_def)
  have "wl_columns l ! i + (authoredNodeWidth a / 2 + 8 + authoredNodeWidth b / 2) \<le> wl_columns l ! j + 1 / 10000"
    using readable_satisfies [OF disjI1 [OF c]] assms(2,3) by (simp add: valid_constraint_def located_def xs)
  then show ?thesis by (simp add: keep_distance_def layout_rect_def)
next
  case False
  then have "authoredNodeHeight a / 2 + authoredNodeHeight b / 2 + 8 \<le> \<bar>y_offset a - y_offset b\<bar>"
    by (simp add: verticalIntervalsOverlap_def)
  then have "ry (layout_rect w l a p i) + authoredNodeHeight a + 8 \<le> ry (layout_rect w l b p j)
      \<or> ry (layout_rect w l b p j) + authoredNodeHeight b + 8 \<le> ry (layout_rect w l a p i)"
    by (simp add: layout_rect_def top_offset_def) argo
  then show ?thesis unfolding keep_distance_def by (auto simp: layout_rect_def)
qed

section \<open>Lanes\<close>

lemma laneHeight_pos: "l = createReadableLayout num w fb \<Longrightarrow> 104 \<le> laneHeight l p"
proof -
  assume l: "l = createReadableLayout num w fb"
  have base: "74 \<le> base_content w" by (simp add: base_content_def)
  show ?thesis
  proof (cases "p < length (wf_lanes w)")
    case True
    from lane_reserves [OF this l] reserve_nonneg base show ?thesis by (smt (verit))
  next
    case False
    with base show ?thesis by (simp add: laneHeight_def nth_or_def l createReadableLayout_def Let_def)
  qed
qed

lemma laneTop_Suc: "laneTop l (Suc p) = laneTop l p + laneHeight l p + wl_lane_gap l"
  by (simp add: laneTop_def algebra_simps)

lemma lanes_stack:
  assumes "p < q" and "l = createReadableLayout num w fb"
  shows "laneTop l p + laneHeight l p + 20 \<le> laneTop l q"
  using assms(1)
proof (induction q)
  case (Suc q)
  have gap: "20 \<le> wl_lane_gap l" by (simp add: assms(2) createReadableLayout_def Let_def)
  show ?case
  proof (cases "p = q")
    case True
    with gap show ?thesis by (simp add: laneTop_Suc)
  next
    case False
    with Suc have "laneTop l p + laneHeight l p + 20 \<le> laneTop l q" by simp
    with gap laneHeight_pos [OF assms(2), of q] show ?thesis by (simp add: laneTop_Suc)
  qed
qed simp

text \<open>A box stays 4 pixels inside the part of its lane below the title.\<close>

lemma inside_lane:
  assumes "located w n p k" and "l = createReadableLayout num w fb"
  shows "laneTop l p + 34 - 1 / 10000 \<le> ry (layout_rect w l n p k)"
    and "ry (layout_rect w l n p k) + rheight (layout_rect w l n p k) \<le> laneTop l p + laneHeight l p - 4 + 1 / 10000"
proof -
  have n: "n \<in> set (wf_nodes w)" and p: "p < length (wf_lanes w)"
    using assms(1) lane_order_index by (auto simp: located_def)
  have h: "0 \<le> laneGroupHeaderH l p" "0 \<le> laneGroupFooterH l p"
    using reserve_nonneg lane_reserves [OF p assms(2)] by simp_all
  have "4 - 1 / 10000 \<le> top_offset w n" "top_offset w n + authoredNodeHeight n \<le> base_content w - 4 + 1 / 10000"
    using content_holds [OF n] by (simp_all add: top_offset_def field_simps)
  with h show "laneTop l p + 34 - 1 / 10000 \<le> ry (layout_rect w l n p k)"
    "ry (layout_rect w l n p k) + rheight (layout_rect w l n p k) \<le> laneTop l p + laneHeight l p - 4 + 1 / 10000"
    by (simp_all add: layout_rect_def lane_reserves(3) [OF p assms(2)])
qed

lemma lanes_apart:
  assumes "located w a p i" and "located w b q j" and "p < q" and "l = createReadableLayout num w fb"
  shows "keep_distance (8 - 1 / 10000) (layout_rect w l a p i) (layout_rect w l b q j)"
  using inside_lane(2) [OF assms(1,4)] inside_lane(1) [OF assms(2,4)] lanes_stack [OF assms(3,4)]
  unfolding keep_distance_def by linarith

text \<open>C18: in the readable layout the boxes of any two nodes in different lanes or different columns keep
  8 pixels (less a ten-thousandth) between them, horizontally or vertically, whatever feedback the
  router gave; columns are pushed apart for wide nodes and lanes grow for tall or shifted ones.\<close>

theorem readable_nodes_apart:
  assumes "l = createReadableLayout num w fb" and "located w a p i" and "located w b q j" and "(p, i) \<noteq> (q, j)"
  shows "\<exists>r s. snd (workflow_measureNode w l a) = raw_of r \<and> snd (workflow_measureNode w l b) = raw_of s
    \<and> keep_distance (8 - 1 / 10000) r s"
proof -
  have "keep_distance (8 - 1 / 10000) (layout_rect w l a p i) (layout_rect w l b q j)"
  proof (cases p q rule: linorder_cases)
    case less
    with lanes_apart [OF assms(2,3) _ assms(1)] show ?thesis by simp
  next
    case greater
    with lanes_apart [OF assms(3,2) _ assms(1)] show ?thesis by (simp add: keep_distance_sym)
  next
    case equal
    show ?thesis
    proof (cases "i < j")
      case True
      with same_lane_apart [OF assms(2) _ _ assms(1)] assms(3) equal show ?thesis by simp
    next
      case False
      with assms(4) equal have "j < i" by simp
      with same_lane_apart [OF _ _ _ assms(1)] assms(2,3) equal show ?thesis by (metis keep_distance_sym)
    qed
  qed
  with measured_at [OF assms(2,1)] measured_at [OF assms(3,1)] show ?thesis by blast
qed

section \<open>Groups\<close>

lemma bounds_hold:
  assumes "column_span g = Some (i, j)" and "(n, k) \<in> set (group_members w g)"
  shows "fst (readableGroupBounds num w g xs) + 4 \<le> xs ! k - authoredNodeWidth n / 2"
    and "xs ! k + authoredNodeWidth n / 2 + 4 \<le> snd (readableGroupBounds num w g xs)"
proof -
  let ?ms = "map (\<lambda>(n, k). xs ! k - (authoredNodeWidth n / 2 + 4)) (group_members w g)"
  let ?ps = "map (\<lambda>(n, k). xs ! k + (authoredNodeWidth n / 2 + 4)) (group_members w g)"
  have "xs ! k - (authoredNodeWidth n / 2 + 4) \<in> set ?ms" "xs ! k + (authoredNodeWidth n / 2 + 4) \<in> set ?ps"
    using assms(2) by force+
  with foldl_min [of _ ?ms] foldl_max [of _ ?ps]
  have "foldl min a ?ms \<le> xs ! k - (authoredNodeWidth n / 2 + 4)" "xs ! k + (authoredNodeWidth n / 2 + 4) \<le> foldl max b ?ps" for a b
    by blast+
  then show "fst (readableGroupBounds num w g xs) + 4 \<le> xs ! k - authoredNodeWidth n / 2"
    "xs ! k + authoredNodeWidth n / 2 + 4 \<le> snd (readableGroupBounds num w g xs)"
    unfolding readableGroupBounds_def assms(1) Let_def by (simp_all add: algebra_simps)
qed

lemma needs_met:
  assumes "m \<in> set (group_members w g)" and "g \<in> set (wf_groups w)" and "field g ''lane'' = field lane ''id''"
  shows "header_need num w xs g m \<le> fst (lane_reserve num w xs lane)" and "footer_need w m \<le> snd (lane_reserve num w xs lane)"
proof -
  have gm: "(g, m) \<in> set (lane_members w lane)" unfolding lane_members_def using assms by auto
  show "header_need num w xs g m \<le> fst (lane_reserve num w xs lane)"
    unfolding lane_reserve_def fst_conv by (rule bspec [OF conjunct2 [OF foldl_max]]) (use gm in force)
  show "footer_need w m \<le> snd (lane_reserve num w xs lane)"
    unfolding lane_reserve_def snd_conv by (rule bspec [OF conjunct2 [OF foldl_max]]) (use gm in force)
qed

text \<open>C19: the frame of a group holds the boxes of its members: 4 pixels at the left and the right, 1 pixel
  at the top and the bottom, and no member lies under the title of the group.\<close>

theorem readable_groups_hold_members:
  assumes "l = createReadableLayout num w fb" and "readable w" and "g \<in> set (wf_groups w)" and "column_span g = Some (i, j)"
    and "(n, k) \<in> set (group_members w g)" and "located w n p k"
    and "f = group_frame num w l g"
  shows "\<exists>r. snd (workflow_measureNode w l n) = raw_of r \<and> rx f + 4 \<le> rx r \<and> rx r + rwidth r + 4 \<le> rx f + rwidth f
    \<and> ry f + 1 \<le> ry r \<and> ry r + rheight r + 1 \<le> ry f + rheight f \<and> keep_distance 0 (group_label_rect num w l g) r"
proof -
  let ?r = "layout_rect w l n p k" and ?b = "readableGroupBounds num w g (wl_columns l)"
  have n: "n \<in> set (wf_nodes w)" and p: "p < length (wf_lanes w)" "field (wf_lanes w ! p) ''id'' = field n ''lane''"
    and lane: "map_of (lane_order w) (field n ''lane'') = Some p"
    using assms(6) lane_order_index by (auto simp: located_def)
  have same: "field n ''lane'' = field g ''lane''"
    using assms(5) by (auto simp: group_members_def set_map_filter split: option.splits if_splits)
  have f: "rx f = fst ?b" "rwidth f = snd ?b - fst ?b" "ry f = laneTop l p + 38" "rheight f = laneHeight l p - 42"
    using lane same assms(2) by (simp_all add: assms(7) group_frame_def groupSpan_def lane_of_def split_beta)
  note height = lane_reserves [OF p(1) assms(1)]
  note needs = needs_met [OF assms(5,3), of "wf_lanes w ! p", folded height(1,2)]
  have head: "(if under_label num w (wl_columns l) g (n, k) then 11 else 9) - top_offset w n \<le> laneGroupHeaderH l p"
    using needs(1) same p(2) unfolding header_need_def height(1) by (smt (verit) fst_conv le_of_int_ceiling)
  have foot: "1 - (base_content w - 4 - top_offset w n - authoredNodeHeight n) \<le> laneGroupFooterH l p"
    using needs(2) same p(2) unfolding footer_need_def height(2) by (smt (verit) fst_conv le_of_int_ceiling)
  have top: "ry f + 1 \<le> ry ?r"
    using head by (simp add: f layout_rect_def split: if_splits)
  have bottom: "ry ?r + rheight ?r + 1 \<le> ry f + rheight f"
    using foot by (simp add: f layout_rect_def height(3))
  have sides: "rx f + 4 \<le> rx ?r" "rx ?r + rwidth ?r + 4 \<le> rx f + rwidth f"
    using bounds_hold [where num = num and xs = "wl_columns l", OF assms(4,5)] by (simp_all add: f layout_rect_def)
  have clear: "keep_distance 0 (group_label_rect num w l g) ?r"
  proof (cases "under_label num w (wl_columns l) g (n, k)")
    case True
    with head have "ry (group_label_rect num w l g) + 14 \<le> ry ?r"
      by (simp add: group_label_rect_def Let_def assms(7) [symmetric] f layout_rect_def)
    then show ?thesis by (simp add: keep_distance_def group_label_rect_def Let_def)
  next
    case False
    then show ?thesis
      by (simp add: keep_distance_def group_label_rect_def Let_def assms(7) [symmetric] f layout_rect_def under_label_def) linarith
  qed
  show ?thesis using measured_at [OF assms(6,1)] top bottom sides clear by blast
qed

section \<open>A workflow with a group\<close>

definition flow_group :: jval where
  "flow_group = JObj [(lit ''id'', JStr (lit ''g'')), (lit ''lane'', JStr (lit ''main'')), (lit ''fromCol'', JNum 0),
     (lit ''toCol'', JNum 1), (lit ''label'', JStr (lit ''Build''))]"

definition grouped_sample :: workflow where
  "grouped_sample = contract_sample\<lparr>wf_groups := [flow_group]\<rparr>"

lemma flow_group_fields [simp]: "field flow_group ''lane'' = JStr (lit ''main'')" "field flow_group ''fromCol'' = JNum 0"
    "field flow_group ''toCol'' = JNum 1"
  by (simp_all add: field_def flow_group_def)

lemma flow_step_more [simp]: "field (flow_step i c) ''lane'' = JStr (lit ''main'')" "field (flow_step i c) ''width'' = JUndef"
    "field (flow_step i c) ''height'' = JUndef"
  by (simp_all add: field_def flow_step_def)

lemma column_number [simp]: "column_index (JNum 0) = Some 0" "column_index (JNum 1) = Some 1"
  by (simp_all add: column_index_def)

lemma grouped_sample_parts [simp]: "wf_nodes grouped_sample = [flow_step ''a'' 0, flow_step ''b'' 1]"
    "wf_groups grouped_sample = [flow_group]" "map_of (lane_order grouped_sample) (JStr (lit ''main'')) = Some 0"
    "readable grouped_sample"
  by (simp_all add: grouped_sample_def contract_sample_def readable_def lane_order_def indexed_def) (simp add: field_def)

lemma grouped_located: "located grouped_sample (flow_step ''a'' 0) 0 0" "located grouped_sample (flow_step ''b'' 1) 0 1"
  by (simp_all add: located_def)

lemma readable_nodes_apart_witness:
  "let l = createReadableLayout (\<lambda>_. []) grouped_sample \<lparr>lf_gaps = [], lf_lane_gap = None\<rparr> in
   \<exists>r s. snd (workflow_measureNode grouped_sample l (flow_step ''a'' 0)) = raw_of r
     \<and> snd (workflow_measureNode grouped_sample l (flow_step ''b'' 1)) = raw_of s \<and> keep_distance (8 - 1 / 10000) r s"
  unfolding Let_def by (rule readable_nodes_apart [OF refl grouped_located]) simp

lemma readable_groups_hold_members_witness:
  "let l = createReadableLayout (\<lambda>_. []) grouped_sample \<lparr>lf_gaps = [], lf_lane_gap = None\<rparr>;
       f = group_frame (\<lambda>_. []) grouped_sample l flow_group in
   \<exists>r. snd (workflow_measureNode grouped_sample l (flow_step ''b'' 1)) = raw_of r \<and> rx f + 4 \<le> rx r
     \<and> rx r + rwidth r + 4 \<le> rx f + rwidth f \<and> ry f + 1 \<le> ry r \<and> ry r + rheight r + 1 \<le> ry f + rheight f
     \<and> keep_distance 0 (group_label_rect (\<lambda>_. []) grouped_sample l flow_group) r"
proof -
  have span: "column_span flow_group = Some (0, 1)" by (simp add: column_span_def)
  have m: "(flow_step ''b'' 1, 1) \<in> set (group_members grouped_sample flow_group)"
    by (simp add: group_members_def List.map_filter_simps number_or_def)
  have g: "flow_group \<in> set (wf_groups grouped_sample)" by simp
  show ?thesis unfolding Let_def
    by (rule readable_groups_hold_members [OF refl grouped_sample_parts(4) g span m grouped_located(2) refl])
qed

end
