(* ===== verification/WorkflowRouterFacts.thy ===== *)
theory WorkflowRouterFacts
  imports WorkflowRouter WorkflowLayoutFacts GeometryFacts "HOL-Library.List_Lexorder"
begin

text \<open>
  What the router of readable workflows guarantees: a route that it plans is feasible with the routes
  placed before, it is the cheapest of the plans, and the routes of a workflow keep clear of nodes and
  of each other's labels.
\<close>

section \<open>Normal forms\<close>

lemma collapsed_eq: "collapsed ps = rev (merge_collinear (rev (dedupe [] ps)))"
  by (simp add: collapsed_def normalizeRoutePoints_def)

lemma through_eq: "through s via e = collapsed (closed s via e)"
  by (simp add: through_def collapsed_def)

lemma segments_two [simp]: "segments (a # b # ps) = (a, b) # segments (b # ps)" "segments [a] = []"
  by (simp_all add: segments_def)

lemma dedupe_id:
  "\<forall>(a, b) \<in> set (segments (q # ps)). far_apart b a \<Longrightarrow> dedupe (q # acc) ps = rev ps @ q # acc"
proof (induction ps arbitrary: q acc)
  case (Cons p ps)
  then have "far_apart p q" by simp
  moreover have "dedupe (p # q # acc) ps = rev ps @ p # q # acc" by (rule Cons.IH) (use Cons.prems in simp)
  ultimately show ?case by simp
qed simp

lemma bent_tl: "bent (p # ps) \<Longrightarrow> bent ps"
  by (cases ps rule: bent.cases) auto

lemma pop_id: "bent (p # ps) \<Longrightarrow> pop_collinear ps p = ps"
  by (cases ps rule: bent.cases) auto

lemma merge_id: "bent (rev ps) \<Longrightarrow> merge_collinear ps = rev ps"
proof (induction ps rule: rev_induct)
  case Nil
  show ?case by (simp add: merge_collinear_def)
next
  case (snoc p ps)
  then have b: "bent (p # rev ps)" by simp
  with bent_tl snoc.IH have "merge_collinear ps = rev ps" by blast
  with pop_id [OF b] show ?case by (simp add: merge_snoc)
qed

lemma orthogonal_far: "orthogonalRoute ps \<Longrightarrow> \<forall>(a, b) \<in> set (segments ps). far_apart b a"
  by (auto simp: orthogonalRoute_def list_all_iff near_def far_apart_def)

lemma collapsed_facts:
  assumes "ps \<noteq> []"
  shows "bent (rev (collapsed ps))" and "collapsed ps \<noteq> []" and "hd (collapsed ps) = hd ps" and "subseq (collapsed ps) ps"
  using normalize_facts [of ps "raw_path ps"] assms by (simp_all add: collapsed_def)

lemma collapsed_id:
  assumes "ps \<noteq> []" and "orthogonalRoute (collapsed ps)"
  shows "collapsed (collapsed ps) = collapsed ps"
proof -
  let ?c = "collapsed ps"
  obtain q qs where q: "?c = q # qs" using collapsed_facts(2) [OF assms(1)] by (cases ?c) auto
  have "dedupe [] ?c = rev ?c"
    using dedupe_id [of q qs "[]"] orthogonal_far [OF assms(2)] by (simp add: q)
  then have "collapsed ?c = rev (merge_collinear ?c)" by (simp add: collapsed_eq)
  also have "\<dots> = ?c" using merge_id [OF collapsed_facts(1) [OF assms(1)]] by simp
  finally show ?thesis .
qed

text \<open>The last point survives when the point before it is far away.\<close>

lemma dedupe_snoc: "dedupe acc (ps @ [p]) =
  (case dedupe acc ps of [] \<Rightarrow> [p] | q # qs \<Rightarrow> if far_apart p q then p # q # qs else q # qs)"
proof (induction acc ps rule: dedupe.induct)
  case (1 acc)
  show ?case by (cases acc) simp_all
qed simp_all

lemma dedupe_near: "ps \<noteq> [] \<Longrightarrow> dedupe acc ps \<noteq> [] \<and> \<not> far_apart (last ps) (hd (dedupe acc ps))"
proof (induction ps rule: rev_induct)
  case (snoc p ps)
  have "\<not> far_apart p p" by (simp add: far_apart_def)
  then show ?case by (simp add: dedupe_snoc split: list.splits)
qed simp

definition distant :: "point \<Rightarrow> point \<Rightarrow> bool" where
  "distant p q \<longleftrightarrow> 1 < \<bar>fst p - fst q\<bar> \<or> 1 < \<bar>snd p - snd q\<bar>"

lemma collapsed_last:
  assumes "ps \<noteq> []" and "distant e (last ps)"
  shows "last (collapsed (ps @ [e])) = e"
proof -
  obtain q qs where q: "dedupe [] ps = q # qs" and near: "\<not> far_apart (last ps) q"
    using dedupe_near [OF assms(1), of "[]"] by (cases "dedupe [] ps") auto
  have "\<bar>fst (last ps) - fst q\<bar> \<le> 1 / 10000" "\<bar>snd (last ps) - snd q\<bar> \<le> 1 / 10000"
    using near by (simp_all add: far_apart_def)
  then have "1 < \<bar>fst e - fst (last ps)\<bar> \<Longrightarrow> 1 / 10000 < \<bar>fst e - fst q\<bar>"
    "1 < \<bar>snd e - snd (last ps)\<bar> \<Longrightarrow> 1 / 10000 < \<bar>snd e - snd q\<bar>" by linarith+
  then have "far_apart e q" using assms(2) unfolding far_apart_def distant_def by blast
  then have d: "dedupe [] (ps @ [e]) = e # q # qs" by (simp add: dedupe_snoc q)
  have "hd (merge_collinear (rev (e # q # qs))) = e" using merge_facts [of "rev (e # q # qs)"] by simp
  then show ?thesis using merge_facts [of "rev (e # q # qs)"] by (simp add: collapsed_eq d last_rev)
qed

lemma ends_inner: "2 \<le> length ps \<Longrightarrow> hd ps # butlast (tl ps) @ [last ps] = ps"
  by (cases ps; cases "tl ps") auto

text \<open>Routing once more through the inner points of a normal route gives the route.\<close>

lemma through_inner:
  assumes "ps = through s via e" and "2 \<le> length ps" and "orthogonalRoute ps" and "last ps = e"
  shows "through s (butlast (tl ps)) e = ps"
proof -
  have ne: "closed s via e \<noteq> []" by (simp add: closed_def)
  have s: "hd ps = s" using collapsed_facts(3) [OF ne] by (simp add: assms(1) through_eq closed_def)
  have "closed s (butlast (tl ps)) e = ps" using ends_inner [OF assms(2)] by (simp add: closed_def s assms(4))
  then have "through s (butlast (tl ps)) e = collapsed ps" by (simp add: through_eq)
  also have "\<dots> = ps" using collapsed_id [OF ne] assms(3) by (simp add: assms(1) through_eq)
  finally show ?thesis .
qed

section \<open>The outside channel\<close>

lemma refine_sound:
  assumes "\<And>x qs. at_x x = Some qs \<Longrightarrow> P qs" and "P ps"
  shows "P (refine_channel at_x n good ps bad)"
  using assms(2)
proof (induction n arbitrary: good ps bad)
  case (Suc n)
  then show ?case by (simp add: Let_def assms(1) split: option.split)
qed simp

lemma probe_sound:
  assumes "\<And>x qs. at_x x = Some qs \<Longrightarrow> P qs" and "probe_channel at_x n base x growth bad = Some ps"
  shows "P ps"
  using assms(2)
proof (induction n arbitrary: x growth bad)
  case (Suc n)
  show ?case
  proof (cases "base + 1 / 10000 < x")
    case True
    show ?thesis
    proof (cases "at_x x")
      case None
      with Suc True show ?thesis by simp
    next
      case (Some qs)
      with Suc.prems True have "ps = refine_channel at_x 53 x qs bad" by simp
      with refine_sound [of at_x P, OF assms(1) assms(1) [OF Some]] show ?thesis by simp
    qed
  next
    case False
    with Suc show ?thesis by simp
  qed
qed simp

lemma stub_distant: "ts \<in> set side_order \<Longrightarrow> distant e (outward_stub e ts)"
  by (auto simp: side_order_def outward_stub_def PORT_OUTWARD_VECTOR_def side_name_def stub_def distant_def
      LEFT_def RIGHT_def TOP_def BOTTOM_def)

lemma corridor_last: "ts \<in> set side_order \<Longrightarrow> last (through s (corridorViaX s e fs ts x) e) = e"
  using collapsed_last [of "s # corridorViaX s e fs ts x" e] stub_distant [of ts e]
  by (simp add: through_eq closed_def corridorViaX_def Let_def)

lemma channel_sound:
  assumes "outside_channel sc placed e f t s en fs ts = Some ps" and "ts \<in> set side_order"
  shows "readableCandidateIsFeasible sc placed e ps (pn_box f) (pn_box t) fs ts \<and> through s (butlast (tl ps)) en = ps"
proof -
  have "readableCandidateIsFeasible sc placed e ps (pn_box f) (pn_box t) fs ts \<and> through s (butlast (tl ps)) en = ps"
    if "channel_route sc placed e f t s en fs ts x = Some ps" for x ps
  proof -
    from that have ps: "ps = through s (corridorViaX s en fs ts x) en"
      and ok: "readableCandidateIsFeasible sc placed e ps (pn_box f) (pn_box t) fs ts"
      by (auto simp: channel_route_def Let_def split: if_splits)
    from ok have "2 \<le> length ps" "orthogonalRoute ps" by (simp_all add: readableCandidateIsFeasible_def)
    with through_inner [OF ps] corridor_last [OF assms(2)] ok show ?thesis by (simp add: ps)
  qed
  note sound = probe_sound [of _ "\<lambda>ps. readableCandidateIsFeasible sc placed e ps (pn_box f) (pn_box t) fs ts
    \<and> through s (butlast (tl ps)) en = ps", OF this]
  show ?thesis by (rule sound) (use assms(1) in \<open>simp_all add: outside_channel_def Let_def\<close>)
qed

section \<open>Plans\<close>

definition plan_ok :: "scene \<Rightarrow> placed_routes \<Rightarrow> relation \<Rightarrow> placed_node \<Rightarrow> placed_node \<Rightarrow> route_plan \<Rightarrow> bool" where
  "plan_ok sc placed e f t p \<longleftrightarrow>
     readableCandidateIsFeasible sc placed e (rp_points p) (pn_box f) (pn_box t) (rp_from p) (rp_to p)"

lemma set_cost_sort [simp]: "set (cost_sort ps) = set ps"
  by (simp add: cost_sort_def)

lemma cost_sort_Nil [simp]: "cost_sort ps = [] \<longleftrightarrow> ps = []"
  unfolding cost_sort_def length_0_conv [symmetric] by simp

lemma candidates_ok:
  "p \<in> set (readableAutomaticCandidateSet sc placed e f t s en fs ts k nf nt) \<Longrightarrow> plan_ok sc placed e f t p"
  by (auto simp: readableAutomaticCandidateSet_def plan_ok_def)

lemma attempt_ok:
  assumes "automatic_attempt sc placed e f t ports (i, fs, ts) = Inr plans" and "ts \<in> set side_order" and "p \<in> set plans"
  shows "plan_ok sc placed e f t p"
proof -
  define s where "s = end_point (pn_box f) fs (fst ports) i"
  define en where "en = end_point (pn_box t) ts (snd ports) i"
  define cs where "cs = attempt_candidates sc placed e f t ports (i, fs, ts)"
  note attempt = assms(1) [unfolded automatic_attempt_def prod.case Let_def, folded s_def en_def, folded cs_def]
  show ?thesis
  proof (cases "cs = []")
    case False
    with attempt assms(3) have "p \<in> set cs" by simp
    then show ?thesis unfolding cs_def attempt_candidates_def prod.case by (rule candidates_ok)
  next
    case True
    have none: "readableAutomaticCandidateSet sc placed e f t s en fs ts 0 fs ts = []"
      using True unfolding cs_def attempt_candidates_def prod.case readableAutomaticCandidateSet_def by (simp add: s_def en_def)
    from attempt True obtain via where v: "readableAutomaticVia sc placed e f t s en fs ts = Inr via"
      and p: "rp_points p = through s via en" "rp_from p = fs" "rp_to p = ts"
      using assms(3) by (auto split: sum.splits)
    from v none obtain ps where ps: "outside_channel sc placed e f t s en fs ts = Some ps" and "via = butlast (tl ps)"
      by (auto simp: readableAutomaticVia_def split: option.splits)
    with channel_sound [OF ps assms(2)] p show ?thesis by (simp add: plan_ok_def)
  qed
qed

text \<open>Only the four sides are tried when the authored ones are among them.\<close>

definition known_sides :: "relation \<Rightarrow> bool" where
  "known_sides e \<longleftrightarrow> (\<forall>k \<in> {''fromSide'', ''toSide''}. \<forall>v. authored_side (rel e k) = Some v \<longrightarrow> v \<in> set side_order)"

definition known_pair :: "jval \<times> jval \<Rightarrow> bool" where
  "known_pair p \<longleftrightarrow> fst p \<in> set side_order \<and> snd p \<in> set side_order"

lemma side_order_mem [simp]: "LEFT \<in> set side_order" "RIGHT \<in> set side_order" "TOP \<in> set side_order" "BOTTOM \<in> set side_order"
  by (simp_all add: side_order_def)

lemma default_known: "defaultFromSide f t \<in> set side_order" "defaultToSide f t \<in> set side_order"
  by (simp_all add: defaultFromSide_def defaultToSide_def)

lemma choices_known: "known_sides e \<Longrightarrow> k \<in> {''fromSide'', ''toSide''} \<Longrightarrow>
  set (side_choices (authored_side (rel e k))) \<subseteq> set side_order"
  by (auto simp: known_sides_def side_choices_def split: option.splits)

lemma pairs_known:
  assumes "known_sides e" and "\<forall>p \<in> set ps. known_pair p" and "p \<in> set (side_pairs e ps)"
  shows "known_pair p"
proof -
  from assms(3) have "p \<in> set ps \<or> p \<in> set (side_choices (authored_side (rel e ''fromSide''))) \<times> set (side_choices (authored_side (rel e ''toSide'')))"
    by (auto simp: side_pairs_def Let_def)
  then show ?thesis
    using assms(2) choices_known [OF assms(1), of "''fromSide''"] choices_known [OF assms(1), of "''toSide''"]
    by (auto simp: known_pair_def)
qed

lemma natural_known: "known_sides e \<Longrightarrow> known_pair (natural_sides e f t)"
  using default_known by (auto simp: natural_sides_def known_pair_def known_sides_def some_or_def split: option.splits)

lemma legacy_known: "legacyAutomaticOneBendSides ns e f t = Some p \<Longrightarrow> known_pair p"
  by (auto simp: legacyAutomaticOneBendSides_def Let_def known_pair_def find_Some_iff less_Suc_eq nth_Cons'
      split: if_splits)

lemma pair_candidates_sides:
  "p \<in> set (pair_candidates sc placed e f t (i, fs, ts)) \<Longrightarrow> rp_from p = fs \<and> rp_to p = ts"
  by (auto simp: pair_candidates_def readableAutomaticCandidateSet_def)

lemma automatic_sides_known:
  assumes "known_sides e" and "readableAutomaticSides sc placed e f t = Some p"
  shows "known_pair p"
proof -
  define pairs where "pairs = side_pairs e ((case legacyAutomaticOneBendSides (sc_nodes sc) e f t of Some p \<Rightarrow> [p] | None \<Rightarrow> [])
            @ [natural_sides e f t])"
  have known: "q \<in> set pairs \<Longrightarrow> known_pair q" for q
    unfolding pairs_def by (rule pairs_known [OF assms(1)])
      (use natural_known [OF assms(1)] legacy_known in \<open>auto split: option.splits\<close>)
  let ?all = "concat (map (pair_candidates sc placed e f t) (indexed pairs))"
  show ?thesis
  proof (cases "pairs \<noteq> [] \<and> pair_candidates sc placed e f t (0, hd pairs) \<noteq> []")
    case True
    with assms(2) have "p = hd pairs"
      unfolding readableAutomaticSides_def Let_def pairs_def [symmetric] by (simp split: if_splits)
    with True known show ?thesis by simp
  next
    case False
    with assms(2) obtain q qs where q: "cost_sort ?all = q # qs" and p: "p = (rp_from q, rp_to q)"
      unfolding readableAutomaticSides_def Let_def pairs_def [symmetric] if_not_P [OF False]
      by (simp split: if_splits list.splits)
    have "q \<in> set (cost_sort ?all)" using q by simp
    then have "q \<in> set ?all" by (simp only: set_cost_sort)
    then obtain i fs ts where i: "q \<in> set (pair_candidates sc placed e f t (i, fs, ts))" "(i, fs, ts) \<in> set (indexed pairs)"
      by auto
    have "(fs, ts) \<in> set pairs" using i(2) nth_mem [of i pairs] by (simp add: indexed_iff)
    with known pair_candidates_sides [OF i(1)] p show ?thesis by auto
  qed
qed

lemma connection_known: "known_sides e \<Longrightarrow> known_pair (connectionSides e f t)"
  using default_known by (auto simp: connectionSides_def chosenSide_def known_pair_def known_sides_def authored_side_def)

lemma edgeSides_known:
  assumes "known_sides e"
  shows "known_pair (edgeSides sc placed e f t)"
proof (cases "if readable (sc_workflow sc) then readableAutomaticSides sc placed e f t
    else legacyAutomaticOneBendSides (sc_nodes sc) e f t")
  case None
  have top: "known_pair (TOP, TOP)" by (simp add: known_pair_def)
  have "edgeSides sc placed e f t = (TOP, TOP) \<or> edgeSides sc placed e f t = connectionSides e (pn_box f) (pn_box t)"
    unfolding edgeSides_def None option.case by metis
  with top connection_known [OF assms] show ?thesis by metis
next
  case (Some p)
  then have "known_pair p" using automatic_sides_known [OF assms] legacy_known by (auto split: if_splits)
  then show ?thesis unfolding edgeSides_def Some by simp
qed

section \<open>Automatic routes\<close>

lemma automatic_ok:
  assumes "readableAutomaticRoute sc placed e f t sides ports = Inr p" and "known_sides e" and "known_pair sides"
  shows "plan_ok sc placed e f t p"
proof -
  let ?rs = "map (automatic_attempt sc placed e f t ports) (indexed (side_pairs e [sides]))"
  from assms(1) obtain qs where "cost_sort (plans_of ?rs) = p # qs"
    by (auto simp: readableAutomaticRoute_def Let_def split: list.splits)
  then have "p \<in> set (plans_of ?rs)" by (metis list.set_intros(1) set_cost_sort)
  then obtain i fs ts plans where a: "automatic_attempt sc placed e f t ports (i, fs, ts) = Inr plans" "p \<in> set plans"
    and m: "(i, fs, ts) \<in> set (indexed (side_pairs e [sides]))"
    unfolding plans_of_def by (auto split: sum.splits dest: sym)
  have "(fs, ts) \<in> set (side_pairs e [sides])" using m nth_mem [of i "side_pairs e [sides]"] by (simp add: indexed_iff)
  then have "known_pair (fs, ts)" by (rule pairs_known [OF assms(2), rotated]) (simp add: assms(3))
  then have "ts \<in> set side_order" by (simp add: known_pair_def)
  from attempt_ok [OF a(1) this a(2)] show ?thesis .
qed

lemma path_ok:
  assumes "pathFor sc placed e f t = Inr ps" and "readable (sc_workflow sc)" and "\<not> isReadableControlledRoute sc e"
    and "known_sides e"
  shows "\<exists>fs ts. readableCandidateIsFeasible sc placed e ps (pn_box f) (pn_box t) fs ts"
proof -
  from assms(1-3) obtain p ports where "readableAutomaticRoute sc placed e f t (planned_sides sc placed e f t) ports = Inr p"
    and ps: "ps = rp_points p"
    by (auto simp: pathFor_def plan_edge_def Let_def map_sum_def split: sum.splits)
  then have "plan_ok sc placed e f t p"
    using automatic_ok [OF _ assms(4)] by (simp add: planned_sides_def edgeSides_known [OF assms(4)])
  then show ?thesis unfolding plan_ok_def ps by blast
qed

section \<open>The routes of a workflow\<close>

text \<open>The entry at position \<open>k\<close> was planned when the entries before it were placed.\<close>

definition planned_at :: "scene \<Rightarrow> placed_routes \<Rightarrow> nat \<Rightarrow> bool" where
  "planned_at sc placed k \<longleftrightarrow>
     (case placed ! k of (e, ps) \<Rightarrow> e \<in> set (wf_edges (sc_workflow sc)) \<and>
       (\<exists>f t. edge_ends sc e = Some (f, t) \<and> pathFor sc (take k placed) e f t = Inr ps))"

lemma route_edges_planned:
  assumes "route_edges sc placed es = Inr routes" and "set es \<subseteq> set (wf_edges (sc_workflow sc))"
    and "\<forall>k < length placed. planned_at sc placed k"
  shows "\<forall>k < length routes. planned_at sc routes k"
  using assms
proof (induction es arbitrary: placed)
  case (Cons e es)
  show ?case
  proof (cases "edge_ends sc e")
    case None
    with Cons show ?thesis by simp
  next
    case (Some ft)
    obtain f t where ft: "ft = (f, t)" by force
    from Cons.prems(1) Some obtain ps where ps: "pathFor sc placed e f t = Inr ps"
      and rest: "route_edges sc (placed @ [(e, ps)]) es = Inr routes"
      by (auto simp: ft split: sum.splits)
    have "planned_at sc (placed @ [(e, ps)]) k" if k: "k < length (placed @ [(e, ps)])" for k
    proof (cases "k < length placed")
      case True
      with Cons.prems(3) show ?thesis by (simp add: planned_at_def nth_append)
    next
      case False
      with k have "k = length placed" by simp
      then show ?thesis using Cons.prems(2) Some ps by (simp add: planned_at_def ft)
    qed
    with Cons.IH [OF rest] Cons.prems(2) show ?thesis by simp
  qed
qed simp

lemma automatic_planned:
  assumes "planned_at sc placed k" and "readable (sc_workflow sc)" and "placed ! k = (e, ps)"
    and "\<not> isReadableControlledRoute sc e" and "\<forall>e \<in> set (wf_edges (sc_workflow sc)). known_sides e"
  shows "\<exists>f t fs ts. edge_ends sc e = Some (f, t)
    \<and> readableCandidateIsFeasible sc (take k placed) e ps (pn_box f) (pn_box t) fs ts"
  using assms path_ok by (fastforce simp: planned_at_def)

lemma feasible_shape:
  assumes "readableCandidateIsFeasible sc placed e ps f t fs ts"
  shows "2 \<le> length ps" and "\<forall>(a, b) \<in> set (segments ps). near (fst b) (fst a) \<noteq> near (snd b) (snd a)"
    and "\<forall>q \<in> set ps. 0 \<le> fst q \<and> 0 \<le> snd q"
  using assms
  by (simp_all add: readableCandidateIsFeasible_def orthogonalRoute_def routeFitsCanvasOrigin_def
      routeExtentCoordinates_def list_all_iff split_beta)

lemma feasible_unrelated:
  assumes "readableCandidateIsFeasible sc placed e ps f t fs ts"
  shows "\<forall>(i, n) \<in> set (sc_nodes sc). bid (pn_box n) \<noteq> rel e ''from'' \<and> bid (pn_box n) \<noteq> rel e ''to'' \<longrightarrow>
      (\<forall>(a, b) \<in> set (segments ps). \<not> segmentIntersectsRect a b (rect_of (pn_box n)) 2)"
  using assms unfolding readableCandidateIsFeasible_def routeClearsUnrelatedNodes_def list_all_iff by blast

lemma feasible_clears: "readableCandidateIsFeasible sc placed e ps f t fs ts \<Longrightarrow> x \<in> set placed \<Longrightarrow> clears_placed sc e ps x"
  by (simp add: readableCandidateIsFeasible_def routeClearsPlacedLabels_def list_all_iff)

lemma clears_apart:
  "clears_placed sc e ps (q, qs) \<Longrightarrow>
    (\<forall>r s. scene_label sc e ps = Some r \<and> scene_label sc q qs = Some s \<longrightarrow> \<not> finite_rects_overlap r s (- 2))
    \<and> (\<forall>r. scene_label sc e ps = Some r \<longrightarrow> (\<forall>(a, b) \<in> set (segments qs). 4 \<le> clearance_of a b r + 1 / 10000))
    \<and> (\<forall>r. scene_label sc q qs = Some r \<longrightarrow> (\<forall>(a, b) \<in> set (segments ps). 4 \<le> clearance_of a b r + 1 / 10000))"
  by (auto simp: clears_placed_def clear_of_label_def list_all_iff)

lemma feasible_label:
  assumes "readableCandidateIsFeasible sc placed e ps f t fs ts" and "scene_label sc e ps = Some r" and "\<not> truthy (rel e ''labelAt'')"
  shows "0 \<le> rx r" "0 \<le> ry r" "(i, n) \<in> set (sc_nodes sc) \<Longrightarrow> \<not> finite_rects_overlap r (rect_of (pn_box n)) (- 2)"
  using assms by (auto simp: readableCandidateIsFeasible_def routeFitsCanvasOrigin_def routeExtentCoordinates_def
      routeLabelClearsNodes_def list_all_iff)

text \<open>C30: the automatic routes of a readable workflow: when the edges can be routed, every edge without authored
  geometry runs in horizontal and vertical segments at coordinates that are not negative (the other
  bounds of the canvas come later, from what is drawn) and comes no closer than two pixels to a node it
  does not join; its label, unless placed by hand, overlaps no node; its label and the labels of the edges
  routed before it do not overlap, nor does one of the two routes come closer than 4 pixels to the label of
  the other.\<close>

theorem readable_routes_sound:
  assumes "workflow_routes sc = Inr routes" and "readable (sc_workflow sc)"
    and "\<forall>e \<in> set (wf_edges (sc_workflow sc)). known_sides e"
    and "k < length routes" and "routes ! k = (e, ps)" and "\<not> isReadableControlledRoute sc e"
  shows "2 \<le> length ps \<and> (\<forall>(a, b) \<in> set (segments ps). near (fst b) (fst a) \<noteq> near (snd b) (snd a))
    \<and> (\<forall>q \<in> set ps. 0 \<le> fst q \<and> 0 \<le> snd q)
    \<and> (\<forall>r. scene_label sc e ps = Some r \<longrightarrow> \<not> truthy (rel e ''labelAt'') \<longrightarrow> 0 \<le> rx r \<and> 0 \<le> ry r
        \<and> (\<forall>(i, n) \<in> set (sc_nodes sc). \<not> finite_rects_overlap r (rect_of (pn_box n)) (- 2)))
    \<and> (\<forall>(i, n) \<in> set (sc_nodes sc). bid (pn_box n) \<noteq> rel e ''from'' \<and> bid (pn_box n) \<noteq> rel e ''to'' \<longrightarrow>
        (\<forall>(a, b) \<in> set (segments ps). \<not> segmentIntersectsRect a b (rect_of (pn_box n)) 2))
    \<and> (\<forall>j < k. \<forall>q qs. routes ! j = (q, qs) \<longrightarrow>
        (\<forall>r s. scene_label sc e ps = Some r \<and> scene_label sc q qs = Some s \<longrightarrow> \<not> finite_rects_overlap r s (- 2))
        \<and> (\<forall>r. scene_label sc e ps = Some r \<longrightarrow> (\<forall>(a, b) \<in> set (segments qs). 4 \<le> clearance_of a b r + 1 / 10000))
        \<and> (\<forall>r. scene_label sc q qs = Some r \<longrightarrow> (\<forall>(a, b) \<in> set (segments ps). 4 \<le> clearance_of a b r + 1 / 10000)))"
proof -
  have "\<forall>k < length routes. planned_at sc routes k"
    using route_edges_planned [of sc "[]"] assms(1) by (simp add: workflow_routes_def)
  with assms(4) have "planned_at sc routes k" by simp
  from automatic_planned [OF this assms(2,5,6,3)] obtain f t :: placed_node and fs ts where
    ok: "readableCandidateIsFeasible sc (take k routes) e ps (pn_box f) (pn_box t) fs ts" by blast
  have "routes ! j \<in> set (take k routes)" if "j < k" for j
    using that assms(4) nth_mem [of j "take k routes"] by simp
  with feasible_clears [OF ok] have "\<forall>j < k. clears_placed sc e ps (routes ! j)" by simp
  with clears_apart have "\<forall>j < k. \<forall>q qs. routes ! j = (q, qs) \<longrightarrow>
        (\<forall>r s. scene_label sc e ps = Some r \<and> scene_label sc q qs = Some s \<longrightarrow> \<not> finite_rects_overlap r s (- 2))
        \<and> (\<forall>r. scene_label sc e ps = Some r \<longrightarrow> (\<forall>(a, b) \<in> set (segments qs). 4 \<le> clearance_of a b r + 1 / 10000))
        \<and> (\<forall>r. scene_label sc q qs = Some r \<longrightarrow> (\<forall>(a, b) \<in> set (segments ps). 4 \<le> clearance_of a b r + 1 / 10000))"
    by metis
  moreover have "\<forall>r. scene_label sc e ps = Some r \<longrightarrow> \<not> truthy (rel e ''labelAt'') \<longrightarrow> 0 \<le> rx r \<and> 0 \<le> ry r
        \<and> (\<forall>(i, n) \<in> set (sc_nodes sc). \<not> finite_rects_overlap r (rect_of (pn_box n)) (- 2))"
    using feasible_label [OF ok] by blast
  ultimately show ?thesis using feasible_shape [OF ok] feasible_unrelated [OF ok] by blast
qed

section \<open>The cheapest plan\<close>

lemma lexicographic:
  "length xs = length ys \<Longrightarrow> first_nonzero (map2 three_way xs ys) \<le> 0 \<longleftrightarrow> xs \<le> (ys :: real list)"
  by (induction xs ys rule: list_induct2) (auto simp: first_nonzero_three_way simp del: first_nonzero.simps(2))

lemma compareCost_key: "compareCost l r \<le> 0 \<longleftrightarrow> dimensions l \<le> dimensions r"
  unfolding compareCost_def by (rule lexicographic) (simp add: dimensions_def)

interpretation plan_order: comparator "\<lambda>l r. compareCost (rp_cost l) (rp_cost r) \<le> 0" "\<lambda>p. dimensions (rp_cost p)"
  by unfold_locales (simp_all add: compareCost_key not_le less_imp_le)

lemma cheapest_first: "cost_sort ps = p # qs \<Longrightarrow> q \<in> set ps \<Longrightarrow> dimensions (rp_cost p) \<le> dimensions (rp_cost q)"
  using plan_order.sorted_sort [of ps] set_cost_sort [of ps] by (auto simp: cost_sort_def)

lemma attempt_plans:
  assumes "y \<in> set xs" and "r \<in> set (attempt_candidates sc placed e f t ports y)"
  shows "r \<in> set (plans_of (map (automatic_attempt sc placed e f t ports) xs))"
proof -
  obtain i fs ts where y: "y = (i, fs, ts)" by (cases y) auto
  have "attempt_candidates sc placed e f t ports (i, fs, ts) \<noteq> []" using assms(2) y by auto
  then have "automatic_attempt sc placed e f t ports y = Inr (attempt_candidates sc placed e f t ports y)"
    by (simp add: automatic_attempt_def y Let_def)
  with assms show ?thesis unfolding plans_of_def by force
qed

lemma automatic_route_found:
  assumes "x \<in> set (indexed (side_pairs e [sides]))" and "q \<in> set (attempt_candidates sc placed e f t ports x)"
  shows "\<exists>p. readableAutomaticRoute sc placed e f t sides ports = Inr p
    \<and> (\<exists>ps. cost_sort (plans_of (map (automatic_attempt sc placed e f t ports) (indexed (side_pairs e [sides])))) = p # ps)"
proof -
  let ?rs = "map (automatic_attempt sc placed e f t ports) (indexed (side_pairs e [sides]))"
  have "cost_sort (plans_of ?rs) \<noteq> []" using attempt_plans [OF assms] by auto
  then obtain p ps where p: "cost_sort (plans_of ?rs) = p # ps" by (cases "cost_sort (plans_of ?rs)") auto
  then show ?thesis by (simp add: readableAutomaticRoute_def Let_def)
qed

text \<open>C31: the automatic route is the cheapest: when a candidate of one of the pairs of sides is feasible, the
  edge is routed, and no feasible candidate of any pair costs less in the order of the dimensions
  (backward moves, crossings, shared corridors, label clearance, short turns, bends, stretch, ...).\<close>

theorem automatic_route_cheapest:
  assumes "x \<in> set (indexed (side_pairs e [sides]))" and "q \<in> set (attempt_candidates sc placed e f t ports x)"
  shows "\<exists>p. readableAutomaticRoute sc placed e f t sides ports = Inr p
    \<and> (\<forall>y \<in> set (indexed (side_pairs e [sides])). \<forall>r \<in> set (attempt_candidates sc placed e f t ports y).
        dimensions (rp_cost p) \<le> dimensions (rp_cost r))"
proof -
  obtain p ps where p: "readableAutomaticRoute sc placed e f t sides ports = Inr p"
    "cost_sort (plans_of (map (automatic_attempt sc placed e f t ports) (indexed (side_pairs e [sides])))) = p # ps"
    using automatic_route_found [OF assms] by blast
  moreover have "\<forall>y \<in> set (indexed (side_pairs e [sides])). \<forall>r \<in> set (attempt_candidates sc placed e f t ports y).
      dimensions (rp_cost p) \<le> dimensions (rp_cost r)"
    using cheapest_first [OF p(2)] attempt_plans by blast
  ultimately show ?thesis by blast
qed

text \<open>The corridor to the next lane below lies between the lanes; to the lane above it lies between them only when
  both lanes have the same height.\<close>

lemma gap_below:
  assumes "l = createReadableLayout num w fb" and "lane_of w u = p" and "lane_of w v = Suc p" and "0 \<le> bias" and "bias \<le> 1"
  shows "laneTop l p + laneHeight l p \<le> gapYBetween w l u v bias" and "gapYBetween w l u v bias \<le> laneTop l (Suc p)"
proof -
  have gap: "0 \<le> wl_lane_gap l" by (simp add: assms(1) createReadableLayout_def Let_def)
  have y: "gapYBetween w l u v bias = laneTop l p + laneHeight l p + wl_lane_gap l * bias"
    by (simp add: gapYBetween_def assms(2,3) laneTop_Suc Let_def)
  show "laneTop l p + laneHeight l p \<le> gapYBetween w l u v bias" using gap assms(4) by (simp add: y)
  show "gapYBetween w l u v bias \<le> laneTop l (Suc p)"
    using mult_left_le [OF assms(5) gap] by (simp add: y laneTop_Suc)
qed

lemma gap_above:
  assumes "lane_of w u = Suc p" and "lane_of w v = p"
  shows "gapYBetween w l u v (1 / 2) = laneTop l p + laneHeight l p + wl_lane_gap l / 2 + (laneHeight l (Suc p) - laneHeight l p) / 2"
  by (simp add: gapYBetween_def assms laneTop_Suc Let_def field_simps)

section \<open>A scene with one edge\<close>

definition scene_node :: "string \<Rightarrow> real \<Rightarrow> rect \<Rightarrow> jval \<times> placed_node" where
  "scene_node i c r = (JStr (lit i), \<lparr>pn_object = flow_step i c, pn_box = box_of (JStr (lit i)) r\<rparr>)"

definition scene_edge :: relation where
  "scene_edge = \<lparr>address = 0, object = JObj [(lit ''from'', JStr (lit ''a'')), (lit ''to'', JStr (lit ''b'')),
     (lit ''fromSide'', JStr (lit ''right'')), (lit ''toSide'', JStr (lit ''left'')), (lit ''labelAt'', JArr [JNum 1, JNum 1])]\<rparr>"

definition scene_sample :: scene where
  "scene_sample = \<lparr>sc_num = (\<lambda>_. []),
     sc_workflow = \<lparr>wf_version = JNum 2, wf_meta = JObj [], wf_lanes = [], wf_phases = [], wf_groups = [],
       wf_nodes = [flow_step ''a'' 0, flow_step ''b'' 1], wf_edges = [scene_edge], wf_main_path = [], wf_checks = JUndef\<rparr>,
     sc_layout = createLegacyLayout,
     sc_nodes = [scene_node ''a'' 0 \<lparr>rx = 50, ry = 100, rwidth = 100, rheight = 50\<rparr>,
       scene_node ''b'' 1 \<lparr>rx = 250, ry = 100, rwidth = 100, rheight = 50\<rparr>],
     sc_legend = [], sc_canvas_width = 720, sc_canvas_height = 400\<rparr>"

lemma scene_edge_fields [simp]: "rel scene_edge ''from'' = JStr (lit ''a'')" "rel scene_edge ''to'' = JStr (lit ''b'')"
    "rel scene_edge ''fromSide'' = RIGHT" "rel scene_edge ''toSide'' = LEFT" "rel scene_edge ''label'' = JUndef"
    "rel scene_edge ''labelAt'' = JArr [JNum 1, JNum 1]" "rel scene_edge ''route'' = JUndef" "rel scene_edge ''via'' = JUndef"
    "rel scene_edge ''channelX'' = JUndef" "rel scene_edge ''channelY'' = JUndef" "rel scene_edge ''bias'' = JUndef"
  by (simp_all add: rel_def field_def scene_edge_def RIGHT_def LEFT_def)

lemma scene_edge_sides [simp]: "authored_side RIGHT = Some RIGHT" "authored_side LEFT = Some LEFT" "known_sides scene_edge"
  by (simp_all add: authored_side_def RIGHT_def LEFT_def known_sides_def) (simp_all add: side_order_def RIGHT_def LEFT_def)

abbreviation scene_a :: placed_node where
  "scene_a \<equiv> snd (scene_node ''a'' 0 \<lparr>rx = 50, ry = 100, rwidth = 100, rheight = 50\<rparr>)"

abbreviation scene_b :: placed_node where
  "scene_b \<equiv> snd (scene_node ''b'' 1 \<lparr>rx = 250, ry = 100, rwidth = 100, rheight = 50\<rparr>)"

lemma scene_sample_parts [simp]: "readable (sc_workflow scene_sample)" "wf_edges (sc_workflow scene_sample) = [scene_edge]"
    "edge_ends scene_sample scene_edge = Some (scene_a, scene_b)" "scene_label scene_sample scene_edge ps = None"
    "sc_legend scene_sample = []" "scene_frames scene_sample = []"
    "workflowSceneLabelObstacles (sc_num scene_sample) (sc_workflow scene_sample) (sc_layout scene_sample) = []"
  by (simp_all add: scene_sample_def readable_def edge_ends_def scene_node_def scene_label_def candidateLabelRect_def
      scene_frames_def workflowCompositionFrames_def workflowSceneLabelObstacles_def)

lemma straight_feasible:
  "readableCandidateIsFeasible scene_sample [] scene_edge [(150, 125), (250, 125)] (pn_box scene_a) (pn_box scene_b) RIGHT LEFT"
proof -
  have norm: "normalizeRoutePoints (raw_path [(150, 125), (250, 125)]) = [(150, 125), (250, 125)]"
    by (simp add: normalizeRoutePoints_def merge_collinear_def far_apart_def)
  have honors: "honors_sides [(150, 125), (250, 125)] RIGHT LEFT"
    unfolding honors_sides_def routeHonorsEndpointSides_def endpointSideIssue_def norm
    by (simp add: ENDPOINT_SIDE_RULES_def side_name_def RIGHT_def LEFT_def)
  have rhythm: "routeMeetsHardRhythm [(150, 125), (250, 125)]"
    by (simp add: routeMeetsHardRhythm_def segment_length_def hypot_def)
  have far: "routeClearsUnrelatedNodes (sc_nodes scene_sample) scene_edge [(150, 125), (250, 125)]"
    by (simp add: routeClearsUnrelatedNodes_def scene_sample_def scene_node_def box_of_def)
  have borders: "routeClearsFrameBorders scene_sample [(150, 125), (250, 125)]"
    by (simp add: routeClearsFrameBorders_def collectBorderRuns_def asArray_def Let_def split: option.split)
  show ?thesis
    using honors rhythm far borders
    by (simp add: readableCandidateIsFeasible_def orthogonalRoute_def near_def routeClearsEndpointNodes_def
        indexed_def routeLabelClearsNodes_def routeClearsPlacedLabels_def routeClearsLegend_def
        routeClearsSceneLabelObstacles_def routeFitsCanvasOrigin_def routeExtentCoordinates_def)
qed

lemma scene_pairs: "side_pairs scene_edge [(RIGHT, LEFT)] = [(RIGHT, LEFT)]"
  by (simp add: side_pairs_def side_choices_def Let_def)

lemma straight_candidate:
  "\<exists>q. q \<in> set (attempt_candidates scene_sample [] scene_edge scene_a scene_b (None, None) (0, RIGHT, LEFT))"
proof -
  have ends: "end_point (pn_box scene_a) RIGHT None 0 = (150, 125)" "end_point (pn_box scene_b) LEFT None 0 = (250, 125)"
    by (simp_all add: end_point_def some_or_def anchor_def scene_node_def box_of_def)
  have norm: "through (150, 125) [] (250, 125) = [(150, 125), (250, 125)]"
    by (simp add: through_def closed_def normalizeRoutePoints_def merge_collinear_def far_apart_def)
  let ?cs = "map (\<lambda>via. through (150, 125) via (250, 125))
    (raw_candidates scene_sample scene_edge scene_a scene_b (150, 125) (250, 125) RIGHT LEFT)"
  have "(0, [(150, 125), (250, 125)]) \<in> set (indexed ?cs)"
    by (simp add: indexed_iff raw_candidates_def Let_def norm)
  with straight_feasible show ?thesis
    unfolding attempt_candidates_def prod.case fst_conv snd_conv ends readableAutomaticCandidateSet_def set_cost_sort
    by force
qed

lemma automatic_route_cheapest_witness:
  "\<exists>p. readableAutomaticRoute scene_sample [] scene_edge scene_a scene_b (RIGHT, LEFT) (None, None) = Inr p
    \<and> (\<forall>y \<in> set (indexed (side_pairs scene_edge [(RIGHT, LEFT)])).
        \<forall>r \<in> set (attempt_candidates scene_sample [] scene_edge scene_a scene_b (None, None) y).
        dimensions (rp_cost p) \<le> dimensions (rp_cost r))"
proof -
  obtain q where "q \<in> set (attempt_candidates scene_sample [] scene_edge scene_a scene_b (None, None) (0, RIGHT, LEFT))"
    using straight_candidate by blast
  then show ?thesis by (rule automatic_route_cheapest [rotated]) (simp add: scene_pairs indexed_def)
qed

end
