(* ===== verification/WorkflowCheckFacts.thy ===== *)
theory WorkflowCheckFacts
  imports WorkflowCheck WorkflowRouterFacts
begin

text \<open>
  What a validated workflow looks like: nodes inside their lanes and apart, phases that share no column, a
  main path along edges, routes clear of nodes, and labels that cover neither nodes nor each other.
\<close>

section \<open>The parts of a silent validation\<close>

lemma workflow_parts:
  assumes "validateWorkflow words marked sc routes = []" and "w = sc_workflow sc" and "l = sc_layout sc"
  shows "structure_problems w = []" "enforceLegacyColumnCapacity w l = []" "id_problems w = []"
    "\<forall>e \<in> set (workflow_measured w l). workflow_node_problems (sc_num sc) marked w l e = []"
    "\<forall>p \<in> set (wf_phases w). phase_problems (sc_num sc) w l p = []" "phase_overlaps (phase_ranges w) = []"
    "\<forall>g \<in> set (wf_groups w). group_problems w l g = []"
    "workflow_nodes_finite w l \<Longrightarrow> drawing_problems sc routes = []" "canvas_problems words w l = []"
  using assms by (auto simp: validateWorkflow_def Let_def split: if_splits list.splits)

lemma measured_finite:
  assumes "\<forall>e \<in> set (workflow_measured w l). workflow_node_problems num marked w l e = []"
  shows "workflow_nodes_finite w l"
  unfolding workflow_nodes_finite_def list_all_iff
proof
  fix e assume "e \<in> set (workflow_measured w l)"
  with assms have p: "workflow_node_problems num marked w l e = []" by blast
  obtain i n q where e: "e = (i, n, q)" by (cases e)
  from p show "placed_component e \<noteq> None"
    by (auto simp: e workflow_node_problems_def placed_component_def split: option.splits if_splits)
qed

lemma drawing_parts:
  assumes "drawing_problems sc routes = []" and "labels = workflow_labels sc routes"
  shows "crowded_nodes (sc_nodes sc) = []"
    "\<forall>e \<in> set (indexed (wf_edges (sc_workflow sc))). workflow_edge_problems sc routes e = []"
    "route_gates None (workflow_gates (sc, routes)) = []" "main_path_problems (sc_workflow sc) = []"
    "labels_on_nodes (sc_nodes sc) labels = []" "overlapping_labels labels = []"
    "label_gate (sc_num sc) None (workflow_gates (sc, routes)) labels = []"
  using assms unfolding drawing_problems_def Let_def append_is_Nil_conv map_is_Nil_conv concat_eq_Nil_conv by auto

section \<open>Nodes\<close>

text \<open>The boxes of a scene are the measured boxes of its nodes.\<close>

definition measured_scene :: "scene \<Rightarrow> bool" where
  "measured_scene sc \<longleftrightarrow> sc_nodes sc = workflow_nodes (sc_workflow sc) (sc_layout sc)"

lemma workflow_nodes_measured: "workflow_nodes w l = List.map_filter placed_component (workflow_measured w l)"
  by (simp add: workflow_nodes_def workflow_measured_def)

text \<open>A node between the title of its lane with the reserve for groups and the bottom of the lane.\<close>

definition in_its_lane :: "workflow \<Rightarrow> workflow_layout \<Rightarrow> placed_node \<Rightarrow> bool" where
  "in_its_lane w l n \<longleftrightarrow> (\<exists>p. map_of (lane_order w) (field (pn_object n) ''lane'') = Some p
     \<and> 40 \<le> rx (pn_box n) \<and> rx (pn_box n) + rwidth (pn_box n) \<le> 40 + wl_lane_w l
     \<and> laneTop l p + 30 + laneGroupHeaderH l p \<le> ry (pn_box n)
     \<and> ry (pn_box n) + rheight (pn_box n) \<le> laneTop l p + laneHeight l p)"

lemma node_in_lane:
  assumes "\<forall>e \<in> set (workflow_measured w l). workflow_node_problems num marked w l e = []"
    and "(i, n) \<in> set (workflow_nodes w l)"
  shows "in_its_lane w l n"
proof -
  from assms(2) obtain e where e: "e \<in> set (workflow_measured w l)" "placed_component e = Some (i, n)"
    by (auto simp: workflow_nodes_measured set_map_filter)
  obtain j v q where q: "e = (j, v, q)" by (cases e)
  from e(2) obtain r where r: "finite_rect q = Some r" "pn_box n = box_of i r" "pn_object n = v"
    by (auto simp: placed_component_def q)
  have none: "workflow_node_problems num marked w l (j, v, q) = []" using assms(1) e(1) q by blast
  obtain p where p1: "map_of (lane_order w) (field v ''lane'') = Some p"
    using none by (cases "map_of (lane_order w) (field v ''lane'')") (simp_all add: workflow_node_problems_def)
  have p2: "lane_bounds w l j p r = []"
    using none [unfolded workflow_node_problems_def prod.case p1 option.case r(1)] by (simp split: if_splits)
  note p = p1 p2
  from p(2) have b: "40 \<le> rx r" "rx r + rwidth r \<le> 40 + wl_lane_w l" "laneTop l p + 30 + laneGroupHeaderH l p \<le> ry r"
      "ry r + rheight r \<le> laneTop l p + laneHeight l p"
    by (auto simp: lane_bounds_def not_less)
  show ?thesis
    unfolding in_its_lane_def r(2,3) by (rule exI [of _ p]) (simp add: p(1) b box_of_def)
qed

lemma pairs_of_filter: "(a, b) \<in> set (pairs_of xs) \<Longrightarrow> P a \<Longrightarrow> P b \<Longrightarrow> (a, b) \<in> set (pairs_of (filter P xs))"
  by (induction xs) auto

lemma nodes_not_crowded:
  assumes "crowded_nodes ns = []" and "i < j" and "j < length ns"
    and "field (pn_object (snd (ns ! i))) ''lane'' = field (pn_object (snd (ns ! j))) ''lane''"
  shows "\<not> finite_rects_overlap (rect_of (pn_box (snd (ns ! i)))) (rect_of (pn_box (snd (ns ! j)))) 8"
proof -
  define lane where "lane = field (pn_object (snd (ns ! i))) ''lane''"
  have "ns ! i \<in> set ns" using assms(2,3) by simp
  then have "lane \<in> set (lanes_used ns)" 
    unfolding lanes_used_def set_rev set_remdups set_map lane_def by (rule rev_image_eqI) (simp add: split_beta)
  with assms(1) have none: "close_nodes 8 (in_lane ns lane) = []" by (simp add: crowded_nodes_def)
  have "(ns ! i, ns ! j) \<in> set (pairs_of (in_lane ns lane))"
    unfolding in_lane_def by (rule pairs_of_filter [OF in_pairs_of [OF assms(2,3)]]) (simp_all add: split_beta lane_def assms(4))
  moreover have "\<forall>x \<in> set (pairs_of (in_lane ns lane)).
      \<not> finite_rects_overlap (rect_of (pn_box (snd (fst x)))) (rect_of (pn_box (snd (snd x)))) 8"
    using none unfolding close_nodes_def map_filter_empty split_beta by (simp split: if_splits)
  ultimately show ?thesis by fastforce
qed

section \<open>Phases\<close>

lemma range_compare_key:
  "range_compare a b \<le> 0 \<longleftrightarrow>
     (number_or 0 (field a ''fromCol''), number_or 0 (field a ''toCol''))
       \<le> (number_or 0 (field b ''fromCol''), number_or 0 (field b ''toCol''))"
  by (auto simp: range_compare_def three_way_def less_eq_prod_def)

definition covers_column :: "real \<Rightarrow> jval \<Rightarrow> bool" where
  "covers_column c p \<longleftrightarrow> number_or 0 (field p ''fromCol'') \<le> c \<and> c \<le> number_or 0 (field p ''toCol'')"

lemma no_overlap_column:
  assumes "phase_overlaps ps = []" and "sorted (map (\<lambda>p. number_or 0 (field p ''fromCol'')) ps)"
  shows "length (filter (covers_column c) ps) \<le> 1"
  using assms
proof (induction ps)
  case (Cons p ps)
  have "\<not> covers_column c q" if "covers_column c p" "q \<in> set ps" for q
  proof (cases ps)
    case (Cons q' qs)
    with Cons.prems(1) have "number_or 0 (field p ''toCol'') < number_or 0 (field q' ''fromCol'')"
      by (auto split: if_splits)
    also have "\<dots> \<le> number_or 0 (field q ''fromCol'')" using Cons.prems(2) that(2) Cons by auto
    finally show ?thesis using that(1) by (simp add: covers_column_def)
  qed (use that in simp)
  then have "covers_column c p \<Longrightarrow> filter (covers_column c) ps = []" by (simp add: filter_empty_conv)
  with Cons show ?case by simp
qed simp

interpretation range_order: comparator "\<lambda>a b. range_compare a b \<le> 0"
  "\<lambda>p. (number_or 0 (field p ''fromCol''), number_or 0 (field p ''toCol''))"
  by unfold_locales (simp_all only: range_compare_key linear not_le less_imp_le)

lemma phases_apart:
  assumes "phase_overlaps (phase_ranges w) = []" and "\<forall>p \<in> set (wf_phases w). phase_problems num w l p = []"
  shows "length (filter (covers_column c) (wf_phases w)) \<le> 1"
proof -
  have "integer_range p \<and> column_span p \<noteq> None" if "p \<in> set (wf_phases w)" for p
    using assms(2) that by (auto simp: phase_problems_def split: if_splits)
  then have all: "filter (\<lambda>p. integer_range p \<and> column_span p \<noteq> None) (wf_phases w) = wf_phases w"
    by (simp add: filter_id_conv)
  let ?key = "\<lambda>p. (number_or 0 (field p ''fromCol''), number_or 0 (field p ''toCol''))"
  have "sorted (map ?key (phase_ranges w))" unfolding phase_ranges_def by (rule range_order.sorted_sort)
  then have "sorted (map fst (map ?key (phase_ranges w)))"
    by (rule sorted_map_mono) (auto simp: mono_on_def less_eq_prod_def)
  then have s: "sorted (map (\<lambda>p. number_or 0 (field p ''fromCol'')) (phase_ranges w))" by (simp add: comp_def)
  have "mset (filter (covers_column c) (phase_ranges w)) = mset (filter (covers_column c) (wf_phases w))"
    by (simp only: mset_filter phase_ranges_def mset_sort_by all)
  then have "length (filter (covers_column c) (phase_ranges w)) = length (filter (covers_column c) (wf_phases w))"
    by (rule mset_eq_length)
  with no_overlap_column [OF assms(1) s] show ?thesis by metis
qed

section \<open>The main path\<close>

lemma keys_of_put: "fst ` set (map_put k v m) = insert k (fst ` set m)"
  by (induction k v m rule: map_put.induct) (simp_all add: insert_commute)

lemma keys_of_puts: "fst ` set (foldl (\<lambda>m n. map_put (f n) (g n) m) m ns) = fst ` set m \<union> f ` set ns"
  by (induction ns arbitrary: m) (auto simp: keys_of_put)

lemma main_path_linked:
  assumes "main_path_problems w = []" and "(i, j) \<in> set (segments (wf_main_path w))"
  shows "\<exists>m n. node_by_id w i = Some m \<and> node_by_id w j = Some n
    \<and> (\<exists>e \<in> set (wf_edges w). rel e ''from'' = i \<and> rel e ''to'' = j)
    \<and> (\<forall>a b. number_of (field m ''col'') = Some a \<longrightarrow> number_of (field n ''col'') = Some b \<longrightarrow> a \<le> b)"
proof -
  have known: "known_node w v" if "v \<in> set (wf_main_path w)" for v
    using assms(1) that by (auto simp: main_path_problems_def filter_empty_conv)
  have found: "node_by_id w v \<noteq> None" if "known_node w v" for v
    using that by (auto simp: known_node_def node_by_id_def list_ex_iff map_of_eq_None_iff keys_of_puts)
  have "i \<in> set (wf_main_path w)" "j \<in> set (wf_main_path w)"
    using assms(2) by (cases "wf_main_path w"; auto simp: segments_def dest: set_zip_leftD set_zip_rightD)+
  then obtain m n where mn: "node_by_id w i = Some m" "node_by_id w j = Some n" using known found by blast
  have "step_problems w (i, j) = []" using assms by (auto simp: main_path_problems_def)
  with mn show ?thesis by (auto simp: step_problems_def list_ex_iff not_less)
qed

section \<open>Routes\<close>

text \<open>A validated scene with numeric boxes and its routes is an accepted drawing.\<close>

definition accepted_workflow ::
  "(jstring \<Rightarrow> jstring) \<Rightarrow> (jval \<Rightarrow> bool) \<Rightarrow> scene \<times> placed_routes \<Rightarrow> bool" where
  "accepted_workflow words marked d \<longleftrightarrow> (case d of (sc, routes) \<Rightarrow> validateWorkflow words marked sc routes = [])"

lemma accepted_drawing: "accepted_workflow words marked d \<Longrightarrow> drawing_problems (fst d) (snd d) = []"
  using workflow_parts(8) [OF _ refl refl] measured_finite [OF workflow_parts(4) [OF _ refl refl]]
  by (auto simp: accepted_workflow_def)

lemma edge_parts:
  assumes "drawing_problems sc routes = []" and "e \<in> set (wf_edges (sc_workflow sc))"
  shows "rel e ''from'' \<in> fst ` set (sc_nodes sc)" "rel e ''to'' \<in> fst ` set (sc_nodes sc)"
    "route_of routes e = Some [a, b] \<Longrightarrow> 28 \<le> segment_length (a, b)"
proof -
  from assms(2) obtain k where "(k, e) \<in> set (indexed (wf_edges (sc_workflow sc)))" by (metis in_set_conv_nth indexed_iff)
  with drawing_parts(2) [OF assms(1) refl] have p: "workflow_edge_problems sc routes (k, e) = []" by blast
  then show "rel e ''from'' \<in> fst ` set (sc_nodes sc)" "rel e ''to'' \<in> fst ` set (sc_nodes sc)"
    unfolding workflow_edge_problems_def prod.case append_is_Nil_conv problem_if_Nil by blast+
  show "28 \<le> segment_length (a, b)" if "route_of routes e = Some [a, b]"
    using p by (simp add: workflow_edge_problems_def that not_less)
qed

interpretation workflow_drawing:
  node_drawing "accepted_workflow words marked" workflow_gates None "\<lambda>d. sc_nodes (fst d)" "\<lambda>d. route_of (snd d)"
proof (rule node_drawing_intro)
  fix d assume a: "accepted_workflow words marked d"
  show "route_gates None (workflow_gates d) = []" using drawing_parts(3) [OF accepted_drawing [OF a] refl] by simp
  show "rel r ''from'' \<in> fst ` set (sc_nodes (fst d)) \<and> rel r ''to'' \<in> fst ` set (sc_nodes (fst d))"
    if "r \<in> set (gi_relations (workflow_gates d))" for r
    using that edge_parts [OF accepted_drawing [OF a]] by (auto simp: workflow_gates_def split_beta)
qed (simp_all add: workflow_gates_def workflow_path_def split_beta)

end
