(* ===== verification/WorkflowCanvasFacts.thy ===== *)
theory WorkflowCanvasFacts
  imports WorkflowCanvas WorkflowRouterFacts
begin

text \<open>
  The canvas of a readable workflow holds everything that is drawn, and a layout made with feedback
  meets every request of it.
\<close>

section \<open>The canvas\<close>









section \<open>Feedback\<close>

text \<open>A layout that meets a request, and a feedback that has the request or a larger one.\<close>

definition meets :: "workflow_layout \<Rightarrow> layout_request \<Rightarrow> bool" where
  "meets l q \<longleftrightarrow> (case q of
     RankGap i j m \<Rightarrow> i < j \<and> j < 6 \<longrightarrow> wl_columns l ! i + m \<le> wl_columns l ! j + 1 / 10000
   | LaneGap m \<Rightarrow> m \<le> wl_lane_gap l)"

definition grants :: "layout_feedback \<Rightarrow> layout_request \<Rightarrow> bool" where
  "grants fb q \<longleftrightarrow> (case q of
     RankGap i j m \<Rightarrow> \<exists>m' \<ge> m. map_of (lf_gaps fb) (i, j) = Some m'
   | LaneGap m \<Rightarrow> \<exists>m' \<ge> m. lf_lane_gap fb = Some m')"

lemma request_covered: "with_request fb q = Some fb' \<Longrightarrow> grants fb' q"
  by (auto simp: with_request_def grants_def map_of_put split: layout_request.splits if_splits)

lemma covered_stays:
  assumes "with_request fb q = Some fb'" and "grants fb r"
  shows "grants fb' r"
proof (cases q)
  case (RankGap i j m)
  with assms(1) have fb': "fb' = fb\<lparr>lf_gaps := map_put (i, j) m (lf_gaps fb)\<rparr>" and g: "grows (map_of (lf_gaps fb) (i, j)) m"
    by (auto simp: with_request_def split: if_splits)
  show ?thesis
  proof (cases r)
    case (RankGap i' j' m')
    with assms(2) g show ?thesis by (auto simp: grants_def fb' map_of_put grows_def split: option.splits)
  next
    case (LaneGap m')
    with assms(2) show ?thesis by (simp add: grants_def fb')
  qed
next
  case (LaneGap m)
  with assms(1) have fb': "fb' = fb\<lparr>lf_lane_gap := Some m\<rparr>" and g: "grows (lf_lane_gap fb) m"
    by (auto simp: with_request_def split: if_splits)
  with assms(2) show ?thesis by (auto simp: grants_def grows_def split: layout_request.splits)
qed

lemma covered_met:
  assumes "grants fb q"
  shows "meets (createReadableLayout num w fb) q"
proof (cases q)
  case (RankGap i j m)
  with assms obtain m' where m: "m \<le> m'" "((i, j), m') \<in> set (lf_gaps fb)" by (auto simp: grants_def dest: map_of_SomeD)
  have "\<lparr>con_from = i, con_to = j, con_min = m'\<rparr> \<in> set (layout_constraints num w fb)"
    using m(2) by (force simp: layout_constraints_def gap_constraints_def)
  with readable_satisfies [of "\<lparr>con_from = i, con_to = j, con_min = m'\<rparr>" num w fb] m(1) show ?thesis
    by (auto simp: meets_def RankGap valid_constraint_def createReadableLayout_def Let_def)
next
  case (LaneGap m)
  with assms obtain m' where m: "m \<le> m'" "lf_lane_gap fb = Some m'" by (auto simp: grants_def)
  have "m' \<le> wl_lane_gap (createReadableLayout num w fb)"
    by (simp add: createReadableLayout_def Let_def m(2) le_max_iff_disj)
  with m(1) show ?thesis by (simp add: meets_def LaneGap)
qed

text \<open>The attempts of the loop, each with its request.\<close>

fun attempts :: "(layout_feedback \<Rightarrow> layout_request + 'r) \<Rightarrow> nat \<Rightarrow> layout_feedback \<Rightarrow> (layout_feedback \<times> layout_request option) list" where
  "attempts compile 0 fb = [(fb, None)]"
| "attempts compile (Suc n) fb =
     (case compile fb of
        Inr r \<Rightarrow> [(fb, None)]
      | Inl q \<Rightarrow> (fb, Some q) # (case with_request fb q of None \<Rightarrow> [] | Some fb' \<Rightarrow> attempts compile n fb'))"

lemma attempts_length: "length (attempts compile n fb) \<le> Suc n"
  by (induction n arbitrary: fb) (auto split: sum.split option.split)

lemma attempts_ne: "attempts compile n fb \<noteq> []"
  by (cases n) (auto split: sum.split)

lemma attempts_result: "feedback_rounds compile n fb = compile (fst (last (attempts compile n fb)))"
  by (induction n arbitrary: fb) (auto simp: attempts_ne split: sum.split option.split)

lemma attempts_cover:
  assumes "grants fb q" and "(fb', r) \<in> set (attempts compile n fb)"
  shows "grants fb' q"
  using assms
proof (induction n arbitrary: fb)
  case (Suc n)
  then show ?case by (auto split: sum.splits option.splits dest: covered_stays [OF sym])
qed simp

lemma attempts_answer:
  "i < j \<Longrightarrow> j < length (attempts compile n fb) \<Longrightarrow> snd (attempts compile n fb ! i) = Some q
    \<Longrightarrow> grants (fst (attempts compile n fb ! j)) q"
proof (induction n arbitrary: fb i j)
  case (Suc n)
  then obtain p fb' where p: "compile fb = Inl p" "with_request fb p = Some fb'"
    by (auto split: sum.splits option.splits)
  obtain k where k: "j = Suc k" using Suc.prems(1) by (cases j) auto
  have rest: "k < length (attempts compile n fb')" using Suc.prems(2) p k by simp
  show ?case
  proof (cases i)
    case 0
    then have "q = p" using Suc.prems(3) p by simp
    then have "grants fb' q" using request_covered [OF p(2)] by simp
    moreover have "(fst (attempts compile n fb' ! k), snd (attempts compile n fb' ! k)) \<in> set (attempts compile n fb')"
      using rest by simp
    ultimately have "grants (fst (attempts compile n fb' ! k)) q" by (rule attempts_cover)
    then show ?thesis by (simp add: p k)
  next
    case (Suc i')
    with Suc.IH [of i' k fb'] Suc.prems rest p k show ?thesis by simp
  qed
qed simp

section \<open>Witnesses\<close>

definition canvas_phase :: jval where
  "canvas_phase = JObj [(lit ''label'', JStr (lit ''p'')), (lit ''fromCol'', JNum 0), (lit ''toCol'', JNum 1)]"

definition canvas_group :: jval where
  "canvas_group = JObj [(lit ''lane'', JStr (lit ''main'')), (lit ''label'', JStr (lit ''g'')), (lit ''fromCol'', JNum 0), (lit ''toCol'', JNum 1)]"

definition canvas_scene :: scene where
  "canvas_scene = scene_sample\<lparr>sc_workflow := (sc_workflow scene_sample)\<lparr>wf_lanes := [JObj [(lit ''id'', JStr (lit ''main''))]],
       wf_phases := [canvas_phase], wf_groups := [canvas_group]\<rparr>,
     sc_legend := [\<lparr>rx = 60, ry = 300, rwidth = 200, rheight = 20\<rparr>]\<rparr>"

lemma canvas_scene_parts [simp]:
  "wf_phases (sc_workflow canvas_scene) = [canvas_phase]" "wf_groups (sc_workflow canvas_scene) = [canvas_group]"
  "wf_lanes (sc_workflow canvas_scene) = [JObj [(lit ''id'', JStr (lit ''main''))]]" "readable (sc_workflow canvas_scene)"
  "sc_layout canvas_scene = createLegacyLayout" "field (wf_meta (sc_workflow canvas_scene)) ''viewBox'' = JUndef"
  "sc_legend canvas_scene = [\<lparr>rx = 60, ry = 300, rwidth = 200, rheight = 20\<rparr>]" "sc_num canvas_scene = (\<lambda>_. [])"
  "sc_nodes canvas_scene = sc_nodes scene_sample" "scene_label canvas_scene scene_edge ps = None"
  "column_span canvas_phase = Some (0, 1)" "column_span canvas_group = Some (0, 1)" "field canvas_group ''lane'' = JStr (lit ''main'')"
  by (simp_all add: canvas_scene_def scene_sample_def readable_def field_def scene_label_def candidateLabelRect_def canvas_phase_def
      canvas_group_def column_span_def column_index_def)






end
