(* ===== verification/WorkflowCompilerFacts.thy ===== *)
theory WorkflowCompilerFacts
  imports WorkflowCompiler WorkflowCheckFacts WorkflowCanvasFacts
begin

text \<open>
  What a compiled workflow promises, for both schema versions: the stages before it were silent, so its
  drawing is sound, its authored positions are kept and its canvas holds everything.
\<close>

section \<open>The stages of a compiled workflow\<close>

lemma feedback_last: "\<exists>fb. feedback_rounds compile n start = compile fb"
  using attempts_result [of compile n start] by blast

text \<open>How the routes of a scene came about.\<close>

definition routed_by :: "scene \<Rightarrow> placed_routes \<Rightarrow> bool" where
  "routed_by sc routes \<longleftrightarrow>
     (if readable (sc_workflow sc)
      then pinned_edges sc [] (wf_edges (sc_workflow sc)) = Inr routes \<and> validateReadablePairwisePinConflicts sc routes = []
      else routes = legacy_routes sc)"

lemma finish_parts:
  assumes "finish_workflow words marked sc routes = Compiled sc' routes' width height legend"
  shows "sc' = sc" "routes' = routes" "validateWorkflow words marked sc routes = []"
    "finalizeReadableViewBox words sc routes = ViewBox width height" "workflow_legend words sc routes = Inr legend"
  using assms by (auto simp: finish_workflow_def split: list.splits canvas.splits sum.splits)

lemma compile_scene_parts:
  assumes "compile_scene words marked sc = Inr (Compiled sc' routes width height legend)"
  shows "sc' = sc" "routed_by sc routes" "finish_workflow words marked sc routes = Compiled sc routes width height legend"
proof -
  have "sc' = sc \<and> routed_by sc routes \<and> finish_workflow words marked sc routes = Compiled sc routes width height legend"
  proof (cases "readable (sc_workflow sc)")
    case True
    with assms obtain rs where p: "validateReadablePinnedGeometry sc = Pinned rs"
      and f: "finish_workflow words marked sc rs = Compiled sc' routes width height legend"
      by (auto simp: compile_scene_def split: pin_verdict.splits pin_failure.splits route_failure.splits)
    from finish_parts(1,2) [OF f] f p True show ?thesis
      by (auto simp: routed_by_def validateReadablePinnedGeometry_def split: sum.splits list.splits)
  next
    case False
    then have f: "finish_workflow words marked sc (legacy_routes sc) = Compiled sc' routes width height legend"
      using assms by (simp add: compile_scene_def)
    from finish_parts(1,2) [OF f] f False show ?thesis by (simp add: routed_by_def)
  qed
  then show "sc' = sc" "routed_by sc routes" "finish_workflow words marked sc routes = Compiled sc routes width height legend"
    by blast+
qed

lemma scene_parts:
  assumes "workflow_scene num words w fb = Inr sc"
  shows "sc_num sc = num" "sc_workflow sc = w" "sc_layout sc = workflow_layout_of num w fb"
    "sc_nodes sc = workflow_nodes w (workflow_layout_of num w fb)" "measured_scene sc"
proof -
  from assms show p: "sc_num sc = num" "sc_workflow sc = w" "sc_layout sc = workflow_layout_of num w fb"
    "sc_nodes sc = workflow_nodes w (workflow_layout_of num w fb)"
    by (auto simp: workflow_scene_def Let_def map_sum_def split: sum.splits)
  show "measured_scene sc" by (simp add: measured_scene_def p)
qed

text \<open>The document that is compiled: with the profile of the call, in canonical order.\<close>

definition compiled_source :: "number_text \<Rightarrow> jval \<Rightarrow> workflow \<Rightarrow> workflow" where
  "compiled_source num profile src = canonicalReadableWorkflow num (with_profile profile src)"

lemma compiled_parts:
  assumes "compileWorkflow valid num words marked profile src = Inr (Compiled sc routes width height legend)"
  shows "sc_workflow sc = compiled_source num profile src" "sc_num sc = num" "measured_scene sc"
    "\<exists>fb. sc_layout sc = workflow_layout_of num (sc_workflow sc) fb
      \<and> validateReadableInputsBeforeRouting (with_profile profile src) (sc_layout sc) = []"
    "routed_by sc routes" "validateWorkflow words marked sc routes = []"
    "finalizeReadableViewBox words sc routes = ViewBox width height" "workflow_legend words sc routes = Inr legend"
    "valid (with_profile profile src)" "semanticContractDiagnostics (sc_workflow sc) = []"
proof -
  obtain fb where c: "compileWorkflowInternal valid num words marked (with_profile profile src) fb
      = Inr (Compiled sc routes width height legend)"
    using feedback_last [of "compileWorkflowInternal valid num words marked (with_profile profile src)" 3 no_feedback] assms
    by (auto simp: compileWorkflow_def compileWorkflowWithFeedback_def)
  then obtain sc' where s: "workflow_scene num words (compiled_source num profile src) fb = Inr sc'"
    and cs: "compile_scene words marked sc' = Inr (Compiled sc routes width height legend)"
    and v: "valid (with_profile profile src)" "semanticContractDiagnostics (compiled_source num profile src) = []"
      "validateReadableInputsBeforeRouting (with_profile profile src)
        (workflow_layout_of num (compiled_source num profile src) fb) = []"
    by (auto simp: compileWorkflowInternal_def compiled_source_def Let_def split: if_splits list.splits sum.splits)
  note p = compile_scene_parts [OF cs]
  have sc: "sc' = sc" by (simp add: p(1))
  note q = scene_parts [OF s, unfolded sc]
  note r = finish_parts(3-5) [OF p(3), unfolded sc]
  show "sc_workflow sc = compiled_source num profile src" "sc_num sc = num" "measured_scene sc" by (rule q)+
  show "\<exists>fb. sc_layout sc = workflow_layout_of num (sc_workflow sc) fb
      \<and> validateReadableInputsBeforeRouting (with_profile profile src) (sc_layout sc) = []"
    using v(3) by (auto simp: q(2,3))
  show "routed_by sc routes" using p(2) sc by simp
  show "validateWorkflow words marked sc routes = []" "finalizeReadableViewBox words sc routes = ViewBox width height"
    "workflow_legend words sc routes = Inr legend" by (rule r)+
  show "valid (with_profile profile src)" by (rule v)
  show "semanticContractDiagnostics (sc_workflow sc) = []" using v(2) by (simp add: q(2))
qed

section \<open>Routes\<close>

text \<open>Pinned routing is the routing of all edges, with checks.\<close>

lemma pinned_edge_plan:
  assumes "pinned_edge sc placed e f t = Inr p"
  shows "plan_edge sc placed e f t = Inr p" "validateReadableRouteControls e = []" "pin_beyond_origin e = []"
    "label_beyond_origin sc e (rp_points p) = []" "label_pin_problems sc e (rp_points p) = []"
    "route_pin_problems sc e f t (rp_points p) (rp_from p) (rp_to p) = []"
  using assms by (auto simp: pinned_edge_def pin_refusal_def split: list.splits sum.splits if_splits)

lemma pinned_edges_routes:
  assumes "readable (sc_workflow sc)" and "pinned_edges sc placed es = Inr routes"
  shows "route_edges sc placed es = Inr routes"
  using assms(2)
proof (induction es arbitrary: placed)
  case (Cons e es)
  then show ?case
    by (auto simp: pathFor_def assms(1) dest!: pinned_edge_plan(1) split: option.splits sum.splits prod.splits)
qed simp

text \<open>The entry of an edge was pinned when the entries before it were placed.\<close>

definition pinned_at :: "scene \<Rightarrow> placed_routes \<Rightarrow> nat \<Rightarrow> bool" where
  "pinned_at sc placed k \<longleftrightarrow>
     (\<exists>f t p. edge_ends sc (fst (placed ! k)) = Some (f, t) \<and> pinned_edge sc (take k placed) (fst (placed ! k)) f t = Inr p
       \<and> snd (placed ! k) = rp_points p)"

lemma pinned_edges_at:
  assumes "pinned_edges sc placed es = Inr routes" and "\<forall>k < length placed. pinned_at sc placed k"
  shows "(\<forall>k < length routes. pinned_at sc routes k) \<and> fst ` set placed \<subseteq> fst ` set routes
    \<and> (\<forall>e \<in> set es. edge_ends sc e \<noteq> None \<longrightarrow> e \<in> fst ` set routes)"
  using assms
proof (induction es arbitrary: placed)
  case (Cons e es)
  show ?case
  proof (cases "edge_ends sc e")
    case None
    with Cons show ?thesis by simp
  next
    case (Some ft)
    obtain f t where ft: "ft = (f, t)" by force
    from Cons.prems(1) Some obtain p where p: "pinned_edge sc placed e f t = Inr p"
      and rest: "pinned_edges sc (placed @ [(e, rp_points p)]) es = Inr routes"
      by (auto simp: ft split: sum.splits)
    have "pinned_at sc (placed @ [(e, rp_points p)]) k" if k: "k < length (placed @ [(e, rp_points p)])" for k
    proof (cases "k < length placed")
      case True
      with Cons.prems(2) show ?thesis by (simp add: pinned_at_def nth_append)
    next
      case False
      with k have "k = length placed" by simp
      then show ?thesis using Some p by (simp add: pinned_at_def ft)
    qed
    with Cons.IH [OF rest] show ?thesis by auto
  qed
qed simp

lemma legacy_routed: "e \<in> set (wf_edges (sc_workflow sc)) \<Longrightarrow> edge_ends sc e \<noteq> None \<Longrightarrow> e \<in> fst ` set (legacy_routes sc)"
  by (force simp: legacy_routes_def set_map_filter)

lemma every_edge_routed:
  assumes "routed_by sc routes" and "drawing_problems sc routes = []" and "e \<in> set (wf_edges (sc_workflow sc))"
  shows "\<exists>ps. route_of routes e = Some ps"
proof -
  have "edge_ends sc e \<noteq> None"
    using edge_parts(1,2) [OF assms(2,3)] by (auto simp: edge_ends_def dest: weak_map_of_SomeI split: option.splits)
  then have "e \<in> fst ` set routes"
    using assms(1,3) legacy_routed pinned_edges_at [of sc "[]"] by (auto simp: routed_by_def split: if_splits)
  then show ?thesis by (auto simp: route_of_def dest: weak_map_of_SomeI)
qed

section \<open>Compiled workflows\<close>

lemma every_node_placed:
  assumes "measured_scene sc" and "workflow_nodes_finite (sc_workflow sc) (sc_layout sc)" and "n \<in> set (wf_nodes (sc_workflow sc))"
  shows "field n ''id'' \<in> fst ` set (sc_nodes sc)"
proof -
  have "field n ''id'' \<in> fst ` set (workflow_measured (sc_workflow sc) (sc_layout sc))"
    using assms(3) by (simp add: workflow_measured_def keys_of_puts)
  then obtain e where e: "e \<in> set (workflow_measured (sc_workflow sc) (sc_layout sc))" "fst e = field n ''id''" by auto
  with assms(2) obtain b where b: "placed_component e = Some b" by (auto simp: workflow_nodes_finite_def list_all_iff)
  then have "fst b = field n ''id''" using e(2) by (auto simp: placed_component_def split: prod.splits)
  moreover have "b \<in> set (sc_nodes sc)"
    using assms(1) e(1) b by (auto simp: measured_scene_def workflow_nodes_measured set_map_filter)
  ultimately show ?thesis by force
qed

text \<open>C20: what a compiled workflow of either schema version looks like: it is the document in canonical order;
  node ids are unique and every node has a box inside its lane, below the lane title, eight pixels
  from the other nodes of the lane; every edge joins two known nodes and its route keeps two pixels
  from all others; no column lies in two phases; the main path follows edges and never goes back; no
  edge label covers a node or another label.\<close>

theorem workflow_sound:
  assumes "compileWorkflow valid num words marked profile src = Inr (Compiled sc routes width height legend)"
    and "w = sc_workflow sc" and "ns = sc_nodes sc" and "labels = workflow_labels sc routes"
  shows "w = compiled_source num profile src \<and> distinct_ids (wf_nodes w)
    \<and> (\<forall>n \<in> set (wf_nodes w). field n ''id'' \<in> fst ` set ns) \<and> (\<forall>(i, n) \<in> set ns. in_its_lane w (sc_layout sc) n)
    \<and> (\<forall>i j. i < j \<longrightarrow> j < length ns \<longrightarrow> field (pn_object (snd (ns ! i))) ''lane'' = field (pn_object (snd (ns ! j))) ''lane''
        \<longrightarrow> \<not> finite_rects_overlap (rect_of (pn_box (snd (ns ! i)))) (rect_of (pn_box (snd (ns ! j)))) 8)
    \<and> (\<forall>e \<in> set (wf_edges w). rel e ''from'' \<in> fst ` set ns \<and> rel e ''to'' \<in> fst ` set ns
        \<and> (\<exists>ps. route_of routes e = Some ps \<and> (is_string (rel e ''from'') \<and> is_string (rel e ''to'') \<longrightarrow>
            (\<forall>(a, b) \<in> set (segments ps). \<forall>(i, n) \<in> set ns. i \<noteq> rel e ''from'' \<longrightarrow> i \<noteq> rel e ''to'' \<longrightarrow>
              \<not> segmentIntersectsRect a b (rect_of (pn_box n)) 2))))
    \<and> (\<forall>c. length (filter (covers_column c) (wf_phases w)) \<le> 1)
    \<and> (\<forall>(i, j) \<in> set (segments (wf_main_path w)). \<exists>m n. node_by_id w i = Some m \<and> node_by_id w j = Some n
        \<and> (\<exists>e \<in> set (wf_edges w). rel e ''from'' = i \<and> rel e ''to'' = j)
        \<and> (\<forall>a b. number_of (field m ''col'') = Some a \<longrightarrow> number_of (field n ''col'') = Some b \<longrightarrow> a \<le> b))
    \<and> (\<forall>l \<in> set labels. \<forall>x \<in> set ns. \<not> rectsOverlap (snd (snd l)) (raw_of (rect_of (pn_box (snd x)))) (- 2))
    \<and> (\<forall>i j. i < j \<longrightarrow> j < length labels \<longrightarrow> \<not> rectsOverlap (snd (snd (labels ! i))) (snd (snd (labels ! j))) (- 2))"
proof (intro conjI ballI allI impI)
  note c = compiled_parts [OF assms(1)]
  note p = workflow_parts [OF c(6) refl refl]
  have fin: "workflow_nodes_finite w (sc_layout sc)" using measured_finite [OF p(4)] assms(2) by simp
  note d = p(8) [OF measured_finite [OF p(4)]]
  note q = drawing_parts [OF d refl, folded assms(2-4)]
  have acc: "accepted_workflow words marked (sc, routes)" using c(6) by (simp add: accepted_workflow_def)
  show "w = compiled_source num profile src" using c(1) assms(2) by simp
  show "distinct_ids (wf_nodes w)" using p(3) assms(2) by (simp add: id_problems_def)
  show "field n ''id'' \<in> fst ` set ns" if "n \<in> set (wf_nodes w)" for n
    using every_node_placed [OF c(3)] fin that assms(2,3) by simp
  show "case x of (i, n) \<Rightarrow> in_its_lane w (sc_layout sc) n" if "x \<in> set ns" for x
    using node_in_lane [OF p(4), of "fst x" "snd x"] that c(3) assms(2,3) by (simp add: split_beta measured_scene_def)
  show "\<not> finite_rects_overlap (rect_of (pn_box (snd (ns ! i)))) (rect_of (pn_box (snd (ns ! j)))) 8"
    if "i < j" "j < length ns" "field (pn_object (snd (ns ! i))) ''lane'' = field (pn_object (snd (ns ! j))) ''lane''" for i j
    by (rule nodes_not_crowded [OF q(1) that])
  show "rel e ''from'' \<in> fst ` set ns" "rel e ''to'' \<in> fst ` set ns" if "e \<in> set (wf_edges w)" for e
    using edge_parts(1,2) [OF d] that assms(2,3) by simp_all
  show "\<exists>ps. route_of routes e = Some ps \<and> (is_string (rel e ''from'') \<and> is_string (rel e ''to'') \<longrightarrow>
            (\<forall>(a, b) \<in> set (segments ps). \<forall>(i, n) \<in> set ns. i \<noteq> rel e ''from'' \<longrightarrow> i \<noteq> rel e ''to'' \<longrightarrow>
              \<not> segmentIntersectsRect a b (rect_of (pn_box n)) 2))" if e: "e \<in> set (wf_edges w)" for e
  proof -
    obtain ps where ps: "route_of routes e = Some ps" using every_edge_routed [OF c(5) d] e assms(2) by blast
    have g: "e \<in> set (gi_relations (workflow_gates (sc, routes)))" using e assms(2) by (simp add: workflow_gates_def)
    from ps workflow_drawing.clear_of_other_nodes [OF acc g, unfolded fst_conv snd_conv, folded assms(3)] show ?thesis by fast
  qed
  show "length (filter (covers_column c) (wf_phases w)) \<le> 1" for c using phases_apart [OF p(6,5)] assms(2) by simp
  show "case x of (i, j) \<Rightarrow> \<exists>m n. node_by_id w i = Some m \<and> node_by_id w j = Some n
        \<and> (\<exists>e \<in> set (wf_edges w). rel e ''from'' = i \<and> rel e ''to'' = j)
        \<and> (\<forall>a b. number_of (field m ''col'') = Some a \<longrightarrow> number_of (field n ''col'') = Some b \<longrightarrow> a \<le> b)"
    if "x \<in> set (segments (wf_main_path w))" for x
    using main_path_linked [OF q(4), of "fst x" "snd x"] that by (simp add: split_beta)
  show "\<not> rectsOverlap (snd (snd l)) (raw_of (rect_of (pn_box (snd x)))) (- 2)" if "l \<in> set labels" "x \<in> set ns" for l x
    by (rule no_label_on_nodes [OF q(5) that])
  show "\<not> rectsOverlap (snd (snd (labels ! i))) (snd (snd (labels ! j))) (- 2)" if "i < j" "j < length labels" for i j
    by (rule no_overlapping_labels [OF q(6) that])
qed

section \<open>Pinned routes\<close>

lemma natural_tried: "natural_sides e f t \<in> set (side_pairs e [natural_sides e f t])"
  by (auto simp: side_pairs_def natural_sides_def Let_def some_or_def split: option.splits)

lemma pinned_plan:
  assumes "plan_edge sc placed e f t = Inr p" and "readable (sc_workflow sc)" and "is_array (rel e ''via'')"
  shows "\<exists>s en. rp_points p = s # points_of (rel e ''via'') @ [en]"
proof -
  have pins: "hasAbsoluteRoutePins e" using assms(3) by (simp add: hasAbsoluteRoutePins_def)
  have via: "truthy (rel e ''via'')" using assms(3) by (auto simp: is_array_def split: jval.splits)
  let ?ms = "map (materialized sc placed e f t) (indexed (side_pairs e [natural_sides e f t]))"
  have ne: "?ms \<noteq> []"
    using natural_tried [of e f t] length_indexed [of "side_pairs e [natural_sides e f t]"] by (auto simp del: length_indexed)
  have "readableControlledRoute sc placed e f t = Inr p"
    using assms(1,2) pins by (simp add: plan_edge_def isReadableControlledRoute_def)
  then have "p \<in> set (cost_sort (filter (controlled_ok sc placed e f t) ?ms)) \<or> p = hd (filter diagnosable ?ms @ ?ms)"
    unfolding readableControlledRoute_def Let_def by (auto simp: pins simp del: set_cost_sort split: list.splits)
  moreover have "hd (filter diagnosable ?ms @ ?ms) \<in> set (filter diagnosable ?ms @ ?ms)" by (rule hd_in_set) (use ne in auto)
  ultimately have "p \<in> set ?ms" by auto
  then show ?thesis
    by (auto simp: materialized_def Let_def pins prescribed_via_def via some_or_def closed_def)
qed

lemma pinned_routes_at:
  assumes "validateReadablePinnedGeometry sc = Pinned routes" and "(e, ps) \<in> set routes"
  obtains placed f t p where "edge_ends sc e = Some (f, t)" "pinned_edge sc placed e f t = Inr p" "ps = rp_points p"
proof -
  have "pinned_edges sc [] (wf_edges (sc_workflow sc)) = Inr routes"
    using assms(1) by (auto simp: validateReadablePinnedGeometry_def split: sum.splits list.splits)
  from pinned_edges_at [OF this] have at_k: "\<forall>k < length routes. pinned_at sc routes k" by simp
  from assms(2) obtain k where k: "k < length routes" "routes ! k = (e, ps)" by (auto simp: in_set_conv_nth)
  with at_k have "pinned_at sc routes k" by blast
  with k(2) that show ?thesis by (auto simp: pinned_at_def)
qed

lemma silent_segments:
  assumes "concat (map (segment_pin_problems n) (indexed xs)) = []" and "(a, b) \<in> set xs"
  shows "near (fst b) (fst a) \<noteq> near (snd b) (snd a)" "8 \<le> manhattan a b + 1 / 10000"
proof -
  from assms(2) obtain k where "(k, a, b) \<in> set (indexed xs)" by (metis in_set_conv_nth indexed_iff)
  with assms(1) have p: "segment_pin_problems n (k, a, b) = []" by auto
  then show "near (fst b) (fst a) \<noteq> near (snd b) (snd a)" by (auto simp: segment_pin_problems_def split: if_splits)
  with p show "8 \<le> manhattan a b + 1 / 10000"
    by (auto simp: segment_pin_problems_def not_less split: if_splits)
qed

lemma no_node_collisions:
  assumes "node_collisions ns e ps = []" and "(i, n) \<in> set ns" and "bid (pn_box n) \<notin> {rel e ''from'', rel e ''to''}"
    and "(a, b) \<in> set (segments ps)"
  shows "\<not> segmentIntersectsRect a b (rect_of (pn_box n)) 2"
proof -
  from assms(4) obtain k where "(k, a, b) \<in> set (indexed (segments ps))" by (metis in_set_conv_nth indexed_iff)
  with assms(1-3) show ?thesis by (force simp: node_collisions_def map_filter_empty list_ex_iff split: if_splits)
qed

text \<open>C21: authored routes are kept: when the pinned geometry of a readable workflow passes, the route of an edge
  with authored points runs through exactly these points, in their order, from one side of its source
  to one of its target, in horizontal and vertical segments of at least 8 pixels, keeps two pixels
  from every other node and touches neither the legend nor a header of a lane, phase or group, nor
  runs along a frame; no authored point lies left of or above the canvas, and an authored label covers
  no node.\<close>

theorem authored_routes_kept:
  assumes "validateReadablePinnedGeometry sc = Pinned routes" and "readable (sc_workflow sc)"
    and "(e, ps) \<in> set routes" and "is_array (rel e ''via'')"
  shows "(\<exists>s en. ps = s # points_of (rel e ''via'') @ [en])
    \<and> (\<forall>(a, b) \<in> set (segments ps). near (fst b) (fst a) \<noteq> near (snd b) (snd a) \<and> 8 \<le> manhattan a b + 1 / 10000)
    \<and> (\<forall>(i, n) \<in> set (sc_nodes sc). bid (pn_box n) \<notin> {rel e ''from'', rel e ''to''} \<longrightarrow>
        (\<forall>(a, b) \<in> set (segments ps). \<not> segmentIntersectsRect a b (rect_of (pn_box n)) 2))
    \<and> (\<forall>r \<in> set (sc_legend sc) \<union> set (scene_label_rects sc). \<not> meets_rect ps r) \<and> routeClearsFrameBorders sc ps
    \<and> (\<forall>(x, y) \<in> set (points_of (rel e ''via'')). 0 \<le> x \<and> 0 \<le> y)
    \<and> (\<forall>r. truthy (rel e ''labelAt'') \<and> scene_label sc e ps = Some r \<longrightarrow>
        (\<forall>(i, n) \<in> set (sc_nodes sc). \<not> finite_rects_overlap r (rect_of (pn_box n)) (- 2)))"
proof -
  obtain placed f t p where t: "pinned_edge sc placed e f t = Inr p" "ps = rp_points p"
    by (rule pinned_routes_at [OF assms(1,3)])
  note q = pinned_edge_plan [OF t(1), folded t(2)]
  have pins: "hasAbsoluteRoutePins e" using assms(4) by (simp add: hasAbsoluteRoutePins_def)
  have r: "concat (map (segment_pin_problems (length ps)) (indexed (segments ps))) = []" "node_collisions (sc_nodes sc) e ps = []"
    "\<not> list_ex (meets_rect ps) (sc_legend sc)" "\<not> list_ex (meets_rect ps) (scene_label_rects sc)" "routeClearsFrameBorders sc ps"
    using q(6) pins unfolding route_pin_problems_def append_is_Nil_conv problem_if_Nil map_is_Nil_conv by simp_all
  have label: "\<not> finite_rects_overlap r (rect_of (pn_box n)) (- 2)"
    if "truthy (rel e ''labelAt'')" "scene_label sc e ps = Some r" "(i, n) \<in> set (sc_nodes sc)" for r i n
    using q(5) that by (force simp: label_pin_problems_def map_filter_empty split: if_splits)
  have origin: "\<forall>(x, y) \<in> set (points_of (rel e ''via'')). 0 \<le> x \<and> 0 \<le> y"
    using q(3) by (fastforce simp: pin_beyond_origin_def list_ex_iff not_less split: if_splits)
  show ?thesis
    using pinned_plan [OF q(1) assms(2,4), folded t(2)] silent_segments [OF r(1)] no_node_collisions [OF r(2)] r(3-5) origin label
    unfolding list_ex_iff by blast
qed

section \<open>Feedback\<close>

text \<open>C32: the loop between router and layout makes at most four attempts and returns the result of the last;
  the layout of every attempt meets all requests that the attempts before it made, also when the
  same columns were asked for twice, and it still keeps all other distances of the layout.\<close>

theorem feedback_requests_met:
  assumes "as = attempts (compileWorkflowInternal valid num words marked src) 3 no_feedback"
    and "w = canonicalReadableWorkflow num src"
  shows "length as \<le> 4
    \<and> compileWorkflowWithFeedback valid num words marked src = compileWorkflowInternal valid num words marked src (fst (last as))
    \<and> (\<forall>j < length as. \<forall>i < j. \<forall>q. snd (as ! i) = Some q \<longrightarrow> meets (createReadableLayout num w (fst (as ! j))) q)"
proof (intro conjI allI impI)
  show "length as \<le> 4"
    using attempts_length [of "compileWorkflowInternal valid num words marked src" 3 no_feedback] assms(1) by simp
  show "compileWorkflowWithFeedback valid num words marked src = compileWorkflowInternal valid num words marked src (fst (last as))"
    by (simp only: compileWorkflowWithFeedback_def attempts_result assms(1))
  fix i j q assume "j < length as" "i < j" "snd (as ! i) = Some q"
  then show "meets (createReadableLayout num w (fst (as ! j))) q"
    using covered_met attempts_answer assms(1) by blast
qed

end
