(* ===== verification/WorkflowSamples.thy ===== *)
theory WorkflowSamples
  imports WorkflowCompilerFacts
begin

text \<open>
  Two small workflows through the stages of the compiler: one of schema version 1 that compiles, and a
  readable scene whose edge has an authored point.  They show that the hypotheses of the compiler's
  theorems can hold.
\<close>

section \<open>A compiled workflow\<close>

definition lane_step :: "string \<Rightarrow> real \<Rightarrow> jval" where
  "lane_step i c = JObj [(lit ''id'', JStr (lit i)), (lit ''lane'', JStr (lit ''l'')), (lit ''col'', JNum c),
     (lit ''label'', JStr (lit ''run''))]"

definition lane_edge :: relation where
  "lane_edge = \<lparr>address = 0, object = JObj [(lit ''from'', JStr (lit ''a'')), (lit ''to'', JStr (lit ''b'')),
     (lit ''via'', JArr [JArr [JNum 150, JNum 119]])]\<rparr>"

definition fixed_sample :: workflow where
  "fixed_sample = \<lparr>wf_version = JNum 1,
     wf_meta = JObj [(lit ''title'', JStr (lit ''flow'')), (lit ''legend'', JObj [(lit ''mode'', JStr (lit ''hidden''))])],
     wf_lanes = [JObj [(lit ''id'', JStr (lit ''l''))]], wf_phases = [], wf_groups = [],
     wf_nodes = [lane_step ''a'' 0, lane_step ''b'' 1], wf_edges = [lane_edge],
     wf_main_path = [JStr (lit ''a''), JStr (lit ''b'')], wf_checks = JUndef\<rparr>"

lemma lane_step_fields [simp]:
  "field (lane_step i c) ''id'' = JStr (lit i)" "field (lane_step i c) ''lane'' = JStr (lit ''l'')"
  "field (lane_step i c) ''col'' = JNum c" "field (lane_step i c) ''label'' = JStr (lit ''run'')"
  "field (lane_step i c) ''width'' = JUndef" "field (lane_step i c) ''height'' = JUndef" "field (lane_step i c) ''tag'' = JUndef"
  "field (lane_step i c) ''yOffset'' = JUndef" "field (lane_step i c) ''sublabel'' = JUndef" "field (lane_step i c) ''type'' = JUndef"
  by (simp_all add: field_def lane_step_def)

lemma lane_edge_fields [simp]:
  "rel lane_edge ''from'' = JStr (lit ''a'')" "rel lane_edge ''to'' = JStr (lit ''b'')" "rel lane_edge ''label'' = JUndef"
  "rel lane_edge ''via'' = JArr [JArr [JNum 150, JNum 119]]" "rel lane_edge ''fromSide'' = JUndef" "rel lane_edge ''toSide'' = JUndef"
  "rel lane_edge ''route'' = JUndef" "\<not> spread_eligible lane_edge"
  by (simp_all add: rel_def lane_edge_def spread_eligible_def)

lemma fixed_sample_parts [simp]:
  "\<not> readable fixed_sample" "wf_nodes fixed_sample = [lane_step ''a'' 0, lane_step ''b'' 1]" "wf_edges fixed_sample = [lane_edge]"
  "wf_phases fixed_sample = []" "wf_groups fixed_sample = []" "wf_main_path fixed_sample = [JStr (lit ''a''), JStr (lit ''b'')]"
  "wf_checks fixed_sample = JUndef" "wf_version fixed_sample = JNum 1" "length (wf_lanes fixed_sample) = 1"
  "wf_lanes fixed_sample = [JObj [(lit ''id'', JStr (lit ''l''))]]" "field (wf_meta fixed_sample) ''title'' = JStr (lit ''flow'')"
  "field (wf_meta fixed_sample) ''quality_profile'' = JUndef" "field (wf_meta fixed_sample) ''viewBox'' = JUndef"
  "lane_order fixed_sample = [(JStr (lit ''l''), 0)]"
  by (simp_all add: fixed_sample_def readable_def field_def lane_order_def indexed_def)

definition step_rect :: "real \<Rightarrow> rect" where
  "step_rect x = \<lparr>rx = x, ry = 93, rwidth = 92, rheight = 52\<rparr>"

definition step_box :: "string \<Rightarrow> real \<Rightarrow> real \<Rightarrow> jval \<times> placed_node" where
  "step_box i c x = (JStr (lit i), \<lparr>pn_object = lane_step i c, pn_box = box_of (JStr (lit i)) (step_rect x)\<rparr>)"

lemma step_box_parts [simp]:
  "fst (step_box i c x) = JStr (lit i)" "pn_object (snd (step_box i c x)) = lane_step i c"
  "pn_box (snd (step_box i c x)) = box_of (JStr (lit i)) (step_rect x)" "rect_of (box_of j r) = r" "finite_rect (raw_of r) = Some r"
  by (simp_all add: step_box_def rect_of_def box_of_def rect.truncate_def raw_of_def)

lemma legacy_layout [simp]:
  "wl_lane_w createLegacyLayout = 640" "wl_columns createLegacyLayout = [88, 220, 300, 430, 500, 625]"
  "laneHeight createLegacyLayout k = 104" "laneGroupHeaderH createLegacyLayout k = 0" "laneGroupFooterH createLegacyLayout k = 0"
  "laneTop createLegacyLayout 0 = 52"
  by (simp_all add: createLegacyLayout_def laneHeight_def laneGroupHeaderH_def laneGroupFooterH_def laneTop_def nth_or_def)

lemma fixed_measured: "workflow_measured fixed_sample createLegacyLayout
    = [(JStr (lit ''a''), lane_step ''a'' 0, raw_of (step_rect 42)), (JStr (lit ''b''), lane_step ''b'' 1, raw_of (step_rect 174))]"
  by (simp add: workflow_measured_def workflow_measureNode_def Let_def column_index_def nonzero_or_def raw_of_def step_rect_def)

lemma fixed_nodes: "workflow_nodes fixed_sample createLegacyLayout = [step_box ''a'' 0 42, step_box ''b'' 1 174]"
  by (simp add: workflow_nodes_measured fixed_measured placed_component_def List.map_filter_simps step_box_def raw_of_def step_rect_def)

definition fixed_scene :: "(jstring \<Rightarrow> jstring) \<Rightarrow> scene" where
  "fixed_scene words = \<lparr>sc_num = (\<lambda>_. []), sc_workflow = fixed_sample, sc_layout = createLegacyLayout,
     sc_nodes = [step_box ''a'' 0 42, step_box ''b'' 1 174], sc_legend = [],
     sc_canvas_width = minimumCanvasWidth words fixed_sample createLegacyLayout,
     sc_canvas_height = autoHeight words fixed_sample createLegacyLayout\<rparr>"

lemma fixed_scene_parts [simp]:
  "sc_workflow (fixed_scene words) = fixed_sample" "sc_layout (fixed_scene words) = createLegacyLayout"
  "sc_nodes (fixed_scene words) = [step_box ''a'' 0 42, step_box ''b'' 1 174]" "sc_num (fixed_scene words) = (\<lambda>_. [])"
  by (simp_all add: fixed_scene_def)

lemma fixed_scene_made: "workflow_scene (\<lambda>_. []) words fixed_sample fb = Inr (fixed_scene words)"
  by (simp add: workflow_scene_def workflow_layout_of_def Let_def fixed_nodes fixed_scene_def)

lemma fixed_ends: "edge_ends (fixed_scene words) lane_edge
    = Some (snd (step_box ''a'' 0 42), snd (step_box ''b'' 1 174))"
  by (simp add: edge_ends_def step_box_def)

definition fixed_points :: "point list" where
  "fixed_points = [(134, 119), (150, 119), (174, 119)]"

lemma fixed_ports: "workflow_ports (fixed_scene words) k = None"
  by (simp add: workflow_ports_def automaticPortSpread_def port_groups_def relation_items_def all_relations_def asArray_def)

lemma fixed_route: "legacy_routes (fixed_scene words) = [(lane_edge, fixed_points)]"
proof -
  let ?a = "snd (step_box ''a'' 0 42)" and ?b = "snd (step_box ''b'' 1 174)"
  have sides: "edgeSides (fixed_scene words) [] lane_edge ?a ?b = (RIGHT, LEFT)"
    by (simp add: edgeSides_def legacyAutomaticOneBendSides_def Let_def connectionSides_def chosenSide_def
        defaultFromSide_def defaultToSide_def box_of_def step_rect_def)
  have "legacy_route (fixed_scene words) lane_edge ?a ?b = fixed_points"
    by (simp add: legacy_route_def Let_def sides fixed_ports some_or_def anchor_def prescribed_via_def points_of_def
        point_of_def List.map_filter_simps closed_def fixed_points_def box_of_def step_rect_def)
  then show ?thesis by (simp add: legacy_routes_def List.map_filter_simps fixed_ends)
qed

lemma fixed_path: "workflow_path [(lane_edge, fixed_points)] lane_edge = raw_path fixed_points"
  by (simp add: workflow_path_def route_of_def)

lemma fixed_gates:
  "route_gates None (workflow_gates (fixed_scene words, [(lane_edge, fixed_points)])) = []" (is ?r)
  "label_gate num None (workflow_gates (fixed_scene words, [(lane_edge, fixed_points)])) ls = []" (is ?l)
proof -
  define g where "g = workflow_gates (fixed_scene words, [(lane_edge, fixed_points)])"
  have g: "gi_relations g = [lane_edge]" "gi_profile g = JUndef" "gi_path g = workflow_path [(lane_edge, fixed_points)]"
    "gi_obstacles g = node_obstacles [step_box ''a'' 0 42, step_box ''b'' 1 174]"
    by (simp_all add: g_def workflow_gates_def)
  have long: "2 \<le> length fixed_points" by (simp add: fixed_points_def)
  have "obstacle_problems 0 lane_edge fixed_points (gi_clearance g) (gi_obstacles g) = []"
    by (simp add: g obstacle_problems_def node_obstacles_def obstacle_problem_def List.map_filter_simps step_box_def)
  then have flow: "cleanFlowProblems (all_relations (gi_relations g)) (gi_obstacles g) (gi_path g) (gi_clearance g) = []"
    by (simp add: g cleanFlowProblems_def all_relations_def asArray_def indexed_def fixed_path routed_raw_path [OF long]
        del: raw_path_points)
  have "cleanEndpointSideProblems (all_relations (gi_relations g)) (gi_ids g) (gi_path g) (Some (gi_from_side g))
      (Some (gi_to_side g)) (\<lambda>r i. gi_check_sides g r) = []"
    by (simp add: g cleanEndpointSideProblems_def all_relations_def asArray_def indexed_def side_check_def side_to_check_def
        authored_side_def has_route_geometry_def)
  from plain_gates_silent [OF g(2) flow this] show ?r ?l by (simp_all add: g_def)
qed

lemma fixed_crowded: "crowded_nodes [step_box ''a'' 0 42, step_box ''b'' 1 174] = []"
  by (simp add: crowded_nodes_def lanes_used_def in_lane_def close_nodes_def List.map_filter_simps split_beta
      finite_rects_overlap_def step_rect_def)

lemma fixed_drawing: "drawing_problems (fixed_scene words) [(lane_edge, fixed_points)] = []"
proof -
  have labels: "workflow_labels (fixed_scene words) [(lane_edge, fixed_points)] = []"
    by (simp add: workflow_labels_def indexed_def List.map_filter_simps route_of_def scene_label_def candidateLabelRect_def)
  have edges: "concat (map (workflow_edge_problems (fixed_scene words) [(lane_edge, fixed_points)]) (indexed [lane_edge])) = []"
    by (simp add: indexed_def workflow_edge_problems_def route_of_def fixed_points_def)
  have main: "main_path_problems fixed_sample = []"
    by (simp add: main_path_problems_def known_node_def segments_def step_problems_def node_by_id_def)
  show ?thesis
    unfolding drawing_problems_def Let_def labels fixed_gates fixed_scene_parts fixed_sample_parts edges main fixed_crowded
    by (simp add: labels_on_nodes_def overlapping_labels_def List.map_filter_simps)
qed

lemma run_units [simp]: "label_units num (JStr (lit ''run'')) = 3"
  by (simp add: label_units_def shown_def textUnits_def lit_Cons fullwidth_def FULLWIDTH_RE_def variation_selector_def
      high_surrogate_def low_surrogate_def)

lemma fixed_legend: "workflowLegendEntries words fixed_sample = []" "legendExtraHeight words fixed_sample l = 0"
    "minimumCanvasWidth words fixed_sample createLegacyLayout = 720"
  by (simp_all add: workflowLegendEntries_def resolveLegend_def legend_config_of_def fixed_sample_def field_def
      legend_mode_def legendExtraHeight_def readable_def minimumCanvasWidth_def createLegacyLayout_def)

lemma fixed_canvas: "workflow_view_box words fixed_sample createLegacyLayout = (720, 280)"
    "legendY words fixed_sample createLegacyLayout = 200"
proof -
  have "view_box (wf_meta fixed_sample) = None" by (simp add: view_box_def point_of_def)
  then show "workflow_view_box words fixed_sample createLegacyLayout = (720, 280)"
    by (simp add: workflow_view_box_def some_or_def fixed_legend autoHeight_def lane_count_def) (simp add: createLegacyLayout_def)
  show "legendY words fixed_sample createLegacyLayout = 200"
    by (simp add: legendY_def fixed_legend lastLaneBottom_def)
qed

lemma fixed_valid: "validateWorkflow words (\<lambda>_. False) (fixed_scene words) [(lane_edge, fixed_points)] = []"
proof -
  have clear: "signed_clearance (raw_of (step_rect 42)) (raw_of (step_rect 174)) = Some 40"
    by (simp add: signed_clearance_def raw_cx_def raw_of_def step_rect_def)
  have level: "\<not> direct_level lane_edge f t" for f t by (simp add: direct_level_def)
  have capacity: "enforceLegacyColumnCapacity fixed_sample createLegacyLayout = []"
    by (simp add: enforceLegacyColumnCapacity_def fixed_measured lacks_capacity_def clear level)
  have nodes: "concat (map (workflow_node_problems (\<lambda>_. []) (\<lambda>_. False) fixed_sample createLegacyLayout)
      (workflow_measured fixed_sample createLegacyLayout)) = []"
    by (simp add: fixed_measured workflow_node_problems_def valid_column_def column_index_def node_text_problems_def
        lane_bounds_def brand_rail_problem_def text_too_wide_def raw_of_def step_rect_def)
  have ids: "id_problems fixed_sample = []" by (simp add: id_problems_def distinct_ids_def)
  have shape: "structure_problems fixed_sample = []" by (simp add: structure_problems_def)
  have canvas: "canvas_problems words fixed_sample createLegacyLayout = []"
    by (simp add: canvas_problems_def fixed_canvas)
  show ?thesis
    unfolding validateWorkflow_def Let_def fixed_scene_parts shape capacity ids nodes canvas fixed_drawing
    by (simp add: phase_ranges_def sort_by_def)
qed

lemma fixed_compiles: "compileWorkflow (\<lambda>_. True) (\<lambda>_. []) words (\<lambda>_. False) JUndef fixed_sample
    = Inr (Compiled (fixed_scene words) [(lane_edge, fixed_points)] 720 280 None)"
proof -
  have finish: "finish_workflow words (\<lambda>_. False) (fixed_scene words) [(lane_edge, fixed_points)]
      = Compiled (fixed_scene words) [(lane_edge, fixed_points)] 720 280 None"
    by (simp add: finish_workflow_def fixed_valid finalizeReadableViewBox_def Let_def fixed_canvas workflow_legend_def fixed_legend)
  have scene: "compile_scene words (\<lambda>_. False) (fixed_scene words)
      = Inr (Compiled (fixed_scene words) [(lane_edge, fixed_points)] 720 280 None)"
    by (simp add: compile_scene_def fixed_route finish)
  have "compileWorkflowInternal (\<lambda>_. True) (\<lambda>_. []) words (\<lambda>_. False) fixed_sample fb
      = Inr (Compiled (fixed_scene words) [(lane_edge, fixed_points)] 720 280 None)" for fb
    by (simp add: compileWorkflowInternal_def Let_def canonicalReadableWorkflow_def semanticContractDiagnostics_def
        validateReadableInputsBeforeRouting_def fixed_scene_made scene)
  then show ?thesis
    by (simp add: compileWorkflow_def compileWorkflowWithFeedback_def with_profile_def numeral_eq_Suc)
qed

lemma workflow_sound_witness:
  "in_its_lane fixed_sample createLegacyLayout (snd (step_box ''a'' 0 42))
   \<and> length (filter (covers_column 0) (wf_phases fixed_sample)) \<le> 1
   \<and> (\<exists>ps. route_of [(lane_edge, fixed_points)] lane_edge = Some ps)"
  using workflow_sound [OF fixed_compiles [of id] refl refl refl] by auto

text \<open>The attempts of the feedback loop for this workflow: one, without a request.\<close>

lemma feedback_requests_met_witness:
  "length (attempts (compileWorkflowInternal (\<lambda>_. True) (\<lambda>_. []) id (\<lambda>_. False) fixed_sample) 3 no_feedback) \<le> 4
   \<and> compileWorkflowWithFeedback (\<lambda>_. True) (\<lambda>_. []) id (\<lambda>_. False) fixed_sample
      = Inr (Compiled (fixed_scene id) [(lane_edge, fixed_points)] 720 280 None)"
  using feedback_requests_met [OF refl refl, of "\<lambda>_. True" "\<lambda>_. []" id "\<lambda>_. False" fixed_sample] fixed_compiles [of id]
  by (simp add: compileWorkflow_def with_profile_def)

section \<open>A readable scene with an authored point\<close>

definition pin_edge :: relation where
  "pin_edge = \<lparr>address = 0, object = JObj [(lit ''from'', JStr (lit ''a'')), (lit ''to'', JStr (lit ''b'')),
     (lit ''fromSide'', JStr (lit ''right'')), (lit ''toSide'', JStr (lit ''left'')), (lit ''via'', JArr [JArr [JNum 200, JNum 125]])]\<rparr>"

definition pin_scene :: scene where
  "pin_scene = scene_sample\<lparr>sc_workflow := (sc_workflow scene_sample)\<lparr>wf_edges := [pin_edge]\<rparr>\<rparr>"

lemma pin_edge_fields [simp]:
  "rel pin_edge ''from'' = JStr (lit ''a'')" "rel pin_edge ''to'' = JStr (lit ''b'')" "rel pin_edge ''label'' = JUndef"
  "rel pin_edge ''via'' = JArr [JArr [JNum 200, JNum 125]]" "rel pin_edge ''fromSide'' = RIGHT" "rel pin_edge ''toSide'' = LEFT"
  "rel pin_edge ''route'' = JUndef" "rel pin_edge ''channelX'' = JUndef" "rel pin_edge ''channelY'' = JUndef"
  "rel pin_edge ''labelAt'' = JUndef"
  by (simp_all add: rel_def pin_edge_def RIGHT_def LEFT_def)

lemma pin_scene_parts [simp]:
  "readable (sc_workflow pin_scene)" "wf_edges (sc_workflow pin_scene) = [pin_edge]" "sc_nodes pin_scene = sc_nodes scene_sample"
  "edge_ends pin_scene pin_edge = Some (scene_a, scene_b)" "scene_label pin_scene pin_edge ps = None" "sc_legend pin_scene = []"
  "scene_frames pin_scene = []" "scene_label_rects pin_scene = []" "field (wf_meta (sc_workflow pin_scene)) ''quality_profile'' = JUndef"
  by (simp_all add: pin_scene_def scene_sample_def readable_def edge_ends_def scene_node_def scene_label_def candidateLabelRect_def
      scene_frames_def workflowCompositionFrames_def workflowSceneLabelObstacles_def scene_label_rects_def field_def)

definition pin_points :: "point list" where
  "pin_points = [(150, 125), (200, 125), (250, 125)]"

lemma pin_via [simp]: "points_of (JArr [JArr [JNum 200, JNum 125]]) = [(200, 125)]"
  by (simp add: points_of_def point_of_def List.map_filter_simps)

lemma pin_plan:
  assumes "readable (sc_workflow sc)"
  shows "\<exists>p. plan_edge sc placed pin_edge scene_a scene_b = Inr p
    \<and> rp_points p = pin_points \<and> rp_from p = RIGHT \<and> rp_to p = LEFT"
proof -
  have pins: "hasAbsoluteRoutePins pin_edge" by (simp add: hasAbsoluteRoutePins_def is_array_def)
  have natural: "natural_sides pin_edge scene_a scene_b = (RIGHT, LEFT)" by (simp add: natural_sides_def some_or_def)
  have pairs: "side_pairs pin_edge [(RIGHT, LEFT)] = [(RIGHT, LEFT)]" by (simp add: side_pairs_def side_choices_def Let_def)
  define m where "m = materialized sc placed pin_edge scene_a scene_b (0, RIGHT, LEFT)"
  have m: "rp_points m = pin_points" "rp_from m = RIGHT" "rp_to m = LEFT"
    by (simp_all add: m_def materialized_def Let_def pins prescribed_via_def pin_via some_or_def closed_def pin_points_def
        anchor_def scene_node_def box_of_def)
  have "readableControlledRoute sc placed pin_edge scene_a scene_b = Inr m"
    unfolding readableControlledRoute_def Let_def natural pairs
    by (simp add: indexed_def m_def [symmetric] pins cost_sort_def sort_by_def split: list.split)
  then show ?thesis using m by (simp add: plan_edge_def isReadableControlledRoute_def pins assms)
qed

lemma pin_honors: "honors_sides pin_points RIGHT LEFT"
proof -
  have norm: "normalizeRoutePoints (raw_path pin_points) = [(150, 125), (250, 125)]"
    by (simp add: pin_points_def normalizeRoutePoints_def merge_collinear_def far_apart_def collinearForward_def crossProduct_def)
  show ?thesis
    unfolding honors_sides_def routeHonorsEndpointSides_def endpointSideIssue_def norm
    by (simp add: ENDPOINT_SIDE_RULES_def side_name_def RIGHT_def LEFT_def)
qed

lemma pin_collisions: "node_collisions (sc_nodes scene_sample) pin_edge pin_points = []"
proof -
  have "\<not> segmentIntersectsRect (200, 125) (250, 125) \<lparr>rx = 50, ry = 100, rwidth = 100, rheight = 50\<rparr> 0"
    "\<not> segmentIntersectsRect (150, 125) (200, 125) \<lparr>rx = 250, ry = 100, rwidth = 100, rheight = 50\<rparr> 0"
    by (simp_all add: segmentIntersectsRect_def grown_box_def pointInBox_def segmentsIntersect_def orientation_def
        onSegment_def Let_def crossProduct_def)
  then show ?thesis
    by (simp add: node_collisions_def scene_sample_def scene_node_def pin_points_def indexed_def List.map_filter_simps box_of_def
        rect_of_def rect.truncate_def)
qed

lemma pin_edge_passes: "\<exists>p. pinned_edge pin_scene placed pin_edge scene_a scene_b = Inr p \<and> rp_points p = pin_points"
proof -
  obtain p where p: "plan_edge pin_scene placed pin_edge scene_a scene_b = Inr p" "rp_points p = pin_points"
      "rp_from p = RIGHT" "rp_to p = LEFT" using pin_plan [OF pin_scene_parts(1)] by blast
  have segs: "concat (map (segment_pin_problems (length pin_points)) (indexed (segments pin_points))) = []"
    by (simp add: pin_points_def indexed_def segment_pin_problems_def near_def manhattan_def)
  have frames: "routeClearsFrameBorders pin_scene pin_points"
    by (simp add: routeClearsFrameBorders_def collectBorderRuns_def asArray_def Let_def split: option.split)
  have route: "route_pin_problems pin_scene pin_edge scene_a scene_b pin_points RIGHT LEFT = []"
    unfolding route_pin_problems_def segs
    by (simp add: channel_pins_kept_def has_route_def or_value_def pin_honors pin_collisions frames)
  have rest: "label_beyond_origin pin_scene pin_edge pin_points = []" "pin_beyond_origin pin_edge = []"
    "label_pin_problems pin_scene pin_edge pin_points = []" "validateReadableRouteControls pin_edge = []"
    by (simp_all add: label_beyond_origin_def pin_beyond_origin_def pin_via negative_def label_pin_problems_def
        validateReadableRouteControls_def has_route_def or_value_def)
  show ?thesis
    by (rule exI [of _ p]) (simp add: pinned_edge_def pin_refusal_def p rest route)
qed

lemma pin_scene_pinned: "validateReadablePinnedGeometry pin_scene = Pinned [(pin_edge, pin_points)]"
proof -
  obtain p where p: "pinned_edge pin_scene [] pin_edge scene_a scene_b = Inr p" "rp_points p = pin_points"
    using pin_edge_passes by blast
  have labels: "workflow_labels pin_scene [(pin_edge, pin_points)] = []"
    by (simp add: workflow_labels_def indexed_def List.map_filter_simps route_of_def)
  have "validateReadablePairwisePinConflicts pin_scene [(pin_edge, pin_points)] = []"
    by (simp add: validateReadablePairwisePinConflicts_def label_route_conflicts_def label_label_conflicts_def labels
        showcase_def label_entries_def collectLabelRouteClearance_def measured_labels_def asArray_def List.map_filter_simps)
  then show ?thesis by (simp add: validateReadablePinnedGeometry_def p)
qed

lemma authored_routes_kept_witness:
  "(\<exists>s en. pin_points = s # [(200, 125)] @ [en]) \<and> routeClearsFrameBorders pin_scene pin_points"
  using authored_routes_kept [OF pin_scene_pinned, of pin_edge pin_points] by (simp add: is_array_def pin_via)

section \<open>An automatic edge after a pinned one\<close>

definition late_edge :: relation where
  "late_edge = \<lparr>address = 1, object = JObj [(lit ''from'', JStr (lit ''c'')), (lit ''to'', JStr (lit ''d'')),
     (lit ''fromSide'', JStr (lit ''right'')), (lit ''toSide'', JStr (lit ''left'')), (lit ''label'', JStr (lit ''run'')),
     (lit ''labelAt'', JArr [JNum 200, JNum 290])]\<rparr>"

abbreviation scene_c :: placed_node where
  "scene_c \<equiv> snd (scene_node ''c'' 0 \<lparr>rx = 50, ry = 300, rwidth = 100, rheight = 50\<rparr>)"

abbreviation scene_d :: placed_node where
  "scene_d \<equiv> snd (scene_node ''d'' 1 \<lparr>rx = 250, ry = 300, rwidth = 100, rheight = 50\<rparr>)"

definition late_scene :: scene where
  "late_scene = scene_sample\<lparr>sc_workflow := (sc_workflow scene_sample)\<lparr>wf_edges := [pin_edge, late_edge]\<rparr>,
     sc_nodes := sc_nodes scene_sample @ [scene_node ''c'' 0 \<lparr>rx = 50, ry = 300, rwidth = 100, rheight = 50\<rparr>,
       scene_node ''d'' 1 \<lparr>rx = 250, ry = 300, rwidth = 100, rheight = 50\<rparr>]\<rparr>"

lemma late_edge_fields [simp]: "rel late_edge ''from'' = JStr (lit ''c'')" "rel late_edge ''to'' = JStr (lit ''d'')"
    "rel late_edge ''fromSide'' = RIGHT" "rel late_edge ''toSide'' = LEFT" "rel late_edge ''label'' = JStr (lit ''run'')"
    "rel late_edge ''labelAt'' = JArr [JNum 200, JNum 290]" "rel late_edge ''route'' = JUndef" "rel late_edge ''via'' = JUndef"
    "rel late_edge ''channelX'' = JUndef" "rel late_edge ''channelY'' = JUndef" "rel late_edge ''bias'' = JUndef"
  by (simp_all add: rel_def field_def late_edge_def RIGHT_def LEFT_def)

lemma late_known_sides: "known_sides late_edge" "known_sides pin_edge"
  by (simp_all add: known_sides_def side_order_def)

definition late_label :: rect where
  "late_label = \<lparr>rx = 185, ry = 280, rwidth = 30, rheight = 14\<rparr>"

lemma late_scene_parts [simp]:
  "readable (sc_workflow late_scene)" "wf_edges (sc_workflow late_scene) = [pin_edge, late_edge]"
  "edge_ends late_scene pin_edge = Some (scene_a, scene_b)" "edge_ends late_scene late_edge = Some (scene_c, scene_d)"
  "scene_label late_scene pin_edge ps = None" "scene_label late_scene late_edge ps = Some late_label"
  "sc_legend late_scene = []" "scene_frames late_scene = []"
  "workflowSceneLabelObstacles (sc_num late_scene) (sc_workflow late_scene) (sc_layout late_scene) = []"
  by (simp_all add: late_scene_def scene_sample_def readable_def edge_ends_def scene_node_def scene_label_def candidateLabelRect_def
      scene_frames_def workflowCompositionFrames_def workflowSceneLabelObstacles_def workflowEdgeLabelPoint_def late_label_def
      workflowLabelWidth_def labelPoint_def knobs_def point_of_def Let_def)

lemma hypot_ge: "c \<le> \<bar>y\<bar> \<Longrightarrow> c \<le> hypot x y"
proof -
  assume "c \<le> \<bar>y\<bar>"
  also have "\<bar>y\<bar> = sqrt (y\<^sup>2)" by simp
  also have "\<dots> \<le> hypot x y" unfolding hypot_def by (rule real_sqrt_le_mono) simp
  finally show ?thesis .
qed

lemma late_straight_feasible:
  "readableCandidateIsFeasible late_scene [(pin_edge, pin_points)] late_edge [(150, 325), (250, 325)]
    (pn_box scene_c) (pn_box scene_d) RIGHT LEFT"
proof -
  have norm: "normalizeRoutePoints (raw_path [(150, 325), (250, 325)]) = [(150, 325), (250, 325)]"
    by (simp add: normalizeRoutePoints_def merge_collinear_def far_apart_def)
  have honors: "honors_sides [(150, 325), (250, 325)] RIGHT LEFT"
    unfolding honors_sides_def routeHonorsEndpointSides_def endpointSideIssue_def norm
    by (simp add: ENDPOINT_SIDE_RULES_def side_name_def RIGHT_def LEFT_def)
  have rhythm: "routeMeetsHardRhythm [(150, 325), (250, 325)]"
    by (simp add: routeMeetsHardRhythm_def segment_length_def hypot_def)
  have far: "routeClearsUnrelatedNodes (sc_nodes late_scene) late_edge [(150, 325), (250, 325)]"
    by (simp add: routeClearsUnrelatedNodes_def late_scene_def scene_sample_def scene_node_def box_of_def rect_of_def
        rect.truncate_def segmentIntersectsRect_def grown_box_def pointInBox_def segmentsIntersect_def orientation_def
        onSegment_def Let_def crossProduct_def)
  have borders: "routeClearsFrameBorders late_scene [(150, 325), (250, 325)]"
    by (simp add: routeClearsFrameBorders_def collectBorderRuns_def asArray_def Let_def split: option.split)
  have away: "\<not> segmentIntersectsRect (150, 125) (200, 125) late_label 0" "\<not> segmentIntersectsRect (200, 125) (250, 125) late_label 0"
    by (simp_all add: late_label_def segmentIntersectsRect_def grown_box_def pointInBox_def segmentsIntersect_def orientation_def
        onSegment_def Let_def crossProduct_def)
  have rect: "4 \<le> pointRectDistance (x, 125) late_label" for x
    unfolding pointRectDistance_def by (rule hypot_ge) (simp add: late_label_def)
  have corner: "4 \<le> pointSegmentDistance (x, y) (150, 125) (200, 125)" "4 \<le> pointSegmentDistance (x, y) (200, 125) (250, 125)"
    if "280 \<le> y" for x y
    unfolding pointSegmentDistance_def Let_def using that by (simp_all add: hypot_ge)
  have "rect_corners late_label = [(185, 280), (215, 280), (215, 294), (185, 294)]" by (simp add: rect_corners_def late_label_def)
  then have "4 \<le> clearance_of (150, 125) (200, 125) late_label" "4 \<le> clearance_of (200, 125) (250, 125) late_label"
    using away rect corner by (simp_all add: clearance_of_def)
  then have "clear_of_label pin_points late_label" by (simp add: clear_of_label_def pin_points_def)
  then have labels: "routeClearsPlacedLabels late_scene [(pin_edge, pin_points)] late_edge [(150, 325), (250, 325)]"
    by (simp add: routeClearsPlacedLabels_def clears_placed_def)
  show ?thesis
    using honors rhythm far borders labels
    by (simp add: readableCandidateIsFeasible_def orthogonalRoute_def near_def routeClearsEndpointNodes_def
        indexed_def routeLabelClearsNodes_def routeClearsLegend_def
        routeClearsSceneLabelObstacles_def routeFitsCanvasOrigin_def routeExtentCoordinates_def)
qed

lemma late_routes: "\<exists>ps. workflow_routes late_scene = Inr [(pin_edge, pin_points), (late_edge, ps)]"
proof -
  let ?placed = "[(pin_edge, pin_points)]"
  have pairs: "side_pairs late_edge [(RIGHT, LEFT)] = [(RIGHT, LEFT)]" by (simp add: side_pairs_def side_choices_def Let_def)
  have ends: "end_point (pn_box scene_c) RIGHT None 0 = (150, 325)" "end_point (pn_box scene_d) LEFT None 0 = (250, 325)"
    by (simp_all add: end_point_def some_or_def anchor_def scene_node_def box_of_def)
  have norm: "through (150, 325) [] (250, 325) = [(150, 325), (250, 325)]"
    by (simp add: through_def closed_def normalizeRoutePoints_def merge_collinear_def far_apart_def)
  let ?cs = "map (\<lambda>via. through (150, 325) via (250, 325))
    (raw_candidates late_scene late_edge scene_c scene_d (150, 325) (250, 325) RIGHT LEFT)"
  have "(0, [(150, 325), (250, 325)]) \<in> set (indexed ?cs)" by (simp add: indexed_iff raw_candidates_def Let_def norm)
  with late_straight_feasible
  obtain q where "q \<in> set (attempt_candidates late_scene ?placed late_edge scene_c scene_d (None, None) (0, RIGHT, LEFT))"
    unfolding attempt_candidates_def prod.case fst_conv snd_conv ends readableAutomaticCandidateSet_def set_cost_sort by force
  then obtain p where p: "readableAutomaticRoute late_scene ?placed late_edge scene_c scene_d (RIGHT, LEFT) (None, None) = Inr p"
    using automatic_route_found [of "(0, RIGHT, LEFT)" late_edge "(RIGHT, LEFT)" q late_scene ?placed scene_c scene_d "(None, None)"]
    by (auto simp: pairs indexed_def)
  have auto: "readableAutomaticSides late_scene qs late_edge scene_c scene_d = None" for qs by (simp add: readableAutomaticSides_def)
  have sides: "planned_sides late_scene qs late_edge scene_c scene_d = (RIGHT, LEFT)" for qs
    by (simp add: planned_sides_def edgeSides_def auto connectionSides_def chosenSide_def) (simp add: RIGHT_def LEFT_def lit_def)
  have "\<not> spread_eligible pin_edge" "\<not> spread_eligible late_edge" by (simp_all add: spread_eligible_def)
  then have ports: "workflow_ports late_scene k = None" for k
    by (simp add: workflow_ports_def automaticPortSpread_def port_groups_def relation_items_def all_relations_def asArray_def)
  have free: "\<not> isReadableControlledRoute late_scene late_edge"
    by (simp add: isReadableControlledRoute_def hasAbsoluteRoutePins_def is_array_def has_route_def or_value_def)
  have first: "pathFor late_scene [] pin_edge scene_a scene_b = Inr pin_points"
    using pin_plan [of late_scene "[]"] by (auto simp: pathFor_def)
  have "pathFor late_scene ?placed late_edge scene_c scene_d = Inr (rp_points p)"
    by (simp add: pathFor_def plan_edge_def free ports sides p)
  then show ?thesis by (simp add: workflow_routes_def first)
qed

lemma readable_routes_sound_witness:
  "\<exists>ps. workflow_routes late_scene = Inr [(pin_edge, pin_points), (late_edge, ps)] \<and> 2 \<le> length ps
    \<and> (\<forall>q \<in> set ps. 0 \<le> fst q \<and> 0 \<le> snd q) \<and> 4 \<le> clearance_of (150, 125) (200, 125) late_label + 1 / 10000"
proof -
  obtain ps where ps: "workflow_routes late_scene = Inr [(pin_edge, pin_points), (late_edge, ps)]" using late_routes by blast
  have free: "\<not> isReadableControlledRoute late_scene late_edge"
    by (simp add: isReadableControlledRoute_def hasAbsoluteRoutePins_def is_array_def has_route_def or_value_def)
  have known: "\<forall>e \<in> set (wf_edges (sc_workflow late_scene)). known_sides e" by (simp add: late_known_sides)
  have "2 \<le> length ps \<and> (\<forall>q \<in> set ps. 0 \<le> fst q \<and> 0 \<le> snd q)
      \<and> (\<forall>(a, b) \<in> set (segments pin_points). 4 \<le> clearance_of a b late_label + 1 / 10000)"
    using readable_routes_sound [OF ps _ known _ _ free, of 1 ps] by simp
  with ps show ?thesis by (auto simp: pin_points_def)
qed

end
