(* ===== verification/WorkflowMigrationFacts.thy ===== *)
theory WorkflowMigrationFacts
  imports WorkflowMigration WorkflowSamples
begin

text \<open>
  The column mapping is monotone and sends the old columns to the new ones; a migration that succeeds
  yields a document that compiles, differs from its source only in the version, the mapped
  coordinates and a canvas that can only grow, and migrates to itself.
\<close>

section \<open>Rounding\<close>

lemma mappedNumber_near: "\<bar>mappedNumber x - x\<bar> \<le> 1 / 2000000"
proof -
  have round: "\<bar>of_int \<lfloor>y * 1000000 + 1 / 2\<rfloor> / 1000000 - y\<bar> \<le> 1 / 2000000" for y :: real
  proof -
    define n where "n = real_of_int \<lfloor>y * 1000000 + 1 / 2\<rfloor>"
    have "n \<le> y * 1000000 + 1 / 2" "y * 1000000 + 1 / 2 < n + 1"
      unfolding n_def by (rule of_int_floor_le, rule real_of_int_floor_add_one_gt)
    then show ?thesis unfolding n_def [symmetric] by (intro abs_leI) (simp_all add: field_simps)
  qed
  show ?thesis
  proof (cases "x < 0")
    case True
    show ?thesis unfolding mappedNumber_def if_P [OF True] using round [of "- x"] by linarith
  next
    case False
    show ?thesis unfolding mappedNumber_def if_not_P [OF False] by (rule round)
  qed
qed

lemma mappedNumber_mono: "x \<le> y \<Longrightarrow> mappedNumber x \<le> mappedNumber y"
proof -
  assume le: "x \<le> y"
  have pos: "(0::real) \<le> of_int \<lfloor>z * 1000000 + 1 / 2\<rfloor> / 1000000" if "0 \<le> z" for z :: real
    using that by (simp add: zero_le_floor)
  have up: "(of_int \<lfloor>z * 1000000 + 1 / 2\<rfloor> :: real) \<le> of_int \<lfloor>z' * 1000000 + 1 / 2\<rfloor>" if "z \<le> z'" for z z' :: real
    using that by (simp add: floor_mono)
  consider "0 \<le> x" | "x < 0" "0 \<le> y" | "x < 0" "y < 0" by linarith
  then show ?thesis
  proof cases
    case 1
    with le up [of x y] show ?thesis by (simp add: mappedNumber_def divide_right_mono)
  next
    case 2
    then have "mappedNumber x = - (of_int \<lfloor>- x * 1000000 + 1 / 2\<rfloor> / 1000000)"
      "mappedNumber y = of_int \<lfloor>y * 1000000 + 1 / 2\<rfloor> / 1000000" by (simp_all add: mappedNumber_def)
    with pos [of "- x"] pos [of y] 2 show ?thesis by linarith
  next
    case 3
    with up [of "- y" "- x"] le show ?thesis by (simp add: mappedNumber_def divide_right_mono)
  qed
qed

section \<open>Columns\<close>

lemma increasing_nth:
  assumes "increasing xs" and "i < j" and "j < length xs"
  shows "xs ! i < xs ! j"
  using assms(2,3)
proof (induction j)
  case (Suc j)
  have "(xs ! j, xs ! Suc j) \<in> set (segments xs)" using Suc.prems(2) by (auto simp: in_segments)
  then have step: "xs ! j < xs ! Suc j" using assms(1) by (auto simp: increasing_def list_all_iff)
  show ?case
  proof (cases "i = j")
    case False
    with Suc have "xs ! i < xs ! j" by simp
    with step show ?thesis by simp
  qed (use step in simp)
qed simp

lemma increasing_mono: "increasing xs \<Longrightarrow> i \<le> j \<Longrightarrow> j < length xs \<Longrightarrow> xs ! i \<le> xs ! j"
  using increasing_nth [of xs i j] by (cases "i = j") auto

text \<open>The segment of a coordinate: it starts before it, except the first, and ends behind it, except the
  last.\<close>

lemma rank_segment_props:
  assumes "2 \<le> length xs" and "increasing xs"
  shows "Suc (rank_segment xs x) < length xs" "0 < rank_segment xs x \<Longrightarrow> xs ! rank_segment xs x < x"
    "Suc (Suc (rank_segment xs x)) < length xs \<Longrightarrow> x \<le> xs ! Suc (rank_segment xs x)"
proof -
  let ?k = "rank_segment xs x"
  have "Suc ?k < length xs \<and> (0 < ?k \<longrightarrow> xs ! ?k < x) \<and> (Suc (Suc ?k) < length xs \<longrightarrow> x \<le> xs ! Suc ?k)"
  proof (cases "x \<le> xs ! 0")
    case True
    then have "?k = 0" by (simp add: rank_segment_def)
    moreover have "xs ! 0 \<le> xs ! 1" using increasing_nth [OF assms(2), of 0 1] assms(1) by simp
    ultimately show ?thesis using True assms(1) by simp
  next
    case False
    show ?thesis
    proof (cases "find (\<lambda>k. x \<le> xs ! Suc k) [0..<length xs - 1]")
      case None
      then have all: "\<not> x \<le> xs ! Suc k" if "k < length xs - 1" for k using that by (auto simp: find_None_iff)
      have k: "?k = length xs - 2" using False None by (simp add: rank_segment_def)
      show ?thesis
      proof (cases "length xs = 2")
        case True
        then show ?thesis by (simp add: k)
      next
        case ne: False
        then have "xs ! (length xs - 2) < x" using all [of "length xs - 3"] assms(1)
          by (simp add: Suc_diff_Suc numeral_eq_Suc not_le)
        moreover have "Suc (length xs - 2) < length xs" "\<not> Suc (Suc (length xs - 2)) < length xs" using assms(1) by arith+
        ultimately show ?thesis unfolding k by blast
      qed
    next
      case (Some k)
      have e: "?k = k" unfolding rank_segment_def if_not_P [OF False] Some option.case ..
      from Some have k: "k < length xs - 1" "x \<le> xs ! Suc k" and before: "\<forall>j < k. \<not> x \<le> xs ! Suc j"
        by (auto simp: find_Some_iff)
      have "xs ! k < x" if "0 < k" using before [rule_format, of "k - 1"] that by simp
      with k show ?thesis unfolding e by auto
    qed
  qed
  then show "Suc ?k < length xs" "0 < ?k \<Longrightarrow> xs ! ?k < x" "Suc (Suc ?k) < length xs \<Longrightarrow> x \<le> xs ! Suc ?k" by blast+
qed

lemma linear_map_mono:
  assumes "old ! k < old ! Suc k" and "new ! k < new ! Suc k" and "x \<le> y"
  shows "linear_map old new k x \<le> linear_map old new k y"
  using assms by (simp add: linear_map_def divide_right_mono mult_right_mono)

lemma linear_map_ends:
  assumes "old ! k < old ! Suc k"
  shows "linear_map old new k (old ! k) = new ! k" "linear_map old new k (old ! Suc k) = new ! Suc k"
  using assms by (simp_all add: linear_map_def)

text \<open>The exact mapping, before rounding.\<close>

definition exact_map :: "real list \<Rightarrow> real list \<Rightarrow> real \<Rightarrow> real" where
  "exact_map old new x = linear_map old new (rank_segment old x) x"

locale ranks =
  fixes old new :: "real list"
  assumes same: "length old = length new" and two: "2 \<le> length old" and rising: "increasing old" "increasing new"
begin

lemma steps: "Suc k < length old \<Longrightarrow> old ! k < old ! Suc k" "Suc k < length old \<Longrightarrow> new ! k < new ! Suc k"
  using increasing_nth [OF rising(1), of k "Suc k"] increasing_nth [OF rising(2), of k "Suc k"] same by simp_all

lemma segment_mono:
  assumes "x \<le> y"
  shows "rank_segment old x \<le> rank_segment old y"
proof (rule ccontr)
  assume "\<not> ?thesis"
  then have lt: "rank_segment old y < rank_segment old x" by simp
  have px: "old ! rank_segment old x < x" "Suc (rank_segment old x) < length old"
    using rank_segment_props [OF two rising(1), of x] lt by auto
  have "y \<le> old ! Suc (rank_segment old y)"
    using rank_segment_props(3) [OF two rising(1), of y] lt px(2) by simp
  also have "\<dots> \<le> old ! rank_segment old x" by (rule increasing_mono [OF rising(1)]) (use lt px(2) in auto)
  finally show False using px(1) assms by simp
qed

lemma exact_mono:
  assumes "x \<le> y"
  shows "exact_map old new x \<le> exact_map old new y"
proof (cases "rank_segment old x = rank_segment old y")
  case True
  have "Suc (rank_segment old y) < length old" by (rule rank_segment_props(1) [OF two rising(1)])
  then show ?thesis unfolding exact_map_def True by (intro linear_map_mono steps assms)
next
  case False
  let ?i = "rank_segment old x" and ?j = "rank_segment old y"
  have ij: "?i < ?j" using segment_mono [OF assms] False by simp
  have j: "Suc ?j < length old" "old ! ?j < y" using rank_segment_props(1,2) [OF two rising(1), of y] ij by auto
  have i: "Suc ?i < length old" "x \<le> old ! Suc ?i" using rank_segment_props(3) [OF two rising(1), of x] ij j(1) by auto
  have "exact_map old new x \<le> linear_map old new ?i (old ! Suc ?i)"
    unfolding exact_map_def by (intro linear_map_mono steps i)
  also have "\<dots> = new ! Suc ?i" by (rule linear_map_ends(2) [OF steps(1) [OF i(1)]])
  also have "\<dots> \<le> new ! ?j" by (rule increasing_mono [OF rising(2)]) (use ij j(1) same in auto)
  also have "\<dots> = linear_map old new ?j (old ! ?j)" by (rule linear_map_ends(1) [OF steps(1) [OF j(1)], symmetric])
  also have "\<dots> \<le> exact_map old new y" unfolding exact_map_def using j by (intro linear_map_mono steps) auto
  finally show ?thesis .
qed

lemma exact_columns:
  assumes "k < length old"
  shows "exact_map old new (old ! k) = new ! k"
proof -
  let ?j = "rank_segment old (old ! k)"
  note p = rank_segment_props [OF two rising(1), of "old ! k"]
  have "k \<le> Suc ?j"
  proof (rule ccontr)
    assume "\<not> ?thesis"
    then have "Suc ?j < k" by simp
    then have "old ! k \<le> old ! Suc ?j" "old ! Suc ?j < old ! k"
      using p(3) increasing_nth [OF rising(1), of "Suc ?j" k] assms by auto
    then show False by simp
  qed
  moreover have "?j \<le> k"
  proof (rule ccontr)
    assume "\<not> ?thesis"
    then have "old ! ?j < old ! k" "old ! k < old ! ?j" using p(1,2) increasing_nth [OF rising(1), of k ?j] by auto
    then show False by simp
  qed
  ultimately have "k = ?j \<or> k = Suc ?j" by linarith
  then show ?thesis
  proof
    assume k: "k = ?j"
    have "linear_map old new ?j (old ! ?j) = new ! ?j" by (rule linear_map_ends(1) [OF steps(1) [OF p(1)]])
    with k show ?thesis unfolding exact_map_def by metis
  next
    assume k: "k = Suc ?j"
    have "linear_map old new ?j (old ! Suc ?j) = new ! Suc ?j" by (rule linear_map_ends(2) [OF steps(1) [OF p(1)]])
    with k show ?thesis unfolding exact_map_def by metis
  qed
qed

end

lemma mapper_ranks:
  assumes "createHorizontalRankMapper old new = Some f"
  shows "ranks old new" "f = (\<lambda>x. mappedNumber (exact_map old new x))"
  using assms by (auto simp: createHorizontalRankMapper_def ranks_def exact_map_def fun_eq_iff split: if_splits)

lemma mapper_laws:
  assumes "createHorizontalRankMapper old new = Some f"
  shows "\<forall>x y. x \<le> y \<longrightarrow> f x \<le> f y" "\<forall>k < length old. \<bar>f (old ! k) - new ! k\<bar> \<le> 1 / 2000000"
proof -
  note r = mapper_ranks(1) [OF assms] and f = mapper_ranks(2) [OF assms]
  show "\<forall>x y. x \<le> y \<longrightarrow> f x \<le> f y" by (auto simp: f intro: mappedNumber_mono ranks.exact_mono [OF r])
  show "\<forall>k < length old. \<bar>f (old ! k) - new ! k\<bar> \<le> 1 / 2000000"
    using mappedNumber_near by (simp add: f ranks.exact_columns [OF r])
qed

text \<open>The fixed columns and those of any readable layout rise, so that a migration always finds its mapping.\<close>

lemma increasing_iff: "increasing xs \<longleftrightarrow> (\<forall>k. Suc k < length xs \<longrightarrow> xs ! k < xs ! Suc k)"
proof
  show "increasing xs \<Longrightarrow> \<forall>k. Suc k < length xs \<longrightarrow> xs ! k < xs ! Suc k" using increasing_nth by blast
  show "\<forall>k. Suc k < length xs \<longrightarrow> xs ! k < xs ! Suc k \<Longrightarrow> increasing xs"
    unfolding increasing_def list_all_iff in_segments split_beta by (auto simp: in_segments)
qed

lemma readable_increasing: "increasing (readable_columns num w fb)"
  unfolding increasing_iff length_readable
proof (intro allI impI)
  fix k :: nat assume k: "Suc k < 6"
  let ?c = "\<lparr>con_from = k, con_to = k + 1, con_min = 120\<rparr>"
  have "?c \<in> set (layout_constraints num w fb)" using k by (auto simp: layout_constraints_def baseline_constraints_def)
  moreover have "valid_constraint ?c" using k by (simp add: valid_constraint_def)
  ultimately have "readable_columns num w fb ! k + 120 \<le> readable_columns num w fb ! (k + 1) + 1 / 10000"
    using readable_satisfies [of ?c] by simp
  then show "readable_columns num w fb ! k < readable_columns num w fb ! Suc k" by simp
qed

interpretation plan_ranks: ranks "wl_columns createLegacyLayout" "readable_columns num w fb"
  by unfold_locales (simp_all add: readable_increasing, simp add: increasing_def segments_def)

text \<open>C23: the mapping of a migration exists whatever the plan of the readable layout, keeps the order of
  coordinates, and sends every fixed column to the planned one and what lies between two columns
  between the planned two, up to half of the sixth decimal.\<close>

theorem rank_mapping:
  assumes "new = readable_columns num w fb" and "old = wl_columns createLegacyLayout"
  shows "\<exists>f. createHorizontalRankMapper old new = Some f \<and> (\<forall>x y. x \<le> y \<longrightarrow> f x \<le> f y)
    \<and> (\<forall>k < length old. \<bar>f (old ! k) - new ! k\<bar> \<le> 1 / 2000000)
    \<and> (\<forall>k x. Suc k < length old \<longrightarrow> old ! k \<le> x \<longrightarrow> x \<le> old ! Suc k \<longrightarrow>
        new ! k - 1 / 2000000 \<le> f x \<and> f x \<le> new ! Suc k + 1 / 2000000)"
proof -
  let ?f = "\<lambda>x. mappedNumber (exact_map old new x)"
  have r: "ranks old new" unfolding assms by (rule plan_ranks.ranks_axioms)
  note mono = ranks.exact_mono [OF r] and cols = ranks.exact_columns [OF r]
  have f: "createHorizontalRankMapper old new = Some ?f"
    using plan_ranks.same plan_ranks.two plan_ranks.rising
    by (simp add: createHorizontalRankMapper_def exact_map_def assms)
  moreover have "?f x \<le> ?f y" if "x \<le> y" for x y by (intro mappedNumber_mono mono that)
  moreover have "\<bar>?f (old ! k) - new ! k\<bar> \<le> 1 / 2000000" if "k < length old" for k
    using mappedNumber_near [of "new ! k"] by (simp only: cols [OF that])
  moreover have "new ! k - 1 / 2000000 \<le> ?f x \<and> ?f x \<le> new ! Suc k + 1 / 2000000"
    if k: "Suc k < length old" "old ! k \<le> x" "x \<le> old ! Suc k" for k x
  proof -
    have "new ! k \<le> exact_map old new x" "exact_map old new x \<le> new ! Suc k"
      using mono [OF k(2)] mono [OF k(3)] cols [of k] cols [of "Suc k"] k(1) by simp_all
    with mappedNumber_near [of "exact_map old new x"] show ?thesis by linarith
  qed
  ultimately show ?thesis by blast
qed

section \<open>Mapped documents\<close>

lemma update_member_same:
  assumes "f JUndef = JUndef"
  shows "jget (update_member k f j) (lit k) = f (jget j (lit k))"
proof (cases j)
  case (JObj kvs)
  have "map_of (map (\<lambda>(i, v). (i, if i = lit k then f v else v)) kvs) (lit k) = map_option f (map_of kvs (lit k))"
    by (induction kvs) auto
  then show ?thesis by (simp add: update_member_def JObj assms split: option.splits)
qed (simp_all add: update_member_def assms)

lemma update_member_other: "i \<noteq> lit k \<Longrightarrow> jget (update_member k f j) i = jget j i"
proof (cases j)
  case (JObj kvs)
  assume "i \<noteq> lit k"
  then have "map_of (map (\<lambda>(i, v). (i, if i = lit k then f v else v)) kvs) i = map_of kvs i"
    by (induction kvs) auto
  then show ?thesis by (simp add: update_member_def JObj)
qed (simp_all add: update_member_def)

text \<open>What a migration may do to an edge, said without the code that does it: the first number of a point
  is mapped and the rest of the point is the same, entry by entry along a route.\<close>

definition point_moved :: "(real \<Rightarrow> real) \<Rightarrow> jval \<Rightarrow> jval \<Rightarrow> bool" where
  "point_moved f p q \<longleftrightarrow> (\<exists>x rest. p = JArr (JNum x # rest) \<and> q = JArr (JNum (f x) # rest))
     \<or> (\<nexists>x rest. p = JArr (JNum x # rest)) \<and> q = p"

definition route_moved :: "(real \<Rightarrow> real) \<Rightarrow> jval \<Rightarrow> jval \<Rightarrow> bool" where
  "route_moved f v u \<longleftrightarrow> (\<exists>ps qs. v = JArr ps \<and> u = JArr qs \<and> list_all2 (point_moved f) ps qs)
     \<or> (\<nexists>ps. v = JArr ps) \<and> u = v"

definition number_moved :: "(real \<Rightarrow> real) \<Rightarrow> jval \<Rightarrow> jval \<Rightarrow> bool" where
  "number_moved f v u \<longleftrightarrow> (\<exists>x. v = JNum x \<and> u = JNum (f x)) \<or> (\<nexists>x. v = JNum x) \<and> u = v"

definition edge_moved :: "(real \<Rightarrow> real) \<Rightarrow> relation \<Rightarrow> relation \<Rightarrow> bool" where
  "edge_moved f e e' \<longleftrightarrow> route_moved f (rel e ''via'') (rel e' ''via'')
     \<and> point_moved f (rel e ''labelAt'') (rel e' ''labelAt'') \<and> number_moved f (rel e ''channelX'') (rel e' ''channelX'')
     \<and> (\<forall>k. k \<notin> {lit ''via'', lit ''labelAt'', lit ''channelX''} \<longrightarrow> jget (object e') k = jget (object e) k)"

lemma map_first_moved: "point_moved f v (map_first f v)"
  by (auto simp: point_moved_def map_first_def split: jval.splits list.splits)

lemma map_via_moved: "route_moved f v (map_via f v)"
  by (auto simp: route_moved_def map_via_def list_all2_map2 list_all2_same map_first_moved split: jval.splits)

lemma map_number_moved: "number_moved f v (map_number f v)"
  by (auto simp: number_moved_def map_number_def split: jval.splits)

lemma map_edge_members:
  "rel (map_edge f e) ''via'' = map_via f (rel e ''via'')" "rel (map_edge f e) ''labelAt'' = map_first f (rel e ''labelAt'')"
  "rel (map_edge f e) ''channelX'' = map_number f (rel e ''channelX'')"
  by (simp_all add: rel_def map_edge_def update_member_other update_member_same map_via_def map_first_def map_number_def)

lemma map_edge_other: "k \<notin> {lit ''via'', lit ''labelAt'', lit ''channelX''} \<Longrightarrow> jget (object (map_edge f e)) k = jget (object e) k"
  by (simp add: map_edge_def update_member_other)

lemma map_edge_moved: "edge_moved f e (map_edge f e)"
  by (simp add: edge_moved_def map_edge_members map_via_moved map_first_moved map_number_moved map_edge_other)

lemma set_member_other: "i \<noteq> k \<Longrightarrow> field (set_member k v j) i = field j i"
  by (cases j) (simp_all add: set_member_def field_def map_of_put)

lemma set_member_same: "j = JObj kvs \<Longrightarrow> field (set_member k v j) k = v"
  by (simp add: set_member_def field_def map_of_put)

lemma view_box_object: "view_box meta = Some c \<Longrightarrow> \<exists>kvs. meta = JObj kvs"
  by (cases meta) (simp_all add: view_box_def field_def point_of_def)

lemma view_box_set: "view_box meta = Some c \<Longrightarrow> view_box (set_member ''viewBox'' (size_value s) meta) = Some s"
  using view_box_object [of meta c] set_member_same [of meta _ "''viewBox''" "size_value s"]
  by (auto simp: view_box_def size_value_def point_of_def)

text \<open>The document with a larger canvas keeps everything else.\<close>

lemma expanded_parts:
  assumes "d = expanded_document compile m"
  shows "wf_version d = wf_version m" "wf_lanes d = wf_lanes m" "wf_phases d = wf_phases m" "wf_groups d = wf_groups m"
    "wf_nodes d = wf_nodes m" "wf_edges d = wf_edges m" "wf_main_path d = wf_main_path m" "wf_checks d = wf_checks m"
    "\<forall>k. k \<noteq> ''viewBox'' \<longrightarrow> field (wf_meta d) k = field (wf_meta m) k"
    "view_box (wf_meta m) = Some c \<Longrightarrow> \<exists>s. view_box (wf_meta d) = Some s \<and> fst c \<le> fst s \<and> snd c \<le> snd s"
    "view_box (wf_meta m) = None \<Longrightarrow> d = m"
proof -
  show "wf_version d = wf_version m" "wf_lanes d = wf_lanes m" "wf_phases d = wf_phases m" "wf_groups d = wf_groups m"
    "wf_nodes d = wf_nodes m" "wf_edges d = wf_edges m" "wf_main_path d = wf_main_path m" "wf_checks d = wf_checks m"
    using assms by (simp_all add: expanded_document_def split: option.splits)
  show "\<forall>k. k \<noteq> ''viewBox'' \<longrightarrow> field (wf_meta d) k = field (wf_meta m) k"
    using assms by (simp add: expanded_document_def set_member_other split: option.splits)
  show "d = m" if "view_box (wf_meta m) = None" using assms that by (simp add: expanded_document_def expanded_box_def)
  show "\<exists>s. view_box (wf_meta d) = Some s \<and> fst c \<le> fst s \<and> snd c \<le> snd s" if c: "view_box (wf_meta m) = Some c"
  proof (cases "expanded_box m (compile m)")
    case None
    then show ?thesis using assms c by (simp add: expanded_document_def)
  next
    case (Some s)
    then have "fst c \<le> fst s \<and> snd c \<le> snd s" using c by (auto simp: expanded_box_def split: option.splits if_splits)
    moreover have "view_box (wf_meta d) = Some s"
      using assms view_box_set [OF c, of s] by (simp add: expanded_document_def Some)
    ultimately show ?thesis by blast
  qed
qed

section \<open>Migrations\<close>

lemma finish_migration_ok:
  assumes "mg_ok (finish_migration valid compile words planned m mapped)" and "\<not> mg_ok m"
  shows "mg_document (finish_migration valid compile words planned m mapped) = Some (expanded_document compile mapped)"
    "compile_ok (compile (expanded_document compile mapped))" "valid (expanded_document compile mapped)"
  using assms by (auto simp: finish_migration_def Let_def split: if_splits)

lemma compiled_columns:
  assumes "compile_ok (compileWorkflow valid num words marked q w)"
  shows "\<exists>fb. receipt_columns (compileWorkflow valid num words marked q w)
    = wl_columns (workflow_layout_of num (compiled_source num q w) fb)"
proof -
  obtain sc routes width height legend
    where c: "compileWorkflow valid num words marked q w = Inr (Compiled sc routes width height legend)"
    using assms by (auto simp: compile_ok_def split: sum.splits compile_result.splits)
  from compiled_parts(1,4) [OF c] show ?thesis by (auto simp: receipt_columns_def c)
qed

lemma compiled_version: "wf_version (compiled_source num q w) = wf_version w"
  by (simp add: compiled_source_def canonicalReadableWorkflow_def with_profile_def)

lemma migrate_legacy_ok:
  assumes "mg_ok (migrate_legacy valid compile words w)"
  obtains f d where "mg_document (migrate_legacy valid compile words w) = Some d"
    "d = expanded_document compile (w\<lparr>wf_version := JNum 2, wf_edges := map (map_edge f) (wf_edges w)\<rparr>)"
    "compile_ok (compile d)" "valid d" "compile_ok (compile (legacyLayoutProbe w))" "compile_ok (planned_columns compile w)"
    "createHorizontalRankMapper (receipt_columns (compile (legacyLayoutProbe w))) (receipt_columns (planned_columns compile w)) = Some f"
proof -
  let ?old = "receipt_columns (compile (legacyLayoutProbe w))" and ?new = "receipt_columns (planned_columns compile w)"
  have no: "\<not> mg_ok no_migration" by (simp add: no_migration_def)
  obtain mapped changed m where c: "createMappedWorkflowCandidate w ?old ?new = Some (mapped, changed)"
    and m: "migrate_legacy valid compile words w = finish_migration valid compile words (planned_columns compile w) m mapped"
      "\<not> mg_ok m" and ok: "compile_ok (compile (legacyLayoutProbe w))" "compile_ok (planned_columns compile w)"
    using assms no unfolding migrate_legacy_def Let_def by (auto split: if_splits option.splits)
  from c obtain f where f: "createHorizontalRankMapper ?old ?new = Some f"
    "mapped = w\<lparr>wf_version := JNum 2, wf_edges := map (map_edge f) (wf_edges w)\<rparr>"
    by (auto simp: createMappedWorkflowCandidate_def mapExplicitCoordinates_def)
  note fin = finish_migration_ok [OF assms [unfolded m(1)] m(2), folded m(1)]
  from fin show thesis unfolding f(2) by (rule that [OF _ refl _ _ ok f(1)])
qed

text \<open>The columns of the two layouts of a migration: the fixed ones, and those planned for the document or
  its projection.\<close>

lemma migration_columns:
  assumes "compile = compileWorkflow valid num words marked q" and "compile_ok (compile (legacyLayoutProbe w))"
    and "compile_ok (planned_columns compile w)"
  shows "receipt_columns (compile (legacyLayoutProbe w)) = wl_columns createLegacyLayout"
    and "\<exists>p fb. p \<in> {intrinsicWorkflow w, planningWorkflow w}
      \<and> receipt_columns (planned_columns compile w) = readable_columns num (compiled_source num q p) fb"
proof -
  have "wf_version (legacyLayoutProbe w) = JNum 1" by (simp add: legacyLayoutProbe_def)
  then show "receipt_columns (compile (legacyLayoutProbe w)) = wl_columns createLegacyLayout"
    using compiled_columns [OF assms(2) [unfolded assms(1)]]
    by (auto simp: assms(1) workflow_layout_of_def readable_def compiled_version)
  obtain p where p: "p \<in> {intrinsicWorkflow w, planningWorkflow w}" "planned_columns compile w = compile p"
    by (cases "compile_ok (compile (intrinsicWorkflow w))") (auto simp: planned_columns_def)
  have "wf_version p = JNum 2" using p(1) by (auto simp: planningWorkflow_def intrinsicWorkflow_def Let_def)
  then have "readable (compiled_source num q p)" by (simp add: readable_def compiled_version)
  moreover have "compile_ok (compileWorkflow valid num words marked q p)" using assms(1,3) p(2) by simp
  from compiled_columns [OF this] obtain fb where
    "receipt_columns (compile p) = wl_columns (workflow_layout_of num (compiled_source num q p) fb)" using assms(1) by blast
  ultimately show "\<exists>p fb. p \<in> {intrinsicWorkflow w, planningWorkflow w}
      \<and> receipt_columns (planned_columns compile w) = readable_columns num (compiled_source num q p) fb"
    using p by (intro exI [of _ p] exI [of _ fb]) (simp add: workflow_layout_of_def createReadableLayout_def Let_def)
qed

text \<open>C22: a migration that succeeds from schema version 1 yields a version 2 document that the compiler accepts
  under the authored profile and that migrates to itself; against its source it only moves the x
  coordinates of authored routes, labels and channels (the y coordinates, and all else of every
  edge, are the authored ones), by one mapping for the whole document that keeps the order of
  coordinates and sends the fixed columns to the planned ones up to half of the sixth decimal; and
  it can only enlarge an authored canvas.\<close>

theorem migration_sound:
  assumes "m = migrateWorkflowDocument valid num words marked w" and "mg_ok m" and "wf_version w = JNum 1"
    and "old = wl_columns createLegacyLayout"
  shows "\<exists>f d p fb new. mg_document m = Some d \<and> wf_version d = JNum 2 \<and> valid d
    \<and> compile_ok (compileWorkflow valid num words marked (authored_profile w) d)
    \<and> mg_ok (migrateWorkflowDocument valid num words marked d)
    \<and> mg_document (migrateWorkflowDocument valid num words marked d) = Some d
    \<and> p \<in> {intrinsicWorkflow w, planningWorkflow w}
    \<and> new = readable_columns num (compiled_source num (authored_profile w) p) fb
    \<and> (\<forall>x y. x \<le> y \<longrightarrow> f x \<le> f y) \<and> (\<forall>k < length old. \<bar>f (old ! k) - new ! k\<bar> \<le> 1 / 2000000)
    \<and> list_all2 (edge_moved f) (wf_edges w) (wf_edges d)
    \<and> wf_lanes d = wf_lanes w \<and> wf_phases d = wf_phases w \<and> wf_groups d = wf_groups w \<and> wf_nodes d = wf_nodes w
    \<and> wf_main_path d = wf_main_path w \<and> wf_checks d = wf_checks w
    \<and> (\<forall>k. k \<noteq> ''viewBox'' \<longrightarrow> field (wf_meta d) k = field (wf_meta w) k)
    \<and> (\<forall>c. view_box (wf_meta w) = Some c \<longrightarrow>
        (\<exists>s. view_box (wf_meta d) = Some s \<and> fst c \<le> fst s \<and> snd c \<le> snd s))"
proof -
  let ?compile = "compileWorkflow valid num words marked (authored_profile w)"
  have v: "valid w" and m: "m = migrate_legacy valid ?compile words w"
    using assms(1-3) by (auto simp: migrateWorkflowDocument_def Let_def no_migration_def split: if_splits)
  obtain f d where d: "mg_document m = Some d" "compile_ok (?compile d)" "valid d"
      "d = expanded_document ?compile (w\<lparr>wf_version := JNum 2, wf_edges := map (map_edge f) (wf_edges w)\<rparr>)"
    and ok: "compile_ok (?compile (legacyLayoutProbe w))" "compile_ok (planned_columns ?compile w)"
    and f: "createHorizontalRankMapper (receipt_columns (?compile (legacyLayoutProbe w)))
        (receipt_columns (planned_columns ?compile w)) = Some f"
    using migrate_legacy_ok [OF assms(2) [unfolded m]] unfolding m by metis
  note cols = migration_columns [OF refl ok]
  obtain q fb where q: "q \<in> {intrinsicWorkflow w, planningWorkflow w}"
    "receipt_columns (planned_columns ?compile w) = readable_columns num (compiled_source num (authored_profile w) q) fb"
    using cols(2) by blast
  note laws = mapper_laws [OF f, unfolded cols(1) q(2), folded assms(4)]
  note p = expanded_parts [OF d(4), simplified]
  have profile: "authored_profile d = authored_profile w" using p(9) by (simp add: authored_profile_def)
  have again: "migrateWorkflowDocument valid num words marked d = migrate_readable ?compile words d"
    by (simp add: migrateWorkflowDocument_def Let_def d(3) p(1) profile)
  have same: "mg_ok (migrate_readable ?compile words d)" "mg_document (migrate_readable ?compile words d) = Some d"
    using d(2) by (simp_all add: migrate_readable_def Let_def)
  have edges: "list_all2 (edge_moved f) (wf_edges w) (wf_edges d)"
    by (simp add: p(6) list_all2_map2 list_all2_same map_edge_moved)
  show ?thesis
  proof (rule exI [of _ f], rule exI [of _ d], rule exI [of _ q], rule exI [of _ fb], rule exI, intro conjI)
    show "mg_document m = Some d" "valid d" "compile_ok (?compile d)" by (fact d)+
    show "mg_ok (migrateWorkflowDocument valid num words marked d)"
      "mg_document (migrateWorkflowDocument valid num words marked d) = Some d" unfolding again by (fact same)+
    show "q \<in> {intrinsicWorkflow w, planningWorkflow w}" by (fact q)
    show "readable_columns num (compiled_source num (authored_profile w) q) fb
      = readable_columns num (compiled_source num (authored_profile w) q) fb" by (rule refl)
    show "\<forall>x y. x \<le> y \<longrightarrow> f x \<le> f y" by (fact laws)
    show "\<forall>k < length old. \<bar>f (old ! k) - readable_columns num (compiled_source num (authored_profile w) q) fb ! k\<bar> \<le> 1 / 2000000"
      by (fact laws)
    show "list_all2 (edge_moved f) (wf_edges w) (wf_edges d)" by (fact edges)
    show "wf_version d = JNum 2" "wf_lanes d = wf_lanes w" "wf_phases d = wf_phases w" "wf_groups d = wf_groups w"
      "wf_nodes d = wf_nodes w" "wf_main_path d = wf_main_path w" "wf_checks d = wf_checks w" by (fact p(1) p(2) p(3) p(4) p(5) p(7) p(8))+
    show "\<forall>k. k \<noteq> ''viewBox'' \<longrightarrow> field (wf_meta d) k = field (wf_meta w) k" by (fact p)
    show "\<forall>c. view_box (wf_meta w) = Some c \<longrightarrow>
        (\<exists>s. view_box (wf_meta d) = Some s \<and> fst c \<le> fst s \<and> snd c \<le> snd s)"
      by (intro allI impI expanded_parts(10) [OF d(4)]) simp
  qed
qed

end
