(* ===== verification/MigrationSample.thy ===== *)
theory MigrationSample
  imports WorkflowMigrationFacts
begin

text \<open>
  A workflow of one node compiles under both schema versions, and so it can be migrated.
\<close>

section \<open>One node\<close>

definition solo :: "real \<Rightarrow> jval \<Rightarrow> jval \<Rightarrow> workflow" where
  "solo v meta n = \<lparr>wf_version = JNum v, wf_meta = meta, wf_lanes = [JObj [(lit ''id'', JStr (lit ''l''))]], wf_phases = [],
     wf_groups = [], wf_nodes = [n], wf_edges = [], wf_main_path = [], wf_checks = JUndef\<rparr>"

lemma solo_parts [simp]:
  "wf_version (solo v meta n) = JNum v" "wf_meta (solo v meta n) = meta" "wf_phases (solo v meta n) = []"
  "wf_lanes (solo v meta n) = [JObj [(lit ''id'', JStr (lit ''l''))]]" "wf_groups (solo v meta n) = []"
  "wf_nodes (solo v meta n) = [n]" "wf_edges (solo v meta n) = []" "wf_main_path (solo v meta n) = []"
  "wf_checks (solo v meta n) = JUndef" "readable (solo v meta n) \<longleftrightarrow> v = 2"
  "lane_order (solo v meta n) = [(JStr (lit ''l''), 0)]" "known_lane (solo v meta n) i \<longleftrightarrow> i = JStr (lit ''l'')"
  by (auto simp: solo_def readable_def lane_order_def indexed_def known_lane_def field_def)

text \<open>A header without a legend and canvas, and a node without authored sizes.\<close>

definition plain_meta :: "jval \<Rightarrow> bool" where
  "plain_meta meta \<longleftrightarrow> truthy (field meta ''title'') \<and> field meta ''viewBox'' = JUndef
     \<and> field meta ''legend'' = JObj [(lit ''mode'', JStr (lit ''hidden''))]"

definition plain_node :: "jval \<Rightarrow> bool" where
  "plain_node n \<longleftrightarrow> field n ''lane'' = JStr (lit ''l'') \<and> field n ''col'' = JNum 0
     \<and> (\<forall>k \<in> {''width'', ''height'', ''tag'', ''yOffset'', ''sublabel''}. field n k = JUndef)
     \<and> (\<forall>num. label_units num (field n ''label'') \<le> 14)"

lemma solo_profile: "plain_meta meta \<Longrightarrow> \<exists>meta'. plain_meta meta' \<and> with_profile q (solo v meta n) = solo v meta' n"
proof -
  assume m: "plain_meta meta"
  have "solo v meta n\<lparr>wf_meta := x\<rparr> = solo v x n" for x by (simp add: solo_def)
  moreover have "plain_meta (set_member ''quality_profile'' q meta)" using m by (simp add: plain_meta_def set_member_other)
  ultimately show ?thesis using m unfolding with_profile_def by (metis solo_parts(2))
qed

lemma solo_canonical: "canonicalReadableWorkflow num (solo v meta n) = solo v meta n"
  by (simp add: canonicalReadableWorkflow_def solo_def sort_by_def)

section \<open>Its layout\<close>

definition plain_columns :: "real list" where
  "plain_columns = [94, 214, 334, 454, 574, 694]"

lemma plain_push: "c \<in> set baseline_constraints \<Longrightarrow> push_column plain_columns c = plain_columns"
  by (auto simp: baseline_constraints_def upt_rec plain_columns_def push_column_def)

lemma plain_settle:
  assumes "set cs \<subseteq> set baseline_constraints"
  shows "foldl (settle_column cs) plain_columns ks = plain_columns"
proof -
  have "foldl push_column plain_columns ds = plain_columns" if "set ds \<subseteq> set baseline_constraints" for ds
    using that by (induction ds) (simp_all add: plain_push)
  moreover have "set (filter (\<lambda>c. con_to c = k) cs) \<subseteq> set baseline_constraints" for k using assms by auto
  ultimately have "settle_column cs plain_columns k = plain_columns" for k by (simp add: settle_column_def)
  then show ?thesis by (induction ks) simp_all
qed

lemma solo_columns:
  assumes "plain_node n"
  shows "readable_columns num (solo v meta n) no_feedback = plain_columns"
proof -
  have ls: "label_constraints num (solo v meta n) = []" by (simp add: label_constraints_def)
  have cs: "layout_constraints num (solo v meta n) no_feedback = baseline_constraints"
    by (simp add: layout_constraints_def gap_constraints_def no_feedback_def neighbour_constraints_def direct_constraints_def
        label_span_constraints_def)
  have start: "map (\<lambda>k. 94 + real k * 120) [0..<6] = plain_columns" by (simp add: plain_columns_def upt_rec)
  have solved: "solved_columns num (solo v meta n) no_feedback = plain_columns"
    unfolding solved_columns_def Let_def if_P [OF ls] cs solve_columns_def start
    by (rule plain_settle) auto
  have left: "left_shift (solo v meta n) plain_columns = 0"
    using assms by (simp add: left_shift_def first_extent_def authoredNodeWidth_def plain_node_def plain_columns_def number_or_def)
  have rest: "header_shift num (solo v meta n) xs = 0" "content_shift num (solo v meta n) xs = 0" for xs
    by (simp_all add: header_shift_def top_endpoints_def content_shift_def List.map_filter_simps)
  show ?thesis unfolding readable_columns_def Let_def solved left rest by (simp add: shift_columns_def)
qed

definition solo_layout :: "number_text \<Rightarrow> workflow \<Rightarrow> workflow_layout" where
  "solo_layout num w = workflow_layout_of num w no_feedback"

lemma solo_layout_parts:
  assumes "plain_node n" and "l = solo_layout num (solo v meta n)" and "v = 1 \<or> v = 2"
  shows "640 \<le> wl_lane_w l" "laneHeight l 0 = 104" "laneGroupHeaderH l 0 = 0" "laneGroupFooterH l 0 = 0" "laneTop l 0 = 52"
    "length (wl_columns l) = 6" "88 \<le> wl_columns l ! 0" "wl_columns l ! 0 \<le> 94"
proof -
  have content: "base_content (solo v meta n) = 74"
    using assms(1) by (simp add: base_content_def vertical_extent_def raise_past_def authoredNodeHeight_def y_offset_def
        number_or_def plain_node_def)
  have reserve: "lane_reserve num (solo v meta n) xs x = (0, 0)" for xs x by (simp add: lane_reserve_def lane_members_def)
  have "640 \<le> wl_lane_w l \<and> laneHeight l 0 = 104 \<and> laneGroupHeaderH l 0 = 0 \<and> laneGroupFooterH l 0 = 0 \<and> laneTop l 0 = 52
    \<and> length (wl_columns l) = 6 \<and> 88 \<le> wl_columns l ! 0 \<and> wl_columns l ! 0 \<le> 94"
  proof (cases "v = 2")
    case True
    then have l: "l = createReadableLayout num (solo v meta n) no_feedback"
      by (simp add: assms(2) solo_layout_def workflow_layout_of_def)
    have "wl_lane_w l = lane_width num (solo v meta n) plain_columns" "wl_columns l = plain_columns" "wl_lane_heights l = [104]"
      "wl_headers l = [0]" "wl_footers l = [0]"
      by (simp_all add: l createReadableLayout_def Let_def solo_columns [OF assms(1)] content reserve)
    then show ?thesis
      by (simp add: lane_width_def plain_columns_def laneHeight_def laneGroupHeaderH_def laneGroupFooterH_def laneTop_def nth_or_def)
  next
    case False
    then have "l = createLegacyLayout" by (simp add: assms(2) solo_layout_def workflow_layout_of_def)
    then show ?thesis by simp
  qed
  then show "640 \<le> wl_lane_w l" "laneHeight l 0 = 104" "laneGroupHeaderH l 0 = 0" "laneGroupFooterH l 0 = 0" "laneTop l 0 = 52"
    "length (wl_columns l) = 6" "88 \<le> wl_columns l ! 0" "wl_columns l ! 0 \<le> 94" by blast+
qed

lemma solo_measured:
  assumes "plain_node n" and "l = solo_layout num (solo v meta n)" and "v = 1 \<or> v = 2"
  shows "workflow_measureNode (solo v meta n) l n
    = (n, \<lparr>raw_x = Some (wl_columns l ! 0 - 46), raw_y = Some 93, raw_width = Some 92, raw_height = Some 52\<rparr>)"
  using assms(1) solo_layout_parts [OF assms]
  by (simp add: workflow_measureNode_def plain_node_def nonzero_or_def column_index_def Let_def)

definition solo_rect :: "workflow_layout \<Rightarrow> rect" where
  "solo_rect l = \<lparr>rx = wl_columns l ! 0 - 46, ry = 93, rwidth = 92, rheight = 52\<rparr>"

definition solo_box :: "jval \<Rightarrow> workflow_layout \<Rightarrow> jval \<times> placed_node" where
  "solo_box n l = (field n ''id'', \<lparr>pn_object = n, pn_box = box_of (field n ''id'') (solo_rect l)\<rparr>)"

lemma solo_boxes:
  assumes "plain_node n" and "l = solo_layout num (solo v meta n)" and "v = 1 \<or> v = 2"
  shows "workflow_measured (solo v meta n) l = [(field n ''id'', n, raw_of (solo_rect l))]"
    "workflow_nodes (solo v meta n) l = [solo_box n l]"
  using solo_measured [OF assms]
  by (simp_all add: workflow_measured_def workflow_nodes_def placed_component_def List.map_filter_simps solo_box_def raw_of_def solo_rect_def)

section \<open>Its validation\<close>

lemma no_relations_gates:
  assumes "gi_relations g = []"
  shows "route_gates env g = []" "label_gate num env g [] = []"
  using assms
  by (simp_all add: route_gates_def label_gate_def Let_def all_relations_def asArray_def indexed_def List.map_filter_simps
      cleanEndpointSideProblems_def cleanFlowProblems_def cleanCrossingProblems_def crossing_routes_def
      cleanAmbiguousCorridorProblems_def collectEligibleRoutedRelations_def collectAmbiguousCorridors_def corridor_routes_def
      cleanBorderRunProblems_def collectBorderRuns_def cleanRouteRhythmProblems_def collectRouteRhythmIssues_def
      cleanLabelRouteClearanceProblems_def collectLabelRouteClearance_def measured_labels_def label_entries_def)

lemma solo_legend:
  assumes "plain_meta meta"
  shows "workflowLegendEntries words (solo v meta n) = []" "legendExtraHeight words (solo v meta n) l = 0"
  using assms
  by (simp_all add: plain_meta_def workflowLegendEntries_def resolveLegend_def legend_config_of_def field_def
      legend_mode_def legendExtraHeight_def legendFootprint_def)

definition solo_scene :: "number_text \<Rightarrow> (jstring \<Rightarrow> jstring) \<Rightarrow> workflow \<Rightarrow> jval \<Rightarrow> scene" where
  "solo_scene num words w n =
     \<lparr>sc_num = num, sc_workflow = w, sc_layout = solo_layout num w, sc_nodes = [solo_box n (solo_layout num w)], sc_legend = [],
      sc_canvas_width = minimumCanvasWidth words w (solo_layout num w), sc_canvas_height = autoHeight words w (solo_layout num w)\<rparr>"

lemma solo_scene_made:
  assumes "plain_node n" and "plain_meta meta" and "v = 1 \<or> v = 2"
  shows "workflow_scene num words (solo v meta n) no_feedback = Inr (solo_scene num words (solo v meta n) n)"
proof -
  have nodes: "workflow_nodes (solo v meta n) (workflow_layout_of num (solo v meta n) no_feedback)
      = [solo_box n (workflow_layout_of num (solo v meta n) no_feedback)]"
    using solo_boxes(2) [OF assms(1) refl assms(3), where num = num and meta = meta] by (simp add: solo_layout_def)
  show ?thesis
    by (simp add: workflow_scene_def Let_def nodes workflowLegendRects_def solo_legend(1) [OF assms(2)] solo_scene_def solo_layout_def)
qed

lemma solo_node_passes:
  assumes "plain_node n" and "l = solo_layout num (solo v meta n)" and "v = 1 \<or> v = 2"
  shows "workflow_node_problems num (\<lambda>_. False) (solo v meta n) l (field n ''id'', n, raw_of (solo_rect l)) = []"
proof -
  note p = solo_layout_parts [OF assms]
  have col: "valid_column l (field n ''col'')" using assms(1) p(6) by (simp add: plain_node_def valid_column_def column_index_def)
  have lane: "lane_bounds (solo v meta n) l (field n ''id'') 0 (solo_rect l) = []"
    using p by (simp add: lane_bounds_def solo_rect_def)
  have fields: "field n ''tag'' = JUndef" "field n ''sublabel'' = JUndef" using assms(1) by (simp_all add: plain_node_def)
  have "label_units num (field n ''label'') \<le> 14" using assms(1) by (simp add: plain_node_def)
  then have fits: "node_text_problems num (\<lambda>_. False) (field n ''id'') n 92 = []"
    using fields by (simp add: node_text_problems_def brand_rail_problem_def text_too_wide_def)
  have fin: "finite_rect (raw_of (solo_rect l)) = Some (solo_rect l)" by (simp add: raw_of_def)
  have id: "map_of (lane_order (solo v meta n)) (field n ''lane'') = Some 0" using assms(1) by (simp add: plain_node_def)
  have width: "rwidth (solo_rect l) = 92" by (simp add: solo_rect_def)
  show ?thesis unfolding workflow_node_problems_def prod.case id option.case fin width fits lane using col by simp
qed

lemma solo_legacy_canvas:
  assumes "plain_meta meta"
  shows "canvas_problems words (solo 1 meta n) createLegacyLayout = []"
proof -
  have "view_box meta = None" using assms by (simp add: view_box_def point_of_def plain_meta_def)
  then show ?thesis
    by (simp add: canvas_problems_def workflow_view_box_def some_or_def autoHeight_def lane_count_def solo_legend [OF assms]
        minimumCanvasWidth_def legendY_def lastLaneBottom_def) (simp add: createLegacyLayout_def)
qed

lemma solo_valid:
  assumes "plain_node n" and "plain_meta meta" and "v = 1 \<or> v = 2"
  shows "validateWorkflow words (\<lambda>_. False) (solo_scene num words (solo v meta n) n) [] = []"
proof -
  define l where "l = solo_layout num (solo v meta n)"
  define w where "w = solo v meta n"
  let ?sc = "solo_scene num words w n"
  have sc: "sc_workflow ?sc = w" "sc_layout ?sc = l" "sc_num ?sc = num" "sc_nodes ?sc = [solo_box n l]"
    by (simp_all add: solo_scene_def l_def w_def)
  have w: "wf_edges w = []" "wf_phases w = []" "wf_groups w = []" "wf_main_path w = []" by (simp_all add: w_def)
  have labels: "workflow_labels ?sc [] = []" by (simp add: workflow_labels_def sc w indexed_def List.map_filter_simps)
  have crowded: "crowded_nodes [solo_box n l] = []"
    by (simp add: crowded_nodes_def lanes_used_def in_lane_def close_nodes_def List.map_filter_simps split_beta)
  have gates: "gi_relations (workflow_gates (?sc, [])) = []" by (simp add: workflow_gates_def sc w)
  have drawing: "drawing_problems ?sc [] = []"
    unfolding drawing_problems_def Let_def labels sc crowded w no_relations_gates [OF gates]
    by (simp add: indexed_def main_path_problems_def w segments_def labels_on_nodes_def overlapping_labels_def List.map_filter_simps)
  have shape: "structure_problems w = []"
    using assms(2,3) by (auto simp: structure_problems_def w_def plain_meta_def)
  have ids: "id_problems w = []" by (simp add: id_problems_def distinct_ids_def w_def)
  have capacity: "enforceLegacyColumnCapacity w l = []" by (simp add: enforceLegacyColumnCapacity_def w)
  have canvas: "canvas_problems words w l = []"
  proof (cases "v = 2")
    case True
    then show ?thesis by (simp add: canvas_problems_def w_def)
  next
    case False
    then have "v = 1" "l = createLegacyLayout" using assms(3) by (simp_all add: l_def solo_layout_def workflow_layout_of_def)
    with solo_legacy_canvas [OF assms(2)] show ?thesis by (simp add: w_def)
  qed
  have nodes: "concat (map (workflow_node_problems num (\<lambda>_. False) w l) (workflow_measured w l)) = []"
    using solo_node_passes [OF assms(1) l_def assms(3)] by (simp add: w_def solo_boxes(1) [OF assms(1) l_def assms(3)])
  show ?thesis
    unfolding w_def [symmetric] validateWorkflow_def Let_def sc shape capacity ids nodes canvas drawing
    by (simp add: w phase_ranges_def sort_by_def)
qed

section \<open>It compiles and migrates\<close>

lemma solo_canvas:
  assumes "plain_node n" and "plain_meta meta" and "v = 1 \<or> v = 2"
  shows "\<exists>width height. finalizeReadableViewBox words (solo_scene num words (solo v meta n) n) [] = ViewBox width height"
proof (cases "v = 2")
  case True
  define l where "l = solo_layout num (solo 2 meta n)"
  have col: "88 \<le> wl_columns l ! 0" using solo_layout_parts(7) [OF assms(1) l_def] by simp
  have rects: "content_rects (solo_scene num words (solo 2 meta n) n) [] = [solo_rect l]"
    by (simp add: content_rects_def solo_scene_def l_def [symmetric] solo_box_def route_label_rects_def List.map_filter_simps
        drawn_spans_def group_rects_def rect_of_def box_of_def rect.truncate_def solo_rect_def)
  have "view_box meta = None" using assms(2) by (simp add: view_box_def point_of_def plain_meta_def)
  then show ?thesis
    using col by (simp add: True finalizeReadableViewBox_def Let_def measuredContentBounds_def content_points_def rects solo_rect_def)
      (simp add: solo_scene_def)
next
  case False
  then show ?thesis using assms(3) by (simp add: finalizeReadableViewBox_def Let_def solo_scene_def)
qed

lemma solo_compiles:
  assumes "plain_node n" and "plain_meta meta" and "v = 1 \<or> v = 2"
  shows "\<exists>sc width height. compileWorkflow (\<lambda>_. True) num words (\<lambda>_. False) q (solo v meta n) = Inr (Compiled sc [] width height None)
    \<and> wl_columns (sc_layout sc) = (if v = 2 then plain_columns else wl_columns createLegacyLayout)"
proof -
  obtain meta' where m: "plain_meta meta'" "with_profile q (solo v meta n) = solo v meta' n"
    using solo_profile [OF assms(2)] by blast
  define w where "w = solo v meta' n"
  define sc where "sc = solo_scene num words w n"
  have sc: "sc_workflow sc = w" by (simp add: sc_def solo_scene_def)
  obtain width height where box: "finalizeReadableViewBox words sc [] = ViewBox width height"
    using solo_canvas [OF assms(1) m(1) assms(3)] unfolding sc_def w_def by blast
  have valid: "validateWorkflow words (\<lambda>_. False) sc [] = []"
    unfolding sc_def w_def by (rule solo_valid [OF assms(1) m(1) assms(3)])
  have legend: "workflow_legend words sc [] = Inr None"
    by (simp add: workflow_legend_def sc) (simp add: w_def solo_legend(1) [OF m(1)])
  have finish: "finish_workflow words (\<lambda>_. False) sc [] = Compiled sc [] width height None"
    using valid legend box by (simp add: finish_workflow_def Let_def)
  have pins: "validateReadablePinnedGeometry sc = Pinned []"
    by (simp add: validateReadablePinnedGeometry_def sc w_def validateReadablePairwisePinConflicts_def label_route_conflicts_def
        label_label_conflicts_def crossing_conflicts_def corridor_conflicts_def workflow_labels_def routed_edges_def indexed_def
        List.map_filter_simps label_entries_def collectLabelRouteClearance_def measured_labels_def asArray_def
        collectAmbiguousCorridors_def corridor_routes_def)
  have scene: "compile_scene words (\<lambda>_. False) sc = Inr (Compiled sc [] width height None)"
    using pins finish by (simp add: compile_scene_def legacy_routes_def sc w_def List.map_filter_simps)
  have inputs: "validateReadableInputsBeforeRouting w (solo_layout num w) = []"
  proof -
    have n: "workflow_nodes w (solo_layout num w) = [solo_box n (solo_layout num w)]"
      unfolding w_def by (rule solo_boxes(2) [OF assms(1) refl assms(3)])
    have "crowded_nodes [solo_box n (solo_layout num w)] = []"
      by (simp add: crowded_nodes_def lanes_used_def in_lane_def close_nodes_def List.map_filter_simps split_beta)
    moreover have "node_input_problems w (solo_layout num w) n = []"
      using assms(1) solo_measured [OF assms(1) refl assms(3), where num = num and meta = meta'] solo_layout_parts(6) [OF assms(1) refl assms(3), where num = num and meta = meta']
      by (simp add: node_input_problems_def w_def plain_node_def valid_column_def column_index_def placed_component_def)
    moreover have parts: "wf_nodes w = [n]" "wf_edges w = []" "wf_lanes w = [JObj [(lit ''id'', JStr (lit ''l''))]]"
      by (simp_all add: w_def)
    ultimately show ?thesis
      unfolding validateReadableInputsBeforeRouting_def n parts by (simp add: doubled_def indexed_def List.map_filter_simps)
  qed
  have "compileWorkflowInternal (\<lambda>_. True) num words (\<lambda>_. False) w no_feedback = Inr (Compiled sc [] width height None)"
    using solo_scene_made [OF assms(1) m(1) assms(3), of num words] inputs scene
    by (simp add: compileWorkflowInternal_def Let_def w_def solo_canonical semanticContractDiagnostics_def solo_layout_def sc_def)
  then have "compileWorkflow (\<lambda>_. True) num words (\<lambda>_. False) q (solo v meta n) = Inr (Compiled sc [] width height None)"
    by (simp add: compileWorkflow_def compileWorkflowWithFeedback_def m(2) w_def numeral_eq_Suc)
  moreover have "wl_columns (sc_layout sc) = (if v = 2 then plain_columns else wl_columns createLegacyLayout)"
    using assms(3) solo_columns [OF assms(1)]
    by (auto simp: sc_def solo_scene_def solo_layout_def workflow_layout_of_def createReadableLayout_def Let_def w_def)
  ultimately show ?thesis by blast
qed

definition solo_meta :: jval where
  "solo_meta = JObj [(lit ''title'', JStr (lit ''flow'')), (lit ''legend'', JObj [(lit ''mode'', JStr (lit ''hidden''))])]"

definition solo_source :: workflow where
  "solo_source = solo 1 solo_meta (lane_step ''a'' 0)"

lemma solo_source_plain: "plain_meta solo_meta" "plain_node (lane_step ''a'' 0)"
  by (simp_all add: plain_meta_def solo_meta_def field_def) (simp add: plain_node_def)

lemma probe_units: "label_units num (JStr (lit ''Probe'')) = 5"
  by (simp add: label_units_def shown_def textUnits_def lit_Cons fullwidth_def FULLWIDTH_RE_def variation_selector_def
      high_surrogate_def low_surrogate_def)

lemma probe_plain: "plain_node (probe_node (JStr (lit ''l'')))"
proof -
  have "field (probe_node (JStr (lit ''l''))) ''label'' = JStr (lit ''Probe'')" by (simp add: field_def probe_node_def)
  then show ?thesis unfolding plain_node_def by (simp add: probe_units) (simp add: field_def probe_node_def)
qed

lemma solo_probe: "\<exists>meta. plain_meta meta \<and> legacyLayoutProbe solo_source = solo 1 meta (probe_node (JStr (lit ''l'')))"
proof -
  let ?meta = "JObj [(lit ''title'', JStr (lit ''flow'')), (lit ''legend'', JObj [(lit ''mode'', JStr (lit ''hidden''))])]"
  have "plain_meta ?meta" by (simp add: plain_meta_def field_def)
  moreover have "legacyLayoutProbe solo_source = solo 1 ?meta (probe_node (JStr (lit ''l'')))"
    by (simp add: legacyLayoutProbe_def solo_source_def solo_meta_def solo_def field_def)
  ultimately show ?thesis by blast
qed

lemma solo_intrinsic: "intrinsicWorkflow solo_source = solo 2 solo_meta (lane_step ''a'' 0)"
  by (simp add: intrinsicWorkflow_def solo_source_def solo_def drop_member_def solo_meta_def)

lemma compile_plain:
  assumes "plain_node n" and "plain_meta meta" and "v = 1 \<or> v = 2"
  shows "compile_ok (compileWorkflow (\<lambda>_. True) num words (\<lambda>_. False) q (solo v meta n))"
    "receipt_columns (compileWorkflow (\<lambda>_. True) num words (\<lambda>_. False) q (solo v meta n))
      = (if v = 2 then plain_columns else wl_columns createLegacyLayout)"
  using solo_compiles [OF assms, of num words q] by (auto simp: compile_ok_def receipt_columns_def)

lemma solo_mapped:
  "\<exists>changed. createMappedWorkflowCandidate solo_source (wl_columns createLegacyLayout) plain_columns
     = Some (solo 2 solo_meta (lane_step ''a'' 0), changed)"
proof -
  obtain f where "createHorizontalRankMapper (wl_columns createLegacyLayout) plain_columns = Some f"
    using plan_ranks.ranks_axioms [of "\<lambda>_. []" "solo 2 solo_meta (lane_step ''a'' 0)" no_feedback]
    by (auto simp: createHorizontalRankMapper_def ranks_def solo_columns [OF solo_source_plain(2)])
  moreover have "solo_source\<lparr>wf_version := JNum 2\<rparr> = solo 2 solo_meta (lane_step ''a'' 0)"
    by (simp add: solo_source_def solo_def)
  ultimately show ?thesis
    by (simp add: createMappedWorkflowCandidate_def mapExplicitCoordinates_def solo_def)
qed

lemma solo_migrates: "mg_ok (migrateWorkflowDocument (\<lambda>_. True) num words (\<lambda>_. False) solo_source)"
proof -
  let ?compile = "compileWorkflow (\<lambda>_. True) num words (\<lambda>_. False) (authored_profile solo_source)"
  let ?target = "solo 2 solo_meta (lane_step ''a'' 0)"
  obtain meta where p: "plain_meta meta" "legacyLayoutProbe solo_source = solo 1 meta (probe_node (JStr (lit ''l'')))"
    using solo_probe by blast
  have probe: "compile_ok (?compile (legacyLayoutProbe solo_source))"
    "receipt_columns (?compile (legacyLayoutProbe solo_source)) = wl_columns createLegacyLayout"
    using compile_plain [OF probe_plain p(1), of 1] by (simp_all add: p(2))
  note target = compile_plain [OF solo_source_plain(2,1), of 2 num words "authored_profile solo_source", simplified]
  have planned: "planned_columns ?compile solo_source = ?compile ?target"
    by (simp add: planned_columns_def solo_intrinsic target(1))
  obtain changed where mapped: "createMappedWorkflowCandidate solo_source (wl_columns createLegacyLayout) plain_columns
      = Some (?target, changed)" using solo_mapped by blast
  have "view_box solo_meta = None" using solo_source_plain(1) by (simp add: view_box_def point_of_def plain_meta_def)
  then have same: "expanded_document ?compile ?target = ?target" by (simp add: expanded_document_def expanded_box_def)
  have "mg_ok (migrate_legacy (\<lambda>_. True) ?compile words solo_source)"
    unfolding migrate_legacy_def Let_def planned probe(2) target(2) mapped
    by (simp add: probe(1) target(1) finish_migration_def Let_def same)
  then show ?thesis by (simp add: migrateWorkflowDocument_def Let_def solo_source_def)
qed

lemma migration_sound_witness:
  "\<exists>d. mg_document (migrateWorkflowDocument (\<lambda>_. True) (\<lambda>_. []) id (\<lambda>_. False) solo_source) = Some d
     \<and> wf_version d = JNum 2 \<and> wf_nodes d = [lane_step ''a'' 0]"
proof -
  have v: "wf_version solo_source = JNum 1" and n: "wf_nodes solo_source = [lane_step ''a'' 0]"
    by (simp_all add: solo_source_def)
  from migration_sound [OF refl solo_migrates v refl, of "\<lambda>_. []" id] obtain d where
    "mg_document (migrateWorkflowDocument (\<lambda>_. True) (\<lambda>_. []) id (\<lambda>_. False) solo_source) = Some d"
    "wf_version d = JNum 2" "wf_nodes d = wf_nodes solo_source" by (elim exE conjE)
  with n show ?thesis by metis
qed

lemma rank_mapping_witness:
  "\<exists>f. createHorizontalRankMapper (wl_columns createLegacyLayout) (readable_columns (\<lambda>_. []) solo_source no_feedback) = Some f
     \<and> \<bar>f 88 - readable_columns (\<lambda>_. []) solo_source no_feedback ! 0\<bar> \<le> 1 / 2000000"
proof -
  obtain f where f: "createHorizontalRankMapper (wl_columns createLegacyLayout)
        (readable_columns (\<lambda>_. []) solo_source no_feedback) = Some f"
    "\<forall>k < length (wl_columns createLegacyLayout). \<bar>f (wl_columns createLegacyLayout ! k)
        - readable_columns (\<lambda>_. []) solo_source no_feedback ! k\<bar> \<le> 1 / 2000000"
    using rank_mapping [OF refl refl, of "\<lambda>_. []" solo_source no_feedback] by blast
  from f(2) [rule_format, of 0] have "\<bar>f 88 - readable_columns (\<lambda>_. []) solo_source no_feedback ! 0\<bar> \<le> 1 / 2000000"
    by simp
  with f(1) show ?thesis by blast
qed

end
