(* ===== verification/Preview.thy ===== *)
theory Preview
  imports Profiles
begin

text \<open>
  The live preview of \<open>bin/preview.mjs\<close>: a process that watches a source file, has every stable version of
  it delivered by a child process, and publishes what was verified.  Each handler of an event runs to
  its end before the next one, so it is one step; a step is given what the file system and the child
  answer.  The hash function is the argument \<open>sha\<close>.  Messages, the page and the event streams of the
  clients are not modelled.
\<close>

section \<open>Files\<close>

type_synonym bytes = "nat list"

text \<open>Reading a file gives an error code or its bytes.\<close>

type_synonym reading = "jstring + bytes"

record source_digest =
  sd_hash :: jstring
  sd_bytes :: "bytes option"

definition sourceDigest :: "(bytes \<Rightarrow> jstring) \<Rightarrow> reading \<Rightarrow> source_digest" where
  "sourceDigest sha f = (case f of
     Inr b \<Rightarrow> \<lparr>sd_hash = sha b, sd_bytes = Some b\<rparr>
   | Inl code \<Rightarrow> \<lparr>sd_hash = lit ''unreadable:'' @ (if code = [] then lit ''unknown'' else code), sd_bytes = None\<rparr>)"

section \<open>State\<close>

datatype preview_status = Checking | Verified | NeedsFix

datatype signal = SigTerm | SigKill

record verified =
  vr_sha :: jstring
  vr_size :: nat
  vr_validation :: jval

text \<open>A timer is a flag: pending or not.  The child is one too; what it was started for is in
  \<open>activeHash\<close> and \<open>activeEpoch\<close>.\<close>

record preview =
  pv_stopping :: bool
  pv_stopped :: bool
  pv_closing :: bool
  pv_closed :: bool
  pv_observing :: bool
  pv_debounce :: bool
  pv_grace :: bool
  pv_kill :: bool
  pv_child :: bool
  pv_signals :: "signal list"
  pv_queued :: "jstring option"
  pv_active :: "jstring option"
  pv_good :: "jstring option"
  pv_epoch :: nat
  pv_active_epoch :: nat
  pv_pending :: bool
  pv_artifact :: "bytes option"
  pv_status :: preview_status
  pv_generation :: nat
  pv_revision :: nat
  pv_last :: "verified option"
  pv_failure :: "jval option"

definition idle_preview :: preview where
  "idle_preview =
     \<lparr>pv_stopping = False, pv_stopped = False, pv_closing = False, pv_closed = False, pv_observing = True, pv_debounce = False,
      pv_grace = False, pv_kill = False, pv_child = False, pv_signals = [], pv_queued = None, pv_active = None, pv_good = None,
      pv_epoch = 0, pv_active_epoch = 0, pv_pending = False, pv_artifact = None, pv_status = Checking, pv_generation = 0,
      pv_revision = 0, pv_last = None, pv_failure = None\<rparr>"

section \<open>Builds\<close>

definition publishFailure :: "jval \<Rightarrow> preview \<Rightarrow> preview" where
  "publishFailure stage_name p =
     p\<lparr>pv_status := NeedsFix, pv_failure := Some (if truthy stage_name then stage_name else JStr (lit ''render''))\<rparr>"

definition queueStableBuild :: "jstring \<Rightarrow> preview \<Rightarrow> preview" where
  "queueStableBuild h p = p\<lparr>pv_queued := Some h, pv_debounce := True\<rparr>"

definition observeSource :: "bool \<Rightarrow> source_digest \<Rightarrow> preview \<Rightarrow> preview" where
  "observeSource immediate d p =
     (if \<not> immediate \<and> pv_queued p = Some (sd_hash d) then p
      else queueStableBuild (sd_hash d) (p\<lparr>pv_epoch := pv_epoch p + 1\<rparr>))"

text \<open>The snapshot of the source that the child reads can fail to be written.\<close>

definition beginBuild :: "bool \<Rightarrow> source_digest \<Rightarrow> nat \<Rightarrow> preview \<Rightarrow> preview" where
  "beginBuild snapshot_ok d epoch p =
     (if pv_stopping p \<or> pv_child p then p
      else let q = p\<lparr>pv_active := Some (sd_hash d), pv_active_epoch := epoch, pv_generation := pv_generation p + 1,
             pv_status := Checking, pv_failure := None\<rparr> in
        if sd_bytes d \<noteq> None \<and> \<not> snapshot_ok then publishFailure (JStr (lit ''prepare'')) q
        else q\<lparr>pv_child := True\<rparr>)"

text \<open>What the debounce timer runs.\<close>

definition launch :: "bool \<Rightarrow> source_digest \<Rightarrow> preview \<Rightarrow> preview" where
  "launch snapshot_ok d p =
     (if pv_stopping p then p
      else if pv_queued p \<noteq> Some (sd_hash d) then queueStableBuild (sd_hash d) p
      else if pv_good p = Some (sd_hash d)
        then (if pv_status p \<noteq> Verified \<and> pv_last p \<noteq> None then p\<lparr>pv_status := Verified, pv_failure := None\<rparr> else p)
      else if pv_child p then p\<lparr>pv_pending := True\<rparr>
      else beginBuild snapshot_ok d (pv_epoch p) p)"

section \<open>Commits\<close>

text \<open>What the child left behind: its exit code, the receipt it printed (\<open>null\<close> when it is no JSON), and the
  candidate file; then whether the output path still resolves and the rename succeeds.\<close>

record delivery =
  dl_code :: int
  dl_receipt :: jval
  dl_candidate :: reading
  dl_path_ok :: bool
  dl_rename_ok :: bool

record preview_disk =
  dk_source :: reading
  dk_output :: reading

definition receipt_sha :: "jval \<Rightarrow> jval" where
  "receipt_sha r = field (field r ''artifact'') ''sha256''"

text \<open>Reading a member of \<open>undefined\<close> or \<open>null\<close> throws.\<close>

definition has_validation :: "jval \<Rightarrow> bool" where
  "has_validation r \<longleftrightarrow> field r ''validation'' \<noteq> JUndef \<and> field r ''validation'' \<noteq> JNull"

definition commit_failure :: "preview \<Rightarrow> preview" where
  "commit_failure = publishFailure (JStr (lit ''commit''))"

definition file_hash :: "(bytes \<Rightarrow> jstring) \<Rightarrow> reading \<Rightarrow> jstring option" where
  "file_hash sha f = (case f of Inr b \<Rightarrow> Some (sha b) | Inl code \<Rightarrow> None)"

text \<open>The state, the disk and, when the source has changed meanwhile, its digest.\<close>

definition publish_candidate ::
  "(bytes \<Rightarrow> jstring) \<Rightarrow> delivery \<Rightarrow> bytes \<Rightarrow> jstring \<Rightarrow> preview \<Rightarrow> preview_disk \<Rightarrow> preview \<times> preview_disk" where
  "publish_candidate sha dl b h p dk =
     (let same = (map_option vr_sha (pv_last p) = Some (sha b));
          matches = (same \<and> file_hash sha (dk_output dk) = Some (sha b)) in
      if \<not> matches \<and> \<not> dl_rename_ok dl then (commit_failure p, dk)
      else let dk' = (if matches then dk else dk\<lparr>dk_output := Inr b\<rparr>);
               q = p\<lparr>pv_artifact := Some b, pv_good := Some h, pv_status := Verified\<rparr> in
        if same then (q\<lparr>pv_failure := None\<rparr>, dk')
        else if \<not> has_validation (dl_receipt dl) then (commit_failure (q\<lparr>pv_revision := pv_revision q + 1\<rparr>), dk')
        else (q\<lparr>pv_revision := pv_revision q + 1, pv_failure := None,
               pv_last := Some \<lparr>vr_sha = sha b, vr_size = length b, vr_validation = field (dl_receipt dl) ''validation''\<rparr>\<rparr>, dk'))"

definition commitCandidate ::
  "(bytes \<Rightarrow> jstring) \<Rightarrow> delivery \<Rightarrow> jstring \<Rightarrow> preview \<Rightarrow> preview_disk \<Rightarrow> preview \<times> preview_disk \<times> source_digest option" where
  "commitCandidate sha dl h p dk =
     (case dl_candidate dl of
        Inl code \<Rightarrow> (commit_failure p, dk, None)
      | Inr b \<Rightarrow>
          if receipt_sha (dl_receipt dl) \<noteq> JStr (sha b) \<or> \<not> dl_path_ok dl then (commit_failure p, dk, None)
          else if sd_hash (sourceDigest sha (dk_source dk)) \<noteq> h then (p, dk, Some (sourceDigest sha (dk_source dk)))
          else (case publish_candidate sha dl b h p dk of (q, dk') \<Rightarrow> (q, dk', None)))"

section \<open>The end of the child and of the preview\<close>

definition finishStop :: "preview \<Rightarrow> preview" where
  "finishStop p =
     (if pv_stopped p \<or> pv_child p \<or> \<not> pv_closed p then p
      else p\<lparr>pv_stopped := True, pv_debounce := False, pv_observing := False, pv_grace := False, pv_kill := False\<rparr>)"

definition signalActiveChild :: "signal \<Rightarrow> preview \<Rightarrow> preview" where
  "signalActiveChild s p = (if pv_child p then p\<lparr>pv_signals := pv_signals p @ [s]\<rparr> else p)"

text \<open>The next build after a child ended, unless nothing changed.\<close>

definition queue_next ::
  "(bytes \<Rightarrow> jstring) \<Rightarrow> reading \<Rightarrow> bool \<Rightarrow> source_digest option \<Rightarrow> preview \<Rightarrow> preview" where
  "queue_next sha source stale superseded p =
     (if pv_pending p \<or> stale \<or> superseded \<noteq> None
      then let d = (case superseded of Some d \<Rightarrow> d | None \<Rightarrow> sourceDigest sha source) in
        queueStableBuild (sd_hash d)
          (p\<lparr>pv_pending := False,
             pv_epoch := (if superseded \<noteq> None \<and> pv_epoch p = pv_active_epoch p then pv_epoch p + 1 else pv_epoch p)\<rparr>)
      else p)"

definition childClosed :: "(bytes \<Rightarrow> jstring) \<Rightarrow> delivery \<Rightarrow> preview \<Rightarrow> preview_disk \<Rightarrow> preview \<times> preview_disk" where
  "childClosed sha dl p dk =
     (let stale = (pv_active_epoch p \<noteq> pv_epoch p);
          q = p\<lparr>pv_child := False, pv_grace := False, pv_kill := False\<rparr>;
          ok = (dl_code dl = 0 \<and> truthy (field (dl_receipt dl) ''ok''));
          h = (case pv_active p of Some h \<Rightarrow> h | None \<Rightarrow> []) in
      case (if pv_stopping p \<or> stale then (q, dk, None)
            else if ok then commitCandidate sha dl h q dk
            else (publishFailure (field (dl_receipt dl) ''stage'') q, dk, None)) of
        (r, dk', superseded) \<Rightarrow>
          (if pv_stopping p then finishStop r else queue_next sha (dk_source dk') stale superseded r, dk'))"

definition closeServer :: "preview \<Rightarrow> preview" where
  "closeServer p = p\<lparr>pv_closing := True\<rparr>"

definition startBoundedChildDrain :: "preview \<Rightarrow> preview" where
  "startBoundedChildDrain p = (if \<not> pv_child p \<or> pv_grace p \<or> pv_kill p then p else p\<lparr>pv_grace := True\<rparr>)"

definition stop_preview :: "bool \<Rightarrow> preview \<Rightarrow> preview" where
  "stop_preview force p =
     (let q = (if pv_stopping p then p
          else closeServer (p\<lparr>pv_stopping := True, pv_debounce := False, pv_observing := False\<rparr>)) in
      if pv_child q \<and> force then signalActiveChild SigKill (q\<lparr>pv_grace := False, pv_kill := False\<rparr>)
      else if pv_child q then startBoundedChildDrain q
      else finishStop q)"

definition grace_over :: "preview \<Rightarrow> preview" where
  "grace_over p =
     (if \<not> pv_child p then finishStop (p\<lparr>pv_grace := False\<rparr>)
      else (signalActiveChild SigTerm (p\<lparr>pv_grace := False\<rparr>))\<lparr>pv_kill := True\<rparr>)"

definition kill_over :: "preview \<Rightarrow> preview" where
  "kill_over p = signalActiveChild SigKill (p\<lparr>pv_kill := False\<rparr>)"

section \<open>Steps\<close>

datatype preview_event =
    Edited reading
  | OutputTouched reading
  | Observed
  | DebounceFired bool
  | ChildClosed delivery
  | StopRequested bool
  | ServerClosed
  | GraceFired
  | KillFired

text \<open>The last component logs for every child the hash of its source and what it delivered.\<close>

type_synonym preview_world = "preview \<times> preview_disk \<times> (jstring option \<times> delivery) list"

definition enabled :: "preview \<Rightarrow> preview_event \<Rightarrow> bool" where
  "enabled p e = (case e of
     Observed \<Rightarrow> pv_observing p
   | DebounceFired ok \<Rightarrow> pv_debounce p
   | ChildClosed dl \<Rightarrow> pv_child p
   | ServerClosed \<Rightarrow> pv_closing p \<and> \<not> pv_closed p
   | GraceFired \<Rightarrow> pv_grace p
   | KillFired \<Rightarrow> pv_kill p
   | _ \<Rightarrow> True)"

fun preview_handle :: "(bytes \<Rightarrow> jstring) \<Rightarrow> preview_event \<Rightarrow> preview_world \<Rightarrow> preview_world" where
  "preview_handle sha (Edited f) (p, dk, past) = (p, dk\<lparr>dk_source := f\<rparr>, past)"
| "preview_handle sha (OutputTouched f) (p, dk, past) = (p, dk\<lparr>dk_output := f\<rparr>, past)"
| "preview_handle sha Observed (p, dk, past) = (observeSource False (sourceDigest sha (dk_source dk)) p, dk, past)"
| "preview_handle sha (DebounceFired ok) (p, dk, past) =
     (launch ok (sourceDigest sha (dk_source dk)) (p\<lparr>pv_debounce := False\<rparr>), dk, past)"
| "preview_handle sha (ChildClosed dl) (p, dk, past) =
     (case childClosed sha dl p dk of (q, dk') \<Rightarrow> (q, dk', past @ [(pv_active p, dl)]))"
| "preview_handle sha (StopRequested force) (p, dk, past) = (stop_preview force p, dk, past)"
| "preview_handle sha ServerClosed (p, dk, past) = (finishStop (p\<lparr>pv_closed := True\<rparr>), dk, past)"
| "preview_handle sha GraceFired (p, dk, past) = (grace_over p, dk, past)"
| "preview_handle sha KillFired (p, dk, past) = (kill_over p, dk, past)"

text \<open>The start observes the source at once.\<close>

definition startPreview :: "(bytes \<Rightarrow> jstring) \<Rightarrow> preview_disk \<Rightarrow> preview_world" where
  "startPreview sha dk = (observeSource True (sourceDigest sha (dk_source dk)) idle_preview, dk, [])"

inductive preview_run :: "(bytes \<Rightarrow> jstring) \<Rightarrow> preview_event list \<Rightarrow> preview_world \<Rightarrow> bool" for sha where
  start: "preview_run sha [] (startPreview sha dk)"
| step: "preview_run sha es w \<Longrightarrow> enabled (fst w) e \<Longrightarrow> preview_run sha (es @ [e]) (preview_handle sha e w)"

section \<open>Requests\<close>

datatype preview_response =
    ForbiddenHost
  | MethodNotAllowed
  | BadRequest
  | PreviewPage
  | PreviewState preview_status nat
  | NoArtifact
  | Artifact bytes
  | EventStream
  | NotFound

text \<open>The path is that of the parsed URL, if it parses.\<close>

definition preview_request :: "preview \<Rightarrow> jstring \<Rightarrow> jstring \<Rightarrow> jstring \<Rightarrow> jstring option \<Rightarrow> preview_response" where
  "preview_request p expected_host host method path =
     (if host \<noteq> expected_host then ForbiddenHost
      else if method \<noteq> lit ''GET'' \<and> method \<noteq> lit ''HEAD'' then MethodNotAllowed
      else (case path of
          None \<Rightarrow> BadRequest
        | Some u \<Rightarrow>
            if u = lit ''/'' then PreviewPage
            else if u = lit ''/state'' then PreviewState (pv_status p) (pv_revision p)
            else if u = lit ''/artifact.html'' then (case pv_artifact p of None \<Rightarrow> NoArtifact | Some b \<Rightarrow> Artifact b)
            else if u = lit ''/events'' \<and> method = lit ''GET'' then EventStream
            else NotFound))"

end
