(* ===== verification/PreviewFacts.thy ===== *)
theory PreviewFacts
  imports Preview
begin

text \<open>
  What the preview promises: it serves and publishes only what was verified for the source it names,
  it comes to rest on the current source a bounded number of steps after the last edit, and a stop ends
  it without another build.
\<close>

section \<open>The invariant\<close>

text \<open>A receipt that reports success names its validation, as \<open>deliver\<close> does.\<close>

definition delivered_ok :: "delivery \<Rightarrow> bool" where
  "delivered_ok dl \<longleftrightarrow> dl_code dl = 0 \<and> truthy (field (dl_receipt dl) ''ok'')"

definition sound_delivery :: "delivery \<Rightarrow> bool" where
  "sound_delivery dl \<longleftrightarrow> (delivered_ok dl \<longrightarrow> has_validation (dl_receipt dl))"

definition sound_event :: "preview_event \<Rightarrow> bool" where
  "sound_event e \<longleftrightarrow> (case e of ChildClosed dl \<Rightarrow> sound_delivery dl | _ \<Rightarrow> True)"

definition build_ok :: "preview \<Rightarrow> bool" where
  "build_ok p \<longleftrightarrow> pv_active_epoch p \<le> pv_epoch p \<and> (pv_child p \<longrightarrow> pv_active p \<noteq> None)
     \<and> (pv_pending p \<and> \<not> pv_stopping p \<longrightarrow> pv_child p \<and> pv_active_epoch p < pv_epoch p)
     \<and> (pv_child p \<and> pv_active_epoch p = pv_epoch p \<longrightarrow> \<not> pv_debounce p \<and> pv_queued p = pv_active p)"

definition at_rest :: "preview \<Rightarrow> bool" where
  "at_rest p \<longleftrightarrow> pv_queued p \<noteq> None
     \<and> (pv_status p = Verified \<and> pv_good p = pv_queued p \<or> pv_status p = NeedsFix \<and> pv_active p = pv_queued p)"

definition stop_ok :: "preview \<Rightarrow> bool" where
  "stop_ok p \<longleftrightarrow> (if pv_stopping p then pv_closing p \<and> \<not> pv_debounce p \<and> \<not> pv_observing p
       \<and> (pv_stopped p \<longleftrightarrow> pv_closed p \<and> \<not> pv_child p)
     else \<not> pv_closing p \<and> \<not> pv_closed p \<and> \<not> pv_stopped p \<and> pv_observing p \<and> \<not> pv_grace p \<and> \<not> pv_kill p)"

definition artifact_ok :: "(bytes \<Rightarrow> jstring) \<Rightarrow> preview \<Rightarrow> (jstring option \<times> delivery) list \<Rightarrow> bool" where
  "artifact_ok sha p past \<longleftrightarrow>
     (case pv_artifact p of
        None \<Rightarrow> pv_good p = None \<and> pv_last p = None \<and> pv_status p \<noteq> Verified
      | Some b \<Rightarrow> pv_good p \<noteq> None \<and> map_option vr_sha (pv_last p) = Some (sha b)
          \<and> (\<exists>dl. (pv_good p, dl) \<in> set past \<and> delivered_ok dl \<and> dl_candidate dl = Inr b
              \<and> receipt_sha (dl_receipt dl) = JStr (sha b)))"

definition preview_ok :: "(bytes \<Rightarrow> jstring) \<Rightarrow> preview \<Rightarrow> (jstring option \<times> delivery) list \<Rightarrow> bool" where
  "preview_ok sha p past \<longleftrightarrow> build_ok p \<and> stop_ok p \<and> artifact_ok sha p past
     \<and> (\<not> pv_child p \<and> \<not> pv_debounce p \<and> \<not> pv_stopping p \<longrightarrow> at_rest p)"

named_theorems preview_defs

lemmas [preview_defs] = build_ok_def stop_ok_def at_rest_def preview_ok_def

lemma artifact_ok_cong:
  assumes "pv_artifact q = pv_artifact p" "pv_good q = pv_good p" "pv_last q = pv_last p"
    "pv_status q = Verified \<Longrightarrow> pv_artifact p \<noteq> None"
  shows "artifact_ok sha p past \<Longrightarrow> artifact_ok sha q past"
  using assms by (auto simp: artifact_ok_def split: option.splits)

section \<open>It is kept\<close>

lemma observe_keeps: "preview_ok sha p past \<Longrightarrow> pv_observing p \<Longrightarrow> preview_ok sha (observeSource False d p) past"
proof -
  assume p: "preview_ok sha p past" and o: "pv_observing p"
  have "artifact_ok sha (observeSource False d p) past"
    by (rule artifact_ok_cong [of _ p]) (use p in \<open>auto simp: observeSource_def queueStableBuild_def preview_ok_def artifact_ok_def split: option.splits if_splits\<close>)
  then show ?thesis using p o by (auto simp: observeSource_def queueStableBuild_def preview_defs split: if_splits)
qed

lemma launch_keeps:
  assumes p: "preview_ok sha p past" and t: "pv_debounce p"
  shows "preview_ok sha (launch ok d (p\<lparr>pv_debounce := False\<rparr>)) past"
proof -
  have run: "\<not> pv_stopping p" using p t by (auto simp: preview_defs)
  have stale: "pv_child p \<Longrightarrow> pv_active_epoch p < pv_epoch p" using p t by (auto simp: preview_defs le_less)
  have a: "artifact_ok sha p past" using p by (simp add: preview_ok_def)
  have "artifact_ok sha (launch ok d (p\<lparr>pv_debounce := False\<rparr>)) past"
    by (rule artifact_ok_cong [OF _ _ _ _ a])
      (use a in \<open>auto simp: launch_def queueStableBuild_def beginBuild_def publishFailure_def Let_def artifact_ok_def split: option.splits if_splits\<close>)
  moreover have "pv_good p = Some h \<Longrightarrow> pv_status p = Verified \<or> pv_last p \<noteq> None" for h
    using a by (auto simp: artifact_ok_def split: option.splits)
  ultimately show ?thesis using p t run stale
    by (auto simp: launch_def queueStableBuild_def beginBuild_def publishFailure_def Let_def preview_defs split: if_splits)
qed

lemma stop_keeps: "preview_ok sha p past \<Longrightarrow> preview_ok sha (stop_preview force p) past"
proof -
  assume p: "preview_ok sha p past"
  have "artifact_ok sha (stop_preview force p) past"
    by (rule artifact_ok_cong [of _ p]) (use p in \<open>auto simp: stop_preview_def closeServer_def finishStop_def signalActiveChild_def
      startBoundedChildDrain_def Let_def preview_ok_def artifact_ok_def split: option.splits if_splits\<close>)
  then show ?thesis using p
    by (auto simp: stop_preview_def closeServer_def finishStop_def signalActiveChild_def startBoundedChildDrain_def Let_def preview_defs
        split: if_splits)
qed

lemma server_keeps:
  "preview_ok sha p past \<Longrightarrow> pv_closing p \<Longrightarrow> \<not> pv_closed p \<Longrightarrow> preview_ok sha (finishStop (p\<lparr>pv_closed := True\<rparr>)) past"
  by (auto simp: finishStop_def preview_defs artifact_ok_def split: if_splits option.splits)

lemma timers_keep:
  "preview_ok sha p past \<Longrightarrow> pv_grace p \<Longrightarrow> preview_ok sha (grace_over p) past"
  "preview_ok sha p past \<Longrightarrow> pv_kill p \<Longrightarrow> preview_ok sha (kill_over p) past"
  by (auto simp: grace_over_def kill_over_def signalActiveChild_def finishStop_def preview_defs artifact_ok_def split: if_splits option.splits)

lemma artifact_ok_append: "artifact_ok sha p past \<Longrightarrow> artifact_ok sha p (past @ [x])"
  by (auto simp: artifact_ok_def split: option.splits)

text \<open>The three ways a commit can end.\<close>

lemma commit_cases:
  assumes "commitCandidate sha dl h p dk = (q, dk', late)"
  obtains (failed) "q = commit_failure p" "dk' = dk" "late = None"
  | (superseded) "q = p" "dk' = dk" "late = Some (sourceDigest sha (dk_source dk))" "sd_hash (sourceDigest sha (dk_source dk)) \<noteq> h"
  | (published) b where "dl_candidate dl = Inr b" "receipt_sha (dl_receipt dl) = JStr (sha b)" "publish_candidate sha dl b h p dk = (q, dk')"
      "late = None" "sd_hash (sourceDigest sha (dk_source dk)) = h"
  using assms by (auto simp: commitCandidate_def split: sum.splits if_splits prod.splits)

lemma publish_cases:
  assumes "publish_candidate sha dl b h p dk = (q, dk')" and "has_validation (dl_receipt dl)"
  obtains (refused) "q = commit_failure p" "dk' = dk"
  | (same) "map_option vr_sha (pv_last p) = Some (sha b)"
      "q = p\<lparr>pv_artifact := Some b, pv_good := Some h, pv_status := Verified, pv_failure := None\<rparr>" "dk_source dk' = dk_source dk"
      "dk' = dk \<or> dk_output dk' = Inr b"
  | (fresh) "q = p\<lparr>pv_artifact := Some b, pv_good := Some h, pv_status := Verified, pv_revision := pv_revision p + 1, pv_failure := None,
      pv_last := Some \<lparr>vr_sha = sha b, vr_size = length b, vr_validation = field (dl_receipt dl) ''validation''\<rparr>\<rparr>"
      "dk_source dk' = dk_source dk" "dk_output dk' = Inr b"
proof (cases "map_option vr_sha (pv_last p) = Some (sha b)")
  case True
  show thesis
  proof (cases "file_hash sha (dk_output dk) = Some (sha b) \<or> dl_rename_ok dl")
    case ok: True
    then have "q = p\<lparr>pv_artifact := Some b, pv_good := Some h, pv_status := Verified, pv_failure := None\<rparr>"
      "dk' = (if file_hash sha (dk_output dk) = Some (sha b) then dk else dk\<lparr>dk_output := Inr b\<rparr>)"
      using assms(1) True by (auto simp: publish_candidate_def Let_def)
    then show thesis by (intro same True) simp_all
  next
    case False
    then show thesis using assms(1) refused True by (auto simp: publish_candidate_def Let_def)
  qed
next
  case False
  then have other: "(map_option vr_sha (pv_last p) = Some (sha b)) = False" by blast
  show thesis
    using assms fresh refused unfolding publish_candidate_def Let_def other by (cases "dl_rename_ok dl") auto
qed

definition without_child :: "preview \<Rightarrow> preview" where
  "without_child p = p\<lparr>pv_child := False, pv_grace := False, pv_kill := False\<rparr>"

text \<open>A child that ends stale or during a stop, one that failed, one whose commit failed, one that was
  overtaken by an edit, and one that is published.\<close>

lemma child_cases:
  assumes "childClosed sha dl p dk = (q, dk')" and "build_ok p" and "pv_child p" and "sound_delivery dl"
  obtains (stopped) "pv_stopping p" "q = finishStop (without_child p)" "dk' = dk"
  | (stale) "\<not> pv_stopping p" "pv_active_epoch p < pv_epoch p" "dk' = dk"
      "q = queueStableBuild (sd_hash (sourceDigest sha (dk_source dk))) ((without_child p)\<lparr>pv_pending := False\<rparr>)"
  | (failed) x where "\<not> pv_stopping p" "pv_active_epoch p = pv_epoch p" "q = publishFailure x (without_child p)" "dk' = dk"
  | (overtaken) "\<not> pv_stopping p" "pv_active_epoch p = pv_epoch p" "dk' = dk"
      "pv_active p \<noteq> Some (sd_hash (sourceDigest sha (dk_source dk)))"
      "q = queueStableBuild (sd_hash (sourceDigest sha (dk_source dk)))
        ((without_child p)\<lparr>pv_pending := False, pv_epoch := pv_epoch p + 1\<rparr>)"
  | (published) b where "\<not> pv_stopping p" "pv_active_epoch p = pv_epoch p" "dl_candidate dl = Inr b" "delivered_ok dl"
      "receipt_sha (dl_receipt dl) = JStr (sha b)" "pv_active p = Some (sd_hash (sourceDigest sha (dk_source dk)))"
      "publish_candidate sha dl b (sd_hash (sourceDigest sha (dk_source dk))) (without_child p) dk = (q, dk')"
proof -
  obtain h where h: "pv_active p = Some h" using assms(2,3) by (auto simp: build_ok_def)
  have pend: "\<not> pv_pending p" if "pv_active_epoch p = pv_epoch p" "\<not> pv_stopping p" using that assms(2) by (auto simp: build_ok_def)
  have le: "pv_active_epoch p \<le> pv_epoch p" using assms(2) by (simp add: build_ok_def)
  show thesis
  proof (cases "pv_stopping p \<or> pv_active_epoch p \<noteq> pv_epoch p")
    case True
    then show thesis using assms(1) le stopped stale
      by (auto simp: childClosed_def Let_def queue_next_def without_child_def split: if_splits)
  next
    case False
    then have now: "\<not> pv_stopping p" "pv_active_epoch p = pv_epoch p" by simp_all
    show thesis
    proof (cases "delivered_ok dl")
      case no: False
      show thesis
        by (rule failed [of "field (dl_receipt dl) ''stage''"])
          (use assms(1) now pend no in \<open>simp_all add: childClosed_def Let_def queue_next_def without_child_def delivered_ok_def
            publishFailure_def split: if_splits\<close>)
    next
      case ok: True
      obtain r dk2 late where c: "commitCandidate sha dl h (without_child p) dk = (r, dk2, late)" by (metis prod_cases3)
      have q: "q = queue_next sha (dk_source dk2) False late r" "dk' = dk2"
        using assms(1) now ok c h by (auto simp: childClosed_def Let_def without_child_def delivered_ok_def)
      from c show thesis
      proof (cases rule: commit_cases)
        case failed
        then show thesis using q now pend that(3) [of "JStr (lit ''commit'')"]
          by (simp add: queue_next_def commit_failure_def publishFailure_def without_child_def)
      next
        case superseded
        then show thesis using q now h pend overtaken by (simp add: queue_next_def without_child_def)
      next
        case (published b)
        have "\<not> pv_pending r"
          using published(3) pend now by (auto simp: publish_candidate_def Let_def commit_failure_def publishFailure_def without_child_def split: if_splits)
        then have "q = r" using q published(4) by (simp add: queue_next_def)
        then show thesis using that(5) now published ok h q by simp
      qed
    qed
  qed
qed

lemma child_keeps:
  assumes p: "preview_ok sha p past" and c: "pv_child p" and d: "sound_delivery dl" and q: "childClosed sha dl p dk = (q, dk')"
  shows "preview_ok sha q (past @ [(pv_active p, dl)])"
proof -
  have b: "build_ok p" and s: "stop_ok p" and a: "artifact_ok sha p (past @ [(pv_active p, dl)])"
    using p by (simp_all add: preview_ok_def artifact_ok_append)
  have quiet: "\<not> pv_debounce p \<and> pv_queued p = pv_active p \<and> pv_active p \<noteq> None" if "pv_active_epoch p = pv_epoch p"
    using that b c by (auto simp: build_ok_def)
  from q b c d show ?thesis
  proof (cases rule: child_cases)
    case stopped
    then show ?thesis using p a by (auto simp: without_child_def finishStop_def preview_defs artifact_ok_def split: option.splits if_splits)
  next
    case stale
    then show ?thesis using p a by (auto simp: without_child_def queueStableBuild_def preview_defs artifact_ok_def split: option.splits)
  next
    case (failed x)
    then show ?thesis using p a quiet
      by (auto simp: without_child_def publishFailure_def preview_defs artifact_ok_def split: option.splits if_splits)
  next
    case overtaken
    then show ?thesis using p a by (auto simp: without_child_def queueStableBuild_def preview_defs artifact_ok_def split: option.splits)
  next
    case (published b)
    have v: "has_validation (dl_receipt dl)" using d published(4) by (simp add: sound_delivery_def)
    let ?h = "sd_hash (sourceDigest sha (dk_source dk))"
    have logged: "(Some ?h, dl) \<in> set (past @ [(pv_active p, dl)])" using published(6) by simp
    from published(7) v show ?thesis
    proof (cases rule: publish_cases)
      case refused
      then show ?thesis using p a quiet published(1,2)
        by (auto simp: without_child_def commit_failure_def publishFailure_def preview_defs artifact_ok_def split: option.splits if_splits)
    next
      case same
      then have "artifact_ok sha q (past @ [(pv_active p, dl)])"
        using published logged by (auto simp: artifact_ok_def without_child_def)
      then show ?thesis using p same quiet published by (auto simp: without_child_def preview_defs)
    next
      case fresh
      then have "artifact_ok sha q (past @ [(pv_active p, dl)])"
        using published logged by (auto simp: artifact_ok_def without_child_def)
      then show ?thesis using p fresh quiet published by (auto simp: without_child_def preview_defs)
    qed
  qed
qed

lemma handle_keeps:
  assumes "preview_ok sha p past" and "enabled p e" and "sound_event e" and "preview_handle sha e (p, dk, past) = (q, dk', past')"
  shows "preview_ok sha q past'"
proof (cases e)
  case (ChildClosed dl)
  then show ?thesis using assms child_keeps [OF assms(1)]
    by (auto simp: enabled_def sound_event_def split: prod.splits)
qed (use assms in \<open>auto simp: enabled_def observe_keeps launch_keeps stop_keeps server_keeps timers_keep\<close>)

lemma start_ok: "preview_ok sha (fst (startPreview sha dk)) []"
  by (simp add: startPreview_def observeSource_def idle_preview_def queueStableBuild_def preview_defs artifact_ok_def)

lemma run_ok:
  assumes "preview_run sha es w" and "\<forall>e \<in> set es. sound_event e"
  shows "preview_ok sha (fst w) (snd (snd w))"
  using assms
proof induction
  case (start dk)
  then show ?case using start_ok [of sha dk] by (simp add: startPreview_def)
next
  case (step es w e)
  obtain p dk past where w: "w = (p, dk, past)" by (metis prod_cases3)
  obtain q dk' past' where h: "preview_handle sha e w = (q, dk', past')" by (metis prod_cases3)
  have "preview_ok sha p past" using step by (simp add: w)
  then have "preview_ok sha q past'"
    by (rule handle_keeps) (use step h in \<open>simp_all add: w\<close>)
  then show ?case by (simp add: h)
qed

section \<open>It comes to rest\<close>

definition quiet_event :: "preview_event \<Rightarrow> bool" where
  "quiet_event e \<longleftrightarrow> (case e of Observed \<Rightarrow> True | DebounceFired ok \<Rightarrow> True | ChildClosed dl \<Rightarrow> sound_delivery dl | _ \<Rightarrow> False)"

text \<open>What is left to do for a source that is not edited any more.\<close>

definition preview_work :: "(bytes \<Rightarrow> jstring) \<Rightarrow> preview \<Rightarrow> preview_disk \<Rightarrow> nat" where
  "preview_work sha p dk = (let s = Some (sd_hash (sourceDigest sha (dk_source dk))) in
     (if pv_queued p \<noteq> s then 16 else 0) + (if pv_debounce p then 4 else 0)
     + (if \<not> pv_child p then 0 else if pv_active_epoch p = pv_epoch p \<and> pv_active p = s then 2 else 8))"

lemma observe_works:
  "observeSource False (sourceDigest sha (dk_source dk)) p = p
    \<or> preview_work sha (observeSource False (sourceDigest sha (dk_source dk)) p) dk < preview_work sha p dk"
  by (auto simp: observeSource_def queueStableBuild_def preview_work_def Let_def)

lemma launch_works:
  assumes "pv_debounce p" and "\<not> pv_stopping p"
  shows "preview_work sha (launch ok (sourceDigest sha (dk_source dk)) (p\<lparr>pv_debounce := False\<rparr>)) dk < preview_work sha p dk"
  using assms by (auto simp: launch_def queueStableBuild_def beginBuild_def publishFailure_def preview_work_def Let_def)

lemma child_works:
  assumes "build_ok p" and "pv_child p" and "sound_delivery dl" and "\<not> pv_stopping p" and "childClosed sha dl p dk = (q, dk')"
  shows "preview_work sha q dk' < preview_work sha p dk \<and> dk_source dk' = dk_source dk \<and> \<not> pv_stopping q"
proof -
  have quiet: "\<not> pv_debounce p \<and> pv_queued p = pv_active p" if "pv_active_epoch p = pv_epoch p"
    using that assms(1,2) by (auto simp: build_ok_def)
  from assms(5,1,2,3) show ?thesis
  proof (cases rule: child_cases)
    case (published b)
    have v: "has_validation (dl_receipt dl)" using assms(3) published(4) by (simp add: sound_delivery_def)
    from published(7) v show ?thesis
      by (cases rule: publish_cases)
        (use assms published quiet in \<open>auto simp: preview_work_def Let_def without_child_def commit_failure_def publishFailure_def\<close>)
  qed (use assms quiet in \<open>auto simp: preview_work_def Let_def without_child_def queueStableBuild_def publishFailure_def\<close>)
qed

lemma quiet_works:
  assumes "preview_ok sha p past" and "\<not> pv_stopping p" and "enabled p e" and "quiet_event e"
    and "preview_handle sha e (p, dk, past) = (q, dk', past')" and "(q, dk', past') \<noteq> (p, dk, past)"
  shows "preview_work sha q dk' < preview_work sha p dk \<and> dk_source dk' = dk_source dk \<and> \<not> pv_stopping q"
proof (cases e)
  case Observed
  then show ?thesis using assms observe_works [of sha dk p]
    by (auto simp: observeSource_def queueStableBuild_def split: if_splits)
next
  case (DebounceFired ok)
  have "\<not> pv_stopping (launch ok d (p\<lparr>pv_debounce := False\<rparr>))" for d
    using assms(2) by (auto simp: launch_def queueStableBuild_def beginBuild_def publishFailure_def Let_def)
  moreover have "q = launch ok (sourceDigest sha (dk_source dk)) (p\<lparr>pv_debounce := False\<rparr>)" "dk' = dk" "pv_debounce p"
    using assms(3,5) DebounceFired by (auto simp: enabled_def)
  ultimately show ?thesis using launch_works [of p sha ok dk] assms(2) by simp
next
  case (ChildClosed dl)
  then have "childClosed sha dl p dk = (q, dk')" "pv_child p" "sound_delivery dl" "build_ok p"
    using assms(1,3-5) by (simp_all add: enabled_def quiet_event_def preview_ok_def split: prod.splits)
  then show ?thesis using child_works assms(2) by blast
qed (use assms(4) in \<open>simp_all add: quiet_event_def\<close>)

text \<open>A continuation without edits, in which every event does something.\<close>

fun busy_path :: "(bytes \<Rightarrow> jstring) \<Rightarrow> preview_world \<Rightarrow> preview_event list \<Rightarrow> preview_world \<Rightarrow> bool" where
  "busy_path sha w [] v \<longleftrightarrow> v = w"
| "busy_path sha w (e # es) v \<longleftrightarrow> quiet_event e \<and> enabled (fst w) e \<and> preview_handle sha e w \<noteq> w
     \<and> busy_path sha (preview_handle sha e w) es v"

definition resting :: "(bytes \<Rightarrow> jstring) \<Rightarrow> preview_world \<Rightarrow> bool" where
  "resting sha w \<longleftrightarrow> \<not> (\<exists>e. quiet_event e \<and> enabled (fst w) e \<and> preview_handle sha e w \<noteq> w)"

lemma quiet_sound: "quiet_event e \<Longrightarrow> sound_event e"
  by (auto simp: quiet_event_def sound_event_def split: preview_event.splits)

lemma busy_path_bound:
  assumes "busy_path sha (p, dk, past) es (q, dk', past')" and "preview_ok sha p past" and "\<not> pv_stopping p"
  shows "length es + preview_work sha q dk' \<le> preview_work sha p dk \<and> preview_ok sha q past' \<and> \<not> pv_stopping q
    \<and> dk_source dk' = dk_source dk"
  using assms
proof (induction es arbitrary: p dk past)
  case (Cons e es)
  obtain r dk2 past2 where h: "preview_handle sha e (p, dk, past) = (r, dk2, past2)" by (metis prod_cases3)
  have e: "quiet_event e" "enabled p e" "(r, dk2, past2) \<noteq> (p, dk, past)" and b: "busy_path sha (r, dk2, past2) es (q, dk', past')"
    using Cons.prems(1) h by auto
  note w = quiet_works [OF Cons.prems(2,3) e(2,1) h e(3)]
  have "preview_ok sha r past2" by (rule handle_keeps [OF Cons.prems(2) e(2) quiet_sound [OF e(1)] h])
  from Cons.IH [OF b this] w show ?case by simp
qed auto

lemma resting_settled:
  assumes "resting sha (p, dk, past)" and "preview_ok sha p past" and "\<not> pv_stopping p"
  shows "\<not> pv_child p \<and> \<not> pv_debounce p \<and> pv_queued p = Some (sd_hash (sourceDigest sha (dk_source dk))) \<and> at_rest p"
proof -
  let ?d = "sourceDigest sha (dk_source dk)"
  let ?dl = "\<lparr>dl_code = 1, dl_receipt = JNull, dl_candidate = Inl [], dl_path_ok = False, dl_rename_ok = False\<rparr>"
  have child: "\<not> pv_child p"
  proof
    assume c: "pv_child p"
    have "preview_handle sha (ChildClosed ?dl) (p, dk, past) \<noteq> (p, dk, past)" by (auto split: prod.splits)
    moreover have "quiet_event (ChildClosed ?dl)" by (simp add: quiet_event_def sound_delivery_def delivered_ok_def)
    moreover have "enabled p (ChildClosed ?dl)" using c by (simp add: enabled_def)
    ultimately show False using assms(1) unfolding resting_def fst_conv by blast
  qed
  have timer: "\<not> pv_debounce p"
  proof
    assume t: "pv_debounce p"
    have "preview_handle sha (DebounceFired True) (p, dk, past) \<noteq> (p, dk, past)"
      using launch_works [OF t assms(3), of sha True dk] by auto
    moreover have "enabled p (DebounceFired True)" "quiet_event (DebounceFired True)"
      using t by (simp_all add: enabled_def quiet_event_def)
    ultimately show False using assms(1) unfolding resting_def fst_conv by blast
  qed
  have "pv_observing p" using assms(2,3) by (auto simp: preview_defs)
  then have "enabled p Observed" "quiet_event Observed" by (simp_all add: enabled_def quiet_event_def)
  with assms(1) have "preview_handle sha Observed (p, dk, past) = (p, dk, past)" unfolding resting_def fst_conv by blast
  then have "observeSource False ?d p = p" by simp
  then have "pv_queued p = Some (sd_hash ?d)"
    by (rule contrapos_pp) (auto simp: observeSource_def queueStableBuild_def dest: arg_cong [where f = pv_epoch])
  with child timer assms(2,3) show ?thesis by (simp add: preview_ok_def)
qed

text \<open>Without a \<open>validation\<close> in a receipt that is ok, the commit fails when half of it is done.\<close>

lemma unvalidated_receipt:
  assumes "\<not> has_validation (dl_receipt dl)" and "map_option vr_sha (pv_last p) \<noteq> Some (sha b)" and "dl_rename_ok dl"
    and "publish_candidate sha dl b h p dk = (q, dk')"
  shows "pv_status q = NeedsFix" "pv_artifact q = Some b" "dk_output dk' = Inr b" "pv_good q = Some h" "pv_last q = pv_last p"
proof -
  let ?q = "p\<lparr>pv_artifact := Some b, pv_good := Some h, pv_status := Verified, pv_revision := pv_revision p + 1\<rparr>"
  have "publish_candidate sha dl b h p dk = (commit_failure ?q, dk\<lparr>dk_output := Inr b\<rparr>)"
    unfolding publish_candidate_def Let_def using assms(1-3) by (simp del: map_option_eq_Some)
  then have "q = commit_failure ?q" "dk' = dk\<lparr>dk_output := Inr b\<rparr>" using assms(4) by simp_all
  then show "pv_status q = NeedsFix" "pv_artifact q = Some b" "dk_output dk' = Inr b" "pv_good q = Some h" "pv_last q = pv_last p"
    by (simp_all add: commit_failure_def publishFailure_def)
qed

section \<open>Properties\<close>

text \<open>C24: an artifact that the preview serves was delivered, with success and with the hash of its receipt, for the
  source that the preview calls good; the state says verified only when there is such an artifact and
  names its hash; and no request with another host header is served.\<close>

theorem preview_serves_verified:
  assumes "preview_run sha es (p, dk, past)" and "\<forall>e \<in> set es. sound_event e"
  shows "(\<forall>expected host meth path b. preview_request p expected host meth path = Artifact b \<longrightarrow>
      host = expected \<and> map_option vr_sha (pv_last p) = Some (sha b)
      \<and> (\<exists>dl. (pv_good p, dl) \<in> set past \<and> delivered_ok dl \<and> dl_candidate dl = Inr b \<and> receipt_sha (dl_receipt dl) = JStr (sha b)))
    \<and> (pv_status p = Verified \<longrightarrow> pv_artifact p \<noteq> None \<and> pv_last p \<noteq> None)
    \<and> (\<forall>expected host meth path. host \<noteq> expected \<longrightarrow> preview_request p expected host meth path = ForbiddenHost)"
proof -
  have "artifact_ok sha p past" using run_ok [OF assms] by (simp add: preview_ok_def)
  then show ?thesis
    by (auto simp: artifact_ok_def preview_request_def split: option.splits if_splits)
qed

text \<open>C26: after the last edit the preview does at most 28 things more, in whatever order timer, observation and
  child come; when nothing is left to do, it has looked at the current source, and either that source
  is the verified one, or the build of that source is the one whose failure it shows.\<close>

theorem preview_settles:
  assumes "preview_run sha es (p, dk, past)" and "\<forall>e \<in> set es. sound_event e" and "\<not> pv_stopping p"
    and "busy_path sha (p, dk, past) fs (q, dk', past')"
  shows "length fs \<le> 28 \<and> dk_source dk' = dk_source dk
    \<and> (resting sha (q, dk', past') \<longrightarrow> \<not> pv_child q \<and> \<not> pv_debounce q
        \<and> (let h = Some (sd_hash (sourceDigest sha (dk_source dk))) in
            pv_queued q = h \<and> (pv_status q = Verified \<and> pv_good q = h \<or> pv_status q = NeedsFix \<and> pv_active q = h)))"
proof -
  have ok: "preview_ok sha p past" using run_ok [OF assms(1,2)] by simp
  note b = busy_path_bound [OF assms(4) ok assms(3)]
  have "preview_work sha p dk \<le> 28" by (simp add: preview_work_def Let_def)
  then show ?thesis using b resting_settled [of sha q dk' past'] by (auto simp: at_rest_def Let_def)
qed

text \<open>C25: a stop is final: no build is started and no output is written any more, timers and observation are
  off, and the preview has ended exactly when its server is closed and its child is gone.\<close>

theorem preview_stops:
  assumes "preview_run sha es (p, dk, past)" and "\<forall>e \<in> set es. sound_event e" and "pv_stopping p"
    and "enabled p e" and "preview_handle sha e (p, dk, past) = (q, dk', past')"
  shows "pv_stopping q \<and> (pv_child q \<longrightarrow> pv_child p) \<and> pv_generation q = pv_generation p
    \<and> pv_artifact q = pv_artifact p \<and> pv_status q = pv_status p
    \<and> (dk_output dk' = dk_output dk \<or> (\<exists>f. e = OutputTouched f))
    \<and> \<not> pv_debounce q \<and> \<not> pv_observing q \<and> (pv_stopped p \<longleftrightarrow> pv_closed p \<and> \<not> pv_child p)"
proof -
  have ok: "stop_ok p" using run_ok [OF assms(1,2)] by (simp add: preview_ok_def)
  have "pv_stopping q \<and> (pv_child q \<longrightarrow> pv_child p) \<and> pv_generation q = pv_generation p \<and> pv_artifact q = pv_artifact p
    \<and> pv_status q = pv_status p \<and> (dk_output dk' = dk_output dk \<or> (\<exists>f. e = OutputTouched f)) \<and> \<not> pv_debounce q \<and> \<not> pv_observing q"
    using assms(3-5) ok
    by (cases e) (auto simp: enabled_def stop_ok_def childClosed_def finishStop_def stop_preview_def signalActiveChild_def
        startBoundedChildDrain_def grace_over_def kill_over_def Let_def split: if_splits)
  with ok assms(3) show ?thesis by (simp add: stop_ok_def)
qed

section \<open>A first build\<close>

definition first_disk :: preview_disk where
  "first_disk = \<lparr>dk_source = Inr [123, 125], dk_output = Inl (lit ''ENOENT'')\<rparr>"

definition first_delivery :: delivery where
  "first_delivery = \<lparr>dl_code = 0, dl_receipt = JObj [(lit ''ok'', JBool True), (lit ''artifact'', JObj [(lit ''sha256'', JStr [60])]),
     (lit ''validation'', JObj [])], dl_candidate = Inr [60], dl_path_ok = True, dl_rename_ok = True\<rparr>"

definition first_world :: "preview_event list \<Rightarrow> preview_world" where
  "first_world es = foldl (\<lambda>w e. preview_handle id e w) (startPreview id first_disk) es"

lemma first_steps:
  "first_world [] = (idle_preview\<lparr>pv_epoch := 1, pv_queued := Some [123, 125], pv_debounce := True\<rparr>, first_disk, [])"
  "first_world [DebounceFired True] = (idle_preview\<lparr>pv_epoch := 1, pv_queued := Some [123, 125], pv_active := Some [123, 125],
     pv_active_epoch := 1, pv_generation := 1, pv_child := True\<rparr>, first_disk, [])"
  "first_world [DebounceFired True, ChildClosed first_delivery] = (idle_preview\<lparr>pv_epoch := 1, pv_queued := Some [123, 125],
     pv_active := Some [123, 125], pv_active_epoch := 1, pv_generation := 1, pv_good := Some [123, 125], pv_artifact := Some [60],
     pv_status := Verified, pv_revision := 1, pv_last := Some \<lparr>vr_sha = [60], vr_size = 1, vr_validation = JObj []\<rparr>\<rparr>,
     first_disk\<lparr>dk_output := Inr [60]\<rparr>, [(Some [123, 125], first_delivery)])"
proof -
  show start: "first_world [] = (idle_preview\<lparr>pv_epoch := 1, pv_queued := Some [123, 125], pv_debounce := True\<rparr>, first_disk, [])"
    by (simp add: first_world_def startPreview_def observeSource_def queueStableBuild_def sourceDigest_def first_disk_def idle_preview_def)
  have snoc: "first_world (es @ [e]) = preview_handle id e (first_world es)" for es e by (simp add: first_world_def)
  show one: "first_world [DebounceFired True] = (idle_preview\<lparr>pv_epoch := 1, pv_queued := Some [123, 125], pv_active := Some [123, 125],
     pv_active_epoch := 1, pv_generation := 1, pv_child := True\<rparr>, first_disk, [])"
    using snoc [of "[]" "DebounceFired True"]
    by (simp add: start launch_def beginBuild_def sourceDigest_def first_disk_def idle_preview_def Let_def)
  show "first_world [DebounceFired True, ChildClosed first_delivery] = (idle_preview\<lparr>pv_epoch := 1, pv_queued := Some [123, 125],
     pv_active := Some [123, 125], pv_active_epoch := 1, pv_generation := 1, pv_good := Some [123, 125], pv_artifact := Some [60],
     pv_status := Verified, pv_revision := 1, pv_last := Some \<lparr>vr_sha = [60], vr_size = 1, vr_validation = JObj []\<rparr>\<rparr>,
     first_disk\<lparr>dk_output := Inr [60]\<rparr>, [(Some [123, 125], first_delivery)])"
    using snoc [of "[DebounceFired True]" "ChildClosed first_delivery"]
    by (simp add: one childClosed_def commitCandidate_def publish_candidate_def queue_next_def first_delivery_def receipt_sha_def
        has_validation_def sourceDigest_def first_disk_def idle_preview_def file_hash_def field_def Let_def)
qed

lemma first_runs:
  "preview_run id [] (first_world [])" "preview_run id [DebounceFired True] (first_world [DebounceFired True])"
  "preview_run id [DebounceFired True, ChildClosed first_delivery] (first_world [DebounceFired True, ChildClosed first_delivery])"
proof -
  show start: "preview_run id [] (first_world [])" using preview_run.start [of id first_disk] by (simp add: first_world_def)
  have snoc: "preview_run id (es @ [e]) (first_world (es @ [e]))" if "preview_run id es (first_world es)" "enabled (fst (first_world es)) e" for es e
    using preview_run.step [OF that] by (simp add: first_world_def)
  show one: "preview_run id [DebounceFired True] (first_world [DebounceFired True])"
    using snoc [OF start, of "DebounceFired True"] by (simp add: enabled_def first_steps(1))
  show "preview_run id [DebounceFired True, ChildClosed first_delivery] (first_world [DebounceFired True, ChildClosed first_delivery])"
    using snoc [OF one, of "ChildClosed first_delivery"] by (simp add: enabled_def first_steps(2))
qed

lemma first_sound: "sound_delivery first_delivery"
  by (simp add: sound_delivery_def has_validation_def first_delivery_def field_def)

lemma preview_serves_verified_witness:
  "\<exists>p. fst (first_world [DebounceFired True, ChildClosed first_delivery]) = p \<and> pv_status p = Verified \<and> pv_artifact p \<noteq> None
     \<and> preview_request p [49] [50] (lit ''GET'') (Some (lit ''/'')) = ForbiddenHost"
  using preview_serves_verified [OF first_runs(3) [unfolded first_steps(3)]] first_sound
  by (simp add: first_steps(3) sound_event_def)

lemma preview_settles_witness:
  "\<exists>q. fst (first_world [DebounceFired True, ChildClosed first_delivery]) = q \<and> pv_status q = Verified
     \<and> length [DebounceFired True, ChildClosed first_delivery] \<le> 28"
proof -
  have "busy_path id (first_world []) [DebounceFired True, ChildClosed first_delivery]
      (first_world [DebounceFired True, ChildClosed first_delivery])"
  proof -
    have steps: "preview_handle id (DebounceFired True) (first_world []) = first_world [DebounceFired True]"
      "preview_handle id (ChildClosed first_delivery) (first_world [DebounceFired True])
        = first_world [DebounceFired True, ChildClosed first_delivery]" by (simp_all add: first_world_def)
    have "\<not> pv_child (fst (first_world []))" "pv_child (fst (first_world [DebounceFired True]))"
      "\<not> pv_child (fst (first_world [DebounceFired True, ChildClosed first_delivery]))"
      by (simp_all add: first_steps idle_preview_def)
    then have change: "first_world [DebounceFired True] \<noteq> first_world []"
      "first_world [DebounceFired True, ChildClosed first_delivery] \<noteq> first_world [DebounceFired True]" by metis+
    show ?thesis
      using first_sound change by (simp add: steps quiet_event_def enabled_def) (simp add: first_steps)
  qed
  from preview_settles [OF first_runs(1) [unfolded first_steps(1)] _ _ this [unfolded first_steps(1,3)]] show ?thesis
    by (simp add: first_steps(3))
qed

lemma preview_stops_witness:
  "let p = stop_preview False (fst (first_world [])) in pv_stopping p \<and> pv_stopping (finishStop (p\<lparr>pv_closed := True\<rparr>))"
proof -
  let ?p = "stop_preview False (fst (first_world []))"
  have p: "pv_stopping ?p" "enabled ?p ServerClosed"
    by (simp_all add: first_steps stop_preview_def closeServer_def finishStop_def idle_preview_def enabled_def Let_def)
  have run: "preview_run id [StopRequested False] (?p, first_disk, [])"
    using preview_run.step [OF first_runs(1), of "StopRequested False"] by (simp add: first_steps(1) enabled_def)
  have "pv_stopping (finishStop (?p\<lparr>pv_closed := True\<rparr>))"
    using preview_stops [OF run _ p, of "finishStop (?p\<lparr>pv_closed := True\<rparr>)" first_disk "[]"] by (simp add: sound_event_def)
  with p(1) show ?thesis by (simp add: Let_def)
qed

end
