(* ===== verification/Commands.thy ===== *)
theory Commands
  imports Preview
begin

text \<open>
  How the commands of \<open>bin/archify.mjs\<close> write files: the pair of \<open>compare\<close>, the artifact of \<open>deliver\<close> and
  the document of \<open>migrate\<close>.  Every file operation can fail; which ones do is an argument, as are the
  answers of the child processes.  The files in the fresh staging directory have places of their own.  Links are told
  apart but not followed: a source that is a link counts as unreadable.
\<close>

section \<open>Files\<close>

datatype place = At jstring | Staged jstring

text \<open>A link is told apart by whether it leads to something.\<close>

datatype fnode = RegularFile bytes | Directory | Link bool

type_synonym files = "place \<Rightarrow> fnode option"

definition exists_sync :: "files \<Rightarrow> place \<Rightarrow> bool" where
  "exists_sync fs p \<longleftrightarrow> (case fs p of None \<Rightarrow> False | Some (Link b) \<Rightarrow> b | Some n \<Rightarrow> True)"

definition rename_sync :: "bool \<Rightarrow> files \<Rightarrow> place \<Rightarrow> place \<Rightarrow> files option" where
  "rename_sync fault fs src dst =
     (if fault \<or> fs src = None \<or> fs dst = Some Directory then None else Some (fs(dst := fs src, src := None)))"

definition remove_sync :: "bool \<Rightarrow> files \<Rightarrow> place \<Rightarrow> files option" where
  "remove_sync fault fs p = (if fault \<or> fs p = Some Directory then None else Some (fs(p := None)))"

definition read_file :: "files \<Rightarrow> place \<Rightarrow> bytes option" where
  "read_file fs p = (case fs p of Some (RegularFile b) \<Rightarrow> Some b | _ \<Rightarrow> None)"

text \<open>What the \<open>finally\<close> block leaves, when the staging directory can be removed.\<close>

definition without_staging :: "files \<Rightarrow> files" where
  "without_staging fs = (\<lambda>p. case p of Staged f \<Rightarrow> None | At f \<Rightarrow> fs p)"

text \<open>\<open>mkdirSync(path.dirname(p), { recursive: true })\<close> for an absolute resolved path: the directories on the
  way to it from the root down, of which every missing one is made.  What is there must be a directory or a link that
  leads to one; a link to something else is a fault.  Directories made before a failure stay.\<close>

definition directories_of :: "jstring \<Rightarrow> jstring list" where
  "directories_of path = map (\<lambda>k. if k = 0 then [47] else take k path) (filter (\<lambda>k. path ! k = 47) [0..<length path])"

fun make_directories :: "(jstring \<Rightarrow> bool) \<Rightarrow> files \<Rightarrow> jstring list \<Rightarrow> files \<times> bool" where
  "make_directories fault fs [] = (fs, True)"
| "make_directories fault fs (d # ds) = (case fs (At d) of
     Some Directory \<Rightarrow> make_directories fault fs ds
   | Some (Link True) \<Rightarrow> if fault d then (fs, False) else make_directories fault fs ds
   | Some _ \<Rightarrow> (fs, False)
   | None \<Rightarrow> if fault d then (fs, False) else make_directories fault (fs(At d := Some Directory)) ds)"

section \<open>The pair of a comparison\<close>

datatype item = HtmlArtifact | PairReceipt

record pair_item =
  pi_label :: item
  pi_target :: place
  pi_candidate :: place
  pi_backup :: place

datatype fs_step = BackingUp item | Committing item | RemovingNew item | RemovingTarget item | Restoring item

datatype pair_outcome =
    PairCommitted
  | TargetNotFile item
  | PairFailed "fs_step list"

definition pair_items :: "jstring \<Rightarrow> jstring \<Rightarrow> jstring \<Rightarrow> jstring \<Rightarrow> pair_item list" where
  "pair_items html receipt html_name receipt_name =
     [\<lparr>pi_label = HtmlArtifact, pi_target = At html, pi_candidate = Staged html_name, pi_backup = Staged (lit ''.previous-output'')\<rparr>,
      \<lparr>pi_label = PairReceipt, pi_target = At receipt, pi_candidate = Staged receipt_name,
       pi_backup = Staged (lit ''.previous-receipt'')\<rparr>]"

definition not_a_file :: "files \<Rightarrow> pair_item \<Rightarrow> bool" where
  "not_a_file fs i \<longleftrightarrow> exists_sync fs (pi_target i) \<and> read_file fs (pi_target i) = None"

text \<open>Each loop stops at the first failure; it returns the files, what it moved, and whether it finished.\<close>

fun back_up :: "(fs_step \<Rightarrow> bool) \<Rightarrow> files \<Rightarrow> pair_item list \<Rightarrow> files \<times> pair_item list \<times> bool" where
  "back_up fault fs [] = (fs, [], True)"
| "back_up fault fs (i # is) =
     (if \<not> exists_sync fs (pi_target i) then back_up fault fs is
      else (case rename_sync (fault (BackingUp (pi_label i))) fs (pi_target i) (pi_backup i) of
          None \<Rightarrow> (fs, [], False)
        | Some fs' \<Rightarrow> (case back_up fault fs' is of (fs'', done, ok) \<Rightarrow> (fs'', i # done, ok))))"

fun commit_items :: "(fs_step \<Rightarrow> bool) \<Rightarrow> files \<Rightarrow> pair_item list \<Rightarrow> files \<times> pair_item list \<times> bool" where
  "commit_items fault fs [] = (fs, [], True)"
| "commit_items fault fs (i # is) =
     (case rename_sync (fault (Committing (pi_label i))) fs (pi_candidate i) (pi_target i) of
        None \<Rightarrow> (fs, [], False)
      | Some fs' \<Rightarrow> (case commit_items fault fs' is of (fs'', done, ok) \<Rightarrow> (fs'', i # done, ok)))"

fun remove_items :: "(fs_step \<Rightarrow> bool) \<Rightarrow> files \<Rightarrow> pair_item list \<Rightarrow> files \<times> fs_step list" where
  "remove_items fault fs [] = (fs, [])"
| "remove_items fault fs (i # is) =
     (case remove_sync (fault (RemovingNew (pi_label i))) fs (pi_target i) of
        None \<Rightarrow> (case remove_items fault fs is of (fs', es) \<Rightarrow> (fs', RemovingNew (pi_label i) # es))
      | Some fs' \<Rightarrow> remove_items fault fs' is)"

definition restore_item :: "(fs_step \<Rightarrow> bool) \<Rightarrow> files \<Rightarrow> pair_item \<Rightarrow> files \<times> fs_step list" where
  "restore_item fault fs i =
     (case (if exists_sync fs (pi_target i) then remove_sync (fault (RemovingTarget (pi_label i))) fs (pi_target i) else Some fs) of
        None \<Rightarrow> (fs, [RemovingTarget (pi_label i)])
      | Some fs' \<Rightarrow> (case rename_sync (fault (Restoring (pi_label i))) fs' (pi_backup i) (pi_target i) of
          None \<Rightarrow> (fs', [Restoring (pi_label i)])
        | Some fs'' \<Rightarrow> (fs'', [])))"

fun restore_items :: "(fs_step \<Rightarrow> bool) \<Rightarrow> files \<Rightarrow> pair_item list \<Rightarrow> files \<times> fs_step list" where
  "restore_items fault fs [] = (fs, [])"
| "restore_items fault fs (i # is) =
     (case restore_item fault fs i of (fs', es) \<Rightarrow> (case restore_items fault fs' is of (fs'', es') \<Rightarrow> (fs'', es @ es')))"

definition roll_back :: "(fs_step \<Rightarrow> bool) \<Rightarrow> files \<Rightarrow> pair_item list \<Rightarrow> pair_item list \<Rightarrow> files \<times> pair_outcome" where
  "roll_back fault fs committed backed_up =
     (case remove_items fault fs (rev committed) of (fs', es) \<Rightarrow>
       (case restore_items fault fs' (rev backed_up) of (fs'', es') \<Rightarrow> (fs'', PairFailed (es @ es'))))"

definition commitComparePair :: "(fs_step \<Rightarrow> bool) \<Rightarrow> files \<Rightarrow> pair_item list \<Rightarrow> files \<times> pair_outcome" where
  "commitComparePair fault fs targets =
     (case find (not_a_file fs) targets of
        Some i \<Rightarrow> (fs, TargetNotFile (pi_label i))
      | None \<Rightarrow> (case back_up fault fs targets of (fs1, backed_up, ok) \<Rightarrow>
          if \<not> ok then roll_back fault fs1 [] backed_up
          else (case commit_items fault fs1 targets of (fs2, committed, ok2) \<Rightarrow>
            if ok2 then (fs2, PairCommitted) else roll_back fault fs2 committed backed_up)))"

text \<open>The end of \<open>commandCompare\<close> removes the staging directory in any case.\<close>

definition compare_commit :: "(fs_step \<Rightarrow> bool) \<Rightarrow> files \<Rightarrow> pair_item list \<Rightarrow> files \<times> pair_outcome" where
  "compare_commit fault fs targets = (case commitComparePair fault fs targets of (fs', r) \<Rightarrow> (without_staging fs', r))"

section \<open>Deliveries\<close>

text \<open>The parser, the renderer, the checker and the readers of an artifact are arguments: the answer of a
  child is its exit code and what it wrote or printed.\<close>

record delivery_tools =
  dt_parse :: "bytes \<Rightarrow> jval option"
  dt_sha :: "bytes \<Rightarrow> jstring"
  dt_render :: "bytes \<Rightarrow> int \<times> bytes option"
  dt_check :: "bytes \<Rightarrow> int \<times> jval option"
  dt_evidence :: "bytes \<Rightarrow> jval option"
  dt_resolve :: "jstring option \<Rightarrow> jstring option \<Rightarrow> jstring option"

datatype delivery_step = MakeDirectory jstring | MakeStaging | WriteSnapshot | ResolveAgain | RenameCandidate

datatype delivery_stage = InputStage | PrepareStage | RenderStage | CheckStage | ReceiptStage | CommitStage

record delivery_receipt =
  dr_output :: jstring
  dr_specification :: "jstring \<times> nat"
  dr_artifact :: "jstring \<times> nat"
  dr_passed :: nat
  dr_count :: nat
  dr_evidence :: jval

datatype delivery_outcome =
    DeliveryFailed delivery_stage int
  | DeliveryCrashed
  | Delivered delivery_receipt

definition authored_output :: "jval \<Rightarrow> jstring option" where
  "authored_output d = (case field (field d ''meta'') ''output'' of JStr s \<Rightarrow> if s = [] then None else Some s | _ \<Rightarrow> None)"

definition check_counts :: "jval \<Rightarrow> nat \<times> nat" where
  "check_counts r = (length (filter (\<lambda>c. truthy (field c ''ok'')) (items (field r ''checks''))), length (items (field r ''checks'')))"

text \<open>The receipt of the checker lacks what the receipt of the delivery is made of.\<close>

definition incomplete_check :: "jval \<Rightarrow> bool" where
  "incomplete_check r \<longleftrightarrow> (case field r ''checks'' of JArr cs \<Rightarrow> False | _ \<Rightarrow> True)
     \<or> field (field r ''composition'') ''summary'' \<in> {JUndef, JNull}"

text \<open>After the candidate was rendered.\<close>

definition finish_delivery ::
  "delivery_tools \<Rightarrow> (delivery_step \<Rightarrow> bool) \<Rightarrow> files \<Rightarrow> bytes \<Rightarrow> jstring \<Rightarrow> files \<times> delivery_outcome" where
  "finish_delivery t fault fs spec output =
     (let candidate = Staged (lit ''candidate'') in
      case read_file fs candidate of
        None \<Rightarrow> (fs, DeliveryFailed CheckStage 1)
      | Some artifact \<Rightarrow>
          (case dt_check t artifact of (code, printed) \<Rightarrow>
            if code \<noteq> 0 then (fs, DeliveryFailed CheckStage code)
            else (case (printed, dt_evidence t artifact) of
                (Some r, Some evidence) \<Rightarrow>
                  if incomplete_check r then (fs, DeliveryCrashed)
                  else if fault ResolveAgain then (fs, DeliveryFailed CommitStage 1)
                  else (case rename_sync (fault RenameCandidate) fs candidate (At output) of
                      None \<Rightarrow> (fs, DeliveryFailed CommitStage 1)
                    | Some fs' \<Rightarrow> (fs', Delivered
                        \<lparr>dr_output = output, dr_specification = (dt_sha t spec, length spec),
                         dr_artifact = (dt_sha t artifact, length artifact), dr_passed = fst (check_counts r),
                         dr_count = snd (check_counts r), dr_evidence = evidence\<rparr>))
              | _ \<Rightarrow> (fs, DeliveryFailed ReceiptStage 1))))"

definition staged_delivery ::
  "delivery_tools \<Rightarrow> (delivery_step \<Rightarrow> bool) \<Rightarrow> files \<Rightarrow> bytes \<Rightarrow> jstring \<Rightarrow> files \<times> delivery_outcome" where
  "staged_delivery t fault fs spec output =
     (if fault WriteSnapshot then (fs, DeliveryFailed PrepareStage 1)
      else let snapshot = Staged (lit ''specification.snapshot.json'');
               fs1 = fs(snapshot := Some (RegularFile spec)) in
        (case dt_render t spec of (code, written) \<Rightarrow>
          let fs2 = (case written of None \<Rightarrow> fs1 | Some b \<Rightarrow> fs1(Staged (lit ''candidate'') := Some (RegularFile b))) in
          if code \<noteq> 0 then (fs2, DeliveryFailed RenderStage code) else finish_delivery t fault fs2 spec output))"

definition commandDeliver ::
  "delivery_tools \<Rightarrow> (delivery_step \<Rightarrow> bool) \<Rightarrow> files \<Rightarrow> jstring \<Rightarrow> jstring option \<Rightarrow> files \<times> delivery_outcome" where
  "commandDeliver t fault fs input requested =
     (case Option.bind (read_file fs (At input)) (\<lambda>b. map_option (Pair b) (dt_parse t b)) of
        None \<Rightarrow> (fs, DeliveryFailed InputStage 1)
      | Some (spec, diagram) \<Rightarrow>
          (case dt_resolve t requested (authored_output diagram) of
             None \<Rightarrow> (fs, DeliveryFailed PrepareStage 1)
           | Some output \<Rightarrow>
               (case make_directories (\<lambda>d. fault (MakeDirectory d)) fs (directories_of output) of (fs1, made) \<Rightarrow>
                 if \<not> made \<or> fault MakeStaging then (fs1, DeliveryFailed PrepareStage 1)
                 else (case staged_delivery t fault fs1 spec output of (fs', r) \<Rightarrow> (without_staging fs', r)))))"

section \<open>Migrations\<close>

record migration_tools =
  mt_parse :: "bytes \<Rightarrow> jval option"
  mt_migrate :: "jval \<Rightarrow> bytes option"
  mt_render :: "bytes \<Rightarrow> int \<times> bytes option"
  mt_check :: "bytes \<Rightarrow> int"

text \<open>The two tests for an alias, and the source as it is read again before the commit.\<close>

record migration_answers =
  ma_alias :: "bool option"
  ma_alias_again :: "bool option"
  ma_source_now :: "bytes option"

datatype migration_step = MakeDestination jstring | PrepareStaging | WriteDocument | RenameDocument

datatype migration_outcome =
    SourceUnreadable
  | PathsUnknown
  | SameFile
  | MigrationRefused
  | DestinationNotFile
  | DestinationUnwritable
  | RenderRefused int
  | CheckRefused int
  | SourceChanged
  | CommitRefused
  | Migrated

definition commit_migration ::
  "migration_answers \<Rightarrow> (migration_step \<Rightarrow> bool) \<Rightarrow> files \<Rightarrow> bytes \<Rightarrow> jstring \<Rightarrow> files \<times> migration_outcome" where
  "commit_migration a fault fs source destination =
     (case ma_alias_again a of
        None \<Rightarrow> (fs, CommitRefused)
      | Some True \<Rightarrow> (fs, SameFile)
      | Some False \<Rightarrow>
          if ma_source_now a = None then (fs, CommitRefused)
          else if ma_source_now a \<noteq> Some source then (fs, SourceChanged)
          else (case rename_sync (fault RenameDocument) fs (Staged (lit ''candidate.workflow.json'')) (At destination) of
              None \<Rightarrow> (fs, CommitRefused)
            | Some fs' \<Rightarrow> (fs', Migrated)))"

definition staged_migration ::
  "migration_tools \<Rightarrow> migration_answers \<Rightarrow> (migration_step \<Rightarrow> bool) \<Rightarrow> files \<Rightarrow> bytes \<Rightarrow> bytes \<Rightarrow> jstring \<Rightarrow> files \<times> migration_outcome" where
  "staged_migration t a fault fs source doc destination =
     (if fault WriteDocument then (fs, CommitRefused)
      else let fs1 = fs(Staged (lit ''candidate.workflow.json'') := Some (RegularFile doc)) in
        (case mt_render t doc of (code, written) \<Rightarrow>
          let fs2 = (case written of None \<Rightarrow> fs1 | Some b \<Rightarrow> fs1(Staged (lit ''migration-check.html'') := Some (RegularFile b))) in
          if code \<noteq> 0 then (fs2, RenderRefused code)
          else (case read_file fs2 (Staged (lit ''migration-check.html'')) of
              None \<Rightarrow> (fs2, CheckRefused 1)
            | Some artifact \<Rightarrow>
                if mt_check t artifact \<noteq> 0 then (fs2, CheckRefused (mt_check t artifact))
                else commit_migration a fault fs2 source destination)))"

definition commandMigrate ::
  "migration_tools \<Rightarrow> migration_answers \<Rightarrow> (migration_step \<Rightarrow> bool) \<Rightarrow> files \<Rightarrow> jstring \<Rightarrow> jstring \<Rightarrow> files \<times> migration_outcome" where
  "commandMigrate t a fault fs source destination =
     (case Option.bind (read_file fs (At source)) (\<lambda>b. map_option (Pair b) (mt_parse t b)) of
        None \<Rightarrow> (fs, SourceUnreadable)
      | Some (src, diagram) \<Rightarrow>
          (case ma_alias a of
             None \<Rightarrow> (fs, PathsUnknown)
           | Some True \<Rightarrow> (fs, SameFile)
           | Some False \<Rightarrow>
               (case mt_migrate t diagram of
                  None \<Rightarrow> (fs, MigrationRefused)
                | Some doc \<Rightarrow>
                    if exists_sync fs (At destination) \<and> read_file fs (At destination) = None then (fs, DestinationNotFile)
                    else (case make_directories (\<lambda>d. fault (MakeDestination d)) fs (directories_of destination) of (fs1, made) \<Rightarrow>
                      if \<not> made \<or> fault PrepareStaging then (fs1, DestinationUnwritable)
                      else (case staged_migration t a fault fs1 src doc destination of (fs', r) \<Rightarrow> (without_staging fs', r))))))"

section \<open>Arguments\<close>

definition dashed :: "jstring \<Rightarrow> bool" where
  "dashed a \<longleftrightarrow> take 2 a = lit ''--''"

text \<open>An option with a value, as two arguments or with an equals sign; the last one counts.\<close>

fun extract_value :: "jstring \<Rightarrow> jstring list \<Rightarrow> jstring option \<Rightarrow> (jstring list \<times> jstring option) option" where
  "extract_value name [] v = Some ([], v)"
| "extract_value name (a # args) v =
     (if a = name then
        (case args of
           [] \<Rightarrow> None
         | b # bs \<Rightarrow> if b = [] \<or> dashed b then None else extract_value name bs (Some b))
      else if take (length name + 1) a = name @ lit ''=''
        then (if length a = length name + 1 then None else extract_value name args (Some (drop (length name + 1) a)))
      else map_option (\<lambda>(rest, q). (a # rest, q)) (extract_value name args v))"

definition extractQualityArgs :: "jstring list \<Rightarrow> (jstring list \<times> jstring option) option" where
  "extractQualityArgs args =
     (case extract_value (lit ''--quality'') args None of
        None \<Rightarrow> None
      | Some (rest, q) \<Rightarrow> if q \<in> {None, Some (lit ''standard''), Some (lit ''showcase'')} then Some (rest, q) else None)"

definition extractRepoRootArgs :: "(jstring \<Rightarrow> jstring) \<Rightarrow> jstring list \<Rightarrow> (jstring list \<times> jstring option) option" where
  "extractRepoRootArgs resolve args =
     map_option (\<lambda>(rest, root). (rest, map_option resolve root)) (extract_value (lit ''--repo-root'') args None)"

end
