(* ===== verification/CommandsFacts.thy ===== *)
theory CommandsFacts
  imports Commands
begin

text \<open>
  What the commands do to files: a pair is written as a whole or not at all, unless undoing it fails too,
  and a delivery or a migration replaces its one target only by what was verified.
\<close>

section \<open>The loops of the pair\<close>










section \<open>The pair\<close>









text \<open>When the restore fails as well, removing the staging directory removes the last copy.\<close>

definition lost_pair :: files where
  "lost_pair = [At (lit ''a.html'') \<mapsto> RegularFile [1], Staged (lit ''a.html'') \<mapsto> RegularFile [2], Staged (lit ''a.json'') \<mapsto> RegularFile [3]]"

definition losing :: "fs_step \<Rightarrow> bool" where
  "losing s \<longleftrightarrow> s = Committing PairReceipt \<or> s = Restoring HtmlArtifact"

definition lost_targets :: "pair_item list" where
  "lost_targets = pair_items (lit ''a.html'') (lit ''a.json'') (lit ''a.html'') (lit ''a.json'')"

lemma pair_rollback_loss:
  "snd (compare_commit losing lost_pair lost_targets) = PairFailed [Restoring HtmlArtifact]"
  "lost_pair (At (lit ''a.html'')) = Some (RegularFile [1])"
  "fst (compare_commit losing lost_pair lost_targets) p \<noteq> Some (RegularFile [1])"
  by (simp_all add: compare_commit_def commitComparePair_def lost_targets_def pair_items_def lost_pair_def losing_def not_a_file_def
      exists_sync_def read_file_def rename_sync_def remove_sync_def roll_back_def restore_item_def without_staging_def split: place.split)


section \<open>Deliveries\<close>

text \<open>A directory that leads to a path: the path goes on behind it with a slash, or it is the root.\<close>

definition leads_down :: "jstring \<Rightarrow> jstring \<Rightarrow> bool" where
  "leads_down d path \<longleftrightarrow> d = [47] \<or> (\<exists>rest. path = d @ 47 # rest)"

text \<open>At a place where nothing was there is now a directory that leads to a path.\<close>

definition directory_made :: "files \<Rightarrow> files \<Rightarrow> jstring \<Rightarrow> place \<Rightarrow> bool" where
  "directory_made fs fs' path p \<longleftrightarrow> fs p = None \<and> fs' p = Some Directory \<and> (\<exists>d. p = At d \<and> leads_down d path)"

lemma directories_lead_down: "d \<in> set (directories_of path) \<Longrightarrow> leads_down d path"
  by (auto simp: directories_of_def leads_down_def split: if_splits) (metis id_take_nth_drop)

lemma make_directories_effect:
  "make_directories fault fs ds = (fs', ok) \<Longrightarrow>
    fs' p = fs p \<or> fs p = None \<and> fs' p = Some Directory \<and> (\<exists>d \<in> set ds. p = At d)"
proof (induction fault fs ds rule: make_directories.induct)
  case (2 fault fs d ds)
  show ?case
  proof (cases "fs (At d)")
    case None
    show ?thesis
    proof (cases "fault d")
      case True
      then show ?thesis using None "2.prems" by simp
    next
      case False
      then have m: "make_directories fault (fs(At d := Some Directory)) ds = (fs', ok)" using None "2.prems" by simp
      from "2.IH"(1) [OF None False m] show ?thesis using None by (cases "p = At d") auto
    qed
  next
    case (Some n)
    have "fs' = fs \<or> make_directories fault fs ds = (fs', ok)"
      using "2.prems" Some by (cases n) (auto split: if_splits bool.splits)
    moreover have "fs' p = fs p \<or> fs p = None \<and> fs' p = Some Directory \<and> (\<exists>d \<in> set ds. p = At d)"
      if m: "make_directories fault fs ds = (fs', ok)" "fs' \<noteq> fs"
    proof (cases n)
      case Directory
      then show ?thesis using "2.IH"(2) [OF _ _ m(1)] Some by blast
    next
      case (Link b)
      have "b \<and> \<not> fault d" using "2.prems" Some Link m(2) by (auto split: bool.splits if_splits)
      then show ?thesis using "2.IH"(3) [OF _ _ _ _ m(1)] Some Link by blast
    next
      case (RegularFile x)
      then show ?thesis using "2.prems" Some m(2) by simp
    qed
    ultimately show ?thesis by auto
  qed
qed simp

lemma made_on_the_way:
  assumes "make_directories fault fs (directories_of path) = (fs', ok)"
  shows "fs' p = fs p \<or> directory_made fs fs' path p" and "fs' (Staged f) = fs (Staged f)"
  using make_directories_effect [OF assms, of p] make_directories_effect [OF assms, of "Staged f"] directories_lead_down
  by (auto simp: directory_made_def)

lemma unstaged:
  assumes "\<forall>f. gs (Staged f) = None"
  shows "without_staging (gs(Staged a := x)) = gs" "without_staging (gs(Staged a := x, Staged b := y)) = gs" "without_staging gs = gs"
    "without_staging (gs(Staged a := x, Staged b := y, At p := u, Staged a := None)) = gs(At p := u)"
    "without_staging (gs(Staged a := x, Staged b := y, At p := u, Staged b := None)) = gs(At p := u)"
  using assms by (auto simp: without_staging_def fun_eq_iff split: place.splits)

text \<open>A commit changes the target only, after the directories on the way to it.\<close>

lemma target_written:
  assumes "\<And>p. gs p = fs p \<or> directory_made fs gs path p"
  shows "p \<noteq> At path \<Longrightarrow> (gs(At path := u)) p = fs p \<or> directory_made fs (gs(At path := u)) path p"
  using assms [of p] by (auto simp: directory_made_def)

text \<open>The part of a delivery that has a staging directory.\<close>

lemma staged_delivery_effect:
  assumes "staged_delivery t fault gs spec out = (fs1, r)" and g: "\<forall>f. gs (Staged f) = None"
  shows "(\<exists>artifact printed evidence. dt_render t spec = (0, Some artifact) \<and> dt_check t artifact = (0, Some printed)
        \<and> r = Delivered \<lparr>dr_output = out, dr_specification = (dt_sha t spec, length spec),
            dr_artifact = (dt_sha t artifact, length artifact), dr_passed = fst (check_counts printed),
            dr_count = snd (check_counts printed), dr_evidence = evidence\<rparr>
        \<and> without_staging fs1 = gs(At out := Some (RegularFile artifact)))
      \<or> (\<forall>rc. r \<noteq> Delivered rc) \<and> without_staging fs1 = gs"
proof (cases "fault WriteSnapshot \<or> fst (dt_render t spec) \<noteq> 0 \<or> snd (dt_render t spec) = None")
  case True
  then show ?thesis using assms(1) unstaged(1-3) [OF g] g
    by (cases "dt_render t spec") (auto simp: staged_delivery_def finish_delivery_def read_file_def Let_def split: if_splits option.splits)
next
  case False
  then obtain b where b: "dt_render t spec = (0, Some b)" by (metis option.exhaust prod.collapse)
  let ?fs = "gs(Staged (lit ''specification.snapshot.json'') := Some (RegularFile spec), Staged (lit ''candidate'') := Some (RegularFile b))"
  have f: "finish_delivery t fault ?fs spec out = (fs1, r)" using assms(1) b False by (simp add: staged_delivery_def)
  obtain code printed where k: "dt_check t b = (code, printed)" by fastforce
  show ?thesis
    using f unstaged [OF g] b k
    by (auto simp: finish_delivery_def read_file_def rename_sync_def Let_def split: if_splits option.splits)
qed

text \<open>How far a delivery came.\<close>

lemma delivery_stages:
  assumes "commandDeliver t fault fs input requested = (fs', r)"
  shows "(\<forall>rc. r \<noteq> Delivered rc) \<and> fs' = fs
    \<or> (\<exists>spec diagram out gs made. read_file fs (At input) = Some spec \<and> dt_parse t spec = Some diagram
        \<and> dt_resolve t requested (authored_output diagram) = Some out
        \<and> make_directories (\<lambda>d. fault (MakeDirectory d)) fs (directories_of out) = (gs, made)
        \<and> ((\<forall>rc. r \<noteq> Delivered rc) \<and> fs' = gs
           \<or> (\<exists>fs1. staged_delivery t fault gs spec out = (fs1, r) \<and> fs' = without_staging fs1)))"
  using assms unfolding commandDeliver_def
  by (fastforce simp: bind_eq_Some_conv split: option.split_asm prod.split_asm if_split_asm)

text \<open>C28: a delivery that succeeds leaves at its output exactly the bytes that were rendered from the specification
  it read and that passed the check, and its receipt names the hashes and sizes of both.  Whether or not
  it succeeds, no file but the output changes; a delivery that fails leaves the output too as it
  was, except that missing directories on the way to the output may have been made, and one that fails
  before its output is known makes none.\<close>

theorem delivery_commits_verified:
  assumes "commandDeliver t fault fs input requested = (fs', r)" and "\<forall>f. fs (Staged f) = None"
  shows "(\<forall>rc. r = Delivered rc \<longrightarrow> (\<exists>spec diagram artifact printed.
        read_file fs (At input) = Some spec \<and> dt_parse t spec = Some diagram
        \<and> dt_resolve t requested (authored_output diagram) = Some (dr_output rc)
        \<and> dt_render t spec = (0, Some artifact) \<and> dt_check t artifact = (0, Some printed)
        \<and> fs' (At (dr_output rc)) = Some (RegularFile artifact)
        \<and> dr_specification rc = (dt_sha t spec, length spec) \<and> dr_artifact rc = (dt_sha t artifact, length artifact)
        \<and> (dr_passed rc, dr_count rc) = check_counts printed
        \<and> (\<forall>p. p \<noteq> At (dr_output rc) \<longrightarrow> fs' p = fs p \<or> directory_made fs fs' (dr_output rc) p)))
    \<and> ((\<forall>rc. r \<noteq> Delivered rc) \<longrightarrow> (\<forall>p. fs' p = fs p
        \<or> (\<exists>spec diagram out. read_file fs (At input) = Some spec \<and> dt_parse t spec = Some diagram
            \<and> dt_resolve t requested (authored_output diagram) = Some out \<and> directory_made fs fs' out p)))"
proof -
  consider "\<forall>rc. r \<noteq> Delivered rc" "fs' = fs"
    | (prepared) spec diagram out gs made where "read_file fs (At input) = Some spec" "dt_parse t spec = Some diagram"
        "dt_resolve t requested (authored_output diagram) = Some out"
        "make_directories (\<lambda>d. fault (MakeDirectory d)) fs (directories_of out) = (gs, made)"
        "(\<forall>rc. r \<noteq> Delivered rc) \<and> fs' = gs
         \<or> (\<exists>fs1. staged_delivery t fault gs spec out = (fs1, r) \<and> fs' = without_staging fs1)"
    using delivery_stages [OF assms(1)] by blast
  then show ?thesis
  proof cases
    case prepared
    note w = made_on_the_way [OF prepared(4)]
    have "\<forall>f. gs (Staged f) = None" using w(2) assms(2) by simp
    with prepared(5) consider "\<forall>rc. r \<noteq> Delivered rc" "fs' = gs"
      | artifact printed evidence where "dt_render t spec = (0, Some artifact)" "dt_check t artifact = (0, Some printed)"
        "r = Delivered \<lparr>dr_output = out, dr_specification = (dt_sha t spec, length spec),
            dr_artifact = (dt_sha t artifact, length artifact), dr_passed = fst (check_counts printed),
            dr_count = snd (check_counts printed), dr_evidence = evidence\<rparr>"
        "fs' = gs(At out := Some (RegularFile artifact))"
      using staged_delivery_effect by metis
    then show ?thesis
    proof cases
      case 1
      then show ?thesis using w(1) prepared(1-3) by blast
    next
      case 2
      then show ?thesis using target_written [OF w(1)] prepared(1-3) by auto
    qed
  qed auto
qed

definition sample_delivery :: delivery_tools where
  "sample_delivery =
     \<lparr>dt_parse = (\<lambda>b. Some (JObj [])), dt_sha = (\<lambda>b. lit (if b = [7] then ''07'' else ''09'')),
      dt_render = (\<lambda>b. (0, Some [9])),
      dt_check = (\<lambda>b. (0, Some (JObj [(lit ''checks'', JArr [JObj [(lit ''ok'', JBool True)], JObj [(lit ''ok'', JBool False)]]),
        (lit ''composition'', JObj [(lit ''summary'', JObj [])])]))),
      dt_evidence = (\<lambda>b. Some JNull), dt_resolve = (\<lambda>requested authored. requested)\<rparr>"

definition sample_disk :: files where
  "sample_disk = [At (lit ''/'') \<mapsto> Directory, At (lit ''/a.json'') \<mapsto> RegularFile [7], At (lit ''/a.html'') \<mapsto> RegularFile [1]]"

lemma sample_way: "directories_of (lit ''/out/a.html'') = [lit ''/'', lit ''/out'']" "directories_of (lit ''/out/b.json'') = [lit ''/'', lit ''/out'']"
  by code_simp+

lemma sample_made: "make_directories (\<lambda>d. False) sample_disk [lit ''/'', lit ''/out''] = (sample_disk(At (lit ''/out'') := Some Directory), True)"
  by (simp add: sample_disk_def)

lemma delivery_commits_verified_witness:
  "\<exists>fs' rc. commandDeliver sample_delivery (\<lambda>s. False) sample_disk (lit ''/a.json'') (Some (lit ''/out/a.html'')) = (fs', Delivered rc)
     \<and> dr_passed rc = 1 \<and> dr_count rc = 2
     \<and> (\<exists>artifact. dt_render sample_delivery [7] = (0, Some artifact) \<and> fs' (At (lit ''/out/a.html'')) = Some (RegularFile artifact))
     \<and> fs' (At (lit ''/a.json'')) = Some (RegularFile [7]) \<and> fs' (At (lit ''/out'')) = Some Directory"
proof -
  let ?printed = "JObj [(lit ''checks'', JArr [JObj [(lit ''ok'', JBool True)], JObj [(lit ''ok'', JBool False)]]),
    (lit ''composition'', JObj [(lit ''summary'', JObj [])])]"
  obtain fs' r where d: "commandDeliver sample_delivery (\<lambda>s. False) sample_disk (lit ''/a.json'') (Some (lit ''/out/a.html'')) = (fs', r)"
    by fastforce
  have counts: "check_counts ?printed = (1, 2)" and complete: "\<not> incomplete_check ?printed" by code_simp+
  have tools: "dt_parse sample_delivery b = Some (JObj [])" "dt_render sample_delivery b = (0, Some [9])"
    "dt_check sample_delivery b = (0, Some ?printed)" "dt_evidence sample_delivery b = Some JNull"
    "dt_resolve sample_delivery q q' = q" for b q q' by (simp_all only: sample_delivery_def delivery_tools.simps)
  have disk: "sample_disk (At (lit ''/a.json'')) = Some (RegularFile [7])" "sample_disk (At (lit ''/out/a.html'')) = None"
    by (simp_all add: sample_disk_def)
  have "\<exists>rc. r = Delivered rc \<and> dr_output rc = lit ''/out/a.html'' \<and> dr_passed rc = 1 \<and> dr_count rc = 2
      \<and> fs' (At (lit ''/out'')) = Some Directory"
    using d by (auto simp add: commandDeliver_def staged_delivery_def finish_delivery_def tools disk counts complete read_file_def
        rename_sync_def sample_way sample_made without_staging_def simp del: lit_def make_directories.simps)
  then obtain rc where rc: "r = Delivered rc" "dr_output rc = lit ''/out/a.html''" "dr_passed rc = 1" "dr_count rc = 2"
    "fs' (At (lit ''/out'')) = Some Directory" by blast
  have read: "read_file sample_disk (At (lit ''/a.json'')) = Some [7]" by (simp add: read_file_def sample_disk_def)
  have "\<forall>f. sample_disk (Staged f) = None" by (simp add: sample_disk_def)
  note ok = delivery_commits_verified [OF d this, THEN conjunct1, rule_format, OF rc(1)]
  then obtain artifact where artifact: "dt_render sample_delivery [7] = (0, Some artifact)"
      "fs' (At (lit ''/out/a.html'')) = Some (RegularFile artifact)"
    and rest: "\<forall>p. p \<noteq> At (lit ''/out/a.html'') \<longrightarrow> fs' p = sample_disk p \<or> directory_made sample_disk fs' (lit ''/out/a.html'') p"
    using read rc(2) by auto
  from rest [rule_format, of "At (lit ''/a.json'')"] have "fs' (At (lit ''/a.json'')) = Some (RegularFile [7])"
    by (simp add: disk directory_made_def)
  with artifact d rc show ?thesis by blast
qed

section \<open>Migrations\<close>

lemma staged_migration_effect:
  assumes s: "staged_migration t a fault gs src doc destination = (fs1, r)" and g: "\<forall>f. gs (Staged f) = None"
  shows "(\<exists>artifact. mt_render t doc = (0, Some artifact) \<and> mt_check t artifact = 0
        \<and> ma_alias_again a = Some False \<and> ma_source_now a = Some src
        \<and> r = Migrated \<and> without_staging fs1 = gs(At destination := Some (RegularFile doc)))
      \<or> r \<notin> {Migrated, SourceUnreadable, PathsUnknown, MigrationRefused, DestinationNotFile} \<and> without_staging fs1 = gs"
proof (cases "fault WriteDocument \<or> fst (mt_render t doc) \<noteq> 0 \<or> snd (mt_render t doc) = None")
  case True
  then show ?thesis using s unstaged(1-3) [OF g] g
    by (cases "mt_render t doc") (auto simp: staged_migration_def read_file_def Let_def split: if_splits option.splits)
next
  case False
  then obtain b where b: "mt_render t doc = (0, Some b)" by (metis option.exhaust prod.collapse)
  let ?fs = "gs(Staged (lit ''candidate.workflow.json'') := Some (RegularFile doc), Staged (lit ''migration-check.html'') := Some (RegularFile b))"
  show ?thesis
  proof (cases "mt_check t b = 0")
    case bad: False
    then have "r = CheckRefused (mt_check t b) \<and> fs1 = ?fs" using s b False by (auto simp: staged_migration_def read_file_def)
    then show ?thesis using unstaged [OF g] by simp
  next
    case True
    then have "commit_migration a fault ?fs src destination = (fs1, r)" using s b False
      by (simp add: staged_migration_def read_file_def)
    then show ?thesis using unstaged [OF g] b True
      by (auto simp: commit_migration_def rename_sync_def split: if_splits option.splits bool.splits)
  qed
qed

lemma migration_stages:
  assumes "commandMigrate t a fault fs source destination = (fs', r)"
  shows "r \<noteq> Migrated \<and> fs' = fs
    \<or> (\<exists>src diagram doc gs made. read_file fs (At source) = Some src \<and> mt_parse t src = Some diagram
        \<and> mt_migrate t diagram = Some doc \<and> ma_alias a = Some False
        \<and> make_directories (\<lambda>d. fault (MakeDestination d)) fs (directories_of destination) = (gs, made)
        \<and> (r = DestinationUnwritable \<and> fs' = gs
           \<or> (\<exists>fs1. staged_migration t a fault gs src doc destination = (fs1, r) \<and> fs' = without_staging fs1)))"
  using assms by (auto simp: commandMigrate_def bind_eq_Some_conv bind_eq_None_conv split: option.splits prod.splits if_splits bool.splits)

text \<open>C29: a migration that succeeds leaves at its destination exactly the document made from the source it read,
  after that document was rendered and its artifact checked with exit code 0, both alias tests said that
  source and destination differ, and the source still held the same bytes.  Whether or not it succeeds,
  no file but the destination changes; a migration that fails leaves that too as it was, except that
  missing directories on the way to the destination may have been made, and one that is refused before it
  prepares the destination makes none.\<close>

theorem migration_command_safe:
  assumes "commandMigrate t a fault fs source destination = (fs', r)" and "\<forall>f. fs (Staged f) = None"
  shows "(r = Migrated \<longrightarrow> (\<exists>src diagram doc artifact.
        read_file fs (At source) = Some src \<and> mt_parse t src = Some diagram \<and> mt_migrate t diagram = Some doc
        \<and> mt_render t doc = (0, Some artifact) \<and> mt_check t artifact = 0
        \<and> ma_alias a = Some False \<and> ma_alias_again a = Some False \<and> ma_source_now a = Some src
        \<and> fs' (At destination) = Some (RegularFile doc)
        \<and> (\<forall>p. p \<noteq> At destination \<longrightarrow> fs' p = fs p \<or> directory_made fs fs' destination p)))
    \<and> (r \<noteq> Migrated \<longrightarrow> (\<forall>p. fs' p = fs p \<or> directory_made fs fs' destination p))
    \<and> (r \<in> {SourceUnreadable, PathsUnknown, MigrationRefused, DestinationNotFile} \<longrightarrow> fs' = fs)"
proof -
  consider "r \<noteq> Migrated" "fs' = fs"
    | (prepared) src diagram doc gs made where "read_file fs (At source) = Some src" "mt_parse t src = Some diagram"
        "mt_migrate t diagram = Some doc" "ma_alias a = Some False"
        "make_directories (\<lambda>d. fault (MakeDestination d)) fs (directories_of destination) = (gs, made)"
        "r = DestinationUnwritable \<and> fs' = gs
         \<or> (\<exists>fs1. staged_migration t a fault gs src doc destination = (fs1, r) \<and> fs' = without_staging fs1)"
    using migration_stages [OF assms(1)] by blast
  then show ?thesis
  proof cases
    case prepared
    note w = made_on_the_way [OF prepared(5)]
    have "\<forall>f. gs (Staged f) = None" using w(2) assms(2) by simp
    with prepared(6) consider
        "r \<notin> {Migrated, SourceUnreadable, PathsUnknown, MigrationRefused, DestinationNotFile}" "fs' = gs"
      | artifact where "mt_render t doc = (0, Some artifact)" "mt_check t artifact = 0"
        "ma_alias_again a = Some False" "ma_source_now a = Some src" "r = Migrated"
        "fs' = gs(At destination := Some (RegularFile doc))"
      using staged_migration_effect by fastforce
    then show ?thesis
    proof cases
      case 1
      then show ?thesis using w(1) by simp
    next
      case 2
      then show ?thesis using target_written [OF w(1)] prepared(1-4) by auto
    qed
  qed auto
qed

definition sample_migration :: migration_tools where
  "sample_migration = \<lparr>mt_parse = (\<lambda>b. Some (JObj [])), mt_migrate = (\<lambda>d. Some [8]), mt_render = (\<lambda>b. (0, Some [9])), mt_check = (\<lambda>b. 0)\<rparr>"

lemma migration_command_safe_witness:
  "\<exists>fs'. commandMigrate sample_migration \<lparr>ma_alias = Some False, ma_alias_again = Some False, ma_source_now = Some [7]\<rparr> (\<lambda>s. False)
      sample_disk (lit ''/a.json'') (lit ''/out/b.json'') = (fs', Migrated)
    \<and> fs' (At (lit ''/out/b.json'')) = Some (RegularFile [8]) \<and> fs' (At (lit ''/a.json'')) = Some (RegularFile [7])"
proof -
  let ?a = "\<lparr>ma_alias = Some False, ma_alias_again = Some False, ma_source_now = Some [7]\<rparr>"
  obtain fs' r where m: "commandMigrate sample_migration ?a (\<lambda>s. False) sample_disk (lit ''/a.json'') (lit ''/out/b.json'') = (fs', r)"
    by fastforce
  have disk: "sample_disk (At (lit ''/a.json'')) = Some (RegularFile [7])" "sample_disk (At (lit ''/out/b.json'')) = None"
    by (simp_all add: sample_disk_def)
  have r: "r = Migrated" using m
    by (simp add: commandMigrate_def staged_migration_def commit_migration_def sample_migration_def disk read_file_def
        exists_sync_def rename_sync_def sample_way sample_made del: lit_def make_directories.simps)
  have "\<forall>f. sample_disk (Staged f) = None" by (simp add: sample_disk_def)
  note safe = migration_command_safe [OF m this, THEN conjunct1, rule_format, OF r]
  then have there: "fs' (At (lit ''/out/b.json'')) = Some (RegularFile [8])"
    and rest: "\<forall>p. p \<noteq> At (lit ''/out/b.json'') \<longrightarrow> fs' p = sample_disk p \<or> directory_made sample_disk fs' (lit ''/out/b.json'') p"
    by (auto simp: sample_migration_def)
  from rest [rule_format, of "At (lit ''/a.json'')"] have "fs' (At (lit ''/a.json'')) = Some (RegularFile [7])"
    by (simp add: disk directory_made_def)
  with there m r show ?thesis by blast
qed

end
