(* ===== verification/Evidence.thy ===== *)
theory Evidence
  imports Remotes
begin

text \<open>
  The evidence of an architecture diagram: \<open>renderers/shared/repository-evidence.mjs\<close>.  Git and the file
  system are arguments that answer commands and paths.  A diagram has passed the schema, so paths,
  addresses and revisions are strings, and lines are positive integers.  A failure is its code with the
  indexes of component and source.
\<close>

section \<open>Git\<close>

datatype git_command =
    ShowToplevel
  | OriginUrl
  | CommitExists jstring
  | ObjectType jstring jstring
  | ShowObject jstring jstring

datatype git_result = GitMissing | Exited int jstring

record evidence_world =
  ew_git :: "jstring \<Rightarrow> git_command \<Rightarrow> git_result"
  ew_realpath :: "jstring \<Rightarrow> jstring option"
  ew_resolve :: "jstring \<Rightarrow> jstring"

datatype evidence_error =
    GitUnavailable
  | GitCommand git_command
  | RepositoryRequired
  | RevisionInvalid
  | UrlInvalid
  | LinkModeInvalid
  | ProviderInvalid
  | LinksUnsupported
  | RootRequired
  | RootUnreadable
  | RootNotTopLevel
  | OriginMismatch
  | RevisionUnavailable
  | PathInvalid nat nat
  | PathEscape nat nat
  | LineRequired nat nat
  | LineRangeInvalid nat nat
  | FileMissing nat nat
  | FileUnreadable nat nat
  | LineOutOfRange nat nat
  | SourceRequired
  | RealpathThrown
  | UriThrown

definition runGit :: "evidence_world \<Rightarrow> jstring \<Rightarrow> git_command \<Rightarrow> evidence_error + int \<times> jstring" where
  "runGit w repo c = (case ew_git w repo c of GitMissing \<Rightarrow> Inl GitUnavailable | Exited n out \<Rightarrow> Inr (n, out))"

definition gitValue :: "evidence_world \<Rightarrow> jstring \<Rightarrow> git_command \<Rightarrow> evidence_error + jstring" where
  "gitValue w repo c = bindR (runGit w repo c) (\<lambda>(n, out). if n \<noteq> 0 then Inl (GitCommand c) else Inr (js_trim out))"

section \<open>Sources\<close>

definition control :: "nat \<Rightarrow> bool" where
  "control c \<longleftrightarrow> c < 32 \<or> c = 127"

definition text_of :: "jval \<Rightarrow> jstring" where
  "text_of v = (case v of JStr s \<Rightarrow> s | _ \<Rightarrow> [])"

definition verifiedSourcePath :: "jval \<Rightarrow> nat \<Rightarrow> nat \<Rightarrow> evidence_error + jstring" where
  "verifiedSourcePath v ci si =
     (let p = text_of v; segments = split_on 47 p in
      if p = [] \<or> hd p = 47 \<or> 92 \<in> set p \<or> list_ex control p then Inl (PathInvalid ci si)
      else if list_ex (\<lambda>s. s = [] \<or> s = lit ''.'' \<or> s = lit ''..'') segments \<or> hd segments = lit ''.git'' then Inl (PathEscape ci si)
      else Inr (join_with [47] segments))"

fun split_lines :: "jstring \<Rightarrow> jstring list" where
  "split_lines [] = [[]]"
| "split_lines [c] = (if c = 10 \<or> c = 13 then [[], []] else [[c]])"
| "split_lines (c # d # cs) =
     (if c = 13 \<and> d = 10 then [] # split_lines cs
      else if c = 10 \<or> c = 13 then [] # split_lines (d # cs)
      else (case split_lines (d # cs) of l # ls \<Rightarrow> (c # l) # ls | [] \<Rightarrow> [[c]]))"

definition sourceLineCount :: "jstring \<Rightarrow> nat" where
  "sourceLineCount s = (if s = [] then 0 else length (split_lines s) - (if last s = 10 \<or> last s = 13 then 1 else 0))"

definition line_number :: "jval \<Rightarrow> nat option" where
  "line_number v = (case v of JNum x \<Rightarrow> if x = 0 then None else Some (nat \<lfloor>x\<rfloor>) | _ \<Rightarrow> None)"

record verified_source =
  vs_ref :: source_ref
  vs_label :: jval
  vs_href :: "jstring option"

definition check_lines ::
  "evidence_world \<Rightarrow> jstring \<Rightarrow> jstring \<Rightarrow> source_ref \<Rightarrow> nat \<Rightarrow> nat \<Rightarrow> evidence_error + unit" where
  "check_lines w repo revision s ci si =
     (case sr_line s of
        None \<Rightarrow> Inr ()
      | Some l \<Rightarrow> bindR (runGit w repo (ShowObject revision (sr_path s))) (\<lambda>(n, content).
          if n \<noteq> 0 then Inl (FileUnreadable ci si)
          else guardR ((case sr_end s of Some e \<Rightarrow> e | None \<Rightarrow> l) \<le> sourceLineCount content) (LineOutOfRange ci si)))"

definition source_href :: "bool \<Rightarrow> remote \<Rightarrow> jstring \<Rightarrow> source_ref \<Rightarrow> evidence_error + jstring option" where
  "source_href web loc revision s =
     (if \<not> web then Inr None
      else (case repositorySourceHref (rm_provider loc) (rm_url loc) revision s of None \<Rightarrow> Inl UriThrown | Some h \<Rightarrow> Inr (Some h)))"

definition check_source ::
  "evidence_world \<Rightarrow> jstring \<Rightarrow> bool \<Rightarrow> remote \<Rightarrow> jstring \<Rightarrow> nat \<Rightarrow> nat \<times> jval \<Rightarrow> evidence_error + verified_source" where
  "check_source w repo web loc revision ci authored =
     (case authored of (si, a) \<Rightarrow>
      bindR (verifiedSourcePath (field a ''path'') ci si) (\<lambda>p.
      let s = \<lparr>sr_path = p, sr_line = line_number (field a ''line''), sr_end = line_number (field a ''end_line'')\<rparr> in
      if sr_end s \<noteq> None \<and> sr_line s = None then Inl (LineRequired ci si)
      else if sr_end s \<noteq> None \<and> the (sr_end s) < the (sr_line s) then Inl (LineRangeInvalid ci si)
      else bindR (runGit w repo (ObjectType revision p)) (\<lambda>(n, out).
        if n \<noteq> 0 \<or> js_trim out \<noteq> lit ''blob'' then Inl (FileMissing ci si)
        else bindR (check_lines w repo revision s ci si) (\<lambda>_.
          bindR (source_href web loc revision s) (\<lambda>h.
            Inr \<lparr>vs_ref = s, vs_label = field a ''label'', vs_href = h\<rparr>)))))"

text \<open>In order, until the first failure.\<close>

fun traverse :: "('a \<Rightarrow> 'e + 'b) \<Rightarrow> 'a list \<Rightarrow> 'e + 'b list" where
  "traverse f [] = Inr []"
| "traverse f (x # xs) = bindR (f x) (\<lambda>y. bindR (traverse f xs) (\<lambda>ys. Inr (y # ys)))"

type_synonym evidence_nodes = "(jval \<times> verified_source list) list"

text \<open>A later component with the same id replaces the entry of an earlier one.\<close>

definition put_node :: "jval \<Rightarrow> verified_source list \<Rightarrow> evidence_nodes \<Rightarrow> evidence_nodes" where
  "put_node k vs nodes =
     (if k \<in> fst ` set nodes then map (\<lambda>(j, us). (j, if j = k then vs else us)) nodes else nodes @ [(k, vs)])"

definition check_component ::
  "evidence_world \<Rightarrow> jstring \<Rightarrow> bool \<Rightarrow> remote \<Rightarrow> jstring \<Rightarrow> nat \<times> jval \<Rightarrow> evidence_error + jval \<times> verified_source list" where
  "check_component w repo web loc revision c =
     bindR (traverse (check_source w repo web loc revision (fst c)) (indexed (items (field (snd c) ''sources''))))
       (\<lambda>vs. Inr (field (snd c) ''id'', vs))"

definition sourced :: "nat \<times> jval \<Rightarrow> bool" where
  "sourced c \<longleftrightarrow> items (field (snd c) ''sources'') \<noteq> []"

section \<open>Repository\<close>

definition hasRepositoryEvidence :: "jstring \<Rightarrow> jval \<Rightarrow> bool" where
  "hasRepositoryEvidence diagram_type d \<longleftrightarrow> diagram_type = lit ''architecture''
     \<and> (truthy (field (field d ''meta'') ''repository'') \<or> list_ex (\<lambda>c. sourced (0, c)) (items (field d ''components'')))"

definition is_hex :: "nat \<Rightarrow> bool" where
  "is_hex c \<longleftrightarrow> is_lower_hex c \<or> 65 \<le> c \<and> c \<le> 70"

definition full_sha :: "jstring \<Rightarrow> bool" where
  "full_sha s \<longleftrightarrow> length s = 40 \<and> list_all is_hex s"

definition link_mode :: "jval \<Rightarrow> jval" where
  "link_mode r = (let m = field r ''link_mode'' in if m = JUndef \<or> m = JNull then JStr (lit ''web'') else m)"

definition provider_name :: "provider option \<Rightarrow> jval" where
  "provider_name p = (case p of Some Github \<Rightarrow> JStr (lit ''github'') | Some Gitee \<Rightarrow> JStr (lit ''gitee'') | None \<Rightarrow> JNull)"

definition owner_repository :: "jstring \<Rightarrow> bool" where
  "owner_repository p \<longleftrightarrow> (case split_on 47 p of
     [a, b] \<Rightarrow> a \<noteq> [] \<and> b \<noteq> [] \<and> list_all (\<lambda>c. is_alpha c \<or> is_digit c \<or> c \<in> {95, 46, 45}) (a @ b) | _ \<Rightarrow> False)"

definition web_links :: "remote \<Rightarrow> bool" where
  "web_links loc \<longleftrightarrow> rm_provider loc \<noteq> None \<and> rm_protocol loc = lit ''https:'' \<and> rm_endpoint loc = lit ''standard''
     \<and> owner_repository (rm_path loc)"

text \<open>What the document says of the repository.\<close>

definition declared_repository :: "web_platform \<Rightarrow> jval \<Rightarrow> evidence_error + remote \<times> bool" where
  "declared_repository wp r =
     (if \<not> truthy r then Inl RepositoryRequired
      else if \<not> full_sha (text_of (field r ''revision'')) then Inl RevisionInvalid
      else (case parseRepositoryRemote wp True (field r ''url'') of
          NoRemote \<Rightarrow> Inl UrlInvalid
        | UriError \<Rightarrow> Inl UriThrown
        | Remote loc \<Rightarrow>
            let web = (link_mode r = JStr (lit ''web'')) in
            if \<not> web \<and> link_mode r \<noteq> JStr (lit ''local-only'') then Inl LinkModeInvalid
            else if field r ''provider'' \<noteq> JUndef
              \<and> (field r ''provider'' \<notin> {JStr (lit ''github''), JStr (lit ''gitee'')} \<or> field r ''provider'' \<noteq> provider_name (rm_provider loc))
              then Inl ProviderInvalid
            else if web \<and> \<not> web_links loc then Inl LinksUnsupported
            else Inr (loc, web)))"

text \<open>The local checkout: its real root, which is the top level of its repository with the declared origin
  and revision.\<close>

definition top_level :: "evidence_world \<Rightarrow> jstring \<Rightarrow> evidence_error + unit" where
  "top_level w repo = bindR (gitValue w repo ShowToplevel) (\<lambda>top.
     (case ew_realpath w top of None \<Rightarrow> Inl RealpathThrown | Some actual \<Rightarrow> guardR (actual = repo) RootNotTopLevel))"

definition same_origin :: "evidence_world \<Rightarrow> web_platform \<Rightarrow> jstring \<Rightarrow> remote \<Rightarrow> evidence_error + unit" where
  "same_origin w wp repo loc = bindR (gitValue w repo OriginUrl) (\<lambda>origin.
     (case parseRepositoryRemote wp False (JStr origin) of
        UriError \<Rightarrow> Inl UriThrown
      | NoRemote \<Rightarrow> Inl OriginMismatch
      | Remote found \<Rightarrow> guardR (rm_identity found = rm_identity loc) OriginMismatch))"

definition has_commit :: "evidence_world \<Rightarrow> jstring \<Rightarrow> jstring \<Rightarrow> evidence_error + unit" where
  "has_commit w repo revision = bindR (runGit w repo (CommitExists revision)) (\<lambda>(n, out). guardR (n = 0) RevisionUnavailable)"

definition checkout_root :: "evidence_world \<Rightarrow> web_platform \<Rightarrow> jstring \<Rightarrow> remote \<Rightarrow> jstring \<Rightarrow> evidence_error + jstring" where
  "checkout_root w wp requested loc revision =
     (if requested = [] then Inl RootRequired
      else (case ew_realpath w (ew_resolve w requested) of
          None \<Rightarrow> Inl RootUnreadable
        | Some repo \<Rightarrow> bindR (top_level w repo) (\<lambda>_. bindR (same_origin w wp repo loc) (\<lambda>_.
            bindR (has_commit w repo revision) (\<lambda>_. Inr repo)))))"

record evidence =
  ev_url :: jstring
  ev_revision :: jstring
  ev_label :: jstring
  ev_href :: "jstring option"
  ev_references :: nat
  ev_nodes :: evidence_nodes

definition without_scheme :: "jstring \<Rightarrow> jstring" where
  "without_scheme u =
     (case find (\<lambda>p. take (length p) u = p) [lit ''http://'', lit ''https://'', lit ''ssh://git@'', lit ''git@''] of
        Some p \<Rightarrow> drop (length p) u
      | None \<Rightarrow> u)"

definition reference_count :: "evidence_nodes \<Rightarrow> nat" where
  "reference_count checked = sum_list (map (\<lambda>(k, vs). length vs) checked)"

definition evidence_receipt :: "remote \<Rightarrow> bool \<Rightarrow> jstring \<Rightarrow> evidence_nodes \<Rightarrow> evidence" where
  "evidence_receipt loc web revision checked =
     \<lparr>ev_url = rm_url loc, ev_revision = revision,
      ev_label = (if rm_provider loc = Some Github then rm_path loc else without_scheme (rm_url loc)),
      ev_href = (if web then Some (rm_url loc @ lit ''/tree/'' @ revision) else None),
      ev_references = reference_count checked,
      ev_nodes = fold (\<lambda>(k, vs). put_node k vs) checked []\<rparr>"

definition verifyRepositoryEvidence ::
  "evidence_world \<Rightarrow> web_platform \<Rightarrow> jstring \<Rightarrow> jval \<Rightarrow> jstring \<Rightarrow> evidence_error + evidence option" where
  "verifyRepositoryEvidence w wp diagram_type d requested =
     (if \<not> hasRepositoryEvidence diagram_type d then Inr None
      else let r = field (field d ''meta'') ''repository''; revision = map ascii_lower (text_of (field r ''revision'')) in
        bindR (declared_repository wp r) (\<lambda>(loc, web).
        bindR (checkout_root w wp requested loc revision) (\<lambda>repo.
        bindR (traverse (check_component w repo web loc revision) (filter sourced (indexed (items (field d ''components''))))) (\<lambda>checked.
        if reference_count checked = 0 then Inl SourceRequired
        else Inr (Some (evidence_receipt loc web revision checked))))))"

end
