(* ===== verification/EvidenceFacts.thy ===== *)
theory EvidenceFacts
  imports Evidence RemotesFacts
begin

text \<open>
  What a verified diagram rests on: every source it names is a file of the pinned commit in the checkout of
  the declared repository, with the lines it names, and its links lead to that file.
\<close>

section \<open>Lines\<close>

lemma split_lines_not_Nil [simp]: "split_lines s \<noteq> []"
  by (induction s rule: split_lines.induct) (auto split: list.splits)

lemma split_lines_break:
  assumes "10 \<notin> set l" "13 \<notin> set l"
  shows "split_lines l = [l]" "split_lines (l @ 10 # s) = l # split_lines s" "split_lines (l @ 13 # 10 # s) = l # split_lines s"
proof -
  have step: "split_lines (c # cs) = (c # hd (split_lines cs)) # tl (split_lines cs)" if "c \<noteq> 10" "c \<noteq> 13" for c cs
    using that by (cases cs) (auto split: list.splits simp: neq_Nil_conv)
  show "split_lines l = [l]" using assms by (induction l) (auto simp: step)
  have "split_lines (10 # s) = [] # split_lines s" "split_lines (13 # 10 # s) = [] # split_lines s" by (cases s; simp)+
  with assms show "split_lines (l @ 10 # s) = l # split_lines s" "split_lines (l @ 13 # 10 # s) = l # split_lines s"
    by (induction l) (auto simp: step)
qed

text \<open>A final line break starts no further line.\<close>

lemma sourceLineCount_append:
  assumes "10 \<notin> set l" "13 \<notin> set l"
  shows "l \<noteq> [] \<Longrightarrow> sourceLineCount l = 1" "sourceLineCount (l @ 10 # s) = 1 + sourceLineCount s"
    "sourceLineCount (l @ 13 # 10 # s) = 1 + sourceLineCount s"
proof -
  have pos: "1 \<le> length (split_lines s)" using split_lines_not_Nil [of s] by (cases "split_lines s") auto
  show "sourceLineCount l = 1" if "l \<noteq> []"
  proof -
    have "last l \<noteq> 10" "last l \<noteq> 13" using assms last_in_set [OF that] by metis+
    then show ?thesis using that assms by (simp add: sourceLineCount_def split_lines_break)
  qed
  show "sourceLineCount (l @ 10 # s) = 1 + sourceLineCount s" "sourceLineCount (l @ 13 # 10 # s) = 1 + sourceLineCount s"
    using pos assms by (auto simp: sourceLineCount_def split_lines_break)
qed

section \<open>Sources\<close>

lemma traverse_Inr: "traverse f xs = Inr ys \<longleftrightarrow> list_all2 (\<lambda>x y. f x = Inr y) xs ys"
  by (induction xs arbitrary: ys) (auto simp: result_iff list_all2_Cons1)

lemma runGit_Inr: "runGit w repo c = Inr (n, out) \<longleftrightarrow> ew_git w repo c = Exited n out"
  by (auto simp: runGit_def split: git_result.splits)

lemma gitValue_Inr: "gitValue w repo c = Inr v \<longleftrightarrow> (\<exists>out. ew_git w repo c = Exited 0 out \<and> v = js_trim out)"
  by (auto simp: gitValue_def result_iff runGit_Inr split: if_splits)

text \<open>Where a path leads to: only down from the root of the repository, and not into its own files.\<close>

definition inside_repository :: "jstring \<Rightarrow> bool" where
  "inside_repository p \<longleftrightarrow> (let segments = split_on 47 p in
     hd segments \<noteq> lit ''.git'' \<and> (\<forall>s \<in> set segments. s \<noteq> [] \<and> s \<noteq> lit ''.'' \<and> s \<noteq> lit ''..'' \<and> 92 \<notin> set s))"

lemma verified_path:
  assumes "verifiedSourcePath v ci si = Inr p"
  shows "v = JStr p" "inside_repository p"
proof -
  have p: "text_of v = p" "p \<noteq> []" "92 \<notin> set p"
    and s: "\<not> list_ex (\<lambda>s. s = [] \<or> s = lit ''.'' \<or> s = lit ''..'') (split_on 47 p)" "hd (split_on 47 p) \<noteq> lit ''.git''"
    using assms by (auto simp: verifiedSourcePath_def Let_def join_split split: if_splits)
  show "v = JStr p" using p(1,2) by (cases v) (auto simp: text_of_def)
  show "inside_repository p"
    using s p(3) split_on_parts_chars [of _ 47 p] by (auto simp: inside_repository_def Let_def list_ex_iff)
qed

definition source_verified ::
  "evidence_world \<Rightarrow> jstring \<Rightarrow> bool \<Rightarrow> remote \<Rightarrow> jstring \<Rightarrow> jval \<Rightarrow> verified_source \<Rightarrow> bool" where
  "source_verified w repo web loc revision a v \<longleftrightarrow> (let s = vs_ref v in
     field a ''path'' = JStr (sr_path s) \<and> inside_repository (sr_path s)
     \<and> sr_line s = line_number (field a ''line'') \<and> sr_end s = line_number (field a ''end_line'')
     \<and> (\<exists>out. ew_git w repo (ObjectType revision (sr_path s)) = Exited 0 out \<and> js_trim out = lit ''blob'')
     \<and> (\<forall>l. sr_line s = Some l \<longrightarrow> (\<exists>content. ew_git w repo (ShowObject revision (sr_path s)) = Exited 0 content
          \<and> l \<le> sourceLineCount content \<and> (\<forall>e. sr_end s = Some e \<longrightarrow> l \<le> e \<and> e \<le> sourceLineCount content)))
     \<and> (sr_line s = None \<longrightarrow> sr_end s = None)
     \<and> vs_href v = (if web then repositorySourceHref (rm_provider loc) (rm_url loc) revision s else None)
     \<and> (web \<longrightarrow> vs_href v \<noteq> None))"

lemma check_lines_ok:
  assumes "check_lines w repo revision s ci si = Inr u" and "\<And>e. sr_end s = Some e \<Longrightarrow> \<exists>l. sr_line s = Some l \<and> l \<le> e"
  shows "\<forall>l. sr_line s = Some l \<longrightarrow> (\<exists>content. ew_git w repo (ShowObject revision (sr_path s)) = Exited 0 content
          \<and> l \<le> sourceLineCount content \<and> (\<forall>e. sr_end s = Some e \<longrightarrow> l \<le> e \<and> e \<le> sourceLineCount content))"
proof (intro allI impI)
  fix l assume l: "sr_line s = Some l"
  then obtain content where c: "ew_git w repo (ShowObject revision (sr_path s)) = Exited 0 content"
    "(case sr_end s of Some e \<Rightarrow> e | None \<Rightarrow> l) \<le> sourceLineCount content"
    using assms(1) by (auto simp: check_lines_def result_iff runGit_Inr split: if_splits)
  show "\<exists>content. ew_git w repo (ShowObject revision (sr_path s)) = Exited 0 content
          \<and> l \<le> sourceLineCount content \<and> (\<forall>e. sr_end s = Some e \<longrightarrow> l \<le> e \<and> e \<le> sourceLineCount content)"
    using c assms(2) l by (cases "sr_end s") fastforce+
qed

lemma check_source_ok:
  assumes "check_source w repo web loc revision ci (si, a) = Inr v"
  shows "source_verified w repo web loc revision a v"
proof -
  obtain p h u out where p: "verifiedSourcePath (field a ''path'') ci si = Inr p"
    and s: "vs_ref v = \<lparr>sr_path = p, sr_line = line_number (field a ''line''), sr_end = line_number (field a ''end_line'')\<rparr>"
    and range: "\<not> (sr_end (vs_ref v) \<noteq> None \<and> sr_line (vs_ref v) = None)"
      "\<not> (sr_end (vs_ref v) \<noteq> None \<and> the (sr_end (vs_ref v)) < the (sr_line (vs_ref v)))"
    and type: "ew_git w repo (ObjectType revision p) = Exited 0 out" "js_trim out = lit ''blob''"
    and lines: "check_lines w repo revision (vs_ref v) ci si = Inr u"
    and href: "source_href web loc revision (vs_ref v) = Inr h" "vs_href v = h"
    using assms by (auto simp: check_source_def Let_def result_iff runGit_Inr split: if_splits)
  have "\<exists>l. sr_line (vs_ref v) = Some l \<and> l \<le> e" if "sr_end (vs_ref v) = Some e" for e using range that by auto
  note l = check_lines_ok [OF lines this]
  have "h = (if web then repositorySourceHref (rm_provider loc) (rm_url loc) revision (vs_ref v) else None)" "web \<longrightarrow> h \<noteq> None"
    using href(1) by (cases "repositorySourceHref (rm_provider loc) (rm_url loc) revision (vs_ref v)";
        auto simp: source_href_def split: if_splits)+
  then show ?thesis
    using verified_path [OF p] s range(1) type l href(2) by (auto simp: source_verified_def Let_def)
qed

section \<open>Evidence\<close>

lemma component_ok:
  assumes "check_component w repo web loc revision c = Inr (k, vs)"
  shows "k = field (snd c) ''id'' \<and> list_all2 (source_verified w repo web loc revision) (items (field (snd c) ''sources'')) vs"
proof -
  have k: "k = field (snd c) ''id''"
    and "list_all2 (\<lambda>x y. check_source w repo web loc revision (fst c) x = Inr y) (indexed (items (field (snd c) ''sources''))) vs"
    using assms by (auto simp: check_component_def result_iff traverse_Inr)
  then have "list_all2 (\<lambda>x y. source_verified w repo web loc revision (snd x) y) (indexed (items (field (snd c) ''sources''))) vs"
    by (auto elim!: list_all2_mono intro: check_source_ok)
  then have "list_all2 (source_verified w repo web loc revision) (map snd (indexed (items (field (snd c) ''sources'')))) vs"
    by (simp only: list_all2_map1)
  then show ?thesis using k by simp
qed

lemma sourced_components:
  "map snd (filter sourced (indexed cs)) = filter (\<lambda>c. items (field c ''sources'') \<noteq> []) cs"
proof -
  have "map snd (filter sourced xs) = filter (\<lambda>c. items (field c ''sources'') \<noteq> []) (map snd xs)" for xs
    by (induction xs) (simp_all add: sourced_def)
  from this [of "indexed cs"] show ?thesis by simp
qed

lemma put_new: "k \<notin> fst ` set nodes \<Longrightarrow> put_node k vs nodes = nodes @ [(k, vs)]"
  by (simp add: put_node_def)

lemma put_all: "distinct (map fst (nodes @ ps)) \<Longrightarrow> fold (\<lambda>(k, vs). put_node k vs) ps nodes = nodes @ ps"
  by (induction ps arbitrary: nodes) (auto simp: put_new)

lemma checkout_ok:
  assumes "checkout_root w wp requested loc revision = Inr repo"
  shows "ew_realpath w (ew_resolve w requested) = Some repo"
    "\<exists>out. ew_git w repo ShowToplevel = Exited 0 out \<and> ew_realpath w (js_trim out) = Some repo"
    "\<exists>out found. ew_git w repo OriginUrl = Exited 0 out \<and> parseRepositoryRemote wp False (JStr (js_trim out)) = Remote found
       \<and> rm_identity found = rm_identity loc"
    "\<exists>out. ew_git w repo (CommitExists revision) = Exited 0 out"
proof -
  have parts: "ew_realpath w (ew_resolve w requested) = Some repo" "top_level w repo = Inr ()" "same_origin w wp repo loc = Inr ()"
    "has_commit w repo revision = Inr ()"
    using assms by (auto simp: checkout_root_def bindR_Inr_iff split: if_split_asm option.split_asm)
  show "ew_realpath w (ew_resolve w requested) = Some repo" by (rule parts(1))
  show "\<exists>out. ew_git w repo ShowToplevel = Exited 0 out \<and> ew_realpath w (js_trim out) = Some repo"
    using parts(2) by (auto simp: top_level_def result_iff gitValue_Inr split: option.split_asm)
  show "\<exists>out found. ew_git w repo OriginUrl = Exited 0 out \<and> parseRepositoryRemote wp False (JStr (js_trim out)) = Remote found
       \<and> rm_identity found = rm_identity loc"
  proof -
    obtain out where "ew_git w repo OriginUrl = Exited 0 out" and "(case parseRepositoryRemote wp False (JStr (js_trim out)) of
        UriError \<Rightarrow> Inl UriThrown | NoRemote \<Rightarrow> Inl OriginMismatch
      | Remote found \<Rightarrow> guardR (rm_identity found = rm_identity loc) OriginMismatch) = Inr ()"
      using parts(3) by (auto simp: same_origin_def bindR_Inr_iff gitValue_Inr)
    then show ?thesis by (auto simp: guardR_Inr_iff split: remote_answer.split_asm)
  qed
  show "\<exists>out. ew_git w repo (CommitExists revision) = Exited 0 out"
    using parts(4) by (auto simp: has_commit_def result_iff runGit_Inr)
qed

lemma declared_ok:
  assumes "declared_repository wp r = Inr (loc, web)"
  shows "parseRepositoryRemote wp True (field r ''url'') = Remote loc" "full_sha (text_of (field r ''revision''))" "web \<longrightarrow> web_links loc"
  using assms by (auto simp: declared_repository_def Let_def split: if_split_asm remote_answer.split_asm)

text \<open>A diagram is verified only against a checkout that is the top level of a git repository, has the
  declared repository as its origin and holds the declared commit; every source of every component then
  has a path inside the repository that names a file at that commit, its lines exist there in order, and,
  unless links are local, it carries the link to that file and those lines; and the number of references
  is that of the sources.\<close>

lemma evidence_verified:
  assumes "verifyRepositoryEvidence w wp diagram_type d requested = Inr (Some e)"
  shows "\<exists>loc web repo checked. parseRepositoryRemote wp True (field (field (field d ''meta'') ''repository'') ''url'') = Remote loc
    \<and> full_sha (text_of (field (field (field d ''meta'') ''repository'') ''revision''))
    \<and> ev_revision e = map ascii_lower (text_of (field (field (field d ''meta'') ''repository'') ''revision''))
    \<and> (\<exists>out. ew_git w repo ShowToplevel = Exited 0 out \<and> ew_realpath w (js_trim out) = Some repo)
    \<and> (\<exists>out found. ew_git w repo OriginUrl = Exited 0 out \<and> parseRepositoryRemote wp False (JStr (js_trim out)) = Remote found
         \<and> rm_identity found = rm_identity loc)
    \<and> (\<exists>out. ew_git w repo (CommitExists (ev_revision e)) = Exited 0 out)
    \<and> list_all2 (\<lambda>c (k, vs). k = field c ''id'' \<and> list_all2 (source_verified w repo web loc (ev_revision e)) (items (field c ''sources'')) vs)
        (filter (\<lambda>c. items (field c ''sources'') \<noteq> []) (items (field d ''components''))) checked
    \<and> (distinct (map fst checked) \<longrightarrow> ev_nodes e = checked)
    \<and> ev_references e = (\<Sum>c \<leftarrow> items (field d ''components''). length (items (field c ''sources''))) \<and> 0 < ev_references e"
proof -
  let ?r = "field (field d ''meta'') ''repository''"
  let ?cs = "items (field d ''components'')"
  let ?rev = "map ascii_lower (text_of (field ?r ''revision''))"
  have "hasRepositoryEvidence diagram_type d" using assms by (rule contrapos_pp) (simp add: verifyRepositoryEvidence_def)
  then obtain loc web repo checked
    where decl: "declared_repository wp ?r = Inr (loc, web)"
      and root: "checkout_root w wp requested loc ?rev = Inr repo"
      and all: "traverse (check_component w repo web loc ?rev) (filter sourced (indexed ?cs)) = Inr checked"
      and e: "reference_count checked \<noteq> 0" "evidence_receipt loc web ?rev checked = e"
    using assms by (auto simp: verifyRepositoryEvidence_def Let_def bindR_Inr_iff split: if_split_asm)
  have rev: "ev_revision e = ?rev" and count: "ev_references e = sum_list (map (\<lambda>(k, vs). length vs) checked)" "ev_references e \<noteq> 0"
    and nodes: "ev_nodes e = fold (\<lambda>(k, vs). put_node k vs) checked []"
    using e(1) by (simp_all add: e(2) [symmetric] evidence_receipt_def reference_count_def)
  note root = root [folded rev] and all = all [folded rev, unfolded traverse_Inr]
  define ok where "ok = (\<lambda>c kv. fst kv = field c ''id''
    \<and> list_all2 (source_verified w repo web loc (ev_revision e)) (items (field c ''sources'')) (snd kv))"
  have "list_all2 (\<lambda>c kv. ok (snd c) kv) (filter sourced (indexed ?cs)) checked"
    by (rule list_all2_mono [OF all]) (auto simp: ok_def dest: component_ok)
  moreover have "map snd (filter sourced (indexed ?cs)) = filter (\<lambda>c. items (field c ''sources'') \<noteq> []) ?cs"
    by (rule sourced_components)
  ultimately have each: "list_all2 ok (filter (\<lambda>c. items (field c ''sources'') \<noteq> []) ?cs) checked"
    by (metis list_all2_map1)
  then have "sum_list (map (\<lambda>(k, vs). length vs) checked) = (\<Sum>c \<leftarrow> filter (\<lambda>c. items (field c ''sources'') \<noteq> []) ?cs. length (items (field c ''sources'')))"
    by (induction rule: list_all2_induct) (auto simp: ok_def dest: list_all2_lengthD)
  moreover have "(\<Sum>c \<leftarrow> filter (\<lambda>c. items (field c ''sources'') \<noteq> []) cs. length (items (field c ''sources'')))
      = (\<Sum>c \<leftarrow> cs. length (items (field c ''sources'')))" for cs
    by (induction cs) auto
  ultimately have sum: "ev_references e = (\<Sum>c \<leftarrow> ?cs. length (items (field c ''sources'')))" using count(1) by simp
  have "distinct (map fst checked) \<longrightarrow> ev_nodes e = checked" using put_all [of "[]" checked] nodes by simp
  moreover have "list_all2 (\<lambda>c (k, vs). k = field c ''id''
      \<and> list_all2 (source_verified w repo web loc (ev_revision e)) (items (field c ''sources'')) vs)
        (filter (\<lambda>c. items (field c ''sources'') \<noteq> []) ?cs) checked"
    by (rule list_all2_mono [OF each]) (auto simp: ok_def)
  ultimately show ?thesis using declared_ok [OF decl] checkout_ok [OF root] rev sum count(2) by blast
qed

definition sample_checkout :: evidence_world where
  "sample_checkout =
     \<lparr>ew_git = (\<lambda>repo c. case c of
        ShowToplevel \<Rightarrow> Exited 0 (lit ''/shop'' @ [10])
      | OriginUrl \<Rightarrow> Exited 0 (lit ''git@github.com:acme/shop.git'' @ [10])
      | CommitExists r \<Rightarrow> Exited 0 []
      | ObjectType r p \<Rightarrow> (if p = lit ''src/api.ts'' then Exited 0 (lit ''blob'' @ [10]) else Exited 128 [])
      | ShowObject r p \<Rightarrow> Exited 0 [65, 10, 66]),
      ew_realpath = Some, ew_resolve = (\<lambda>p. p)\<rparr>"

definition sourced_diagram :: jval where
  "sourced_diagram = JObj
     [(lit ''meta'', JObj [(lit ''repository'', JObj
        [(lit ''url'', JStr (lit ''https://github.com/acme/shop'')), (lit ''revision'', JStr (replicate 40 65))])]),
      (lit ''components'', JArr [JObj [(lit ''id'', JStr (lit ''api'')),
        (lit ''sources'', JArr [JObj [(lit ''path'', JStr (lit ''src/api.ts''))]])]])]"

lemma sourced_fields:
  "field (field sourced_diagram ''meta'') ''repository'' = JObj
    [(lit ''url'', JStr (lit ''https://github.com/acme/shop'')), (lit ''revision'', JStr (replicate 40 65))]"
  "items (field sourced_diagram ''components'') = [JObj [(lit ''id'', JStr (lit ''api'')),
        (lit ''sources'', JArr [JObj [(lit ''path'', JStr (lit ''src/api.ts''))]])]]"
  by (simp_all add: sourced_diagram_def field_def)

lemma sample_source: "verifiedSourcePath (JStr (lit ''src/api.ts'')) ci si = Inr (lit ''src/api.ts'')"
  by code_simp

lemma sample_web_links:
  assumes "rm_provider r = Some Github" "rm_protocol r = lit ''https:''" "rm_endpoint r = lit ''standard''" "rm_path r = lit ''acme'' @ [47] @ lit ''shop''"
  shows "web_links r"
  using assms by (simp add: web_links_def owner_repository_def text_eval is_alpha_def)

lemma sample_verified:
  "\<exists>e. verifyRepositoryEvidence sample_checkout sample_web (lit ''architecture'') sourced_diagram (lit ''/shop'') = Inr (Some e)"
proof -
  let ?web = "lit ''https://github.com/acme/shop''" and ?scp = "lit ''git@github.com:acme/shop.git''"
  let ?r = "JObj [(lit ''url'', JStr ?web), (lit ''revision'', JStr (replicate 40 65))]"
  let ?rev = "replicate 40 (97 :: nat)"
  have forms: "web_form (lit ''acme'') (lit ''shop'') = ?web" "scp_form (lit ''acme'') (lit ''shop'') = ?scp"
    by (simp_all add: web_form_def scp_form_def text_eval)
  obtain loc where loc: "parseRepositoryRemote sample_web True (JStr ?web) = Remote loc" "rm_provider loc = Some Github"
    "rm_protocol loc = lit ''https:''" "rm_endpoint loc = lit ''standard''" "rm_path loc = lit ''acme'' @ [47] @ lit ''shop''"
    "rm_identity loc = remote_identity sample_web None (Some Github) (lit ''github.com'') (lit ''standard'') (lit ''acme'' @ [47] @ lit ''shop'')"
    using web_parsed [OF sample_names(1-5), of True] unfolding forms by blast
  obtain found where found: "parseRepositoryRemote sample_web False (JStr ?scp) = Remote found" "rm_identity found = rm_identity loc"
    using scp_parsed [OF sample_names(1-3,6), of False] loc(6) unfolding forms by auto
  have fields: "field ?r ''url'' = JStr ?web" "field ?r ''revision'' = JStr (replicate 40 65)" "field ?r ''provider'' = JUndef"
    "field ?r ''link_mode'' = JUndef" by (simp_all add: field_def)
  have sha: "full_sha (replicate 40 65)" "map ascii_lower (replicate 40 65) = ?rev"
    by (simp_all add: full_sha_def is_hex_def list_all_length ascii_lower_def map_replicate_const)
  have decl: "declared_repository sample_web ?r = Inr (loc, True)"
    using sample_web_links [OF loc(2-5)] by (simp add: declared_repository_def fields loc(1) link_mode_def text_of_def sha Let_def)
  have trim: "js_trim (lit ''/shop'' @ [10]) = lit ''/shop''" "js_trim (?scp @ [10]) = ?scp" "js_trim (lit ''blob'' @ [10]) = lit ''blob''"
    by (simp_all add: js_trim_def text_eval js_space_def)
  have root: "checkout_root sample_checkout sample_web (lit ''/shop'') loc ?rev = Inr (lit ''/shop'')"
    using found trim by (simp add: checkout_root_def top_level_def same_origin_def has_commit_def gitValue_def runGit_def sample_checkout_def)
  have href: "source_href True loc ?rev s = Inr (repositorySourceHref (rm_provider loc) (rm_url loc) ?rev s)"
    if "sr_path s = lit ''src/api.ts''" for s
  proof -
    have "split_on 47 (lit ''src/api.ts'') = [lit ''src'', lit ''api.ts'']" by (simp add: text_eval)
    moreover have "list_all uri_plain (lit ''src'')" "list_all uri_plain (lit ''api.ts'')"
      by (simp_all add: text_eval uri_plain_def is_alpha_def)
    ultimately show ?thesis using that by (simp add: source_href_def repositorySourceHref_def encode_plain)
  qed
  let ?src = "JObj [(lit ''path'', JStr (lit ''src/api.ts''))]"
  let ?comp = "JObj [(lit ''id'', JStr (lit ''api'')), (lit ''sources'', JArr [?src])]"
  let ?ref = "\<lparr>sr_path = lit ''src/api.ts'', sr_line = None, sr_end = None\<rparr>"
  let ?v = "\<lparr>vs_ref = ?ref, vs_label = JUndef, vs_href = repositorySourceHref (rm_provider loc) (rm_url loc) ?rev ?ref\<rparr>"
  have none: "field ?src ''path'' = JStr (lit ''src/api.ts'')" "field ?src ''line'' = JUndef" "field ?src ''end_line'' = JUndef"
    "field ?src ''label'' = JUndef" "field ?comp ''sources'' = JArr [?src]" by (simp_all add: field_def)
  have blob: "runGit sample_checkout (lit ''/shop'') (ObjectType ?rev (lit ''src/api.ts'')) = Inr (0, lit ''blob'' @ [10])"
    by (simp add: runGit_def sample_checkout_def)
  have "check_source sample_checkout (lit ''/shop'') True loc ?rev 0 (0, ?src) = Inr ?v"
    using href [of ?ref] by (simp add: check_source_def none sample_source line_number_def blob trim(3) check_lines_def Let_def)
  then have comp: "check_component sample_checkout (lit ''/shop'') True loc ?rev (0, ?comp) = Inr (field ?comp ''id'', [?v])"
    by (simp add: check_component_def none indexed_def)
  have "sourced (0, ?comp)" by (simp add: sourced_def none)
  then have "filter sourced (indexed (items (field sourced_diagram ''components''))) = [(0, ?comp)]"
    unfolding sourced_fields(2) by (simp add: indexed_def)
  then have checked: "traverse (check_component sample_checkout (lit ''/shop'') True loc ?rev)
      (filter sourced (indexed (items (field sourced_diagram ''components'')))) = Inr [(field ?comp ''id'', [?v])]"
    by (simp add: comp)
  have "hasRepositoryEvidence (lit ''architecture'') sourced_diagram" by (simp add: hasRepositoryEvidence_def sourced_fields(1))
  then show ?thesis
    using checked by (simp add: verifyRepositoryEvidence_def sourced_fields(1) decl fields text_of_def ascii_lower_def root reference_count_def Let_def)
qed

lemma evidence_verified_witness:
  "\<exists>e loc out found. verifyRepositoryEvidence sample_checkout sample_web (lit ''architecture'') sourced_diagram (lit ''/shop'') = Inr (Some e)
    \<and> parseRepositoryRemote sample_web True (JStr (lit ''https://github.com/acme/shop'')) = Remote loc
    \<and> parseRepositoryRemote sample_web False (JStr (js_trim out)) = Remote found \<and> rm_identity found = rm_identity loc
    \<and> ev_references e = 1"
proof -
  obtain e where e: "verifyRepositoryEvidence sample_checkout sample_web (lit ''architecture'') sourced_diagram (lit ''/shop'') = Inr (Some e)"
    using sample_verified by blast
  have "field (JObj [(lit ''url'', v), (lit ''revision'', u)]) ''url'' = v" for u v by (simp add: field_def)
  moreover have "(\<Sum>c \<leftarrow> items (field sourced_diagram ''components''). length (items (field c ''sources''))) = 1"
    unfolding sourced_fields(2) by (simp add: field_def)
  ultimately show ?thesis using evidence_verified [OF e] e unfolding sourced_fields(1) by auto
qed

end
