(* ===== verification/OutputPath.thy ===== *)
theory OutputPath
  imports Remotes
begin

text \<open>
  Where an output may be written: \<open>renderers/shared/output-path.mjs\<close>, for POSIX paths.  An absolute path is
  the list of its names.  The file system answers \<open>lstat\<close>, \<open>stat\<close>, \<open>realpath\<close> and the two probes with which
  the code finds out whether a directory ignores case or normalisation.
\<close>

section \<open>Paths\<close>

type_synonym path_names = "jstring list"

definition skipped :: "jstring \<Rightarrow> bool" where
  "skipped s \<longleftrightarrow> s = [] \<or> s = lit ''.''"

fun norm_from :: "path_names \<Rightarrow> path_names \<Rightarrow> path_names" where
  "norm_from acc [] = acc"
| "norm_from acc (s # ss) =
     (if skipped s then norm_from acc ss
      else if s = lit ''..'' then norm_from (butlast acc) ss
      else norm_from (acc @ [s]) ss)"

definition absolute :: "jstring \<Rightarrow> bool" where
  "absolute p \<longleftrightarrow> take 1 p = [47]"

text \<open>\<open>path.resolve\<close>\<close>

definition resolve_path :: "path_names \<Rightarrow> jstring \<Rightarrow> path_names" where
  "resolve_path cwd p = norm_from [] ((if absolute p then [] else cwd) @ split_on 47 p)"

text \<open>\<open>path.extname\<close> of the last segment, lower case\<close>

definition extension_of :: "jstring \<Rightarrow> jstring" where
  "extension_of base =
     (if 46 \<notin> set base \<or> base = lit ''..'' then []
      else let stem = rev (dropWhile (\<lambda>c. c \<noteq> 46) (rev base)) in
        if length stem \<le> 1 then [] else map ascii_lower (drop (length stem - 1) base))"

definition extname :: "path_names \<Rightarrow> jstring" where
  "extname segs = (case rev (filter (\<lambda>s. s \<noteq> []) segs) of [] \<Rightarrow> [] | base # _ \<Rightarrow> extension_of base)"

section \<open>The file system\<close>

datatype lstat_answer = NoEntry | LstatFailed | Entry | LinkTo jstring

datatype stat_answer = StatMissing | StatFailed | Stat bool "(nat \<times> nat) option"

record fs_world =
  fw_lstat :: "path_names \<Rightarrow> lstat_answer"
  fw_real :: "path_names \<Rightarrow> path_names option"
  fw_stat :: "path_names \<Rightarrow> stat_answer"
  fw_probe :: "path_names \<Rightarrow> bool option \<times> bool option"
  fw_nfc :: "jstring \<Rightarrow> jstring"
  fw_fold :: "jstring \<Rightarrow> jstring"

datatype path_error = CycleAt path_names | LookupFailed

definition MAX_SYMLINK_DEPTH :: nat where
  "MAX_SYMLINK_DEPTH = 64"

function canon_from :: "fs_world \<Rightarrow> nat \<Rightarrow> path_names \<Rightarrow> path_names \<Rightarrow> path_error + path_names" where
  "canon_from w depth current [] = Inr (norm_from [] current)"
| "canon_from w depth current (s # ss) =
     (case fw_lstat w (current @ [s]) of
        NoEntry \<Rightarrow> Inr (norm_from [] (current @ s # ss))
      | LstatFailed \<Rightarrow> Inl LookupFailed
      | LinkTo t \<Rightarrow>
          if MAX_SYMLINK_DEPTH \<le> depth then Inl (CycleAt (current @ [s]))
          else canon_from w (depth + 1) [] (norm_from [] ((if absolute t then [] else current) @ split_on 47 t @ ss))
      | Entry \<Rightarrow> (case fw_real w (current @ [s]) of None \<Rightarrow> Inl LookupFailed | Some c \<Rightarrow> canon_from w depth c ss))"
  by pat_completeness auto
termination
  by (relation "measures [\<lambda>(w, depth, current, ss). MAX_SYMLINK_DEPTH - depth, \<lambda>(w, depth, current, ss). length ss]") auto

definition canonicalFuturePath :: "fs_world \<Rightarrow> path_names \<Rightarrow> path_error + path_names" where
  "canonicalFuturePath w p = canon_from w 0 [] p"

section \<open>Aliases\<close>

definition sameFileIdentity :: "(nat \<times> nat) option \<Rightarrow> (nat \<times> nat) option \<Rightarrow> bool" where
  "sameFileIdentity l r \<longleftrightarrow> l \<noteq> None \<and> l = r"

text \<open>The path is reversed: its parents are its tails.\<close>

fun nearest_from :: "fs_world \<Rightarrow> path_names \<Rightarrow> (path_names \<times> (nat \<times> nat) option) option" where
  "nearest_from w p =
     (case fw_stat w (rev p) of
        Stat True i \<Rightarrow> map_option (\<lambda>d. (d, i)) (fw_real w (rev p))
      | StatFailed \<Rightarrow> None
      | _ \<Rightarrow> (case p of [] \<Rightarrow> None | s # ss \<Rightarrow> nearest_from w ss))"

definition nearestExistingDirectory :: "fs_world \<Rightarrow> path_names \<Rightarrow> (path_names \<times> (nat \<times> nat) option) option" where
  "nearestExistingDirectory w p = nearest_from w (rev (butlast p))"

fun relative :: "path_names \<Rightarrow> path_names \<Rightarrow> path_names" where
  "relative (a # as) (b # bs) = (if a = b then relative as bs else map (\<lambda>_. lit ''..'') (a # as) @ b # bs)"
| "relative as bs = map (\<lambda>_. lit ''..'') as @ bs"

definition future_text :: "fs_world \<Rightarrow> path_names \<Rightarrow> path_names \<Rightarrow> path_names \<Rightarrow> jstring" where
  "future_text w rules dir p =
     (let text = join_with [47] (relative dir p);
          composed = (if snd (fw_probe w rules) \<noteq> Some False then fw_nfc w text else text) in
      if fst (fw_probe w rules) \<noteq> Some False then fw_fold w composed else composed)"

text \<open>The names are compared by the rules of the directory of the left path.\<close>

definition futurePathsAlias :: "fs_world \<Rightarrow> path_names \<Rightarrow> path_names \<Rightarrow> path_error + bool" where
  "futurePathsAlias w l r =
     bindR (canonicalFuturePath w l) (\<lambda>left. bindR (canonicalFuturePath w r) (\<lambda>right.
       if left = right then Inr True
       else (case (nearestExistingDirectory w left, nearestExistingDirectory w right) of
           (Some (ld, li), Some (rd, ri)) \<Rightarrow>
             Inr ((ld = rd \<or> sameFileIdentity li ri) \<and> future_text w ld ld left = future_text w ld rd right)
         | _ \<Rightarrow> Inr False)))"

definition pathsAlias :: "fs_world \<Rightarrow> path_names \<Rightarrow> path_names \<Rightarrow> path_error + bool" where
  "pathsAlias w l r = bindR (futurePathsAlias w l r) (\<lambda>b.
     if b then Inr True
     else (case (fw_stat w l, fw_stat w r) of
         (Stat d i, Stat e j) \<Rightarrow> Inr (sameFileIdentity i j)
       | _ \<Rightarrow> Inr False))"

definition pathIsInside :: "fs_world \<Rightarrow> path_names \<Rightarrow> path_names \<Rightarrow> path_error + bool" where
  "pathIsInside w dir p =
     bindR (canonicalFuturePath w dir) (\<lambda>d. bindR (canonicalFuturePath w p) (\<lambda>q.
       Inr (relative d q = [] \<or> hd (relative d q) \<noteq> lit ''..'')))"

section \<open>Outputs\<close>

datatype output_source = CliOutput | MetaOutput | DefaultOutput

datatype output_error =
    MetaAbsolute
  | MetaExtension
  | MetaResolvedExtension
  | MetaOutside
  | InputAlias
  | TargetAlias
  | CliExtension
  | CliResolvedExtension
  | PathProblem path_error

record output_request =
  or_requested :: jstring
  or_authored :: jstring
  or_default :: jstring
  or_inputs :: "jstring list"
  or_others :: "jstring list"
  or_cwd :: path_names
  or_extension :: jstring

definition raw_output :: "output_request \<Rightarrow> jstring \<times> output_source" where
  "raw_output q =
     (if or_requested q \<noteq> [] then (or_requested q, CliOutput)
      else if or_authored q \<noteq> [] then (or_authored q, MetaOutput)
      else (or_default q, DefaultOutput))"

text \<open>\<open>path.isAbsolute\<close> of POSIX and of Windows\<close>

definition any_absolute :: "jstring \<Rightarrow> bool" where
  "any_absolute p \<longleftrightarrow> absolute p \<or> take 1 p = [92] \<or>
     (case p of c # d # e # _ \<Rightarrow> is_alpha c \<and> d = 58 \<and> (e = 47 \<or> e = 92) | _ \<Rightarrow> False)"

definition path_result :: "path_error + 'a \<Rightarrow> output_error + 'a" where
  "path_result r = (case r of Inl e \<Rightarrow> Inl (PathProblem e) | Inr x \<Rightarrow> Inr x)"

fun no_alias :: "fs_world \<Rightarrow> output_error \<Rightarrow> path_names \<Rightarrow> path_names list \<Rightarrow> output_error + unit" where
  "no_alias w e p [] = Inr ()"
| "no_alias w e p (q # qs) = bindR (path_result (pathsAlias w p q)) (\<lambda>b. if b then Inl e else no_alias w e p qs)"

definition check_meta :: "fs_world \<Rightarrow> path_names \<Rightarrow> jstring \<Rightarrow> path_names \<Rightarrow> output_error + unit" where
  "check_meta w cwd raw p =
     (if any_absolute raw then Inl MetaAbsolute
      else if extname (split_on 47 raw) \<noteq> lit ''.html'' then Inl MetaExtension
      else bindR (path_result (canonicalFuturePath w p)) (\<lambda>q.
        if extname q \<noteq> lit ''.html'' then Inl MetaResolvedExtension
        else bindR (path_result (pathIsInside w cwd p)) (\<lambda>b. guardR b MetaOutside)))"

definition check_cli :: "fs_world \<Rightarrow> jstring \<Rightarrow> jstring \<Rightarrow> path_names \<Rightarrow> output_error + unit" where
  "check_cli w ext raw p =
     bindR (path_result (canonicalFuturePath w p)) (\<lambda>q.
       if extname (split_on 47 raw) \<noteq> ext then Inl CliExtension
       else guardR (extname q = ext) CliResolvedExtension)"

definition resolveOutputPath :: "fs_world \<Rightarrow> output_request \<Rightarrow> output_error + path_names \<times> output_source" where
  "resolveOutputPath w q =
     (case raw_output q of (raw, source) \<Rightarrow>
       let p = resolve_path (or_cwd q) raw in
       bindR (if source = MetaOutput then check_meta w (or_cwd q) raw p else Inr ()) (\<lambda>_.
       bindR (no_alias w InputAlias p (map (resolve_path (or_cwd q)) (or_inputs q))) (\<lambda>_.
       bindR (no_alias w TargetAlias p (map (resolve_path (or_cwd q)) (or_others q))) (\<lambda>_.
       bindR (if source = CliOutput then check_cli w (or_extension q) raw p else Inr ()) (\<lambda>_.
       Inr (p, source))))))"

end
