(* ===== verification/OutputPathFacts.thy ===== *)
theory OutputPathFacts
  imports OutputPath RemotesFacts "HOL-Library.Sublist"
begin

text \<open>
  The specification is how the system itself follows a path, one segment at a time; the canonical path of
  the code is where that leads, as long as no link climbs up after it has gone down.
\<close>

section \<open>Following a path\<close>

inductive leads_to :: "fs_world \<Rightarrow> path_names \<Rightarrow> path_names \<Rightarrow> path_names \<Rightarrow> bool" for w where
  stay: "leads_to w cur [] cur"
| skip: "skipped s \<Longrightarrow> leads_to w cur ss q \<Longrightarrow> leads_to w cur (s # ss) q"
| up: "leads_to w (butlast cur) ss q \<Longrightarrow> leads_to w cur (lit ''..'' # ss) q"
| future: "\<not> skipped s \<Longrightarrow> s \<noteq> lit ''..'' \<Longrightarrow> fw_lstat w (cur @ [s]) = NoEntry
    \<Longrightarrow> leads_to w cur (s # ss) (norm_from (cur @ [s]) ss)"
| down: "\<not> skipped s \<Longrightarrow> s \<noteq> lit ''..'' \<Longrightarrow> fw_lstat w (cur @ [s]) = Entry \<Longrightarrow> leads_to w (cur @ [s]) ss q
    \<Longrightarrow> leads_to w cur (s # ss) q"
| link: "\<not> skipped s \<Longrightarrow> s \<noteq> lit ''..'' \<Longrightarrow> fw_lstat w (cur @ [s]) = LinkTo t
    \<Longrightarrow> leads_to w (if absolute t then [] else cur) (split_on 47 t @ ss) q \<Longrightarrow> leads_to w cur (s # ss) q"

inductive_cases leads_nil: "leads_to w cur [] q"
inductive_cases leads_cons: "leads_to w cur (s # ss) q"

text \<open>No \<open>..\<close> after a name, and a file system that tells names apart by their letters.\<close>

definition straight :: "path_names \<Rightarrow> bool" where
  "straight ss \<longleftrightarrow> lit ''..'' \<notin> set (dropWhile (\<lambda>s. skipped s \<or> s = lit ''..'') ss)"

definition plain_world :: "fs_world \<Rightarrow> bool" where
  "plain_world w \<longleftrightarrow> (\<forall>p t. fw_lstat w p = LinkTo t \<longrightarrow> straight (split_on 47 t)) \<and> (\<forall>p c. fw_real w p = Some c \<longrightarrow> c = p)"

definition clean :: "path_names \<Rightarrow> bool" where
  "clean ss \<longleftrightarrow> list_all (\<lambda>s. \<not> skipped s \<and> s \<noteq> lit ''..'') ss"

definition settled :: "fs_world \<Rightarrow> path_names \<Rightarrow> bool" where
  "settled w p \<longleftrightarrow> clean p \<and> (\<forall>n < length p. fw_lstat w (take (Suc n) p) = Entry)"

lemma clean_simps [simp]:
  "clean []" "clean (s # ss) \<longleftrightarrow> \<not> skipped s \<and> s \<noteq> lit ''..'' \<and> clean ss" "clean (as @ bs) \<longleftrightarrow> clean as \<and> clean bs"
  by (simp_all add: clean_def)

lemma norm_clean_append: "clean ss \<Longrightarrow> norm_from acc (ss @ rest) = norm_from (acc @ ss) rest"
  by (induction ss arbitrary: acc) auto

lemma norm_clean: "clean ss \<Longrightarrow> norm_from acc ss = acc @ ss"
  using norm_clean_append [of ss acc "[]"] by simp

lemma clean_butlast: "clean p \<Longrightarrow> clean (butlast p)"
  by (auto simp: clean_def list_all_iff dest: in_set_butlastD)

lemma clean_norm: "clean acc \<Longrightarrow> clean (norm_from acc ss)"
  by (induction acc ss rule: norm_from.induct) (auto simp: clean_butlast)

lemma settled_butlast: "settled w p \<Longrightarrow> settled w (butlast p)"
  by (auto simp: settled_def clean_butlast take_butlast)

lemma settled_snoc: "settled w p \<Longrightarrow> \<not> skipped s \<Longrightarrow> s \<noteq> lit ''..'' \<Longrightarrow> fw_lstat w (p @ [s]) = Entry \<Longrightarrow> settled w (p @ [s])"
  by (auto simp: settled_def less_Suc_eq)

lemma norm_filter: "filter (\<lambda>s. \<not> skipped s) xs = filter (\<lambda>s. \<not> skipped s) ys \<Longrightarrow> norm_from acc xs = norm_from acc ys"
proof -
  have "norm_from acc xs = norm_from acc (filter (\<lambda>s. \<not> skipped s) xs)" for acc xs
    by (induction acc xs rule: norm_from.induct) auto
  then show "filter (\<lambda>s. \<not> skipped s) xs = filter (\<lambda>s. \<not> skipped s) ys \<Longrightarrow> ?thesis" by metis
qed

lemma dots_not_skipped [simp]: "\<not> skipped (lit ''..'')"
  by (simp add: skipped_def)

lemma skips_first: "list_all skipped us \<Longrightarrow> leads_to w cur ys q \<Longrightarrow> leads_to w cur (us @ ys) q"
  by (induction us) (auto intro: leads_to.skip)

lemma unskipped_split:
  assumes "\<not> skipped x" and "filter (\<lambda>s. \<not> skipped s) (x # xs) = filter (\<lambda>s. \<not> skipped s) ys"
  shows "\<exists>us vs. ys = us @ x # vs \<and> list_all skipped us \<and> filter (\<lambda>s. \<not> skipped s) xs = filter (\<lambda>s. \<not> skipped s) vs"
proof -
  have "x # filter (\<lambda>s. \<not> skipped s) xs = filter (\<lambda>s. \<not> skipped s) ys" using assms by simp
  then show ?thesis by (auto simp: Cons_eq_filter_iff list_all_iff)
qed

text \<open>Empty names and single dots do not matter.\<close>

lemma leads_filter:
  assumes "leads_to w cur xs q" and "filter (\<lambda>s. \<not> skipped s) xs = filter (\<lambda>s. \<not> skipped s) ys"
  shows "leads_to w cur ys q"
  using assms
proof (induction arbitrary: ys rule: leads_to.induct)
  case (stay cur)
  then have "list_all skipped ys" by (auto simp: list_all_iff filter_empty_conv dest: sym)
  from skips_first [OF this leads_to.stay] show ?case by simp
next
  case (skip s cur ss q)
  then show ?case by simp
next
  case (up cur ss q)
  then obtain us vs where y: "ys = us @ lit ''..'' # vs" "list_all skipped us" "filter (\<lambda>s. \<not> skipped s) ss = filter (\<lambda>s. \<not> skipped s) vs"
    using unskipped_split [OF dots_not_skipped up.prems] by blast
  then show ?case using up.IH [OF y(3)] by (auto intro: skips_first leads_to.up)
next
  case (future s cur ss)
  then obtain us vs where y: "ys = us @ s # vs" "list_all skipped us" "filter (\<lambda>s. \<not> skipped s) ss = filter (\<lambda>s. \<not> skipped s) vs"
    using unskipped_split [OF future.hyps(1) future.prems] by blast
  then show ?case using future.hyps leads_to.future [of s w cur vs] norm_filter [OF y(3)] by (auto intro: skips_first)
next
  case (down s cur ss q)
  then obtain us vs where y: "ys = us @ s # vs" "list_all skipped us" "filter (\<lambda>s. \<not> skipped s) ss = filter (\<lambda>s. \<not> skipped s) vs"
    using unskipped_split [OF down.hyps(1) down.prems] by blast
  then show ?case using down.hyps down.IH [OF y(3)] by (auto intro: skips_first leads_to.down)
next
  case (link s cur t ss q)
  then obtain us vs where y: "ys = us @ s # vs" "list_all skipped us" "filter (\<lambda>s. \<not> skipped s) ss = filter (\<lambda>s. \<not> skipped s) vs"
    using unskipped_split [OF link.hyps(1) link.prems] by blast
  then show ?case using link.hyps link.IH [of "split_on 47 t @ vs"] by (auto intro: skips_first leads_to.link)
qed

text \<open>Real directories are walked without a turn.\<close>

lemma leads_settled: "settled w (cur @ p) \<Longrightarrow> leads_to w cur (p @ ss) q \<Longrightarrow> leads_to w (cur @ p) ss q"
proof (induction p arbitrary: cur)
  case (Cons s p)
  have "settled w ((cur @ [s]) @ p)" using Cons.prems(1) by simp
  moreover have "fw_lstat w (cur @ [s]) = Entry"
    using Cons.prems(1) by (auto simp: settled_def dest!: spec [of _ "length cur"])
  moreover have "\<not> skipped s" "s \<noteq> lit ''..''" using Cons.prems(1) by (auto simp: settled_def)
  ultimately show ?case using Cons.prems(2) Cons.IH [of "cur @ [s]"] by (auto elim: leads_cons)
qed simp

lemma ups_first:
  assumes "list_all (\<lambda>s. skipped s \<or> s = lit ''..'') us" and "settled w cur"
  obtains base where "settled w base" "norm_from cur (us @ rest) = norm_from base rest"
    "\<And>q. leads_to w base rest q \<Longrightarrow> leads_to w cur (us @ rest) q"
  using assms
proof (induction us arbitrary: cur thesis)
  case (Cons u us)
  show ?case
  proof (cases "skipped u")
    case True
    with Cons.prems(2,3) obtain base where "settled w base" "norm_from cur (us @ rest) = norm_from base rest"
      "\<And>q. leads_to w base rest q \<Longrightarrow> leads_to w cur (us @ rest) q" by (auto intro: Cons.IH)
    with True show ?thesis by (auto intro!: Cons.prems(1) [of base] leads_to.skip)
  next
    case False
    then have u: "u = lit ''..''" using Cons.prems(2) by simp
    obtain base where "settled w base" "norm_from (butlast cur) (us @ rest) = norm_from base rest"
      "\<And>q. leads_to w base rest q \<Longrightarrow> leads_to w (butlast cur) (us @ rest) q"
      using Cons.IH [of "butlast cur"] Cons.prems(2,3) settled_butlast by auto
    with u show ?thesis by (auto intro!: Cons.prems(1) [of base] leads_to.up)
  qed
qed simp

section \<open>The canonical path\<close>

lemma link_leads:
  assumes "settled w base" and "straight ts" and "clean ss" and "leads_to w [] (norm_from [] (base @ ts @ ss)) q"
  shows "leads_to w base (ts @ ss) q"
proof -
  let ?turn = "\<lambda>s. skipped s \<or> s = lit ''..''"
  let ?us = "takeWhile ?turn ts" and ?rest = "dropWhile ?turn ts"
  have "list_all ?turn ?us" by (auto simp: list_all_iff dest: set_takeWhileD)
  then obtain top where top: "settled w top" "norm_from base (?us @ ?rest @ ss) = norm_from top (?rest @ ss)"
    "\<And>q. leads_to w top (?rest @ ss) q \<Longrightarrow> leads_to w base (?us @ ?rest @ ss) q"
    using ups_first [OF _ assms(1)] by blast
  let ?f = "filter (\<lambda>s. \<not> skipped s) (?rest @ ss)"
  have "lit ''..'' \<notin> set (?rest @ ss)" using assms(2,3) by (auto simp: straight_def clean_def list_all_iff)
  then have "clean ?f" by (auto simp: clean_def list_all_iff)
  then have "norm_from top (?rest @ ss) = top @ ?f" using norm_filter [of "?rest @ ss" ?f top] by (simp add: norm_clean)
  moreover have "norm_from [] (base @ ts @ ss) = norm_from base (?us @ ?rest @ ss)"
    using assms(1) norm_clean_append [of base "[]" "ts @ ss"] by (simp add: settled_def flip: append_assoc)
  ultimately have "leads_to w [] (top @ ?f) q" using assms(4) top(2) by simp
  then have "leads_to w top ?f q" using leads_settled [of w "[]" top ?f q] top(1) by simp
  then have "leads_to w top (?rest @ ss) q" by (rule leads_filter) simp
  from top(3) [OF this] show ?thesis by (simp flip: append_assoc)
qed

lemma canon_leads:
  assumes "canon_from w depth cur ss = Inr q" and "plain_world w" and "settled w cur" and "clean ss"
  shows "leads_to w cur ss q \<and> clean q"
  using assms
proof (induction w depth cur ss rule: canon_from.induct)
  case (1 w depth cur)
  then have "clean cur" by (simp add: settled_def)
  then have "q = cur" using 1(1) norm_clean [of cur "[]"] by simp
  then show ?case using \<open>clean cur\<close> by (simp add: leads_to.stay)
next
  case (2 w depth cur s ss)
  have s: "\<not> skipped s" "s \<noteq> lit ''..''" "clean ss" using 2(6) by simp_all
  show ?case
  proof (cases "fw_lstat w (cur @ [s])")
    case NoEntry
    have c: "clean (cur @ s # ss)" using 2(5,6) by (simp add: settled_def)
    then have "q = cur @ s # ss" using 2(3) NoEntry norm_clean [OF c, of "[]"] by simp
    then show ?thesis using leads_to.future [OF s(1,2) NoEntry, of ss] c norm_clean [OF s(3), of "cur @ [s]"] by simp
  next
    case LstatFailed
    then show ?thesis using 2(3) by simp
  next
    case Entry
    then obtain c where c: "fw_real w (cur @ [s]) = Some c" "canon_from w depth c ss = Inr q"
      using 2(3) by (auto split: option.splits)
    then have "c = cur @ [s]" using 2(4) by (auto simp: plain_world_def)
    moreover have "settled w (cur @ [s])" using 2(5) s(1,2) Entry by (rule settled_snoc)
    ultimately have "leads_to w (cur @ [s]) ss q \<and> clean q" using 2(1) [OF Entry c(1)] c(2) 2(4) s(3) by simp
    then show ?thesis using s(1,2) Entry by (auto intro: leads_to.down)
  next
    case (LinkTo t)
    let ?base = "if absolute t then [] else cur"
    let ?n = "norm_from [] (?base @ split_on 47 t @ ss)"
    have d: "\<not> MAX_SYMLINK_DEPTH \<le> depth" and r: "canon_from w (depth + 1) [] ?n = Inr q"
      using 2(3) LinkTo by (auto split: if_split_asm)
    have n: "settled w []" "clean ?n" by (simp_all add: settled_def clean_norm)
    have q: "leads_to w [] ?n q \<and> clean q" by (rule 2(2) [OF LinkTo d r 2(4) n])
    have "settled w ?base" "straight (split_on 47 t)" using 2(4,5) LinkTo by (auto simp: settled_def plain_world_def)
    from link_leads [OF this s(3)] q have "leads_to w ?base (split_on 47 t @ ss) q" by blast
    then show ?thesis using leads_to.link [OF s(1,2) LinkTo] q by blast
  qed
qed

lemma canonical_leads:
  "canonicalFuturePath w p = Inr q \<Longrightarrow> plain_world w \<Longrightarrow> clean p \<Longrightarrow> leads_to w [] p q \<and> clean q"
  unfolding canonicalFuturePath_def by (rule canon_leads) (simp_all add: settled_def)

text \<open>A \<open>..\<close> that follows a link inside the text of a link is taken back before that link is followed, so the
  canonical path can stay inside a directory that the file is not in.\<close>

definition twisted_world :: fs_world where
  "twisted_world =
     \<lparr>fw_lstat = (\<lambda>p.
        if p = [lit ''w''] \<or> p = [lit ''x''] \<or> p = [lit ''x'', lit ''y''] then Entry
        else if p = [lit ''w'', lit ''out.html''] then LinkTo (lit ''d/../evil.html'')
        else if p = [lit ''w'', lit ''d''] then LinkTo (lit ''/x/y'')
        else NoEntry),
      fw_real = Some, fw_stat = (\<lambda>p. StatMissing), fw_probe = (\<lambda>p. (Some False, Some False)), fw_nfc = (\<lambda>s. s), fw_fold = (\<lambda>s. s)\<rparr>"

lemma twisted_canonical: "canonicalFuturePath twisted_world [lit ''w'', lit ''out.html''] = Inr [lit ''w'', lit ''evil.html'']"
  by code_simp

lemma twisted_leads: "leads_to twisted_world [] [lit ''w'', lit ''out.html''] [lit ''x'', lit ''evil.html'']"
proof -
  have split: "split_on 47 (lit ''d/../evil.html'') = [lit ''d'', lit ''..'', lit ''evil.html'']" "split_on 47 (lit ''/x/y'') = [[], lit ''x'', lit ''y'']"
    by (simp_all add: text_eval)
  have at: "fw_lstat twisted_world [lit ''w''] = Entry" "fw_lstat twisted_world [lit ''x''] = Entry"
    "fw_lstat twisted_world [lit ''x'', lit ''y''] = Entry" "fw_lstat twisted_world [lit ''x'', lit ''evil.html''] = NoEntry"
    "fw_lstat twisted_world [lit ''w'', lit ''out.html''] = LinkTo (lit ''d/../evil.html'')"
    "fw_lstat twisted_world [lit ''w'', lit ''d''] = LinkTo (lit ''/x/y'')" by (simp_all add: twisted_world_def)
  have names: "\<not> skipped (lit ''w'')" "\<not> skipped (lit ''x'')" "\<not> skipped (lit ''y'')" "\<not> skipped (lit ''d'')"
    "\<not> skipped (lit ''out.html'')" "\<not> skipped (lit ''evil.html'')" "skipped []" by (simp_all add: skipped_def)
  have abs: "absolute (lit ''/x/y'')" "\<not> absolute (lit ''d/../evil.html'')" by (simp_all add: absolute_def text_eval)
  have "leads_to twisted_world [lit ''x''] [lit ''evil.html''] [lit ''x'', lit ''evil.html'']"
    using leads_to.future [of "lit ''evil.html''" twisted_world "[lit ''x'']" "[]"] at names by simp
  then have "leads_to twisted_world [lit ''x'', lit ''y''] [lit ''..'', lit ''evil.html''] [lit ''x'', lit ''evil.html'']"
    using leads_to.up [of twisted_world "[lit ''x'', lit ''y'']"] by simp
  then have "leads_to twisted_world [lit ''x''] [lit ''y'', lit ''..'', lit ''evil.html''] [lit ''x'', lit ''evil.html'']"
    using leads_to.down [of "lit ''y''" twisted_world "[lit ''x'']"] at names by simp
  then have "leads_to twisted_world [] [lit ''x'', lit ''y'', lit ''..'', lit ''evil.html''] [lit ''x'', lit ''evil.html'']"
    using leads_to.down [of "lit ''x''" twisted_world "[]"] at names by simp
  then have "leads_to twisted_world [] [[], lit ''x'', lit ''y'', lit ''..'', lit ''evil.html''] [lit ''x'', lit ''evil.html'']"
    by (rule leads_to.skip [OF names(7)])
  then have "leads_to twisted_world [lit ''w''] [lit ''d'', lit ''..'', lit ''evil.html''] [lit ''x'', lit ''evil.html'']"
    using leads_to.link [of "lit ''d''" twisted_world "[lit ''w'']" "lit ''/x/y''"] at names abs split by simp
  then have "leads_to twisted_world [lit ''w''] [lit ''out.html''] [lit ''x'', lit ''evil.html'']"
    using leads_to.link [of "lit ''out.html''" twisted_world "[lit ''w'']" "lit ''d/../evil.html''" "[]"] at names abs split by simp
  then show ?thesis using leads_to.down [of "lit ''w''" twisted_world "[]"] at names by simp
qed

section \<open>Outputs\<close>

lemma relative_inside: "clean q \<Longrightarrow> (relative d q = [] \<or> hd (relative d q) \<noteq> lit ''..'') \<longleftrightarrow> prefix d q"
  by (induction d q rule: relative.induct) (auto simp: neq_Nil_conv, metis hd_map)

lemma path_result_Inr: "path_result r = Inr x \<longleftrightarrow> r = Inr x"
  by (cases r) (auto simp: path_result_def)

lemma no_alias_Inr: "no_alias w e p qs = Inr u \<longleftrightarrow> (\<forall>q \<in> set qs. pathsAlias w p q = Inr False)"
  by (induction qs) (auto simp: result_iff path_result_Inr split: if_splits)

lemma not_alias_apart:
  assumes "pathsAlias w p q = Inr False"
  shows "\<exists>a b. canonicalFuturePath w p = Inr a \<and> canonicalFuturePath w q = Inr b \<and> a \<noteq> b"
    "\<And>d e i. fw_stat w p = Stat d (Some i) \<Longrightarrow> fw_stat w q \<noteq> Stat e (Some i)"
  using assms by (auto simp: pathsAlias_def futurePathsAlias_def sameFileIdentity_def result_iff split: if_split_asm stat_answer.split_asm)

lemma clean_resolve: "clean (resolve_path cwd p)"
  by (simp add: resolve_path_def clean_norm)

text \<open>An output that a document chooses for itself lies, where the system follows its path to, below the place the
  working directory leads to, ends in \<open>.html\<close> there, and is neither at the place of an input or of another
  output nor the same file as one of them.\<close>

lemma authored_output_contained:
  assumes "resolveOutputPath w r = Inr (p, MetaOutput)" and "plain_world w" and "clean (or_cwd r)"
  shows "\<exists>dir place. leads_to w [] (or_cwd r) dir \<and> leads_to w [] p place \<and> prefix dir place \<and> extname place = lit ''.html''
    \<and> (\<forall>x \<in> set (or_inputs r @ or_others r). \<exists>other. leads_to w [] (resolve_path (or_cwd r) x) other \<and> other \<noteq> place
         \<and> (\<forall>d e i. fw_stat w p = Stat d (Some i) \<longrightarrow> fw_stat w (resolve_path (or_cwd r) x) \<noteq> Stat e (Some i)))"
proof -
  let ?cwd = "or_cwd r"
  obtain raw where p: "p = resolve_path ?cwd raw" and meta: "check_meta w ?cwd raw p = Inr ()"
    and ins: "no_alias w InputAlias p (map (resolve_path ?cwd) (or_inputs r)) = Inr ()"
    and outs: "no_alias w TargetAlias p (map (resolve_path ?cwd) (or_others r)) = Inr ()"
    using assms(1) by (auto simp: resolveOutputPath_def Let_def bindR_Inr_iff split: prod.split_asm)
  obtain place dir where place: "canonicalFuturePath w p = Inr place" "extname place = lit ''.html''"
    and dir: "canonicalFuturePath w ?cwd = Inr dir" "relative dir place = [] \<or> hd (relative dir place) \<noteq> lit ''..''"
    using meta by (auto simp: check_meta_def pathIsInside_def result_iff path_result_Inr split: if_split_asm)
  have lp: "leads_to w [] p place" "clean place" using canonical_leads [OF place(1) assms(2)] clean_resolve p by auto
  have ld: "leads_to w [] ?cwd dir" using canonical_leads [OF dir(1) assms(2,3)] by simp
  have "prefix dir place" using dir(2) relative_inside [OF lp(2)] by simp
  moreover have "\<exists>other. leads_to w [] (resolve_path ?cwd x) other \<and> other \<noteq> place
      \<and> (\<forall>d e i. fw_stat w p = Stat d (Some i) \<longrightarrow> fw_stat w (resolve_path ?cwd x) \<noteq> Stat e (Some i))"
    if "x \<in> set (or_inputs r @ or_others r)" for x
  proof -
    have a: "pathsAlias w p (resolve_path ?cwd x) = Inr False" using that ins outs by (auto simp: no_alias_Inr)
    obtain other where "canonicalFuturePath w (resolve_path ?cwd x) = Inr other" "other \<noteq> place"
      using not_alias_apart(1) [OF a] place(1) by auto
    then show ?thesis using canonical_leads [OF _ assms(2) clean_resolve] not_alias_apart(2) [OF a] by blast
  qed
  ultimately show ?thesis using lp(1) ld place(2) by blast
qed

definition small_world :: fs_world where
  "small_world =
     \<lparr>fw_lstat = (\<lambda>p. if p = [lit ''w''] \<or> p = [lit ''v''] then Entry else if p = [lit ''w'', lit ''l''] then LinkTo (lit ''../w'') else NoEntry),
      fw_real = Some, fw_stat = (\<lambda>p. StatMissing), fw_probe = (\<lambda>p. (Some False, Some False)), fw_nfc = (\<lambda>s. s), fw_fold = (\<lambda>s. s)\<rparr>"

definition small_request :: output_request where
  "small_request = \<lparr>or_requested = [], or_authored = lit ''l/a.html'', or_default = lit ''x.html'', or_inputs = [lit ''a.json''], or_others = [],
     or_cwd = [lit ''w''], or_extension = lit ''.html''\<rparr>"

lemma authored_output_contained_witness:
  "\<exists>p dir place. resolveOutputPath small_world small_request = Inr (p, MetaOutput)
     \<and> leads_to small_world [] (or_cwd small_request) dir \<and> leads_to small_world [] p place \<and> prefix dir place"
proof -
  have r: "resolveOutputPath small_world small_request = Inr ([lit ''w'', lit ''l'', lit ''a.html''], MetaOutput)" by code_simp
  have "straight (split_on 47 (lit ''../w''))" by code_simp
  then have "plain_world small_world" by (simp add: plain_world_def small_world_def)
  moreover have "clean (or_cwd small_request)" by code_simp
  ultimately show ?thesis using authored_output_contained [OF r] r by blast
qed

end
