(* ===== verification/Spec2Isabelle.thy ===== *)
theory Spec2Isabelle
  imports UpdateProperties ProtocolProperties RouteProperties PortProperties LegendFacts Profiles DeltaProperties SequenceFacts ArchitectureFacts LifecycleFacts DataflowFacts WorkflowMigrationFacts MigrationSample PreviewFacts CommandsFacts
    EvidenceFacts OutputPathFacts
begin

text \<open>
  \<^bold>\<open>Verification of the archify skill\<close>

  The repository ships the skill \<open>archify\<close> under \<open>src/.joycode/skills/archify\<close>: it turns a JSON document into
  a technical diagram, an SVG inside an HTML page, and keeps itself up to date.  All paths below are
  relative to that directory.  The program has five diagram types (architecture, workflow, sequence,
  data flow, lifecycle), a set of shared geometry gates that refuse a drawing that is hard to read, a
  comparison of two architecture snapshots, a migration of old workflows, and an update notifier whose
  cache several processes share.  A command line writes the results to files, and a live preview rebuilds a
  diagram whenever its source changes.

  \<^bold>\<open>How the parts interact.\<close>  A renderer reads a document that a generated schema validator has
  accepted, measures its nodes (text widths, grids, lanes), routes its relationships, runs the shared
  gates over the routes and refuses the document when a gate or a rule of its own reports something.
  Workflows go further: the layout, the router and the validation form a compiler in which the router
  can send a request for more room back to the layout.  The migration calls that compiler several
  times.  The update notifier reads a cached state, decides whether to ask the network, and commits the
  new state through a directory protocol; a notification carries an event key with which the user
  acknowledges it.

  \<^bold>\<open>Theories and sources.\<close>  A definition has the name of the function it models where Isabelle
  allows it; the pieces of a long function have names of their own.

  \<^item> \<open>Prelude\<close>, \<open>JsText\<close>, \<open>StableSort\<close>: JavaScript values (\<open>jval\<close> with \<open>JUndef\<close> for a missing
    member), strings as UTF-16 code units, \<open>JSON.stringify\<close>, results as sums, and \<open>Array.prototype.sort\<close> as
    a stable insertion; \<open>Tables\<close>: facts about lists with their indexes, pairs and keyed tables.
  \<^item> \<open>Semver\<close>, \<open>Precedence\<close>, \<open>UpdateContract\<close>, \<open>ManifestFacts\<close>: \<open>scripts/update-contract.mjs\<close>.
  \<^item> \<open>UpdateState\<close>, \<open>UpdateStateFacts\<close>, \<open>CacheFile\<close>, \<open>UpdateCheck\<close>, \<open>UpdateCheckFacts\<close>, \<open>UpdateProperties\<close>:
    the state, schedule and decisions of \<open>scripts/check-update.mjs\<close>; \<open>UpdateProtocol\<close>,
    \<open>UpdateProtocolFacts\<close>, \<open>ProtocolProperties\<close>: its operations directory as an inductive step
    relation of interleaved processes.
  \<^item> \<open>Geometry\<close>, \<open>GeometryFacts\<close>, \<open>Routes\<close>, \<open>RouteGates\<close>, \<open>RouteFacts\<close>, \<open>RouteProperties\<close>, \<open>Ports\<close>,
    \<open>PortProperties\<close>: \<open>renderers/shared/geometry.mjs\<close>.
  \<^item> \<open>TextFit\<close>, \<open>Legend\<close>, \<open>LegendFacts\<close>, \<open>Profiles\<close>: \<open>text-fit.mjs\<close>, parts of \<open>utils.mjs\<close>, \<open>legend.mjs\<close> and
    \<open>engineering-profiles.mjs\<close> of \<open>renderers/shared\<close>.
  \<^item> \<open>Delta\<close>, \<open>DeltaFacts\<close>, \<open>DeltaProperties\<close>: the comparator of \<open>delta/architecture-delta.mjs\<close>.
  \<^item> \<open>Remotes\<close>, \<open>RemotesFacts\<close>: \<open>renderers/shared/repository-location.mjs\<close>, the parser of repository addresses
    with the coding of URI segments; \<open>Evidence\<close>, \<open>EvidenceFacts\<close>: \<open>renderers/shared/repository-evidence.mjs\<close>
    over the answers of git; \<open>OutputPath\<close>, \<open>OutputPathFacts\<close>: \<open>renderers/shared/output-path.mjs\<close> for POSIX paths
    over the answers of the file system.
  \<^item> \<open>Diagrams\<close>, \<open>Drawings\<close>: what the renderers share, and the interface between them and the gates.
  \<^item> \<open>Sequence\<close>, \<open>Lifecycle\<close>, \<open>Dataflow\<close> and their facts: the renderers of these types.
  \<^item> \<open>Grid\<close>, \<open>Boundaries\<close>, \<open>Connections\<close>, \<open>Architecture\<close> and their facts:
    \<open>renderers/architecture/render-architecture.mjs\<close> with \<open>grid.mjs\<close> and \<open>layout-report.mjs\<close>.
  \<^item> \<open>WorkflowContract\<close>, \<open>WorkflowLayout\<close>, \<open>WorkflowScene\<close>, \<open>WorkflowRouter\<close>, \<open>WorkflowCanvas\<close>,
    \<open>WorkflowPins\<close>, \<open>WorkflowCheck\<close>, \<open>WorkflowCompiler\<close> and their facts:
    \<open>renderers/workflow/workflow-compiler.mjs\<close> in the order of its stages (canonical order and semantic
    contract; columns and lanes; frames, headers and legend; router; canvas; authored positions;
    validation; the whole compiler with its feedback loop).
  \<^item> \<open>WorkflowMigration\<close>, \<open>WorkflowMigrationFacts\<close>: \<open>renderers/workflow/workflow-migration-geometry.mjs\<close>
    and \<open>migrations/workflow-v2.mjs\<close>.  \<open>WorkflowSamples\<close> and \<open>MigrationSample\<close> hold small documents on
    which the hypotheses of the compiler's theorems hold.
  \<^item> \<open>Preview\<close>, \<open>PreviewFacts\<close>: the state machine of \<open>bin/preview.mjs\<close>, one function per event handler and an
    inductive predicate of runs.
  \<^item> \<open>Commands\<close>, \<open>CommandsFacts\<close>: how \<open>compare\<close>, \<open>deliver\<close> and \<open>migrate\<close> of \<open>bin/archify.mjs\<close> write files, over
    a map from places to files in which every operation may fail, the recursive creation of a directory
    after each of its steps.

  \<^bold>\<open>Interfaces.\<close>  \<open>comparison\<close> (Precedence) is what the notifier needs of a comparison of texts by a
  parser, interpreted as \<open>versions\<close>.  \<open>comparator\<close> (StableSort) is what a sort needs of a comparison by
  a key; its interpretations are the text order of the delta, the ports, the messages, the phases of a
  workflow, the canonical order of its nodes, edges, phases and groups, and the costs of routes.
  \<open>drawing\<close> and its extension \<open>node_drawing\<close> (Drawings) are what a renderer promises to the shared gates:
  an accepted document has silent gates, and its routes run over the placed nodes; they are
  interpreted for all five renderers.  \<open>ranks\<close> (WorkflowMigrationFacts) are two rising lists of columns,
  interpreted by the fixed columns and the columns of any readable layout.

  \<^bold>\<open>What is proved.\<close>  For the notifier: the version order is SemVer precedence, cached states stay normal
  and recoverable and read back as written, notifications only name newer versions and their keys
  acknowledge them, the directory protocol is serialisable under any interleaving, each generation has
  one fate, and operations end.  For the gates: the flow and crossing gates are exact statements about
  the plane, normalised routes bend, and ports are spread inside their side.  For every renderer: an
  accepted document has unique nodes apart from each other, routes clear of foreign nodes, and labels
  off nodes or off each other.  The frames of an architecture diagram hold their members and, where a
  profile enforces it, their titles.  For workflows: the layout keeps its distances for every feedback,
  the router takes the cheapest feasible route, authored points are kept, a compiled workflow of either
  version is sound, the feedback loop meets every request, and the final canvas holds all that is drawn.
  For the migration: it only moves authored x coordinates, all by one monotone mapping that follows the
  columns of the layout, and its result compiles and migrates to itself.
  For the comparison: completeness, symmetry, and the exact domain for documents that passed the schema;
  the two forms of a remote on a known forge name the same repository, accepted evidence is in the
  pinned commit, and an authored output stays inside the working directory.  For the preview: whatever
  the interleaving, it serves only what a child delivered with success and the matching hash, it comes to
  rest with the present source verified or refused, and a stop is final.  For the commands: a pair is
  written as a whole, or its targets are as before except those that the errors of the rollback name,
  whose previous file may be lost with the staging directory (\<open>pair_rollback_loss\<close>); deliveries and
  migrations change their target only, and only to what was rendered and checked, but the missing
  directories on the way to it may be made, and stay after a failure.

  \<^bold>\<open>Numbers, bounds and fuel.\<close>  Coordinates are reals where the code has doubles; the tolerances of the
  code (1/10000 and the like) are kept, and \<open>Math.round\<close>, \<open>toFixed(6)\<close> and \<open>Math.ceil\<close> are written out.
  A coordinate that may be \<open>NaN\<close> is an option.  Loops that the code bounds have the bound of the code: eight
  attempts to promote a claim, 32 rounds between titles and width, 7 probes and 53 halvings of an
  outside channel, three rounds of layout feedback (four attempts).  A preview does at most 28 things after the last edit, by
  a measure of its state.  Where the code loops until it is
  done, termination is proved: the search for a free generation, by the operations above it, and the search
  of a path, by the nodes not seen and the queue.  A boundary title moves at most as often as there are
  boundaries, components and one more, which is the guard of the code and is proved to be enough.

  \<^bold>\<open>Not modelled.\<close>  Reading, writing and locking of files beyond the operations directory, the HTTP
  transport and the wall clock: these are answers given to the decisions, so leases may run out at any
  step.  The generated schema validators, the shortest text of a number, the URL parser of the
  platform, translated words and the catalogue of brand marks are arguments of the definitions; the
  comparison takes the parser of remotes as an argument, and its acceptance is shown on that of \<open>Remotes\<close>.
  Documents are modelled after their schema: on a collection that is no array or a boundary that is null
  the comparator throws a \<open>TypeError\<close>, which the model does not have.  The text
  of SVG, HTML and messages is not modelled, nor is the search for fixes that a diagnostic of the
  workflow compiler proposes (\<open>acceptsFix\<close> recompiles variants of the document; it changes the text of a
  refusal and never whether there is one).  A document in which a node has no numeric box is refused by
  the model as by the code, but the problems that follow from \<open>NaN\<close> coordinates are not listed.  A
  legend without room refuses a readable workflow before its first edge is routed; the code refuses it
  when the legend is first measured.  The probes that create a file to
  learn whether a directory ignores case, Windows paths, the browser checks and the brand-mark capture
  are input and output around these parts.
\<close>

end
